(* ===== verification/GoPrelude.thy ===== *)
theory GoPrelude
  imports Main
begin

text \<open>
  What the components share: the error values of the Go code and the shape of an operation
  that reads and writes a state and may return an error; the part of Go's \<open>strings\<close> and
  \<open>strconv\<close> packages the gateway uses, on byte strings (\<open>string\<close> is a list of bytes, as a
  Go string is); 64-bit integers; and the lemma collections the later theories extend.
\<close>

named_theorems op_simps \<open>unfolding of the operation combinators\<close>
named_theorems op_keeps \<open>introduction rules for operations that keep an invariant\<close>
named_theorems go_eval \<open>equations for evaluating the string functions on closed strings\<close>

section \<open>Errors and operations\<close>

text \<open>
  The sentinel errors of \<open>biz\<close> (\<open>errors.New\<close> in gateway.go, auth.go, errors.go), and the
  errors the database layer returns: a missing row (\<open>ent.IsNotFound\<close>), a violated unique
  index, a field rejected by ent's validators, and a failed statement. \<open>ErrText\<close> is an error
  made on the spot with \<open>errors.New\<close> or \<open>fmt.Errorf\<close>.
\<close>

datatype go_error =
    ErrGatewayAPIKeyNotFound
  | ErrGatewayAPIKeyDisabled
  | ErrGatewayModelDisabled
  | ErrGatewayModelNotAllowed
  | ErrGatewayModelCatalogFixed
  | ErrGatewayRateLimited
  | ErrGatewayQuotaExceeded
  | ErrGatewayPolicyInvalid
  | ErrGatewayExportRange
  | ErrGatewayUpstreamModeInvalid
  | ErrGatewayAPIKeyRemarkInvalid
  | ErrGatewayModelContextInvalid
  | ErrGatewayReasoningInvalid
  | ErrForbidden
  | ErrBadParam
  | ErrNoPermission
  | ErrUserExists
  | ErrUserNotFound
  | ErrInvalidPassword
  | ErrUserDisabled
  | DBNotFound
  | DBConstraint string
  | DBValidation string
  | DBFailed
  | ErrText string

type_synonym 'a result = "go_error + 'a"

text \<open>An operation over a state: a result and the state it leaves, errors included.\<close>

type_synonym ('s, 'a) op = "'s \<Rightarrow> 'a result \<times> 's"

definition ok :: "'a \<Rightarrow> ('s, 'a) op" where
  "ok x s = (Inr x, s)"

definition fail :: "go_error \<Rightarrow> ('s, 'a) op" where
  "fail e s = (Inl e, s)"

definition bind_op :: "('s, 'a) op \<Rightarrow> ('a \<Rightarrow> ('s, 'b) op) \<Rightarrow> ('s, 'b) op" where
  "bind_op m f s = (case m s of (Inl e, s') \<Rightarrow> (Inl e, s') | (Inr x, s') \<Rightarrow> f x s')"

text \<open>\<open>try_op m f\<close> hands the outcome of \<open>m\<close>, error or value, to \<open>f\<close>: Go's \<open>x, err := m()\<close>.\<close>

definition try_op :: "('s, 'a) op \<Rightarrow> ('a result \<Rightarrow> ('s, 'b) op) \<Rightarrow> ('s, 'b) op" where
  "try_op m f s = (case m s of (r, s') \<Rightarrow> f r s')"

definition from_result :: "'a result \<Rightarrow> ('s, 'a) op" where
  "from_result r s = (r, s)"

text \<open>A loop whose body may return an error, which ends the loop.\<close>

fun for_each :: "('a \<Rightarrow> ('s, unit) op) \<Rightarrow> 'a list \<Rightarrow> ('s, unit) op" where
  "for_each f [] = ok ()"
| "for_each f (x # xs) = bind_op (f x) (\<lambda>_. for_each f xs)"

lemma ok_apply [simp, op_simps]: "ok x s = (Inr x, s)"
  by (simp add: ok_def)

lemma fail_apply [simp, op_simps]: "fail e s = (Inl e, s)"
  by (simp add: fail_def)

lemma from_result_apply [simp, op_simps]: "from_result r s = (r, s)"
  by (simp add: from_result_def)

lemma bind_op_Inr [simp]: "m s = (Inr x, s') \<Longrightarrow> bind_op m f s = f x s'"
  by (simp add: bind_op_def)

lemma bind_op_Inl [simp]: "m s = (Inl e, s') \<Longrightarrow> bind_op m f s = (Inl e, s')"
  by (simp add: bind_op_def)

lemma bind_op_ok [simp]: "bind_op (ok x) f s = f x s"
  by (simp add: bind_op_def)

lemma bind_op_fail [simp]: "bind_op (fail e) f s = (Inl e, s)"
  by (simp add: bind_op_def)

lemma bind_from_result_simps [simp]:
  "bind_op (from_result (Inr x)) f s = f x s"
  "bind_op (from_result (Inl e)) f s = (Inl e, s)"
  by (simp_all add: bind_op_def)

lemma try_op_apply: "m s = (r, s') \<Longrightarrow> try_op m f s = f r s'"
  by (simp add: try_op_def)

lemma bind_op_InrE:
  assumes "bind_op m f s = (Inr y, t)"
  obtains x s' where "m s = (Inr x, s')" "f x s' = (Inr y, t)"
  using assms by (auto simp: bind_op_def split: prod.splits sum.splits)

lemma bind_op_cases:
  assumes "bind_op m f s = (r, t)"
  obtains (error) e where "m s = (Inl e, t)" "r = Inl e"
  | (normal) x s' where "m s = (Inr x, s')" "f x s' = (r, t)"
  using assms by (auto simp: bind_op_def split: prod.splits sum.splits)

subsection \<open>Operations that keep an invariant\<close>

text \<open>
  \<open>keeps P m\<close>: whatever \<open>m\<close> returns, error or value, it leaves the invariant \<open>P\<close> true. The
  rules follow the combinators, so an operation built from them keeps what its parts keep.
\<close>

definition keeps :: "('s \<Rightarrow> bool) \<Rightarrow> ('s, 'a) op \<Rightarrow> bool" where
  "keeps P m \<longleftrightarrow> (\<forall>s. P s \<longrightarrow> P (snd (m s)))"

lemma keepsI: "(\<And>s r t. P s \<Longrightarrow> m s = (r, t) \<Longrightarrow> P t) \<Longrightarrow> keeps P m"
  unfolding keeps_def by (metis prod.collapse)

lemma keepsD: "keeps P m \<Longrightarrow> P s \<Longrightarrow> m s = (r, t) \<Longrightarrow> P t"
  unfolding keeps_def by (metis snd_conv)

lemma keeps_sndD: "keeps P m \<Longrightarrow> P s \<Longrightarrow> P (snd (m s))"
  by (simp add: keeps_def)

lemma keeps_ok [op_keeps]: "keeps P (ok x)"
  by (simp add: keeps_def)

lemma keeps_fail [op_keeps]: "keeps P (fail e)"
  by (simp add: keeps_def)

lemma keeps_from_result [op_keeps]: "keeps P (from_result r)"
  by (simp add: keeps_def)

lemma keeps_bind_op [op_keeps]:
  "keeps P m \<Longrightarrow> (\<And>x. keeps P (f x)) \<Longrightarrow> keeps P (bind_op m f)"
  unfolding keeps_def bind_op_def by (auto split: prod.splits sum.splits)

text \<open>After a pure step that may fail, its value is known.\<close>

lemma keeps_bind_result:
  "(\<And>x. r = Inr x \<Longrightarrow> keeps P (f x)) \<Longrightarrow> keeps P (bind_op (from_result r) f)"
  unfolding keeps_def bind_op_def by (cases r) auto

lemma keeps_bind_known:
  "keeps P m \<Longrightarrow> (\<And>s x t. m s = (Inr x, t) \<Longrightarrow> Q x) \<Longrightarrow> (\<And>x. Q x \<Longrightarrow> keeps P (f x)) \<Longrightarrow>
   keeps P (bind_op m f)"
  unfolding keeps_def bind_op_def by (fastforce split: prod.splits sum.splits)

lemma keeps_try_op [op_keeps]:
  "keeps P m \<Longrightarrow> (\<And>x. keeps P (f x)) \<Longrightarrow> keeps P (try_op m f)"
  unfolding keeps_def try_op_def by (auto split: prod.splits)

lemma keeps_if [op_keeps]:
  "(b \<Longrightarrow> keeps P m) \<Longrightarrow> (\<not> b \<Longrightarrow> keeps P n) \<Longrightarrow> keeps P (if b then m else n)"
  by simp

lemma keeps_case_option [op_keeps]:
  "(x = None \<Longrightarrow> keeps P m) \<Longrightarrow> (\<And>y. x = Some y \<Longrightarrow> keeps P (f y)) \<Longrightarrow>
   keeps P (case x of None \<Rightarrow> m | Some y \<Rightarrow> f y)"
  by (cases x) simp_all

lemma keeps_case_sum [op_keeps]:
  "(\<And>e. x = Inl e \<Longrightarrow> keeps P (g e)) \<Longrightarrow> (\<And>y. x = Inr y \<Longrightarrow> keeps P (f y)) \<Longrightarrow>
   keeps P (case x of Inl e \<Rightarrow> g e | Inr y \<Rightarrow> f y)"
  by (cases x) simp_all

lemma keeps_case_prod [op_keeps]:
  "(\<And>a b. x = (a, b) \<Longrightarrow> keeps P (f a b)) \<Longrightarrow> keeps P (case x of (a, b) \<Rightarrow> f a b)"
  by (cases x) simp

lemma keeps_Let [op_keeps]: "(\<And>x. x = v \<Longrightarrow> keeps P (f x)) \<Longrightarrow> keeps P (let x = v in f x)"
  by (simp add: Let_def)

lemma keeps_for_each [op_keeps]:
  "(\<And>x. x \<in> set xs \<Longrightarrow> keeps P (f x)) \<Longrightarrow> keeps P (for_each f xs)"
  by (induction xs) (auto intro!: op_keeps)

text \<open>An operation that only reads: it keeps every predicate of the state.\<close>

lemma keeps_eq_trans: "(\<And>v. keeps (\<lambda>s. f s = v) m) \<Longrightarrow> f (snd (m s)) = f s"
  by (simp add: keeps_def)

subsection \<open>Pre- and postconditions\<close>

text \<open>
  \<open>post P m Q\<close>: run in a state that satisfies \<open>P\<close>, the operation \<open>m\<close> returns a result and a
  state that satisfy \<open>Q\<close>.
\<close>

definition post :: "('s \<Rightarrow> bool) \<Rightarrow> ('s, 'a) op \<Rightarrow> ('a result \<Rightarrow> 's \<Rightarrow> bool) \<Rightarrow> bool" where
  "post P m Q \<longleftrightarrow> (\<forall>s. P s \<longrightarrow> Q (fst (m s)) (snd (m s)))"

text \<open>Split a postcondition into what holds on error and what holds on success.\<close>

definition either :: "(go_error \<Rightarrow> 's \<Rightarrow> bool) \<Rightarrow> ('a \<Rightarrow> 's \<Rightarrow> bool) \<Rightarrow> 'a result \<Rightarrow> 's \<Rightarrow> bool" where
  "either E N r s = (case r of Inl e \<Rightarrow> E e s | Inr x \<Rightarrow> N x s)"

lemma either_simps [simp]: "either E N (Inl e) s = E e s" "either E N (Inr x) s = N x s"
  by (simp_all add: either_def)

lemma postI: "(\<And>s r t. P s \<Longrightarrow> m s = (r, t) \<Longrightarrow> Q r t) \<Longrightarrow> post P m Q"
  by (simp add: post_def)

lemma postD: "post P m Q \<Longrightarrow> P s \<Longrightarrow> m s = (r, t) \<Longrightarrow> Q r t"
  by (auto simp: post_def)

lemma post_weaken: "post P m Q \<Longrightarrow> (\<And>s. P' s \<Longrightarrow> P s) \<Longrightarrow> (\<And>r s. Q r s \<Longrightarrow> Q' r s) \<Longrightarrow> post P' m Q'"
  by (simp add: post_def)

lemma post_ok: "(\<And>s. P s \<Longrightarrow> Q (Inr x) s) \<Longrightarrow> post P (ok x) Q"
  by (simp add: post_def)

lemma post_fail: "(\<And>s. P s \<Longrightarrow> Q (Inl e) s) \<Longrightarrow> post P (fail e) Q"
  by (simp add: post_def)

lemma post_bind:
  assumes "post P m (either E M)" and "\<And>e s. E e s \<Longrightarrow> Q (Inl e) s" and "\<And>x. post (M x) (f x) Q"
  shows "post P (bind_op m f) Q"
  unfolding post_def
proof (intro allI impI)
  fix s assume P: "P s"
  obtain r t where m: "m s = (r, t)" by fastforce
  then have "either E M r t" using postD [OF assms(1) P] by blast
  then show "Q (fst (bind_op m f s)) (snd (bind_op m f s))"
    using m assms(2,3) by (cases r) (auto simp: bind_op_def post_def)
qed

lemma post_try:
  assumes "post P m M" and "\<And>r. post (M r) (f r) Q"
  shows "post P (try_op m f) Q"
  unfolding post_def
proof (intro allI impI)
  fix s assume "P s"
  obtain r t where m: "m s = (r, t)" by fastforce
  then have "M r t" using postD [OF assms(1) \<open>P s\<close>] by blast
  then show "Q (fst (try_op m f s)) (snd (try_op m f s))"
    using m assms(2) by (simp add: try_op_def post_def)
qed

lemma post_if: "(b \<Longrightarrow> post P m Q) \<Longrightarrow> (\<not> b \<Longrightarrow> post P n Q) \<Longrightarrow> post P (if b then m else n) Q"
  by simp

lemma keeps_conj: "keeps P m \<Longrightarrow> keeps Q m \<Longrightarrow> keeps (\<lambda>s. P s \<and> Q s) m"
  by (simp add: keeps_def)

lemma post_Let: "(\<And>x. x = v \<Longrightarrow> post P (f x) Q) \<Longrightarrow> post P (let x = v in f x) Q"
  by (simp add: Let_def)

lemma post_for_each_from:
  assumes "\<And>ys x zs. xs = ys @ x # zs \<Longrightarrow> post (I (pre @ ys)) (f x) (either E (\<lambda>_. I (pre @ ys @ [x])))"
  shows "post (I pre) (for_each f xs) (either E (\<lambda>_. I (pre @ xs)))"
  using assms
proof (induction xs arbitrary: pre)
  case Nil
  show ?case unfolding for_each.simps append_Nil2 by (rule post_ok) simp
next
  case (Cons x xs)
  have "post (I (pre @ [x])) (for_each f xs) (either E (\<lambda>_. I ((pre @ [x]) @ xs)))"
  proof (rule Cons.IH)
    fix ys y zs assume "xs = ys @ y # zs"
    then show "post (I ((pre @ [x]) @ ys)) (f y) (either E (\<lambda>_. I ((pre @ [x]) @ ys @ [y])))"
      using Cons.prems [of "x # ys" y zs] by simp
  qed
  then show ?case
    unfolding for_each.simps using Cons.prems [of "[]" x xs]
    by (intro post_bind [where E = E and M = "\<lambda>_. I (pre @ [x])"]) simp_all
qed

lemma post_for_each:
  assumes "\<And>ys x zs. xs = ys @ x # zs \<Longrightarrow> post (I ys) (f x) (either E (\<lambda>_. I (ys @ [x])))"
  shows "post (I []) (for_each f xs) (either E (\<lambda>_. I xs))"
  using post_for_each_from [of xs I "[]"] assms by simp

section \<open>64-bit integers\<close>

text \<open>
  Go's \<open>int\<close> and \<open>int64\<close> are \<open>int\<close> here; where the code does arithmetic on values it did not
  bound first, the result is wrapped to 64-bit two's complement.
\<close>

definition max_int64 :: int where "max_int64 = 9223372036854775807"
definition min_int64 :: int where "min_int64 = -9223372036854775808"

definition wrap64 :: "int \<Rightarrow> int" where
  "wrap64 x = (x + 9223372036854775808) mod 18446744073709551616 - 9223372036854775808"

lemma wrap64_id: "min_int64 \<le> x \<Longrightarrow> x \<le> max_int64 \<Longrightarrow> wrap64 x = x"
  by (simp add: wrap64_def min_int64_def max_int64_def)

lemma wrap64_range: "min_int64 \<le> wrap64 x \<and> wrap64 x \<le> max_int64"
proof -
  have "0 \<le> (x + 9223372036854775808) mod 18446744073709551616"
    and "(x + 9223372036854775808) mod 18446744073709551616 < 18446744073709551616"
    by simp_all
  then show ?thesis
    unfolding wrap64_def min_int64_def max_int64_def by linarith
qed

end
