(* ===== verification/GoStrings.thy ===== *)
theory GoStrings
  imports GoPrelude
begin

text \<open>
  The part of Go's \<open>strings\<close> and \<open>strconv\<close> packages the gateway uses. A Go string is a
  sequence of bytes and so is a \<open>string\<close> here; white space is Unicode's, found by its UTF-8
  encoding, as \<open>strings.TrimSpace\<close> finds it. The equations for evaluation on closed strings
  are in \<open>go_eval\<close>.
\<close>

section \<open>Prefixes and substrings\<close>

fun strip_prefix :: "string \<Rightarrow> string \<Rightarrow> string option" where
  "strip_prefix [] s = Some s"
| "strip_prefix (p # ps) [] = None"
| "strip_prefix (p # ps) (c # cs) = (if p = c then strip_prefix ps cs else None)"

lemma strip_prefix_Some: "strip_prefix p s = Some r \<longleftrightarrow> s = p @ r"
  by (induction p s rule: strip_prefix.induct) auto

lemma strip_prefix_None: "strip_prefix p s = None \<longleftrightarrow> (\<forall>r. s \<noteq> p @ r)"
  by (metis strip_prefix_Some not_None_eq)

text \<open>\<open>strings.HasPrefix\<close>, \<open>strings.TrimPrefix\<close>, \<open>strings.Index\<close>, \<open>strings.Contains\<close>.\<close>

definition has_prefix :: "string \<Rightarrow> string \<Rightarrow> bool" where
  "has_prefix s p = (strip_prefix p s \<noteq> None)"

definition has_suffix :: "string \<Rightarrow> string \<Rightarrow> bool" where
  "has_suffix s p = has_prefix (rev s) (rev p)"

definition trim_prefix :: "string \<Rightarrow> string \<Rightarrow> string" where
  "trim_prefix s p = (case strip_prefix p s of None \<Rightarrow> s | Some r \<Rightarrow> r)"

fun index_of :: "string \<Rightarrow> string \<Rightarrow> nat option" where
  "index_of [] sub = (if sub = [] then Some 0 else None)"
| "index_of (c # cs) sub =
     (if has_prefix (c # cs) sub then Some 0 else map_option Suc (index_of cs sub))"

definition contains :: "string \<Rightarrow> string \<Rightarrow> bool" where
  "contains s sub = (index_of s sub \<noteq> None)"

lemma has_prefix_iff: "has_prefix s p \<longleftrightarrow> (\<exists>r. s = p @ r)"
  by (simp add: has_prefix_def strip_prefix_Some)

lemma has_prefix_append [simp]: "has_prefix (p @ r) p"
  by (simp add: has_prefix_iff)

lemma trim_prefix_append [simp]: "trim_prefix (p @ r) p = r"
  by (simp add: trim_prefix_def strip_prefix_Some [THEN iffD2])

lemma index_of_char_None: "index_of s [c] = None \<longleftrightarrow> c \<notin> set s"
  by (induction s) (auto simp: has_prefix_iff)

lemma index_of_char_append:
  "c \<notin> set p \<Longrightarrow> index_of (p @ c # r) [c] = Some (length p)"
  by (induction p) (auto simp: has_prefix_iff)

lemma index_of_char_Some:
  "index_of s [c] = Some n \<Longrightarrow> n < length s \<and> s ! n = c \<and> c \<notin> set (take n s)"
  by (induction s arbitrary: n) (auto simp: has_prefix_iff split: if_splits)

section \<open>White space\<close>

text \<open>
  The UTF-8 encodings of the code points with Unicode's property White\_Space, which is what
  \<open>unicode.IsSpace\<close> accepts.
\<close>

definition ws_runes :: "string list" where
  "ws_runes =
     [[CHR 0x09], [CHR 0x0A], [CHR 0x0B], [CHR 0x0C], [CHR 0x0D], [CHR 0x20],
      [CHR 0xC2, CHR 0x85], [CHR 0xC2, CHR 0xA0],
      [CHR 0xE1, CHR 0x9A, CHR 0x80],
      [CHR 0xE2, CHR 0x80, CHR 0x80], [CHR 0xE2, CHR 0x80, CHR 0x81],
      [CHR 0xE2, CHR 0x80, CHR 0x82], [CHR 0xE2, CHR 0x80, CHR 0x83],
      [CHR 0xE2, CHR 0x80, CHR 0x84], [CHR 0xE2, CHR 0x80, CHR 0x85],
      [CHR 0xE2, CHR 0x80, CHR 0x86], [CHR 0xE2, CHR 0x80, CHR 0x87],
      [CHR 0xE2, CHR 0x80, CHR 0x88], [CHR 0xE2, CHR 0x80, CHR 0x89],
      [CHR 0xE2, CHR 0x80, CHR 0x8A],
      [CHR 0xE2, CHR 0x80, CHR 0xA8], [CHR 0xE2, CHR 0x80, CHR 0xA9],
      [CHR 0xE2, CHR 0x80, CHR 0xAF], [CHR 0xE2, CHR 0x81, CHR 0x9F],
      [CHR 0xE3, CHR 0x80, CHR 0x80]]"

fun first_strip :: "string list \<Rightarrow> string \<Rightarrow> string option" where
  "first_strip [] s = None"
| "first_strip (w # ws) s =
     (case strip_prefix w s of Some r \<Rightarrow> Some r | None \<Rightarrow> first_strip ws s)"

lemma first_strip_Some: "first_strip ws s = Some r \<Longrightarrow> \<exists>w \<in> set ws. s = w @ r"
  by (induction ws) (auto simp: strip_prefix_Some split: option.splits)

lemma first_strip_None: "first_strip ws s = None \<longleftrightarrow> (\<forall>w \<in> set ws. \<forall>r. s \<noteq> w @ r)"
  by (induction ws) (auto simp: strip_prefix_Some strip_prefix_None split: option.splits)

text \<open>Remove runes of \<open>ws\<close> from the front as long as there is one.\<close>

function trim_front :: "string list \<Rightarrow> string \<Rightarrow> string" where
  "trim_front ws s =
     (case first_strip ws s of
        None \<Rightarrow> s
      | Some r \<Rightarrow> if length r < length s then trim_front ws r else s)"
  by pat_completeness auto
termination
  by (relation "measure (\<lambda>(ws, s). length s)") auto

declare trim_front.simps [simp del, go_eval]

lemma ws_runes_nonempty: "[] \<notin> set ws_runes"
  by (simp add: ws_runes_def)

definition rev_ws_runes :: "string list" where
  "rev_ws_runes = map rev ws_runes"

lemma rev_ws_runes_nonempty: "[] \<notin> set rev_ws_runes"
  using ws_runes_nonempty by (auto simp: rev_ws_runes_def)

definition TrimLeftSpace :: "string \<Rightarrow> string" where
  "TrimLeftSpace s = trim_front ws_runes s"

definition TrimRightSpace :: "string \<Rightarrow> string" where
  "TrimRightSpace s = rev (trim_front rev_ws_runes (rev s))"

text \<open>\<open>strings.TrimSpace\<close>.\<close>

definition TrimSpace :: "string \<Rightarrow> string" where
  "TrimSpace s = TrimRightSpace (TrimLeftSpace s)"

lemma trim_front_stop: "[] \<notin> set ws \<Longrightarrow> first_strip ws (trim_front ws s) = None"
proof (induction ws s rule: trim_front.induct)
  case (1 ws s)
  show ?case
  proof (cases "first_strip ws s")
    case None
    then show ?thesis by (simp add: trim_front.simps [of ws s])
  next
    case (Some r)
    then obtain w where "w \<in> set ws" "s = w @ r" using first_strip_Some by blast
    with "1.prems" have "length r < length s" by (cases w) auto
    with Some 1 show ?thesis by (simp add: trim_front.simps [of ws s])
  qed
qed

lemma trim_front_id: "first_strip ws s = None \<Longrightarrow> trim_front ws s = s"
  by (simp add: trim_front.simps)

lemma trim_front_suffix: "\<exists>p. s = p @ trim_front ws s"
proof (induction ws s rule: trim_front.induct)
  case (1 ws s)
  show ?case
  proof (cases "first_strip ws s")
    case None
    then show ?thesis by (simp add: trim_front.simps [of ws s])
  next
    case (Some r)
    then obtain w where s: "s = w @ r" using first_strip_Some by blast
    show ?thesis
    proof (cases "length r < length s")
      case True
      with Some have eq: "trim_front ws s = trim_front ws r"
        by (simp add: trim_front.simps [of ws s])
      from 1 Some True obtain p where "r = p @ trim_front ws r" by blast
      then have "s = (w @ p) @ trim_front ws s" unfolding eq append_assoc using s by simp
      then show ?thesis by blast
    next
      case False
      with Some show ?thesis by (simp add: trim_front.simps [of ws s])
    qed
  qed
qed

lemma TrimRightSpace_prefix: "\<exists>q. s = TrimRightSpace s @ q"
proof -
  obtain p where "rev s = p @ trim_front rev_ws_runes (rev s)"
    using trim_front_suffix by blast
  then have "s = rev (trim_front rev_ws_runes (rev s)) @ rev p"
    by (metis rev_append rev_rev_ident)
  then show ?thesis by (auto simp: TrimRightSpace_def)
qed

lemma TrimSpace_idem [simp]: "TrimSpace (TrimSpace s) = TrimSpace s"
proof -
  let ?t = "TrimLeftSpace s" and ?u = "TrimSpace s"
  obtain q where q: "?t = ?u @ q"
    using TrimRightSpace_prefix by (metis TrimSpace_def)
  have "first_strip ws_runes ?t = None"
    by (simp add: TrimLeftSpace_def trim_front_stop ws_runes_nonempty)
  then have "first_strip ws_runes ?u = None"
    unfolding first_strip_None by (metis q append_assoc)
  then have "TrimLeftSpace ?u = ?u"
    by (simp add: TrimLeftSpace_def trim_front_id)
  moreover have "TrimRightSpace ?u = ?u"
    unfolding TrimSpace_def TrimRightSpace_def
    by (simp add: trim_front_stop trim_front_id rev_ws_runes_nonempty)
  ultimately show ?thesis by (simp add: TrimSpace_def)
qed

lemma TrimSpace_infix: "\<exists>p q. s = p @ TrimSpace s @ q"
proof -
  obtain p where "s = p @ TrimLeftSpace s"
    using trim_front_suffix unfolding TrimLeftSpace_def by blast
  moreover obtain q where "TrimLeftSpace s = TrimSpace s @ q"
    using TrimRightSpace_prefix by (metis TrimSpace_def)
  ultimately show ?thesis by metis
qed

lemma length_TrimSpace_le: "length (TrimSpace s) \<le> length s"
  using TrimSpace_infix [of s] by (metis length_append le_add1 le_add2 le_trans)

lemma set_TrimSpace_subset: "set (TrimSpace s) \<subseteq> set s"
  using TrimSpace_infix [of s] by (metis Un_iff set_append subsetI)

text \<open>A string of printable ASCII bytes is its own trimming.\<close>

definition plain_char :: "char \<Rightarrow> bool" where
  "plain_char c \<longleftrightarrow> (\<forall>w \<in> set ws_runes. hd w \<noteq> c \<and> last w \<noteq> c)"

lemma TrimSpace_plain:
  assumes "\<forall>c \<in> set s. plain_char c"
  shows "TrimSpace s = s"
proof -
  have "first_strip ws_runes s = None"
    unfolding first_strip_None
  proof (intro ballI allI notI)
    fix w r assume w: "w \<in> set ws_runes" and s: "s = w @ r"
    with ws_runes_nonempty have "w \<noteq> []" by metis
    then have "hd w \<in> set s" using s by simp
    with assms w show False by (auto simp: plain_char_def)
  qed
  moreover have "first_strip rev_ws_runes (rev s) = None"
    unfolding first_strip_None
  proof (intro ballI allI notI)
    fix v r assume v: "v \<in> set rev_ws_runes" and s: "rev s = v @ r"
    from v obtain w where w: "w \<in> set ws_runes" "v = rev w" by (auto simp: rev_ws_runes_def)
    with ws_runes_nonempty have "w \<noteq> []" by metis
    moreover from s w have "s = rev r @ w" by (simp add: rev_swap)
    ultimately have "last w \<in> set s" by simp
    with assms w show False by (auto simp: plain_char_def)
  qed
  ultimately show ?thesis
    by (simp add: TrimSpace_def TrimLeftSpace_def TrimRightSpace_def trim_front_id)
qed

text \<open>A string that starts with such a byte is not all white space.\<close>

lemma trim_front_last:
  assumes "\<forall>w \<in> set ws. last w \<noteq> c"
  shows "trim_front ws (x @ [c]) \<noteq> []"
proof (induction "length x" arbitrary: x rule: less_induct)
  case less
  show ?case
  proof (cases "first_strip ws (x @ [c])")
    case None
    then show ?thesis by (simp add: trim_front_id)
  next
    case (Some r)
    then obtain w where w: "w \<in> set ws" "x @ [c] = w @ r" using first_strip_Some by blast
    show ?thesis
    proof (cases r rule: rev_cases)
      case Nil
      then have "last w = c" using w(2) by (metis append_Nil2 last_snoc)
      then show ?thesis using w(1) assms by blast
    next
      case (snoc x' c')
      then have *: "c' = c" "x = w @ x'" using w(2) by simp_all
      show ?thesis
      proof (cases "length r < length (x @ [c])")
        case True
        then have "trim_front ws (x @ [c]) = trim_front ws (x' @ [c])"
          using Some snoc * by (subst trim_front.simps) simp
        moreover have "length x' < length x" using True snoc * by simp
        ultimately show ?thesis using less by simp
      next
        case False
        then show ?thesis using Some by (subst trim_front.simps) simp
      qed
    qed
  qed
qed

lemma TrimSpace_Cons:
  assumes "plain_char c"
  shows "TrimSpace (c # s) \<noteq> []"
proof -
  have "first_strip ws_runes (c # s) = None"
    unfolding first_strip_None
  proof (intro ballI allI notI)
    fix w r assume w: "w \<in> set ws_runes" and cs: "c # s = w @ r"
    have "w \<noteq> []" using w ws_runes_nonempty by metis
    then have "hd w = c" using cs by (metis hd_append2 list.sel(1))
    then show False using assms w by (auto simp: plain_char_def)
  qed
  moreover have "\<forall>v \<in> set rev_ws_runes. last v \<noteq> c"
    using assms ws_runes_nonempty by (auto simp: rev_ws_runes_def plain_char_def last_rev)
  ultimately show ?thesis
    using trim_front_last [of rev_ws_runes c "rev s"]
    by (simp add: TrimSpace_def TrimLeftSpace_def TrimRightSpace_def trim_front_id)
qed

lemma TrimSpace_Nil [simp]: "TrimSpace [] = []"
  by (simp add: TrimSpace_plain)

section \<open>Letter case\<close>

definition lower_pairs :: "(char \<times> char) list" where
  "lower_pairs = zip ''ABCDEFGHIJKLMNOPQRSTUVWXYZ'' ''abcdefghijklmnopqrstuvwxyz''"

definition lower_byte :: "char \<Rightarrow> char" where
  "lower_byte c = (case map_of lower_pairs c of Some d \<Rightarrow> d | None \<Rightarrow> c)"

text \<open>
  \<open>strings.ToLower\<close>. Besides A to Z, two code points have an ASCII letter as lower case: the
  Kelvin sign (U+212A, to k) and the dotted capital I (U+0130, to i). Every other non-ASCII
  rune keeps its bytes here; its lower case is not ASCII, and the code compares lower-cased
  strings with ASCII literals only.
\<close>

function ToLower :: "string \<Rightarrow> string" where
  "ToLower [] = []"
| "ToLower (c # cs) =
     (case strip_prefix [CHR 0xE2, CHR 0x84, CHR 0xAA] (c # cs) of
        Some r \<Rightarrow> if length r < length (c # cs) then CHR ''k'' # ToLower r else []
      | None \<Rightarrow>
        (case strip_prefix [CHR 0xC4, CHR 0xB0] (c # cs) of
           Some r \<Rightarrow> if length r < length (c # cs) then CHR ''i'' # ToLower r else []
         | None \<Rightarrow> lower_byte c # ToLower cs))"
  by pat_completeness auto
termination
  by (relation "measure length") auto

declare ToLower.simps(2) [simp del, go_eval]

text \<open>
  \<open>strings.EqualFold\<close> with an ASCII string that has no k and no s: for those letters folding
  is comparison up to ASCII case.
\<close>

definition EqualFold :: "string \<Rightarrow> string \<Rightarrow> bool" where
  "EqualFold s t = (map lower_byte s = map lower_byte t)"

section \<open>Decimal numbers\<close>

definition decimal_digits :: string where
  "decimal_digits = ''0123456789''"

definition digit_char :: "nat \<Rightarrow> char" where
  "digit_char d = decimal_digits ! d"

definition digit_value :: "char \<Rightarrow> nat option" where
  "digit_value c = map_of (zip decimal_digits [0..<10]) c"

fun nat_digits :: "nat \<Rightarrow> string" where
  "nat_digits n = (if n < 10 then [digit_char n] else nat_digits (n div 10) @ [digit_char (n mod 10)])"

declare nat_digits.simps [simp del, go_eval]

text \<open>\<open>strconv.Itoa\<close> and \<open>fmt.Sprint\<close> of an integer.\<close>

definition Itoa :: "int \<Rightarrow> string" where
  "Itoa i = (if i < 0 then CHR ''-'' # nat_digits (nat (- i)) else nat_digits (nat i))"

fun parse_digits :: "nat \<Rightarrow> string \<Rightarrow> nat option" where
  "parse_digits acc [] = Some acc"
| "parse_digits acc (c # cs) =
     (case digit_value c of None \<Rightarrow> None | Some d \<Rightarrow> parse_digits (10 * acc + d) cs)"

text \<open>
  \<open>strconv.Atoi\<close> and \<open>strconv.ParseInt(s, 10, 64)\<close>: an optional sign, at least one digit,
  nothing else, and a value of 64 bits.
\<close>

definition parse_unsigned :: "string \<Rightarrow> nat option" where
  "parse_unsigned s = (if s = [] then None else parse_digits 0 s)"

definition parse_signed :: "string \<Rightarrow> int option" where
  "parse_signed s =
     (case s of
        [] \<Rightarrow> None
      | c # cs \<Rightarrow>
          if c = CHR ''-'' then map_option (\<lambda>n. - int n) (parse_unsigned cs)
          else if c = CHR ''+'' then map_option int (parse_unsigned cs)
          else map_option int (parse_unsigned s))"

definition ParseInt :: "string \<Rightarrow> int option" where
  "ParseInt s =
     (case parse_signed s of
        None \<Rightarrow> None
      | Some i \<Rightarrow> if min_int64 \<le> i \<and> i \<le> max_int64 then Some i else None)"

text \<open>
  The value \<open>n, _ := strconv.ParseInt(s, 10, 64)\<close>: zero on a syntax error, the nearest bound
  on a range error.
\<close>

definition ParseInt_value :: "string \<Rightarrow> int" where
  "ParseInt_value s =
     (case parse_signed s of
        None \<Rightarrow> 0
      | Some i \<Rightarrow> if i < min_int64 then min_int64 else if i > max_int64 then max_int64 else i)"

text \<open>The value \<open>b, _ := strconv.ParseBool(s)\<close>.\<close>

definition ParseBool_value :: "string \<Rightarrow> bool" where
  "ParseBool_value s = (s \<in> set [''1'', ''t'', ''T'', ''true'', ''TRUE'', ''True''])"

lemma digit_value_char: "d < 10 \<Longrightarrow> digit_value (digit_char d) = Some d"
proof -
  assume "d < 10"
  then have "d \<in> {0,1,2,3,4,5,6,7,8,9}" by auto
  then show ?thesis
    by (auto simp: digit_value_def digit_char_def decimal_digits_def upt_rec)
qed

lemma parse_digits_append:
  "parse_digits acc (s @ t) =
     (case parse_digits acc s of None \<Rightarrow> None | Some v \<Rightarrow> parse_digits v t)"
  by (induction acc s rule: parse_digits.induct) (auto split: option.splits)

lemma parse_nat_digits: "parse_digits 0 (nat_digits n) = Some n"
proof (induction n rule: nat_digits.induct)
  case (1 n)
  show ?case
  proof (cases "n < 10")
    case True
    then show ?thesis by (simp add: nat_digits.simps [of n] digit_value_char)
  next
    case False
    with 1 show ?thesis
      by (simp add: nat_digits.simps [of n] parse_digits_append digit_value_char)
  qed
qed

lemma nat_digits_nonempty [simp]: "nat_digits n \<noteq> []"
  by (subst nat_digits.simps) simp

lemma set_nat_digits: "set (nat_digits n) \<subseteq> set decimal_digits"
proof (induction n rule: nat_digits.induct)
  case (1 n)
  have len: "length decimal_digits = 10" by (simp add: decimal_digits_def)
  have "digit_char (n mod 10) \<in> set decimal_digits"
    unfolding digit_char_def by (rule nth_mem) (simp add: len)
  moreover have "n < 10 \<Longrightarrow> digit_char n \<in> set decimal_digits"
    unfolding digit_char_def by (rule nth_mem) (simp add: len)
  ultimately show ?case using 1 by (subst nat_digits.simps) auto
qed

lemma hd_nat_digits: "hd (nat_digits n) \<in> set decimal_digits"
  using set_nat_digits [of n] hd_in_set [OF nat_digits_nonempty] by blast

lemma ParseInt_Itoa: "min_int64 \<le> i \<Longrightarrow> i \<le> max_int64 \<Longrightarrow> ParseInt (Itoa i) = Some i"
proof -
  assume range: "min_int64 \<le> i" "i \<le> max_int64"
  show ?thesis
  proof (cases "i < 0")
    case True
    with range show ?thesis
      by (simp add: ParseInt_def parse_signed_def Itoa_def parse_unsigned_def parse_nat_digits)
  next
    case False
    obtain c cs where cs: "nat_digits (nat i) = c # cs"
      using nat_digits_nonempty by (metis neq_Nil_conv)
    have "c \<in> set decimal_digits" using hd_nat_digits [of "nat i"] cs by simp
    then have "c \<noteq> CHR ''-''" "c \<noteq> CHR ''+''" by (auto simp: decimal_digits_def)
    with range False cs parse_nat_digits [of "nat i"] show ?thesis
      by (simp add: ParseInt_def parse_signed_def Itoa_def parse_unsigned_def)
  qed
qed

section \<open>Lists of strings and identifiers\<close>

text \<open>
  The loop with a \<open>seen\<close> set that keeps the first occurrence of each element
  (normalizePositiveIDs, DeleteAPIKeys, normalizeStringList, normalizeAllowedCodexModels).
\<close>

fun keep_first :: "'a set \<Rightarrow> 'a list \<Rightarrow> 'a list" where
  "keep_first seen [] = []"
| "keep_first seen (x # xs) =
     (if x \<in> seen then keep_first seen xs else x # keep_first (insert x seen) xs)"

lemma set_keep_first: "set (keep_first seen xs) = set xs - seen"
  by (induction seen xs rule: keep_first.induct) auto

lemma distinct_keep_first: "distinct (keep_first seen xs)"
  by (induction seen xs rule: keep_first.induct) (auto simp: set_keep_first)

lemma keep_first_distinct: "distinct xs \<Longrightarrow> set xs \<inter> seen = {} \<Longrightarrow> keep_first seen xs = xs"
  by (induction seen xs rule: keep_first.induct) auto

text \<open>\<open>strings.Join\<close>.\<close>

fun join_with :: "string \<Rightarrow> string list \<Rightarrow> string" where
  "join_with sep [] = []"
| "join_with sep [x] = x"
| "join_with sep (x # y # xs) = x @ sep @ join_with sep (y # xs)"

lemmas string_eval =
  go_eval TrimSpace_def TrimLeftSpace_def TrimRightSpace_def ws_runes_def rev_ws_runes_def
  has_prefix_def has_suffix_def trim_prefix_def contains_def lower_byte_def lower_pairs_def
  EqualFold_def decimal_digits_def digit_char_def digit_value_def Itoa_def ParseInt_def parse_signed_def
  parse_unsigned_def

section \<open>Runes\<close>

text \<open>
  The width of the rune a byte string starts with, as Go decodes UTF-8: an invalid byte is a
  rune of width one. The bounds on the second byte exclude overlong forms, surrogates and
  numbers above U+10FFFF.
\<close>

definition byte_in :: "nat \<Rightarrow> nat \<Rightarrow> char \<Rightarrow> bool" where
  "byte_in lo hi c = (lo \<le> (of_char c :: nat) \<and> (of_char c :: nat) \<le> hi)"

definition second_byte_ok :: "char \<Rightarrow> char \<Rightarrow> bool" where
  "second_byte_ok a b =
     (if byte_in 0xE0 0xE0 a then byte_in 0xA0 0xBF b
      else if byte_in 0xED 0xED a then byte_in 0x80 0x9F b
      else if byte_in 0xF0 0xF0 a then byte_in 0x90 0xBF b
      else if byte_in 0xF4 0xF4 a then byte_in 0x80 0x8F b
      else byte_in 0x80 0xBF b)"

definition lead_width :: "char \<Rightarrow> nat" where
  "lead_width a =
     (if byte_in 0xC2 0xDF a then 2 else if byte_in 0xE0 0xEF a then 3 else if byte_in 0xF0 0xF4 a then 4 else 1)"

fun rune_width :: "string \<Rightarrow> nat" where
  "rune_width [] = 0"
| "rune_width (a # s) =
     (let n = lead_width a; follow = take (n - 1) s
      in if length follow = n - 1 \<and>
           (case follow of [] \<Rightarrow> True | b # bs \<Rightarrow> second_byte_ok a b \<and> list_all (byte_in 0x80 0xBF) bs)
         then n else 1)"

lemma rune_width_pos: "s \<noteq> '''' \<Longrightarrow> 0 < rune_width s"
  by (cases s) (simp_all add: Let_def lead_width_def)

text \<open>\<open>len([]rune(s))\<close>.\<close>

function rune_count :: "string \<Rightarrow> nat" where
  "rune_count s = (if s = '''' then 0 else Suc (rune_count (drop (rune_width s) s)))"
  by pat_completeness auto
termination by (relation "measure length") (simp_all add: rune_width_pos)

declare rune_count.simps [simp del]

lemma rune_count_le: "rune_count s \<le> length s"
proof (induction s rule: rune_count.induct)
  case (1 s)
  show ?case
  proof (cases "s = ''''")
    case False
    then have "rune_count (drop (rune_width s) s) \<le> length s - rune_width s" using 1 by simp
    moreover have "0 < rune_width s" "0 < length s" using False rune_width_pos by simp_all
    ultimately have "Suc (rune_count (drop (rune_width s) s)) \<le> length s" by linarith
    then show ?thesis using False by (simp add: rune_count.simps [of s])
  qed (simp add: rune_count.simps)
qed

lemma rune_count_pos: "s \<noteq> '''' \<Longrightarrow> 0 < rune_count s"
  by (simp add: rune_count.simps [of s])

end
