(* ===== verification/Json.thy ===== *)
theory Json
  imports GoStrings Complex_Main "HOL-Library.AList" "HOL-Library.List_Lexorder" "HOL-Library.Char_ord"
begin

text \<open>
  Go's \<open>encoding/json\<close> as the gateway uses it: \<open>json.Unmarshal\<close> of a byte string into
  \<open>any\<close> or \<open>map[string]any\<close> and \<open>json.Marshal\<close> of such a value. Objects are association lists
  with distinct keys. Numbers are the float64 nearest to the literal, as a rational; a literal
  out of the range of float64 is an error.
\<close>

datatype json =
    JNull
  | JBool bool
  | JNum rat
  | JStr string
  | JArr "json list"
  | JObj "(string \<times> json) list"

type_synonym obj = "(string \<times> json) list"

section \<open>Numbers\<close>

function bit_length :: "int \<Rightarrow> int" where
  "bit_length n = (if n \<le> 0 then 0 else bit_length (n div 2) + 1)"
  by pat_completeness auto
termination by (relation "measure nat") auto

declare bit_length.simps [simp del, go_eval]

definition two_to :: "int \<Rightarrow> rat" where
  "two_to e = (if 0 \<le> e then 2 ^ nat e else 1 / 2 ^ nat (- e))"

definition half_even :: "rat \<Rightarrow> int" where
  "half_even q =
     (let n = \<lfloor>q\<rfloor>; d = q - of_int n
      in if d < 1 / 2 then n else if 1 / 2 < d then n + 1 else if even n then n else n + 1)"

text \<open>The unit in the last place of the float64 nearest to \<open>q > 0\<close>.\<close>

definition unit_exp :: "rat \<Rightarrow> int" where
  "unit_exp q =
     (let (a, b) = quotient_of q;
          e = bit_length a - bit_length b - 53;
          u = (if 2 ^ 53 \<le> q / two_to e then e + 1 else e)
      in max u (- 1074))"

text \<open>
  Integers up to \<open>2\<^sup>5\<^sup>3\<close> are float64 values; otherwise the mantissa is rounded to even, and a
  value of \<open>2\<^sup>1\<^sup>0\<^sup>2\<^sup>4\<close> or more is out of range.
\<close>

definition round_float64 :: "rat \<Rightarrow> rat option" where
  "round_float64 q =
     (if q = of_int \<lfloor>q\<rfloor> \<and> \<bar>q\<bar> \<le> 9007199254740992 then Some q
      else let u = unit_exp \<bar>q\<bar>; n = half_even (\<bar>q\<bar> / two_to u); v = of_int n * two_to u
           in if 971 < u \<or> (u = 971 \<and> 9007199254740992 \<le> n) then None
              else Some (if q < 0 then - v else v))"

definition is_digit :: "char \<Rightarrow> bool" where
  "is_digit c = byte_in 0x30 0x39 c"

definition digits_value :: "string \<Rightarrow> int" where
  "digits_value ds = foldl (\<lambda>acc c. 10 * acc + (of_char c - 0x30)) 0 ds"

definition ten_to :: "int \<Rightarrow> rat" where
  "ten_to e = (if 0 \<le> e then 10 ^ nat e else 1 / 10 ^ nat (- e))"

text \<open>The parts of a number literal after the sign: integer, fraction and exponent.\<close>

definition parse_fraction :: "string \<Rightarrow> (string \<times> string) option" where
  "parse_fraction r =
     (case r of
        c # r' \<Rightarrow>
          if c = CHR ''.''
          then let ds = takeWhile is_digit r' in if ds = [] then None else Some (ds, dropWhile is_digit r')
          else Some ([], r)
      | [] \<Rightarrow> Some ([], r))"

definition parse_exponent :: "string \<Rightarrow> (int \<times> string) option" where
  "parse_exponent r =
     (case r of
        c # r' \<Rightarrow>
          if c = CHR ''e'' \<or> c = CHR ''E''
          then let (minus, r'') = (case r' of s # t \<Rightarrow> if s = CHR ''-'' then (True, t)
                                     else if s = CHR ''+'' then (False, t) else (False, r') | [] \<Rightarrow> (False, r'));
                   ds = takeWhile is_digit r''; n = digits_value ds
               in if ds = [] then None else Some (if minus then - n else n, dropWhile is_digit r'')
          else Some (0, r)
      | [] \<Rightarrow> Some (0, r))"

definition parse_magnitude :: "string \<Rightarrow> (rat \<times> string) option" where
  "parse_magnitude r =
     (let digits = takeWhile is_digit r;
          ip = (case digits of c # _ \<Rightarrow> if c = CHR ''0'' then [c] else digits | [] \<Rightarrow> [])
      in if ip = [] then None
         else case parse_fraction (drop (length ip) r) of
                None \<Rightarrow> None
              | Some (fp, r1) \<Rightarrow>
                  map_option (\<lambda>(e, r2). (of_int (digits_value (ip @ fp)) * ten_to (e - int (length fp)), r2))
                    (parse_exponent r1))"

definition parse_number :: "string \<Rightarrow> (rat \<times> string) option" where
  "parse_number cs =
     (let (minus, r) = (case cs of c # r \<Rightarrow> if c = CHR ''-'' then (True, r) else (False, cs) | [] \<Rightarrow> (False, cs))
      in case parse_magnitude r of
           None \<Rightarrow> None
         | Some (q, rest) \<Rightarrow> map_option (\<lambda>v. (v, rest)) (round_float64 (if minus then - q else q)))"

section \<open>Strings\<close>

definition hex_value :: "char \<Rightarrow> nat option" where
  "hex_value c =
     (if byte_in 0x30 0x39 c then Some (of_char c - 0x30)
      else if byte_in 0x41 0x46 c then Some (of_char c - 0x37)
      else if byte_in 0x61 0x66 c then Some (of_char c - 0x57)
      else None)"

definition parse_hex4 :: "string \<Rightarrow> (nat \<times> string) option" where
  "parse_hex4 s =
     (case s of
        a # b # c # d # r \<Rightarrow>
          (case (hex_value a, hex_value b, hex_value c, hex_value d) of
             (Some i, Some j, Some k, Some l) \<Rightarrow> Some (((i * 16 + j) * 16 + k) * 16 + l, r)
           | _ \<Rightarrow> None)
      | _ \<Rightarrow> None)"

definition byte_of :: "nat \<Rightarrow> char" where
  "byte_of n = char_of n"

definition utf8_encode :: "nat \<Rightarrow> string" where
  "utf8_encode r =
     (if r < 0x80 then [byte_of r]
      else if r < 0x800 then [byte_of (0xC0 + r div 0x40), byte_of (0x80 + r mod 0x40)]
      else if r < 0x10000 then
        [byte_of (0xE0 + r div 0x1000), byte_of (0x80 + r div 0x40 mod 0x40), byte_of (0x80 + r mod 0x40)]
      else [byte_of (0xF0 + r div 0x40000), byte_of (0x80 + r div 0x1000 mod 0x40),
            byte_of (0x80 + r div 0x40 mod 0x40), byte_of (0x80 + r mod 0x40)])"

definition replacement :: string where
  "replacement = utf8_encode 0xFFFD"

definition simple_escape :: "char \<Rightarrow> char option" where
  "simple_escape c =
     map_of [(CHR 0x22, CHR 0x22), (CHR 0x5C, CHR 0x5C), (CHR ''/'', CHR ''/''), (CHR ''b'', CHR 0x08),
             (CHR ''f'', CHR 0x0C), (CHR ''n'', CHR 0x0A), (CHR ''r'', CHR 0x0D), (CHR ''t'', CHR 0x09)] c"

text \<open>
  The escape \<open>\u\<close> with its digits read: a high surrogate takes a following escaped low one; any
  other surrogate becomes U+FFFD.
\<close>

definition unicode_escape :: "nat \<Rightarrow> string \<Rightarrow> string \<times> string" where
  "unicode_escape u r =
     (if u < 0xD800 \<or> 0xE000 \<le> u then (utf8_encode u, r)
      else case r of
             b # c # r' \<Rightarrow>
               if b = CHR 0x5C \<and> c = CHR ''u'' then
                 (case parse_hex4 r' of
                    Some (v, r'') \<Rightarrow>
                      if u < 0xDC00 \<and> 0xDC00 \<le> v \<and> v < 0xE000
                      then (utf8_encode (0x10000 + (u - 0xD800) * 0x400 + (v - 0xDC00)), r'')
                      else (replacement, r)
                  | None \<Rightarrow> (replacement, r))
               else (replacement, r)
           | _ \<Rightarrow> (replacement, r))"

text \<open>The rest of a string literal, after its opening quote; the fuel bounds its length.\<close>

fun parse_chars :: "nat \<Rightarrow> string \<Rightarrow> (string \<times> string) option" where
  "parse_chars 0 s = None"
| "parse_chars (Suc n) [] = None"
| "parse_chars (Suc n) (c # r) =
     (if c = CHR 0x22 then Some ([], r)
      else if c = CHR 0x5C then
        (case r of
           [] \<Rightarrow> None
         | e # r1 \<Rightarrow>
             if e = CHR ''u'' then
               (case parse_hex4 r1 of
                  None \<Rightarrow> None
                | Some (u, r2) \<Rightarrow>
                    (case unicode_escape u r2 of (bytes, r3) \<Rightarrow> map_option (apfst ((@) bytes)) (parse_chars n r3)))
             else (case simple_escape e of
                     None \<Rightarrow> None
                   | Some b \<Rightarrow> map_option (apfst (Cons b)) (parse_chars n r1)))
      else if (of_char c :: nat) < 0x20 then None
      else if (of_char c :: nat) < 0x80 then map_option (apfst (Cons c)) (parse_chars n r)
      else let w = rune_width (c # r); bytes = (if w = 1 then replacement else take w (c # r))
           in map_option (apfst ((@) bytes)) (parse_chars n (drop w (c # r))))"

section \<open>Values\<close>

definition is_space :: "char \<Rightarrow> bool" where
  "is_space c = (c = CHR '' '' \<or> c = CHR 0x09 \<or> c = CHR 0x0A \<or> c = CHR 0x0D)"

definition skip_space :: "string \<Rightarrow> string" where
  "skip_space = dropWhile is_space"

definition max_nesting :: nat where
  "max_nesting = 10000"

fun parse_value :: "nat \<Rightarrow> nat \<Rightarrow> string \<Rightarrow> (json \<times> string) option"
  and parse_elements :: "nat \<Rightarrow> nat \<Rightarrow> string \<Rightarrow> (json list \<times> string) option"
  and parse_members :: "nat \<Rightarrow> nat \<Rightarrow> obj \<Rightarrow> string \<Rightarrow> (obj \<times> string) option" where
  "parse_value 0 d s = None"
| "parse_value (Suc n) d s =
     (case skip_space s of
        [] \<Rightarrow> None
      | c # r \<Rightarrow>
          if c = CHR ''{'' then
            if max_nesting \<le> d then None
            else (case strip_prefix ''}'' (skip_space r) of
                    Some r' \<Rightarrow> Some (JObj [], r')
                  | None \<Rightarrow> map_option (apfst JObj) (parse_members n (Suc d) [] r))
          else if c = CHR ''['' then
            if max_nesting \<le> d then None
            else (case strip_prefix '']'' (skip_space r) of
                    Some r' \<Rightarrow> Some (JArr [], r')
                  | None \<Rightarrow> map_option (apfst JArr) (parse_elements n (Suc d) r))
          else if c = CHR 0x22 then map_option (apfst JStr) (parse_chars (Suc (length r)) r)
          else case strip_prefix ''null'' (c # r) of Some r' \<Rightarrow> Some (JNull, r')
          | None \<Rightarrow> (case strip_prefix ''true'' (c # r) of Some r' \<Rightarrow> Some (JBool True, r')
          | None \<Rightarrow> (case strip_prefix ''false'' (c # r) of Some r' \<Rightarrow> Some (JBool False, r')
          | None \<Rightarrow> map_option (apfst JNum) (parse_number (c # r)))))"
| "parse_elements 0 d s = None"
| "parse_elements (Suc n) d s =
     (case parse_value n d s of
        None \<Rightarrow> None
      | Some (v, r) \<Rightarrow>
          (case skip_space r of
             [] \<Rightarrow> None
           | c # r' \<Rightarrow>
               if c = CHR '']'' then Some ([v], r')
               else if c = CHR '','' then map_option (apfst (Cons v)) (parse_elements n d r')
               else None))"
| "parse_members 0 d m s = None"
| "parse_members (Suc n) d m s =
     (case strip_prefix [CHR 0x22] (skip_space s) of
        None \<Rightarrow> None
      | Some r \<Rightarrow>
          (case parse_chars (Suc (length r)) r of
             None \<Rightarrow> None
           | Some (k, r1) \<Rightarrow>
               (case strip_prefix '':'' (skip_space r1) of
                  None \<Rightarrow> None
                | Some r2 \<Rightarrow>
                    (case parse_value n d r2 of
                       None \<Rightarrow> None
                     | Some (v, r3) \<Rightarrow>
                         (case skip_space r3 of
                            [] \<Rightarrow> None
                          | c # r4 \<Rightarrow>
                              if c = CHR ''}'' then Some (AList.update k v m, r4)
                              else if c = CHR '','' then parse_members n d (AList.update k v m) r4
                              else None)))))"

text \<open>\<open>json.Unmarshal\<close> into \<open>any\<close> and into \<open>map[string]any\<close>; \<open>None\<close> is an error.\<close>

definition json_decode :: "string \<Rightarrow> json option" where
  "json_decode s =
     (case parse_value (2 * length s + 2) 0 s of
        None \<Rightarrow> None
      | Some (v, r) \<Rightarrow> if skip_space r = [] then Some v else None)"

definition decode_object :: "string \<Rightarrow> obj option" where
  "decode_object s =
     (case json_decode s of
        Some (JObj m) \<Rightarrow> Some m
      | Some JNull \<Rightarrow> Some []
      | _ \<Rightarrow> None)"

section \<open>Encoding\<close>

definition escape_char :: "char \<Rightarrow> string" where
  "escape_char c =
     (if c = CHR 0x22 \<or> c = CHR 0x5C then [CHR 0x5C, c]
      else if c = CHR 0x08 then [CHR 0x5C, CHR ''b'']
      else if c = CHR 0x0C then [CHR 0x5C, CHR ''f'']
      else if c = CHR 0x0A then [CHR 0x5C, CHR ''n'']
      else if c = CHR 0x0D then [CHR 0x5C, CHR ''r'']
      else if c = CHR 0x09 then [CHR 0x5C, CHR ''t'']
      else if (of_char c :: nat) < 0x20 \<or> c \<in> {CHR ''<'', CHR ''>'', CHR ''&''}
        then CHR 0x5C # ''u00'' @ [''0123456789abcdef'' ! (of_char c div 16), ''0123456789abcdef'' ! (of_char c mod 16)]
      else [c])"

fun escape_chars :: "nat \<Rightarrow> string \<Rightarrow> string" where
  "escape_chars 0 s = []"
| "escape_chars (Suc n) [] = []"
| "escape_chars (Suc n) (c # r) =
     (if (of_char c :: nat) < 0x80 then escape_char c @ escape_chars n r
      else let w = rune_width (c # r); bytes = take w (c # r)
           in (if w = 1 then CHR 0x5C # ''ufffd''
               else if bytes = [CHR 0xE2, CHR 0x80, CHR 0xA8] then CHR 0x5C # ''u2028''
               else if bytes = [CHR 0xE2, CHR 0x80, CHR 0xA9] then CHR 0x5C # ''u2029''
               else bytes) @ escape_chars n (drop w (c # r)))"

definition encode_string :: "string \<Rightarrow> string" where
  "encode_string s = CHR 0x22 # escape_chars (length s) s @ [CHR 0x22]"

text \<open>
  \<open>json.Marshal\<close>: the members of an object in the order of their keys. How a float64 that is
  not integral or is large is printed is the argument \<open>fmt_float\<close>.
\<close>

definition encode_number :: "(rat \<Rightarrow> string) \<Rightarrow> rat \<Rightarrow> string" where
  "encode_number fmt_float q =
     (if q = of_int \<lfloor>q\<rfloor> \<and> \<bar>q\<bar> < 10 ^ 21 then Itoa \<lfloor>q\<rfloor> else fmt_float q)"

fun comma_join :: "string list \<Rightarrow> string" where
  "comma_join [] = []"
| "comma_join [x] = x"
| "comma_join (x # xs) = x @ CHR '','' # comma_join xs"

fun json_encode :: "(rat \<Rightarrow> string) \<Rightarrow> json \<Rightarrow> string" where
  "json_encode f JNull = ''null''"
| "json_encode f (JBool b) = (if b then ''true'' else ''false'')"
| "json_encode f (JNum q) = encode_number f q"
| "json_encode f (JStr s) = encode_string s"
| "json_encode f (JArr vs) = CHR ''['' # comma_join (map (json_encode f) vs) @ '']''"
| "json_encode f (JObj m) =
     CHR ''{'' #
     comma_join (map snd (sort_key fst (map (\<lambda>(k, v). (k, encode_string k @ CHR '':'' # json_encode f v)) m))) @ ''}''"

section \<open>Reading values\<close>

text \<open>\<open>m[k]\<close>, nil where the key is missing or the map is nil.\<close>

definition field :: "obj \<Rightarrow> string \<Rightarrow> json" where
  "field m k = (case map_of m k of None \<Rightarrow> JNull | Some v \<Rightarrow> v)"

text \<open>\<open>mapValue\<close>: a map or nil; reading a nil map gives nil.\<close>

definition mapValue :: "json \<Rightarrow> obj option" where
  "mapValue v = (case v of JObj m \<Rightarrow> Some m | _ \<Rightarrow> None)"

definition nil_map :: "obj option \<Rightarrow> obj" where
  "nil_map m = (case m of None \<Rightarrow> [] | Some x \<Rightarrow> x)"

definition stringValue :: "json \<Rightarrow> string" where
  "stringValue v = (case v of JStr s \<Rightarrow> TrimSpace s | _ \<Rightarrow> '''')"

definition listValue :: "json \<Rightarrow> json list" where
  "listValue v = (case v of JArr xs \<Rightarrow> xs | _ \<Rightarrow> [])"

text \<open>Go's conversion of a float64 to int64; out of range it is the least int64 (amd64).\<close>

definition float_to_int64 :: "rat \<Rightarrow> int" where
  "float_to_int64 q =
     (let i = (if q < 0 then - \<lfloor>- q\<rfloor> else \<lfloor>q\<rfloor>)
      in if min_int64 \<le> i \<and> i \<le> max_int64 then i else min_int64)"

definition int64Value :: "json \<Rightarrow> int" where
  "int64Value v =
     (case v of
        JNum q \<Rightarrow> float_to_int64 q
      | JStr s \<Rightarrow> ParseInt_value (TrimSpace s)
      | _ \<Rightarrow> 0)"

definition firstStringValue :: "obj \<Rightarrow> string list \<Rightarrow> string" where
  "firstStringValue m ks =
     (case filter (\<lambda>t. t \<noteq> '''') (map (\<lambda>k. stringValue (field m k)) ks) of t # _ \<Rightarrow> t | [] \<Rightarrow> '''')"

section \<open>Texts in the model\<close>

text \<open>Bytes written in hexadecimal, for texts that are not ASCII.\<close>

fun from_hex :: "string \<Rightarrow> string" where
  "from_hex (a # b # r) =
     (case (hex_value a, hex_value b) of (Some i, Some j) \<Rightarrow> byte_of (i * 16 + j) # from_hex r | _ \<Rightarrow> [])"
| "from_hex _ = []"

text \<open>JSON text in an example, with the quotes written as tildes.\<close>

definition tilde_quotes :: "string \<Rightarrow> string" where
  "tilde_quotes s = map (\<lambda>c. if c = CHR ''~'' then CHR 0x22 else c) s"

end
