(* ===== verification/Catalog.thy ===== *)
theory Catalog
  imports GoStrings Complex_Main
begin

text \<open>
  The fixed catalogue of Codex models with their context windows, reasoning efforts and prices
  (internal/biz/official\_model\_prices.go), and the normalisation of the values that name an
  upstream mode, an upstream strategy, a reasoning effort or a client type
  (internal/biz/gateway.go). A price is a rational number: the rounding of float64 is not
  modelled. Go's map lookup of a missing key, which gives the zero value, is \<open>map_get\<close>.
  The process environment is an argument \<open>env\<close>, the function \<open>os.Getenv\<close> computes.
\<close>

section \<open>Modes, strategies, efforts, client types\<close>

definition GatewayUpstreamModeCodexBackend :: string where
  "GatewayUpstreamModeCodexBackend = ''codex_backend''"
definition GatewayUpstreamModeCodexCLI :: string where
  "GatewayUpstreamModeCodexCLI = ''codex_cli''"
definition GatewaySettingCodexUpstreamMode :: string where
  "GatewaySettingCodexUpstreamMode = ''codex_upstream_mode''"
definition GatewaySettingCodexFallback :: string where
  "GatewaySettingCodexFallback = ''codex_upstream_fallback_enabled''"
definition GatewaySettingDefaultReasoning :: string where
  "GatewaySettingDefaultReasoning = ''gateway_default_reasoning_effort''"
definition GatewayClientTypeCodex :: string where
  "GatewayClientTypeCodex = ''codex''"
definition GatewayClientTypeOpenCode :: string where
  "GatewayClientTypeOpenCode = ''opencode''"
definition GatewayClientTypeOther :: string where
  "GatewayClientTypeOther = ''other''"
definition GatewayUpstreamStrategyBackendOnly :: string where
  "GatewayUpstreamStrategyBackendOnly = ''backend_only''"
definition GatewayUpstreamStrategyBackendWithFallback :: string where
  "GatewayUpstreamStrategyBackendWithFallback = ''backend_with_cli_fallback''"
definition GatewayUpstreamStrategyCodexCLI :: string where
  "GatewayUpstreamStrategyCodexCLI = ''codex_cli''"
definition GatewayReasoningEffortNone :: string where
  "GatewayReasoningEffortNone = ''none''"
definition GatewayReasoningEffortLow :: string where
  "GatewayReasoningEffortLow = ''low''"
definition GatewayReasoningEffortMed :: string where
  "GatewayReasoningEffortMed = ''medium''"
definition GatewayReasoningEffortHigh :: string where
  "GatewayReasoningEffortHigh = ''high''"
definition GatewayReasoningEffortXHigh :: string where
  "GatewayReasoningEffortXHigh = ''xhigh''"
definition GatewayReasoningEffortMax :: string where
  "GatewayReasoningEffortMax = ''max''"

lemmas gateway_names =
  GatewayUpstreamModeCodexBackend_def GatewayUpstreamModeCodexCLI_def
  GatewaySettingCodexUpstreamMode_def GatewaySettingCodexFallback_def
  GatewaySettingDefaultReasoning_def GatewayClientTypeCodex_def GatewayClientTypeOpenCode_def
  GatewayClientTypeOther_def GatewayUpstreamStrategyBackendOnly_def
  GatewayUpstreamStrategyBackendWithFallback_def GatewayUpstreamStrategyCodexCLI_def
  GatewayReasoningEffortNone_def GatewayReasoningEffortLow_def GatewayReasoningEffortMed_def
  GatewayReasoningEffortHigh_def GatewayReasoningEffortXHigh_def GatewayReasoningEffortMax_def

text \<open>
  \<open>switch strings.ToLower(strings.TrimSpace(x))\<close> over a list of names, each of which is its
  own result.
\<close>

definition one_of :: "string list \<Rightarrow> string \<Rightarrow> string" where
  "one_of names x = (let v = ToLower (TrimSpace x) in if v \<in> set names then v else '''')"

definition NormalizeGatewayUpstreamMode :: "string \<Rightarrow> string" where
  "NormalizeGatewayUpstreamMode mode =
     one_of [GatewayUpstreamModeCodexCLI, GatewayUpstreamModeCodexBackend] mode"

definition DefaultGatewayUpstreamMode :: "(string \<Rightarrow> string) \<Rightarrow> string" where
  "DefaultGatewayUpstreamMode env =
     (let mode = NormalizeGatewayUpstreamMode (env ''CODEX_UPSTREAM_MODE'')
      in if mode \<noteq> '''' then mode else GatewayUpstreamModeCodexBackend)"

definition NormalizeGatewayUpstreamStrategy :: "string \<Rightarrow> string" where
  "NormalizeGatewayUpstreamStrategy strategy =
     one_of [GatewayUpstreamStrategyBackendOnly, GatewayUpstreamStrategyBackendWithFallback,
             GatewayUpstreamStrategyCodexCLI] strategy"

definition NormalizeGatewayAPIKeyUpstreamStrategy :: "string \<Rightarrow> string" where
  "NormalizeGatewayAPIKeyUpstreamStrategy strategy =
     (if TrimSpace strategy = '''' then '''' else NormalizeGatewayUpstreamStrategy strategy)"

definition NormalizeGatewayReasoningEffort :: "string \<Rightarrow> string" where
  "NormalizeGatewayReasoningEffort effort =
     one_of [GatewayReasoningEffortLow, GatewayReasoningEffortMed, GatewayReasoningEffortHigh,
             GatewayReasoningEffortXHigh, GatewayReasoningEffortMax] effort"

definition NormalizeGatewayClientType :: "string \<Rightarrow> string" where
  "NormalizeGatewayClientType v =
     one_of [GatewayClientTypeCodex, GatewayClientTypeOpenCode, GatewayClientTypeOther] v"

fun DetectGatewayClientType :: "string list \<Rightarrow> string" where
  "DetectGatewayClientType [] = GatewayClientTypeOther"
| "DetectGatewayClientType (v # vs) =
     (let normalized = NormalizeGatewayClientType v;
          lower = ToLower (TrimSpace v)
      in if normalized \<noteq> '''' then normalized
         else if lower = '''' then DetectGatewayClientType vs
         else if contains lower ''opencode'' \<or> contains lower ''open-code''
         then GatewayClientTypeOpenCode
         else if contains lower ''codex'' then GatewayClientTypeCodex
         else DetectGatewayClientType vs)"

definition NormalizeGatewayAPIKeyDefaultReasoningEffort :: "string \<Rightarrow> string" where
  "NormalizeGatewayAPIKeyDefaultReasoningEffort effort =
     (if TrimSpace effort = '''' then ''''
      else if EqualFold (TrimSpace effort) GatewayReasoningEffortNone then GatewayReasoningEffortNone
      else NormalizeGatewayReasoningEffort effort)"

definition GatewayUpstreamStrategy :: "string \<Rightarrow> bool \<Rightarrow> string" where
  "GatewayUpstreamStrategy mode0 fallbackEnabled =
     (let mode = NormalizeGatewayUpstreamMode mode0
      in if mode = GatewayUpstreamModeCodexCLI then GatewayUpstreamStrategyCodexCLI
         else if fallbackEnabled then GatewayUpstreamStrategyBackendWithFallback
         else GatewayUpstreamStrategyBackendOnly)"

definition parseGatewayBool :: "string \<Rightarrow> bool" where
  "parseGatewayBool v =
     (ToLower (TrimSpace v) \<in> set [''1'', ''true'', ''yes'', ''y'', ''on''])"

definition DefaultGatewayUpstreamFallbackEnabled :: "(string \<Rightarrow> string) \<Rightarrow> bool" where
  "DefaultGatewayUpstreamFallbackEnabled env = parseGatewayBool (env ''CODEX_UPSTREAM_FALLBACK_ENABLED'')"

definition formatGatewayBool :: "bool \<Rightarrow> string" where
  "formatGatewayBool v = (if v then ''true'' else ''false'')"

lemma one_of_range: "one_of names x \<in> insert '''' (set names)"
  by (simp add: one_of_def Let_def)

lemma one_of_fix: "ToLower (TrimSpace v) = v \<Longrightarrow> v \<in> set names \<Longrightarrow> one_of names v = v"
  by (simp add: one_of_def)

text \<open>The names are their own lower case and have no white space around them.\<close>

lemma gateway_names_fixed:
  "ToLower (TrimSpace GatewayUpstreamModeCodexBackend) = GatewayUpstreamModeCodexBackend"
  "ToLower (TrimSpace GatewayUpstreamModeCodexCLI) = GatewayUpstreamModeCodexCLI"
  "ToLower (TrimSpace GatewayUpstreamStrategyBackendOnly) = GatewayUpstreamStrategyBackendOnly"
  "ToLower (TrimSpace GatewayUpstreamStrategyBackendWithFallback) =
     GatewayUpstreamStrategyBackendWithFallback"
  "ToLower (TrimSpace GatewayReasoningEffortLow) = GatewayReasoningEffortLow"
  "ToLower (TrimSpace GatewayReasoningEffortMed) = GatewayReasoningEffortMed"
  "ToLower (TrimSpace GatewayReasoningEffortHigh) = GatewayReasoningEffortHigh"
  "ToLower (TrimSpace GatewayReasoningEffortXHigh) = GatewayReasoningEffortXHigh"
  "ToLower (TrimSpace GatewayReasoningEffortMax) = GatewayReasoningEffortMax"
  "ToLower (TrimSpace GatewayClientTypeCodex) = GatewayClientTypeCodex"
  "ToLower (TrimSpace GatewayClientTypeOpenCode) = GatewayClientTypeOpenCode"
  "ToLower (TrimSpace GatewayClientTypeOther) = GatewayClientTypeOther"
  by (simp_all add: gateway_names string_eval)

lemma NormalizeGatewayUpstreamMode_idem [simp]:
  "NormalizeGatewayUpstreamMode (NormalizeGatewayUpstreamMode m) = NormalizeGatewayUpstreamMode m"
  using one_of_range [of "[GatewayUpstreamModeCodexCLI, GatewayUpstreamModeCodexBackend]" m]
  by (auto simp: NormalizeGatewayUpstreamMode_def one_of_fix gateway_names_fixed)
    (simp add: one_of_def gateway_names)

lemma NormalizeGatewayReasoningEffort_idem [simp]:
  "NormalizeGatewayReasoningEffort (NormalizeGatewayReasoningEffort e) = NormalizeGatewayReasoningEffort e"
  using one_of_range [of "[GatewayReasoningEffortLow, GatewayReasoningEffortMed,
    GatewayReasoningEffortHigh, GatewayReasoningEffortXHigh, GatewayReasoningEffortMax]" e]
  by (auto simp: NormalizeGatewayReasoningEffort_def one_of_fix gateway_names_fixed)
    (simp add: one_of_def gateway_names)

lemma NormalizeGatewayReasoningEffort_range:
  "NormalizeGatewayReasoningEffort e \<in>
     {'''', GatewayReasoningEffortLow, GatewayReasoningEffortMed, GatewayReasoningEffortHigh,
      GatewayReasoningEffortXHigh, GatewayReasoningEffortMax}"
  using one_of_range [of "[GatewayReasoningEffortLow, GatewayReasoningEffortMed,
    GatewayReasoningEffortHigh, GatewayReasoningEffortXHigh, GatewayReasoningEffortMax]" e]
  by (simp add: NormalizeGatewayReasoningEffort_def)

lemma parse_format_bool [simp]: "parseGatewayBool (formatGatewayBool b) = b"
  by (cases b) (simp_all add: parseGatewayBool_def formatGatewayBool_def string_eval)

lemma NormalizeGatewayUpstreamMode_range:
  "NormalizeGatewayUpstreamMode m \<in> {'''', GatewayUpstreamModeCodexCLI, GatewayUpstreamModeCodexBackend}"
  using one_of_range [of "[GatewayUpstreamModeCodexCLI, GatewayUpstreamModeCodexBackend]" m]
  by (simp add: NormalizeGatewayUpstreamMode_def)

section \<open>The official models\<close>

definition DefaultCodexModelID :: string where
  "DefaultCodexModelID = ''gpt-5.6-sol''"

definition CodexModelIDs :: "string list" where
  "CodexModelIDs = [DefaultCodexModelID, ''gpt-5.6-terra'', ''gpt-5.6-luna'', ''gpt-5.5'']"

definition map_get :: "'b \<Rightarrow> (string \<times> 'b) list \<Rightarrow> string \<Rightarrow> 'b" where
  "map_get zero m k = (case map_of m k of None \<Rightarrow> zero | Some v \<Rightarrow> v)"

definition OfficialModelContextWindows :: "(string \<times> int) list" where
  "OfficialModelContextWindows =
     [(DefaultCodexModelID, 1050000), (''gpt-5.6-terra'', 1050000),
      (''gpt-5.6-luna'', 1050000), (''gpt-5.5'', 1050000)]"

definition OfficialModelDefaultReasoningEfforts :: "(string \<times> string) list" where
  "OfficialModelDefaultReasoningEfforts =
     [(DefaultCodexModelID, GatewayReasoningEffortLow), (''gpt-5.6-terra'', GatewayReasoningEffortMed),
      (''gpt-5.6-luna'', GatewayReasoningEffortMed), (''gpt-5.5'', GatewayReasoningEffortMed)]"

definition OfficialModelReasoningEfforts :: "(string \<times> string list) list" where
  "OfficialModelReasoningEfforts =
     [(DefaultCodexModelID,
        [GatewayReasoningEffortLow, GatewayReasoningEffortMed, GatewayReasoningEffortHigh,
         GatewayReasoningEffortXHigh, GatewayReasoningEffortMax]),
      (''gpt-5.6-terra'',
        [GatewayReasoningEffortLow, GatewayReasoningEffortMed, GatewayReasoningEffortHigh,
         GatewayReasoningEffortXHigh, GatewayReasoningEffortMax]),
      (''gpt-5.6-luna'',
        [GatewayReasoningEffortLow, GatewayReasoningEffortMed, GatewayReasoningEffortHigh,
         GatewayReasoningEffortXHigh, GatewayReasoningEffortMax]),
      (''gpt-5.5'',
        [GatewayReasoningEffortLow, GatewayReasoningEffortMed, GatewayReasoningEffortHigh,
         GatewayReasoningEffortXHigh])]"

record GatewayModelPrice =
  pr_ID :: int
  pr_ModelID :: string
  InputUSDPerMillion :: rat
  CachedInputUSDPerMillion :: rat
  OutputUSDPerMillion :: rat
  pr_CreatedAt :: int
  pr_UpdatedAt :: int

text \<open>A price of the catalogue: no row, so no id and no times.\<close>

definition official_price :: "string \<Rightarrow> rat \<Rightarrow> rat \<Rightarrow> rat \<Rightarrow> GatewayModelPrice" where
  "official_price m i c out =
     \<lparr>pr_ID = 0, pr_ModelID = m, InputUSDPerMillion = i, CachedInputUSDPerMillion = c,
      OutputUSDPerMillion = out, pr_CreatedAt = 0, pr_UpdatedAt = 0\<rparr>"

definition OfficialModelPrices :: "GatewayModelPrice list" where
  "OfficialModelPrices =
     [official_price DefaultCodexModelID 5 (1/2) 30,
      official_price ''gpt-5.6-terra'' (5/2) (1/4) 15,
      official_price ''gpt-5.6-luna'' 1 (1/10) 6,
      official_price ''gpt-5.5'' 5 (1/2) 30]"

definition OfficialModelPriceMap :: "string \<rightharpoonup> GatewayModelPrice" where
  "OfficialModelPriceMap =
     fold (\<lambda>item m. if pr_ModelID item = '''' then m else m(pr_ModelID item \<mapsto> item))
       OfficialModelPrices (\<lambda>_. None)"

definition CodexModelIDSet :: "string set" where
  "CodexModelIDSet = set (filter (\<lambda>m. m \<noteq> '''') CodexModelIDs)"

definition IsOfficialCodexModelID :: "string \<Rightarrow> bool" where
  "IsOfficialCodexModelID modelID = (modelID \<in> CodexModelIDSet)"

definition OfficialModelContextWindowTokens :: "string \<Rightarrow> int" where
  "OfficialModelContextWindowTokens modelID = map_get 0 OfficialModelContextWindows modelID"

definition OfficialModelDefaultReasoningEffort :: "string \<Rightarrow> string" where
  "OfficialModelDefaultReasoningEffort modelID = map_get '''' OfficialModelDefaultReasoningEfforts modelID"

definition OfficialModelReasoningEffortsForModel :: "string \<Rightarrow> string list" where
  "OfficialModelReasoningEffortsForModel modelID = map_get [] OfficialModelReasoningEfforts modelID"

definition IsOfficialModelReasoningEffortSupported :: "string \<Rightarrow> string \<Rightarrow> bool" where
  "IsOfficialModelReasoningEffortSupported modelID effort0 =
     (if TrimSpace effort0 = '''' then True
      else let effort = NormalizeGatewayReasoningEffort effort0
           in if effort = '''' then False
              else case map_of OfficialModelReasoningEfforts modelID of
                     None \<Rightarrow> True
                   | Some efforts \<Rightarrow> effort \<in> set efforts)"

section \<open>Context policies\<close>

record GatewayModelContextPolicy =
  ContextWindowTokens :: int
  ContextCompactTokens :: int
  ContextHardTokens :: int
  ContextCompactBytes :: int
  ContextHardBytes :: int
  ContextKeepItems :: int

definition no_context_policy :: GatewayModelContextPolicy where
  "no_context_policy =
     \<lparr>ContextWindowTokens = 0, ContextCompactTokens = 0, ContextHardTokens = 0,
      ContextCompactBytes = 0, ContextHardBytes = 0, ContextKeepItems = 0\<rparr>"

text \<open>A model; its six context columns form a record of the type of a policy.\<close>

record GatewayModel =
  m_ID :: int
  m_ModelID :: string
  m_OwnedBy :: string
  m_CreatedUnix :: int
  m_Enabled :: bool
  m_Source :: string
  m_Context :: GatewayModelContextPolicy
  m_LastSeenAt :: "int option"
  m_CreatedAt :: int
  m_UpdatedAt :: int

definition minPositiveInt64 :: "int \<Rightarrow> int \<Rightarrow> int" where
  "minPositiveInt64 a b = (if a \<le> 0 then b else if b \<le> 0 \<or> a < b then a else b)"

definition RecommendedGatewayContextPolicyForModel :: "string \<Rightarrow> GatewayModelContextPolicy" where
  "RecommendedGatewayContextPolicyForModel modelID =
     (let window = OfficialModelContextWindowTokens modelID
      in if window \<le> 0 then no_context_policy
         else let compactTokens = (if window \<ge> 400000 then 260000 else window * 65 div 100);
                  hardTokens = (if window \<ge> 400000 then 380000 else window * 95 div 100)
              in \<lparr>ContextWindowTokens = window, ContextCompactTokens = compactTokens,
                  ContextHardTokens = hardTokens,
                  ContextCompactBytes = minPositiveInt64 (compactTokens * 4) 1000000,
                  ContextHardBytes = hardTokens * 5, ContextKeepItems = 8\<rparr>)"

text \<open>The fields of \<open>over\<close> that are positive replace those of \<open>base\<close>.\<close>

definition positive_or :: "int \<Rightarrow> int \<Rightarrow> int" where
  "positive_or v base = (if v > 0 then v else base)"

definition override_policy ::
  "GatewayModelContextPolicy \<Rightarrow> GatewayModelContextPolicy \<Rightarrow> GatewayModelContextPolicy" where
  "override_policy over base =
     \<lparr>ContextWindowTokens = positive_or (ContextWindowTokens over) (ContextWindowTokens base),
      ContextCompactTokens = positive_or (ContextCompactTokens over) (ContextCompactTokens base),
      ContextHardTokens = positive_or (ContextHardTokens over) (ContextHardTokens base),
      ContextCompactBytes = positive_or (ContextCompactBytes over) (ContextCompactBytes base),
      ContextHardBytes = positive_or (ContextHardBytes over) (ContextHardBytes base),
      ContextKeepItems = positive_or (ContextKeepItems over) (ContextKeepItems base)\<rparr>"

definition EffectiveGatewayModelContextPolicy ::
  "GatewayModel option \<Rightarrow> GatewayModelContextPolicy \<Rightarrow> GatewayModelContextPolicy" where
  "EffectiveGatewayModelContextPolicy model fallback =
     (let modelID = (case model of None \<Rightarrow> '''' | Some m \<Rightarrow> m_ModelID m);
          recommended = RecommendedGatewayContextPolicyForModel modelID;
          out0 = override_policy fallback recommended;
          out = out0\<lparr>ContextWindowTokens :=
                       positive_or (ContextWindowTokens recommended) (ContextWindowTokens out0)\<rparr>
      in case model of
           None \<Rightarrow> out
         | Some m \<Rightarrow> override_policy (m_Context m) out)"

definition validateGatewayModelContextPolicy :: "GatewayModelContextPolicy \<Rightarrow> unit result" where
  "validateGatewayModelContextPolicy policy =
     (let maxTokens = 2000000; maxBytes = 33554432
      in if ContextWindowTokens policy < 0 \<or> ContextCompactTokens policy < 0 \<or>
            ContextHardTokens policy < 0 \<or> ContextCompactBytes policy < 0 \<or>
            ContextHardBytes policy < 0 \<or> ContextKeepItems policy < 0
         then Inl ErrGatewayModelContextInvalid
         else if \<exists>v \<in> set [ContextWindowTokens policy, ContextCompactTokens policy,
                            ContextHardTokens policy]. v > maxTokens
         then Inl ErrGatewayModelContextInvalid
         else if \<exists>v \<in> set [ContextCompactBytes policy, ContextHardBytes policy]. v > maxBytes
         then Inl ErrGatewayModelContextInvalid
         else if ContextCompactTokens policy > 0 \<and> ContextHardTokens policy > 0 \<and>
                 ContextHardTokens policy \<le> ContextCompactTokens policy
         then Inl ErrGatewayModelContextInvalid
         else if ContextCompactBytes policy > 0 \<and> ContextHardBytes policy > 0 \<and>
                 ContextHardBytes policy \<le> ContextCompactBytes policy
         then Inl ErrGatewayModelContextInvalid
         else if ContextWindowTokens policy > 0 \<and>
                 (ContextCompactTokens policy > ContextWindowTokens policy \<or>
                  ContextHardTokens policy > ContextWindowTokens policy)
         then Inl ErrGatewayModelContextInvalid
         else if ContextKeepItems policy > 0 \<and>
                 (ContextKeepItems policy < 2 \<or> ContextKeepItems policy > 50)
         then Inl ErrGatewayModelContextInvalid
         else Inr ())"

definition int64FromEnvOptional :: "(string \<Rightarrow> string) \<Rightarrow> string \<Rightarrow> int" where
  "int64FromEnvOptional env key =
     (let raw = TrimSpace (env key)
      in if raw = '''' then 0
         else case ParseInt raw of None \<Rightarrow> 0 | Some v \<Rightarrow> if v \<le> 0 then 0 else v)"

definition intFromEnvOptional :: "(string \<Rightarrow> string) \<Rightarrow> string \<Rightarrow> int" where
  "intFromEnvOptional env key =
     (let raw = TrimSpace (env key)
      in if raw = '''' then 0
         else case ParseInt raw of None \<Rightarrow> 0 | Some v \<Rightarrow> if v \<le> 0 then 0 else v)"

definition GatewayContextFallbackPolicyFromEnv :: "(string \<Rightarrow> string) \<Rightarrow> GatewayModelContextPolicy" where
  "GatewayContextFallbackPolicyFromEnv env =
     \<lparr>ContextWindowTokens = 0,
      ContextCompactTokens = int64FromEnvOptional env ''GATEWAY_CONTEXT_COMPACT_TOKENS'',
      ContextHardTokens = int64FromEnvOptional env ''GATEWAY_CONTEXT_HARD_TOKENS'',
      ContextCompactBytes = int64FromEnvOptional env ''GATEWAY_CONTEXT_COMPACT_BYTES'',
      ContextHardBytes = int64FromEnvOptional env ''GATEWAY_CONTEXT_HARD_BYTES'',
      ContextKeepItems = intFromEnvOptional env ''GATEWAY_CONTEXT_KEEP_ITEMS''\<rparr>"

section \<open>Normalisation of inputs\<close>

definition normalizeLimit :: "int \<Rightarrow> int" where
  "normalizeLimit limit = (if limit \<le> 0 then 30 else if limit > 1000 then 1000 else limit)"

definition normalizeOffset :: "int \<Rightarrow> int" where
  "normalizeOffset offset = (if offset < 0 then 0 else offset)"

definition normalizeNonNegativeInt64 :: "int \<Rightarrow> int" where
  "normalizeNonNegativeInt64 v = (if v < 0 then 0 else v)"

definition normalizePositiveIDs :: "int list \<Rightarrow> int list" where
  "normalizePositiveIDs ids = keep_first {} (filter (\<lambda>i. i > 0) ids)"

fun clean_allowed :: "string set \<Rightarrow> string list \<Rightarrow> string list result" where
  "clean_allowed seen [] = Inr []"
| "clean_allowed seen (item0 # rest) =
     (let item = TrimSpace item0
      in if item = '''' then clean_allowed seen rest
         else if \<not> IsOfficialCodexModelID item then Inl ErrBadParam
         else if item \<in> seen then clean_allowed seen rest
         else case clean_allowed (insert item seen) rest of
                Inl e \<Rightarrow> Inl e
              | Inr out \<Rightarrow> Inr (item # out))"

definition normalizeAllowedCodexModels :: "string list \<Rightarrow> string list result" where
  "normalizeAllowedCodexModels items = (if items = [] then Inr [] else clean_allowed {} items)"

definition normalizeStringList :: "string list \<Rightarrow> string list" where
  "normalizeStringList items =
     (if items = [] then [] else keep_first {} (filter (\<lambda>x. x \<noteq> '''') (map TrimSpace items)))"

definition removeString :: "string list \<Rightarrow> string \<Rightarrow> string list" where
  "removeString items target = filter (\<lambda>x. x \<noteq> target) items"

definition filterAllowedStrings :: "string list \<Rightarrow> string set \<Rightarrow> string list" where
  "filterAllowedStrings items allowed = filter (\<lambda>x. x \<in> allowed) items"

definition sameStringList :: "string list \<Rightarrow> string list \<Rightarrow> bool" where
  "sameStringList a b = (length a = length b \<and> (\<forall>i \<in> {0..<length a}. a ! i = b ! i))"

lemma sameStringList_eq: "sameStringList a b \<longleftrightarrow> a = b"
  using nth_equalityI [of a b] by (auto simp: sameStringList_def)

lemma normalizeLimit_range: "1 \<le> normalizeLimit l \<and> normalizeLimit l \<le> 1000"
  by (simp add: normalizeLimit_def)

lemma normalizeOffset_nonneg: "0 \<le> normalizeOffset n"
  by (simp add: normalizeOffset_def)

lemma set_normalizePositiveIDs: "set (normalizePositiveIDs ids) = {i \<in> set ids. 0 < i}"
  by (auto simp: normalizePositiveIDs_def set_keep_first)

lemma normalizeStringList_clean:
  "distinct (normalizeStringList xs) \<and> (\<forall>x \<in> set (normalizeStringList xs). x \<noteq> '''' \<and> TrimSpace x = x)"
  by (auto simp: normalizeStringList_def distinct_keep_first set_keep_first)

lemma normalizeStringList_id:
  assumes "distinct xs" "\<forall>x \<in> set xs. x \<noteq> '''' \<and> TrimSpace x = x"
  shows "normalizeStringList xs = xs"
proof -
  have "map TrimSpace xs = xs" using assms(2) by (simp add: map_idI)
  moreover have "filter (\<lambda>x. x \<noteq> '''') xs = xs" using assms(2) by (simp add: filter_id_conv)
  ultimately show ?thesis
    using assms(1) by (simp add: normalizeStringList_def keep_first_distinct)
qed

lemma normalizeStringList_idem [simp]:
  "normalizeStringList (normalizeStringList xs) = normalizeStringList xs"
  using normalizeStringList_clean by (intro normalizeStringList_id) blast+

lemma set_normalizeStringList: "set (normalizeStringList xs) = TrimSpace ` set xs - {''''}"
  by (auto simp: normalizeStringList_def set_keep_first)

lemma clean_allowed_Cons:
  assumes "clean_allowed seen (item # rest) = Inr out"
  obtains (skip) "TrimSpace item = '''' \<or> TrimSpace item \<in> seen" "clean_allowed seen rest = Inr out"
  | (keep) out' where "TrimSpace item \<in> CodexModelIDSet" "TrimSpace item \<notin> seen" "TrimSpace item \<noteq> ''''"
      "clean_allowed (insert (TrimSpace item) seen) rest = Inr out'" "out = TrimSpace item # out'"
  using assms by (auto simp: Let_def IsOfficialCodexModelID_def split: if_splits sum.splits)

lemma clean_allowed_Inr:
  "clean_allowed seen xs = Inr out \<Longrightarrow>
     distinct out \<and> set out \<inter> seen = {} \<and> set out \<subseteq> CodexModelIDSet \<and>
     set out \<union> seen = (TrimSpace ` set xs - {''''}) \<union> seen"
proof (induction xs arbitrary: seen out)
  case (Cons item rest)
  from Cons.prems show ?case
  proof (cases rule: clean_allowed_Cons)
    case skip
    then show ?thesis using Cons.IH [OF skip(2)] by auto
  next
    case (keep out')
    note IH = Cons.IH [OF keep(4)]
    have "set out \<union> seen = (TrimSpace ` set rest - {''''}) \<union> insert (TrimSpace item) seen"
      using IH keep(5) by auto
    then have "set out \<union> seen = (TrimSpace ` set (item # rest) - {''''}) \<union> seen"
      using keep(3) by auto
    then show ?thesis using IH keep by auto
  qed
qed simp

lemma CodexModelIDSet_eq: "CodexModelIDSet = set CodexModelIDs"
  by (auto simp: CodexModelIDSet_def CodexModelIDs_def DefaultCodexModelID_def)

end
