(* ===== verification/Content.thy ===== *)
theory Content
  imports Json Catalog
begin

text \<open>
  What a gateway request says: the helpers of internal/server/openai\_gateway\_handler.go that
  read the JSON body and the headers of a request. They find the text, images and files of a
  message, the prompt for the command-line upstream, the features only the backend upstream has,
  the model, the stream flag and the reasoning effort, the session and the passthrough options.
  Base64 payloads are decoded; the wording of the decoder's own error is left out of the error
  texts.
\<close>

section \<open>Requests\<close>

text \<open>The header function returns the first value of a canonical header name, or the empty text.\<close>

record http_request =
  rq_Method :: string
  rq_Path :: string
  rq_Header :: "string \<Rightarrow> string"
  rq_Body :: string
  rq_RemoteAddr :: string

record gatewayRequestOptions =
  AgentPassthrough :: bool
  AgentPassthroughReason :: string

definition no_options :: gatewayRequestOptions where
  "no_options = \<lparr>AgentPassthrough = False, AgentPassthroughReason = ''''\<rparr>"

definition gatewayEndpointFromPath :: "string \<Rightarrow> string" where
  "gatewayEndpointFromPath path =
     (if path = ''/v1/chat/completions'' then ''chat.completions''
      else if path = ''/v1/responses'' then ''responses''
      else if path = ''/v1/models'' then ''models''
      else let s = dropWhile (\<lambda>c. c = CHR ''/'') (trim_prefix path ''/v1'')
           in rev (dropWhile (\<lambda>c. c = CHR ''/'') (rev s)))"

definition reasoningEffortFromPayload :: "obj \<Rightarrow> string result" where
  "reasoningEffortFromPayload payload =
     (let raw = firstStringValue payload [''reasoning_effort'', ''reasoningEffort''];
          raw = (if raw = '''' then stringValue (field (nil_map (mapValue (field payload ''reasoning''))) ''effort'') else raw);
          effort = NormalizeGatewayReasoningEffort raw
      in if raw = '''' then Inr ''''
         else if effort \<noteq> '''' then Inr effort
         else Inl (ErrText (''unsupported reasoning_effort: '' @ raw)))"

definition parseRequestModelStreamAndReasoningEffort :: "string \<Rightarrow> string \<times> bool \<times> string result" where
  "parseRequestModelStreamAndReasoningEffort body =
     (case decode_object body of
        None \<Rightarrow> ('''', False, Inr '''')
      | Some payload \<Rightarrow>
          (stringValue (field payload ''model''), field payload ''stream'' = JBool True,
           reasoningEffortFromPayload payload))"

definition normalizeGatewaySessionID :: "string \<Rightarrow> string" where
  "normalizeGatewaySessionID s = take 128 (TrimSpace s)"

definition first_session :: "string list \<Rightarrow> string" where
  "first_session vs = (case filter (\<lambda>v. v \<noteq> '''') (map normalizeGatewaySessionID vs) of v # _ \<Rightarrow> v | [] \<Rightarrow> '''')"

definition sessionIDFromHeaders :: "http_request \<Rightarrow> string" where
  "sessionIDFromHeaders r =
     first_session (map (rq_Header r) [''X-Session-Id'', ''X-Conversation-Id'', ''X-Thread-Id''])"

definition sessionIDFromGatewayRequest :: "http_request \<Rightarrow> string \<Rightarrow> string" where
  "sessionIDFromGatewayRequest r body =
     (let names = [''session_id'', ''conversation_id'', ''thread_id'']; sid = sessionIDFromHeaders r
      in if sid \<noteq> '''' then sid
         else case decode_object body of
                None \<Rightarrow> ''''
              | Some payload \<Rightarrow>
                  let sid = first_session (map (\<lambda>k. stringValue (field payload k)) names);
                      metadata = nil_map (mapValue (field payload ''metadata''))
                  in if sid \<noteq> '''' then sid
                     else first_session (map (\<lambda>k. stringValue (field metadata k)) names))"

definition gatewayClientTypeFromRequest :: "http_request \<Rightarrow> string" where
  "gatewayClientTypeFromRequest r =
     DetectGatewayClientType (map (rq_Header r) [''X-Client-Type'', ''X-Client-Name'', ''X-App-Name'', ''User-Agent''])"

text \<open>\<open>parseGatewayBool\<close>: \<open>None\<close> where it does not say.\<close>

definition parseGatewayBool :: "json \<Rightarrow> bool option" where
  "parseGatewayBool v =
     (case v of
        JBool b \<Rightarrow> Some b
      | JStr s \<Rightarrow>
          (let t = ToLower (TrimSpace s)
           in if t \<in> set [''1'', ''true'', ''yes'', ''y'', ''on''] then Some True
              else if t \<in> set [''0'', ''false'', ''no'', ''n'', ''off''] then Some False
              else None)
      | _ \<Rightarrow> None)"

definition explicitGatewayAgentPassthroughHeader :: "http_request \<Rightarrow> bool option" where
  "explicitGatewayAgentPassthroughHeader r =
     (case filter (\<lambda>v. v \<noteq> None)
        (map (\<lambda>k. let raw = TrimSpace (rq_Header r k) in if raw = '''' then None else parseGatewayBool (JStr raw))
           [''X-Gateway-Agent-Passthrough'', ''X-Agent-Passthrough'', ''X-Raw-Openai-Compatible'']) of
        [] \<Rightarrow> None
      | v # _ \<Rightarrow> v)"

definition passthrough_flags :: "string list" where
  "passthrough_flags =
     [''passthrough'', ''agent_passthrough'', ''raw_openai_compatible'', ''disable_auto_summarization'',
      ''disable_context_compression'', ''disable_resume_prompt_injection'', ''preserve_messages'',
      ''preserve_tool_calls'', ''preserve_system_messages'', ''preserve_developer_messages'']"

definition gatewayAgentPassthroughMapFlag :: "obj \<Rightarrow> bool" where
  "gatewayAgentPassthroughMapFlag payload =
     (\<exists>k \<in> set passthrough_flags. parseGatewayBool (field payload k) = Some True)"

definition gatewayAgentPassthroughBodyFlag :: "string \<Rightarrow> bool" where
  "gatewayAgentPassthroughBodyFlag body =
     (case decode_object body of
        None \<Rightarrow> False
      | Some payload \<Rightarrow>
          gatewayAgentPassthroughMapFlag payload \<or>
          gatewayAgentPassthroughMapFlag (nil_map (mapValue (field payload ''metadata''))))"

definition gatewayRequestOptionsFromRequest :: "http_request \<Rightarrow> string \<Rightarrow> gatewayRequestOptions" where
  "gatewayRequestOptionsFromRequest r body =
     (case explicitGatewayAgentPassthroughHeader r of
        Some enabled \<Rightarrow>
          if enabled then \<lparr>AgentPassthrough = True, AgentPassthroughReason = ''explicit_header''\<rparr> else no_options
      | None \<Rightarrow>
          if gatewayAgentPassthroughBodyFlag body
          then \<lparr>AgentPassthrough = True, AgentPassthroughReason = ''explicit_body''\<rparr>
          else let client = gatewayClientTypeFromRequest r
               in if client = GatewayClientTypeCodex \<or> client = GatewayClientTypeOpenCode
                  then \<lparr>AgentPassthrough = True, AgentPassthroughReason = ''agent_client_type''\<rparr>
                  else no_options)"

section \<open>Message contents\<close>

record gatewayImageSource =
  im_Raw :: string
  im_MediaType :: string

record gatewayFileSource =
  fi_Raw :: string
  fi_MediaType :: string
  fi_Filename :: string

record gatewayMessageContent =
  mc_Role :: string
  mc_Text :: string
  mc_Images :: "gatewayImageSource list"
  mc_Files :: "gatewayFileSource list"

definition no_content :: gatewayMessageContent where
  "no_content = \<lparr>mc_Role = '''', mc_Text = '''', mc_Images = [], mc_Files = []\<rparr>"

definition content_empty :: "gatewayMessageContent \<Rightarrow> bool" where
  "content_empty c = (TrimSpace (mc_Text c) = '''' \<and> mc_Images c = [] \<and> mc_Files c = [])"

definition contentPartText :: "obj \<Rightarrow> string" where
  "contentPartText part = firstStringValue part [''text'', ''input_text'']"

definition imageURLValue :: "json \<Rightarrow> string" where
  "imageURLValue v =
     (case v of JStr s \<Rightarrow> TrimSpace s | JObj m \<Rightarrow> stringValue (field m ''url'') | _ \<Rightarrow> '''')"

definition imageSourceFromContentPart :: "obj \<Rightarrow> gatewayImageSource option" where
  "imageSourceFromContentPart part =
     (let typ = stringValue (field part ''type'');
          url = imageURLValue (field part ''image_url''); img = imageURLValue (field part ''image'')
      in if (typ = ''image_url'' \<or> typ = ''input_image'') \<and> url \<noteq> '''' then Some \<lparr>im_Raw = url, im_MediaType = ''''\<rparr>
         else if (typ = ''input_image'' \<or> typ = ''image'') \<and> img \<noteq> ''''
           then Some \<lparr>im_Raw = img, im_MediaType = stringValue (field part ''media_type'')\<rparr>
         else if url \<noteq> '''' then Some \<lparr>im_Raw = url, im_MediaType = ''''\<rparr>
         else None)"

definition fileSourceFromValue :: "obj \<Rightarrow> gatewayFileSource option" where
  "fileSourceFromValue v =
     (let source = \<lparr>fi_Raw = firstStringValue v [''file_data'', ''data'', ''url''],
            fi_MediaType = firstStringValue v [''media_type'', ''mime_type'', ''mediaType'', ''mimeType''],
            fi_Filename = firstStringValue v [''filename'', ''file_name'', ''fileName'', ''name'']\<rparr>
      in if fi_Raw source = '''' then None else Some source)"

definition fileSourceFromContentPart :: "obj \<Rightarrow> gatewayFileSource option" where
  "fileSourceFromContentPart part =
     (let typ = stringValue (field part ''type'')
      in if typ = ''input_file'' then
           (case fileSourceFromValue part of
              Some source \<Rightarrow> Some source
            | None \<Rightarrow> (case field part ''file'' of JObj file \<Rightarrow> fileSourceFromValue file | _ \<Rightarrow> None))
         else if typ = ''file'' then
           (case field part ''file'' of JObj file \<Rightarrow> fileSourceFromValue file | _ \<Rightarrow> fileSourceFromValue part)
         else None)"

text \<open>The contribution of one element of a content list.\<close>

definition part_texts :: "json \<Rightarrow> string list" where
  "part_texts item =
     (case item of
        JStr s \<Rightarrow> if TrimSpace s \<noteq> '''' then [s] else []
      | JObj m \<Rightarrow> if TrimSpace (contentPartText m) \<noteq> '''' then [contentPartText m] else []
      | _ \<Rightarrow> [])"

definition option_list :: "'a option \<Rightarrow> 'a list" where
  "option_list x = (case x of None \<Rightarrow> [] | Some y \<Rightarrow> [y])"

definition part_images :: "json \<Rightarrow> gatewayImageSource list" where
  "part_images item = (case item of JObj m \<Rightarrow> option_list (imageSourceFromContentPart m) | _ \<Rightarrow> [])"

definition part_files :: "json \<Rightarrow> gatewayFileSource list" where
  "part_files item = (case item of JObj m \<Rightarrow> option_list (fileSourceFromContentPart m) | _ \<Rightarrow> [])"

definition contentValue :: "json \<Rightarrow> gatewayMessageContent" where
  "contentValue v =
     (case v of
        JStr s \<Rightarrow> no_content\<lparr>mc_Text := s\<rparr>
      | JArr items \<Rightarrow>
          no_content\<lparr>mc_Text := join_with [CHR 0x0A] (concat (map part_texts items)),
            mc_Images := concat (map part_images items), mc_Files := concat (map part_files items)\<rparr>
      | JObj m \<Rightarrow>
          no_content\<lparr>mc_Text := contentPartText m, mc_Images := part_images v, mc_Files := part_files v\<rparr>
      | _ \<Rightarrow> no_content)"

definition contentTextValue :: "json \<Rightarrow> string" where
  "contentTextValue v = mc_Text (contentValue v)"

section \<open>The prompt for the command line\<close>

text \<open>The messages of the user and the assistant that say something, with their role.\<close>

definition spoken :: "json \<Rightarrow> gatewayMessageContent list" where
  "spoken item =
     (case item of
        JObj message \<Rightarrow>
          (let role = stringValue (field message ''role''); content = contentValue (field message ''content'')
           in if role \<noteq> ''user'' \<and> role \<noteq> ''assistant'' then []
              else if content_empty content then []
              else [content\<lparr>mc_Role := role\<rparr>])
      | _ \<Rightarrow> [])"

definition lastGatewayMessageItems :: "'a list \<Rightarrow> nat \<Rightarrow> 'a list" where
  "lastGatewayMessageItems items limit =
     (if limit = 0 \<or> length items \<le> limit then items else drop (length items - limit) items)"

definition item_text :: "gatewayMessageContent \<Rightarrow> string" where
  "item_text item =
     (let text = TrimSpace (mc_Text item)
      in if text \<noteq> '''' then text
         else if mc_Images item \<noteq> [] \<and> mc_Files item \<noteq> [] then ''[attachments included]''
         else if mc_Images item \<noteq> [] then ''[image attached]''
         else if mc_Files item \<noteq> [] then ''[file attached]''
         else '''')"

definition blank_line :: string where
  "blank_line = [CHR 0x0A, CHR 0x0A]"

type_synonym prompt_parts = "string \<times> gatewayImageSource list \<times> gatewayFileSource list"

definition gatewayMessagePromptAndAttachments :: "gatewayMessageContent list \<Rightarrow> prompt_parts" where
  "gatewayMessagePromptAndAttachments items =
     (TrimSpace (join_with blank_line
        (map (\<lambda>item. mc_Role item @ '':'' @ [CHR 0x0A] @ item_text item) (filter (\<lambda>item. item_text item \<noteq> '''') items))),
      concat (map mc_Images items), concat (map mc_Files items))"

definition promptFromChatCompletionsPayload :: "obj \<Rightarrow> prompt_parts" where
  "promptFromChatCompletionsPayload payload =
     gatewayMessagePromptAndAttachments
       (lastGatewayMessageItems (concat (map spoken (listValue (field payload ''messages'')))) 8)"

definition promptFromResponsesPayload :: "obj \<Rightarrow> prompt_parts" where
  "promptFromResponsesPayload payload =
     (case field payload ''input'' of
        JStr s \<Rightarrow> (TrimSpace s, [], [])
      | JArr v \<Rightarrow> gatewayMessagePromptAndAttachments (lastGatewayMessageItems (concat (map spoken v)) 8)
      | v \<Rightarrow> (let content = contentValue v in (TrimSpace (mc_Text content), mc_Images content, mc_Files content)))"

section \<open>Data URLs\<close>

definition std_value :: "char \<Rightarrow> nat option" where
  "std_value c =
     map_of (zip ''ABCDEFGHIJKLMNOPQRSTUVWXYZabcdefghijklmnopqrstuvwxyz0123456789+/'' [0..<64]) c"

text \<open>\<open>base64.StdEncoding.DecodeString\<close>: line breaks are skipped, the padding is required.\<close>

fun std_decode :: "string \<Rightarrow> string option" where
  "std_decode [] = Some []"
| "std_decode (a # b # c # d # rest) =
     (case (std_value a, std_value b) of
        (Some i, Some j) \<Rightarrow>
          if c = CHR ''='' then (if d = CHR ''='' \<and> rest = [] then Some [byte_of (i * 4 + j div 16)] else None)
          else (case std_value c of
                  None \<Rightarrow> None
                | Some k \<Rightarrow>
                    if d = CHR ''=''
                    then (if rest = [] then Some [byte_of (i * 4 + j div 16), byte_of (j mod 16 * 16 + k div 4)] else None)
                    else (case std_value d of
                            None \<Rightarrow> None
                          | Some l \<Rightarrow>
                              map_option ((@) [byte_of (i * 4 + j div 16), byte_of (j mod 16 * 16 + k div 4),
                                byte_of (k mod 4 * 64 + l)]) (std_decode rest)))
      | _ \<Rightarrow> None)"
| "std_decode s = None"

definition base64_decode :: "string \<Rightarrow> string option" where
  "base64_decode s = std_decode (filter (\<lambda>c. c \<noteq> CHR 0x0A \<and> c \<noteq> CHR 0x0D) s)"

definition maxGatewayImages :: nat where "maxGatewayImages = 4"
definition maxGatewayImageBytes :: int where "maxGatewayImageBytes = 16777216"
definition maxGatewayFiles :: nat where "maxGatewayFiles = 4"
definition maxGatewayFileBytes :: int where "maxGatewayFileBytes = 16777216"
definition maxGatewayRequestBytes :: int where "maxGatewayRequestBytes = 94371840"

definition imageExtensionForMediaType :: "string \<Rightarrow> string" where
  "imageExtensionForMediaType mediaType =
     (let m = ToLower (TrimSpace mediaType)
      in if m = ''image/jpeg'' \<or> m = ''image/jpg'' then ''.jpg''
         else if m = ''image/png'' then ''.png''
         else if m = ''image/gif'' then ''.gif''
         else if m = ''image/webp'' then ''.webp''
         else '''')"

definition isPDFMediaType :: "string \<Rightarrow> bool" where
  "isPDFMediaType mediaType = EqualFold (TrimSpace mediaType) ''application/pdf''"

text \<open>\<open>strings.Cut(raw, ",")\<close> of a data URL and the media type in its header.\<close>

definition data_header :: "string \<Rightarrow> string" where
  "data_header raw = takeWhile (\<lambda>c. c \<noteq> CHR '','') raw"

definition data_payload :: "string \<Rightarrow> string" where
  "data_payload raw = tl (dropWhile (\<lambda>c. c \<noteq> CHR '','') raw)"

definition header_media_type :: "string \<Rightarrow> string" where
  "header_media_type header = trim_prefix (takeWhile (\<lambda>c. c \<noteq> CHR '';'') header) ''data:''"

definition decodeGatewayDataURL :: "string \<Rightarrow> string \<Rightarrow> string \<Rightarrow> (string \<times> string) result" where
  "decodeGatewayDataURL raw fallbackMediaType label =
     (if \<not> has_prefix raw ''data:''
      then Inl (ErrText (''unsupported '' @ label @ '' input: only data URLs are supported''))
      else if CHR '','' \<notin> set raw then Inl (ErrText (''invalid '' @ label @ '' data URL''))
      else if \<not> contains (data_header raw) '';base64''
        then Inl (ErrText (''invalid '' @ label @ '' data URL: base64 payload is required''))
      else case base64_decode (data_payload raw) of
             None \<Rightarrow> Inl (ErrText (''invalid '' @ label @ '' data URL''))
           | Some bytes \<Rightarrow>
               Inr (bytes, if has_prefix (data_header raw) ''data:'' then header_media_type (data_header raw)
                           else fallbackMediaType))"

definition decodeGatewayImageSource :: "gatewayImageSource \<Rightarrow> (string \<times> string) result" where
  "decodeGatewayImageSource source =
     (let raw = TrimSpace (im_Raw source)
      in if raw = '''' then Inl (ErrText ''image input is empty'')
         else if \<not> has_prefix raw ''data:''
           then Inl (ErrText ''unsupported image input: only data URLs are supported by Codex CLI upstream'')
         else case decodeGatewayDataURL raw (im_MediaType source) ''image'' of
                Inl e \<Rightarrow> Inl e
              | Inr (bytes, mediaType) \<Rightarrow> Inr (bytes, imageExtensionForMediaType mediaType))"

definition check_image :: "string \<times> string \<Rightarrow> unit result" where
  "check_image d =
     (if fst d = [] then Inl (ErrText ''image input is empty'')
      else if maxGatewayImageBytes < int (length (fst d)) then Inl (ErrText ''image input too large: max 16777216 bytes'')
      else Inr ())"

definition validateGatewayImageSource :: "gatewayImageSource \<Rightarrow> unit result" where
  "validateGatewayImageSource source =
     (case decodeGatewayImageSource source of Inl e \<Rightarrow> Inl e | Inr d \<Rightarrow> check_image d)"

definition check_file :: "string \<Rightarrow> unit result" where
  "check_file bytes =
     (if bytes = [] then Inl (ErrText ''file input is empty'')
      else if maxGatewayFileBytes < int (length bytes) then Inl (ErrText ''file input too large: max 16777216 bytes'')
      else Inr ())"

definition normalizeGatewayPDFSource :: "gatewayFileSource \<Rightarrow> gatewayFileSource result" where
  "normalizeGatewayPDFSource source =
     (let raw = TrimSpace (fi_Raw source); mediaType = TrimSpace (fi_MediaType source);
          wrong = Inl (ErrText ''unsupported file input: only application/pdf data URLs are supported'')
      in if raw = '''' then Inl (ErrText ''file input is empty'')
         else if has_prefix raw ''data:'' then
           (case decodeGatewayDataURL raw mediaType ''file'' of
              Inl e \<Rightarrow> Inl e
            | Inr (bytes, parsed) \<Rightarrow>
                if \<not> isPDFMediaType parsed then wrong
                else map_sum id (\<lambda>_. source\<lparr>fi_Raw := raw, fi_MediaType := ''application/pdf''\<rparr>) (check_file bytes))
         else if \<not> isPDFMediaType mediaType then wrong
         else (case base64_decode raw of
                 None \<Rightarrow> Inl (ErrText ''invalid file data'')
               | Some bytes \<Rightarrow>
                   map_sum id (\<lambda>_. source\<lparr>fi_Raw := ''data:application/pdf;base64,'' @ raw,
                     fi_MediaType := ''application/pdf''\<rparr>) (check_file bytes)))"

text \<open>A loop that returns the first error, and the values otherwise.\<close>

fun map_results :: "('a \<Rightarrow> 'b result) \<Rightarrow> 'a list \<Rightarrow> 'b list result" where
  "map_results f [] = Inr []"
| "map_results f (x # xs) =
     (case f x of Inl e \<Rightarrow> Inl e | Inr y \<Rightarrow> (case map_results f xs of Inl e \<Rightarrow> Inl e | Inr ys \<Rightarrow> Inr (y # ys)))"

definition normalizeGatewayPDFSources :: "gatewayFileSource list \<Rightarrow> gatewayFileSource list result" where
  "normalizeGatewayPDFSources sources =
     (if sources = [] then Inr []
      else if maxGatewayFiles < length sources then Inl (ErrText ''too many file inputs: max 4'')
      else map_results normalizeGatewayPDFSource sources)"

section \<open>What only the backend can do\<close>

text \<open>\<open>gatewayToolsFromPayload\<close> of the backend adapter: the tools in the shape the backend reads.\<close>

definition put_if :: "bool \<Rightarrow> string \<Rightarrow> json \<Rightarrow> obj" where
  "put_if b k v = (if b then [(k, v)] else [])"

definition flat_tool_keys :: "string list" where
  "flat_tool_keys = [''type'', ''name'', ''description'', ''parameters'', ''strict'']"

definition normalize_tool :: "obj \<Rightarrow> json" where
  "normalize_tool tool =
     (let function = nil_map (mapValue (field tool ''function'')); name = stringValue (field function ''name'');
          description = stringValue (field function ''description'')
      in if name \<noteq> '''' then
           JObj (put_if True ''type'' (JStr ''function'') @ put_if True ''name'' (JStr name) @
                 put_if (description \<noteq> '''') ''description'' (JStr description) @
                 (case map_of function ''parameters'' of Some p \<Rightarrow> [(''parameters'', p)] | None \<Rightarrow> []) @
                 (case field function ''strict'' of JBool b \<Rightarrow> [(''strict'', JBool b)] | _ \<Rightarrow> []))
         else if stringValue (field tool ''type'') = ''function'' \<and> stringValue (field tool ''name'') \<noteq> '''' then
           JObj (concat (map (\<lambda>k. case map_of tool k of Some v \<Rightarrow> [(k, v)] | None \<Rightarrow> []) flat_tool_keys))
         else JObj tool)"

definition gatewayToolsFromPayload :: "obj \<Rightarrow> json list" where
  "gatewayToolsFromPayload payload =
     concat (map (\<lambda>item. case item of JObj tool \<Rightarrow> [normalize_tool tool] | _ \<Rightarrow> [])
       (listValue (field payload ''tools'')))"

definition gatewayToolChoiceRequiresBackend :: "json \<Rightarrow> bool" where
  "gatewayToolChoiceRequiresBackend v =
     (let choice = ToLower (stringValue v)
      in if v = JNull then False
         else if choice \<noteq> '''' then choice \<noteq> ''auto'' \<and> choice \<noteq> ''none''
         else mapValue v \<noteq> None)"

definition chat_message_requires_backend :: "json \<Rightarrow> bool" where
  "chat_message_requires_backend item =
     (case item of
        JObj message \<Rightarrow>
          (let role = stringValue (field message ''role'')
           in mc_Files (contentValue (field message ''content'')) \<noteq> [] \<or>
              role = ''tool'' \<or>
              (role = ''assistant'' \<and> listValue (field message ''tool_calls'') \<noteq> []) \<or>
              (role = ''assistant'' \<and> mapValue (field message ''function_call'') \<noteq> None))
      | _ \<Rightarrow> False)"

definition chatPayloadRequiresCodexBackend :: "json \<Rightarrow> bool" where
  "chatPayloadRequiresCodexBackend v = list_ex chat_message_requires_backend (listValue v)"

definition response_item_requires_backend :: "json \<Rightarrow> bool" where
  "response_item_requires_backend item =
     (case item of
        JObj message \<Rightarrow>
          stringValue (field message ''type'') \<in> set [''function_call'', ''function_call_output''] \<or>
          mc_Files (contentValue (field message ''content'')) \<noteq> []
      | _ \<Rightarrow> False)"

definition responsesPayloadRequiresCodexBackend :: "json \<Rightarrow> bool" where
  "responsesPayloadRequiresCodexBackend v =
     (case v of JArr items \<Rightarrow> list_ex response_item_requires_backend items | _ \<Rightarrow> mc_Files (contentValue v) \<noteq> [])"

definition gatewayRequestRequiresCodexBackend :: "string \<Rightarrow> string \<Rightarrow> bool" where
  "gatewayRequestRequiresCodexBackend path body =
     (case decode_object body of
        None \<Rightarrow> False
      | Some payload \<Rightarrow>
          gatewayToolsFromPayload payload \<noteq> [] \<or>
          gatewayToolChoiceRequiresBackend (field payload ''tool_choice'') \<or>
          (if path = ''/v1/responses'' then responsesPayloadRequiresCodexBackend (field payload ''input'')
           else chatPayloadRequiresCodexBackend (field payload ''messages'')))"

definition request_prompt :: "string \<Rightarrow> obj \<Rightarrow> prompt_parts" where
  "request_prompt path payload =
     (if path = ''/v1/responses'' then promptFromResponsesPayload payload
      else promptFromChatCompletionsPayload payload)"

text \<open>
  \<open>materializeGatewayImages\<close> up to the files it writes: the decoded images with the names of
  their files, or the first error. Making the directory and writing may fail too (\<open>io\<close>).
\<close>

definition materialize_image :: "nat \<times> gatewayImageSource \<Rightarrow> (string \<times> string) result" where
  "materialize_image = (\<lambda>(i, source).
     case decodeGatewayImageSource source of
       Inl e \<Rightarrow> Inl e
     | Inr (bytes, ext) \<Rightarrow>
         map_sum id (\<lambda>_. (''image-'' @ Itoa (int i + 1) @ (if ext = '''' then ''.png'' else ext), bytes))
           (check_image (bytes, ext)))"

definition materializeGatewayImages :: "unit result \<Rightarrow> gatewayImageSource list \<Rightarrow> (string \<times> string) list result" where
  "materializeGatewayImages io sources =
     (if sources = [] then Inr []
      else if maxGatewayImages < length sources then Inl (ErrText ''too many image inputs: max 4'')
      else case io of
             Inl e \<Rightarrow> Inl e
           | Inr _ \<Rightarrow> map_results materialize_image (enumerate 0 sources))"

definition codexCLIPromptFromGatewayRequest ::
  "unit result \<Rightarrow> string \<Rightarrow> string \<Rightarrow> (string \<times> (string \<times> string) list) result" where
  "codexCLIPromptFromGatewayRequest io path body =
     (case decode_object body of
        None \<Rightarrow> Inl (ErrText ''invalid JSON'')
      | Some payload \<Rightarrow>
          (case request_prompt path payload of (text, images, files) \<Rightarrow>
             if files \<noteq> [] then Inl (ErrText ''file inputs are only supported by codex_backend upstream'')
             else map_sum id (Pair text) (materializeGatewayImages io images)))"

section \<open>Facts\<close>

lemma length_session: "length (normalizeGatewaySessionID s) \<le> 128"
  by (simp add: normalizeGatewaySessionID_def)

lemma first_session_in: "first_session vs = '''' \<or> first_session vs \<in> normalizeGatewaySessionID ` set vs"
proof (cases "filter (\<lambda>v. v \<noteq> '''') (map normalizeGatewaySessionID vs)")
  case (Cons v rest)
  have "v \<in> set (filter (\<lambda>v. v \<noteq> '''') (map normalizeGatewaySessionID vs))" unfolding Cons by simp
  then have "v \<in> normalizeGatewaySessionID ` set vs" by simp
  then show ?thesis by (simp add: first_session_def Cons)
qed (simp add: first_session_def)

lemma length_first_session: "length (first_session vs) \<le> 128"
  using first_session_in [of vs] length_session by auto

text \<open>
  The session id recorded for a request fits the column of the usage log and of the context
  summaries, whatever the headers and the body say.
\<close>
theorem session_id_fits:
  "length (sessionIDFromGatewayRequest r body) \<le> 128"
  by (auto simp: sessionIDFromGatewayRequest_def sessionIDFromHeaders_def Let_def length_first_session split: option.splits)

text \<open>The reasoning effort a request asks for is empty or one of the known names.\<close>

lemma reasoning_effort_known:
  "reasoningEffortFromPayload payload = Inr e \<Longrightarrow> e = '''' \<or> NormalizeGatewayReasoningEffort e = e"
  by (auto simp: reasoningEffortFromPayload_def Let_def split: if_splits)

end
