(* ===== verification/GoTime.thy ===== *)
theory GoTime
  imports Main
begin

text \<open>
  Go's \<open>time\<close> package as the gateway uses it. A time is a number of nanoseconds since the Unix
  epoch, in UTC; \<open>zero_time\<close> is the zero value, 1 January of year 1. The process location is a
  fixed offset \<open>tz\<close> in seconds east of UTC, without daylight saving changes. The civil
  calendar is the proleptic Gregorian one, walked year by year and month by month.
\<close>

definition zero_time :: int where
  "zero_time = -62135596800000000000"

definition IsZero :: "int \<Rightarrow> bool" where
  "IsZero t = (t = zero_time)"

definition second :: int where "second = 1000000000"
definition minute :: int where "minute = 60000000000"
definition day :: int where "day = 86400000000000"

section \<open>The civil calendar\<close>

definition leap_year :: "int \<Rightarrow> bool" where
  "leap_year y = (y mod 4 = 0 \<and> (y mod 100 \<noteq> 0 \<or> y mod 400 = 0))"

definition year_days :: "int \<Rightarrow> int" where
  "year_days y = (if leap_year y then 366 else 365)"

definition month_days :: "int \<Rightarrow> int list" where
  "month_days y = [31, if leap_year y then 29 else 28, 31, 30, 31, 30, 31, 31, 30, 31, 30, 31]"

text \<open>Year and day of the year (from 0) of a day counted from 1 January of \<open>y\<close>.\<close>

function year_walk :: "int \<Rightarrow> int \<Rightarrow> int \<times> int" where
  "year_walk y d =
     (if d < 0 then year_walk (y - 1) (d + year_days (y - 1))
      else if d \<ge> year_days y then year_walk (y + 1) (d - year_days y)
      else (y, d))"
  by pat_completeness auto
termination
  by (relation "measure (\<lambda>(y, d). if d < 0 then nat (- d) + 400 else nat d)")
    (auto simp: year_days_def split: if_splits)

declare year_walk.simps [simp del]

text \<open>Month and day of the month, both from 0, of a day of the year.\<close>

fun month_walk :: "int \<Rightarrow> int list \<Rightarrow> int \<Rightarrow> int \<times> int" where
  "month_walk m [] d = (m, d)"
| "month_walk m (l # ls) d = (if d < l then (m, d) else month_walk (m + 1) ls (d - l))"

text \<open>Year, month and day of the month of a day number (days since 1 January 1970).\<close>

definition civil :: "int \<Rightarrow> int \<times> int \<times> int" where
  "civil n =
     (case year_walk 1970 n of (y, d) \<Rightarrow>
        (case month_walk 0 (month_days y) d of (m, k) \<Rightarrow> (y, m + 1, k + 1)))"

section \<open>Days, weeks, months\<close>

text \<open>The day number of a time in the process location.\<close>

definition day_number :: "int \<Rightarrow> int \<Rightarrow> int" where
  "day_number tz t = (t + tz * second) div day"

definition day_begin :: "int \<Rightarrow> int \<Rightarrow> int" where
  "day_begin tz n = n * day - tz * second"

text \<open>\<open>time.Date(now.Year(), now.Month(), now.Day(), 0, 0, 0, 0, now.Location())\<close>.\<close>

definition day_start :: "int \<Rightarrow> int \<Rightarrow> int" where
  "day_start tz t = day_begin tz (day_number tz t)"

text \<open>\<open>time.Date(now.Year(), now.Month(), 1, 0, 0, 0, 0, now.Location())\<close>.\<close>

definition month_start :: "int \<Rightarrow> int \<Rightarrow> int" where
  "month_start tz t =
     (let n = day_number tz t in case civil n of (y, m, k) \<Rightarrow> day_begin tz (n - (k - 1)))"

text \<open>\<open>Weekday\<close>: 0 is Sunday; 1 January 1970 was a Thursday.\<close>

definition weekday :: "int \<Rightarrow> int \<Rightarrow> int" where
  "weekday tz t = (day_number tz t + 4) mod 7"

text \<open>\<open>t.AddDate(0, 0, k)\<close> in a location of fixed offset.\<close>

definition add_days :: "int \<Rightarrow> int \<Rightarrow> int" where
  "add_days t k = t + k * day"

section \<open>Lemmas\<close>

lemma day_pos: "0 < day"
  by (simp add: day_def)

lemma day_number_begin [simp]: "day_number tz (day_begin tz n) = n"
  by (simp add: day_number_def day_begin_def day_def)

lemma day_start_le: "day_start tz t \<le> t" and less_day_start: "t < day_start tz t + day"
proof -
  let ?x = "t + tz * second"
  have 1: "?x = ?x div day * day + ?x mod day" by simp
  have 2: "0 \<le> ?x mod day" "?x mod day < day" using day_pos by simp_all
  have eq: "day_start tz t = ?x div day * day - tz * second"
    by (simp add: day_start_def day_begin_def day_number_def)
  show "day_start tz t \<le> t" using 1 2(1) unfolding eq by linarith
  show "t < day_start tz t + day" using 1 2(2) unfolding eq by linarith
qed

lemma day_number_start [simp]: "day_number tz (day_start tz t) = day_number tz t"
  by (simp add: day_start_def)

lemma day_number_add_days [simp]: "day_number tz (add_days t k) = day_number tz t + k"
proof -
  have "(t + k * day + tz * second) div day = (t + tz * second + k * day) div day"
    by (simp add: algebra_simps)
  also have "\<dots> = (t + tz * second) div day + k"
    using div_mult_self1 [of day "t + tz * second" k] day_pos by simp
  finally show ?thesis by (simp add: day_number_def add_days_def)
qed

lemma weekday_range: "0 \<le> weekday tz t \<and> weekday tz t < 7"
  by (simp add: weekday_def)

lemma year_walk_range: "year_walk y d = (z, e) \<Longrightarrow> 0 \<le> e \<and> e < year_days z"
proof (induction y d rule: year_walk.induct)
  case (1 y d)
  then show ?case
    by (simp add: year_walk.simps [of y d] split: if_splits)
qed

text \<open>The day \<open>k\<close> of the year before day \<open>d\<close> is walked to the same year when it lies in it.\<close>

lemma year_walk_minus:
  "year_walk y d = (z, e) \<Longrightarrow> 0 \<le> k \<Longrightarrow> k \<le> e \<Longrightarrow> year_walk y (d - k) = (z, e - k)"
proof (induction y d rule: year_walk.induct)
  case (1 y d)
  consider "d < 0" | "0 \<le> d" "year_days y \<le> d" | "0 \<le> d" "d < year_days y" by linarith
  then show ?case
  proof cases
    case 1
    then have "year_walk (y - 1) (d + year_days (y - 1)) = (z, e)"
      using "1.prems"(1) by (simp add: year_walk.simps [of y d])
    with 1 "1.IH"(1) "1.prems" have "year_walk (y - 1) (d + year_days (y - 1) - k) = (z, e - k)"
      by simp
    then show ?thesis using 1 "1.prems"
      by (simp add: year_walk.simps [of y "d - k"] algebra_simps)
  next
    case 2
    then have walk: "year_walk (y + 1) (d - year_days y) = (z, e)"
      using "1.prems"(1) by (simp add: year_walk.simps [of y d])
    with 2 "1.IH"(2) "1.prems" have *: "year_walk (y + 1) (d - year_days y - k) = (z, e - k)"
      by simp
    show ?thesis
    proof (cases "d - k \<ge> year_days y")
      case True
      moreover have "0 \<le> year_days y" by (simp add: year_days_def)
      ultimately show ?thesis using *
        by (simp add: year_walk.simps [of y "d - k"] algebra_simps)
    next
      case False
      then have neg: "d - year_days y - k < 0" by simp
      have "year_walk (y + 1) (d - year_days y - k) = year_walk y (d - k)"
        using neg year_walk.simps [of "y + 1" "d - year_days y - k"] by simp
      then show ?thesis using * by simp
    qed
  next
    case 3
    then have "z = y" "e = d" using "1.prems"(1) by (simp_all add: year_walk.simps [of y d])
    then show ?thesis using 3 "1.prems" by (simp add: year_walk.simps [of y "d - k"])
  qed
qed

lemma month_walk_minus:
  "month_walk m ls d = (n, k) \<Longrightarrow> \<forall>l \<in> set ls. 0 < l \<Longrightarrow> 0 \<le> d \<Longrightarrow>
     0 \<le> k \<and> k \<le> d \<and> month_walk m ls (d - k) = (n, 0) \<and> (k < Max (set ls) \<or> sum_list ls \<le> d)"
proof (induction m ls d rule: month_walk.induct)
  case (1 m d)
  then show ?case by simp
next
  case (2 m l ls d)
  show ?case
  proof (cases "d < l")
    case True
    with "2.prems" have "n = m" "k = d" by simp_all
    moreover have "d < Max (set (l # ls))"
      using True by (metis List.finite_set Max_ge list.set_intros(1) order_less_le_trans)
    ultimately show ?thesis using "2.prems" True by simp
  next
    case False
    with 2 have IH: "0 \<le> k" "k \<le> d - l" "month_walk (m + 1) ls (d - l - k) = (n, 0)"
      "k < Max (set ls) \<or> sum_list ls \<le> d - l"
      by simp_all
    have "month_walk m (l # ls) (d - k) = (n, 0)"
      using IH False by (simp add: algebra_simps)
    moreover have "k < Max (set (l # ls)) \<or> sum_list (l # ls) \<le> d"
    proof (cases "ls = []")
      case True
      then show ?thesis using False by simp
    next
      case nonempty: False
      then have "Max (set ls) \<le> Max (set (l # ls))" by (intro Max_mono) auto
      then show ?thesis using IH(4) by auto
    qed
    moreover have "0 < l" using "2.prems"(2) by simp
    ultimately show ?thesis using IH by simp
  qed
qed

lemma sum_month_days: "sum_list (month_days y) = year_days y"
  by (simp add: month_days_def year_days_def)

lemma month_days_pos: "\<forall>l \<in> set (month_days y). 0 < l"
  by (simp add: month_days_def)

lemma Max_month_days: "Max (set (month_days y)) = 31"
  by (simp add: month_days_def)

text \<open>The day of the month lies in 1 to 31, and the first of that month is in the same month.\<close>

lemma civil_first:
  assumes "civil n = (y, m, k)"
  shows "1 \<le> k \<and> k \<le> 31 \<and> civil (n - (k - 1)) = (y, m, 1)"
proof -
  obtain d where yw: "year_walk 1970 n = (y, d)"
    and mw: "month_walk 0 (month_days y) d = (m - 1, k - 1)"
    using assms by (auto simp: civil_def split: prod.splits)
  have d: "0 \<le> d" "d < year_days y" using year_walk_range [OF yw] by auto
  note * = month_walk_minus [OF mw month_days_pos d(1)]
  then have k: "0 \<le> k - 1" "k - 1 \<le> d" "k - 1 < 31"
    and m0: "month_walk 0 (month_days y) (d - (k - 1)) = (m - 1, 0)"
    using d(2) by (auto simp: sum_month_days Max_month_days)
  have "year_walk 1970 (n - (k - 1)) = (y, d - (k - 1))"
    by (rule year_walk_minus [OF yw k(1,2)])
  then show ?thesis using k m0 by (simp add: civil_def)
qed

lemma month_start_bounds:
  "month_start tz t \<le> day_start tz t \<and> day_start tz t \<le> month_start tz t + 30 * day"
proof -
  obtain y m k where c: "civil (day_number tz t) = (y, m, k)" by (metis prod_cases3)
  note * = civil_first [OF c]
  have "0 \<le> (k - 1) * day" "(k - 1) * day \<le> 30 * day"
    using * day_pos by (simp_all add: mult_right_mono)
  then show ?thesis
    by (simp add: month_start_def c day_start_def day_begin_def left_diff_distrib Let_def)
qed

end
