(* ===== verification/Tables.thy ===== *)
theory Tables
  imports GoPrelude
begin

text \<open>
  Database tables as the repositories of internal/data use them through ent: rows with a
  primary key drawn from a sequence, unique indexes, one-row and many-row updates and deletes,
  and the errors ent returns. A statement may fail (\<open>fault\<close>), and every statement reads the
  clock of the moment (\<open>clock\<close>); both are arbitrary functions of the number of statements run
  so far. The code opens no transaction, so each statement stands alone.

  The locale \<open>row_table\<close> is what a table promises its repository: the invariant \<open>tbl_ok\<close>
  is kept by every operation, and a row is found again after it was written.
\<close>

record 'r tbl =
  rows :: "'r list"
  seq :: int

definition empty_tbl :: "'r tbl" where
  "empty_tbl = \<lparr>rows = [], seq = 0\<rparr>"

definition find_row :: "('r \<Rightarrow> int) \<Rightarrow> int \<Rightarrow> 'r tbl \<Rightarrow> 'r option" where
  "find_row rid i t = find (\<lambda>r. rid r = i) (rows t)"

definition insert_row ::
  "('r \<Rightarrow> 'r \<Rightarrow> bool) \<Rightarrow> (int \<Rightarrow> 'r) \<Rightarrow> 'r tbl \<Rightarrow> 'r result \<times> 'r tbl" where
  "insert_row clash mk t =
     (let r = mk (seq t + 1)
      in if \<exists>q \<in> set (rows t). clash q r
         then (Inl (DBConstraint ''unique''), t\<lparr>seq := seq t + 1\<rparr>)
         else (Inr r, \<lparr>rows = rows t @ [r], seq = seq t + 1\<rparr>))"

definition update_row ::
  "('r \<Rightarrow> int) \<Rightarrow> ('r \<Rightarrow> 'r \<Rightarrow> bool) \<Rightarrow> int \<Rightarrow> ('r \<Rightarrow> 'r) \<Rightarrow> 'r tbl \<Rightarrow> 'r result \<times> 'r tbl" where
  "update_row rid clash i f t =
     (case find_row rid i t of
        None \<Rightarrow> (Inl DBNotFound, t)
      | Some r \<Rightarrow>
          if \<exists>q \<in> set (rows t). rid q \<noteq> i \<and> clash q (f r)
          then (Inl (DBConstraint ''unique''), t)
          else (Inr (f r), t\<lparr>rows := map (\<lambda>q. if rid q = i then f r else q) (rows t)\<rparr>))"

definition update_rows :: "('r \<Rightarrow> bool) \<Rightarrow> ('r \<Rightarrow> 'r) \<Rightarrow> 'r tbl \<Rightarrow> int result \<times> 'r tbl" where
  "update_rows P f t =
     (Inr (int (length (filter P (rows t)))), t\<lparr>rows := map (\<lambda>q. if P q then f q else q) (rows t)\<rparr>)"

definition delete_row :: "('r \<Rightarrow> int) \<Rightarrow> int \<Rightarrow> 'r tbl \<Rightarrow> unit result \<times> 'r tbl" where
  "delete_row rid i t =
     (case find_row rid i t of
        None \<Rightarrow> (Inl DBNotFound, t)
      | Some r \<Rightarrow> (Inr (), t\<lparr>rows := filter (\<lambda>q. rid q \<noteq> i) (rows t)\<rparr>))"

definition delete_rows :: "('r \<Rightarrow> bool) \<Rightarrow> 'r tbl \<Rightarrow> int result \<times> 'r tbl" where
  "delete_rows P t =
     (Inr (int (length (filter P (rows t)))), t\<lparr>rows := filter (\<lambda>q. \<not> P q) (rows t)\<rparr>)"

text \<open>Queries leave the table as it is; \<open>only_row\<close> is ent's \<open>Only\<close>.\<close>

definition select_rows :: "('r \<Rightarrow> bool) \<Rightarrow> 'r tbl \<Rightarrow> 'r list result \<times> 'r tbl" where
  "select_rows P t = (Inr (filter P (rows t)), t)"

definition only_row :: "('r \<Rightarrow> bool) \<Rightarrow> 'r tbl \<Rightarrow> 'r result \<times> 'r tbl" where
  "only_row P t =
     (case filter P (rows t) of
        [] \<Rightarrow> (Inl DBNotFound, t)
      | [r] \<Rightarrow> (Inr r, t)
      | _ # _ # _ \<Rightarrow> (Inl (ErrText ''not singular''), t))"

definition get_row :: "('r \<Rightarrow> int) \<Rightarrow> int \<Rightarrow> 'r tbl \<Rightarrow> 'r result \<times> 'r tbl" where
  "get_row rid i t = (case find_row rid i t of None \<Rightarrow> (Inl DBNotFound, t) | Some r \<Rightarrow> (Inr r, t))"

text \<open>\<open>OFFSET\<close> and \<open>LIMIT\<close>; the callers normalise both to be non-negative.\<close>

definition page :: "int \<Rightarrow> int \<Rightarrow> 'a list \<Rightarrow> 'a list" where
  "page limit offset xs = take (nat limit) (drop (nat offset) xs)"

section \<open>Statements\<close>

record db =
  stmts :: nat
  fault :: "nat \<Rightarrow> bool"
  clock :: "nat \<Rightarrow> int"

definition db_stmt :: "('x db_scheme, 'a) op \<Rightarrow> ('x db_scheme, 'a) op" where
  "db_stmt body s =
     (let s1 = s\<lparr>stmts := Suc (stmts s)\<rparr>
      in if fault s (stmts s) then (Inl DBFailed, s1) else body s1)"

text \<open>The time \<open>time.Now\<close> reads.\<close>

definition db_now :: "'x db_scheme \<Rightarrow> int" where
  "db_now s = clock s (stmts s)"

text \<open>Read the clock, as an operation.\<close>

definition time_now :: "('x db_scheme, int) op" where
  "time_now s = (Inr (db_now s), s)"

text \<open>
  The checks of ent's generated builders run before the statement: a value too long or empty
  is refused without one.
\<close>

definition checked :: "bool \<Rightarrow> ('s, 'a) op \<Rightarrow> ('s, 'a) op" where
  "checked valid m = (if valid then m else fail (DBValidation ''validator failed for field''))"

definition max_len :: "nat \<Rightarrow> string \<Rightarrow> bool" where
  "max_len n s = (length s \<le> n)"

definition not_empty :: "string \<Rightarrow> bool" where
  "not_empty s = (s \<noteq> '''')"

lemma checked_True [simp]: "checked True m = m"
  by (simp add: checked_def)

lemma checked_Inr: "checked b m s = (Inr x, t) \<longleftrightarrow> b \<and> m s = (Inr x, t)"
  by (simp add: checked_def)

lemma keeps_checked [op_keeps]: "(b \<Longrightarrow> keeps P m) \<Longrightarrow> keeps P (checked b m)"
  by (auto simp: checked_def intro: op_keeps)

lemma bind_time_now [simp]: "bind_op time_now f s = f (db_now s) s"
  by (simp add: bind_op_def time_now_def)

lemma keeps_time_now [op_keeps]: "keeps P time_now"
  by (simp add: keeps_def time_now_def)

lemma keeps_db_stmt:
  assumes "\<And>s n. P s \<Longrightarrow> P (s\<lparr>stmts := n\<rparr>)" and "keeps P m"
  shows "keeps P (db_stmt m)"
  using assms by (auto simp: keeps_def db_stmt_def Let_def)

lemma db_stmt_Inr:
  "db_stmt m s = (Inr x, t) \<longleftrightarrow> \<not> fault s (stmts s) \<and> m (s\<lparr>stmts := Suc (stmts s)\<rparr>) = (Inr x, t)"
  by (simp add: db_stmt_def Let_def)

lemma db_stmt_ok:
  "\<not> fault s (stmts s) \<Longrightarrow> db_stmt m s = m (s\<lparr>stmts := Suc (stmts s)\<rparr>)"
  by (simp add: db_stmt_def Let_def)

lemma post_time_now: "(\<And>s. P s \<Longrightarrow> Q (Inr (db_now s)) s) \<Longrightarrow> post P time_now Q"
  by (simp add: post_def time_now_def)

lemma post_checked:
  "(\<And>s. P s \<Longrightarrow> Q (Inl (DBValidation ''validator failed for field'')) s) \<Longrightarrow>
   (b \<Longrightarrow> post P m Q) \<Longrightarrow> post P (checked b m) Q"
  by (simp add: checked_def post_def)

section \<open>The contract of a table\<close>

definition tbl_ok ::
  "('r \<Rightarrow> int) \<Rightarrow> ('r \<Rightarrow> 'r \<Rightarrow> bool) \<Rightarrow> ('r \<Rightarrow> bool) \<Rightarrow> 'r tbl \<Rightarrow> bool" where
  "tbl_ok rid clash valid t \<longleftrightarrow>
     distinct (map rid (rows t)) \<and>
     (\<forall>r \<in> set (rows t). 0 < rid r \<and> rid r \<le> seq t \<and> valid r) \<and> 0 \<le> seq t \<and>
     (\<forall>a \<in> set (rows t). \<forall>b \<in> set (rows t). rid a \<noteq> rid b \<longrightarrow> \<not> clash a b)"

lemma tbl_ok_empty [simp]: "tbl_ok rid clash valid empty_tbl"
  by (simp add: tbl_ok_def empty_tbl_def)

lemma tbl_okD:
  assumes "tbl_ok rid clash valid t" "r \<in> set (rows t)"
  shows "0 < rid r" "rid r \<le> seq t" "valid r"
  using assms by (auto simp: tbl_ok_def)

lemma tbl_ok_unique:
  "tbl_ok rid clash valid t \<Longrightarrow> a \<in> set (rows t) \<Longrightarrow> b \<in> set (rows t) \<Longrightarrow> clash a b \<Longrightarrow> rid a = rid b"
  unfolding tbl_ok_def by blast

lemma tbl_ok_same:
  assumes "tbl_ok rid clash valid t" "a \<in> set (rows t)" "b \<in> set (rows t)" "rid a = rid b"
  shows "a = b"
proof -
  have "inj_on rid (set (rows t))"
    using assms(1) by (simp add: tbl_ok_def distinct_map)
  then show ?thesis using assms by (simp add: inj_on_def)
qed

lemma find_row_Some: "find_row rid i t = Some r \<Longrightarrow> r \<in> set (rows t) \<and> rid r = i"
  by (auto simp: find_row_def find_Some_iff)

lemma find_row_None: "find_row rid i t = None \<longleftrightarrow> (\<forall>r \<in> set (rows t). rid r \<noteq> i)"
  by (auto simp: find_row_def find_None_iff)

lemma find_row_mem:
  assumes "tbl_ok rid clash valid t" "r \<in> set (rows t)"
  shows "find_row rid (rid r) t = Some r"
proof (cases "find_row rid (rid r) t")
  case None
  then have False using assms(2) by (auto simp: find_row_None)
  then show ?thesis ..
next
  case (Some q)
  then show ?thesis using find_row_Some [OF Some] tbl_ok_same [OF assms(1)] assms(2) by auto
qed

lemma tbl_ok_filter: "tbl_ok rid clash valid t \<Longrightarrow> tbl_ok rid clash valid (t\<lparr>rows := filter P (rows t)\<rparr>)"
  unfolding tbl_ok_def by (auto simp: distinct_map intro: inj_on_subset)

text \<open>A change of rows that keeps ids, validity and the unique columns.\<close>

lemma tbl_ok_map:
  assumes ok: "tbl_ok rid clash valid t"
    and rid: "\<And>r. r \<in> set (rows t) \<Longrightarrow> rid (g r) = rid r"
    and valid: "\<And>r. r \<in> set (rows t) \<Longrightarrow> valid (g r)"
    and clash: "\<And>a b. a \<in> set (rows t) \<Longrightarrow> b \<in> set (rows t) \<Longrightarrow> rid a \<noteq> rid b \<Longrightarrow> \<not> clash (g a) (g b)"
  shows "tbl_ok rid clash valid (t\<lparr>rows := map g (rows t)\<rparr>)"
proof -
  have "map rid (map g (rows t)) = map rid (rows t)" using rid by simp
  then have 1: "distinct (map rid (map g (rows t)))" using ok unfolding tbl_ok_def by metis
  have 2: "\<forall>r \<in> g ` set (rows t). 0 < rid r \<and> rid r \<le> seq t \<and> valid r"
    using rid valid tbl_okD(1,2) [OF ok] by simp
  have 3: "\<forall>a \<in> g ` set (rows t). \<forall>b \<in> g ` set (rows t). rid a \<noteq> rid b \<longrightarrow> \<not> clash a b"
    using rid clash by simp
  show ?thesis using ok 1 2 3 by (simp add: tbl_ok_def)
qed

lemma distinct_all_equal:
  "distinct xs \<Longrightarrow> (\<And>a b. a \<in> set xs \<Longrightarrow> b \<in> set xs \<Longrightarrow> a = b) \<Longrightarrow> xs = [] \<or> (\<exists>r. xs = [r])"
proof (cases xs)
  case (Cons r rs)
  assume d: "distinct xs" and eq: "\<And>a b. a \<in> set xs \<Longrightarrow> b \<in> set xs \<Longrightarrow> a = b"
  show ?thesis
  proof (cases rs)
    case (Cons q qs)
    have "q = r" using eq [of q r] Cons \<open>xs = r # rs\<close> by simp
    then show ?thesis using d Cons \<open>xs = r # rs\<close> by simp
  qed (simp add: \<open>xs = r # rs\<close>)
qed simp

locale row_table =
  fixes rid :: "'r \<Rightarrow> int" and clash :: "'r \<Rightarrow> 'r \<Rightarrow> bool" and valid :: "'r \<Rightarrow> bool"
  assumes clash_sym: "clash a b \<Longrightarrow> clash b a"
begin

lemma insert_cases:
  assumes "insert_row clash mk t = (res, t')"
  obtains "res = Inl (DBConstraint ''unique'')" "rows t' = rows t"
  | "res = Inr (mk (seq t + 1))" "rows t' = rows t @ [mk (seq t + 1)]"
  using assms by (auto simp: insert_row_def Let_def split: if_splits)

lemma insert_ok:
  assumes "tbl_ok rid clash valid t" "rid (mk (seq t + 1)) = seq t + 1" "valid (mk (seq t + 1))"
  shows "tbl_ok rid clash valid (snd (insert_row clash mk t))"
proof (cases "\<exists>q \<in> set (rows t). clash q (mk (seq t + 1))")
  case True
  then show ?thesis using assms by (auto simp: insert_row_def Let_def tbl_ok_def)
next
  case False
  have "\<And>r. r \<in> set (rows t) \<Longrightarrow> rid r < seq t + 1"
    using assms(1) by (auto simp: tbl_ok_def)
  moreover have "\<And>q. q \<in> set (rows t) \<Longrightarrow> \<not> clash (mk (seq t + 1)) q"
    using False clash_sym by blast
  ultimately show ?thesis
    using False assms by (fastforce simp: insert_row_def Let_def tbl_ok_def)
qed

lemma insert_found:
  assumes "tbl_ok rid clash valid t" "rid (mk (seq t + 1)) = seq t + 1"
    and "insert_row clash mk t = (Inr r, t')"
  shows "find_row rid (rid r) t' = Some r"
proof -
  have r: "r = mk (seq t + 1)" and t': "rows t' = rows t @ [r]"
    using assms(3) by (auto simp: insert_row_def Let_def split: if_splits)
  have "\<forall>q \<in> set (rows t). rid q \<noteq> rid r"
    using assms(1,2) r by (force simp: tbl_ok_def)
  then have "filter (\<lambda>q. rid q = rid r) (rows t) = []" by (simp add: filter_empty_conv)
  moreover have "\<And>xs. find (\<lambda>q. rid q = rid r) (xs @ [r]) = (case find (\<lambda>q. rid q = rid r) xs of None \<Rightarrow> Some r | Some q \<Rightarrow> Some q)"
    by (induct_tac xs) auto
  moreover have "find (\<lambda>q. rid q = rid r) (rows t) = None"
    using \<open>\<forall>q \<in> set (rows t). rid q \<noteq> rid r\<close> by (simp add: find_None_iff)
  ultimately show ?thesis by (simp add: find_row_def t')
qed

lemma update_cases:
  assumes "update_row rid clash i f t = (res, t')"
  obtains e where "res = Inl e" "t' = t"
  | r where "find_row rid i t = Some r" "res = Inr (f r)"
      "t' = t\<lparr>rows := map (\<lambda>q. if rid q = i then f r else q) (rows t)\<rparr>"
      "\<forall>q \<in> set (rows t). rid q \<noteq> i \<longrightarrow> \<not> clash q (f r)"
  using assms by (auto simp: update_row_def split: option.splits if_splits)

lemma update_ok:
  assumes ok: "tbl_ok rid clash valid t"
    and keep: "\<And>r. r \<in> set (rows t) \<Longrightarrow> rid r = i \<Longrightarrow> rid (f r) = i \<and> valid (f r)"
  shows "tbl_ok rid clash valid (snd (update_row rid clash i f t))"
proof -
  obtain res t' where eq: "update_row rid clash i f t = (res, t')" by fastforce
  then show ?thesis
  proof (cases rule: update_cases)
    case 1
    then show ?thesis using ok eq by simp
  next
    case (2 r)
    have r: "r \<in> set (rows t)" "rid r = i" using find_row_Some [OF 2(1)] by auto
    have "tbl_ok rid clash valid (t\<lparr>rows := map (\<lambda>q. if rid q = i then f r else q) (rows t)\<rparr>)"
    proof (rule tbl_ok_map [OF ok])
      fix a b assume ab: "a \<in> set (rows t)" "b \<in> set (rows t)" "rid a \<noteq> rid b"
      have "\<not> clash a b" using tbl_ok_unique [OF ok ab(1,2)] ab(3) by blast
      moreover have "rid a \<noteq> i \<Longrightarrow> \<not> clash a (f r)" using 2(4) ab(1) by blast
      moreover have "rid b \<noteq> i \<Longrightarrow> \<not> clash (f r) b" using 2(4) ab(2) clash_sym by blast
      ultimately show "\<not> clash (if rid a = i then f r else a) (if rid b = i then f r else b)"
        using ab(3) by auto
    next
      fix q assume "q \<in> set (rows t)"
      then show "rid (if rid q = i then f r else q) = rid q"
        and "valid (if rid q = i then f r else q)"
        using keep [OF r] tbl_okD(3) [OF ok] by simp_all
    qed
    then show ?thesis using eq 2(3) by simp
  qed
qed

lemma update_found:
  assumes "tbl_ok rid clash valid t" "update_row rid clash i f t = (Inr r, t')"
    and "\<And>r. r \<in> set (rows t) \<Longrightarrow> rid r = i \<Longrightarrow> rid (f r) = i"
  shows "find_row rid i t' = Some r"
    and "\<And>j. j \<noteq> i \<Longrightarrow> find_row rid j t' = find_row rid j t"
proof -
  obtain q where q: "find_row rid i t = Some q" "r = f q"
    and t': "t' = t\<lparr>rows := map (\<lambda>p. if rid p = i then f q else p) (rows t)\<rparr>"
    using assms(2) by (auto elim: update_cases)
  have fq: "rid (f q) = i" using find_row_Some [OF q(1)] assms(3) by blast
  have gen: "find (\<lambda>p. rid p = j) (map (\<lambda>p. if rid p = i then f q else p) xs) =
      (if j = i then map_option (\<lambda>_. f q) (find (\<lambda>p. rid p = i) xs) else find (\<lambda>p. rid p = j) xs)" for j xs
    using fq by (induction xs) auto
  show "find_row rid i t' = Some r" using q gen [of i] by (simp add: find_row_def t')
  show "\<And>j. j \<noteq> i \<Longrightarrow> find_row rid j t' = find_row rid j t"
    using gen by (simp add: find_row_def t')
qed

lemma update_rows_ok:
  assumes ok: "tbl_ok rid clash valid t"
    and "\<And>r. r \<in> set (rows t) \<Longrightarrow> P r \<Longrightarrow> rid (f r) = rid r \<and> valid (f r)"
    and "\<And>a b. P a \<Longrightarrow> clash (f a) b = clash a b"
  shows "tbl_ok rid clash valid (snd (update_rows P f t))"
proof -
  have "tbl_ok rid clash valid (t\<lparr>rows := map (\<lambda>q. if P q then f q else q) (rows t)\<rparr>)"
  proof (rule tbl_ok_map [OF ok])
    fix a b assume ab: "a \<in> set (rows t)" "b \<in> set (rows t)" "rid a \<noteq> rid b"
    have no: "\<not> clash a b" "\<not> clash b a"
      using tbl_ok_unique [OF ok ab(1,2)] tbl_ok_unique [OF ok ab(2,1)] ab(3) by auto
    have fa: "P a \<Longrightarrow> \<not> clash (f a) b" using no assms(3) by blast
    have fb: "P b \<Longrightarrow> \<not> clash a (f b)" using no assms(3) clash_sym by blast
    have "P a \<Longrightarrow> P b \<Longrightarrow> \<not> clash (f a) (f b)" using fb assms(3) by blast
    with no(1) fa fb show "\<not> clash (if P a then f a else a) (if P b then f b else b)"
      by (cases "P a"; cases "P b") simp_all
  next
    fix q assume "q \<in> set (rows t)"
    then show "rid (if P q then f q else q) = rid q" and "valid (if P q then f q else q)"
      using assms(2) tbl_okD(3) [OF ok] by simp_all
  qed
  then show ?thesis by (simp add: update_rows_def)
qed

lemma delete_ok: "tbl_ok rid clash valid t \<Longrightarrow> tbl_ok rid clash valid (snd (delete_row rid i t))"
  by (auto simp: delete_row_def tbl_ok_filter split: option.splits)

lemma delete_rows_ok: "tbl_ok rid clash valid t \<Longrightarrow> tbl_ok rid clash valid (snd (delete_rows P t))"
  by (simp add: delete_rows_def tbl_ok_filter)

lemma select_rows_ok: "tbl_ok rid clash valid t \<Longrightarrow> tbl_ok rid clash valid (snd (select_rows P t))"
  by (simp add: select_rows_def)

lemma only_row_ok: "tbl_ok rid clash valid t \<Longrightarrow> tbl_ok rid clash valid (snd (only_row P t))"
  by (auto simp: only_row_def split: list.splits)

lemma get_row_ok: "tbl_ok rid clash valid t \<Longrightarrow> tbl_ok rid clash valid (snd (get_row rid i t))"
  by (auto simp: get_row_def split: option.splits)

text \<open>A query by the columns of a unique index finds at most one row.\<close>

lemma only_row_unique:
  assumes ok: "tbl_ok rid clash valid t" and P: "\<And>a b. P a \<Longrightarrow> P b \<Longrightarrow> clash a b"
  shows "only_row P t =
           ((case find P (rows t) of None \<Rightarrow> Inl DBNotFound | Some r \<Rightarrow> Inr r), t)"
proof -
  have "distinct (filter P (rows t))"
    using ok by (simp add: tbl_ok_def distinct_map)
  moreover have "\<And>a b. a \<in> set (filter P (rows t)) \<Longrightarrow> b \<in> set (filter P (rows t)) \<Longrightarrow> a = b"
    using tbl_ok_unique [OF ok] tbl_ok_same [OF ok] P by simp
  ultimately have one: "filter P (rows t) = [] \<or> (\<exists>r. filter P (rows t) = [r])"
    by (rule distinct_all_equal)
  have "find P xs = (case filter P xs of [] \<Rightarrow> None | r # _ \<Rightarrow> Some r)" for xs
    by (induction xs) auto
  then show ?thesis using one by (auto simp: only_row_def)
qed

end

lemma only_row_table: "snd (only_row P t) = t"
  by (auto simp: only_row_def split: list.splits)

lemma select_rows_table: "snd (select_rows P t) = t"
  by (simp add: select_rows_def)

lemma get_row_table: "snd (get_row rid i t) = t"
  by (auto simp: get_row_def split: option.splits)

lemma only_row_Inr: "only_row P t = (Inr r, t') \<Longrightarrow> t' = t \<and> r \<in> set (rows t) \<and> P r"
proof -
  assume *: "only_row P t = (Inr r, t')"
  then have flt: "filter P (rows t) = [r]" and t': "t' = t"
    by (auto simp: only_row_def split: list.splits)
  have "r \<in> set (filter P (rows t))" unfolding flt by simp
  then show ?thesis using t' by simp
qed

lemma get_row_Inr: "get_row rid i t = (Inr r, t') \<Longrightarrow> t' = t \<and> r \<in> set (rows t) \<and> rid r = i"
  using find_row_Some by (fastforce simp: get_row_def split: option.splits)

end
