(* ===== verification/Store.thy ===== *)
theory Store
  imports Tables Catalog GoTime
begin

text \<open>
  The gateway's database: the rows of its tables, as the ent schema in
  internal/data/model/schema declares them (columns, validators, unique indexes), the structs of
  internal/biz that the repository returns, and the state the repository works on. A column
  that two structs share with a struct of biz is declared once: rows of the model, policy, price
  and alert rule tables have the fields of their biz structs and serve as both.

  The locale \<open>table_of\<close> says that a table is a component of the state which statements on it,
  and only they, change; \<open>stored_table\<close> adds the contract of the table itself.
\<close>

section \<open>API keys\<close>

text \<open>The ten quota fields, shared by the row, the inputs and the struct of a key.\<close>

record quotas =
  QuotaRequests :: int
  QuotaTotalTokens :: int
  QuotaDailyTokens :: int
  QuotaWeeklyTokens :: int
  QuotaDailyInputTokens :: int
  QuotaWeeklyInputTokens :: int
  QuotaDailyOutputTokens :: int
  QuotaWeeklyOutputTokens :: int
  QuotaDailyBillableInputTokens :: int
  QuotaWeeklyBillableInputTokens :: int

record api_key_row =
  k_id :: int
  k_owner_user_id :: "int option"
  k_name :: string
  k_key_hash :: string
  k_plain_key :: string
  k_key_prefix :: string
  k_key_last4 :: string
  k_disabled :: bool
  k_upstream_strategy :: string
  k_default_reasoning_effort :: string
  k_quotas :: quotas
  k_allowed_models :: "string list"
  k_last_used_at :: "int option"
  k_created_at :: int
  k_updated_at :: int

record GatewayAPIKey =
  key_ID :: int
  key_OwnerUserID :: int
  key_Name :: string
  key_PlainKey :: string
  key_KeyPrefix :: string
  key_KeyLast4 :: string
  key_Disabled :: bool
  key_UpstreamStrategy :: string
  key_DefaultReasoningEffort :: string
  key_Quotas :: quotas
  key_AllowedModels :: "string list"
  key_LastUsedAt :: "int option"
  key_CreatedAt :: int
  key_UpdatedAt :: int

record CreateGatewayAPIKeyInput =
  in_Name :: string
  in_OwnerUserID :: int
  in_Quotas :: quotas
  in_AllowedModels :: "string list"
  in_UpstreamStrategy :: string
  in_DefaultReasoningEffort :: string

record UpdateGatewayAPIKeyInput = CreateGatewayAPIKeyInput +
  in_ID :: int
  in_Disabled :: bool

definition key_name_valid :: "string \<Rightarrow> bool" where
  "key_name_valid s = (not_empty s \<and> max_len 80 s)"

definition key_secret_valid :: "string \<Rightarrow> string \<Rightarrow> string \<Rightarrow> string \<Rightarrow> bool" where
  "key_secret_valid hash plain prefix last4 =
     (not_empty hash \<and> max_len 64 hash \<and> max_len 128 plain \<and>
      not_empty prefix \<and> max_len 16 prefix \<and> not_empty last4 \<and> max_len 8 last4)"

definition key_options_valid :: "string \<Rightarrow> string \<Rightarrow> bool" where
  "key_options_valid strategy effort = (max_len 64 strategy \<and> max_len 16 effort)"

definition key_valid :: "api_key_row \<Rightarrow> bool" where
  "key_valid r =
     (key_name_valid (k_name r) \<and>
      key_secret_valid (k_key_hash r) (k_plain_key r) (k_key_prefix r) (k_key_last4 r) \<and>
      key_options_valid (k_upstream_strategy r) (k_default_reasoning_effort r))"

definition key_clash :: "api_key_row \<Rightarrow> api_key_row \<Rightarrow> bool" where
  "key_clash a b = (k_key_hash a = k_key_hash b)"

section \<open>Models, prices, policies, settings\<close>

definition context_valid :: "GatewayModelContextPolicy \<Rightarrow> bool" where
  "context_valid p =
     (0 \<le> ContextWindowTokens p \<and> 0 \<le> ContextCompactTokens p \<and> 0 \<le> ContextHardTokens p \<and>
      0 \<le> ContextCompactBytes p \<and> 0 \<le> ContextHardBytes p \<and> 0 \<le> ContextKeepItems p)"

definition model_valid :: "GatewayModel \<Rightarrow> bool" where
  "model_valid m =
     (not_empty (m_ModelID m) \<and> max_len 128 (m_ModelID m) \<and> max_len 128 (m_OwnedBy m) \<and>
      max_len 32 (m_Source m) \<and> context_valid (m_Context m))"

definition model_clash :: "GatewayModel \<Rightarrow> GatewayModel \<Rightarrow> bool" where
  "model_clash a b = (m_ModelID a = m_ModelID b)"

definition price_valid :: "GatewayModelPrice \<Rightarrow> bool" where
  "price_valid p = (not_empty (pr_ModelID p) \<and> max_len 128 (pr_ModelID p))"

definition price_clash :: "GatewayModelPrice \<Rightarrow> GatewayModelPrice \<Rightarrow> bool" where
  "price_clash a b = (pr_ModelID a = pr_ModelID b)"

record GatewayPolicy =
  po_ID :: int
  po_APIKeyID :: int
  po_ModelID :: string
  RPM :: int
  TPM :: int
  DailyRequests :: int
  MonthlyRequests :: int
  DailyTokens :: int
  MonthlyTokens :: int
  po_CreatedAt :: int
  po_UpdatedAt :: int

definition policy_valid :: "GatewayPolicy \<Rightarrow> bool" where
  "policy_valid p = (0 < po_APIKeyID p \<and> not_empty (po_ModelID p) \<and> max_len 128 (po_ModelID p))"

definition policy_clash :: "GatewayPolicy \<Rightarrow> GatewayPolicy \<Rightarrow> bool" where
  "policy_clash a b = (po_APIKeyID a = po_APIKeyID b \<and> po_ModelID a = po_ModelID b)"

record setting_row =
  s_id :: int
  s_key :: string
  s_value :: string
  s_created_at :: int
  s_updated_at :: int

definition setting_valid :: "setting_row \<Rightarrow> bool" where
  "setting_valid r = (not_empty (s_key r) \<and> max_len 128 (s_key r) \<and> max_len 512 (s_value r))"

definition setting_clash :: "setting_row \<Rightarrow> setting_row \<Rightarrow> bool" where
  "setting_clash a b = (s_key a = s_key b)"

section \<open>Usage logs\<close>

text \<open>
  A value of Go's \<open>any\<close> as it occurs in a JSON column: numbers read back from the column are
  float64, here rational; \<open>ANumber\<close> is a \<open>json.Number\<close>.
\<close>

datatype any =
    ANil
  | ABool bool
  | AInt int
  | AFloat rat
  | ANumber string
  | AStr string

record usage_row =
  u_id :: int
  u_api_key_id :: "int option"
  u_api_key_prefix :: string
  u_client_type :: string
  u_client_ip :: string
  u_session_id :: string
  u_request_id :: string
  u_method :: string
  u_path :: string
  u_endpoint :: string
  u_model :: string
  u_reasoning_effort :: string
  u_status_code :: int
  u_success :: bool
  u_stream :: bool
  u_input_tokens :: int
  u_output_tokens :: int
  u_total_tokens :: int
  u_cached_tokens :: int
  u_reasoning_tokens :: int
  u_request_bytes :: int
  u_response_bytes :: int
  u_duration_ms :: int
  u_upstream_configured_mode :: string
  u_upstream_mode :: string
  u_upstream_fallback :: bool
  u_upstream_error_type :: string
  u_diagnostic :: "(string \<times> any) list"
  u_error_type :: string
  u_created_at :: int

definition usage_valid :: "usage_row \<Rightarrow> bool" where
  "usage_valid r =
     (max_len 16 (u_api_key_prefix r) \<and> max_len 32 (u_client_type r) \<and> max_len 64 (u_client_ip r) \<and>
      max_len 128 (u_session_id r) \<and> max_len 128 (u_request_id r) \<and>
      not_empty (u_method r) \<and> max_len 16 (u_method r) \<and>
      not_empty (u_path r) \<and> max_len 256 (u_path r) \<and> max_len 64 (u_endpoint r) \<and>
      max_len 128 (u_model r) \<and> max_len 16 (u_reasoning_effort r) \<and>
      max_len 32 (u_upstream_configured_mode r) \<and> max_len 32 (u_upstream_mode r) \<and>
      max_len 128 (u_upstream_error_type r) \<and> max_len 128 (u_error_type r))"

text \<open>A table without a unique index besides the primary key.\<close>

definition no_clash :: "'r \<Rightarrow> 'r \<Rightarrow> bool" where
  "no_clash a b = False"

section \<open>Alerts, audit, context summaries\<close>

record GatewayAlertRule =
  a_ID :: int
  a_Name :: string
  a_Metric :: string
  a_Operator :: string
  a_Threshold :: rat
  a_WindowSeconds :: int
  a_Enabled :: bool
  a_CreatedAt :: int
  a_UpdatedAt :: int

definition rule_valid :: "GatewayAlertRule \<Rightarrow> bool" where
  "rule_valid r =
     (not_empty (a_Name r) \<and> max_len 128 (a_Name r) \<and> not_empty (a_Metric r) \<and>
      max_len 64 (a_Metric r) \<and> max_len 8 (a_Operator r))"

record event_row =
  e_id :: int
  e_rule_id :: "int option"
  e_rule_name :: string
  e_metric :: string
  e_value :: rat
  e_threshold :: rat
  e_status :: string
  e_ack_by :: "int option"
  e_ack_at :: "int option"
  e_created_at :: int

definition event_valid :: "event_row \<Rightarrow> bool" where
  "event_valid r =
     (max_len 128 (e_rule_name r) \<and> not_empty (e_metric r) \<and> max_len 64 (e_metric r) \<and>
      max_len 32 (e_status r))"

record audit_row =
  g_id :: int
  g_actor_id :: int
  g_actor_name :: string
  g_actor_role :: string
  g_action :: string
  g_target_type :: string
  g_target_id :: string
  g_metadata :: "(string \<times> any) list"
  g_created_at :: int

definition audit_valid :: "audit_row \<Rightarrow> bool" where
  "audit_valid r =
     (max_len 128 (g_actor_name r) \<and> max_len 32 (g_actor_role r) \<and> not_empty (g_action r) \<and>
      max_len 128 (g_action r) \<and> max_len 64 (g_target_type r) \<and> max_len 128 (g_target_id r))"

record summary_row =
  c_id :: int
  c_session_id :: string
  c_api_key_id :: "int option"
  c_api_key_prefix :: string
  c_summary :: string
  c_summary_tokens :: int
  c_compaction_count :: int
  c_last_request_id :: string
  c_last_reason :: string
  c_last_original_bytes :: int
  c_last_compacted_bytes :: int
  c_last_original_tokens :: int
  c_last_compacted_tokens :: int
  c_last_error :: string
  c_created_at :: int
  c_updated_at :: int

definition summary_valid :: "summary_row \<Rightarrow> bool" where
  "summary_valid r =
     (not_empty (c_session_id r) \<and> max_len 128 (c_session_id r) \<and> max_len 16 (c_api_key_prefix r) \<and>
      max_len 128 (c_last_request_id r) \<and> max_len 64 (c_last_reason r) \<and> max_len 256 (c_last_error r))"

definition summary_clash :: "summary_row \<Rightarrow> summary_row \<Rightarrow> bool" where
  "summary_clash a b = (c_session_id a = c_session_id b)"

section \<open>The state\<close>

record store = db +
  keys :: "api_key_row tbl"
  models :: "GatewayModel tbl"
  policies :: "GatewayPolicy tbl"
  prices :: "GatewayModelPrice tbl"
  settings :: "setting_row tbl"
  usage :: "usage_row tbl"
  rules :: "GatewayAlertRule tbl"
  events :: "event_row tbl"
  audits :: "audit_row tbl"
  summaries :: "summary_row tbl"

text \<open>A fresh database with a given clock, on which no statement fails.\<close>

definition fresh_store :: "(nat \<Rightarrow> int) \<Rightarrow> store" where
  "fresh_store c =
     \<lparr>stmts = 0, fault = (\<lambda>_. False), clock = c, keys = empty_tbl, models = empty_tbl,
      policies = empty_tbl, prices = empty_tbl, settings = empty_tbl, usage = empty_tbl,
      rules = empty_tbl, events = empty_tbl, audits = empty_tbl, summaries = empty_tbl\<rparr>"

definition clock0 :: "nat \<Rightarrow> int" where
  "clock0 n = 0"

text \<open>A statement on one table.\<close>

definition on_tbl ::
  "(store \<Rightarrow> 'r tbl) \<Rightarrow> ('r tbl \<Rightarrow> store \<Rightarrow> store) \<Rightarrow> ('r tbl \<Rightarrow> 'a result \<times> 'r tbl) \<Rightarrow> (store, 'a) op" where
  "on_tbl get put body = db_stmt (\<lambda>s. case body (get s) of (r, t) \<Rightarrow> (r, put t s))"

abbreviation on_keys where "on_keys \<equiv> on_tbl keys (\<lambda>t s. s\<lparr>keys := t\<rparr>)"
abbreviation on_models where "on_models \<equiv> on_tbl models (\<lambda>t s. s\<lparr>models := t\<rparr>)"
abbreviation on_policies where "on_policies \<equiv> on_tbl policies (\<lambda>t s. s\<lparr>policies := t\<rparr>)"
abbreviation on_prices where "on_prices \<equiv> on_tbl prices (\<lambda>t s. s\<lparr>prices := t\<rparr>)"
abbreviation on_settings where "on_settings \<equiv> on_tbl settings (\<lambda>t s. s\<lparr>settings := t\<rparr>)"
abbreviation on_usage where "on_usage \<equiv> on_tbl usage (\<lambda>t s. s\<lparr>usage := t\<rparr>)"
abbreviation on_rules where "on_rules \<equiv> on_tbl rules (\<lambda>t s. s\<lparr>rules := t\<rparr>)"
abbreviation on_events where "on_events \<equiv> on_tbl events (\<lambda>t s. s\<lparr>events := t\<rparr>)"
abbreviation on_audits where "on_audits \<equiv> on_tbl audits (\<lambda>t s. s\<lparr>audits := t\<rparr>)"
abbreviation on_summaries where "on_summaries \<equiv> on_tbl summaries (\<lambda>t s. s\<lparr>summaries := t\<rparr>)"

definition store_ok :: "store \<Rightarrow> bool" where
  "store_ok s \<longleftrightarrow>
     tbl_ok k_id key_clash key_valid (keys s) \<and>
     tbl_ok m_ID model_clash model_valid (models s) \<and>
     tbl_ok po_ID policy_clash policy_valid (policies s) \<and>
     tbl_ok pr_ID price_clash price_valid (prices s) \<and>
     tbl_ok s_id setting_clash setting_valid (settings s) \<and>
     tbl_ok u_id no_clash usage_valid (usage s) \<and>
     tbl_ok a_ID no_clash rule_valid (rules s) \<and>
     tbl_ok e_id no_clash event_valid (events s) \<and>
     tbl_ok g_id no_clash audit_valid (audits s) \<and>
     tbl_ok c_id summary_clash summary_valid (summaries s)"

lemma fresh_store_ok: "store_ok (fresh_store c)"
  by (simp add: store_ok_def fresh_store_def)

lemma store_ok_stmts [simp]: "store_ok (s\<lparr>stmts := n\<rparr>) = store_ok s"
  by (simp add: store_ok_def)

section \<open>Statements on one table\<close>

locale table_of =
  fixes get :: "store \<Rightarrow> 'r tbl" and put :: "'r tbl \<Rightarrow> store \<Rightarrow> store"
  assumes get_put [simp]: "get (put t s) = t"
    and put_stmts [simp]: "stmts (put t s) = stmts s" "fault (put t s) = fault s" "clock (put t s) = clock s"
    and get_stmts [simp]: "get (s\<lparr>stmts := n\<rparr>) = get s"
begin

lemma on_tbl_Inr:
  "on_tbl get put body s = (Inr x, s') \<longleftrightarrow>
     \<not> fault s (stmts s) \<and>
     (\<exists>t. body (get s) = (Inr x, t) \<and> s' = put t (s\<lparr>stmts := Suc (stmts s)\<rparr>))"
  by (auto simp: on_tbl_def db_stmt_def Let_def split: prod.splits)

lemma on_tbl_run:
  "\<not> fault s (stmts s) \<Longrightarrow> body (get s) = (r, t) \<Longrightarrow>
     on_tbl get put body s = (r, put t (s\<lparr>stmts := Suc (stmts s)\<rparr>))"
  by (simp add: on_tbl_def db_stmt_def)

lemma on_tbl_fault:
  "fault s (stmts s) \<Longrightarrow> on_tbl get put body s = (Inl DBFailed, s\<lparr>stmts := Suc (stmts s)\<rparr>)"
  by (simp add: on_tbl_def db_stmt_def)

lemma on_tbl_keeps:
  assumes "\<And>s n. P s \<Longrightarrow> P (s\<lparr>stmts := n\<rparr>)" and "\<And>s. P s \<Longrightarrow> P (put (snd (body (get s))) s)"
  shows "keeps P (on_tbl get put body)"
  unfolding on_tbl_def
  by (rule keeps_db_stmt) (simp_all add: assms keeps_def case_prod_beta)

lemma on_tbl_cases:
  assumes "on_tbl get put body s = (r, s')"
  obtains (fault) "r = Inl DBFailed" "s' = s\<lparr>stmts := Suc (stmts s)\<rparr>"
  | (run) t where "body (get s) = (r, t)" "s' = put t (s\<lparr>stmts := Suc (stmts s)\<rparr>)"
  using assms by (auto simp: on_tbl_def db_stmt_def Let_def split: prod.splits if_splits)

text \<open>What a statement on this table leaves of the state: everything outside it.\<close>

lemma on_tbl_frame:
  assumes "\<And>s n. f (s\<lparr>stmts := n\<rparr>) = f s" and "\<And>t s. f (put t s) = f s"
  shows "f (snd (on_tbl get put body s)) = f s"
  using assms by (auto simp: on_tbl_def db_stmt_def Let_def split: prod.splits)

lemma keeps_frame:
  assumes "\<And>s n. f (s\<lparr>stmts := n\<rparr>) = f s" and "\<And>t s. f (put t s) = f s"
  shows "keeps (\<lambda>s. P (f s)) (on_tbl get put body)"
proof -
  have "f (snd (on_tbl get put body s)) = f s" for s
    by (rule on_tbl_frame) (simp_all add: assms)
  then show ?thesis unfolding keeps_def by metis
qed

lemma post_stmt:
  assumes "\<And>s n. P s \<Longrightarrow> P (s\<lparr>stmts := n\<rparr>)"
    and "\<And>s. P s \<Longrightarrow> Q (Inl DBFailed) s"
    and "\<And>s r t. P s \<Longrightarrow> body (get s) = (r, t) \<Longrightarrow> Q r (put t s)"
  shows "post P (on_tbl get put body) Q"
proof (rule postI)
  fix s r s' assume P: "P s" and run: "on_tbl get put body s = (r, s')"
  from run show "Q r s'"
  proof (cases rule: on_tbl_cases)
    case fault
    then show ?thesis using assms(1,2) P by blast
  next
    case (run t)
    then show ?thesis using assms(3) [OF assms(1) [OF P]] by simp
  qed
qed

text \<open>A statement that always runs to its end can only fail as a whole.\<close>

lemma post_total:
  assumes "keeps I (on_tbl get put body)" and "\<And>t. \<exists>x. fst (body t) = Inr x"
  shows "post I (on_tbl get put body) (either (\<lambda>e s. e = DBFailed \<and> I s) (\<lambda>_. I))"
proof (rule postI)
  fix s r s' assume I: "I s" and run: "on_tbl get put body s = (r, s')"
  have "I s'" by (rule keepsD [OF assms(1) I run])
  from run show "either (\<lambda>e s. e = DBFailed \<and> I s) (\<lambda>_. I) r s'"
  proof (cases rule: on_tbl_cases)
    case fault
    then show ?thesis using \<open>I s'\<close> by simp
  next
    case (run t)
    then obtain x where "r = Inr x" using assms(2) [of "get s"] by auto
    then show ?thesis using \<open>I s'\<close> by simp
  qed
qed

lemma post_select:
  assumes "keeps I (on_tbl get put (select_rows P))"
  shows "post I (on_tbl get put (select_rows P))
           (either (\<lambda>e s. e = DBFailed \<and> I s) (\<lambda>xs s. I s \<and> xs = filter P (rows (get s))))"
proof (rule postI)
  fix s r s' assume I: "I s" and run: "on_tbl get put (select_rows P) s = (r, s')"
  have "I s'" by (rule keepsD [OF assms I run])
  from run show "either (\<lambda>e s. e = DBFailed \<and> I s) (\<lambda>xs s. I s \<and> xs = filter P (rows (get s))) r s'"
  proof (cases rule: on_tbl_cases)
    case fault
    then show ?thesis using \<open>I s'\<close> by simp
  next
    case (run t)
    then show ?thesis using \<open>I s'\<close> by (auto simp: select_rows_def)
  qed
qed

text \<open>A property of every row of the table.\<close>

lemma keeps_rows:
  assumes "\<And>t. \<forall>r \<in> set (rows t). Q r \<Longrightarrow> \<forall>r \<in> set (rows (snd (body t))). Q r"
  shows "keeps (\<lambda>s. \<forall>r \<in> set (rows (get s)). Q r) (on_tbl get put body)"
  by (rule on_tbl_keeps) (simp_all add: assms)

lemma keeps_rows_insert:
  "(\<And>i. Q (mk i)) \<Longrightarrow>
   keeps (\<lambda>s. \<forall>r \<in> set (rows (get s)). Q r) (on_tbl get put (insert_row clash mk))"
  by (rule keeps_rows) (auto simp: insert_row_def Let_def)

lemma keeps_rows_update:
  "(\<And>r. Q r \<Longrightarrow> Q (f r)) \<Longrightarrow>
   keeps (\<lambda>s. \<forall>r \<in> set (rows (get s)). Q r) (on_tbl get put (update_row rid clash i f))"
  by (rule keeps_rows) (auto simp: update_row_def dest: find_row_Some split: option.splits)

lemma keeps_rows_update_rows:
  "(\<And>r. Q r \<Longrightarrow> Q (f r)) \<Longrightarrow>
   keeps (\<lambda>s. \<forall>r \<in> set (rows (get s)). Q r) (on_tbl get put (update_rows P f))"
  by (rule keeps_rows) (auto simp: update_rows_def)

lemma keeps_rows_delete:
  "keeps (\<lambda>s. \<forall>r \<in> set (rows (get s)). Q r) (on_tbl get put (delete_row rid i))"
  by (rule keeps_rows) (auto simp: delete_row_def split: option.splits)

lemma keeps_rows_delete_rows:
  "keeps (\<lambda>s. \<forall>r \<in> set (rows (get s)). Q r) (on_tbl get put (delete_rows P))"
  by (rule keeps_rows) (auto simp: delete_rows_def)

lemma keeps_rows_reads:
  "keeps (\<lambda>s. \<forall>r \<in> set (rows (get s)). Q r) (on_tbl get put (select_rows P))"
  "keeps (\<lambda>s. \<forall>r \<in> set (rows (get s)). Q r) (on_tbl get put (only_row P))"
  "keeps (\<lambda>s. \<forall>r \<in> set (rows (get s)). Q r) (on_tbl get put (get_row rid i))"
  by (rule keeps_rows; simp add: select_rows_table only_row_table get_row_table)+

lemmas keeps_rows_stmts = keeps_rows_insert keeps_rows_update keeps_rows_update_rows
  keeps_rows_delete keeps_rows_delete_rows keeps_rows_reads

end

locale stored_table = row_table rid clash valid + table_of get put
  for rid :: "'r \<Rightarrow> int" and clash :: "'r \<Rightarrow> 'r \<Rightarrow> bool" and valid :: "'r \<Rightarrow> bool"
  and get :: "store \<Rightarrow> 'r tbl" and put :: "'r tbl \<Rightarrow> store \<Rightarrow> store" +
  assumes store_okD: "store_ok s \<Longrightarrow> tbl_ok rid clash valid (get s)"
    and store_ok_put: "store_ok s \<Longrightarrow> tbl_ok rid clash valid t \<Longrightarrow> store_ok (put t s)"
begin

lemma keeps_body:
  assumes "\<And>t. tbl_ok rid clash valid t \<Longrightarrow> tbl_ok rid clash valid (snd (body t))"
  shows "keeps store_ok (on_tbl get put body)"
  by (rule on_tbl_keeps) (simp_all add: store_okD store_ok_put assms)

lemma keeps_insert:
  assumes "\<And>i. rid (mk i) = i" and "\<And>i. valid (mk i)"
  shows "keeps store_ok (on_tbl get put (insert_row clash mk))"
  by (rule keeps_body) (simp add: insert_ok assms)

lemma keeps_update:
  assumes "\<And>r. rid (f r) = rid r" and "\<And>r. valid r \<Longrightarrow> valid (f r)"
  shows "keeps store_ok (on_tbl get put (update_row rid clash i f))"
  by (rule keeps_body) (auto intro!: update_ok simp: assms tbl_okD)

lemma keeps_update_rows:
  assumes "\<And>r. rid (f r) = rid r" and "\<And>r. valid r \<Longrightarrow> valid (f r)"
    and "\<And>a b. clash (f a) b = clash a b"
  shows "keeps store_ok (on_tbl get put (update_rows P f))"
  by (rule keeps_body, rule update_rows_ok) (auto simp: assms tbl_okD)

lemma keeps_delete: "keeps store_ok (on_tbl get put (delete_row rid i))"
  by (rule keeps_body) (rule delete_ok)

lemma keeps_delete_rows: "keeps store_ok (on_tbl get put (delete_rows P))"
  by (rule keeps_body) (rule delete_rows_ok)

lemma keeps_select: "keeps store_ok (on_tbl get put (select_rows P))"
  by (rule keeps_body) (rule select_rows_ok)

lemma keeps_only: "keeps store_ok (on_tbl get put (only_row P))"
  by (rule keeps_body) (rule only_row_ok)

lemma keeps_get: "keeps store_ok (on_tbl get put (get_row rid i))"
  by (rule keeps_body) (rule get_row_ok)

lemmas keeps_stmts =
  keeps_insert keeps_update keeps_update_rows keeps_delete keeps_delete_rows keeps_select keeps_only keeps_get

text \<open>A query by a unique index, run on a well-formed store, is a search.\<close>

lemma only_search:
  assumes "store_ok s" "\<not> fault s (stmts s)" "\<And>a b. P a \<Longrightarrow> P b \<Longrightarrow> clash a b"
  shows "on_tbl get put (only_row P) s =
           (case find P (rows (get s)) of None \<Rightarrow> Inl DBNotFound | Some r \<Rightarrow> Inr r,
            put (get s) (s\<lparr>stmts := Suc (stmts s)\<rparr>))"
  using only_row_unique [OF store_okD [OF assms(1)] assms(3)]
  by (intro on_tbl_run) (simp_all add: assms(2))

end

lemmas clash_defs = key_clash_def model_clash_def policy_clash_def price_clash_def
  setting_clash_def summary_clash_def no_clash_def

interpretation key_tbl: stored_table k_id key_clash key_valid keys "\<lambda>t s. s\<lparr>keys := t\<rparr>"
  by unfold_locales (auto simp: clash_defs store_ok_def)
interpretation model_tbl: stored_table m_ID model_clash model_valid models "\<lambda>t s. s\<lparr>models := t\<rparr>"
  by unfold_locales (auto simp: clash_defs store_ok_def)
interpretation policy_tbl: stored_table po_ID policy_clash policy_valid policies "\<lambda>t s. s\<lparr>policies := t\<rparr>"
  by unfold_locales (auto simp: clash_defs store_ok_def)
interpretation price_tbl: stored_table pr_ID price_clash price_valid prices "\<lambda>t s. s\<lparr>prices := t\<rparr>"
  by unfold_locales (auto simp: clash_defs store_ok_def)
interpretation setting_tbl: stored_table s_id setting_clash setting_valid settings "\<lambda>t s. s\<lparr>settings := t\<rparr>"
  by unfold_locales (auto simp: clash_defs store_ok_def)
interpretation usage_tbl: stored_table u_id no_clash usage_valid usage "\<lambda>t s. s\<lparr>usage := t\<rparr>"
  by unfold_locales (auto simp: clash_defs store_ok_def)
interpretation rule_tbl: stored_table a_ID no_clash rule_valid rules "\<lambda>t s. s\<lparr>rules := t\<rparr>"
  by unfold_locales (auto simp: clash_defs store_ok_def)
interpretation event_tbl: stored_table e_id no_clash event_valid events "\<lambda>t s. s\<lparr>events := t\<rparr>"
  by unfold_locales (auto simp: clash_defs store_ok_def)
interpretation audit_tbl: stored_table g_id no_clash audit_valid audits "\<lambda>t s. s\<lparr>audits := t\<rparr>"
  by unfold_locales (auto simp: clash_defs store_ok_def)
interpretation summary_tbl: stored_table c_id summary_clash summary_valid summaries "\<lambda>t s. s\<lparr>summaries := t\<rparr>"
  by unfold_locales (auto simp: clash_defs store_ok_def)

end
