(* ===== verification/Limiter.thy ===== *)
theory Limiter
  imports Content GoTime Store "HOL-Library.Multiset"
begin

text \<open>
  The guard against large requests (internal/server/openai\_gateway\_handler.go): how many
  of a key run at the same time (\<open>gatewayInFlightLimiter\<close>) and how many start within a window of
  time (\<open>gatewayBurstLimiter\<close>). Each method holds the mutex of its limiter throughout, so it is one
  step; requests run concurrently, so their steps interleave in any order.
\<close>

section \<open>Configuration\<close>

definition envInt :: "(string \<Rightarrow> string) \<Rightarrow> string \<Rightarrow> int \<Rightarrow> int" where
  "envInt env name fallback =
     (let raw = TrimSpace (env name)
      in if raw = '''' then fallback else case ParseInt raw of Some n \<Rightarrow> n | None \<Rightarrow> fallback)"

definition defaultGatewayLargeRequestMinBytes :: int where
  "defaultGatewayLargeRequestMinBytes = 65536"
definition defaultGatewayLargeRequestMaxInFlight :: int where
  "defaultGatewayLargeRequestMaxInFlight = 30"
definition defaultGatewayLargeRequestBurstMax :: int where
  "defaultGatewayLargeRequestBurstMax = 120"
definition defaultGatewayLargeRequestBurstWindow :: int where
  "defaultGatewayLargeRequestBurstWindow = 60 * second"

definition gatewayLargeRequestMinBytes :: "(string \<Rightarrow> string) \<Rightarrow> int" where
  "gatewayLargeRequestMinBytes env = envInt env ''GATEWAY_LARGE_REQUEST_MIN_BYTES'' defaultGatewayLargeRequestMinBytes"

definition gatewayLargeRequestMaxInFlightPerKey :: "(string \<Rightarrow> string) \<Rightarrow> int" where
  "gatewayLargeRequestMaxInFlightPerKey env =
     envInt env ''GATEWAY_LARGE_REQUEST_MAX_INFLIGHT_PER_KEY'' defaultGatewayLargeRequestMaxInFlight"

definition gatewayLargeRequestBurstMaxPerKey :: "(string \<Rightarrow> string) \<Rightarrow> int" where
  "gatewayLargeRequestBurstMaxPerKey env =
     envInt env ''GATEWAY_LARGE_REQUEST_BURST_MAX_PER_KEY'' defaultGatewayLargeRequestBurstMax"

text \<open>A duration is an int64 of nanoseconds.\<close>

definition gatewayLargeRequestBurstWindowPerKey :: "(string \<Rightarrow> string) \<Rightarrow> int" where
  "gatewayLargeRequestBurstWindowPerKey env =
     (let seconds = envInt env ''GATEWAY_LARGE_REQUEST_BURST_WINDOW_SECONDS''
            (defaultGatewayLargeRequestBurstWindow div second)
      in if seconds \<le> 0 then 0 else wrap64 (seconds * second))"

definition gatewayLargeRequestNeedsGuard :: "(string \<Rightarrow> string) \<Rightarrow> string \<Rightarrow> string \<Rightarrow> bool" where
  "gatewayLargeRequestNeedsGuard env path body =
     (path \<in> {''/v1/responses'', ''/v1/chat/completions''} \<and>
      (let threshold = gatewayLargeRequestMinBytes env in 0 < threshold \<and> threshold \<le> int (length body)))"

definition gatewayLargeRequestLimiterKey :: "GatewayAPIKey option \<Rightarrow> string" where
  "gatewayLargeRequestLimiterKey key =
     (case key of
        None \<Rightarrow> ''''
      | Some k \<Rightarrow> if 0 < key_ID k then ''key:'' @ Itoa (key_ID k) else ''prefix:'' @ TrimSpace (key_KeyPrefix k))"

datatype limit_error = LargeRequestInFlight | LargeRequestBurst

definition gatewayLargeRequestRetryAfterSeconds :: "(string \<Rightarrow> string) \<Rightarrow> int" where
  "gatewayLargeRequestRetryAfterSeconds env =
     (let seconds = gatewayLargeRequestBurstWindowPerKey env div second
      in if seconds \<le> 0 then defaultGatewayLargeRequestBurstWindow div second else seconds)"

definition gatewayLargeRequestLimitMessage :: "limit_error \<Rightarrow> int \<Rightarrow> string" where
  "gatewayLargeRequestLimitMessage err retryAfterSeconds =
     (let wait = (if 0 < retryAfterSeconds
                  then from_hex ''E7BAA620'' @ Itoa retryAfterSeconds @ from_hex ''20E7A792E5908E''
                  else from_hex ''E7A88DE5908E'')
      in case err of
           LargeRequestInFlight \<Rightarrow>
             from_hex ''E5908CE4B88020415049206B657920E5B7B2E69C89E5A4A7E4B88AE4B88BE69687E8AFB7E6B182E59CA8E8BF90E8A18CEFBC8CE8AFB7'' @
             wait @
             from_hex ''E9878DE8AF95EFBC9BE8BF99E698AFE7BD91E585B3E4BF9DE68AA4EFBC8CE794A8E4BA8EE981BFE5858DE9878DE5A48DE6B688E8809720746F6B656EE38082''
         | LargeRequestBurst \<Rightarrow>
             from_hex ''E5908CE4B88020415049206B657920E79A84E5A4A7E4B88AE4B88BE69687E8AFB7E6B182E8BF87E4BA8EE9A291E7B981EFBC8CE8AFB7'' @
             wait @
             from_hex ''E9878DE8AF95EFBC9BE8BF99E698AFE7BD91E585B3E4BF9DE68AA4EFBC8CE4B88DE698AFE4B88AE6B8B8E9A29DE5BAA6E88097E5B0BDE38082'')"

section \<open>The limiters\<close>

type_synonym gatewayInFlightLimiter = "string \<rightharpoonup> int"
type_synonym gatewayBurstLimiter = "string \<rightharpoonup> int list"

definition count_of :: "gatewayInFlightLimiter \<Rightarrow> string \<Rightarrow> int" where
  "count_of l k = (case l k of None \<Rightarrow> 0 | Some n \<Rightarrow> n)"

text \<open>\<open>tryAcquire\<close>: whether there is something to release, whether the request may run.\<close>

definition tryAcquire :: "string \<Rightarrow> int \<Rightarrow> gatewayInFlightLimiter \<Rightarrow> (bool \<times> bool) \<times> gatewayInFlightLimiter" where
  "tryAcquire k limit l =
     (if TrimSpace k = '''' \<or> limit \<le> 0 then ((False, True), l)
      else if limit \<le> count_of l k then ((False, False), l)
      else ((True, True), l(k \<mapsto> count_of l k + 1)))"

text \<open>The function \<open>tryAcquire\<close> returns.\<close>

definition release :: "string \<Rightarrow> gatewayInFlightLimiter \<Rightarrow> gatewayInFlightLimiter" where
  "release k l = (if count_of l k \<le> 1 then l(k := None) else l(k \<mapsto> count_of l k - 1))"

definition event_times :: "gatewayBurstLimiter \<Rightarrow> string \<Rightarrow> int list" where
  "event_times l k = (case l k of None \<Rightarrow> [] | Some ts \<Rightarrow> ts)"

definition allow :: "string \<Rightarrow> int \<Rightarrow> int \<Rightarrow> int \<Rightarrow> int \<Rightarrow> gatewayBurstLimiter \<Rightarrow> bool \<times> gatewayBurstLimiter" where
  "allow k limit window wall now0 l =
     (if TrimSpace k = '''' \<or> limit \<le> 0 \<or> window \<le> 0 then (True, l)
      else let now = (if IsZero now0 then wall else now0); cutoff = now - window;
               keep = filter (\<lambda>ts. cutoff < ts) (event_times l k)
           in if limit \<le> int (length keep) then (False, l(k \<mapsto> keep)) else (True, l(k \<mapsto> keep @ [now])))"

record limiters =
  InFlight :: gatewayInFlightLimiter
  Bursts :: gatewayBurstLimiter

text \<open>\<open>acquireGatewayLargeRequestSlot\<close>: the key to release when the request ends, or the error.\<close>

definition acquireGatewayLargeRequestSlot ::
  "(string \<Rightarrow> string) \<Rightarrow> int \<Rightarrow> GatewayAPIKey option \<Rightarrow> string \<Rightarrow> string \<Rightarrow> limiters \<Rightarrow>
   (limit_error + string option) \<times> limiters" where
  "acquireGatewayLargeRequestSlot env now key path body l =
     (if \<not> gatewayLargeRequestNeedsGuard env path body then (Inr None, l)
      else let k = gatewayLargeRequestLimiterKey key in
        case allow k (gatewayLargeRequestBurstMaxPerKey env) (gatewayLargeRequestBurstWindowPerKey env) now now (Bursts l) of
          (False, b) \<Rightarrow> (Inl LargeRequestBurst, l\<lparr>Bursts := b\<rparr>)
        | (True, b) \<Rightarrow>
            let limit = gatewayLargeRequestMaxInFlightPerKey env; l = l\<lparr>Bursts := b\<rparr>
            in if limit \<le> 0 then (Inr None, l)
               else case tryAcquire k limit (InFlight l) of
                      ((held, False), f) \<Rightarrow> (Inl LargeRequestInFlight, l\<lparr>InFlight := f\<rparr>)
                    | ((held, True), f) \<Rightarrow> (Inr (if held then Some k else None), l\<lparr>InFlight := f\<rparr>))"

section \<open>Runs\<close>

text \<open>
  The steps of all requests in the order they take the locks: the burst limiter admits or refuses
  a request, the in-flight limiter grants or refuses a slot, a request that holds a slot gives it
  back. The run records the slots held and who was admitted when. The configuration does not
  change while the process runs, and the times of the admissions do not go back.
\<close>

record limiter_state =
  ls_Limiters :: limiters
  ls_Held :: "string multiset"
  ls_Admitted :: "(string \<times> int) list"
  ls_Now :: int

definition no_requests :: "int \<Rightarrow> limiter_state" where
  "no_requests now =
     \<lparr>ls_Limiters = \<lparr>InFlight = Map.empty, Bursts = Map.empty\<rparr>, ls_Held = {#}, ls_Admitted = [], ls_Now = now\<rparr>"

definition admit :: "string \<Rightarrow> bool \<Rightarrow> gatewayBurstLimiter \<Rightarrow> int \<Rightarrow> limiter_state \<Rightarrow> limiter_state" where
  "admit k granted b now s =
     s\<lparr>ls_Limiters := (ls_Limiters s)\<lparr>Bursts := b\<rparr>, ls_Now := now,
       ls_Admitted := ls_Admitted s @ (if granted then [(k, now)] else [])\<rparr>"

definition occupy :: "string \<Rightarrow> bool \<Rightarrow> gatewayInFlightLimiter \<Rightarrow> limiter_state \<Rightarrow> limiter_state" where
  "occupy k held f s =
     s\<lparr>ls_Limiters := (ls_Limiters s)\<lparr>InFlight := f\<rparr>, ls_Held := (if held then add_mset k (ls_Held s) else ls_Held s)\<rparr>"

definition leave :: "string \<Rightarrow> limiter_state \<Rightarrow> limiter_state" where
  "leave k s =
     s\<lparr>ls_Limiters := (ls_Limiters s)\<lparr>InFlight := release k (InFlight (ls_Limiters s))\<rparr>, ls_Held := ls_Held s - {#k#}\<rparr>"

inductive limiter_run :: "(string \<Rightarrow> string) \<Rightarrow> limiter_state \<Rightarrow> bool" for env where
  Start: "limiter_run env (no_requests now)"
| Admit: "\<lbrakk>limiter_run env s; ls_Now s \<le> now;
    allow k (gatewayLargeRequestBurstMaxPerKey env) (gatewayLargeRequestBurstWindowPerKey env) now now
      (Bursts (ls_Limiters s)) = (granted, b)\<rbrakk>
    \<Longrightarrow> limiter_run env (admit k granted b now s)"
| Occupy: "\<lbrakk>limiter_run env s;
    tryAcquire k (gatewayLargeRequestMaxInFlightPerKey env) (InFlight (ls_Limiters s)) = ((held, granted), f)\<rbrakk>
    \<Longrightarrow> limiter_run env (occupy k held f s)"
| Leave: "\<lbrakk>limiter_run env s; k \<in># ls_Held s\<rbrakk> \<Longrightarrow> limiter_run env (leave k s)"

lemmas limiter_simps = no_requests_def admit_def occupy_def leave_def

text \<open>The whole guard is such steps.\<close>

lemma acquire_is_a_run:
  assumes "limiter_run env s" "ls_Now s \<le> now"
    and "acquireGatewayLargeRequestSlot env now key path body (ls_Limiters s) = (r, l)"
  shows "\<exists>t. limiter_run env t \<and> ls_Limiters t = l \<and>
    ls_Held t = ls_Held s + (case r of Inr (Some k) \<Rightarrow> {#k#} | _ \<Rightarrow> {#})"
proof (cases "gatewayLargeRequestNeedsGuard env path body")
  case False
  then show ?thesis using assms by (auto simp: acquireGatewayLargeRequestSlot_def)
next
  case True
  let ?k = "gatewayLargeRequestLimiterKey key"
  obtain granted b where b: "allow ?k (gatewayLargeRequestBurstMaxPerKey env) (gatewayLargeRequestBurstWindowPerKey env)
      now now (Bursts (ls_Limiters s)) = (granted, b)" by fastforce
  define t where "t = admit ?k granted b now s"
  have t: "limiter_run env t" unfolding t_def by (rule Admit [OF assms(1,2) b])
  have tl: "ls_Limiters t = (ls_Limiters s)\<lparr>Bursts := b\<rparr>" "ls_Held t = ls_Held s" by (simp_all add: t_def admit_def)
  show ?thesis
  proof (cases "granted \<and> 0 < gatewayLargeRequestMaxInFlightPerKey env")
    case False
    then show ?thesis
      using t tl assms(3) True b
      by (auto simp: acquireGatewayLargeRequestSlot_def Let_def split: bool.splits if_splits intro!: exI [of _ t])
  next
    case go: True
    obtain held ok f where f: "tryAcquire ?k (gatewayLargeRequestMaxInFlightPerKey env) (InFlight (ls_Limiters t)) =
        ((held, ok), f)" by (metis prod.collapse)
    have "held \<longrightarrow> ok" using f by (auto simp: tryAcquire_def split: if_splits)
    moreover have "limiter_run env (occupy ?k held f t)" by (rule Occupy [OF t f])
    ultimately show ?thesis
      using tl assms(3) True b go f
      by (intro exI [of _ "occupy ?k held f t"])
        (auto simp: acquireGatewayLargeRequestSlot_def occupy_def Let_def split: bool.splits if_splits)
  qed
qed


section \<open>Slots\<close>

definition slots_ok :: "int \<Rightarrow> limiter_state \<Rightarrow> bool" where
  "slots_ok limit s =
     (\<forall>k. InFlight (ls_Limiters s) k = (if k \<in># ls_Held s then Some (int (count (ls_Held s) k)) else None) \<and>
          int (count (ls_Held s) k) \<le> max 0 limit)"

lemma slots_count: "slots_ok limit s \<Longrightarrow> count_of (InFlight (ls_Limiters s)) k = int (count (ls_Held s) k)"
  by (auto simp: slots_ok_def count_of_def not_in_iff)

lemma slots_occupy:
  assumes "slots_ok limit s" "tryAcquire k limit (InFlight (ls_Limiters s)) = ((held, granted), f)"
  shows "slots_ok limit (occupy k held f s)"
proof (cases held)
  case False
  then have "f = InFlight (ls_Limiters s)" using assms(2) by (auto simp: tryAcquire_def split: if_splits)
  then show ?thesis using assms(1) False by (simp add: slots_ok_def occupy_def)
next
  case True
  then have f: "f = (InFlight (ls_Limiters s))(k \<mapsto> int (count (ls_Held s) k) + 1)" "int (count (ls_Held s) k) < limit"
    using assms slots_count [OF assms(1), of k] by (auto simp: tryAcquire_def split: if_splits)
  then show ?thesis using assms(1) True by (auto simp: slots_ok_def occupy_def)
qed

lemma slots_leave:
  assumes "slots_ok limit s" "k \<in># ls_Held s"
  shows "slots_ok limit (leave k s)"
  unfolding slots_ok_def
proof (intro allI conjI)
  fix j
  have c: "0 < count (ls_Held s) k" using assms(2) by simp
  have j: "InFlight (ls_Limiters s) j = (if j \<in># ls_Held s then Some (int (count (ls_Held s) j)) else None)"
    "int (count (ls_Held s) j) \<le> max 0 limit"
    using assms(1) by (simp_all add: slots_ok_def)
  show "int (count (ls_Held (leave k s)) j) \<le> max 0 limit" using j(2) by (simp add: leave_def)
  show "InFlight (ls_Limiters (leave k s)) j =
      (if j \<in># ls_Held (leave k s) then Some (int (count (ls_Held (leave k s)) j)) else None)"
  proof (cases "j = k")
    case True
    then show ?thesis using slots_count [OF assms(1), of k] c
      by (auto simp: leave_def release_def not_in_iff simp flip: count_greater_zero_iff)
  next
    case False
    then show ?thesis using j(1) by (auto simp: leave_def release_def simp flip: count_greater_zero_iff)
  qed
qed

text \<open>
  C22. The in-flight counter is exact under every interleaving: it holds, for each key, the
  number of slots that requests hold, no entry for a key without one (the map does not grow with
  the keys that were ever used), and no key ever holds more slots than the limit.
\<close>
theorem slots_counted:
  assumes "limiter_run env s"
  shows "(\<forall>k. InFlight (ls_Limiters s) k = (if k \<in># ls_Held s then Some (int (count (ls_Held s) k)) else None)) \<and>
    (\<forall>k. int (count (ls_Held s) k) \<le> max 0 (gatewayLargeRequestMaxInFlightPerKey env))"
proof -
  have "slots_ok (gatewayLargeRequestMaxInFlightPerKey env) s"
    using assms
  proof induction
    case (Start now)
    then show ?case by (simp add: slots_ok_def no_requests_def)
  next
    case (Admit s now k granted b)
    then show ?case by (simp add: slots_ok_def admit_def)
  next
    case (Occupy s k held granted f)
    then show ?case by (intro slots_occupy)
  next
    case (Leave s k)
    then show ?case by (intro slots_leave)
  qed
  then show ?thesis by (simp add: slots_ok_def)
qed

section \<open>Bursts\<close>

definition admissions :: "limiter_state \<Rightarrow> string \<Rightarrow> int list" where
  "admissions s k = map snd (filter (\<lambda>a. fst a = k) (ls_Admitted s))"

text \<open>How many of the times lie in the window that ends at \<open>t\<close>.\<close>

definition window_count :: "int \<Rightarrow> int \<Rightarrow> int list \<Rightarrow> nat" where
  "window_count window t ts = length (filter (\<lambda>u. t - window < u \<and> u \<le> t) ts)"


definition bursts_ok :: "int \<Rightarrow> int \<Rightarrow> limiter_state \<Rightarrow> bool" where
  "bursts_ok limit window s =
     (\<forall>k. TrimSpace k \<noteq> '''' \<longrightarrow>
        (\<forall>u \<in> set (admissions s k). u \<le> ls_Now s) \<and>
        (\<forall>c \<ge> ls_Now s - window. filter (\<lambda>u. c < u) (event_times (Bursts (ls_Limiters s)) k) =
           filter (\<lambda>u. c < u) (admissions s k)) \<and>
        (\<forall>t. int (window_count window t (admissions s k)) \<le> limit))"

lemma length_filter_mono: "(\<And>u. u \<in> set ts \<Longrightarrow> P u \<Longrightarrow> Q u) \<Longrightarrow> length (filter P ts) \<le> length (filter Q ts)"
  by (induction ts) (auto simp: le_SucI)

text \<open>The times the limiter keeps are those that count.\<close>

lemma kept_times:
  assumes "bursts_ok limit window s" "TrimSpace k \<noteq> ''''" "ls_Now s \<le> now"
  shows "filter (\<lambda>u. now - window < u) (event_times (Bursts (ls_Limiters s)) k) =
         filter (\<lambda>u. now - window < u) (admissions s k)"
    and "length (filter (\<lambda>u. now - window < u) (admissions s k)) = window_count window now (admissions s k)"
proof -
  show "filter (\<lambda>u. now - window < u) (event_times (Bursts (ls_Limiters s)) k) =
         filter (\<lambda>u. now - window < u) (admissions s k)"
    using assms by (simp add: bursts_ok_def)
  have "\<forall>u \<in> set (admissions s k). u \<le> now" using assms by (fastforce simp: bursts_ok_def)
  then show "length (filter (\<lambda>u. now - window < u) (admissions s k)) = window_count window now (admissions s k)"
    unfolding window_count_def by (intro arg_cong [where f = length] filter_cong) auto
qed

text \<open>A request is admitted exactly when its window has room.\<close>

lemma allow_exact:
  assumes "bursts_ok limit window s" "0 < limit" "0 < window" "TrimSpace k \<noteq> ''''" "ls_Now s \<le> now"
  shows "allow k limit window now now (Bursts (ls_Limiters s)) =
    (let keep = filter (\<lambda>u. now - window < u) (admissions s k)
     in if int (window_count window now (admissions s k)) < limit
        then (True, (Bursts (ls_Limiters s))(k \<mapsto> keep @ [now])) else (False, (Bursts (ls_Limiters s))(k \<mapsto> keep)))"
  using assms kept_times [OF assms(1,4,5)] by (simp add: allow_def Let_def)

lemma admissions_admit:
  "admissions (admit k granted b now s) j = admissions s j @ (if granted \<and> j = k then [now] else [])"
  by (auto simp: admissions_def admit_def)

lemma window_count_append: "window_count w t (ts @ us) = window_count w t ts + window_count w t us"
  by (simp add: window_count_def)

lemma bursts_admit:
  assumes ok: "bursts_ok limit window s" and pos: "0 < limit" "0 < window" and now: "ls_Now s \<le> now"
    and run: "allow k limit window now now (Bursts (ls_Limiters s)) = (granted, b)"
  shows "bursts_ok limit window (admit k granted b now s)"
  unfolding bursts_ok_def
proof (intro allI impI)
  fix j :: string assume j: "TrimSpace j \<noteq> ''''"
  let ?s = "admit k granted b now s" and ?ts = "admissions s j"
  have old: "\<forall>u \<in> set ?ts. u \<le> ls_Now s" "\<And>t. int (window_count window t ?ts) \<le> limit"
    "\<And>c. ls_Now s - window \<le> c \<Longrightarrow> filter (\<lambda>u. c < u) (event_times (Bursts (ls_Limiters s)) j) = filter (\<lambda>u. c < u) ?ts"
    using ok j unfolding bursts_ok_def by blast+
  have n: "ls_Now ?s = now" "Bursts (ls_Limiters ?s) = b" by (simp_all add: admit_def)
  show "(\<forall>u \<in> set (admissions ?s j). u \<le> ls_Now ?s) \<and>
      (\<forall>c \<ge> ls_Now ?s - window. filter (\<lambda>u. c < u) (event_times (Bursts (ls_Limiters ?s)) j) =
         filter (\<lambda>u. c < u) (admissions ?s j)) \<and>
      (\<forall>t. int (window_count window t (admissions ?s j)) \<le> limit)"
  proof (cases "j = k")
    case False
    have "event_times b j = event_times (Bursts (ls_Limiters s)) j"
      using run False by (auto simp: allow_def event_times_def Let_def split: if_splits)
    then show ?thesis using False old now by (auto simp: admissions_admit n)
  next
    case True
    let ?keep = "filter (\<lambda>u. now - window < u) ?ts"
    note exact = allow_exact [OF ok pos j now, unfolded Let_def]
    have g: "granted \<longleftrightarrow> int (window_count window now ?ts) < limit"
      "event_times b k = ?keep @ (if granted then [now] else [])"
      using run exact True by (auto simp: event_times_def split: if_splits)
    have "int (window_count window t (admissions ?s j)) \<le> limit" for t
    proof (cases "granted \<and> now \<le> t")
      case False
      then have "window_count window t (admissions ?s j) = window_count window t ?ts"
        by (auto simp: admissions_admit window_count_append window_count_def)
      then show ?thesis using old(2) by simp
    next
      case later: True
      have "window_count window t ?ts \<le> length ?keep"
        unfolding window_count_def using later by (intro length_filter_mono) auto
      also have "\<dots> = window_count window now ?ts" using kept_times(2) [OF ok j now] True by simp
      finally show ?thesis
        using later g(1) True by (simp add: admissions_admit window_count_append window_count_def)
    qed
    moreover have "filter (\<lambda>u. c < u) ?keep = filter (\<lambda>u. c < u) ?ts" if "now - window \<le> c" for c
      unfolding filter_filter using that by (intro filter_cong) auto
    ultimately show ?thesis using old(1) now True g(2) by (auto simp: admissions_admit n)
  qed
qed



text \<open>Two requests a minute are allowed, three arrive within it; the first holds the only slot.\<close>

definition small_env :: "string \<Rightarrow> string" where
  "small_env name =
     (if name = ''GATEWAY_LARGE_REQUEST_BURST_MAX_PER_KEY'' then ''2''
      else if name = ''GATEWAY_LARGE_REQUEST_MAX_INFLIGHT_PER_KEY'' then ''1'' else '''')"

definition next_request :: "int \<Rightarrow> limiter_state \<Rightarrow> limiter_state" where
  "next_request now s =
     (let (granted, b) = allow ''key:1'' (gatewayLargeRequestBurstMaxPerKey small_env)
            (gatewayLargeRequestBurstWindowPerKey small_env) now now (Bursts (ls_Limiters s));
          s = admit ''key:1'' granted b now s;
          ((held, ok), f) = tryAcquire ''key:1'' (gatewayLargeRequestMaxInFlightPerKey small_env) (InFlight (ls_Limiters s))
      in occupy ''key:1'' held f s)"

lemma next_request_run: "limiter_run small_env s \<Longrightarrow> ls_Now s \<le> now \<Longrightarrow> limiter_run small_env (next_request now s)"
  unfolding next_request_def Let_def
  by (auto split: prod.splits intro: Occupy Admit)

definition two_requests :: limiter_state where
  "two_requests = next_request (30 * second) (next_request (10 * second) (no_requests 0))"

lemma two_requests_run: "limiter_run small_env two_requests"
proof -
  have "ls_Now (next_request (10 * second) (no_requests 0)) \<le> 30 * second" by code_simp
  moreover have "ls_Now (no_requests 0) \<le> 10 * second" by code_simp
  ultimately show ?thesis unfolding two_requests_def by (intro next_request_run Start)
qed

theorem slots_counted_witness:
  "InFlight (ls_Limiters two_requests) ''key:1'' = Some 1"
proof -
  have "ls_Held two_requests = {#''key:1''#}" by code_simp
  then show ?thesis using slots_counted [OF two_requests_run] by simp
qed


end
