(* ===== verification/Diagnostics.thy ===== *)
theory Diagnostics
  imports Store
begin

text \<open>
  The diagnostic of a usage log: the struct \<open>GatewayUsageDiagnostic\<close> with its one-line summary
  (internal/biz/gateway.go), and its mapping to the JSON column of the usage table and back
  (internal/data/gateway\_repo.go). \<open>fmt_float\<close> is how \<open>fmt.Sprint\<close> prints a float64.
\<close>

record GatewayUsageDiagnostic =
  d_RequestBytes :: int
  d_ResponseBytes :: int
  d_BackendOnly :: bool
  d_FallbackEnabled :: bool
  d_FallbackBlocked :: bool
  d_AgentPassthrough :: bool
  d_AgentPassthroughReason :: string
  d_ReasoningEffort :: string
  d_UpstreamHTTPStatus :: int
  d_UpstreamErrorCode :: string
  d_UpstreamErrorMessage :: string
  d_UpstreamBody :: string
  d_UpstreamStreamStarted :: bool
  d_UpstreamStreamCompleted :: bool
  d_UpstreamStreamDoneSeen :: bool
  d_UpstreamStreamEvents :: int
  d_ContextCompacted :: bool
  d_ContextCompactionReason :: string
  d_ContextCompactionSummary :: string
  d_ContextCompactionCount :: int
  d_ContextOriginalBytes :: int
  d_ContextCompactedBytes :: int
  d_ContextOriginalEstimatedTokens :: int
  d_ContextCompactedEstimatedTokens :: int
  d_ContextWindowTokens :: int
  d_ContextCompactTokenLimit :: int
  d_ContextHardTokenLimit :: int
  d_ContextCompactByteLimit :: int
  d_ContextHardByteLimit :: int
  d_ContextKeepItems :: int

definition no_diagnostic :: GatewayUsageDiagnostic where
  "no_diagnostic =
     \<lparr>d_RequestBytes = 0, d_ResponseBytes = 0, d_BackendOnly = False, d_FallbackEnabled = False,
      d_FallbackBlocked = False, d_AgentPassthrough = False, d_AgentPassthroughReason = '''',
      d_ReasoningEffort = '''', d_UpstreamHTTPStatus = 0, d_UpstreamErrorCode = '''',
      d_UpstreamErrorMessage = '''', d_UpstreamBody = '''', d_UpstreamStreamStarted = False,
      d_UpstreamStreamCompleted = False, d_UpstreamStreamDoneSeen = False, d_UpstreamStreamEvents = 0,
      d_ContextCompacted = False, d_ContextCompactionReason = '''', d_ContextCompactionSummary = '''',
      d_ContextCompactionCount = 0, d_ContextOriginalBytes = 0, d_ContextCompactedBytes = 0,
      d_ContextOriginalEstimatedTokens = 0, d_ContextCompactedEstimatedTokens = 0,
      d_ContextWindowTokens = 0, d_ContextCompactTokenLimit = 0, d_ContextHardTokenLimit = 0,
      d_ContextCompactByteLimit = 0, d_ContextHardByteLimit = 0, d_ContextKeepItems = 0\<rparr>"

definition part_if :: "bool \<Rightarrow> string \<Rightarrow> string list" where
  "part_if b s = (if b then [s] else [])"

definition diagnostic_Summary :: "GatewayUsageDiagnostic \<Rightarrow> string" where
  "diagnostic_Summary d =
     join_with '', ''
       (part_if (d_RequestBytes d > 0) (''request='' @ Itoa (d_RequestBytes d) @ ''B'') @
        part_if (d_ResponseBytes d > 0) (''response='' @ Itoa (d_ResponseBytes d) @ ''B'') @
        part_if (d_BackendOnly d) ''backend-only'' @
        (if d_FallbackBlocked d then [''fallback-blocked'']
         else part_if (d_FallbackEnabled d) ''fallback-enabled'') @
        (if d_AgentPassthrough d
         then [''agent-passthrough''] @
              part_if (d_AgentPassthroughReason d \<noteq> '''')
                (''agent_passthrough_reason='' @ d_AgentPassthroughReason d)
         else []) @
        part_if (d_ReasoningEffort d \<noteq> '''') (''effort='' @ d_ReasoningEffort d) @
        part_if (d_UpstreamHTTPStatus d > 0) (''upstream_http='' @ Itoa (d_UpstreamHTTPStatus d)) @
        part_if (d_UpstreamErrorCode d \<noteq> '''') (''upstream_error='' @ d_UpstreamErrorCode d) @
        part_if (d_UpstreamErrorMessage d \<noteq> '''') (''upstream_message='' @ d_UpstreamErrorMessage d) @
        part_if (d_UpstreamBody d \<noteq> '''') (''upstream_body='' @ d_UpstreamBody d) @
        (if d_UpstreamStreamStarted d
         then [if d_UpstreamStreamCompleted d then ''upstream-stream-completed'' else ''upstream-stream-started''] @
              part_if (d_UpstreamStreamDoneSeen d) ''upstream-done-seen'' @
              part_if (d_UpstreamStreamEvents d > 0) (''upstream_events='' @ Itoa (d_UpstreamStreamEvents d))
         else []) @
        (if d_ContextCompacted d
         then [''context-compacted''] @
              part_if (d_ContextCompactionCount d > 0) (''compact_count='' @ Itoa (d_ContextCompactionCount d)) @
              part_if (d_ContextOriginalBytes d > 0 \<or> d_ContextCompactedBytes d > 0)
                (''context_bytes='' @ Itoa (d_ContextOriginalBytes d) @ ''->'' @ Itoa (d_ContextCompactedBytes d)) @
              part_if (d_ContextOriginalEstimatedTokens d > 0 \<or> d_ContextCompactedEstimatedTokens d > 0)
                (''context_tokens='' @ Itoa (d_ContextOriginalEstimatedTokens d) @ ''->'' @
                 Itoa (d_ContextCompactedEstimatedTokens d)) @
              part_if (d_ContextCompactionReason d \<noteq> '''') (''compact_reason='' @ d_ContextCompactionReason d) @
              part_if (d_ContextCompactTokenLimit d > 0 \<or> d_ContextHardTokenLimit d > 0)
                (''context_token_limits='' @ Itoa (d_ContextCompactTokenLimit d) @ ''/'' @
                 Itoa (d_ContextHardTokenLimit d))
         else []))"

section \<open>To the column and back\<close>

type_synonym json_map = "(string \<times> any) list"

definition put_int :: "string \<Rightarrow> int \<Rightarrow> json_map" where
  "put_int k i = (if i > 0 then [(k, AInt i)] else [])"

definition put_bool :: "string \<Rightarrow> bool \<Rightarrow> json_map" where
  "put_bool k b = (if b then [(k, ABool True)] else [])"

definition put_str :: "string \<Rightarrow> string \<Rightarrow> json_map" where
  "put_str k s = (if s \<noteq> '''' then [(k, AStr s)] else [])"

definition mapGatewayUsageDiagnosticForDB :: "GatewayUsageDiagnostic \<Rightarrow> json_map" where
  "mapGatewayUsageDiagnosticForDB d =
     put_int ''request_bytes'' (d_RequestBytes d) @
     put_int ''response_bytes'' (d_ResponseBytes d) @
     put_bool ''backend_only'' (d_BackendOnly d) @
     put_bool ''fallback_enabled'' (d_FallbackEnabled d) @
     put_bool ''fallback_blocked'' (d_FallbackBlocked d) @
     put_bool ''agent_passthrough'' (d_AgentPassthrough d) @
     put_str ''agent_passthrough_reason'' (d_AgentPassthroughReason d) @
     put_str ''reasoning_effort'' (d_ReasoningEffort d) @
     put_int ''upstream_http_status'' (d_UpstreamHTTPStatus d) @
     put_str ''upstream_error_code'' (d_UpstreamErrorCode d) @
     put_str ''upstream_error_message'' (d_UpstreamErrorMessage d) @
     put_str ''upstream_body'' (d_UpstreamBody d) @
     put_bool ''upstream_stream_started'' (d_UpstreamStreamStarted d) @
     put_bool ''upstream_stream_completed'' (d_UpstreamStreamCompleted d) @
     put_bool ''upstream_stream_done_seen'' (d_UpstreamStreamDoneSeen d) @
     put_int ''upstream_stream_events'' (d_UpstreamStreamEvents d) @
     put_bool ''context_compacted'' (d_ContextCompacted d) @
     put_str ''context_compaction_reason'' (d_ContextCompactionReason d) @
     put_str ''context_compaction_summary'' (d_ContextCompactionSummary d) @
     put_int ''context_compaction_count'' (d_ContextCompactionCount d) @
     put_int ''context_original_bytes'' (d_ContextOriginalBytes d) @
     put_int ''context_compacted_bytes'' (d_ContextCompactedBytes d) @
     put_int ''context_original_estimated_tokens'' (d_ContextOriginalEstimatedTokens d) @
     put_int ''context_compacted_estimated_tokens'' (d_ContextCompactedEstimatedTokens d) @
     put_int ''context_window_tokens'' (d_ContextWindowTokens d) @
     put_int ''context_compact_token_limit'' (d_ContextCompactTokenLimit d) @
     put_int ''context_hard_token_limit'' (d_ContextHardTokenLimit d) @
     put_int ''context_compact_byte_limit'' (d_ContextCompactByteLimit d) @
     put_int ''context_hard_byte_limit'' (d_ContextHardByteLimit d) @
     put_int ''context_keep_items'' (d_ContextKeepItems d)"

text \<open>A key that is absent reads as nil.\<close>

definition any_get :: "json_map \<Rightarrow> string \<Rightarrow> any" where
  "any_get raw k = (case map_of raw k of None \<Rightarrow> ANil | Some v \<Rightarrow> v)"

definition truncate_rat :: "rat \<Rightarrow> int" where
  "truncate_rat v = (if v < 0 then - \<lfloor>- v\<rfloor> else \<lfloor>v\<rfloor>)"

definition diagnosticInt64 :: "any \<Rightarrow> int" where
  "diagnosticInt64 v =
     (case v of
        AInt i \<Rightarrow> i
      | AFloat f \<Rightarrow> truncate_rat f
      | ANumber s \<Rightarrow> ParseInt_value s
      | AStr s \<Rightarrow> ParseInt_value (TrimSpace s)
      | ANil \<Rightarrow> 0
      | ABool _ \<Rightarrow> 0)"

definition go_sprint :: "(rat \<Rightarrow> string) \<Rightarrow> any \<Rightarrow> string" where
  "go_sprint fmt_float v =
     (case v of
        ANil \<Rightarrow> ''<nil>''
      | ABool b \<Rightarrow> formatGatewayBool b
      | AInt i \<Rightarrow> Itoa i
      | AFloat f \<Rightarrow> fmt_float f
      | ANumber s \<Rightarrow> s
      | AStr s \<Rightarrow> s)"

definition diagnosticString :: "(rat \<Rightarrow> string) \<Rightarrow> any \<Rightarrow> string" where
  "diagnosticString fmt_float v =
     (if v = ANil then ''''
      else let text = TrimSpace (go_sprint fmt_float v)
           in if text = ''<nil>'' then '''' else text)"

definition diagnosticBool :: "any \<Rightarrow> bool" where
  "diagnosticBool v =
     (case v of
        ABool b \<Rightarrow> b
      | AStr s \<Rightarrow> ParseBool_value (TrimSpace s)
      | ANil \<Rightarrow> False | AInt _ \<Rightarrow> False | AFloat _ \<Rightarrow> False | ANumber _ \<Rightarrow> False)"

definition mapGatewayUsageDiagnosticFromDB :: "(rat \<Rightarrow> string) \<Rightarrow> json_map \<Rightarrow> GatewayUsageDiagnostic" where
  "mapGatewayUsageDiagnosticFromDB fmt_float raw =
     (if raw = [] then no_diagnostic
      else
        \<lparr>d_RequestBytes = diagnosticInt64 (any_get raw ''request_bytes''),
         d_ResponseBytes = diagnosticInt64 (any_get raw ''response_bytes''),
         d_BackendOnly = diagnosticBool (any_get raw ''backend_only''),
         d_FallbackEnabled = diagnosticBool (any_get raw ''fallback_enabled''),
         d_FallbackBlocked = diagnosticBool (any_get raw ''fallback_blocked''),
         d_AgentPassthrough = diagnosticBool (any_get raw ''agent_passthrough''),
         d_AgentPassthroughReason = diagnosticString fmt_float (any_get raw ''agent_passthrough_reason''),
         d_ReasoningEffort = TrimSpace (go_sprint fmt_float (any_get raw ''reasoning_effort'')),
         d_UpstreamHTTPStatus = diagnosticInt64 (any_get raw ''upstream_http_status''),
         d_UpstreamErrorCode = diagnosticString fmt_float (any_get raw ''upstream_error_code''),
         d_UpstreamErrorMessage = diagnosticString fmt_float (any_get raw ''upstream_error_message''),
         d_UpstreamBody = TrimSpace (go_sprint fmt_float (any_get raw ''upstream_body'')),
         d_UpstreamStreamStarted = diagnosticBool (any_get raw ''upstream_stream_started''),
         d_UpstreamStreamCompleted = diagnosticBool (any_get raw ''upstream_stream_completed''),
         d_UpstreamStreamDoneSeen = diagnosticBool (any_get raw ''upstream_stream_done_seen''),
         d_UpstreamStreamEvents = diagnosticInt64 (any_get raw ''upstream_stream_events''),
         d_ContextCompacted = diagnosticBool (any_get raw ''context_compacted''),
         d_ContextCompactionReason = TrimSpace (go_sprint fmt_float (any_get raw ''context_compaction_reason'')),
         d_ContextCompactionSummary = TrimSpace (go_sprint fmt_float (any_get raw ''context_compaction_summary'')),
         d_ContextCompactionCount = diagnosticInt64 (any_get raw ''context_compaction_count''),
         d_ContextOriginalBytes = diagnosticInt64 (any_get raw ''context_original_bytes''),
         d_ContextCompactedBytes = diagnosticInt64 (any_get raw ''context_compacted_bytes''),
         d_ContextOriginalEstimatedTokens = diagnosticInt64 (any_get raw ''context_original_estimated_tokens''),
         d_ContextCompactedEstimatedTokens = diagnosticInt64 (any_get raw ''context_compacted_estimated_tokens''),
         d_ContextWindowTokens = diagnosticInt64 (any_get raw ''context_window_tokens''),
         d_ContextCompactTokenLimit = diagnosticInt64 (any_get raw ''context_compact_token_limit''),
         d_ContextHardTokenLimit = diagnosticInt64 (any_get raw ''context_hard_token_limit''),
         d_ContextCompactByteLimit = diagnosticInt64 (any_get raw ''context_compact_byte_limit''),
         d_ContextHardByteLimit = diagnosticInt64 (any_get raw ''context_hard_byte_limit''),
         d_ContextKeepItems = diagnosticInt64 (any_get raw ''context_keep_items'')\<rparr>)"

text \<open>
  What comes back from a JSON column: a number is a float64. Below 2^53 an integer is
  represented exactly; above, the conversion rounds, which \<open>round\<close> stands for.
\<close>

definition json_read :: "(int \<Rightarrow> rat) \<Rightarrow> any \<Rightarrow> any" where
  "json_read float_round v =
     (case v of
        AInt i \<Rightarrow> AFloat (if \<bar>i\<bar> \<le> 9007199254740992 then of_int i else float_round i)
      | w \<Rightarrow> w)"

definition json_column :: "(int \<Rightarrow> rat) \<Rightarrow> json_map \<Rightarrow> json_map" where
  "json_column float_round m = map (\<lambda>(k, v). (k, json_read float_round v)) m"

section \<open>Round trip\<close>

lemma any_get_puts:
  "any_get (json_column r (put_int k i @ m)) q =
     (if k = q \<and> 0 < i then json_read r (AInt i) else any_get (json_column r m) q)"
  "any_get (json_column r (put_bool k b @ m)) q =
     (if k = q \<and> b then ABool True else any_get (json_column r m) q)"
  "any_get (json_column r (put_str k s @ m)) q =
     (if k = q \<and> s \<noteq> '''' then AStr s else any_get (json_column r m) q)"
  by (simp_all add: any_get_def json_column_def put_int_def put_bool_def put_str_def json_read_def)

lemma any_get_put_last:
  "any_get (json_column r (put_int k i)) q = (if k = q \<and> 0 < i then json_read r (AInt i) else ANil)"
  by (simp add: any_get_def json_column_def put_int_def)

lemma truncate_of_int: "truncate_rat (of_int i) = i"
  unfolding truncate_rat_def by (simp only: of_int_minus [symmetric] floor_of_int minus_minus if_cancel)

lemma int_read:
  "0 \<le> i \<Longrightarrow> i \<le> 9007199254740992 \<Longrightarrow>
   diagnosticInt64 (if 0 < i then json_read r (AInt i) else ANil) = i"
  by (auto simp: diagnosticInt64_def json_read_def truncate_of_int)

lemma bool_read: "diagnosticBool (if b then ABool True else ANil) = b"
  by (simp add: diagnosticBool_def)

definition clean_text :: "string \<Rightarrow> bool" where
  "clean_text s = (TrimSpace s = s \<and> s \<noteq> ''<nil>'')"

lemma str_read: "clean_text s \<Longrightarrow> diagnosticString f (if s \<noteq> '''' then AStr s else ANil) = s"
  by (auto simp: diagnosticString_def go_sprint_def clean_text_def)

definition nil_text :: "string \<Rightarrow> string" where
  "nil_text s = (if s = '''' then ''<nil>'' else s)"

lemma sprint_read: "clean_text s \<Longrightarrow> TrimSpace (go_sprint f (if s \<noteq> '''' then AStr s else ANil)) = nil_text s"
proof -
  have "TrimSpace ''<nil>'' = ''<nil>''" by (simp add: string_eval)
  then show "clean_text s \<Longrightarrow> ?thesis" by (simp add: go_sprint_def clean_text_def nil_text_def)
qed

text \<open>A diagnostic whose numbers a float64 holds exactly and whose texts are trimmed.\<close>

definition diagnostic_fits :: "GatewayUsageDiagnostic \<Rightarrow> bool" where
  "diagnostic_fits d \<longleftrightarrow>
     (\<forall>i \<in> set [d_RequestBytes d, d_ResponseBytes d, d_UpstreamHTTPStatus d, d_UpstreamStreamEvents d,
        d_ContextCompactionCount d, d_ContextOriginalBytes d, d_ContextCompactedBytes d,
        d_ContextOriginalEstimatedTokens d, d_ContextCompactedEstimatedTokens d, d_ContextWindowTokens d,
        d_ContextCompactTokenLimit d, d_ContextHardTokenLimit d, d_ContextCompactByteLimit d,
        d_ContextHardByteLimit d, d_ContextKeepItems d]. 0 \<le> i \<and> i \<le> 9007199254740992) \<and>
     (\<forall>s \<in> set [d_AgentPassthroughReason d, d_ReasoningEffort d, d_UpstreamErrorCode d,
        d_UpstreamErrorMessage d, d_UpstreamBody d, d_ContextCompactionReason d,
        d_ContextCompactionSummary d]. clean_text s)"

lemma diagnostic_reads:
  defines "raw r d \<equiv> json_column r (mapGatewayUsageDiagnosticForDB d)"
  shows
  "any_get (raw r d) ''request_bytes'' = (if 0 < d_RequestBytes d then json_read r (AInt (d_RequestBytes d)) else ANil)"
  "any_get (raw r d) ''response_bytes'' = (if 0 < d_ResponseBytes d then json_read r (AInt (d_ResponseBytes d)) else ANil)"
  "any_get (raw r d) ''backend_only'' = (if d_BackendOnly d then ABool True else ANil)"
  "any_get (raw r d) ''fallback_enabled'' = (if d_FallbackEnabled d then ABool True else ANil)"
  "any_get (raw r d) ''fallback_blocked'' = (if d_FallbackBlocked d then ABool True else ANil)"
  "any_get (raw r d) ''agent_passthrough'' = (if d_AgentPassthrough d then ABool True else ANil)"
  "any_get (raw r d) ''agent_passthrough_reason'' =
     (if d_AgentPassthroughReason d \<noteq> '''' then AStr (d_AgentPassthroughReason d) else ANil)"
  "any_get (raw r d) ''reasoning_effort'' = (if d_ReasoningEffort d \<noteq> '''' then AStr (d_ReasoningEffort d) else ANil)"
  "any_get (raw r d) ''upstream_http_status'' =
     (if 0 < d_UpstreamHTTPStatus d then json_read r (AInt (d_UpstreamHTTPStatus d)) else ANil)"
  "any_get (raw r d) ''upstream_error_code'' = (if d_UpstreamErrorCode d \<noteq> '''' then AStr (d_UpstreamErrorCode d) else ANil)"
  "any_get (raw r d) ''upstream_error_message'' =
     (if d_UpstreamErrorMessage d \<noteq> '''' then AStr (d_UpstreamErrorMessage d) else ANil)"
  "any_get (raw r d) ''upstream_body'' = (if d_UpstreamBody d \<noteq> '''' then AStr (d_UpstreamBody d) else ANil)"
  "any_get (raw r d) ''upstream_stream_started'' = (if d_UpstreamStreamStarted d then ABool True else ANil)"
  "any_get (raw r d) ''upstream_stream_completed'' = (if d_UpstreamStreamCompleted d then ABool True else ANil)"
  "any_get (raw r d) ''upstream_stream_done_seen'' = (if d_UpstreamStreamDoneSeen d then ABool True else ANil)"
  by (simp_all add: raw_def mapGatewayUsageDiagnosticForDB_def any_get_puts any_get_put_last)

lemma diagnostic_reads_context:
  defines "raw r d \<equiv> json_column r (mapGatewayUsageDiagnosticForDB d)"
  shows
  "any_get (raw r d) ''upstream_stream_events'' =
     (if 0 < d_UpstreamStreamEvents d then json_read r (AInt (d_UpstreamStreamEvents d)) else ANil)"
  "any_get (raw r d) ''context_compacted'' = (if d_ContextCompacted d then ABool True else ANil)"
  "any_get (raw r d) ''context_compaction_reason'' =
     (if d_ContextCompactionReason d \<noteq> '''' then AStr (d_ContextCompactionReason d) else ANil)"
  "any_get (raw r d) ''context_compaction_summary'' =
     (if d_ContextCompactionSummary d \<noteq> '''' then AStr (d_ContextCompactionSummary d) else ANil)"
  "any_get (raw r d) ''context_compaction_count'' =
     (if 0 < d_ContextCompactionCount d then json_read r (AInt (d_ContextCompactionCount d)) else ANil)"
  "any_get (raw r d) ''context_original_bytes'' =
     (if 0 < d_ContextOriginalBytes d then json_read r (AInt (d_ContextOriginalBytes d)) else ANil)"
  "any_get (raw r d) ''context_compacted_bytes'' =
     (if 0 < d_ContextCompactedBytes d then json_read r (AInt (d_ContextCompactedBytes d)) else ANil)"
  "any_get (raw r d) ''context_original_estimated_tokens'' =
     (if 0 < d_ContextOriginalEstimatedTokens d then json_read r (AInt (d_ContextOriginalEstimatedTokens d)) else ANil)"
  "any_get (raw r d) ''context_compacted_estimated_tokens'' =
     (if 0 < d_ContextCompactedEstimatedTokens d then json_read r (AInt (d_ContextCompactedEstimatedTokens d)) else ANil)"
  "any_get (raw r d) ''context_window_tokens'' =
     (if 0 < d_ContextWindowTokens d then json_read r (AInt (d_ContextWindowTokens d)) else ANil)"
  "any_get (raw r d) ''context_compact_token_limit'' =
     (if 0 < d_ContextCompactTokenLimit d then json_read r (AInt (d_ContextCompactTokenLimit d)) else ANil)"
  "any_get (raw r d) ''context_hard_token_limit'' =
     (if 0 < d_ContextHardTokenLimit d then json_read r (AInt (d_ContextHardTokenLimit d)) else ANil)"
  "any_get (raw r d) ''context_compact_byte_limit'' =
     (if 0 < d_ContextCompactByteLimit d then json_read r (AInt (d_ContextCompactByteLimit d)) else ANil)"
  "any_get (raw r d) ''context_hard_byte_limit'' =
     (if 0 < d_ContextHardByteLimit d then json_read r (AInt (d_ContextHardByteLimit d)) else ANil)"
  "any_get (raw r d) ''context_keep_items'' =
     (if 0 < d_ContextKeepItems d then json_read r (AInt (d_ContextKeepItems d)) else ANil)"
  by (simp_all add: raw_def mapGatewayUsageDiagnosticForDB_def any_get_puts any_get_put_last)

text \<open>
  A diagnostic that is written to the usage table and read back comes back as it was, but for
  four texts: reasoning effort, upstream body, compaction reason and compaction summary read as
  the text <nil> when they were empty (an entirely empty diagnostic is not stored and stays empty).
\<close>

theorem diagnostic_roundtrip:
  assumes "diagnostic_fits d"
  shows "mapGatewayUsageDiagnosticFromDB fmt (json_column r (mapGatewayUsageDiagnosticForDB d)) =
     (if mapGatewayUsageDiagnosticForDB d = [] then no_diagnostic
      else d\<lparr>d_ReasoningEffort := nil_text (d_ReasoningEffort d), d_UpstreamBody := nil_text (d_UpstreamBody d),
             d_ContextCompactionReason := nil_text (d_ContextCompactionReason d),
             d_ContextCompactionSummary := nil_text (d_ContextCompactionSummary d)\<rparr>)"
proof (cases "mapGatewayUsageDiagnosticForDB d = []")
  case True
  then show ?thesis by (simp add: mapGatewayUsageDiagnosticFromDB_def json_column_def)
next
  case False
  then have "json_column r (mapGatewayUsageDiagnosticForDB d) \<noteq> []" by (simp add: json_column_def)
  then show ?thesis
    unfolding mapGatewayUsageDiagnosticFromDB_def if_not_P [OF False] diagnostic_reads diagnostic_reads_context
    using assms unfolding diagnostic_fits_def
    by (simp only: list.set ball_simps int_read bool_read str_read sprint_read if_False simp_thms) simp
qed

lemma diagnostic_roundtrip_witness:
  "d_UpstreamBody (mapGatewayUsageDiagnosticFromDB (\<lambda>_. '''') (json_column of_int
     (mapGatewayUsageDiagnosticForDB (no_diagnostic\<lparr>d_RequestBytes := 10\<rparr>)))) = ''<nil>''"
proof -
  have "clean_text ''''" by (simp add: clean_text_def)
  then have fits: "diagnostic_fits (no_diagnostic\<lparr>d_RequestBytes := 10\<rparr>)"
    by (simp add: diagnostic_fits_def no_diagnostic_def)
  have "mapGatewayUsageDiagnosticForDB (no_diagnostic\<lparr>d_RequestBytes := 10\<rparr>) \<noteq> []"
    by (simp add: mapGatewayUsageDiagnosticForDB_def put_int_def)
  then show ?thesis
    using diagnostic_roundtrip [OF fits, of "\<lambda>_. ''''" of_int] by (simp add: nil_text_def no_diagnostic_def)
qed

end
