(* ===== verification/Upstream.thy ===== *)
theory Upstream
  imports Content Diagnostics
begin

text \<open>
  Calling the upstream: the errors it returns and how the gateway names them for the client and
  the usage log (internal/server/openai\_gateway\_handler.go), the retries of the backend client
  (internal/server/codex\_backend\_adapter.go), and the fallback from the backend to the command
  line (\<open>runCodexUpstreamWithOptions\<close>).
\<close>

section \<open>Errors\<close>

text \<open>
  \<open>HTTPError\<close> is \<open>codexBackendHTTPError\<close>; \<open>Wrapped p e s\<close> is \<open>fmt.Errorf\<close> with the verb
  \<open>%w\<close> between the texts \<open>p\<close> and \<open>s\<close>, transparent to \<open>errors.Is\<close> and \<open>errors.As\<close>.
\<close>

datatype upstream_error =
    HTTPError int string
  | Canceled
  | DeadlineExceeded
  | PlainEOF
  | UnexpectedEOF
  | StreamClosed
  | TextError string
  | Wrapped string upstream_error string

fun root_error :: "upstream_error \<Rightarrow> upstream_error" where
  "root_error (Wrapped p e s) = root_error e"
| "root_error e = e"

record codexBackendErrorDetail =
  de_EventType :: string
  de_ResponseID :: string
  de_ResponseStatus :: string
  de_Code :: string
  de_Message :: string

definition summarizeDiagnosticMessage :: "string \<Rightarrow> string" where
  "summarizeDiagnosticMessage message = take 240 (TrimSpace message)"

definition text_or :: "string \<Rightarrow> string \<Rightarrow> string" where
  "text_or a b = (if a = '''' then b else a)"

definition codexBackendErrorDetailFromValue :: "json \<Rightarrow> codexBackendErrorDetail option" where
  "codexBackendErrorDetailFromValue v =
     (case v of
        JObj event \<Rightarrow>
          (let response = mapValue (field event ''response'');
               payload = (case mapValue (field event ''error'') of
                            Some p \<Rightarrow> p
                          | None \<Rightarrow> nil_map (mapValue (field (nil_map response) ''error'')));
               detail = \<lparr>de_EventType = stringValue (field event ''type''),
                 de_ResponseID = stringValue (field (nil_map response) ''id''),
                 de_ResponseStatus = stringValue (field (nil_map response) ''status''),
                 de_Code = text_or (stringValue (field payload ''code'')) (stringValue (field event ''code'')),
                 de_Message = text_or (summarizeDiagnosticMessage (stringValue (field payload ''message'')))
                   (summarizeDiagnosticMessage (stringValue (field event ''message'')))\<rparr>
           in if de_EventType detail = '''' \<and> de_ResponseID detail = '''' \<and> de_ResponseStatus detail = '''' \<and>
                 de_Code detail = '''' \<and> de_Message detail = '''' then None
              else Some detail)
      | _ \<Rightarrow> None)"

definition overload_words :: "string list" where
  "overload_words = [''selected model is at capacity'', ''server_is_overloaded'', ''currently overloaded'']"

definition codexBackendErrorDetailFromText :: "string \<Rightarrow> codexBackendErrorDetail option" where
  "codexBackendErrorDetailFromText text =
     (let raw = TrimSpace text; lower = ToLower raw;
          from_json = (if CHR ''{'' \<in> set raw
            then Option.bind (json_decode (dropWhile (\<lambda>c. c \<noteq> CHR ''{'') raw)) codexBackendErrorDetailFromValue
            else None)
      in if raw = '''' then None
         else case from_json of
                Some detail \<Rightarrow> Some detail
              | None \<Rightarrow>
                  if list_ex (contains lower) overload_words
                  then Some \<lparr>de_EventType = '''', de_ResponseID = '''', de_ResponseStatus = '''', de_Code = '''',
                         de_Message = summarizeDiagnosticMessage raw\<rparr>
                  else None)"

definition gatewayContextErrorType :: string where
  "gatewayContextErrorType = ''context_length_exceeded''"

definition codexBackendErrorTypeFromDetail :: "codexBackendErrorDetail \<Rightarrow> string \<Rightarrow> string" where
  "codexBackendErrorTypeFromDetail detail fallback =
     (let code = ToLower (TrimSpace (de_Code detail)); message = ToLower (TrimSpace (de_Message detail))
      in if code = ''context_length_exceeded'' \<or> contains message ''context window'' then gatewayContextErrorType
         else if code = ''server_is_overloaded'' \<or> contains message ''currently overloaded'' \<or>
           contains message ''selected model is at capacity'' \<or> contains message ''model is at capacity''
           then ''codex_backend_overloaded''
         else if contains code ''rate_limit'' \<or> contains message ''rate limit'' then ''codex_backend_rate_limited''
         else if code = ''unauthorized'' \<or> code = ''forbidden'' then ''codex_backend_auth_failed''
         else fallback)"

definition codexBackendResponseEventErrorType :: "string \<Rightarrow> string \<Rightarrow> string" where
  "codexBackendResponseEventErrorType data fallback =
     (case codexBackendErrorDetailFromText data of
        Some detail \<Rightarrow> codexBackendErrorTypeFromDetail detail fallback
      | None \<Rightarrow> fallback)"

definition detail_parts :: "codexBackendErrorDetail \<Rightarrow> string list" where
  "detail_parts d =
     concat (map (\<lambda>(name, v). if v = '''' then [] else [name @ ''='' @ v])
       [(''type'', de_EventType d), (''status'', de_ResponseStatus d), (''response_id'', de_ResponseID d),
        (''code'', de_Code d), (''message'', de_Message d)])"

definition summarizeCodexBackendBody :: "string \<Rightarrow> string" where
  "summarizeCodexBackendBody body =
     (let text = TrimSpace body
      in case codexBackendErrorDetailFromText text of
           Some d \<Rightarrow> if detail_parts d \<noteq> [] then join_with '' '' (detail_parts d) else take 800 text
         | None \<Rightarrow> take 800 text)"

text \<open>\<open>err.Error()\<close>\<close>

fun error_text :: "upstream_error \<Rightarrow> string" where
  "error_text (HTTPError status body) =
     ''codex backend upstream failed: status='' @ Itoa status @ '' body='' @ summarizeCodexBackendBody body"
| "error_text Canceled = ''context canceled''"
| "error_text DeadlineExceeded = ''context deadline exceeded''"
| "error_text PlainEOF = ''EOF''"
| "error_text UnexpectedEOF = ''unexpected EOF''"
| "error_text StreamClosed = ''gateway client stream closed''"
| "error_text (TextError t) = t"
| "error_text (Wrapped p e s) = p @ error_text e @ s"

definition isGatewayClientCanceled :: "upstream_error \<Rightarrow> bool" where
  "isGatewayClientCanceled err = (root_error err = Canceled \<or> root_error err = StreamClosed)"

definition isCodexBackendContextLengthError :: "upstream_error \<Rightarrow> bool" where
  "isCodexBackendContextLengthError err =
     (let text = ToLower (error_text err)
      in contains text ''context_length_exceeded'' \<or> contains text ''exceeds the context window'')"

definition isCodexBackendUnauthorized :: "upstream_error \<Rightarrow> bool" where
  "isCodexBackendUnauthorized err = (case root_error err of HTTPError status _ \<Rightarrow> status = 401 | _ \<Rightarrow> False)"

definition isRetriableCodexBackendError :: "upstream_error \<Rightarrow> bool" where
  "isRetriableCodexBackendError err =
     (let text = ToLower (error_text err)
      in if isCodexBackendContextLengthError err then False
         else case root_error err of
                PlainEOF \<Rightarrow> True
              | UnexpectedEOF \<Rightarrow> True
              | HTTPError status _ \<Rightarrow> status = 429 \<or> 500 \<le> status
              | _ \<Rightarrow>
                  contains text ''connection reset'' \<or> contains text '' eof'' \<or> has_suffix text '': eof'' \<or>
                  has_suffix text '' eof'' \<or> contains text ''unexpected eof'' \<or> contains text ''stream error'')"

definition codexBackendErrorType :: "upstream_error \<Rightarrow> string" where
  "codexBackendErrorType err =
     (let text = ToLower (error_text err)
      in if isCodexBackendContextLengthError err then gatewayContextErrorType
         else case root_error err of
                HTTPError status _ \<Rightarrow>
                  if status = 401 \<or> status = 403 then ''codex_backend_auth_failed''
                  else if status = 429 then ''codex_backend_rate_limited''
                  else if 500 \<le> status then ''codex_backend_http_5xx''
                  else ''codex_backend_http_error''
              | _ \<Rightarrow>
                  (case codexBackendErrorDetailFromText (error_text err) of
                     Some detail \<Rightarrow>
                       codexBackendErrorTypeFromDetail detail
                         (if contains text ''response incomplete'' then ''codex_backend_response_incomplete''
                          else ''codex_backend_response_failed'')
                   | None \<Rightarrow>
                       if contains text ''timed out'' \<or> contains text ''deadline exceeded'' then ''codex_backend_timeout''
                       else if contains text ''unauthorized'' \<or> contains text ''refresh'' \<or> contains text ''auth''
                         then ''codex_backend_auth_failed''
                       else if contains text ''response failed'' then ''codex_backend_response_failed''
                       else if contains text ''response incomplete'' then ''codex_backend_response_incomplete''
                       else if contains text ''connection reset'' \<or> contains text ''unexpected eof'' \<or>
                         contains text ''stream error'' then ''codex_backend_stream_error''
                       else ''codex_backend_upstream_failed''))"

definition codexCLIErrorType :: "upstream_error \<Rightarrow> string" where
  "codexCLIErrorType err =
     (let text = ToLower (error_text err)
      in if contains text ''timed out'' \<or> contains text ''deadline exceeded'' then ''codex_cli_timeout''
         else if contains text ''returned empty answer'' then ''codex_cli_empty_answer''
         else if contains text ''prompt is empty'' then ''codex_cli_empty_prompt''
         else if contains text ''executable file not found'' \<or> contains text ''no such file or directory''
           then ''codex_cli_not_found''
         else ''codex_cli_upstream_failed'')"

definition upstreamErrorType :: "upstream_error \<Rightarrow> string \<Rightarrow> string" where
  "upstreamErrorType err mode =
     (if isGatewayClientCanceled err then ''client_canceled''
      else if mode = GatewayUpstreamModeCodexBackend then codexBackendErrorType err
      else codexCLIErrorType err)"

definition summarizeErrorForUsage :: "upstream_error \<Rightarrow> string" where
  "summarizeErrorForUsage err = take 240 (TrimSpace (error_text err))"

section \<open>Diagnostics of a request\<close>

definition later_int :: "int \<Rightarrow> int \<Rightarrow> int" where
  "later_int base overlay = (if 0 < overlay then overlay else base)"

definition mergeGatewayUsageDiagnostic ::
  "GatewayUsageDiagnostic \<Rightarrow> GatewayUsageDiagnostic \<Rightarrow> GatewayUsageDiagnostic" where
  "mergeGatewayUsageDiagnostic a b =
     \<lparr>d_RequestBytes = later_int (d_RequestBytes a) (d_RequestBytes b),
      d_ResponseBytes = later_int (d_ResponseBytes a) (d_ResponseBytes b),
      d_BackendOnly = (d_BackendOnly a \<or> d_BackendOnly b),
      d_FallbackEnabled = (d_FallbackEnabled a \<or> d_FallbackEnabled b),
      d_FallbackBlocked = (d_FallbackBlocked a \<or> d_FallbackBlocked b),
      d_AgentPassthrough = (d_AgentPassthrough a \<or> d_AgentPassthrough b),
      d_AgentPassthroughReason = text_or (d_AgentPassthroughReason b) (d_AgentPassthroughReason a),
      d_ReasoningEffort = text_or (d_ReasoningEffort b) (d_ReasoningEffort a),
      d_UpstreamHTTPStatus = later_int (d_UpstreamHTTPStatus a) (d_UpstreamHTTPStatus b),
      d_UpstreamErrorCode = text_or (d_UpstreamErrorCode b) (d_UpstreamErrorCode a),
      d_UpstreamErrorMessage = text_or (d_UpstreamErrorMessage b) (d_UpstreamErrorMessage a),
      d_UpstreamBody = text_or (d_UpstreamBody b) (d_UpstreamBody a),
      d_UpstreamStreamStarted = (d_UpstreamStreamStarted a \<or> d_UpstreamStreamStarted b),
      d_UpstreamStreamCompleted = (d_UpstreamStreamCompleted a \<or> d_UpstreamStreamCompleted b),
      d_UpstreamStreamDoneSeen = (d_UpstreamStreamDoneSeen a \<or> d_UpstreamStreamDoneSeen b),
      d_UpstreamStreamEvents = later_int (d_UpstreamStreamEvents a) (d_UpstreamStreamEvents b),
      d_ContextCompacted = (d_ContextCompacted a \<or> d_ContextCompacted b),
      d_ContextCompactionReason = text_or (d_ContextCompactionReason b) (d_ContextCompactionReason a),
      d_ContextCompactionSummary = text_or (d_ContextCompactionSummary b) (d_ContextCompactionSummary a),
      d_ContextCompactionCount = later_int (d_ContextCompactionCount a) (d_ContextCompactionCount b),
      d_ContextOriginalBytes = later_int (d_ContextOriginalBytes a) (d_ContextOriginalBytes b),
      d_ContextCompactedBytes = later_int (d_ContextCompactedBytes a) (d_ContextCompactedBytes b),
      d_ContextOriginalEstimatedTokens = later_int (d_ContextOriginalEstimatedTokens a) (d_ContextOriginalEstimatedTokens b),
      d_ContextCompactedEstimatedTokens = later_int (d_ContextCompactedEstimatedTokens a) (d_ContextCompactedEstimatedTokens b),
      d_ContextWindowTokens = later_int (d_ContextWindowTokens a) (d_ContextWindowTokens b),
      d_ContextCompactTokenLimit = later_int (d_ContextCompactTokenLimit a) (d_ContextCompactTokenLimit b),
      d_ContextHardTokenLimit = later_int (d_ContextHardTokenLimit a) (d_ContextHardTokenLimit b),
      d_ContextCompactByteLimit = later_int (d_ContextCompactByteLimit a) (d_ContextCompactByteLimit b),
      d_ContextHardByteLimit = later_int (d_ContextHardByteLimit a) (d_ContextHardByteLimit b),
      d_ContextKeepItems = later_int (d_ContextKeepItems a) (d_ContextKeepItems b)\<rparr>"

definition gatewayUsageDiagnosticForRequest :: "string \<Rightarrow> string \<Rightarrow> string \<Rightarrow> GatewayUsageDiagnostic" where
  "gatewayUsageDiagnosticForRequest path body reasoningEffort =
     no_diagnostic\<lparr>d_RequestBytes := int (length body), d_BackendOnly := gatewayRequestRequiresCodexBackend path body,
       d_ReasoningEffort := TrimSpace reasoningEffort\<rparr>"

definition applyCodexBackendErrorDetailToDiagnostic :: "string \<Rightarrow> GatewayUsageDiagnostic \<Rightarrow> GatewayUsageDiagnostic" where
  "applyCodexBackendErrorDetailToDiagnostic text d =
     (case codexBackendErrorDetailFromText text of
        None \<Rightarrow> d
      | Some detail \<Rightarrow>
          d\<lparr>d_UpstreamErrorCode := text_or (de_Code detail) (d_UpstreamErrorCode d),
            d_UpstreamErrorMessage := text_or (de_Message detail) (d_UpstreamErrorMessage d)\<rparr>)"

definition gatewayUsageDiagnosticForUpstreamFailureWithOptions ::
  "string \<Rightarrow> string \<Rightarrow> string \<Rightarrow> upstream_error \<Rightarrow> bool \<Rightarrow> gatewayRequestOptions \<Rightarrow> GatewayUsageDiagnostic" where
  "gatewayUsageDiagnosticForUpstreamFailureWithOptions path body reasoningEffort err fallbackEnabled options =
     (let d = gatewayUsageDiagnosticForRequest path body reasoningEffort;
          d = (if AgentPassthrough options
               then d\<lparr>d_AgentPassthrough := True, d_AgentPassthroughReason := TrimSpace (AgentPassthroughReason options)\<rparr>
               else d);
          d = d\<lparr>d_FallbackEnabled := fallbackEnabled,
                d_FallbackBlocked := d_FallbackBlocked d \<or> (fallbackEnabled \<and> d_BackendOnly d)\<rparr>
      in case root_error err of
           HTTPError status errBody \<Rightarrow>
             applyCodexBackendErrorDetailToDiagnostic errBody
               (d\<lparr>d_UpstreamHTTPStatus := status, d_ResponseBytes := int (length errBody),
                  d_UpstreamBody := summarizeCodexBackendBody errBody\<rparr>)
         | _ \<Rightarrow>
             applyCodexBackendErrorDetailToDiagnostic (error_text err)
               (d\<lparr>d_UpstreamBody := summarizeErrorForUsage err\<rparr>))"

section \<open>Token counts\<close>

record openAIUsageMetrics =
  um_Model :: string
  um_InputTokens :: int
  um_OutputTokens :: int
  um_TotalTokens :: int
  um_CachedTokens :: int
  um_ReasoningTokens :: int

definition no_metrics :: openAIUsageMetrics where
  "no_metrics = \<lparr>um_Model = '''', um_InputTokens = 0, um_OutputTokens = 0, um_TotalTokens = 0, um_CachedTokens = 0,
     um_ReasoningTokens = 0\<rparr>"

definition positive_or_else :: "int \<Rightarrow> int \<Rightarrow> int" where
  "positive_or_else a b = (if a \<le> 0 then b else a)"

definition codexUsageMetricsFromMap :: "obj option \<Rightarrow> openAIUsageMetrics" where
  "codexUsageMetricsFromMap m =
     (case m of
        None \<Rightarrow> no_metrics
      | Some u \<Rightarrow>
          let input = int64Value (field u ''input_tokens''); output = int64Value (field u ''output_tokens'');
              total = int64Value (field u ''total_tokens'');
              detail = (\<lambda>k f. int64Value (field (nil_map (mapValue (field u k))) f))
          in \<lparr>um_Model = '''', um_InputTokens = input, um_OutputTokens = output,
               um_TotalTokens = (if total \<le> 0 \<and> (0 < input \<or> 0 < output) then wrap64 (input + output) else total),
               um_CachedTokens = positive_or_else (int64Value (field u ''cached_input_tokens''))
                 (detail ''input_tokens_details'' ''cached_tokens''),
               um_ReasoningTokens = positive_or_else (int64Value (field u ''reasoning_output_tokens''))
                 (detail ''output_tokens_details'' ''reasoning_tokens'')\<rparr>)"

definition estimateTokenCount :: "string \<Rightarrow> int" where
  "estimateTokenCount text =
     (let runes = int (rune_count text)
      in if runes = 0 then 0 else max 1 ((runes + 3) div 4))"

definition estimateCodexCLIUsage :: "string \<Rightarrow> string \<Rightarrow> string \<Rightarrow> openAIUsageMetrics" where
  "estimateCodexCLIUsage model prompt content =
     no_metrics\<lparr>um_Model := model, um_InputTokens := estimateTokenCount prompt,
       um_OutputTokens := estimateTokenCount content,
       um_TotalTokens := estimateTokenCount prompt + estimateTokenCount content\<rparr>"

text \<open>\<open>promptTextForUsageEstimate\<close>: the prompt text, empty where the prompt is refused.\<close>

definition promptTextForUsageEstimate :: "unit result \<Rightarrow> string \<Rightarrow> string \<Rightarrow> string" where
  "promptTextForUsageEstimate io path body =
     (case codexCLIPromptFromGatewayRequest io path body of Inl _ \<Rightarrow> '''' | Inr (text, _) \<Rightarrow> text)"

section \<open>Retries\<close>

text \<open>
  A step against the network, in a world \<open>'w\<close>: the world keeps whatever the network and the
  clock do. The client is what the code calls: a POST with or without a forced token refresh,
  whether the deadline of the request has passed, the pause before a retry (false when the
  request was given up meanwhile) and the error of the request's context.
\<close>

type_synonym ('w, 'a) call = "'w \<Rightarrow> (upstream_error + 'a) \<times> 'w"

record ('w, 'b) backend =
  do_post :: "bool \<Rightarrow> ('w, 'b) call"
  timed_out :: "'w \<Rightarrow> bool"
  pause :: "nat \<Rightarrow> 'w \<Rightarrow> bool \<times> 'w"
  context_error :: "'w \<Rightarrow> upstream_error"

text \<open>One attempt: a refused token is refreshed and the request posted once more.\<close>

definition post_once :: "('w, 'b) backend \<Rightarrow> ('w, 'b) call" where
  "post_once b w =
     (case do_post b False w of
        (Inl e, w1) \<Rightarrow> if isCodexBackendUnauthorized e then do_post b True w1 else (Inl e, w1)
      | (Inr x, w1) \<Rightarrow> (Inr x, w1))"

text \<open>
  The loop over the attempts \<open>k\<close>, \<open>k + 1\<close>, ..., \<open>k + n\<close>; \<open>deadline\<close> is the error returned at
  once when the time is over after an attempt (none for the streaming client), \<open>parse\<close> reads
  the response.
\<close>

fun attempts ::
  "('w, 'b) backend \<Rightarrow> upstream_error option \<Rightarrow> ('b \<Rightarrow> upstream_error + 'a) \<Rightarrow> nat \<Rightarrow> nat \<Rightarrow> ('w, 'a) call" where
  "attempts b deadline parse k n w =
     (case post_once b w of (r, w1) \<Rightarrow>
        case (if timed_out b w1 then deadline else None) of
          Some e \<Rightarrow> (Inl e, w1)
        | None \<Rightarrow>
            (case (case r of Inl e \<Rightarrow> Inl e | Inr x \<Rightarrow> parse x) of
               Inr y \<Rightarrow> (Inr y, w1)
             | Inl e \<Rightarrow>
                 if \<not> isRetriableCodexBackendError e then (Inl e, w1)
                 else (case n of
                         0 \<Rightarrow> (Inl e, w1)
                       | Suc m \<Rightarrow>
                           (case pause b k w1 of
                              (False, w2) \<Rightarrow> (Inl (context_error b w2), w2)
                            | (True, w2) \<Rightarrow> attempts b deadline parse (Suc k) m w2))))"

declare attempts.simps [simp del]

definition codexBackendRetries :: "(string \<Rightarrow> string) \<Rightarrow> nat" where
  "codexBackendRetries env =
     (case ParseInt (TrimSpace (env ''CODEX_BACKEND_RETRY_ATTEMPTS'')) of
        Some n \<Rightarrow> if 0 \<le> n then nat n else 2
      | None \<Rightarrow> 2)"


text \<open>A posting client and a clock, as a world that counts posts and fails the first \<open>n\<close> of them.\<close>

definition flaky_backend :: "nat \<Rightarrow> (nat, string) backend" where
  "flaky_backend n =
     \<lparr>do_post = (\<lambda>refresh c. (if c < n then Inl (HTTPError 401 ''expired'') else Inr ''ok'', Suc c)),
      timed_out = (\<lambda>_. False), pause = (\<lambda>_ c. (True, c)), context_error = (\<lambda>_. Canceled)\<rparr>"


section \<open>The fallback\<close>

record gatewayReasoningSummary =
  rs_ID :: string
  rs_Text :: string

record gatewayToolCall =
  tc_ID :: string
  tc_CallID :: string
  tc_Name :: string
  tc_Arguments :: string

definition no_summary :: gatewayReasoningSummary where
  "no_summary = \<lparr>rs_ID = '''', rs_Text = ''''\<rparr>"

type_synonym answer = "string \<times> gatewayReasoningSummary \<times> gatewayToolCall list \<times> openAIUsageMetrics"

record codexUpstreamCallResult =
  cr_Content :: string
  cr_ReasoningSummary :: gatewayReasoningSummary
  cr_ToolCalls :: "gatewayToolCall list"
  cr_Metrics :: openAIUsageMetrics
  cr_ActualMode :: string
  cr_Fallback :: bool
  cr_UpstreamErrorType :: string
  cr_Diagnostic :: GatewayUsageDiagnostic

definition call_result :: "answer \<Rightarrow> string \<Rightarrow> codexUpstreamCallResult" where
  "call_result = (\<lambda>(content, summary, calls, metrics) mode.
     \<lparr>cr_Content = content, cr_ReasoningSummary = summary, cr_ToolCalls = calls, cr_Metrics = metrics,
      cr_ActualMode = mode, cr_Fallback = False, cr_UpstreamErrorType = '''', cr_Diagnostic = no_diagnostic\<rparr>)"

definition failed_call :: "string \<Rightarrow> bool \<Rightarrow> string \<Rightarrow> GatewayUsageDiagnostic \<Rightarrow> codexUpstreamCallResult" where
  "failed_call mode fellBack errorType diagnostic =
     (call_result ('''', no_summary, [], no_metrics) mode)
       \<lparr>cr_Fallback := fellBack, cr_UpstreamErrorType := errorType, cr_Diagnostic := diagnostic\<rparr>"

text \<open>\<open>codexUpstreamMode\<close>: anything but the command line is the backend.\<close>

definition codexUpstreamMode :: "(string \<Rightarrow> string) \<Rightarrow> string" where
  "codexUpstreamMode env =
     (if ToLower (TrimSpace (env ''CODEX_UPSTREAM_MODE'')) = GatewayUpstreamModeCodexCLI
      then GatewayUpstreamModeCodexCLI else GatewayUpstreamModeCodexBackend)"

definition codexUpstreamFallbackEnabled :: "(string \<Rightarrow> string) \<Rightarrow> bool" where
  "codexUpstreamFallbackEnabled env =
     (ToLower (TrimSpace (env ''CODEX_UPSTREAM_FALLBACK_ENABLED'')) \<in> set [''1'', ''true'', ''yes'', ''y'', ''on''])"

text \<open>The error next to the result; a result is returned with every error.\<close>

type_synonym 'w upstream_run = "'w \<Rightarrow> (codexUpstreamCallResult \<times> upstream_error option) \<times> 'w"

definition runCodexUpstreamWithOptions ::
  "(string \<Rightarrow> string) \<Rightarrow> ('w, answer) call \<Rightarrow> ('w, string \<times> openAIUsageMetrics) call \<Rightarrow>
   string \<Rightarrow> bool \<Rightarrow> string \<Rightarrow> string \<Rightarrow> string \<Rightarrow> gatewayRequestOptions \<Rightarrow> 'w upstream_run" where
  "runCodexUpstreamWithOptions env backend cli upstreamMode fallbackEnabled path body reasoningEffort options w =
     (let mode0 = NormalizeGatewayUpstreamMode upstreamMode;
          mode = (if mode0 = '''' then codexUpstreamMode env else mode0);
          failure = gatewayUsageDiagnosticForUpstreamFailureWithOptions path body reasoningEffort;
          cliMode = GatewayUpstreamModeCodexCLI; backendMode = GatewayUpstreamModeCodexBackend
      in if mode = backendMode then
           (case backend w of
              (Inr answer, w1) \<Rightarrow> ((call_result answer backendMode, None), w1)
            | (Inl err, w1) \<Rightarrow>
                let errorType = upstreamErrorType err backendMode; d = failure err fallbackEnabled options;
                    failed = ''codex backend upstream failed: ''
                in if \<not> fallbackEnabled
                   then ((failed_call backendMode False errorType d, Some (Wrapped failed err '''')), w1)
                   else if AgentPassthrough options
                   then ((failed_call backendMode False errorType (d\<lparr>d_FallbackBlocked := True\<rparr>),
                          Some (TextError (failed @ error_text err @
                            ''; agent passthrough requests cannot fallback to codex_cli''))), w1)
                   else if d_BackendOnly d
                   then ((failed_call backendMode False errorType (d\<lparr>d_FallbackBlocked := True\<rparr>),
                          Some (TextError (failed @ error_text err @
                            ''; request uses backend-only features and cannot fallback to codex_cli''))), w1)
                   else (case cli w1 of
                           (Inr (content, metrics), w2) \<Rightarrow>
                             (((call_result (content, no_summary, [], metrics) cliMode)
                                 \<lparr>cr_Fallback := True, cr_UpstreamErrorType := errorType\<rparr>, None), w2)
                         | (Inl fallbackErr, w2) \<Rightarrow>
                             ((failed_call cliMode True (upstreamErrorType fallbackErr cliMode)
                                 (d\<lparr>d_UpstreamBody := summarizeErrorForUsage fallbackErr\<rparr>),
                               Some (Wrapped (failed @ error_text err @ ''; codex cli fallback failed: '') fallbackErr '''')), w2)))
         else (case cli w of
                 (Inl err, w1) \<Rightarrow>
                   ((failed_call cliMode False (upstreamErrorType err cliMode) (failure err False options), Some err), w1)
               | (Inr (content, metrics), w1) \<Rightarrow>
                   ((call_result (content, no_summary, [], metrics) cliMode, None), w1)))"

lemma failure_backend_only [simp]:
  "d_BackendOnly (gatewayUsageDiagnosticForUpstreamFailureWithOptions path body effort err fb options) =
   gatewayRequestRequiresCodexBackend path body"
  by (simp add: gatewayUsageDiagnosticForUpstreamFailureWithOptions_def gatewayUsageDiagnosticForRequest_def
      applyCodexBackendErrorDetailToDiagnostic_def Let_def split: upstream_error.splits option.splits)

lemma result_mode [simp]:
  "cr_ActualMode (call_result a m) = m" "cr_ActualMode (failed_call m fb e d) = m"
  by (simp_all add: call_result_def failed_call_def split: prod.splits)

text \<open>The mode a run is in: the command line or the backend.\<close>

definition cli_mode :: "(string \<Rightarrow> string) \<Rightarrow> string \<Rightarrow> bool" where
  "cli_mode env upstreamMode =
     (NormalizeGatewayUpstreamMode upstreamMode = GatewayUpstreamModeCodexCLI \<or>
      (NormalizeGatewayUpstreamMode upstreamMode = '''' \<and> codexUpstreamMode env = GatewayUpstreamModeCodexCLI))"

lemma backend_mode:
  "\<not> cli_mode env m \<Longrightarrow>
   (let mode0 = NormalizeGatewayUpstreamMode m in if mode0 = '''' then codexUpstreamMode env else mode0) =
   GatewayUpstreamModeCodexBackend"
  using NormalizeGatewayUpstreamMode_range [of m]
  by (auto simp: cli_mode_def codexUpstreamMode_def Let_def split: if_splits)

text \<open>
  C39. When the command line runs: only where the mode asks for it, or the backend failed, the
  fallback is on, the request is not an agent passthrough and uses nothing only the backend can
  do. In every other case the run is the same whatever the command line would do, it touches the
  world only through the backend, and reports the backend as the mode that ran.
\<close>
theorem cli_only_when_allowed:
  assumes "\<not> cli_mode env upstreamMode"
    and "\<not> (fallbackEnabled \<and> \<not> AgentPassthrough options \<and> \<not> gatewayRequestRequiresCodexBackend path body \<and>
      (\<exists>err. fst (backend w) = Inl err))"
  shows "runCodexUpstreamWithOptions env backend cli upstreamMode fallbackEnabled path body reasoningEffort options w =
         runCodexUpstreamWithOptions env backend cli' upstreamMode fallbackEnabled path body reasoningEffort options w \<and>
    snd (runCodexUpstreamWithOptions env backend cli upstreamMode fallbackEnabled path body reasoningEffort options w) =
      snd (backend w) \<and>
    cr_ActualMode (fst (fst (runCodexUpstreamWithOptions env backend cli upstreamMode fallbackEnabled path body
      reasoningEffort options w))) = GatewayUpstreamModeCodexBackend"
proof -
  obtain r w1 where b: "backend w = (r, w1)" by fastforce
  note mode = backend_mode [OF assms(1), unfolded Let_def]
  show ?thesis
  proof (cases r)
    case (Inr a)
    then show ?thesis by (simp add: runCodexUpstreamWithOptions_def Let_def mode b)
  next
    case (Inl err)
    then have "\<not> fallbackEnabled \<or> AgentPassthrough options \<or> gatewayRequestRequiresCodexBackend path body"
      using assms(2) b by auto
    then show ?thesis using Inl by (auto simp: runCodexUpstreamWithOptions_def Let_def mode b)
  qed
qed

theorem cli_only_when_allowed_witness:
  "snd (runCodexUpstreamWithOptions (\<lambda>_. '''') (\<lambda>w. (Inl UnexpectedEOF, w + 1)) (\<lambda>w. (Inl PlainEOF, w + 100)) '''' True
     ''/v1/responses'' '''' '''' \<lparr>AgentPassthrough = True, AgentPassthroughReason = ''explicit_header''\<rparr> (0 :: int)) = 1"
proof -
  have "\<not> cli_mode (\<lambda>_. '''') ''''" by code_simp
  from cli_only_when_allowed [OF this, of True "\<lparr>AgentPassthrough = True, AgentPassthroughReason = ''explicit_header''\<rparr>"
      "''/v1/responses''" "''''" "\<lambda>w. (Inl UnexpectedEOF, w + 1)" "0 :: int"]
  show ?thesis by simp
qed

lemma merge_unit: "mergeGatewayUsageDiagnostic d no_diagnostic = d"
  by (simp add: mergeGatewayUsageDiagnostic_def no_diagnostic_def later_int_def text_or_def)

lemma merge_assoc:
  "mergeGatewayUsageDiagnostic (mergeGatewayUsageDiagnostic a b) c =
   mergeGatewayUsageDiagnostic a (mergeGatewayUsageDiagnostic b c)"
  unfolding mergeGatewayUsageDiagnostic_def
  by (simp add: later_int_def text_or_def)

definition upstream_error_types :: "string list" where
  "upstream_error_types =
     [gatewayContextErrorType, ''codex_backend_overloaded'', ''codex_backend_rate_limited'', ''codex_backend_auth_failed'',
      ''codex_backend_http_5xx'', ''codex_backend_http_error'', ''codex_backend_response_incomplete'',
      ''codex_backend_response_failed'', ''codex_backend_timeout'', ''codex_backend_stream_error'',
      ''codex_backend_upstream_failed'', ''codex_cli_timeout'', ''codex_cli_empty_answer'', ''codex_cli_empty_prompt'',
      ''codex_cli_not_found'', ''codex_cli_upstream_failed'']"

lemma detail_error_type:
  "codexBackendErrorTypeFromDetail d f \<in> insert f (set upstream_error_types)"
  by (simp add: codexBackendErrorTypeFromDetail_def upstream_error_types_def Let_def)

lemma backend_error_type: "codexBackendErrorType err \<in> set upstream_error_types"
proof -
  have "codexBackendErrorTypeFromDetail d (if c then ''codex_backend_response_incomplete'' else ''codex_backend_response_failed'')
      \<in> set upstream_error_types" for d c
    using detail_error_type [of d "if c then ''codex_backend_response_incomplete'' else ''codex_backend_response_failed''"]
    by (auto simp: upstream_error_types_def split: if_splits)
  moreover have "(if b1 then ''codex_backend_timeout'' else if b2 then ''codex_backend_auth_failed''
      else if b3 then ''codex_backend_response_failed'' else if b4 then ''codex_backend_response_incomplete''
      else if b5 then ''codex_backend_stream_error'' else ''codex_backend_upstream_failed'') \<in> set upstream_error_types"
    for b1 b2 b3 b4 b5
    by (simp add: upstream_error_types_def)
  moreover have "(if b1 then ''codex_backend_auth_failed'' else if b2 then ''codex_backend_rate_limited''
      else if b3 then ''codex_backend_http_5xx'' else ''codex_backend_http_error'') \<in> set upstream_error_types" for b1 b2 b3
    by (simp add: upstream_error_types_def)
  moreover have "gatewayContextErrorType \<in> set upstream_error_types" by (simp add: upstream_error_types_def)
  ultimately show ?thesis
    unfolding codexBackendErrorType_def Let_def
    by (simp split del: if_split split: upstream_error.split option.split)
      (simp split: if_split)
qed

lemma cli_error_type: "codexCLIErrorType err \<in> set upstream_error_types"
  by (simp add: codexCLIErrorType_def upstream_error_types_def Let_def)

text \<open>
  An error the client caused is reported as the client's, whatever text it carries and however
  it was wrapped: a cancelled request or a closed client connection is never booked as a failure
  of the upstream, in either mode, and no other error is booked on the client. Every error is
  named by one of seventeen names, and each fits the columns of the usage log.
\<close>
theorem client_errors_are_the_clients:
  "(upstreamErrorType err mode = ''client_canceled'' \<longleftrightarrow> root_error err = Canceled \<or> root_error err = StreamClosed) \<and>
   upstreamErrorType err mode \<in> set (''client_canceled'' # upstream_error_types) \<and>
   length (upstreamErrorType err mode) \<le> 128"
proof -
  have names: "upstreamErrorType err mode =
      (if isGatewayClientCanceled err then ''client_canceled'' else upstreamErrorType err mode)"
    by (simp add: upstreamErrorType_def)
  have other: "upstreamErrorType err mode \<in> set upstream_error_types" if "\<not> isGatewayClientCanceled err"
    using that backend_error_type cli_error_type by (simp add: upstreamErrorType_def)
  have "''client_canceled'' \<notin> set upstream_error_types" by code_simp
  moreover have "\<forall>t \<in> set (''client_canceled'' # upstream_error_types). length t \<le> 128" by code_simp
  ultimately show ?thesis using names other by (auto simp: isGatewayClientCanceled_def upstreamErrorType_def)
qed

end
