(* ===== verification/Encoding.thy ===== *)
theory Encoding
  imports GoStrings "HOL-Library.Word"
begin

text \<open>
  The three standard-library functions a key secret is made of, on byte strings:
  \<open>crypto/sha256.Sum256\<close>, \<open>encoding/hex.EncodeToString\<close> and
  \<open>base64.RawURLEncoding.EncodeToString\<close>. The lemmas give the lengths and alphabets of the
  results, which is what the limits of the key table and the shape of a key rest on.
\<close>

unbundle bit_operations_syntax

type_synonym u32 = "32 word"

definition byte_val :: "char \<Rightarrow> nat" where
  "byte_val c = of_char c"

definition byte_char :: "nat \<Rightarrow> char" where
  "byte_char n = char_of n"

section \<open>SHA-256\<close>

definition sha_k :: "u32 list" where
  "sha_k =
    [1116352408,1899447441,3049323471,3921009573,961987163,1508970993,2453635748,2870763221,
     3624381080,310598401,607225278,1426881987,1925078388,2162078206,2614888103,3248222580,
     3835390401,4022224774,264347078,604807628,770255983,1249150122,1555081692,1996064986,
     2554220882,2821834349,2952996808,3210313671,3336571891,3584528711,113926993,338241895,
     666307205,773529912,1294757372,1396182291,1695183700,1986661051,2177026350,2456956037,
     2730485921,2820302411,3259730800,3345764771,3516065817,3600352804,4094571909,275423344,
     430227734,506948616,659060556,883997877,958139571,1322822218,1537002063,1747873779,
     1955562222,2024104815,2227730452,2361852424,2428436474,2756734187,3204031479,3329325298]"

definition sha_h0 :: "u32 list" where
  "sha_h0 = [1779033703,3144134277,1013904242,2773480762,1359893119,2600822924,528734635,1541459225]"

definition rotr :: "nat \<Rightarrow> u32 \<Rightarrow> u32" where
  "rotr n x = drop_bit n x OR push_bit (32 - n) x"

definition small0 :: "u32 \<Rightarrow> u32" where
  "small0 x = rotr 7 x XOR rotr 18 x XOR drop_bit 3 x"

definition small1 :: "u32 \<Rightarrow> u32" where
  "small1 x = rotr 17 x XOR rotr 19 x XOR drop_bit 10 x"

definition big0 :: "u32 \<Rightarrow> u32" where
  "big0 x = rotr 2 x XOR rotr 13 x XOR rotr 22 x"

definition big1 :: "u32 \<Rightarrow> u32" where
  "big1 x = rotr 6 x XOR rotr 11 x XOR rotr 25 x"

definition sha_ch :: "u32 \<Rightarrow> u32 \<Rightarrow> u32 \<Rightarrow> u32" where
  "sha_ch x y z = (x AND y) XOR (NOT x AND z)"

definition sha_maj :: "u32 \<Rightarrow> u32 \<Rightarrow> u32 \<Rightarrow> u32" where
  "sha_maj x y z = (x AND y) XOR (x AND z) XOR (y AND z)"

text \<open>The message schedule, newest word first.\<close>

fun sha_extend :: "nat \<Rightarrow> u32 list \<Rightarrow> u32 list" where
  "sha_extend 0 w = w"
| "sha_extend (Suc n) w =
     sha_extend n ((small1 (w ! 1) + w ! 6 + small0 (w ! 14) + w ! 15) # w)"

fun sha_rounds :: "(u32 \<times> u32) list \<Rightarrow> u32 list \<Rightarrow> u32 list" where
  "sha_rounds [] st = st"
| "sha_rounds ((k, w) # kws) [a, b, c, d, e, f, g, h] =
     (let t1 = h + big1 e + sha_ch e f g + k + w; t2 = big0 a + sha_maj a b c
      in sha_rounds kws [t1 + t2, a, b, c, d + t1, e, f, g])"
| "sha_rounds (kw # kws) st = st"

definition sha_block :: "u32 list \<Rightarrow> u32 list \<Rightarrow> u32 list" where
  "sha_block st ws = map2 (+) st (sha_rounds (zip sha_k (rev (sha_extend 48 (rev ws)))) st)"

fun bytes_to_words :: "nat list \<Rightarrow> u32 list" where
  "bytes_to_words (a # b # c # d # rest) =
     of_nat (a * 16777216 + b * 65536 + c * 256 + d) # bytes_to_words rest"
| "bytes_to_words _ = []"

function sha_blocks :: "u32 list \<Rightarrow> u32 list \<Rightarrow> u32 list" where
  "sha_blocks st ws = (if ws = [] then st else sha_blocks (sha_block st (take 16 ws)) (drop 16 ws))"
  by pat_completeness auto
termination
  by (relation "measure (\<lambda>(st, ws). length ws)") auto

declare sha_blocks.simps [simp del]

definition be_bytes :: "nat \<Rightarrow> nat \<Rightarrow> nat list" where
  "be_bytes k n = map (\<lambda>i. n div 256 ^ i mod 256) (rev [0..<k])"

definition sha_pad :: "nat list \<Rightarrow> nat list" where
  "sha_pad m =
     m @ [128] @ replicate ((119 - length m mod 64) mod 64) 0 @ be_bytes 8 (8 * length m)"

definition sha256 :: "string \<Rightarrow> string" where
  "sha256 m =
     map byte_char (concat (map (\<lambda>w. be_bytes 4 (unat w))
       (sha_blocks sha_h0 (bytes_to_words (sha_pad (map byte_val m))))))"

lemma length_sha_rounds: "length (sha_rounds kws st) = length st"
  by (induction kws st rule: sha_rounds.induct) (auto simp: Let_def)

lemma length_sha_blocks: "length (sha_blocks st ws) = length st"
proof (induction st ws rule: sha_blocks.induct)
  case (1 st ws)
  then show ?case
    by (subst sha_blocks.simps) (auto simp: sha_block_def length_sha_rounds)
qed

lemma length_concat_be_bytes: "length (concat (map (\<lambda>w. be_bytes k (f w)) ws)) = k * length ws"
  by (induction ws) (auto simp: be_bytes_def)

lemma length_sha256 [simp]: "length (sha256 m) = 32"
  by (simp add: sha256_def length_concat_be_bytes length_sha_blocks sha_h0_def)

section \<open>Hexadecimal\<close>

definition hex_alphabet :: string where
  "hex_alphabet = ''0123456789abcdef''"

definition hex_encode :: "string \<Rightarrow> string" where
  "hex_encode s = concat (map (\<lambda>c. [hex_alphabet ! (byte_val c div 16), hex_alphabet ! (byte_val c mod 16)]) s)"

lemma length_hex_encode [simp]: "length (hex_encode s) = 2 * length s"
  by (induction s) (auto simp: hex_encode_def)

lemma byte_val_less: "byte_val c < 256"
  using of_char_mod_256 [of c, where ?'a = nat] by (simp add: byte_val_def)

lemma set_hex_encode: "set (hex_encode s) \<subseteq> set hex_alphabet"
proof -
  have len: "length hex_alphabet = 16" by (simp add: hex_alphabet_def)
  have "hex_alphabet ! (byte_val c div 16) \<in> set hex_alphabet" for c
    by (rule nth_mem) (use byte_val_less [of c] in \<open>simp add: len less_mult_imp_div_less\<close>)
  moreover have "hex_alphabet ! (byte_val c mod 16) \<in> set hex_alphabet" for c
    by (rule nth_mem) (simp add: len)
  ultimately show ?thesis by (auto simp: hex_encode_def)
qed

lemma hex_digit_inj: "i < 16 \<Longrightarrow> j < 16 \<Longrightarrow> hex_alphabet ! i = hex_alphabet ! j \<Longrightarrow> i = j"
proof -
  assume "i < 16" "j < 16" "hex_alphabet ! i = hex_alphabet ! j"
  moreover have "distinct hex_alphabet" "length hex_alphabet = 16" by (simp_all add: hex_alphabet_def)
  ultimately show "i = j" by (simp add: nth_eq_iff_index_eq)
qed

lemma hex_encode_inj: "hex_encode a = hex_encode b \<Longrightarrow> a = b"
proof (induction a arbitrary: b)
  case Nil
  then show ?case by (cases b) (simp_all add: hex_encode_def)
next
  case (Cons c a)
  then obtain d b' where b: "b = d # b'" by (cases b) (auto simp: hex_encode_def)
  have eq: "hex_alphabet ! (byte_val c div 16) = hex_alphabet ! (byte_val d div 16)"
    "hex_alphabet ! (byte_val c mod 16) = hex_alphabet ! (byte_val d mod 16)"
    "hex_encode a = hex_encode b'"
    using Cons.prems by (simp_all add: hex_encode_def b)
  have "byte_val c div 16 = byte_val d div 16"
    by (rule hex_digit_inj [OF _ _ eq(1)]) (use byte_val_less in \<open>simp_all add: less_mult_imp_div_less\<close>)
  moreover have "byte_val c mod 16 = byte_val d mod 16"
    by (rule hex_digit_inj [OF _ _ eq(2)]) simp_all
  ultimately have "byte_val c = byte_val d" by (metis mult_div_mod_eq)
  then have "c = d" by (simp add: byte_val_def)
  then show ?case using Cons.IH [OF eq(3)] b by simp
qed

section \<open>Base64, URL alphabet, no padding\<close>

definition b64_alphabet :: string where
  "b64_alphabet = ''ABCDEFGHIJKLMNOPQRSTUVWXYZabcdefghijklmnopqrstuvwxyz0123456789-_''"

definition b64_char :: "nat \<Rightarrow> char" where
  "b64_char n = b64_alphabet ! (n mod 64)"

fun b64_encode :: "nat list \<Rightarrow> string" where
  "b64_encode [] = []"
| "b64_encode [a] = (let n = a * 65536 in [b64_char (n div 262144), b64_char (n div 4096)])"
| "b64_encode [a, b] =
     (let n = a * 65536 + b * 256
      in [b64_char (n div 262144), b64_char (n div 4096), b64_char (n div 64)])"
| "b64_encode (a # b # c # rest) =
     (let n = a * 65536 + b * 256 + c
      in b64_char (n div 262144) # b64_char (n div 4096) # b64_char (n div 64) # b64_char n
         # b64_encode rest)"

definition b64url :: "string \<Rightarrow> string" where
  "b64url s = b64_encode (map byte_val s)"

lemma length_b64_encode: "length (b64_encode bs) = (4 * length bs + 2) div 3"
  by (induction bs rule: b64_encode.induct) (simp_all add: Let_def)

lemma length_b64url_32 [simp]: "length s = 32 \<Longrightarrow> length (b64url s) = 43"
  by (simp add: b64url_def length_b64_encode)

lemma b64_char_in: "b64_char n \<in> set b64_alphabet"
  unfolding b64_char_def by (rule nth_mem) (simp add: b64_alphabet_def)

lemma set_b64_encode: "set (b64_encode bs) \<subseteq> set b64_alphabet"
  by (induction bs rule: b64_encode.induct) (simp_all add: Let_def b64_char_in)

lemma set_b64url: "set (b64url s) \<subseteq> set b64_alphabet"
  by (simp add: b64url_def set_b64_encode)

lemma b64_plain: "c \<in> set b64_alphabet \<Longrightarrow> plain_char c"
  by (auto simp: b64_alphabet_def plain_char_def ws_runes_def)

end
