(* ===== verification/KeySecrets.thy ===== *)
theory KeySecrets
  imports Encoding
begin

text \<open>
  The secret of a downstream API key (server/internal/biz/gateway.go): its remark, how the
  plain key is built from 32 random bytes, what is stored of it, and how a new remark is put
  into an existing key. The 32 bytes \<open>crypto/rand\<close> delivers, or its error, are the argument
  \<open>raw\<close> of the operations that draw them.
\<close>

definition GatewayAPIKeyPrefix :: string where
  "GatewayAPIKeyPrefix = ''ogw_''"

record api_key_secret =
  PlainKey :: string
  KeyHash :: string
  KeyPrefix :: string
  KeyLast4 :: string

definition remark_char :: "char \<Rightarrow> bool" where
  "remark_char c =
     (let r = byte_val c
      in (byte_val CHR ''a'' \<le> r \<and> r \<le> byte_val CHR ''z'') \<or>
         (byte_val CHR ''A'' \<le> r \<and> r \<le> byte_val CHR ''Z'') \<or>
         (byte_val CHR ''0'' \<le> r \<and> r \<le> byte_val CHR ''9''))"

definition NormalizeGatewayAPIKeyRemark :: "string \<Rightarrow> string result" where
  "NormalizeGatewayAPIKeyRemark remark0 =
     (let remark = TrimSpace remark0
      in if remark = '''' then Inr ''''
         else if length remark > 80 then Inl ErrGatewayAPIKeyRemarkInvalid
         else if \<forall>c \<in> set remark. remark_char c then Inr remark
         else Inl ErrGatewayAPIKeyRemarkInvalid)"

definition BuildGatewayAPIKeySecret :: "string \<Rightarrow> api_key_secret" where
  "BuildGatewayAPIKeySecret plain0 =
     (let plain = TrimSpace plain0;
          sum = sha256 plain;
          last4 = (if length plain > 4 then drop (length plain - 4) plain else plain);
          prefix = (if length plain > 12 then take 12 plain else plain)
      in \<lparr>PlainKey = plain, KeyHash = hex_encode sum, KeyPrefix = prefix, KeyLast4 = last4\<rparr>)"

definition NewGatewayAPIKeySecretWithRemark :: "string result \<Rightarrow> string \<Rightarrow> api_key_secret result" where
  "NewGatewayAPIKeySecretWithRemark raw remark0 =
     (case NormalizeGatewayAPIKeyRemark remark0 of
        Inl e \<Rightarrow> Inl e
      | Inr remark \<Rightarrow>
        (case raw of
           Inl e \<Rightarrow> Inl e
         | Inr bytes \<Rightarrow>
           (let randomPart = b64url bytes
            in if remark \<noteq> ''''
               then Inr (BuildGatewayAPIKeySecret (GatewayAPIKeyPrefix @ remark @ ''_'' @ randomPart))
               else Inr (BuildGatewayAPIKeySecret (GatewayAPIKeyPrefix @ randomPart)))))"

definition NewGatewayAPIKeySecret :: "string result \<Rightarrow> api_key_secret result" where
  "NewGatewayAPIKeySecret raw = NewGatewayAPIKeySecretWithRemark raw ''''"

definition RebuildGatewayAPIKeySecretWithRemark ::
  "string result \<Rightarrow> string \<Rightarrow> string \<Rightarrow> api_key_secret result" where
  "RebuildGatewayAPIKeySecretWithRemark raw plain0 nextRemark0 =
     (case NormalizeGatewayAPIKeyRemark nextRemark0 of
        Inl e \<Rightarrow> Inl e
      | Inr nextRemark \<Rightarrow>
        (let plain = TrimSpace plain0
         in if plain = '''' then NewGatewayAPIKeySecretWithRemark raw nextRemark
            else if \<not> has_prefix plain GatewayAPIKeyPrefix then Inl ErrBadParam
            else
              (let suffix0 = trim_prefix plain GatewayAPIKeyPrefix;
                   suffix = (case index_of suffix0 ''_'' of
                               Some idx \<Rightarrow>
                                 if idx + 1 < length suffix0 then drop (idx + 1) suffix0 else suffix0
                             | None \<Rightarrow> suffix0)
               in if suffix = '''' then Inl ErrBadParam
                  else if nextRemark = ''''
                  then Inr (BuildGatewayAPIKeySecret (GatewayAPIKeyPrefix @ suffix))
                  else Inr (BuildGatewayAPIKeySecret
                              (GatewayAPIKeyPrefix @ nextRemark @ ''_'' @ suffix)))))"

definition NormalizeGatewayBearer :: "string \<Rightarrow> string" where
  "NormalizeGatewayBearer auth0 =
     (let auth = TrimSpace auth0
      in if auth = '''' then ''''
         else if length auth > 7 \<and> EqualFold (take 7 auth) ''Bearer '' then TrimSpace (drop 7 auth)
         else auth)"

section \<open>Alphabets\<close>

lemma remark_char_in: "remark_char c \<Longrightarrow> c \<in> set b64_alphabet \<and> c \<noteq> CHR ''_''"
proof -
  assume r: "remark_char c"
  have all: "\<forall>n \<in> set ([97..<123] @ [65..<91] @ [48..<58]).
      (char_of (n::nat) :: char) \<in> set b64_alphabet - {CHR ''_''}"
    by code_simp
  have "of_char c \<in> set ([97..<123] @ [65..<91] @ [48..<58::nat])"
    using r unfolding set_append set_upt by (auto simp: remark_char_def byte_val_def Let_def)
  with all have "(char_of (of_char c :: nat) :: char) \<in> set b64_alphabet - {CHR ''_''}"
    by blast
  then show ?thesis by simp
qed

lemma prefix_in: "set GatewayAPIKeyPrefix \<subseteq> set b64_alphabet"
  by (simp add: GatewayAPIKeyPrefix_def b64_alphabet_def)

lemma underscore_in: "CHR ''_'' \<in> set b64_alphabet"
  by (simp add: b64_alphabet_def)

lemma TrimSpace_b64: "set s \<subseteq> set b64_alphabet \<Longrightarrow> TrimSpace s = s"
  by (rule TrimSpace_plain) (use b64_plain in blast)

lemma length_prefix [simp]: "length GatewayAPIKeyPrefix = 4"
  by (simp add: GatewayAPIKeyPrefix_def)

section \<open>Remarks\<close>

lemma NormalizeGatewayAPIKeyRemark_Inr:
  "NormalizeGatewayAPIKeyRemark s = Inr r \<longleftrightarrow>
     r = TrimSpace s \<and> length r \<le> 80 \<and> (\<forall>c \<in> set r. remark_char c)"
  by (auto simp: NormalizeGatewayAPIKeyRemark_def Let_def split: if_splits)

lemma NormalizeGatewayAPIKeyRemark_Inl:
  "NormalizeGatewayAPIKeyRemark s = Inl e \<Longrightarrow> e = ErrGatewayAPIKeyRemarkInvalid"
  by (auto simp: NormalizeGatewayAPIKeyRemark_def Let_def split: if_splits)

lemma remark_no_underscore: "\<forall>c \<in> set r. remark_char c \<Longrightarrow> CHR ''_'' \<notin> set r"
  using remark_char_in by blast

lemma remark_in: "\<forall>c \<in> set r. remark_char c \<Longrightarrow> set r \<subseteq> set b64_alphabet"
  using remark_char_in by blast

lemma Normalize_remark_id:
  "\<forall>c \<in> set r. remark_char c \<Longrightarrow> length r \<le> 80 \<Longrightarrow> NormalizeGatewayAPIKeyRemark r = Inr r"
  by (simp add: NormalizeGatewayAPIKeyRemark_Inr TrimSpace_b64 remark_in)

lemma Normalize_remark_idem:
  "NormalizeGatewayAPIKeyRemark s = Inr r \<Longrightarrow> NormalizeGatewayAPIKeyRemark r = Inr r"
  by (auto simp: NormalizeGatewayAPIKeyRemark_Inr)

section \<open>What is stored of a key\<close>

lemma BuildGatewayAPIKeySecret_simps [simp]:
  "PlainKey (BuildGatewayAPIKeySecret p) = TrimSpace p"
  "KeyHash (BuildGatewayAPIKeySecret p) = hex_encode (sha256 (TrimSpace p))"
  "KeyPrefix (BuildGatewayAPIKeySecret p) = take 12 (TrimSpace p)"
  "length (KeyLast4 (BuildGatewayAPIKeySecret p)) = min 4 (length (TrimSpace p))"
  by (auto simp: BuildGatewayAPIKeySecret_def Let_def)

lemma Build_TrimSpace: "BuildGatewayAPIKeySecret (TrimSpace p) = BuildGatewayAPIKeySecret p"
  by (simp add: BuildGatewayAPIKeySecret_def)

text \<open>The plain text of a generated key, before hashing.\<close>

definition keyed_plain :: "string \<Rightarrow> string \<Rightarrow> string" where
  "keyed_plain remark rand =
     (if remark \<noteq> '''' then GatewayAPIKeyPrefix @ remark @ ''_'' @ rand
      else GatewayAPIKeyPrefix @ rand)"

lemma keyed_plain_in:
  "\<forall>c \<in> set r. remark_char c \<Longrightarrow> set rand \<subseteq> set b64_alphabet \<Longrightarrow>
   set (keyed_plain r rand) \<subseteq> set b64_alphabet"
  using prefix_in underscore_in remark_in by (auto simp: keyed_plain_def)

lemma NewSecret_eq:
  assumes "NormalizeGatewayAPIKeyRemark s = Inr r"
  shows "NewGatewayAPIKeySecretWithRemark (Inr raw) s =
           Inr (BuildGatewayAPIKeySecret (keyed_plain r (b64url raw)))"
  using assms by (simp add: NewGatewayAPIKeySecretWithRemark_def keyed_plain_def Let_def)

lemma NewSecret_Inr:
  assumes "NewGatewayAPIKeySecretWithRemark raw s = Inr sec"
  obtains r bytes where "NormalizeGatewayAPIKeyRemark s = Inr r" "raw = Inr bytes"
    "sec = BuildGatewayAPIKeySecret (keyed_plain r (b64url bytes))"
    "PlainKey sec = keyed_plain r (b64url bytes)"
proof -
  obtain r bytes where *: "NormalizeGatewayAPIKeyRemark s = Inr r" "raw = Inr bytes"
    using assms by (auto simp: NewGatewayAPIKeySecretWithRemark_def split: sum.splits)
  then have sec: "sec = BuildGatewayAPIKeySecret (keyed_plain r (b64url bytes))"
    using assms by (simp add: NewSecret_eq)
  have "\<forall>c \<in> set r. remark_char c"
    using * by (simp add: NormalizeGatewayAPIKeyRemark_Inr)
  then have "TrimSpace (keyed_plain r (b64url bytes)) = keyed_plain r (b64url bytes)"
    by (intro TrimSpace_b64 keyed_plain_in set_b64url)
  then show thesis using that * sec by simp
qed

lemma index_of_remark: "\<forall>c \<in> set r. remark_char c \<Longrightarrow> index_of (r @ ''_'' @ t) ''_'' = Some (length r)"
  using index_of_char_append [of "CHR ''_''" r t] remark_no_underscore by auto

lemma keyed_plain_strip:
  assumes "\<forall>c \<in> set r. remark_char c" "set rand \<subseteq> set b64_alphabet"
    and "keyed_plain r rand = GatewayAPIKeyPrefix @ rest"
  shows "TrimSpace (keyed_plain r rand) = keyed_plain r rand" "keyed_plain r rand \<noteq> ''''"
    "has_prefix (keyed_plain r rand) GatewayAPIKeyPrefix"
    "trim_prefix (keyed_plain r rand) GatewayAPIKeyPrefix = rest"
proof -
  show "TrimSpace (keyed_plain r rand) = keyed_plain r rand"
    by (intro TrimSpace_b64 keyed_plain_in assms)
  show "keyed_plain r rand \<noteq> ''''" by (simp add: assms(3) GatewayAPIKeyPrefix_def)
  show "has_prefix (keyed_plain r rand) GatewayAPIKeyPrefix"
    unfolding assms(3) by (rule has_prefix_append)
  show "trim_prefix (keyed_plain r rand) GatewayAPIKeyPrefix = rest"
    unfolding assms(3) by (rule trim_prefix_append)
qed

text \<open>Putting a remark into a key that has one replaces the remark and keeps the random part.\<close>

lemma Rebuild_keyed:
  assumes r: "\<forall>c \<in> set r. remark_char c" "r \<noteq> ''''"
    and rand: "set rand \<subseteq> set b64_alphabet" "rand \<noteq> ''''"
    and n: "NormalizeGatewayAPIKeyRemark s = Inr nxt"
  shows "RebuildGatewayAPIKeySecretWithRemark raw (keyed_plain r rand) s =
           Inr (BuildGatewayAPIKeySecret (keyed_plain nxt rand))"
proof -
  have "keyed_plain r rand = GatewayAPIKeyPrefix @ (r @ ''_'' @ rand)"
    using r by (simp add: keyed_plain_def)
  note strip = keyed_plain_strip [OF r(1) rand(1) this]
  show ?thesis
    using n rand index_of_remark [OF r(1), of rand] strip
    by (simp add: RebuildGatewayAPIKeySecretWithRemark_def keyed_plain_def [of nxt] Let_def)
qed

text \<open>
  A key without a remark has no separator, and the base64 alphabet has an underscore: what
  stands before the first underscore of the random part is taken for a remark and dropped.
\<close>

lemma Rebuild_unnamed:
  assumes rand: "set rand \<subseteq> set b64_alphabet" "rand = a @ ''_'' @ b" "CHR ''_'' \<notin> set a" "b \<noteq> ''''"
    and n: "NormalizeGatewayAPIKeyRemark s = Inr nxt"
  shows "RebuildGatewayAPIKeySecretWithRemark raw (keyed_plain '''' rand) s =
           Inr (BuildGatewayAPIKeySecret (keyed_plain nxt b))"
proof -
  have "keyed_plain '''' rand = GatewayAPIKeyPrefix @ rand" by (simp add: keyed_plain_def)
  note strip = keyed_plain_strip [OF _ rand(1) this]
  have "index_of rand ''_'' = Some (length a)"
    using index_of_char_append [OF rand(3), of b] rand(2) by simp
  then show ?thesis
    using n rand strip
    by (simp add: RebuildGatewayAPIKeySecretWithRemark_def keyed_plain_def [of nxt] Let_def)
qed

lemma Rebuild_unnamed_whole:
  assumes rand: "set rand \<subseteq> set b64_alphabet" "CHR ''_'' \<notin> set rand" "rand \<noteq> ''''"
    and n: "NormalizeGatewayAPIKeyRemark s = Inr nxt"
  shows "RebuildGatewayAPIKeySecretWithRemark raw (keyed_plain '''' rand) s =
           Inr (BuildGatewayAPIKeySecret (keyed_plain nxt rand))"
proof -
  have "keyed_plain '''' rand = GatewayAPIKeyPrefix @ rand" by (simp add: keyed_plain_def)
  note strip = keyed_plain_strip [OF _ rand(1) this]
  have "index_of rand ''_'' = None" using rand by (simp add: index_of_char_None)
  then show ?thesis
    using n rand strip
    by (simp add: RebuildGatewayAPIKeySecretWithRemark_def keyed_plain_def [of nxt] Let_def)
qed

section \<open>Every secret the code makes\<close>

text \<open>A secret whose hash is the hash of its plain key, which is trimmed and not empty.\<close>

definition secret_ok :: "api_key_secret \<Rightarrow> bool" where
  "secret_ok sec =
     (KeyHash sec = hex_encode (sha256 (PlainKey sec)) \<and> TrimSpace (PlainKey sec) = PlainKey sec \<and>
      PlainKey sec \<noteq> '''')"

lemma TrimSpace_prefixed: "TrimSpace (GatewayAPIKeyPrefix @ s) \<noteq> ''''"
  unfolding GatewayAPIKeyPrefix_def
  using TrimSpace_Cons [of "CHR ''o''" "''gw_'' @ s"] b64_plain [of "CHR ''o''"]
  by (simp add: b64_alphabet_def)

lemma Build_secret_ok: "secret_ok (BuildGatewayAPIKeySecret (GatewayAPIKeyPrefix @ s))"
  by (simp add: secret_ok_def TrimSpace_prefixed)

lemma New_secret_ok:
  assumes "NewGatewayAPIKeySecretWithRemark raw s = Inr sec"
  shows "secret_ok sec"
  using assms
  by (auto simp: NewGatewayAPIKeySecretWithRemark_def Let_def Build_secret_ok
      split: sum.splits if_splits)

lemma Rebuild_secret_ok:
  assumes "RebuildGatewayAPIKeySecretWithRemark raw plain s = Inr sec"
  shows "secret_ok sec"
  using assms
  by (auto simp: RebuildGatewayAPIKeySecretWithRemark_def Let_def Build_secret_ok
      dest: New_secret_ok split: sum.splits if_splits)

section \<open>Properties\<close>

text \<open>
  Whatever 32 random bytes are drawn and whatever remark is accepted, the key that is
  generated fits the columns of the key table (plain\_key 128, key\_hash 64, key\_prefix 16,
  key\_last4 8), consists of URL-safe characters only, and ends in all 43 characters of the
  random part.
\<close>

theorem generated_key_fits_schema:
  assumes "NewGatewayAPIKeySecretWithRemark (Inr raw) remark = Inr sec" and "length raw = 32"
  shows "length (PlainKey sec) \<le> 128 \<and> length (KeyHash sec) = 64 \<and> length (KeyPrefix sec) = 12 \<and>
         length (KeyLast4 sec) = 4 \<and> set (PlainKey sec) \<subseteq> set b64_alphabet \<and>
         (\<exists>p. PlainKey sec = GatewayAPIKeyPrefix @ p @ b64url raw)"
proof -
  obtain r where n: "NormalizeGatewayAPIKeyRemark remark = Inr r"
    and sec: "sec = BuildGatewayAPIKeySecret (keyed_plain r (b64url raw))"
    and plain: "PlainKey sec = keyed_plain r (b64url raw)"
    using NewSecret_Inr [OF assms(1)] by (metis sum.inject(2))
  have r: "\<forall>c \<in> set r. remark_char c" "length r \<le> 80"
    using n unfolding NormalizeGatewayAPIKeyRemark_Inr by blast+
  have len: "length (keyed_plain r (b64url raw)) = (if r = '''' then 47 else 48 + length r)"
    using assms(2) by (simp add: keyed_plain_def)
  have "\<exists>p. keyed_plain r (b64url raw) = GatewayAPIKeyPrefix @ p @ b64url raw"
    unfolding keyed_plain_def by (metis append_Nil append_assoc)
  moreover have trim: "TrimSpace (keyed_plain r (b64url raw)) = keyed_plain r (b64url raw)"
    using sec plain by simp
  moreover have "length (KeyPrefix sec) = 12" "length (KeyLast4 sec) = 4" "length (KeyHash sec) = 64"
    unfolding sec by (simp_all add: trim len)
  ultimately show ?thesis
    using plain r(2) len keyed_plain_in [OF r(1) set_b64url, of raw] by simp
qed

lemma generated_key_fits_schema_witness:
  "\<exists>sec. NewGatewayAPIKeySecretWithRemark (Inr (replicate 32 CHR ''a'')) ''prod'' = Inr sec \<and>
     length (PlainKey sec) \<le> 128"
proof -
  have n: "NormalizeGatewayAPIKeyRemark ''prod'' = Inr ''prod''"
    by (rule Normalize_remark_id) (simp_all add: remark_char_def byte_val_def)
  let ?sec = "BuildGatewayAPIKeySecret (keyed_plain ''prod'' (b64url (replicate 32 CHR ''a'')))"
  have new: "NewGatewayAPIKeySecretWithRemark (Inr (replicate 32 CHR ''a'')) ''prod'' = Inr ?sec"
    by (rule NewSecret_eq [OF n])
  show ?thesis using new generated_key_fits_schema [OF new] by auto
qed

end
