(* ===== verification/KeyRepo.thy ===== *)
theory KeyRepo
  imports Store KeySecrets
begin

text \<open>
  The repository operations on API keys and settings (internal/data/gateway\_repo.go). Each
  statement sent to the database is one statement of the model and may fail; ent's validators
  run before it. \<open>repo_\<close> marks the repository's operation where the use case of biz has the same
  name. Rows of equal creation time are listed in insertion order.
\<close>

section \<open>API keys\<close>

definition mapGatewayAPIKey :: "api_key_row \<Rightarrow> GatewayAPIKey" where
  "mapGatewayAPIKey item =
     (let ownerUserID = (case k_owner_user_id item of None \<Rightarrow> 0 | Some o' \<Rightarrow> o');
          q = k_quotas item;
          quotaWeeklyTokens =
            (if QuotaWeeklyTokens q \<le> 0 \<and> QuotaDailyTokens q \<le> 0 \<and> QuotaTotalTokens q > 0
             then QuotaTotalTokens q else QuotaWeeklyTokens q)
      in \<lparr>key_ID = k_id item, key_OwnerUserID = ownerUserID, key_Name = k_name item,
          key_PlainKey = k_plain_key item, key_KeyPrefix = k_key_prefix item,
          key_KeyLast4 = k_key_last4 item, key_Disabled = k_disabled item,
          key_UpstreamStrategy = k_upstream_strategy item,
          key_DefaultReasoningEffort = k_default_reasoning_effort item,
          key_Quotas = q\<lparr>QuotaWeeklyTokens := quotaWeeklyTokens\<rparr>,
          key_AllowedModels = normalizeStringList (k_allowed_models item),
          key_LastUsedAt = k_last_used_at item, key_CreatedAt = k_created_at item,
          key_UpdatedAt = k_updated_at item\<rparr>)"

text \<open>\<open>create.SetOwnerUserID\<close> only for a positive id; an update clears the column otherwise.\<close>

definition owner_column :: "int \<Rightarrow> int option" where
  "owner_column ownerUserID = (if ownerUserID > 0 then Some ownerUserID else None)"

definition repo_CreateAPIKey ::
  "CreateGatewayAPIKeyInput \<Rightarrow> api_key_secret \<Rightarrow> (store, GatewayAPIKey) op" where
  "repo_CreateAPIKey input secret =
     checked (key_name_valid (in_Name input) \<and>
              key_secret_valid (KeyHash secret) (PlainKey secret) (KeyPrefix secret) (KeyLast4 secret) \<and>
              key_options_valid (in_UpstreamStrategy input) (in_DefaultReasoningEffort input))
       (bind_op time_now (\<lambda>now.
        bind_op
          (on_keys (insert_row key_clash (\<lambda>i.
             \<lparr>k_id = i, k_owner_user_id = owner_column (in_OwnerUserID input), k_name = in_Name input,
              k_key_hash = KeyHash secret, k_plain_key = PlainKey secret,
              k_key_prefix = KeyPrefix secret, k_key_last4 = KeyLast4 secret, k_disabled = False,
              k_upstream_strategy = in_UpstreamStrategy input,
              k_default_reasoning_effort = in_DefaultReasoningEffort input,
              k_quotas = in_Quotas input,
              k_allowed_models = normalizeStringList (in_AllowedModels input),
              k_last_used_at = None, k_created_at = now, k_updated_at = now\<rparr>)))
          (\<lambda>item. ok (mapGatewayAPIKey item))))"

definition contains_fold :: "string \<Rightarrow> string \<Rightarrow> bool" where
  "contains_fold s sub = contains (ToLower s) (ToLower sub)"

definition key_matches :: "string \<Rightarrow> api_key_row \<Rightarrow> bool" where
  "key_matches search r =
     (search = '''' \<or>
      contains_fold (k_name r) search \<or> contains_fold (k_key_prefix r) search \<or>
      contains_fold (k_key_last4 r) search \<or>
      (case ParseInt search of None \<Rightarrow> False | Some i \<Rightarrow> i > 0 \<and> k_id r = i))"

text \<open>Count, then one page of the rows in descending order of creation.\<close>

definition list_keys :: "int \<Rightarrow> int \<Rightarrow> (api_key_row \<Rightarrow> bool) \<Rightarrow> (store, GatewayAPIKey list \<times> int) op" where
  "list_keys limit offset P =
     bind_op (on_keys (select_rows P)) (\<lambda>counted.
     bind_op (on_keys (select_rows P)) (\<lambda>list.
       ok (map mapGatewayAPIKey (page limit offset (sort_key (\<lambda>r. - k_created_at r) list)),
           int (length counted))))"

definition repo_ListAPIKeys :: "int \<Rightarrow> int \<Rightarrow> string \<Rightarrow> (store, GatewayAPIKey list \<times> int) op" where
  "repo_ListAPIKeys limit offset search = list_keys limit offset (key_matches search)"

definition repo_ListAPIKeysByOwner :: "int \<Rightarrow> int \<Rightarrow> int \<Rightarrow> (store, GatewayAPIKey list \<times> int) op" where
  "repo_ListAPIKeysByOwner ownerUserID limit offset =
     list_keys limit offset (\<lambda>r. k_owner_user_id r = Some ownerUserID)"

text \<open>\<open>ent.IsNotFound\<close> becomes the error of biz; other errors are returned as they are.\<close>

definition not_found_as :: "go_error \<Rightarrow> ('s, 'a) op \<Rightarrow> ('s, 'a) op" where
  "not_found_as e m =
     try_op m (\<lambda>r. case r of Inl err \<Rightarrow> if err = DBNotFound then fail e else fail err | Inr x \<Rightarrow> ok x)"

definition repo_GetAPIKeyByID :: "int \<Rightarrow> (store, GatewayAPIKey) op" where
  "repo_GetAPIKeyByID i =
     (if i \<le> 0 then fail ErrBadParam
      else bind_op (not_found_as ErrGatewayAPIKeyNotFound (on_keys (get_row k_id i)))
             (\<lambda>item. ok (mapGatewayAPIKey item)))"

definition repo_UpdateAPIKey :: "UpdateGatewayAPIKeyInput \<Rightarrow> (store, GatewayAPIKey) op" where
  "repo_UpdateAPIKey input =
     checked (key_name_valid (in_Name input) \<and>
              key_options_valid (in_UpstreamStrategy input) (in_DefaultReasoningEffort input))
       (bind_op time_now (\<lambda>now.
        bind_op
          (on_keys (update_row k_id key_clash (in_ID input) (\<lambda>r.
             r\<lparr>k_name := in_Name input, k_upstream_strategy := in_UpstreamStrategy input,
               k_default_reasoning_effort := in_DefaultReasoningEffort input,
               k_quotas := in_Quotas input,
               k_allowed_models := normalizeStringList (in_AllowedModels input),
               k_disabled := in_Disabled input,
               k_owner_user_id := owner_column (in_OwnerUserID input), k_updated_at := now\<rparr>)))
          (\<lambda>item. ok (mapGatewayAPIKey item))))"

definition repo_ResetAPIKeySecret :: "int \<Rightarrow> api_key_secret \<Rightarrow> (store, GatewayAPIKey) op" where
  "repo_ResetAPIKeySecret i secret =
     checked (key_secret_valid (KeyHash secret) (PlainKey secret) (KeyPrefix secret) (KeyLast4 secret))
       (bind_op time_now (\<lambda>now.
        bind_op
          (on_keys (update_row k_id key_clash i (\<lambda>r.
             r\<lparr>k_key_hash := KeyHash secret, k_plain_key := PlainKey secret,
               k_key_prefix := KeyPrefix secret, k_key_last4 := KeyLast4 secret, k_updated_at := now\<rparr>)))
          (\<lambda>item. ok (mapGatewayAPIKey item))))"

definition repo_DeleteAPIKey :: "int \<Rightarrow> (store, unit) op" where
  "repo_DeleteAPIKey i =
     bind_op (on_policies (delete_rows (\<lambda>p. po_APIKeyID p = i))) (\<lambda>_.
       on_keys (delete_row k_id i))"

definition repo_DeleteAPIKeys :: "int list \<Rightarrow> (store, int) op" where
  "repo_DeleteAPIKeys ids =
     bind_op (on_policies (delete_rows (\<lambda>p. po_APIKeyID p \<in> set ids))) (\<lambda>_.
       on_keys (delete_rows (\<lambda>r. k_id r \<in> set ids)))"

definition repo_SetAPIKeyDisabled :: "int \<Rightarrow> bool \<Rightarrow> (store, unit) op" where
  "repo_SetAPIKeyDisabled i disabled =
     bind_op time_now (\<lambda>now.
     bind_op (on_keys (update_row k_id key_clash i (\<lambda>r. r\<lparr>k_disabled := disabled, k_updated_at := now\<rparr>)))
       (\<lambda>_. ok ()))"

definition repo_DisableAllAPIKeys :: "(store, int) op" where
  "repo_DisableAllAPIKeys =
     bind_op time_now (\<lambda>now.
       on_keys (update_rows (\<lambda>r. \<not> k_disabled r) (\<lambda>r. r\<lparr>k_disabled := True, k_updated_at := now\<rparr>)))"

definition repo_EnableAllAPIKeys :: "(store, int) op" where
  "repo_EnableAllAPIKeys =
     bind_op time_now (\<lambda>now.
       on_keys (update_rows (\<lambda>r. k_disabled r) (\<lambda>r. r\<lparr>k_disabled := False, k_updated_at := now\<rparr>)))"

definition repo_GetAPIKeyByHash :: "string \<Rightarrow> (store, GatewayAPIKey) op" where
  "repo_GetAPIKeyByHash keyHash =
     bind_op (not_found_as ErrGatewayAPIKeyNotFound (on_keys (only_row (\<lambda>r. k_key_hash r = keyHash))))
       (\<lambda>item. ok (mapGatewayAPIKey item))"

definition repo_TouchAPIKeyUsed :: "int \<Rightarrow> int \<Rightarrow> (store, unit) op" where
  "repo_TouchAPIKeyUsed i usedAt =
     bind_op time_now (\<lambda>now.
     bind_op (on_keys (update_row k_id key_clash i (\<lambda>r. r\<lparr>k_last_used_at := Some usedAt, k_updated_at := now\<rparr>)))
       (\<lambda>_. ok ()))"

section \<open>Settings\<close>

definition repo_GetGatewaySetting :: "string \<Rightarrow> (store, string) op" where
  "repo_GetGatewaySetting key0 =
     (let key = TrimSpace key0
      in if key = '''' then fail ErrBadParam
         else try_op (on_settings (only_row (\<lambda>r. s_key r = key))) (\<lambda>r.
                case r of
                  Inl err \<Rightarrow> if err = DBNotFound then ok '''' else fail err
                | Inr item \<Rightarrow> ok (s_value item)))"

definition repo_SetGatewaySetting :: "string \<Rightarrow> string \<Rightarrow> (store, unit) op" where
  "repo_SetGatewaySetting key0 value0 =
     (let key = TrimSpace key0; v = TrimSpace value0
      in if key = '''' then fail ErrBadParam
         else checked (max_len 512 v)
           (bind_op time_now (\<lambda>now.
            bind_op (on_settings (update_rows (\<lambda>r. s_key r = key) (\<lambda>r. r\<lparr>s_value := v, s_updated_at := now\<rparr>)))
              (\<lambda>updated.
                 if updated > 0 then ok ()
                 else checked (max_len 128 key)
                   (bind_op time_now (\<lambda>now.
                    bind_op (on_settings (insert_row setting_clash (\<lambda>i.
                      \<lparr>s_id = i, s_key = key, s_value = v, s_created_at = now, s_updated_at = now\<rparr>)))
                      (\<lambda>_. ok ())))))))"

section \<open>Every operation keeps the store well formed\<close>

lemma keeps_not_found_as [op_keeps]: "keeps P m \<Longrightarrow> keeps P (not_found_as e m)"
  unfolding not_found_as_def by (intro op_keeps)

lemmas key_keeps = key_tbl.keeps_stmts policy_tbl.keeps_stmts setting_tbl.keeps_stmts
lemmas key_row_simps = key_valid_def key_clash_def setting_valid_def setting_clash_def

lemma keeps_repo_CreateAPIKey [op_keeps]: "keeps store_ok (repo_CreateAPIKey input secret)"
  unfolding repo_CreateAPIKey_def
  by (intro op_keeps key_keeps) (simp_all add: key_row_simps)

lemma keeps_list_keys [op_keeps]: "keeps store_ok (list_keys limit offset P)"
  unfolding list_keys_def by (intro op_keeps key_keeps)

lemma keeps_repo_UpdateAPIKey [op_keeps]: "keeps store_ok (repo_UpdateAPIKey input)"
  unfolding repo_UpdateAPIKey_def
  by (intro op_keeps key_keeps) (simp_all add: key_row_simps)

lemma keeps_repo_ResetAPIKeySecret [op_keeps]: "keeps store_ok (repo_ResetAPIKeySecret i secret)"
  unfolding repo_ResetAPIKeySecret_def
  by (intro op_keeps key_keeps) (simp_all add: key_row_simps)

lemma keeps_repo_key_writes [op_keeps]:
  "keeps store_ok (repo_DeleteAPIKey i)"
  "keeps store_ok (repo_DeleteAPIKeys ids)"
  "keeps store_ok (repo_SetAPIKeyDisabled i b)"
  "keeps store_ok repo_DisableAllAPIKeys"
  "keeps store_ok repo_EnableAllAPIKeys"
  "keeps store_ok (repo_TouchAPIKeyUsed i t)"
  unfolding repo_DeleteAPIKey_def repo_DeleteAPIKeys_def repo_SetAPIKeyDisabled_def
    repo_DisableAllAPIKeys_def repo_EnableAllAPIKeys_def repo_TouchAPIKeyUsed_def
  by (intro op_keeps key_keeps; simp add: key_row_simps)+

lemma keeps_repo_key_reads [op_keeps]:
  "keeps store_ok (repo_ListAPIKeys limit offset search)"
  "keeps store_ok (repo_ListAPIKeysByOwner owner limit offset)"
  "keeps store_ok (repo_GetAPIKeyByID i)"
  "keeps store_ok (repo_GetAPIKeyByHash h)"
  unfolding repo_ListAPIKeys_def repo_ListAPIKeysByOwner_def repo_GetAPIKeyByID_def
    repo_GetAPIKeyByHash_def
  by (intro op_keeps key_keeps)+

lemma keeps_repo_GetGatewaySetting [op_keeps]: "keeps store_ok (repo_GetGatewaySetting k)"
  unfolding repo_GetGatewaySetting_def by (intro op_keeps key_keeps)

lemma keeps_repo_SetGatewaySetting [op_keeps]: "keeps store_ok (repo_SetGatewaySetting k v)"
  unfolding repo_SetGatewaySetting_def
  by (intro op_keeps key_keeps) (simp_all add: key_row_simps not_empty_def)

end
