(* ===== verification/ModelRepo.thy ===== *)
theory ModelRepo
  imports KeyRepo "HOL-Library.Char_ord" "HOL-Library.List_Lexorder" "HOL-Library.Product_Lexorder"
begin

text \<open>
  The repository operations on models, model prices and policies
  (internal/data/gateway\_repo.go), with the seeding and pruning of the model catalogue that
  runs at start-up. The database orders text by bytes, which is the order of \<open>string\<close> here.
\<close>

section \<open>Policies\<close>

text \<open>A query for one row where a missing row is no error: \<open>None\<close>.\<close>

definition optional :: "('s, 'a) op \<Rightarrow> ('s, 'a option) op" where
  "optional m =
     try_op m (\<lambda>r. case r of
       Inl err \<Rightarrow> if err = DBNotFound then ok None else fail err
     | Inr x \<Rightarrow> ok (Some x))"

definition query_policy :: "int \<Rightarrow> string \<Rightarrow> (store, GatewayPolicy option) op" where
  "query_policy apiKeyID modelID =
     optional (on_policies (only_row (\<lambda>p. po_APIKeyID p = apiKeyID \<and> po_ModelID p = modelID)))"

definition repo_GetPolicyForKeyModel :: "int \<Rightarrow> string \<Rightarrow> (store, GatewayPolicy option) op" where
  "repo_GetPolicyForKeyModel apiKeyID modelID0 =
     (let modelID = TrimSpace modelID0
      in if modelID \<noteq> ''''
         then bind_op (query_policy apiKeyID modelID) (\<lambda>item.
                case item of Some p \<Rightarrow> ok (Some p) | None \<Rightarrow> query_policy apiKeyID ''*'')
         else query_policy apiKeyID ''*'')"

definition repo_ListPolicies :: "int \<Rightarrow> (store, GatewayPolicy list) op" where
  "repo_ListPolicies apiKeyID =
     bind_op (on_policies (select_rows (\<lambda>p. apiKeyID > 0 \<longrightarrow> po_APIKeyID p = apiKeyID))) (\<lambda>list.
       ok (sort_key (\<lambda>p. (po_APIKeyID p, po_ModelID p)) list))"

definition repo_UpsertPolicy :: "GatewayPolicy \<Rightarrow> (store, GatewayPolicy) op" where
  "repo_UpsertPolicy item =
     bind_op (query_policy (po_APIKeyID item) (po_ModelID item)) (\<lambda>existing.
       case existing of
         None \<Rightarrow>
           checked (0 < po_APIKeyID item \<and> not_empty (po_ModelID item) \<and> max_len 128 (po_ModelID item))
             (bind_op time_now (\<lambda>now.
              on_policies (insert_row policy_clash (\<lambda>i.
                item\<lparr>po_ID := i, po_CreatedAt := now, po_UpdatedAt := now\<rparr>))))
       | Some p \<Rightarrow>
           bind_op time_now (\<lambda>now.
           on_policies (update_row po_ID policy_clash (po_ID p) (\<lambda>r.
             r\<lparr>RPM := RPM item, TPM := TPM item, DailyRequests := DailyRequests item,
               MonthlyRequests := MonthlyRequests item, DailyTokens := DailyTokens item,
               MonthlyTokens := MonthlyTokens item, po_UpdatedAt := now\<rparr>))))"

definition repo_DeletePolicy :: "int \<Rightarrow> (store, unit) op" where
  "repo_DeletePolicy i = on_policies (delete_row po_ID i)"

section \<open>Prices\<close>

definition repo_ListModelPrices :: "(store, GatewayModelPrice list) op" where
  "repo_ListModelPrices =
     bind_op (on_prices (select_rows (\<lambda>_. True))) (\<lambda>list. ok (sort_key pr_ModelID list))"

definition repo_UpsertModelPrice :: "GatewayModelPrice \<Rightarrow> (store, GatewayModelPrice) op" where
  "repo_UpsertModelPrice item =
     bind_op (optional (on_prices (only_row (\<lambda>p. pr_ModelID p = pr_ModelID item)))) (\<lambda>existing.
       case existing of
         None \<Rightarrow>
           checked (not_empty (pr_ModelID item) \<and> max_len 128 (pr_ModelID item))
             (bind_op time_now (\<lambda>now.
              on_prices (insert_row price_clash (\<lambda>i.
                item\<lparr>pr_ID := i, pr_CreatedAt := now, pr_UpdatedAt := now\<rparr>))))
       | Some p \<Rightarrow>
           bind_op time_now (\<lambda>now.
           on_prices (update_row pr_ID price_clash (pr_ID p) (\<lambda>r.
             r\<lparr>InputUSDPerMillion := InputUSDPerMillion item,
               CachedInputUSDPerMillion := CachedInputUSDPerMillion item,
               OutputUSDPerMillion := OutputUSDPerMillion item, pr_UpdatedAt := now\<rparr>))))"

definition repo_DeleteModelPrice :: "int \<Rightarrow> (store, unit) op" where
  "repo_DeleteModelPrice i = on_prices (delete_row pr_ID i)"

section \<open>Models\<close>

definition repo_ListModels :: "int \<Rightarrow> int \<Rightarrow> bool \<Rightarrow> string \<Rightarrow> (store, GatewayModel list \<times> int) op" where
  "repo_ListModels limit offset enabledOnly search =
     (let P = (\<lambda>m. (enabledOnly \<longrightarrow> m_Enabled m) \<and> (search \<noteq> '''' \<longrightarrow> contains_fold (m_ModelID m) search))
      in bind_op (on_models (select_rows P)) (\<lambda>counted.
         bind_op (on_models (select_rows P)) (\<lambda>list.
           ok (page limit offset (sort_key m_ModelID list), int (length counted)))))"

definition query_model :: "string \<Rightarrow> (store, GatewayModel option) op" where
  "query_model modelID = optional (on_models (only_row (\<lambda>m. m_ModelID m = modelID)))"

definition insert_model :: "GatewayModel \<Rightarrow> int \<Rightarrow> (store, GatewayModel) op" where
  "insert_model model seen =
     checked (model_valid model)
       (bind_op time_now (\<lambda>now.
        on_models (insert_row model_clash (\<lambda>i.
          model\<lparr>m_ID := i, m_LastSeenAt := Some seen, m_CreatedAt := now, m_UpdatedAt := now\<rparr>))))"

definition repo_UpsertModel :: "GatewayModel \<Rightarrow> (store, GatewayModel) op" where
  "repo_UpsertModel model =
     bind_op (query_model (m_ModelID model)) (\<lambda>existing.
     bind_op time_now (\<lambda>now.
       case existing of
         None \<Rightarrow> insert_model model now
       | Some m \<Rightarrow>
           checked (max_len 128 (m_OwnedBy model) \<and> max_len 32 (m_Source model) \<and>
                    context_valid (m_Context model))
             (bind_op time_now (\<lambda>upd.
              on_models (update_row m_ID model_clash (m_ID m) (\<lambda>r.
                r\<lparr>m_OwnedBy := m_OwnedBy model, m_CreatedUnix := m_CreatedUnix model,
                  m_Enabled := m_Enabled model, m_Source := m_Source model,
                  m_Context := m_Context model, m_LastSeenAt := Some now, m_UpdatedAt := upd\<rparr>))))))"

definition repo_UpsertSyncedModel :: "GatewayModel \<Rightarrow> (store, GatewayModel) op" where
  "repo_UpsertSyncedModel model =
     bind_op (query_model (m_ModelID model)) (\<lambda>existing.
     bind_op time_now (\<lambda>now.
       case existing of
         None \<Rightarrow> insert_model (model\<lparr>m_Enabled := False, m_Source := ''upstream''\<rparr>) now
       | Some m \<Rightarrow>
           checked (max_len 128 (m_OwnedBy model))
             (bind_op time_now (\<lambda>upd.
              on_models (update_row m_ID model_clash (m_ID m) (\<lambda>r.
                r\<lparr>m_OwnedBy := m_OwnedBy model, m_CreatedUnix := m_CreatedUnix model,
                  m_Source := ''upstream'', m_LastSeenAt := Some now, m_UpdatedAt := upd\<rparr>))))))"

definition repo_SetModelEnabled :: "int \<Rightarrow> bool \<Rightarrow> (store, unit) op" where
  "repo_SetModelEnabled i enabled =
     bind_op time_now (\<lambda>now.
     bind_op (on_models (update_row m_ID model_clash i (\<lambda>r. r\<lparr>m_Enabled := enabled, m_UpdatedAt := now\<rparr>)))
       (\<lambda>_. ok ()))"

definition repo_UpdateModelContextPolicy ::
  "int \<Rightarrow> GatewayModelContextPolicy \<Rightarrow> (store, GatewayModel) op" where
  "repo_UpdateModelContextPolicy i policy =
     checked (context_valid policy)
       (bind_op time_now (\<lambda>now.
        on_models (update_row m_ID model_clash i (\<lambda>r. r\<lparr>m_Context := policy, m_UpdatedAt := now\<rparr>))))"

definition repo_GetModelByID :: "string \<Rightarrow> (store, GatewayModel option) op" where
  "repo_GetModelByID modelID = query_model modelID"

text \<open>Set the allowed models of one key; part of the loops of DeleteModel and of the pruning.\<close>

definition set_allowed_models :: "int \<Rightarrow> string list \<Rightarrow> (store, unit) op" where
  "set_allowed_models i allowed =
     bind_op time_now (\<lambda>now.
     bind_op (on_keys (update_row k_id key_clash i (\<lambda>r. r\<lparr>k_allowed_models := allowed, k_updated_at := now\<rparr>)))
       (\<lambda>_. ok ()))"

definition repo_DeleteModel :: "int \<Rightarrow> (store, unit) op" where
  "repo_DeleteModel i =
     bind_op (on_models (get_row m_ID i)) (\<lambda>model.
     let modelID = m_ModelID model
     in bind_op (on_policies (delete_rows (\<lambda>p. po_ModelID p = modelID))) (\<lambda>_.
        bind_op (on_prices (delete_rows (\<lambda>p. pr_ModelID p = modelID))) (\<lambda>_.
        bind_op (on_keys (select_rows (\<lambda>_. True))) (\<lambda>ks.
        bind_op
          (for_each (\<lambda>key.
             let current = normalizeStringList (k_allowed_models key);
                 remaining = removeString current modelID
             in if length remaining = length current then ok ()
                else set_allowed_models (k_id key) remaining) ks)
          (\<lambda>_. on_models (delete_row m_ID i))))))"

section \<open>The catalogue at start-up\<close>

definition seed_model :: "string \<Rightarrow> GatewayModel" where
  "seed_model modelID =
     \<lparr>m_ID = 0, m_ModelID = modelID, m_OwnedBy = ''openai'', m_CreatedUnix = 0, m_Enabled = True,
      m_Source = ''seed'', m_Context = no_context_policy, m_LastSeenAt = None, m_CreatedAt = 0,
      m_UpdatedAt = 0\<rparr>"

definition pruneGatewayModels :: "string list \<Rightarrow> string set \<Rightarrow> (store, unit) op" where
  "pruneGatewayModels allowedModelIDs allowedModelSet =
     bind_op (on_models (select_rows (\<lambda>_. True))) (\<lambda>list.
     bind_op
       (for_each (\<lambda>item.
          if m_ModelID item \<in> allowedModelSet then ok ()
          else try_op (repo_DeleteModel (m_ID item)) (\<lambda>r.
                 case r of
                   Inl err \<Rightarrow> if err \<noteq> DBNotFound then fail err else ok ()
                 | Inr _ \<Rightarrow> ok ())) list)
       (\<lambda>_.
     bind_op (on_prices (delete_rows (\<lambda>p. pr_ModelID p \<notin> set allowedModelIDs))) (\<lambda>_.
     bind_op (on_policies (delete_rows (\<lambda>p. po_ModelID p \<noteq> ''*'' \<and> po_ModelID p \<notin> set allowedModelIDs)))
       (\<lambda>_.
     bind_op (on_keys (select_rows (\<lambda>_. True))) (\<lambda>ks.
       for_each (\<lambda>key.
         let current = normalizeStringList (k_allowed_models key);
             remaining = filterAllowedStrings current allowedModelSet
         in if sameStringList current remaining then ok ()
            else set_allowed_models (k_id key) remaining) ks)))))"

definition repo_EnsureDefaultModels :: "(store, unit) op" where
  "repo_EnsureDefaultModels =
     (let defaults = map seed_model CodexModelIDs;
          allowedModelIDs = map m_ModelID defaults
      in bind_op
           (for_each (\<lambda>item.
              bind_op (on_models (select_rows (\<lambda>m. m_ModelID m = m_ModelID item))) (\<lambda>found.
                if found \<noteq> [] then ok ()
                else bind_op (repo_UpsertModel item) (\<lambda>_. ok ()))) defaults)
           (\<lambda>_. pruneGatewayModels allowedModelIDs (set allowedModelIDs)))"

section \<open>Every operation keeps the store well formed\<close>

lemma keeps_optional [op_keeps]: "keeps P m \<Longrightarrow> keeps P (optional m)"
  unfolding optional_def by (intro op_keeps)

lemmas model_keeps = key_keeps model_tbl.keeps_stmts price_tbl.keeps_stmts
lemmas model_row_simps = key_row_simps model_valid_def model_clash_def price_valid_def price_clash_def
  policy_valid_def policy_clash_def

lemma keeps_query_policy [op_keeps]: "keeps store_ok (query_policy k m)"
  unfolding query_policy_def by (intro op_keeps model_keeps)

lemma keeps_query_model [op_keeps]: "keeps store_ok (query_model m)"
  unfolding query_model_def by (intro op_keeps model_keeps)

lemma keeps_repo_policies [op_keeps]:
  "keeps store_ok (repo_GetPolicyForKeyModel k m)"
  "keeps store_ok (repo_ListPolicies k)"
  "keeps store_ok (repo_UpsertPolicy item)"
  "keeps store_ok (repo_DeletePolicy i)"
  unfolding repo_GetPolicyForKeyModel_def repo_ListPolicies_def repo_UpsertPolicy_def repo_DeletePolicy_def
  by (intro op_keeps model_keeps; simp add: model_row_simps)+

lemma keeps_repo_prices [op_keeps]:
  "keeps store_ok repo_ListModelPrices"
  "keeps store_ok (repo_UpsertModelPrice price)"
  "keeps store_ok (repo_DeleteModelPrice i)"
  unfolding repo_ListModelPrices_def repo_UpsertModelPrice_def repo_DeleteModelPrice_def
  by (intro op_keeps model_keeps; simp add: model_row_simps)+

lemma keeps_insert_model [op_keeps]: "keeps store_ok (insert_model m t)"
  unfolding insert_model_def by (intro op_keeps model_keeps) (simp_all add: model_row_simps)

lemma keeps_repo_models [op_keeps]:
  "keeps store_ok (repo_ListModels limit offset b search)"
  "keeps store_ok (repo_UpsertModel model)"
  "keeps store_ok (repo_UpsertSyncedModel model)"
  "keeps store_ok (repo_SetModelEnabled i b)"
  "keeps store_ok (repo_UpdateModelContextPolicy i policy)"
  "keeps store_ok (repo_GetModelByID modelID)"
  unfolding repo_ListModels_def repo_UpsertModel_def repo_UpsertSyncedModel_def repo_SetModelEnabled_def
    repo_UpdateModelContextPolicy_def repo_GetModelByID_def
  by (intro op_keeps model_keeps; simp add: model_row_simps max_len_def)+

lemma keeps_set_allowed_models [op_keeps]: "keeps store_ok (set_allowed_models i allowed)"
  unfolding set_allowed_models_def by (intro op_keeps model_keeps) (simp_all add: model_row_simps)

lemma keeps_repo_DeleteModel [op_keeps]: "keeps store_ok (repo_DeleteModel i)"
  unfolding repo_DeleteModel_def by (intro op_keeps model_keeps)

lemma keeps_pruneGatewayModels [op_keeps]: "keeps store_ok (pruneGatewayModels a b)"
  unfolding pruneGatewayModels_def by (intro op_keeps model_keeps)

lemma keeps_repo_EnsureDefaultModels [op_keeps]: "keeps store_ok repo_EnsureDefaultModels"
  unfolding repo_EnsureDefaultModels_def by (intro op_keeps model_keeps)

end
