(* ===== verification/KeyService.thy ===== *)
theory KeyService
  imports KeyRepo
begin

text \<open>
  The use cases on API keys (internal/biz/gateway.go): create, list, update, reset, delete,
  disable, authenticate. Each takes the repository operations it calls as arguments, as
  \<open>GatewayUsecase\<close> calls its interface \<open>GatewayRepo\<close>; \<open>gateway_\<close> marks the composition with the
  repository of \<open>KeyRepo\<close>. The locale \<open>key_store\<close> states what the use cases rely on: a
  map from key hashes to keys that the operations read and change.
\<close>

record CreatedGatewayAPIKey =
  cr_Key :: GatewayAPIKey
  cr_PlainKey :: string

definition normalize_quotas :: "quotas \<Rightarrow> quotas" where
  "normalize_quotas q =
     q\<lparr>QuotaTotalTokens := normalizeNonNegativeInt64 (QuotaTotalTokens q),
       QuotaDailyTokens := normalizeNonNegativeInt64 (QuotaDailyTokens q),
       QuotaWeeklyTokens := normalizeNonNegativeInt64 (QuotaWeeklyTokens q),
       QuotaDailyInputTokens := normalizeNonNegativeInt64 (QuotaDailyInputTokens q),
       QuotaWeeklyInputTokens := normalizeNonNegativeInt64 (QuotaWeeklyInputTokens q),
       QuotaDailyOutputTokens := normalizeNonNegativeInt64 (QuotaDailyOutputTokens q),
       QuotaWeeklyOutputTokens := normalizeNonNegativeInt64 (QuotaWeeklyOutputTokens q),
       QuotaDailyBillableInputTokens := normalizeNonNegativeInt64 (QuotaDailyBillableInputTokens q),
       QuotaWeeklyBillableInputTokens := normalizeNonNegativeInt64 (QuotaWeeklyBillableInputTokens q)\<rparr>"

text \<open>The checks CreateAPIKey and UpdateAPIKey both start with.\<close>

definition normalize_key_input ::
  "'a CreateGatewayAPIKeyInput_scheme \<Rightarrow> 'a CreateGatewayAPIKeyInput_scheme result" where
  "normalize_key_input input =
     (case NormalizeGatewayAPIKeyRemark (in_Name input) of
        Inl e \<Rightarrow> Inl e
      | Inr name \<Rightarrow>
          let strategy = NormalizeGatewayAPIKeyUpstreamStrategy (in_UpstreamStrategy input);
              effort = NormalizeGatewayAPIKeyDefaultReasoningEffort (in_DefaultReasoningEffort input)
          in if TrimSpace (in_UpstreamStrategy input) \<noteq> '''' \<and> strategy = ''''
             then Inl ErrGatewayUpstreamModeInvalid
             else if TrimSpace (in_DefaultReasoningEffort input) \<noteq> '''' \<and> effort = ''''
             then Inl ErrGatewayReasoningInvalid
             else case normalizeAllowedCodexModels (in_AllowedModels input) of
                    Inl e \<Rightarrow> Inl e
                  | Inr allowed \<Rightarrow>
                      Inr (input\<lparr>in_Name := name, in_Quotas := normalize_quotas (in_Quotas input),
                                 in_AllowedModels := allowed, in_UpstreamStrategy := strategy,
                                 in_DefaultReasoningEffort := effort\<rparr>))"

text \<open>
  The secret of a new key. A key without a name is named after its hash, and its plain text is
  rebuilt with the name.
\<close>

definition name_and_secret ::
  "string result \<Rightarrow> CreateGatewayAPIKeyInput \<Rightarrow> (CreateGatewayAPIKeyInput \<times> api_key_secret) result" where
  "name_and_secret raw input =
     (case NewGatewayAPIKeySecretWithRemark raw (in_Name input) of
        Inl e \<Rightarrow> Inl e
      | Inr secret0 \<Rightarrow>
          if in_Name input = ''''
          then let name = ''key'' @ take 8 (KeyHash secret0)
               in case RebuildGatewayAPIKeySecretWithRemark raw (PlainKey secret0) name of
                    Inl e \<Rightarrow> Inl e
                  | Inr secret \<Rightarrow> Inr (input\<lparr>in_Name := name\<rparr>, secret)
          else Inr (input, secret0))"

definition CreateAPIKey ::
  "(CreateGatewayAPIKeyInput \<Rightarrow> api_key_secret \<Rightarrow> ('s, GatewayAPIKey) op) \<Rightarrow>
   string result \<Rightarrow> CreateGatewayAPIKeyInput \<Rightarrow> ('s, CreatedGatewayAPIKey) op" where
  "CreateAPIKey create raw input0 =
     bind_op (from_result (normalize_key_input input0)) (\<lambda>input1.
     bind_op (from_result (name_and_secret raw input1)) (\<lambda>(input, secret).
     bind_op (create input secret) (\<lambda>item.
       ok \<lparr>cr_Key = item, cr_PlainKey = PlainKey secret\<rparr>)))"

definition ListAPIKeys ::
  "(int \<Rightarrow> int \<Rightarrow> string \<Rightarrow> ('s, GatewayAPIKey list \<times> int) op) \<Rightarrow>
   int \<Rightarrow> int \<Rightarrow> string \<Rightarrow> ('s, GatewayAPIKey list \<times> int) op" where
  "ListAPIKeys list limit offset search =
     list (normalizeLimit limit) (normalizeOffset offset) (TrimSpace search)"

definition ListAPIKeysByOwner ::
  "(int \<Rightarrow> int \<Rightarrow> int \<Rightarrow> ('s, GatewayAPIKey list \<times> int) op) \<Rightarrow>
   int \<Rightarrow> int \<Rightarrow> int \<Rightarrow> ('s, GatewayAPIKey list \<times> int) op" where
  "ListAPIKeysByOwner list ownerUserID limit offset =
     (if ownerUserID \<le> 0 then ok ([], 0)
      else list ownerUserID (normalizeLimit limit) (normalizeOffset offset))"

definition UpdateAPIKey ::
  "(UpdateGatewayAPIKeyInput \<Rightarrow> ('s, GatewayAPIKey) op) \<Rightarrow>
   UpdateGatewayAPIKeyInput \<Rightarrow> ('s, GatewayAPIKey) op" where
  "UpdateAPIKey update input0 =
     (if in_ID input0 \<le> 0 then fail ErrBadParam
      else bind_op (from_result (normalize_key_input input0)) (\<lambda>input.
             update (if in_Name input = ''''
                     then input\<lparr>in_Name := ''key'' @ Itoa (in_ID input)\<rparr> else input)))"

definition ResetAPIKeySecret ::
  "(int \<Rightarrow> ('s, GatewayAPIKey) op) \<Rightarrow> (int \<Rightarrow> api_key_secret \<Rightarrow> ('s, GatewayAPIKey) op) \<Rightarrow>
   string result \<Rightarrow> int \<Rightarrow> ('s, CreatedGatewayAPIKey) op" where
  "ResetAPIKeySecret get reset raw i =
     (if i \<le> 0 then fail ErrBadParam
      else bind_op (get i) (\<lambda>current.
           bind_op (from_result (NormalizeGatewayAPIKeyRemark (key_Name current))) (\<lambda>name0.
           let name = (if name0 = '''' then ''key'' @ Itoa i else name0)
           in bind_op (from_result (NewGatewayAPIKeySecretWithRemark raw name)) (\<lambda>secret.
              bind_op (reset i secret) (\<lambda>item.
                ok \<lparr>cr_Key = item, cr_PlainKey = PlainKey secret\<rparr>)))))"

definition DeleteAPIKey :: "(int \<Rightarrow> ('s, unit) op) \<Rightarrow> int \<Rightarrow> ('s, unit) op" where
  "DeleteAPIKey delete i = (if i \<le> 0 then fail ErrBadParam else delete i)"

definition DeleteAPIKeys :: "(int list \<Rightarrow> ('s, int) op) \<Rightarrow> int list \<Rightarrow> ('s, int) op" where
  "DeleteAPIKeys delete ids =
     (let cleaned = keep_first {} (filter (\<lambda>i. i > 0) ids)
      in if cleaned = [] then fail ErrBadParam else delete cleaned)"

definition SetAPIKeyDisabled :: "(int \<Rightarrow> bool \<Rightarrow> ('s, unit) op) \<Rightarrow> int \<Rightarrow> bool \<Rightarrow> ('s, unit) op" where
  "SetAPIKeyDisabled set_disabled i disabled =
     (if i \<le> 0 then fail ErrBadParam else set_disabled i disabled)"

definition AuthenticateAPIKey ::
  "(string \<Rightarrow> ('s, GatewayAPIKey) op) \<Rightarrow> string \<Rightarrow> ('s, GatewayAPIKey) op" where
  "AuthenticateAPIKey get_by_hash plain =
     (let secret = BuildGatewayAPIKeySecret plain
      in if PlainKey secret = '''' then fail ErrGatewayAPIKeyNotFound
         else bind_op (get_by_hash (KeyHash secret)) (\<lambda>key.
                if key_Disabled key then fail ErrGatewayAPIKeyDisabled else ok key))"

definition TouchAPIKeyUsed :: "(int \<Rightarrow> int \<Rightarrow> ('s, unit) op) \<Rightarrow> int \<Rightarrow> int \<Rightarrow> ('s, unit) op" where
  "TouchAPIKeyUsed touch i usedAt = (if i \<le> 0 then ok () else touch i usedAt)"

section \<open>The composition with the repository\<close>

definition gateway_CreateAPIKey where
  "gateway_CreateAPIKey = CreateAPIKey repo_CreateAPIKey"
definition gateway_UpdateAPIKey where
  "gateway_UpdateAPIKey = UpdateAPIKey repo_UpdateAPIKey"
definition gateway_ResetAPIKeySecret where
  "gateway_ResetAPIKeySecret = ResetAPIKeySecret repo_GetAPIKeyByID repo_ResetAPIKeySecret"
definition gateway_DeleteAPIKey where
  "gateway_DeleteAPIKey = DeleteAPIKey repo_DeleteAPIKey"
definition gateway_DeleteAPIKeys where
  "gateway_DeleteAPIKeys = DeleteAPIKeys repo_DeleteAPIKeys"
definition gateway_SetAPIKeyDisabled where
  "gateway_SetAPIKeyDisabled = SetAPIKeyDisabled repo_SetAPIKeyDisabled"
definition gateway_AuthenticateAPIKey where
  "gateway_AuthenticateAPIKey = AuthenticateAPIKey repo_GetAPIKeyByHash"
definition gateway_TouchAPIKeyUsed where
  "gateway_TouchAPIKeyUsed = TouchAPIKeyUsed repo_TouchAPIKeyUsed"
definition gateway_ListAPIKeys where
  "gateway_ListAPIKeys = ListAPIKeys repo_ListAPIKeys"
definition gateway_DisableAllAPIKeys where
  "gateway_DisableAllAPIKeys = repo_DisableAllAPIKeys"
definition gateway_EnableAllAPIKeys where
  "gateway_EnableAllAPIKeys = repo_EnableAllAPIKeys"
definition gateway_ListAPIKeysByOwner where
  "gateway_ListAPIKeysByOwner = ListAPIKeysByOwner repo_ListAPIKeysByOwner"

lemma name_and_secret_Inr:
  assumes "name_and_secret raw input = Inr (inp, sec)"
  shows "secret_ok sec \<and> (\<exists>name. inp = input\<lparr>in_Name := name\<rparr>)"
proof (cases "in_Name input = ''''")
  case True
  then show ?thesis using assms
    by (auto simp: name_and_secret_def Let_def dest: Rebuild_secret_ok split: sum.splits)
next
  case False
  then have "inp = input\<lparr>in_Name := in_Name input\<rparr>" "secret_ok sec"
    using assms by (auto simp: name_and_secret_def dest: New_secret_ok split: sum.splits)
  then show ?thesis by blast
qed

section \<open>The interface of the key store\<close>

text \<open>
  \<open>key_at s h\<close> is the key stored under the hash \<open>h\<close>, and \<open>fails s\<close> says that the next
  statement of \<open>s\<close> fails.
\<close>

locale key_store =
  fixes inv :: "'s \<Rightarrow> bool" and fails :: "'s \<Rightarrow> bool" and key_at :: "'s \<Rightarrow> string \<Rightarrow> GatewayAPIKey option"
    and get_by_hash :: "string \<Rightarrow> ('s, GatewayAPIKey) op"
    and create :: "CreateGatewayAPIKeyInput \<Rightarrow> api_key_secret \<Rightarrow> ('s, GatewayAPIKey) op"
    and get :: "int \<Rightarrow> ('s, GatewayAPIKey) op"
    and reset :: "int \<Rightarrow> api_key_secret \<Rightarrow> ('s, GatewayAPIKey) op"
    and set_disabled :: "int \<Rightarrow> bool \<Rightarrow> ('s, unit) op"
    and delete :: "int \<Rightarrow> ('s, unit) op"
  assumes get_by_hash: "inv s \<Longrightarrow> get_by_hash h s = (r, s') \<Longrightarrow>
      inv s' \<and> key_at s' = key_at s \<and>
      r = (if fails s then Inl DBFailed
           else case key_at s h of None \<Rightarrow> Inl ErrGatewayAPIKeyNotFound | Some k \<Rightarrow> Inr k)"
    and create: "inv s \<Longrightarrow> create input secret s = (Inr k, s') \<Longrightarrow>
      inv s' \<and> \<not> key_Disabled k \<and> key_at s' = (key_at s)(KeyHash secret \<mapsto> k)"
    and get: "inv s \<Longrightarrow> get i s = (r, s') \<Longrightarrow> inv s' \<and> key_at s' = key_at s"
    and reset: "inv s \<Longrightarrow> reset i secret s = (Inr k, s') \<Longrightarrow>
      inv s' \<and> key_ID k = i \<and> key_at s' (KeyHash secret) = Some k \<and>
      (\<forall>h k'. key_at s' h = Some k' \<and> h \<noteq> KeyHash secret \<longrightarrow> key_ID k' \<noteq> i \<and> key_at s h = Some k')"
    and set_disabled: "inv s \<Longrightarrow> set_disabled i b s = (Inr (), s') \<Longrightarrow>
      inv s' \<and> (\<forall>h k. key_at s' h = Some k \<longrightarrow>
        (if key_ID k = i then key_Disabled k = b else key_at s h = Some k))"
    and delete: "inv s \<Longrightarrow> delete i s = (Inr (), s') \<Longrightarrow>
      inv s' \<and> key_at s' = (\<lambda>h. case key_at s h of None \<Rightarrow> None | Some k \<Rightarrow> if key_ID k = i then None else Some k)"
begin

lemma authenticate_cases:
  assumes "inv s" "AuthenticateAPIKey get_by_hash plain s = (r, s')"
  obtains (bare) "TrimSpace plain = ''''" "r = Inl ErrGatewayAPIKeyNotFound" "s' = s"
  | (db_failed) "TrimSpace plain \<noteq> ''''" "fails s" "r = Inl DBFailed" "key_at s' = key_at s" "inv s'"
  | (unknown) "TrimSpace plain \<noteq> ''''" "\<not> fails s" "key_at s (hex_encode (sha256 (TrimSpace plain))) = None"
      "r = Inl ErrGatewayAPIKeyNotFound" "key_at s' = key_at s" "inv s'"
  | (known) k where "TrimSpace plain \<noteq> ''''" "\<not> fails s" "key_at s (hex_encode (sha256 (TrimSpace plain))) = Some k"
      "r = (if key_Disabled k then Inl ErrGatewayAPIKeyDisabled else Inr k)"
      "key_at s' = key_at s" "inv s'"
proof (cases "TrimSpace plain = ''''")
  case True
  then show thesis using assms bare by (simp add: AuthenticateAPIKey_def)
next
  case False
  let ?h = "hex_encode (sha256 (TrimSpace plain))"
  obtain r0 s1 where g: "get_by_hash ?h s = (r0, s1)" by fastforce
  note law = get_by_hash [OF assms(1) g]
  have eq: "(r, s') = (case r0 of Inl e \<Rightarrow> (Inl e, s1)
      | Inr k \<Rightarrow> (if key_Disabled k then Inl ErrGatewayAPIKeyDisabled else Inr k, s1))"
    using assms(2) False g by (auto simp: AuthenticateAPIKey_def bind_op_def split: sum.splits)
  show thesis
  proof (cases "fails s")
    case True
    then show thesis using db_failed False law eq by simp
  next
    case ok: False
    then have r0: "r0 = (case key_at s ?h of None \<Rightarrow> Inl ErrGatewayAPIKeyNotFound | Some k \<Rightarrow> Inr k)"
      using law by simp
    show thesis
    proof (cases "key_at s ?h")
      case None
      then show thesis using unknown ok \<open>TrimSpace plain \<noteq> ''''\<close> law eq r0 by simp
    next
      case (Some k)
      then show thesis using known ok \<open>TrimSpace plain \<noteq> ''''\<close> law eq r0 by simp
    qed
  qed
qed

lemma authenticate_sound:
  assumes "inv s" "AuthenticateAPIKey get_by_hash plain s = (Inr k, s')"
  shows "key_at s (hex_encode (sha256 (TrimSpace plain))) = Some k \<and> \<not> key_Disabled k \<and>
         TrimSpace plain \<noteq> '''' \<and> key_at s' = key_at s"
  using assms
proof (cases rule: authenticate_cases)
  case (known k')
  then show ?thesis by (simp split: if_splits)
qed simp_all

lemma CreateAPIKey_Inr:
  assumes "CreateAPIKey create raw input s = (Inr c, s')"
  obtains inp sec where "create inp sec s = (Inr (cr_Key c), s')" "cr_PlainKey c = PlainKey sec" "secret_ok sec"
  using assms name_and_secret_Inr
  by (fastforce simp: CreateAPIKey_def elim!: bind_op_InrE)

text \<open>What is handed out on creation authenticates, and as the key that was created.\<close>

lemma create_then_authenticate:
  assumes "inv s" "CreateAPIKey create raw input s = (Inr c, s')"
    and "AuthenticateAPIKey get_by_hash (cr_PlainKey c) s' = (r, s'')"
  shows "r = (if fails s' then Inl DBFailed else Inr (cr_Key c))"
proof -
  obtain inp sec where c: "create inp sec s = (Inr (cr_Key c), s')" "cr_PlainKey c = PlainKey sec"
    "secret_ok sec"
    using CreateAPIKey_Inr [OF assms(2)] by blast
  note law = create [OF assms(1) c(1)]
  then have "inv s'" by blast
  then show ?thesis
    using assms(3)
  proof (cases rule: authenticate_cases)
    case bare
    then show ?thesis using c(2,3) by (auto simp: secret_ok_def)
  next
    case unknown
    then show ?thesis using law c by (simp add: secret_ok_def)
  next
    case (known k)
    then show ?thesis using law c by (simp add: secret_ok_def)
  qed simp
qed

lemma ResetAPIKeySecret_Inr:
  assumes "inv s" "ResetAPIKeySecret get reset raw i s = (Inr c, s')"
  obtains sec s1 where "inv s1" "key_at s1 = key_at s" "reset i sec s1 = (Inr (cr_Key c), s')"
    "cr_PlainKey c = PlainKey sec" "secret_ok sec"
proof -
  from assms(2) obtain cur s1 name sec where g: "get i s = (Inr cur, s1)"
    and sec: "NewGatewayAPIKeySecretWithRemark raw name = Inr sec"
    and r: "reset i sec s1 = (Inr (cr_Key c), s')" "cr_PlainKey c = PlainKey sec"
    by (auto simp: ResetAPIKeySecret_def Let_def split: if_splits elim!: bind_op_InrE)
  show thesis using that get [OF assms(1) g] r New_secret_ok [OF sec] by blast
qed

text \<open>After a reset the old plain text of the key no longer authenticates as the key.\<close>

lemma reset_revokes:
  assumes "inv s" "ResetAPIKeySecret get reset raw i s = (Inr c, s')"
    and "AuthenticateAPIKey get_by_hash plain s' = (Inr k, s'')" and "key_ID k = i"
  shows "sha256 (TrimSpace plain) = sha256 (cr_PlainKey c)"
proof -
  obtain sec s1 where c: "inv s1" "reset i sec s1 = (Inr (cr_Key c), s')"
    "cr_PlainKey c = PlainKey sec" "secret_ok sec"
    using ResetAPIKeySecret_Inr [OF assms(1,2)] by blast
  note law = reset [OF c(1,2)]
  let ?h = "hex_encode (sha256 (TrimSpace plain))"
  have "key_at s' ?h = Some k" using authenticate_sound [OF _ assms(3)] law by blast
  then have "?h = KeyHash sec" using law assms(4) by blast
  then have "hex_encode (sha256 (TrimSpace plain)) = hex_encode (sha256 (cr_PlainKey c))"
    using c by (simp add: secret_ok_def)
  then show ?thesis by (rule hex_encode_inj)
qed

text \<open>The new plain text authenticates as the key, unless the key is disabled.\<close>

lemma reset_then_authenticate:
  assumes "inv s" "ResetAPIKeySecret get reset raw i s = (Inr c, s')"
    and "AuthenticateAPIKey get_by_hash (cr_PlainKey c) s' = (r, s'')"
  shows "r = (if fails s' then Inl DBFailed
              else if key_Disabled (cr_Key c) then Inl ErrGatewayAPIKeyDisabled else Inr (cr_Key c))"
proof -
  obtain sec s1 where c: "inv s1" "reset i sec s1 = (Inr (cr_Key c), s')"
    "cr_PlainKey c = PlainKey sec" "secret_ok sec"
    using ResetAPIKeySecret_Inr [OF assms(1,2)] by blast
  note law = reset [OF c(1,2)]
  then have "inv s'" by blast
  then show ?thesis
    using assms(3)
  proof (cases rule: authenticate_cases)
    case bare
    then show ?thesis using c(3,4) by (auto simp: secret_ok_def)
  next
    case unknown
    then show ?thesis using law c by (simp add: secret_ok_def)
  next
    case (known k)
    then show ?thesis using law c by (simp add: secret_ok_def)
  qed simp
qed

lemma disabled_refused:
  assumes "inv s" "SetAPIKeyDisabled set_disabled i True s = (Inr (), s')"
    and "AuthenticateAPIKey get_by_hash plain s' = (Inr k, s'')"
  shows "key_ID k \<noteq> i"
proof -
  have "set_disabled i True s = (Inr (), s')"
    using assms(2) by (simp add: SetAPIKeyDisabled_def split: if_splits)
  note law = set_disabled [OF assms(1) this]
  then show ?thesis using authenticate_sound [OF _ assms(3)] by metis
qed

lemma deleted_refused:
  assumes "inv s" "DeleteAPIKey delete i s = (Inr (), s')"
    and "AuthenticateAPIKey get_by_hash plain s' = (Inr k, s'')"
  shows "key_ID k \<noteq> i"
proof -
  have "delete i s = (Inr (), s')"
    using assms(2) by (simp add: DeleteAPIKey_def split: if_splits)
  note law = delete [OF assms(1) this]
  have "key_at s' (hex_encode (sha256 (TrimSpace plain))) = Some k"
    using authenticate_sound [OF _ assms(3)] law by blast
  then show ?thesis using law by (auto split: option.splits if_splits)
qed

end

section \<open>The repository provides the interface\<close>

text \<open>The key stored under a hash, as biz sees it.\<close>

definition store_key_at :: "store \<Rightarrow> string \<Rightarrow> GatewayAPIKey option" where
  "store_key_at s h = map_option mapGatewayAPIKey (find (\<lambda>r. k_key_hash r = h) (rows (keys s)))"

lemma store_key_at_cong: "rows (keys s) = rows (keys s') \<Longrightarrow> store_key_at s = store_key_at s'"
  by (simp add: store_key_at_def fun_eq_iff)

lemma find_hash_iff:
  assumes "store_ok s"
  shows "find (\<lambda>r. k_key_hash r = h) (rows (keys s)) = Some r \<longleftrightarrow> r \<in> set (rows (keys s)) \<and> k_key_hash r = h"
proof
  assume "find (\<lambda>r. k_key_hash r = h) (rows (keys s)) = Some r"
  then show "r \<in> set (rows (keys s)) \<and> k_key_hash r = h" by (auto simp: find_Some_iff)
next
  assume r: "r \<in> set (rows (keys s)) \<and> k_key_hash r = h"
  then have "find (\<lambda>r. k_key_hash r = h) (rows (keys s)) \<noteq> None"
    unfolding find_None_iff by blast
  then obtain q where q: "find (\<lambda>r. k_key_hash r = h) (rows (keys s)) = Some q" by blast
  then have "q \<in> set (rows (keys s))" "k_key_hash q = h" by (auto simp: find_Some_iff)
  note ok = key_tbl.store_okD [OF assms]
  have "k_id q = k_id r"
    using tbl_ok_unique [OF ok, of q r] r \<open>q \<in> _\<close> \<open>k_key_hash q = h\<close> by (simp add: key_clash_def)
  then have "q = r" using tbl_ok_same [OF ok] r \<open>q \<in> _\<close> by blast
  then show "find (\<lambda>r. k_key_hash r = h) (rows (keys s)) = Some r" using q by simp
qed

lemma store_key_at_iff:
  assumes "store_ok s"
  shows "store_key_at s h = Some k \<longleftrightarrow>
     (\<exists>r \<in> set (rows (keys s)). k_key_hash r = h \<and> k = mapGatewayAPIKey r)"
  using find_hash_iff [OF assms] by (auto simp: store_key_at_def)

lemma key_ID_map [simp]: "key_ID (mapGatewayAPIKey r) = k_id r"
  and key_Disabled_map [simp]: "key_Disabled (mapGatewayAPIKey r) = k_disabled r"
  by (simp_all add: mapGatewayAPIKey_def Let_def)

text \<open>What the writes do to the rows of the table.\<close>

lemma repo_CreateAPIKey_rows:
  assumes "store_ok s" "repo_CreateAPIKey input secret s = (Inr k, s')"
  obtains r where "rows (keys s') = rows (keys s) @ [r]" "k = mapGatewayAPIKey r"
    "k_key_hash r = KeyHash secret" "\<not> k_disabled r" "k_plain_key r = PlainKey secret"
    "\<forall>q \<in> set (rows (keys s)). k_key_hash q \<noteq> KeyHash secret"
  using assms(2) unfolding repo_CreateAPIKey_def checked_Inr bind_time_now
  by (auto simp: key_tbl.on_tbl_Inr insert_row_def key_clash_def Let_def
      split: if_splits elim!: bind_op_InrE)

lemma update_row_rows:
  assumes "update_row rid clash i f t = (Inr x, t')"
  obtains r where "r \<in> set (rows t)" "rid r = i" "x = f r"
    "rows t' = map (\<lambda>q. if rid q = i then f r else q) (rows t)"
    "\<forall>q \<in> set (rows t). rid q \<noteq> i \<longrightarrow> \<not> clash q (f r)"
  using assms find_row_Some by (fastforce simp: update_row_def split: option.splits if_splits)

lemma repo_ResetAPIKeySecret_rows:
  assumes "repo_ResetAPIKeySecret i secret s = (Inr k, s')"
  obtains r r' where "r \<in> set (rows (keys s))" "k_id r = i" "k_id r' = i" "k_key_hash r' = KeyHash secret"
    "k_plain_key r' = PlainKey secret" "k = mapGatewayAPIKey r'"
    "rows (keys s') = map (\<lambda>q. if k_id q = i then r' else q) (rows (keys s))"
    "\<forall>q \<in> set (rows (keys s)). k_id q \<noteq> i \<longrightarrow> k_key_hash q \<noteq> KeyHash secret"
proof -
  obtain item where it: "on_keys (update_row k_id key_clash i (\<lambda>r.
      r\<lparr>k_key_hash := KeyHash secret, k_plain_key := PlainKey secret, k_key_prefix := KeyPrefix secret,
        k_key_last4 := KeyLast4 secret, k_updated_at := db_now s\<rparr>)) s = (Inr item, s')"
    "k = mapGatewayAPIKey item"
    using assms unfolding repo_ResetAPIKeySecret_def checked_Inr bind_time_now
    by (auto elim!: bind_op_InrE)
  then obtain t where t: "update_row k_id key_clash i (\<lambda>r.
      r\<lparr>k_key_hash := KeyHash secret, k_plain_key := PlainKey secret, k_key_prefix := KeyPrefix secret,
        k_key_last4 := KeyLast4 secret, k_updated_at := db_now s\<rparr>) (keys s) = (Inr item, t)"
    "keys s' = t"
    by (auto simp: key_tbl.on_tbl_Inr)
  obtain r where r: "r \<in> set (rows (keys s))" "k_id r = i"
    "item = r\<lparr>k_key_hash := KeyHash secret, k_plain_key := PlainKey secret, k_key_prefix := KeyPrefix secret,
        k_key_last4 := KeyLast4 secret, k_updated_at := db_now s\<rparr>"
    "rows t = map (\<lambda>q. if k_id q = i then item else q) (rows (keys s))"
    "\<forall>q \<in> set (rows (keys s)). k_id q \<noteq> i \<longrightarrow> \<not> key_clash q item"
    by (rule update_row_rows [OF t(1)]) simp
  show thesis
    by (rule that [of r item]) (use r t it in \<open>auto simp: key_clash_def\<close>)
qed

lemma repo_SetAPIKeyDisabled_rows:
  assumes "repo_SetAPIKeyDisabled i b s = (Inr (), s')"
  obtains r where "r \<in> set (rows (keys s))" "k_id r = i"
    "rows (keys s') = map (\<lambda>q. if k_id q = i then r\<lparr>k_disabled := b, k_updated_at := db_now s\<rparr> else q)
       (rows (keys s))"
proof -
  obtain item where "on_keys (update_row k_id key_clash i
      (\<lambda>r. r\<lparr>k_disabled := b, k_updated_at := db_now s\<rparr>)) s = (Inr item, s')"
    using assms unfolding repo_SetAPIKeyDisabled_def bind_time_now by (auto elim!: bind_op_InrE)
  then obtain t where t: "update_row k_id key_clash i
      (\<lambda>r. r\<lparr>k_disabled := b, k_updated_at := db_now s\<rparr>) (keys s) = (Inr item, t)" "keys s' = t"
    by (auto simp: key_tbl.on_tbl_Inr)
  show thesis by (rule update_row_rows [OF t(1)]) (rule that, use t(2) in auto)
qed

lemma repo_DeleteAPIKey_rows:
  assumes "repo_DeleteAPIKey i s = (Inr (), s')"
  shows "rows (keys s') = filter (\<lambda>q. k_id q \<noteq> i) (rows (keys s))"
  using assms unfolding repo_DeleteAPIKey_def
  by (auto simp: policy_tbl.on_tbl_Inr key_tbl.on_tbl_Inr delete_row_def split: option.splits
      elim!: bind_op_InrE)

lemma read_only_keys:
  assumes "\<And>t. snd (body t) = t"
  shows "rows (keys (snd (on_keys body s))) = rows (keys s)"
  using assms by (auto simp: on_tbl_def db_stmt_def Let_def split: prod.splits) (metis snd_conv)

lemma bind_ok_state: "snd (bind_op m (\<lambda>x. ok (f x)) s) = snd (m s)"
  by (auto simp: bind_op_def split: prod.splits sum.splits)

lemma not_found_as_state: "snd (not_found_as e m s) = snd (m s)"
  by (auto simp: not_found_as_def try_op_def split: prod.splits sum.splits)

lemma repo_GetAPIKeyByHash_eq:
  assumes "store_ok s"
  shows "repo_GetAPIKeyByHash h s =
     (if fault s (stmts s) then Inl DBFailed
      else case store_key_at s h of None \<Rightarrow> Inl ErrGatewayAPIKeyNotFound | Some k \<Rightarrow> Inr k,
      s\<lparr>stmts := Suc (stmts s)\<rparr>)"
proof (cases "fault s (stmts s)")
  case True
  then show ?thesis
    by (simp add: repo_GetAPIKeyByHash_def bind_op_def not_found_as_def try_op_def key_tbl.on_tbl_fault)
next
  case False
  have "on_keys (only_row (\<lambda>r. k_key_hash r = h)) s =
      (case find (\<lambda>r. k_key_hash r = h) (rows (keys s)) of None \<Rightarrow> Inl DBNotFound | Some r \<Rightarrow> Inr r,
       s\<lparr>stmts := Suc (stmts s)\<rparr>)"
    using key_tbl.only_search [OF assms False, of "\<lambda>r. k_key_hash r = h"] by (simp add: key_clash_def)
  then show ?thesis using False
    by (auto simp: repo_GetAPIKeyByHash_def bind_op_def not_found_as_def try_op_def store_key_at_def
        split: option.splits)
qed

interpretation gateway_keys: key_store store_ok "\<lambda>s. fault s (stmts s)" store_key_at repo_GetAPIKeyByHash repo_CreateAPIKey
  repo_GetAPIKeyByID repo_ResetAPIKeySecret repo_SetAPIKeyDisabled repo_DeleteAPIKey
proof
  fix s s' :: store and h r
  assume ok: "store_ok s" and g: "repo_GetAPIKeyByHash h s = (r, s')"
  then have s': "s' = s\<lparr>stmts := Suc (stmts s)\<rparr>" by (simp add: repo_GetAPIKeyByHash_eq)
  have "store_key_at s' = store_key_at s" unfolding s' by (rule store_key_at_cong) simp
  then show "store_ok s' \<and> store_key_at s' = store_key_at s \<and>
      r = (if fault s (stmts s) then Inl DBFailed
           else case store_key_at s h of None \<Rightarrow> Inl ErrGatewayAPIKeyNotFound | Some k \<Rightarrow> Inr k)"
    using ok g s' by (auto simp: repo_GetAPIKeyByHash_eq split: if_splits)
next
  fix s s' :: store and input secret k
  assume ok: "store_ok s" and c: "repo_CreateAPIKey input secret s = (Inr k, s')"
  obtain r where r: "rows (keys s') = rows (keys s) @ [r]" "k = mapGatewayAPIKey r"
    "k_key_hash r = KeyHash secret" "\<not> k_disabled r"
    "\<forall>q \<in> set (rows (keys s)). k_key_hash q \<noteq> KeyHash secret"
    by (rule repo_CreateAPIKey_rows [OF ok c])
  have "store_key_at s' h = ((store_key_at s)(KeyHash secret \<mapsto> k)) h" for h
  proof -
    have "find P (xs @ [r]) = (case find P xs of None \<Rightarrow> if P r then Some r else None | Some q \<Rightarrow> Some q)"
      for P xs by (induction xs) auto
    moreover have "find (\<lambda>q. k_key_hash q = KeyHash secret) (rows (keys s)) = None"
      using r(5) by (simp add: find_None_iff)
    ultimately show ?thesis using r by (auto simp: store_key_at_def split: option.splits)
  qed
  then show "store_ok s' \<and> \<not> key_Disabled k \<and> store_key_at s' = (store_key_at s)(KeyHash secret \<mapsto> k)"
    using keepsD [OF keeps_repo_CreateAPIKey ok c] r by auto
next
  fix s s' :: store and i r
  assume ok: "store_ok s" and g: "repo_GetAPIKeyByID i s = (r, s')"
  have "rows (keys s') = rows (keys s)"
  proof -
    have "rows (keys (snd (repo_GetAPIKeyByID i s))) = rows (keys s)"
      by (simp add: repo_GetAPIKeyByID_def bind_ok_state not_found_as_state read_only_keys get_row_table)
    then show ?thesis using g by simp
  qed
  then show "store_ok s' \<and> store_key_at s' = store_key_at s"
    using keepsD [OF keeps_repo_key_reads(3) ok g] store_key_at_cong by blast
next
  fix s s' :: store and i secret k
  assume ok: "store_ok s" and c: "repo_ResetAPIKeySecret i secret s = (Inr k, s')"
  obtain r r' where r: "r \<in> set (rows (keys s))" "k_id r = i" "k_id r' = i"
    "k_key_hash r' = KeyHash secret" "k = mapGatewayAPIKey r'"
    "rows (keys s') = map (\<lambda>q. if k_id q = i then r' else q) (rows (keys s))"
    "\<forall>q \<in> set (rows (keys s)). k_id q \<noteq> i \<longrightarrow> k_key_hash q \<noteq> KeyHash secret"
    by (rule repo_ResetAPIKeySecret_rows [OF c])
  have ok': "store_ok s'" by (rule keepsD [OF keeps_repo_ResetAPIKeySecret ok c])
  have mem: "q \<in> set (rows (keys s')) \<longleftrightarrow> q = r' \<or> (q \<in> set (rows (keys s)) \<and> k_id q \<noteq> i)" for q
    using r by auto
  have "key_ID k = i \<and> store_key_at s' (KeyHash secret) = Some k"
    using r mem store_key_at_iff [OF ok'] by auto
  moreover have "\<forall>h k'. store_key_at s' h = Some k' \<and> h \<noteq> KeyHash secret \<longrightarrow>
      key_ID k' \<noteq> i \<and> store_key_at s h = Some k'"
    using r mem store_key_at_iff [OF ok'] store_key_at_iff [OF ok] by auto
  ultimately show "store_ok s' \<and> key_ID k = i \<and> store_key_at s' (KeyHash secret) = Some k \<and>
      (\<forall>h k'. store_key_at s' h = Some k' \<and> h \<noteq> KeyHash secret \<longrightarrow>
         key_ID k' \<noteq> i \<and> store_key_at s h = Some k')"
    using ok' by blast
next
  fix s s' :: store and i b
  assume ok: "store_ok s" and c: "repo_SetAPIKeyDisabled i b s = (Inr (), s')"
  obtain r where r: "r \<in> set (rows (keys s))" "k_id r = i"
    "rows (keys s') = map (\<lambda>q. if k_id q = i then r\<lparr>k_disabled := b, k_updated_at := db_now s\<rparr> else q)
       (rows (keys s))"
    by (rule repo_SetAPIKeyDisabled_rows [OF c])
  have ok': "store_ok s'" by (rule keepsD [OF keeps_repo_key_writes(3) ok c])
  have "if key_ID k = i then key_Disabled k = b else store_key_at s h = Some k"
    if "store_key_at s' h = Some k" for h k
    using that r store_key_at_iff [OF ok'] store_key_at_iff [OF ok] by auto
  then show "store_ok s' \<and> (\<forall>h k. store_key_at s' h = Some k \<longrightarrow>
      (if key_ID k = i then key_Disabled k = b else store_key_at s h = Some k))"
    using ok' by blast
next
  fix s s' :: store and i
  assume ok: "store_ok s" and c: "repo_DeleteAPIKey i s = (Inr (), s')"
  have ok': "store_ok s'" by (rule keepsD [OF keeps_repo_key_writes(1) ok c])
  have "store_key_at s' h = (case store_key_at s h of None \<Rightarrow> None
      | Some k \<Rightarrow> if key_ID k = i then None else Some k)" for h
  proof (cases "store_key_at s h")
    case None
    then have "\<forall>r \<in> set (rows (keys s)). k_key_hash r \<noteq> h"
      by (auto simp: store_key_at_def find_None_iff)
    then have "store_key_at s' h = None" using repo_DeleteAPIKey_rows [OF c]
      by (auto simp: store_key_at_def find_None_iff)
    then show ?thesis using None by simp
  next
    case (Some k)
    then obtain r where r: "r \<in> set (rows (keys s))" "k_key_hash r = h" "k = mapGatewayAPIKey r"
      using store_key_at_iff [OF ok] by blast
    have only: "q = r" if "q \<in> set (rows (keys s))" "k_key_hash q = h" for q
      using find_hash_iff [OF ok] that r by (metis option.inject)
    show ?thesis
    proof (cases "k_id r = i")
      case True
      have "store_key_at s' h = None"
        using only repo_DeleteAPIKey_rows [OF c] True by (auto simp: store_key_at_def find_None_iff)
      then show ?thesis using Some r True by simp
    next
      case False
      then have "store_key_at s' h = Some k"
        unfolding store_key_at_iff [OF ok'] using r repo_DeleteAPIKey_rows [OF c] by auto
      then show ?thesis using Some r False by simp
    qed
  qed
  then show "store_ok s' \<and> store_key_at s' = (\<lambda>h. case store_key_at s h of None \<Rightarrow> None
      | Some k \<Rightarrow> if key_ID k = i then None else Some k)"
    using ok' by blast
qed

section \<open>What the service stores\<close>

text \<open>
  A key as the service writes it: the hash belongs to the plain key, the token quotas are not
  negative, the options are among the known names, the allowed models are official ones.
\<close>

definition quotas_clean :: "quotas \<Rightarrow> bool" where
  "quotas_clean q =
     (0 \<le> QuotaTotalTokens q \<and> 0 \<le> QuotaDailyTokens q \<and> 0 \<le> QuotaWeeklyTokens q \<and>
      0 \<le> QuotaDailyInputTokens q \<and> 0 \<le> QuotaWeeklyInputTokens q \<and>
      0 \<le> QuotaDailyOutputTokens q \<and> 0 \<le> QuotaWeeklyOutputTokens q \<and>
      0 \<le> QuotaDailyBillableInputTokens q \<and> 0 \<le> QuotaWeeklyBillableInputTokens q)"

definition strategies :: "string set" where
  "strategies = {'''', GatewayUpstreamStrategyBackendOnly, GatewayUpstreamStrategyBackendWithFallback,
     GatewayUpstreamStrategyCodexCLI}"

definition efforts :: "string set" where
  "efforts = {'''', GatewayReasoningEffortNone, GatewayReasoningEffortLow, GatewayReasoningEffortMed,
     GatewayReasoningEffortHigh, GatewayReasoningEffortXHigh, GatewayReasoningEffortMax}"

definition options_clean :: "quotas \<Rightarrow> string list \<Rightarrow> string \<Rightarrow> string \<Rightarrow> bool" where
  "options_clean q allowed strategy effort =
     (quotas_clean q \<and> set allowed \<subseteq> CodexModelIDSet \<and> distinct allowed \<and>
      strategy \<in> strategies \<and> effort \<in> efforts)"

definition key_clean :: "api_key_row \<Rightarrow> bool" where
  "key_clean r =
     (k_key_hash r = hex_encode (sha256 (k_plain_key r)) \<and> TrimSpace (k_plain_key r) = k_plain_key r \<and>
      k_plain_key r \<noteq> '''' \<and>
      options_clean (k_quotas r) (k_allowed_models r) (k_upstream_strategy r) (k_default_reasoning_effort r))"

definition keys_clean :: "store \<Rightarrow> bool" where
  "keys_clean s = (\<forall>r \<in> set (rows (keys s)). key_clean r)"

lemma keys_clean_eq: "keys_clean = (\<lambda>s. \<forall>r \<in> set (rows (keys s)). key_clean r)"
  by (simp add: keys_clean_def fun_eq_iff)

lemma quotas_clean_normalize: "quotas_clean (normalize_quotas q)"
  by (simp add: quotas_clean_def normalize_quotas_def normalizeNonNegativeInt64_def)

lemma strategy_normalized: "NormalizeGatewayAPIKeyUpstreamStrategy x \<in> strategies"
  using one_of_range [of "[GatewayUpstreamStrategyBackendOnly, GatewayUpstreamStrategyBackendWithFallback,
    GatewayUpstreamStrategyCodexCLI]" x]
  by (auto simp: NormalizeGatewayAPIKeyUpstreamStrategy_def NormalizeGatewayUpstreamStrategy_def strategies_def)

lemma effort_normalized: "NormalizeGatewayAPIKeyDefaultReasoningEffort x \<in> efforts"
  using NormalizeGatewayReasoningEffort_range [of x]
  by (auto simp: NormalizeGatewayAPIKeyDefaultReasoningEffort_def efforts_def)

lemma official_trimmed: "x \<in> CodexModelIDSet \<Longrightarrow> TrimSpace x = x \<and> x \<noteq> ''''"
  unfolding CodexModelIDSet_eq CodexModelIDs_def DefaultCodexModelID_def
  by (auto simp: string_eval)

lemma allowed_normalized:
  assumes "normalizeAllowedCodexModels xs = Inr ys"
  shows "set ys \<subseteq> CodexModelIDSet" "distinct ys" "normalizeStringList ys = ys"
proof -
  show 1: "set ys \<subseteq> CodexModelIDSet" "distinct ys"
    using assms clean_allowed_Inr [of "{}" xs ys]
    by (auto simp: normalizeAllowedCodexModels_def split: if_splits)
  show "normalizeStringList ys = ys"
    by (rule normalizeStringList_id) (use 1 official_trimmed in auto)
qed

lemma normalize_key_input_clean:
  assumes "normalize_key_input input = Inr inp"
  shows "options_clean (in_Quotas inp) (normalizeStringList (in_AllowedModels inp))
     (in_UpstreamStrategy inp) (in_DefaultReasoningEffort inp)"
proof -
  obtain name allowed where a: "normalizeAllowedCodexModels (in_AllowedModels input) = Inr allowed"
    and inp: "inp = input\<lparr>in_Name := name, in_Quotas := normalize_quotas (in_Quotas input),
        in_AllowedModels := allowed,
        in_UpstreamStrategy := NormalizeGatewayAPIKeyUpstreamStrategy (in_UpstreamStrategy input),
        in_DefaultReasoningEffort :=
          NormalizeGatewayAPIKeyDefaultReasoningEffort (in_DefaultReasoningEffort input)\<rparr>"
    using assms by (auto simp: normalize_key_input_def Let_def split: sum.splits if_splits)
  show ?thesis unfolding inp
    using allowed_normalized [OF a]
    by (simp add: options_clean_def quotas_clean_normalize strategy_normalized effort_normalized)
qed

text \<open>\<open>keys_clean\<close> is kept by the repository's writes, given clean input.\<close>

lemma keys_clean_other:
  "keeps keys_clean (on_policies b1)" "keeps keys_clean (on_models b2)" "keeps keys_clean (on_prices b3)"
  "keeps keys_clean (on_settings b4)" "keeps keys_clean (on_usage b5)" "keeps keys_clean (on_rules b6)"
  "keeps keys_clean (on_events b7)" "keeps keys_clean (on_audits b8)" "keeps keys_clean (on_summaries b9)"
  unfolding keys_clean_eq
  by (rule policy_tbl.keeps_frame model_tbl.keeps_frame price_tbl.keeps_frame
      setting_tbl.keeps_frame usage_tbl.keeps_frame rule_tbl.keeps_frame event_tbl.keeps_frame
      audit_tbl.keeps_frame summary_tbl.keeps_frame; simp)+

lemma key_clean_simps [simp]:
  "key_clean (r\<lparr>k_disabled := b, k_updated_at := t\<rparr>) = key_clean r"
  "key_clean (r\<lparr>k_last_used_at := u, k_updated_at := t\<rparr>) = key_clean r"
  by (simp_all add: key_clean_def)

lemma keys_clean_repo_CreateAPIKey:
  assumes "secret_ok secret" "options_clean (in_Quotas input) (normalizeStringList (in_AllowedModels input))
     (in_UpstreamStrategy input) (in_DefaultReasoningEffort input)"
  shows "keeps keys_clean (repo_CreateAPIKey input secret)"
  unfolding repo_CreateAPIKey_def keys_clean_eq
  by (intro op_keeps key_tbl.keeps_rows_stmts) (use assms in \<open>simp add: key_clean_def secret_ok_def\<close>)

lemma keys_clean_repo_UpdateAPIKey:
  assumes "options_clean (in_Quotas input) (normalizeStringList (in_AllowedModels input))
     (in_UpstreamStrategy input) (in_DefaultReasoningEffort input)"
  shows "keeps keys_clean (repo_UpdateAPIKey input)"
  unfolding repo_UpdateAPIKey_def keys_clean_eq
  by (intro op_keeps key_tbl.keeps_rows_stmts) (use assms in \<open>simp add: key_clean_def\<close>)

lemma keys_clean_repo_ResetAPIKeySecret:
  assumes "secret_ok secret"
  shows "keeps keys_clean (repo_ResetAPIKeySecret i secret)"
  unfolding repo_ResetAPIKeySecret_def keys_clean_eq
  by (intro op_keeps key_tbl.keeps_rows_stmts) (use assms in \<open>simp add: key_clean_def secret_ok_def\<close>)

lemma keys_clean_repo_writes:
  "keeps keys_clean (repo_SetAPIKeyDisabled i b)"
  "keeps keys_clean repo_DisableAllAPIKeys"
  "keeps keys_clean repo_EnableAllAPIKeys"
  "keeps keys_clean (repo_TouchAPIKeyUsed i t)"
  "keeps keys_clean (repo_GetAPIKeyByID i)"
  "keeps keys_clean (repo_GetAPIKeyByHash h)"
  "keeps keys_clean (list_keys limit offset P)"
  unfolding repo_SetAPIKeyDisabled_def repo_DisableAllAPIKeys_def repo_EnableAllAPIKeys_def
    repo_TouchAPIKeyUsed_def repo_GetAPIKeyByID_def repo_GetAPIKeyByHash_def list_keys_def keys_clean_eq
  by (intro op_keeps key_tbl.keeps_rows_stmts; simp)+

lemma keys_clean_repo_DeleteAPIKey:
  "keeps keys_clean (repo_DeleteAPIKey i)" "keeps keys_clean (repo_DeleteAPIKeys ids)"
proof -
  have 1: "keeps keys_clean (on_keys (delete_row k_id i))"
    unfolding keys_clean_eq by (rule key_tbl.keeps_rows_stmts)
  have 2: "keeps keys_clean (on_keys (delete_rows P))" for P
    unfolding keys_clean_eq by (rule key_tbl.keeps_rows_stmts)
  show "keeps keys_clean (repo_DeleteAPIKey i)" "keeps keys_clean (repo_DeleteAPIKeys ids)"
    unfolding repo_DeleteAPIKey_def repo_DeleteAPIKeys_def
    by (intro op_keeps keys_clean_other 1 2)+
qed

text \<open>The use cases keep both the store and the keys in order.\<close>

lemma keeps_CreateAPIKey [op_keeps]:
  "keeps store_ok (gateway_CreateAPIKey raw input)"
  unfolding gateway_CreateAPIKey_def CreateAPIKey_def Let_def by (intro op_keeps)

lemma keys_clean_CreateAPIKey [op_keeps]: "keeps keys_clean (gateway_CreateAPIKey raw input0)"
  unfolding gateway_CreateAPIKey_def CreateAPIKey_def
proof (rule keeps_bind_result, rule keeps_bind_result)
  fix input1 p
  assume n: "normalize_key_input input0 = Inr input1" and p: "name_and_secret raw input1 = Inr p"
  obtain input secret where "p = (input, secret)" by fastforce
  moreover from this p obtain name where "secret_ok secret" "input = input1\<lparr>in_Name := name\<rparr>"
    using name_and_secret_Inr by blast
  ultimately show "keeps keys_clean (case p of (input, secret) \<Rightarrow>
      bind_op (repo_CreateAPIKey input secret) (\<lambda>item.
        ok \<lparr>cr_Key = item, cr_PlainKey = PlainKey secret\<rparr>))"
    using normalize_key_input_clean [OF n]
    by (auto intro!: op_keeps keys_clean_repo_CreateAPIKey)
qed

lemma keeps_UpdateAPIKey [op_keeps]:
  "keeps store_ok (gateway_UpdateAPIKey input)" "keeps keys_clean (gateway_UpdateAPIKey input)"
proof -
  show "keeps store_ok (gateway_UpdateAPIKey input)"
    unfolding gateway_UpdateAPIKey_def UpdateAPIKey_def by (intro op_keeps)
  show "keeps keys_clean (gateway_UpdateAPIKey input)"
    unfolding gateway_UpdateAPIKey_def UpdateAPIKey_def
    by (intro keeps_if keeps_fail keeps_bind_result keys_clean_repo_UpdateAPIKey)
      (auto dest: normalize_key_input_clean)
qed

lemma keeps_ResetAPIKeySecret [op_keeps]:
  "keeps store_ok (gateway_ResetAPIKeySecret raw i)" "keeps keys_clean (gateway_ResetAPIKeySecret raw i)"
proof -
  show "keeps store_ok (gateway_ResetAPIKeySecret raw i)"
    unfolding gateway_ResetAPIKeySecret_def ResetAPIKeySecret_def Let_def by (intro op_keeps)
  show "keeps keys_clean (gateway_ResetAPIKeySecret raw i)"
    unfolding gateway_ResetAPIKeySecret_def ResetAPIKeySecret_def Let_def
    by (intro keeps_if keeps_fail keeps_ok keeps_bind_result keeps_bind_op keys_clean_repo_writes
        keys_clean_repo_ResetAPIKeySecret) (auto dest: New_secret_ok)
qed

lemma keeps_key_writes [op_keeps]:
  "keeps store_ok (gateway_DeleteAPIKey i)" "keeps keys_clean (gateway_DeleteAPIKey i)"
  "keeps store_ok (gateway_DeleteAPIKeys ids)" "keeps keys_clean (gateway_DeleteAPIKeys ids)"
  "keeps store_ok (gateway_SetAPIKeyDisabled i b)" "keeps keys_clean (gateway_SetAPIKeyDisabled i b)"
  "keeps store_ok (gateway_TouchAPIKeyUsed i t)" "keeps keys_clean (gateway_TouchAPIKeyUsed i t)"
  "keeps store_ok (gateway_AuthenticateAPIKey plain)" "keeps keys_clean (gateway_AuthenticateAPIKey plain)"
  unfolding gateway_DeleteAPIKey_def DeleteAPIKey_def gateway_DeleteAPIKeys_def DeleteAPIKeys_def
    gateway_SetAPIKeyDisabled_def SetAPIKeyDisabled_def gateway_TouchAPIKeyUsed_def TouchAPIKeyUsed_def
    gateway_AuthenticateAPIKey_def AuthenticateAPIKey_def Let_def
  by (intro op_keeps keys_clean_repo_DeleteAPIKey keys_clean_repo_writes)+

lemma keeps_all_keys [op_keeps]:
  "keeps store_ok gateway_DisableAllAPIKeys" "keeps keys_clean gateway_DisableAllAPIKeys"
  "keeps store_ok gateway_EnableAllAPIKeys" "keeps keys_clean gateway_EnableAllAPIKeys"
  unfolding gateway_DisableAllAPIKeys_def gateway_EnableAllAPIKeys_def
  by (intro op_keeps keys_clean_repo_writes)+

section \<open>A sample key\<close>

text \<open>A key named prod, created on a fresh store; the witnesses below run on it.\<close>

definition sample_quotas :: quotas where
  "sample_quotas =
     \<lparr>QuotaRequests = 0, QuotaTotalTokens = 0, QuotaDailyTokens = 100, QuotaWeeklyTokens = 0,
      QuotaDailyInputTokens = 0, QuotaWeeklyInputTokens = 0, QuotaDailyOutputTokens = 0,
      QuotaWeeklyOutputTokens = 0, QuotaDailyBillableInputTokens = 0, QuotaWeeklyBillableInputTokens = 0\<rparr>"

definition sample_input :: CreateGatewayAPIKeyInput where
  "sample_input =
     \<lparr>in_Name = ''prod'', in_OwnerUserID = 0, in_Quotas = sample_quotas, in_AllowedModels = [],
      in_UpstreamStrategy = '''', in_DefaultReasoningEffort = ''''\<rparr>"

definition sample_raw :: string where
  "sample_raw = replicate 32 CHR ''a''"

definition sample_secret :: api_key_secret where
  "sample_secret = BuildGatewayAPIKeySecret (keyed_plain ''prod'' (b64url sample_raw))"

definition sample_row :: "int \<Rightarrow> api_key_row" where
  "sample_row i =
     \<lparr>k_id = i, k_owner_user_id = None, k_name = ''prod'', k_key_hash = KeyHash sample_secret,
      k_plain_key = PlainKey sample_secret, k_key_prefix = KeyPrefix sample_secret,
      k_key_last4 = KeyLast4 sample_secret, k_disabled = False, k_upstream_strategy = '''',
      k_default_reasoning_effort = '''', k_quotas = sample_quotas, k_allowed_models = [],
      k_last_used_at = None, k_created_at = 0, k_updated_at = 0\<rparr>"

definition sample_store :: store where
  "sample_store =
     (fresh_store (\<lambda>_. 0))\<lparr>stmts := 1, keys := \<lparr>rows = [sample_row 1], seq = 1\<rparr>\<rparr>"

definition sample_created :: CreatedGatewayAPIKey where
  "sample_created = \<lparr>cr_Key = mapGatewayAPIKey (sample_row 1), cr_PlainKey = PlainKey sample_secret\<rparr>"

lemma sample_remark: "NormalizeGatewayAPIKeyRemark ''prod'' = Inr ''prod''"
  by (rule Normalize_remark_id) (simp_all add: remark_char_def byte_val_def)

lemma sample_secret_facts:
  "NewGatewayAPIKeySecretWithRemark (Inr sample_raw) ''prod'' = Inr sample_secret"
  "secret_ok sample_secret" "length (PlainKey sample_secret) = 52"
  "length (KeyPrefix sample_secret) = 12" "length (KeyLast4 sample_secret) = 4"
proof -
  show 1: "NewGatewayAPIKeySecretWithRemark (Inr sample_raw) ''prod'' = Inr sample_secret"
    unfolding sample_secret_def by (rule NewSecret_eq [OF sample_remark])
  show "secret_ok sample_secret" by (rule New_secret_ok [OF 1])
  have "\<forall>c \<in> set ''prod''. remark_char c"
    using sample_remark unfolding NormalizeGatewayAPIKeyRemark_Inr by blast
  then have trim: "TrimSpace (keyed_plain ''prod'' (b64url sample_raw)) = keyed_plain ''prod'' (b64url sample_raw)"
    by (intro TrimSpace_b64 keyed_plain_in set_b64url)
  have len: "length (keyed_plain ''prod'' (b64url sample_raw)) = 52"
    by (simp add: keyed_plain_def sample_raw_def)
  show "length (PlainKey sample_secret) = 52" "length (KeyPrefix sample_secret) = 12"
    "length (KeyLast4 sample_secret) = 4"
    by (simp_all add: sample_secret_def trim len)
qed

lemma sample_key_valid: "key_valid (sample_row i)"
proof -
  have "KeyHash sample_secret = hex_encode (sha256 (PlainKey sample_secret))"
    using sample_secret_facts(2) by (simp add: secret_ok_def)
  then have "length (KeyHash sample_secret) = 64" by simp
  then have "KeyHash sample_secret \<noteq> ''''" "KeyPrefix sample_secret \<noteq> ''''" "KeyLast4 sample_secret \<noteq> ''''"
    using sample_secret_facts by auto
  then show ?thesis
    using \<open>length (KeyHash sample_secret) = 64\<close> sample_secret_facts
    by (simp add: key_valid_def key_name_valid_def key_secret_valid_def key_options_valid_def
        max_len_def not_empty_def sample_row_def)
qed

lemma sample_store_ok: "store_ok sample_store"
  using fresh_store_ok [of "\<lambda>_. 0"] sample_key_valid [of 1]
  by (simp add: store_ok_def sample_store_def tbl_ok_def sample_row_def fresh_store_def)

lemma sample_normalized: "normalize_key_input sample_input = Inr sample_input"
  by (simp add: normalize_key_input_def sample_input_def sample_remark
      NormalizeGatewayAPIKeyUpstreamStrategy_def NormalizeGatewayAPIKeyDefaultReasoningEffort_def
      normalizeAllowedCodexModels_def normalize_quotas_def sample_quotas_def normalizeNonNegativeInt64_def)

lemma sample_update:
  "on_keys (update_row k_id key_clash 1 f) (sample_store\<lparr>stmts := n\<rparr>) =
     (Inr (f (sample_row 1)),
      sample_store\<lparr>stmts := Suc n, keys := \<lparr>rows = [f (sample_row 1)], seq = 1\<rparr>\<rparr>)"
  by (simp add: on_tbl_def db_stmt_def update_row_def find_row_def sample_store_def fresh_store_def
      sample_row_def Let_def)

lemma sample_stmts: "sample_store\<lparr>stmts := 1\<rparr> = sample_store" "db_now (sample_store\<lparr>stmts := n\<rparr>) = 0"
  "db_now sample_store = 0"
  by (simp_all add: sample_store_def fresh_store_def db_now_def)

lemma sample_created_ok:
  "gateway_CreateAPIKey (Inr sample_raw) sample_input (fresh_store (\<lambda>_. 0)) = (Inr sample_created, sample_store)"
proof -
  have n: "name_and_secret (Inr sample_raw) sample_input = Inr (sample_input, sample_secret)"
    by (simp add: name_and_secret_def sample_input_def sample_secret_facts(1))
  have v: "key_name_valid ''prod''"
    "key_secret_valid (KeyHash sample_secret) (PlainKey sample_secret) (KeyPrefix sample_secret) (KeyLast4 sample_secret)"
    "key_options_valid '''' ''''"
    using sample_key_valid [of 1] by (simp_all add: key_valid_def sample_row_def)
  have fields: "in_Name sample_input = ''prod''" "in_OwnerUserID sample_input = 0"
    "in_Quotas sample_input = sample_quotas" "in_AllowedModels sample_input = []"
    "in_UpstreamStrategy sample_input = ''''" "in_DefaultReasoningEffort sample_input = ''''"
    by (simp_all add: sample_input_def)
  let ?s = "fresh_store (\<lambda>_. 0)"
  have "repo_CreateAPIKey sample_input sample_secret ?s =
      bind_op (on_keys (insert_row key_clash sample_row)) (\<lambda>item. ok (mapGatewayAPIKey item)) ?s"
    using v by (simp add: repo_CreateAPIKey_def fields sample_row_def [abs_def] owner_column_def
        normalizeStringList_def db_now_def fresh_store_def)
  moreover have "on_keys (insert_row key_clash sample_row) ?s = (Inr (sample_row 1), sample_store)"
    by (simp add: on_tbl_def db_stmt_def insert_row_def sample_store_def fresh_store_def empty_tbl_def Let_def)
  ultimately have "repo_CreateAPIKey sample_input sample_secret ?s =
      (Inr (mapGatewayAPIKey (sample_row 1)), sample_store)" by simp
  then show ?thesis
    by (simp add: gateway_CreateAPIKey_def CreateAPIKey_def sample_normalized n sample_created_def)
qed

section \<open>Properties\<close>

text \<open>
  C6. The plain key handed out on creation authenticates, as exactly the key that was created
  and at once: the only way authentication can fail is a failing database statement.
\<close>

theorem created_key_authenticates:
  assumes "store_ok s" "gateway_CreateAPIKey raw input s = (Inr c, s')"
    and "gateway_AuthenticateAPIKey (cr_PlainKey c) s' = (r, s'')"
  shows "r = (if fault s' (stmts s') then Inl DBFailed else Inr (cr_Key c))"
  using assms unfolding gateway_CreateAPIKey_def gateway_AuthenticateAPIKey_def
  by (rule gateway_keys.create_then_authenticate)

lemma created_key_authenticates_witness:
  "\<exists>s''. gateway_AuthenticateAPIKey (cr_PlainKey sample_created) sample_store = (Inr (cr_Key sample_created), s'')"
proof -
  obtain r s'' where a: "gateway_AuthenticateAPIKey (cr_PlainKey sample_created) sample_store = (r, s'')"
    by fastforce
  have "r = (if fault sample_store (stmts sample_store) then Inl DBFailed else Inr (cr_Key sample_created))"
    by (rule created_key_authenticates [OF fresh_store_ok sample_created_ok a])
  then show ?thesis using a by (simp add: sample_store_def fresh_store_def)
qed

text \<open>
  Authentication is a search by the SHA-256 hash of the trimmed bearer text and nothing
  else: an empty text and an unknown hash are refused as not found, a disabled key as disabled,
  and the only trace in the database is one read statement.
\<close>

theorem authenticate_exact:
  assumes "store_ok s"
  shows "gateway_AuthenticateAPIKey plain s =
     (if TrimSpace plain = '''' then (Inl ErrGatewayAPIKeyNotFound, s)
      else (if fault s (stmts s) then Inl DBFailed
            else case store_key_at s (hex_encode (sha256 (TrimSpace plain))) of
                   None \<Rightarrow> Inl ErrGatewayAPIKeyNotFound
                 | Some k \<Rightarrow> if key_Disabled k then Inl ErrGatewayAPIKeyDisabled else Inr k,
            s\<lparr>stmts := Suc (stmts s)\<rparr>))"
  using repo_GetAPIKeyByHash_eq [OF assms]
  by (auto simp: gateway_AuthenticateAPIKey_def AuthenticateAPIKey_def bind_op_def split: option.splits)

lemma authenticate_exact_witness:
  "gateway_AuthenticateAPIKey ''ogw_x'' (fresh_store (\<lambda>_. 0)) =
     (Inl ErrGatewayAPIKeyNotFound, (fresh_store (\<lambda>_. 0))\<lparr>stmts := 1\<rparr>)"
proof -
  have "TrimSpace ''ogw_x'' = ''ogw_x''" by (simp add: string_eval)
  then show ?thesis
    using authenticate_exact [OF fresh_store_ok, of "''ogw_x''" "\<lambda>_. 0"]
    by (simp add: fresh_store_def store_key_at_def empty_tbl_def)
qed

text \<open>
  C8. Resetting the secret of a key revokes the old one: whatever text later authenticates as
  that key hashes like the new plain key, and the new plain key does authenticate.
\<close>

theorem reset_revokes_old_secret:
  assumes "store_ok s" "gateway_ResetAPIKeySecret raw i s = (Inr c, s')"
  shows "(\<forall>plain k s''. gateway_AuthenticateAPIKey plain s' = (Inr k, s'') \<and> key_ID k = i \<longrightarrow>
            sha256 (TrimSpace plain) = sha256 (cr_PlainKey c)) \<and>
         (\<not> fault s' (stmts s') \<and> \<not> key_Disabled (cr_Key c) \<longrightarrow>
            fst (gateway_AuthenticateAPIKey (cr_PlainKey c) s') = Inr (cr_Key c))"
proof (intro conjI allI impI)
  fix plain k s''
  assume "gateway_AuthenticateAPIKey plain s' = (Inr k, s'') \<and> key_ID k = i"
  then show "sha256 (TrimSpace plain) = sha256 (cr_PlainKey c)"
    using gateway_keys.reset_revokes [OF assms(1) assms(2) [unfolded gateway_ResetAPIKeySecret_def]]
    unfolding gateway_AuthenticateAPIKey_def by blast
next
  assume "\<not> fault s' (stmts s') \<and> \<not> key_Disabled (cr_Key c)"
  then show "fst (gateway_AuthenticateAPIKey (cr_PlainKey c) s') = Inr (cr_Key c)"
    using gateway_keys.reset_then_authenticate
        [OF assms(1) assms(2) [unfolded gateway_ResetAPIKeySecret_def], of "fst (gateway_AuthenticateAPIKey (cr_PlainKey c) s')"]
    by (auto simp: gateway_AuthenticateAPIKey_def prod_eq_iff)
qed

lemma reset_revokes_old_secret_witness:
  "\<exists>c s'. gateway_ResetAPIKeySecret (Inr sample_raw) 1 sample_store = (Inr c, s') \<and>
     fst (gateway_AuthenticateAPIKey (cr_PlainKey c) s') = Inr (cr_Key c)"
proof -
  have v: "key_secret_valid (KeyHash sample_secret) (PlainKey sample_secret) (KeyPrefix sample_secret) (KeyLast4 sample_secret)"
    using sample_key_valid [of 1] by (simp add: key_valid_def sample_row_def)
  have name: "key_Name (mapGatewayAPIKey (sample_row 1)) = ''prod''"
    by (simp add: mapGatewayAPIKey_def sample_row_def Let_def)
  let ?s = "sample_store\<lparr>stmts := 3\<rparr>"
  have get: "repo_GetAPIKeyByID 1 sample_store = (Inr (mapGatewayAPIKey (sample_row 1)), sample_store\<lparr>stmts := 2\<rparr>)"
    by (simp add: repo_GetAPIKeyByID_def bind_op_def not_found_as_def try_op_def on_tbl_def db_stmt_def
        get_row_def find_row_def sample_store_def fresh_store_def sample_row_def Let_def)
  have same: "(sample_row 1)\<lparr>k_key_hash := KeyHash sample_secret, k_plain_key := PlainKey sample_secret,
      k_key_prefix := KeyPrefix sample_secret, k_key_last4 := KeyLast4 sample_secret, k_updated_at := 0\<rparr> =
      sample_row 1"
    by (simp add: sample_row_def)
  have keys: "sample_store\<lparr>stmts := 3, keys := \<lparr>rows = [sample_row 1], seq = 1\<rparr>\<rparr> = ?s"
    by (simp add: sample_store_def)
  have reset: "repo_ResetAPIKeySecret 1 sample_secret (sample_store\<lparr>stmts := 2\<rparr>) =
      (Inr (mapGatewayAPIKey (sample_row 1)), ?s)"
    using v by (simp add: repo_ResetAPIKeySecret_def sample_stmts sample_update same keys)
  have run: "gateway_ResetAPIKeySecret (Inr sample_raw) 1 sample_store = (Inr sample_created, ?s)"
    by (simp add: gateway_ResetAPIKeySecret_def ResetAPIKeySecret_def get reset name sample_remark
        sample_secret_facts(1) sample_created_def)
  have "\<not> key_Disabled (cr_Key sample_created)" "\<not> fault ?s (stmts ?s)"
    by (simp_all add: sample_created_def sample_row_def sample_store_def fresh_store_def)
  then show ?thesis using reset_revokes_old_secret [OF sample_store_ok run] run by blast
qed

text \<open>
  C7. A key that was disabled or deleted authenticates nobody, whatever text is presented.
\<close>

theorem revoked_key_refused:
  assumes "store_ok s"
    and "gateway_SetAPIKeyDisabled i True s = (Inr (), s') \<or> gateway_DeleteAPIKey i s = (Inr (), s')"
    and "gateway_AuthenticateAPIKey plain s' = (Inr k, s'')"
  shows "key_ID k \<noteq> i"
  using assms gateway_keys.disabled_refused gateway_keys.deleted_refused
  unfolding gateway_SetAPIKeyDisabled_def gateway_DeleteAPIKey_def gateway_AuthenticateAPIKey_def
  by blast

lemma revoked_key_refused_witness:
  "\<exists>s'. gateway_SetAPIKeyDisabled 1 True sample_store = (Inr (), s') \<and>
     (\<forall>k s''. gateway_AuthenticateAPIKey (cr_PlainKey sample_created) s' = (Inr k, s'') \<longrightarrow> key_ID k \<noteq> 1)"
proof -
  have "\<exists>s'. gateway_SetAPIKeyDisabled 1 True sample_store = (Inr (), s')"
    using sample_update [where n = 1, unfolded sample_stmts]
    by (simp add: gateway_SetAPIKeyDisabled_def SetAPIKeyDisabled_def repo_SetAPIKeyDisabled_def sample_stmts)
  then show ?thesis using revoked_key_refused [OF sample_store_ok] by blast
qed

end
