(* ===== verification/ModelService.thy ===== *)
theory ModelService
  imports ModelRepo KeyService
begin

text \<open>
  The use cases on models, policies and prices (internal/biz/gateway.go): who may use which
  model, the checks in front of the repository, and what the seeding and pruning of the
  catalogue at start-up does to models, prices, policies and keys. \<open>model_catalogue\<close> is the
  interface the access check relies on.
\<close>

definition ValidateModelAccess ::
  "(string \<Rightarrow> ('s, GatewayModel option) op) \<Rightarrow> GatewayAPIKey option \<Rightarrow> string \<Rightarrow> ('s, unit) op" where
  "ValidateModelAccess get_model key modelID0 =
     (let modelID = TrimSpace modelID0
      in if modelID = '''' then ok ()
         else if \<not> IsOfficialCodexModelID modelID then fail ErrGatewayModelDisabled
         else bind_op (get_model modelID) (\<lambda>model.
                if (case model of Some m \<Rightarrow> \<not> m_Enabled m | None \<Rightarrow> False) then fail ErrGatewayModelDisabled
                else (case key of
                        None \<Rightarrow> ok ()
                      | Some k \<Rightarrow>
                          if key_AllowedModels k = [] then ok ()
                          else if \<exists>allowed \<in> set (key_AllowedModels k). TrimSpace allowed = modelID then ok ()
                          else fail ErrGatewayModelNotAllowed)))"

definition ListModels ::
  "(int \<Rightarrow> int \<Rightarrow> bool \<Rightarrow> string \<Rightarrow> ('s, GatewayModel list \<times> int) op) \<Rightarrow>
   int \<Rightarrow> int \<Rightarrow> bool \<Rightarrow> string \<Rightarrow> ('s, GatewayModel list \<times> int) op" where
  "ListModels list limit offset enabledOnly search =
     list (normalizeLimit limit) (normalizeOffset offset) enabledOnly (TrimSpace search)"

definition UpsertModel :: "(GatewayModel \<Rightarrow> ('s, GatewayModel) op) \<Rightarrow> GatewayModel \<Rightarrow> ('s, GatewayModel) op" where
  "UpsertModel upsert model0 =
     (let model = model0\<lparr>m_ModelID := TrimSpace (m_ModelID model0), m_OwnedBy := TrimSpace (m_OwnedBy model0),
                         m_Source := TrimSpace (m_Source model0)\<rparr>
      in if m_ModelID model = '''' then fail ErrBadParam
         else if \<not> IsOfficialCodexModelID (m_ModelID model) then fail ErrBadParam
         else upsert (if m_Source model = '''' then model\<lparr>m_Source := ''manual''\<rparr> else model))"

definition UpsertSyncedModel :: "(GatewayModel \<Rightarrow> ('s, GatewayModel) op) \<Rightarrow> GatewayModel \<Rightarrow> ('s, GatewayModel) op" where
  "UpsertSyncedModel upsert model0 =
     (let model = model0\<lparr>m_ModelID := TrimSpace (m_ModelID model0), m_OwnedBy := TrimSpace (m_OwnedBy model0)\<rparr>
      in if m_ModelID model = '''' then fail ErrBadParam
         else if \<not> IsOfficialCodexModelID (m_ModelID model) then fail ErrBadParam
         else upsert (model\<lparr>m_Source := ''upstream''\<rparr>))"

definition SetModelEnabled :: "(int \<Rightarrow> bool \<Rightarrow> ('s, unit) op) \<Rightarrow> int \<Rightarrow> bool \<Rightarrow> ('s, unit) op" where
  "SetModelEnabled set_enabled i enabled = (if i \<le> 0 then fail ErrBadParam else set_enabled i enabled)"

definition GetModelByID :: "(string \<Rightarrow> ('s, GatewayModel option) op) \<Rightarrow> string \<Rightarrow> ('s, GatewayModel option) op" where
  "GetModelByID get modelID0 =
     (let modelID = TrimSpace modelID0 in if modelID = '''' then fail ErrBadParam else get modelID)"

definition UpdateModelContextPolicy ::
  "(int \<Rightarrow> GatewayModelContextPolicy \<Rightarrow> ('s, GatewayModel) op) \<Rightarrow>
   int \<Rightarrow> GatewayModelContextPolicy \<Rightarrow> ('s, GatewayModel) op" where
  "UpdateModelContextPolicy update i policy =
     (if i \<le> 0 then fail ErrBadParam
      else bind_op (from_result (validateGatewayModelContextPolicy policy)) (\<lambda>_. update i policy))"

definition DeleteModel :: "(int \<Rightarrow> ('s, unit) op) \<Rightarrow> int \<Rightarrow> ('s, unit) op" where
  "DeleteModel delete i = (if i \<le> 0 then fail ErrBadParam else delete i)"

definition UpsertPolicy :: "(GatewayPolicy \<Rightarrow> ('s, GatewayPolicy) op) \<Rightarrow> GatewayPolicy \<Rightarrow> ('s, GatewayPolicy) op" where
  "UpsertPolicy upsert item0 =
     (let item = item0\<lparr>po_ModelID := TrimSpace (po_ModelID item0)\<rparr>
      in if po_APIKeyID item \<le> 0 \<or> po_ModelID item = '''' then fail ErrGatewayPolicyInvalid
         else if po_ModelID item \<noteq> ''*'' \<and> \<not> IsOfficialCodexModelID (po_ModelID item)
         then fail ErrGatewayPolicyInvalid
         else upsert item)"

definition DeletePolicy :: "(int \<Rightarrow> ('s, unit) op) \<Rightarrow> int \<Rightarrow> ('s, unit) op" where
  "DeletePolicy delete i = (if i \<le> 0 then fail ErrBadParam else delete i)"

definition UpsertModelPrice ::
  "(GatewayModelPrice \<Rightarrow> ('s, GatewayModelPrice) op) \<Rightarrow> GatewayModelPrice \<Rightarrow> ('s, GatewayModelPrice) op" where
  "UpsertModelPrice upsert item0 =
     (let item = item0\<lparr>pr_ModelID := TrimSpace (pr_ModelID item0)\<rparr>
      in if pr_ModelID item = '''' then fail ErrBadParam
         else if \<not> IsOfficialCodexModelID (pr_ModelID item) then fail ErrBadParam
         else upsert item)"

definition DeleteModelPrice :: "(int \<Rightarrow> ('s, unit) op) \<Rightarrow> int \<Rightarrow> ('s, unit) op" where
  "DeleteModelPrice delete i = (if i \<le> 0 then fail ErrBadParam else delete i)"

text \<open>The composition with the repository.\<close>

definition gateway_ValidateModelAccess where
  "gateway_ValidateModelAccess = ValidateModelAccess repo_GetModelByID"
definition gateway_ListModels where "gateway_ListModels = ListModels repo_ListModels"
definition gateway_UpsertModel where "gateway_UpsertModel = UpsertModel repo_UpsertModel"
definition gateway_UpsertSyncedModel where
  "gateway_UpsertSyncedModel = UpsertSyncedModel repo_UpsertSyncedModel"
definition gateway_SetModelEnabled where "gateway_SetModelEnabled = SetModelEnabled repo_SetModelEnabled"
definition gateway_GetModelByID where "gateway_GetModelByID = GetModelByID repo_GetModelByID"
definition gateway_UpdateModelContextPolicy where
  "gateway_UpdateModelContextPolicy = UpdateModelContextPolicy repo_UpdateModelContextPolicy"
definition gateway_DeleteModel where "gateway_DeleteModel = DeleteModel repo_DeleteModel"
definition gateway_UpsertPolicy where "gateway_UpsertPolicy = UpsertPolicy repo_UpsertPolicy"
definition gateway_DeletePolicy where "gateway_DeletePolicy = DeletePolicy repo_DeletePolicy"
definition gateway_UpsertModelPrice where "gateway_UpsertModelPrice = UpsertModelPrice repo_UpsertModelPrice"
definition gateway_DeleteModelPrice where "gateway_DeleteModelPrice = DeleteModelPrice repo_DeleteModelPrice"
definition gateway_EnsureDefaultModels where "gateway_EnsureDefaultModels = repo_EnsureDefaultModels"

section \<open>The interface of the model catalogue\<close>

locale model_catalogue =
  fixes inv :: "'s \<Rightarrow> bool" and fails :: "'s \<Rightarrow> bool" and model_at :: "'s \<Rightarrow> string \<Rightarrow> GatewayModel option"
    and get_model :: "string \<Rightarrow> ('s, GatewayModel option) op"
  assumes get_model: "inv s \<Longrightarrow> get_model m s = (r, s') \<Longrightarrow>
      inv s' \<and> model_at s' = model_at s \<and> r = (if fails s then Inl DBFailed else Inr (model_at s m))"
begin

text \<open>Who may use a model, spelled out.\<close>

lemma access_exact:
  assumes "inv s" "TrimSpace modelID \<noteq> ''''"
  shows "fst (ValidateModelAccess get_model key modelID s) =
    (if TrimSpace modelID \<notin> CodexModelIDSet then Inl ErrGatewayModelDisabled
     else if fails s then Inl DBFailed
     else if \<exists>m. model_at s (TrimSpace modelID) = Some m \<and> \<not> m_Enabled m then Inl ErrGatewayModelDisabled
     else if \<exists>k. key = Some k \<and> key_AllowedModels k \<noteq> [] \<and>
                  TrimSpace modelID \<notin> TrimSpace ` set (key_AllowedModels k) then Inl ErrGatewayModelNotAllowed
     else Inr ())"
proof -
  obtain r s' where g: "get_model (TrimSpace modelID) s = (r, s')" by fastforce
  note law = get_model [OF assms(1) g]
  show ?thesis
    using assms(2) g law
    by (auto simp: ValidateModelAccess_def IsOfficialCodexModelID_def bind_op_def Let_def
        split: option.splits if_splits) (metis image_eqI)+
qed

end

definition store_model_at :: "store \<Rightarrow> string \<Rightarrow> GatewayModel option" where
  "store_model_at s modelID = find (\<lambda>m. m_ModelID m = modelID) (rows (models s))"

lemma query_model_eq:
  assumes "store_ok s"
  shows "query_model modelID s =
     (if fault s (stmts s) then Inl DBFailed else Inr (store_model_at s modelID), s\<lparr>stmts := Suc (stmts s)\<rparr>)"
proof (cases "fault s (stmts s)")
  case True
  then show ?thesis by (simp add: query_model_def optional_def try_op_def model_tbl.on_tbl_fault)
next
  case False
  then show ?thesis
    using model_tbl.only_search [OF assms False, of "\<lambda>m. m_ModelID m = modelID"]
    by (auto simp: query_model_def optional_def try_op_def store_model_at_def model_clash_def split: option.splits)
qed

interpretation gateway_models: model_catalogue store_ok "\<lambda>s. fault s (stmts s)" store_model_at repo_GetModelByID
proof
  fix s s' :: store and m r
  assume "store_ok s" "repo_GetModelByID m s = (r, s')"
  then show "store_ok s' \<and> store_model_at s' = store_model_at s \<and>
      r = (if fault s (stmts s) then Inl DBFailed else Inr (store_model_at s m))"
    by (auto simp: repo_GetModelByID_def query_model_eq store_model_at_def fun_eq_iff)
qed

section \<open>What seeding and pruning do\<close>

definition official_part :: "string list \<Rightarrow> string list" where
  "official_part xs = filter (\<lambda>x. x \<in> CodexModelIDSet) (normalizeStringList xs)"

lemma normalize_filter [simp]:
  "normalizeStringList (filter P (normalizeStringList xs)) = filter P (normalizeStringList xs)"
  using normalizeStringList_clean [of xs] by (intro normalizeStringList_id) auto

lemma official_part_removeString:
  "m \<notin> CodexModelIDSet \<Longrightarrow>
   official_part (removeString (normalizeStringList xs) m) = official_part xs"
  by (auto simp: official_part_def removeString_def intro: filter_cong)

lemma official_part_filterAllowed:
  "official_part (filterAllowedStrings (normalizeStringList xs) CodexModelIDSet) = official_part xs"
  by (simp add: official_part_def filterAllowedStrings_def)

text \<open>A key of \<open>K\<close> up to its allowed models, whose official part is the same.\<close>

definition key_origin :: "api_key_row set \<Rightarrow> api_key_row \<Rightarrow> bool" where
  "key_origin K r \<longleftrightarrow>
     (\<exists>k \<in> K. (\<exists>t. r = k\<lparr>k_allowed_models := k_allowed_models r, k_updated_at := t\<rparr>) \<and>
        official_part (k_allowed_models r) = official_part (k_allowed_models k))"

lemma key_origin_self: "k \<in> K \<Longrightarrow> key_origin K k"
  unfolding key_origin_def by (rule bexI [of _ k]) (auto intro: exI [of _ "k_updated_at k"])

lemma key_origin_id: "key_origin K r \<Longrightarrow> \<exists>k \<in> K. k_id k = k_id r"
proof -
  assume "key_origin K r"
  then obtain k u where k: "k \<in> K" "r = k\<lparr>k_allowed_models := k_allowed_models r, k_updated_at := u\<rparr>"
    unfolding key_origin_def by blast
  have "k_id r = k_id k" by (subst k(2)) simp
  then show ?thesis using k(1) by metis
qed

lemma key_origin_set:
  assumes "key_origin K r" "key_origin K y" "k_id r = k_id y" "inj_on k_id K"
    and "official_part xs = official_part (k_allowed_models y)"
  shows "key_origin K (r\<lparr>k_allowed_models := xs, k_updated_at := t\<rparr>)"
proof -
  obtain k u where k: "k \<in> K" "r = k\<lparr>k_allowed_models := k_allowed_models r, k_updated_at := u\<rparr>"
    using assms(1) unfolding key_origin_def by blast
  obtain l v where l: "l \<in> K" "y = l\<lparr>k_allowed_models := k_allowed_models y, k_updated_at := v\<rparr>"
    "official_part (k_allowed_models y) = official_part (k_allowed_models l)"
    using assms(2) unfolding key_origin_def by blast
  have "k_id k = k_id r" by (subst k(2)) simp
  moreover have "k_id l = k_id y" by (subst l(2)) simp
  ultimately have "k = l" using assms(3,4) k(1) l(1) by (metis inj_onD)
  then have part: "official_part xs = official_part (k_allowed_models k)" using assms(5) l(3) by simp
  have eq: "r\<lparr>k_allowed_models := xs, k_updated_at := t\<rparr> = k\<lparr>k_allowed_models := xs, k_updated_at := t\<rparr>"
    by (subst k(2)) simp
  show ?thesis
    unfolding key_origin_def eq
    by (rule bexI [OF _ k(1)], intro conjI exI [of _ t]) (simp_all add: part)
qed

text \<open>The state of the pruning: the keys descend from those of \<open>K\<close>.\<close>

definition keys_from :: "api_key_row set \<Rightarrow> store \<Rightarrow> bool" where
  "keys_from K s \<longleftrightarrow>
     store_ok s \<and> inj_on k_id K \<and> (\<forall>r \<in> set (rows (keys s)). key_origin K r) \<and>
     k_id ` set (rows (keys s)) = k_id ` K"

lemma keys_from_start: "store_ok s \<Longrightarrow> keys_from (set (rows (keys s))) s"
  using key_tbl.store_okD [of s] by (auto simp: keys_from_def key_origin_self tbl_ok_def distinct_map)

lemma keys_from_stmts [simp]: "keys_from K (s\<lparr>stmts := n\<rparr>) = keys_from K s"
  by (simp add: keys_from_def)

text \<open>One iteration of the loops that narrow the allowed models.\<close>

lemma post_set_allowed_models:
  assumes "key_origin K y" "official_part xs = official_part (k_allowed_models y)"
  shows "post (\<lambda>s. keys_from K s \<and> f (models s, prices s, policies s) \<and> (\<forall>q \<in> set (rows (keys s)). G q))
           (set_allowed_models (k_id y) xs)
           (\<lambda>r s. keys_from K s \<and> f (models s, prices s, policies s) \<and> r \<noteq> Inl DBNotFound \<and>
              (r = Inr () \<longrightarrow> (\<forall>q \<in> set (rows (keys s)).
                 if k_id q = k_id y then k_allowed_models q = xs else G q)))"
proof (rule postI)
  fix s r s'
  assume s: "keys_from K s \<and> f (models s, prices s, policies s) \<and> (\<forall>q \<in> set (rows (keys s)). G q)"
    and run: "set_allowed_models (k_id y) xs s = (r, s')"
  let ?f = "\<lambda>q. q\<lparr>k_allowed_models := xs, k_updated_at := db_now s\<rparr>"
  have ok': "store_ok s'" using keepsD [OF keeps_set_allowed_models _ run] s by (simp add: keys_from_def)
  obtain r0 where r0: "on_keys (update_row k_id key_clash (k_id y) ?f) s = (r0, s')"
    and r: "r = (case r0 of Inl e \<Rightarrow> Inl e | Inr _ \<Rightarrow> Inr ())"
    using run unfolding set_allowed_models_def bind_time_now
    by (auto simp: bind_op_def split: prod.splits sum.splits)
  from r0 show "keys_from K s' \<and> f (models s', prices s', policies s') \<and> r \<noteq> Inl DBNotFound \<and>
      (r = Inr () \<longrightarrow> (\<forall>q \<in> set (rows (keys s')). if k_id q = k_id y then k_allowed_models q = xs else G q))"
  proof (cases rule: key_tbl.on_tbl_cases)
    case fault
    then show ?thesis using s r by simp
  next
    case (run t)
    obtain k where k: "k \<in> K" "k_id k = k_id y" using key_origin_id [OF assms(1)] by blast
    have ids: "k_id ` set (rows (keys s)) = k_id ` K" using s by (simp add: keys_from_def)
    have "k_id y \<in> k_id ` set (rows (keys s))"
      unfolding ids k(2) [symmetric] by (rule imageI [OF k(1)])
    then have "find_row k_id (k_id y) (keys s) \<noteq> None" unfolding find_row_None by auto
    then obtain q where q: "find_row k_id (k_id y) (keys s) = Some q" by blast
    note qm = find_row_Some [OF q]
    have nc: "\<not> (\<exists>p \<in> set (rows (keys s)). k_id p \<noteq> k_id y \<and> key_clash p (?f q))"
      using s qm key_tbl.store_okD [of s] tbl_ok_unique [of k_id key_clash key_valid "keys s" _ q]
      by (auto simp: keys_from_def key_clash_def)
    have t: "t = (keys s)\<lparr>rows := map (\<lambda>p. if k_id p = k_id y then ?f q else p) (rows (keys s))\<rparr>"
      and r0: "r0 = Inr (?f q)"
      using run(1) unfolding update_row_def q option.case if_not_P [OF nc] by simp_all
    have rows': "rows (keys s') = map (\<lambda>p. if k_id p = k_id y then ?f q else p) (rows (keys s))"
      using run(2) t by simp
    have "key_origin K (?f q)"
      using s qm assms by (intro key_origin_set [of K q y]) (auto simp: keys_from_def)
    moreover have "k_id ` set (rows (keys s')) = k_id ` set (rows (keys s))"
    proof -
      have "map k_id (rows (keys s')) = map k_id (rows (keys s))" unfolding rows' using qm by simp
      then show ?thesis by (metis list.set_map)
    qed
    ultimately have "keys_from K s'"
      using s ok' by (auto simp: keys_from_def rows')
    then show ?thesis using s run(2) r r0 qm rows' by auto
  qed
qed

text \<open>The keys descend from \<open>K\<close> and the models are \<open>R\<close>.\<close>

definition pruning :: "api_key_row set \<Rightarrow> GatewayModel list \<Rightarrow> store \<Rightarrow> bool" where
  "pruning K R s \<longleftrightarrow> keys_from K s \<and> rows (models s) = R"

lemma pruning_other:
  assumes "keeps store_ok m" and "\<And>s. keys (snd (m s)) = keys s" and "\<And>s. models (snd (m s)) = models s"
  shows "keeps (pruning K R) m"
  using assms by (auto simp: keeps_def pruning_def keys_from_def)

lemma other_frames [simp]:
  "keys (snd (on_policies b1 s)) = keys s" "models (snd (on_policies b1 s)) = models s"
  "keys (snd (on_prices b2 s)) = keys s" "models (snd (on_prices b2 s)) = models s"
  "keys (snd (on_models b3 s)) = keys s"
  "models (snd (on_keys b4 s)) = models s"
  by (simp_all add: on_tbl_def db_stmt_def case_prod_beta Let_def)

lemma reads_frames [simp]:
  "keys (snd (on_keys (select_rows P) s)) = keys s"
  "models (snd (on_models (select_rows Q) s)) = models s"
  "models (snd (on_models (get_row m_ID i) s)) = models s"
  "models (snd (on_models (only_row Q) s)) = models s"
  by (simp_all add: on_tbl_def db_stmt_def case_prod_beta Let_def select_rows_table get_row_table
      only_row_table)

lemma reads_frames_all:
  "snd (on_keys (select_rows P) s) = s\<lparr>stmts := Suc (stmts s)\<rparr>"
  by (auto simp: on_tbl_def db_stmt_def select_rows_def Let_def)

lemma keeps_pruning [op_keeps]:
  "keeps (pruning K R) (on_policies (delete_rows P))"
  "keeps (pruning K R) (on_prices (delete_rows Q))"
  "keeps (pruning K R) (on_keys (select_rows P1))"
  "keeps (pruning K R) (on_models (select_rows Q1))"
  "keeps (pruning K R) (on_models (get_row m_ID i))"
  by (rule pruning_other; simp add: model_keeps)+

lemma post_narrow_loop:
  assumes "\<And>y. y \<in> set ks \<Longrightarrow> key_origin K y"
    and "\<And>y. y \<in> set ks \<Longrightarrow> narrow y \<noteq> None \<Longrightarrow> official_part (the (narrow y)) = official_part (k_allowed_models y)"
  shows "post (pruning K R)
           (for_each (\<lambda>y. case narrow y of None \<Rightarrow> ok () | Some xs \<Rightarrow> set_allowed_models (k_id y) xs) ks)
           (either (\<lambda>e s. e \<noteq> DBNotFound \<and> pruning K R s) (\<lambda>_. pruning K R))"
proof (rule post_for_each [where I = "\<lambda>_. pruning K R"])
  fix ys y zs assume y: "ks = ys @ y # zs"
  show "post (pruning K R) (case narrow y of None \<Rightarrow> ok () | Some xs \<Rightarrow> set_allowed_models (k_id y) xs)
      (either (\<lambda>e s. e \<noteq> DBNotFound \<and> pruning K R s) (\<lambda>_. pruning K R))"
  proof (cases "narrow y")
    case None
    show ?thesis unfolding None option.case by (rule post_ok) simp
  next
    case (Some xs)
    show ?thesis unfolding Some option.case
      by (rule post_weaken [OF post_set_allowed_models
          [where f = "\<lambda>(m, _, _). rows m = R" and G = "\<lambda>_. True"]])
        (use assms [of y] y Some in \<open>auto simp: pruning_def either_def split: sum.splits\<close>)
  qed
qed

lemma post_get_model:
  assumes "\<And>m. m \<in> set R \<Longrightarrow> m_ID m = i \<Longrightarrow> m_ModelID m \<notin> CodexModelIDSet"
  shows "post (pruning K R) (on_models (get_row m_ID i))
      (either (\<lambda>e s. pruning K R s \<and> (e = DBNotFound \<longrightarrow> (\<forall>m \<in> set R. m_ID m \<noteq> i)))
              (\<lambda>model s. pruning K R s \<and> m_ModelID model \<notin> CodexModelIDSet))"
proof (rule model_tbl.post_stmt)
  fix s r t assume s: "pruning K R s" and run: "get_row m_ID i (models s) = (r, t)"
  have t: "t = models s" using run get_row_table [of m_ID i "models s"] by simp
  have rs: "rows (models s) = R" using s by (simp add: pruning_def)
  show "either (\<lambda>e s. pruning K R s \<and> (e = DBNotFound \<longrightarrow> (\<forall>m \<in> set R. m_ID m \<noteq> i)))
      (\<lambda>model s. pruning K R s \<and> m_ModelID model \<notin> CodexModelIDSet) r (s\<lparr>models := t\<rparr>)"
  proof (cases "find_row m_ID i (models s)")
    case None
    then have "r = Inl DBNotFound" using run by (simp add: get_row_def)
    then show ?thesis using s t None by (simp add: find_row_None rs)
  next
    case (Some m)
    then have "r = Inr m" using run by (simp add: get_row_def)
    then show ?thesis using s t find_row_Some [OF Some] assms by (simp add: rs)
  qed
qed (simp_all add: pruning_def)

lemma post_delete_model_row:
  "post (pruning K R) (on_models (delete_row m_ID i))
     (either (\<lambda>e s. pruning K R s \<and> (e = DBNotFound \<longrightarrow> (\<forall>m \<in> set R. m_ID m \<noteq> i)))
             (\<lambda>_ s. pruning K (filter (\<lambda>m. m_ID m \<noteq> i) R) s))"
proof (rule model_tbl.post_stmt)
  fix s r t assume s: "pruning K R s" and run: "delete_row m_ID i (models s) = (r, t)"
  have rs: "rows (models s) = R" using s by (simp add: pruning_def)
  have "tbl_ok m_ID model_clash model_valid t"
    using model_tbl.delete_ok [OF model_tbl.store_okD [of s], of i] s run
    by (simp add: pruning_def keys_from_def)
  then have ok: "store_ok (s\<lparr>models := t\<rparr>)"
    using s by (intro model_tbl.store_ok_put) (simp_all add: pruning_def keys_from_def)
  show "either (\<lambda>e s. pruning K R s \<and> (e = DBNotFound \<longrightarrow> (\<forall>m \<in> set R. m_ID m \<noteq> i)))
      (\<lambda>_ s. pruning K (filter (\<lambda>m. m_ID m \<noteq> i) R) s) r (s\<lparr>models := t\<rparr>)"
  proof (cases "find_row m_ID i (models s)")
    case None
    then have "r = Inl DBNotFound" "t = models s" using run by (simp_all add: delete_row_def)
    then show ?thesis using s None by (simp add: find_row_None rs)
  next
    case (Some m)
    then have "r = Inr ()" "rows t = filter (\<lambda>m. m_ID m \<noteq> i) R"
      using run by (auto simp: delete_row_def rs)
    then show ?thesis using s ok by (simp add: pruning_def keys_from_def)
  qed
qed (simp_all add: pruning_def)

lemma post_DeleteModel:
  assumes "\<And>m. m \<in> set R \<Longrightarrow> m_ID m = i \<Longrightarrow> m_ModelID m \<notin> CodexModelIDSet"
  shows "post (pruning K R) (repo_DeleteModel i)
     (either (\<lambda>e s. pruning K R s \<and> (e = DBNotFound \<longrightarrow> (\<forall>m \<in> set R. m_ID m \<noteq> i)))
             (\<lambda>_ s. pruning K (filter (\<lambda>m. m_ID m \<noteq> i) R) s))"
  (is "post _ _ (either ?E ?N)")
  unfolding repo_DeleteModel_def
proof (rule post_bind [OF post_get_model [OF assms]])
  fix model
  let ?m = "m_ModelID model"
  show "post (\<lambda>s. pruning K R s \<and> ?m \<notin> CodexModelIDSet) (let modelID = ?m in
      bind_op (on_policies (delete_rows (\<lambda>p. po_ModelID p = modelID))) (\<lambda>_.
      bind_op (on_prices (delete_rows (\<lambda>p. pr_ModelID p = modelID))) (\<lambda>_.
      bind_op (on_keys (select_rows (\<lambda>_. True))) (\<lambda>ks.
      bind_op
        (for_each (\<lambda>key.
           let current = normalizeStringList (k_allowed_models key);
               remaining = removeString current modelID
           in if length remaining = length current then ok ()
              else set_allowed_models (k_id key) remaining) ks)
        (\<lambda>_. on_models (delete_row m_ID i)))))) (either ?E ?N)"
  proof (cases "?m \<in> CodexModelIDSet")
    case True
    then show ?thesis by (simp add: post_def)
  next
    case False
    let ?narrow = "\<lambda>y. let current = normalizeStringList (k_allowed_models y);
        remaining = removeString current ?m
        in if length remaining = length current then None else Some remaining"
    have body: "(\<lambda>key. let current = normalizeStringList (k_allowed_models key);
           remaining = removeString current ?m
        in if length remaining = length current then ok ()
           else set_allowed_models (k_id key) remaining) =
        (\<lambda>y. case ?narrow y of None \<Rightarrow> ok () | Some xs \<Rightarrow> set_allowed_models (k_id y) xs)"
      by (rule ext) (simp add: Let_def)
    have loop: "post (\<lambda>s. pruning K R s \<and> ks = filter (\<lambda>_. True) (rows (keys s)))
        (for_each (\<lambda>y. case ?narrow y of None \<Rightarrow> ok () | Some xs \<Rightarrow> set_allowed_models (k_id y) xs) ks)
        (either (\<lambda>e s. e \<noteq> DBNotFound \<and> pruning K R s) (\<lambda>_. pruning K R))" for ks
    proof (cases "\<forall>y \<in> set ks. key_origin K y")
      case True
      show ?thesis
        by (rule post_weaken [OF post_narrow_loop])
          (use True False in \<open>auto simp: Let_def official_part_removeString split: if_splits\<close>)
    next
      case False
      then show ?thesis by (auto simp: post_def pruning_def keys_from_def)
    qed
    show ?thesis
      unfolding Let_def [of ?m] body
      by (rule post_bind [OF post_weaken [OF policy_tbl.post_total [OF keeps_pruning(1)]]],
          simp add: delete_rows_def, simp add: False, assumption, simp,
          rule post_bind [OF price_tbl.post_total [OF keeps_pruning(2)]],
          simp add: delete_rows_def, simp,
          rule post_bind [OF key_tbl.post_select [OF keeps_pruning(3)]], simp,
          rule post_bind [OF loop], simp, rule post_delete_model_row)
  qed
next
  fix e s
  assume "pruning K R s \<and> (e = DBNotFound \<longrightarrow> (\<forall>m \<in> set R. m_ID m \<noteq> i))"
  then show "either ?E ?N (Inl e) s" by (subst either_simps)
qed

text \<open>The loop over the models: afterwards only official ones are left.\<close>

definition remaining_models :: "GatewayModel list \<Rightarrow> GatewayModel list \<Rightarrow> GatewayModel list" where
  "remaining_models R ys = filter (\<lambda>m. m_ModelID m \<in> CodexModelIDSet \<or> m_ID m \<notin> m_ID ` set ys) R"

lemma remaining_models_all: "remaining_models R R = filter (\<lambda>m. m_ModelID m \<in> CodexModelIDSet) R"
  by (auto simp: remaining_models_def intro: filter_cong)

lemma post_prune_models:
  assumes dist: "inj_on m_ID (set R)"
  shows "post (pruning K R)
     (for_each (\<lambda>item.
        if m_ModelID item \<in> CodexModelIDSet then ok ()
        else try_op (repo_DeleteModel (m_ID item)) (\<lambda>r.
               case r of
                 Inl err \<Rightarrow> if err \<noteq> DBNotFound then fail err else ok ()
               | Inr _ \<Rightarrow> ok ())) R)
     (either (\<lambda>_ _. True) (\<lambda>_. pruning K (remaining_models R R)))"
proof -
  have "post (pruning K (remaining_models R []))
     (for_each (\<lambda>item.
        if m_ModelID item \<in> CodexModelIDSet then ok ()
        else try_op (repo_DeleteModel (m_ID item)) (\<lambda>r.
               case r of
                 Inl err \<Rightarrow> if err \<noteq> DBNotFound then fail err else ok ()
               | Inr _ \<Rightarrow> ok ())) R)
     (either (\<lambda>_ _. True) (\<lambda>_. pruning K (remaining_models R R)))"
  proof (rule post_for_each [where I = "\<lambda>ys. pruning K (remaining_models R ys)"])
    fix ys item zs assume R: "R = ys @ item # zs"
    let ?A = "remaining_models R ys" and ?B = "remaining_models R (ys @ [item])"
    show "post (pruning K ?A)
      (if m_ModelID item \<in> CodexModelIDSet then ok ()
       else try_op (repo_DeleteModel (m_ID item)) (\<lambda>r.
              case r of Inl err \<Rightarrow> if err \<noteq> DBNotFound then fail err else ok () | Inr _ \<Rightarrow> ok ()))
      (either (\<lambda>_ _. True) (\<lambda>_. pruning K ?B))"
    proof (rule post_if)
      assume off: "m_ModelID item \<in> CodexModelIDSet"
      have "?B = ?A"
        unfolding remaining_models_def
        by (rule filter_cong) (use off R inj_onD [OF dist] in auto)
      then show "post (pruning K ?A) (ok ()) (either (\<lambda>_ _. True) (\<lambda>_. pruning K ?B))"
        by (intro post_ok) simp
    next
      assume off: "m_ModelID item \<notin> CodexModelIDSet"
      have same: "m_ModelID m \<notin> CodexModelIDSet" if "m \<in> set R" "m_ID m = m_ID item" for m
        using that off R inj_onD [OF dist, of m item] by auto
      have step: "?B = filter (\<lambda>m. m_ID m \<noteq> m_ID item) ?A"
        using same by (auto simp: remaining_models_def intro!: filter_cong)
      have del: "post (pruning K ?A) (repo_DeleteModel (m_ID item))
          (either (\<lambda>e s. pruning K ?A s \<and> (e = DBNotFound \<longrightarrow> (\<forall>m \<in> set ?A. m_ID m \<noteq> m_ID item)))
             (\<lambda>_. pruning K ?B))"
        unfolding step by (rule post_DeleteModel) (use same in \<open>auto simp: remaining_models_def\<close>)
      have none: "\<forall>m \<in> set ?A. m_ID m \<noteq> m_ID item \<Longrightarrow> ?B = ?A"
        unfolding step by (simp add: filter_id_conv)
      show "post (pruning K ?A)
          (try_op (repo_DeleteModel (m_ID item)) (\<lambda>r.
             case r of Inl err \<Rightarrow> if err \<noteq> DBNotFound then fail err else ok () | Inr _ \<Rightarrow> ok ()))
          (either (\<lambda>_ _. True) (\<lambda>_. pruning K ?B))"
      proof (rule post_try [OF del])
        fix r :: "unit result"
        show "post (either (\<lambda>e s. pruning K ?A s \<and> (e = DBNotFound \<longrightarrow> (\<forall>m \<in> set ?A. m_ID m \<noteq> m_ID item)))
             (\<lambda>_. pruning K ?B) r)
          (case r of Inl err \<Rightarrow> if err \<noteq> DBNotFound then fail err else ok () | Inr _ \<Rightarrow> ok ())
          (either (\<lambda>_ _. True) (\<lambda>_. pruning K ?B))"
          using none by (cases r) (auto simp: post_def)
      qed
    qed
  qed
  then show ?thesis by (simp add: remaining_models_def)
qed

text \<open>The last part of the pruning: prices, policies and the keys' allowed models.\<close>

definition prices_official :: "store \<Rightarrow> bool" where
  "prices_official s = (\<forall>p \<in> set (rows (prices s)). pr_ModelID p \<in> CodexModelIDSet)"

definition policies_official :: "store \<Rightarrow> bool" where
  "policies_official s = (\<forall>p \<in> set (rows (policies s)). po_ModelID p = ''*'' \<or> po_ModelID p \<in> CodexModelIDSet)"

definition allowed_official :: "api_key_row \<Rightarrow> bool" where
  "allowed_official r = (set (normalizeStringList (k_allowed_models r)) \<subseteq> CodexModelIDSet)"

lemma post_prune_prices:
  "post (pruning K R) (on_prices (delete_rows (\<lambda>p. pr_ModelID p \<notin> CodexModelIDSet)))
     (either (\<lambda>_ _. True) (\<lambda>_ s. pruning K R s \<and> prices_official s))"
proof (rule post_weaken [where P = "pruning K R"])
  show "post (pruning K R) (on_prices (delete_rows (\<lambda>p. pr_ModelID p \<notin> CodexModelIDSet)))
     (\<lambda>r s. pruning K R s \<and> (r = Inl DBFailed \<or> prices_official s))"
  proof (rule price_tbl.post_stmt)
    fix s r t
    assume s: "pruning K R s" and "delete_rows (\<lambda>p. pr_ModelID p \<notin> CodexModelIDSet) (prices s) = (r, t)"
    then have t: "t = snd (delete_rows (\<lambda>p. pr_ModelID p \<notin> CodexModelIDSet) (prices s))" by simp
    have "store_ok s" using s by (simp add: pruning_def keys_from_def)
    then have "store_ok (s\<lparr>prices := t\<rparr>)"
      unfolding t by (intro price_tbl.store_ok_put price_tbl.delete_rows_ok price_tbl.store_okD)
    moreover have "prices_official (s\<lparr>prices := t\<rparr>)"
      by (simp add: t prices_official_def delete_rows_def)
    ultimately show "pruning K R (s\<lparr>prices := t\<rparr>) \<and> (r = Inl DBFailed \<or> prices_official (s\<lparr>prices := t\<rparr>))"
      using s by (simp add: pruning_def keys_from_def)
  qed (simp_all add: pruning_def)
qed (auto simp: either_def split: sum.splits)

lemma post_prune_policies:
  "post (\<lambda>s. pruning K R s \<and> prices_official s)
     (on_policies (delete_rows (\<lambda>p. po_ModelID p \<noteq> ''*'' \<and> po_ModelID p \<notin> CodexModelIDSet)))
     (either (\<lambda>_ _. True) (\<lambda>_ s. pruning K R s \<and> prices_official s \<and> policies_official s))"
proof (rule post_weaken [where P = "\<lambda>s. pruning K R s \<and> prices_official s"])
  let ?P = "\<lambda>p. po_ModelID p \<noteq> ''*'' \<and> po_ModelID p \<notin> CodexModelIDSet"
  show "post (\<lambda>s. pruning K R s \<and> prices_official s) (on_policies (delete_rows ?P))
     (\<lambda>r s. (pruning K R s \<and> prices_official s) \<and> (r = Inl DBFailed \<or> policies_official s))"
  proof (rule policy_tbl.post_stmt)
    fix s r t
    assume s: "pruning K R s \<and> prices_official s" and "delete_rows ?P (policies s) = (r, t)"
    then have t: "t = snd (delete_rows ?P (policies s))" by simp
    have "store_ok s" using s by (simp add: pruning_def keys_from_def)
    then have "store_ok (s\<lparr>policies := t\<rparr>)"
      unfolding t by (intro policy_tbl.store_ok_put policy_tbl.delete_rows_ok policy_tbl.store_okD)
    moreover have "policies_official (s\<lparr>policies := t\<rparr>)"
      by (simp add: t policies_official_def delete_rows_def)
    ultimately show "(pruning K R (s\<lparr>policies := t\<rparr>) \<and> prices_official (s\<lparr>policies := t\<rparr>)) \<and>
        (r = Inl DBFailed \<or> policies_official (s\<lparr>policies := t\<rparr>))"
      using s by (simp add: pruning_def keys_from_def prices_official_def)
  qed (simp_all add: pruning_def prices_official_def)
qed (auto simp: either_def split: sum.splits)

lemma filter_same_official:
  assumes "sameStringList (normalizeStringList xs) (filterAllowedStrings (normalizeStringList xs) CodexModelIDSet)"
  shows "set (normalizeStringList xs) \<subseteq> CodexModelIDSet"
proof -
  have "normalizeStringList xs = filter (\<lambda>x. x \<in> CodexModelIDSet) (normalizeStringList xs)"
    using assms by (simp add: sameStringList_eq filterAllowedStrings_def)
  then show ?thesis by (metis filter_id_conv subsetI)
qed

lemma post_prune_keys:
  fixes K :: "api_key_row set" and R :: "GatewayModel list" and ks :: "api_key_row list"
  defines "J \<equiv> \<lambda>s. pruning K R s \<and> prices_official s \<and> policies_official s"
  shows "post (\<lambda>s. J s \<and> rows (keys s) = ks)
     (for_each (\<lambda>key.
         let current = normalizeStringList (k_allowed_models key);
             remaining = filterAllowedStrings current CodexModelIDSet
         in if sameStringList current remaining then ok ()
            else set_allowed_models (k_id key) remaining) ks)
     (either (\<lambda>_ _. True) (\<lambda>_ s. J s \<and> (\<forall>q \<in> set (rows (keys s)). allowed_official q)))"
proof (cases "(\<forall>y \<in> set ks. key_origin K y) \<and> inj_on k_id (set ks) \<and> k_id ` set ks = k_id ` K")
  case False
  then show ?thesis
    using key_tbl.store_okD
    by (auto simp: post_def J_def pruning_def keys_from_def tbl_ok_def distinct_map)
next
  case True
  define L where "L ys s \<longleftrightarrow> J s \<and> (\<forall>q \<in> set (rows (keys s)).
      if k_id q \<in> k_id ` set ys then allowed_official q else q \<in> set ks)" for ys :: "api_key_row list" and s
  have "post (L []) (for_each (\<lambda>key.
         let current = normalizeStringList (k_allowed_models key);
             remaining = filterAllowedStrings current CodexModelIDSet
         in if sameStringList current remaining then ok ()
            else set_allowed_models (k_id key) remaining) ks) (either (\<lambda>_ _. True) (\<lambda>_. L ks))"
  proof (rule post_for_each)
    fix ys y zs assume y: "ks = ys @ y # zs"
    let ?c = "normalizeStringList (k_allowed_models y)"
    let ?n = "filterAllowedStrings ?c CodexModelIDSet"
    have yk: "y \<in> set ks" using y by simp
    show "post (L ys) (let current = ?c; remaining = filterAllowedStrings current CodexModelIDSet
         in if sameStringList current remaining then ok () else set_allowed_models (k_id y) remaining)
         (either (\<lambda>_ _. True) (\<lambda>_. L (ys @ [y])))"
      unfolding Let_def
    proof (rule post_if)
      assume same: "sameStringList ?c ?n"
      have eq: "q = y" if "q \<in> set ks" "k_id q = k_id y" for q
        using that yk True by (auto dest: inj_onD)
      have y_ok: "allowed_official y" using filter_same_official [OF same] by (simp add: allowed_official_def)
      have "L (ys @ [y]) s" if L: "L ys s" for s
        unfolding L_def
      proof (intro conjI ballI)
        show "J s" using L by (simp add: L_def)
        fix q assume q: "q \<in> set (rows (keys s))"
        then have *: "if k_id q \<in> k_id ` set ys then allowed_official q else q \<in> set ks"
          using L by (simp add: L_def)
        show "if k_id q \<in> k_id ` set (ys @ [y]) then allowed_official q else q \<in> set ks"
        proof (cases "k_id q \<in> k_id ` set ys")
          case True
          then show ?thesis using * by auto
        next
          case False
          then show ?thesis using * eq [of q] y_ok by auto
        qed
      qed
      then show "post (L ys) (ok ()) (either (\<lambda>_ _. True) (\<lambda>_. L (ys @ [y])))"
        by (intro post_ok) simp
    next
      let ?G = "\<lambda>q. if k_id q \<in> k_id ` set ys then allowed_official q else q \<in> set ks"
      let ?f = "\<lambda>(m, pr, po). rows m = R \<and> (\<forall>p \<in> set (rows pr). pr_ModelID p \<in> CodexModelIDSet) \<and>
          (\<forall>p \<in> set (rows po). po_ModelID p = ''*'' \<or> po_ModelID p \<in> CodexModelIDSet)"
      have "set (normalizeStringList ?n) \<subseteq> CodexModelIDSet"
        by (auto simp: filterAllowedStrings_def)
      then have n_ok: "k_allowed_models q = ?n \<Longrightarrow> allowed_official q" for q
        by (simp add: allowed_official_def)
      have step: "if k_id q \<in> k_id ` set (ys @ [y]) then allowed_official q else q \<in> set ks"
        if "if k_id q = k_id y then k_allowed_models q = ?n else ?G q" for q
        using that n_ok by (cases "k_id q = k_id y") auto
      have set_y: "post (\<lambda>s. keys_from K s \<and> ?f (models s, prices s, policies s) \<and>
             (\<forall>q \<in> set (rows (keys s)). ?G q)) (set_allowed_models (k_id y) ?n)
          (\<lambda>r s. keys_from K s \<and> ?f (models s, prices s, policies s) \<and> r \<noteq> Inl DBNotFound \<and>
            (r = Inr () \<longrightarrow> (\<forall>q \<in> set (rows (keys s)). if k_id q = k_id y then k_allowed_models q = ?n else ?G q)))"
        by (rule post_set_allowed_models) (use True yk official_part_filterAllowed in auto)
      show "post (L ys) (set_allowed_models (k_id y) ?n) (either (\<lambda>_ _. True) (\<lambda>_. L (ys @ [y])))"
      proof (rule post_weaken [OF set_y])
        fix s assume "L ys s"
        then show "keys_from K s \<and> ?f (models s, prices s, policies s) \<and> (\<forall>q \<in> set (rows (keys s)). ?G q)"
          by (simp add: L_def J_def pruning_def prices_official_def policies_official_def)
      next
        fix r s
        assume *: "keys_from K s \<and> ?f (models s, prices s, policies s) \<and> r \<noteq> Inl DBNotFound \<and>
            (r = Inr () \<longrightarrow> (\<forall>q \<in> set (rows (keys s)). if k_id q = k_id y then k_allowed_models q = ?n else ?G q))"
        show "either (\<lambda>_ _. True) (\<lambda>_. L (ys @ [y])) r s"
        proof (cases r)
          case (Inr x)
          then have "\<forall>q \<in> set (rows (keys s)). if k_id q \<in> k_id ` set (ys @ [y]) then allowed_official q else q \<in> set ks"
            using * Inr by (intro ballI step) simp
          moreover have "J s" using * by (simp add: J_def pruning_def prices_official_def policies_official_def)
          ultimately show ?thesis using Inr unfolding L_def by simp
        qed simp
      qed
    qed
  qed
  then show ?thesis
  proof (rule post_weaken)
    fix s assume "J s \<and> rows (keys s) = ks"
    then show "L [] s" by (simp add: L_def)
  next
    fix r s assume L: "either (\<lambda>_ _. True) (\<lambda>_. L ks) r s"
    show "either (\<lambda>_ _. True) (\<lambda>_ s. J s \<and> (\<forall>q \<in> set (rows (keys s)). allowed_official q)) r s"
    proof (cases r)
      case (Inr x)
      with L have Ls: "L ks s" by simp
      then have "k_id ` set (rows (keys s)) = k_id ` set ks"
        using True by (simp add: L_def J_def pruning_def keys_from_def)
      then have "\<forall>q \<in> set (rows (keys s)). k_id q \<in> k_id ` set ks" by blast
      then show ?thesis using Ls Inr by (simp add: L_def)
    qed simp
  qed
qed

lemma post_pruneGatewayModels:
  assumes "inj_on m_ID (set R)"
  shows "post (pruning K R) (pruneGatewayModels CodexModelIDs CodexModelIDSet)
     (either (\<lambda>_ _. True) (\<lambda>_ s. pruning K (filter (\<lambda>m. m_ModelID m \<in> CodexModelIDSet) R) s \<and>
        prices_official s \<and> policies_official s \<and> (\<forall>q \<in> set (rows (keys s)). allowed_official q)))"
    (is "post _ _ (either ?E ?N)")
proof -
  let ?R = "filter (\<lambda>m. m_ModelID m \<in> CodexModelIDSet) R"
  let ?J = "\<lambda>s. pruning K ?R s \<and> prices_official s \<and> policies_official s"
  have sel: "post (pruning K R) (on_models (select_rows (\<lambda>_. True)))
      (either ?E (\<lambda>xs s. pruning K R s \<and> xs = R))"
    by (rule post_weaken [OF model_tbl.post_select [OF keeps_pruning(4)]])
      (auto simp: either_def pruning_def split: sum.splits)
  have models: "post (\<lambda>s. pruning K R s \<and> xs = R)
     (for_each (\<lambda>item.
        if m_ModelID item \<in> CodexModelIDSet then ok ()
        else try_op (repo_DeleteModel (m_ID item)) (\<lambda>r.
               case r of Inl err \<Rightarrow> if err \<noteq> DBNotFound then fail err else ok () | Inr _ \<Rightarrow> ok ())) xs)
     (either ?E (\<lambda>_. pruning K ?R))" for xs
    using post_prune_models [OF assms, of K]
    by (cases "xs = R") (auto simp: remaining_models_all post_def)
  have keysel: "post ?J (on_keys (select_rows (\<lambda>_. True)))
      (either ?E (\<lambda>xs s. ?J s \<and> rows (keys s) = xs))"
  proof (rule post_weaken [OF key_tbl.post_select])
    have "keeps store_ok (on_keys (select_rows (\<lambda>_. True)))" by (rule key_tbl.keeps_select)
    then show "keeps ?J (on_keys (select_rows (\<lambda>_. True)))"
      by (simp add: keeps_def pruning_def keys_from_def prices_official_def policies_official_def reads_frames_all)
  qed (auto simp: either_def split: sum.splits)
  show ?thesis
    unfolding pruneGatewayModels_def CodexModelIDSet_eq [symmetric]
    by (rule post_bind [OF sel], simp, rule post_bind [OF models], simp,
        rule post_bind [OF post_prune_prices], simp, rule post_bind [OF post_prune_policies], simp,
        rule post_bind [OF keysel], simp, rule post_weaken [OF post_prune_keys [where K = K and R = ?R]],
        simp, simp add: either_def split: sum.splits)
qed

text \<open>Seeding adds the official models that are missing and changes nothing else.\<close>

definition seeded :: "api_key_row set \<Rightarrow> GatewayModel list \<Rightarrow> GatewayModel list \<Rightarrow> store \<Rightarrow> bool" where
  "seeded K R ys s \<longleftrightarrow>
     keys_from K s \<and>
     (\<exists>extra. rows (models s) = R @ extra \<and> (\<forall>m \<in> set extra. m_ModelID m \<in> CodexModelIDSet)) \<and>
     (\<forall>y \<in> set ys. m_ModelID y \<in> m_ModelID ` set (rows (models s)))"

lemma seeded_stmts [simp]: "seeded K R ys (s\<lparr>stmts := n\<rparr>) = seeded K R ys s"
  by (simp add: seeded_def)

lemma post_insert_model:
  assumes "m_ModelID item \<in> CodexModelIDSet"
  shows "post (seeded K R ys) (insert_model item seen) (either (\<lambda>_ _. True) (\<lambda>_. seeded K R (ys @ [item])))"
  unfolding insert_model_def
proof (rule post_checked)
  show "either (\<lambda>_ _. True) (\<lambda>_. seeded K R (ys @ [item])) (Inl (DBValidation ''validator failed for field'')) s" for s
    by simp
next
  assume valid: "model_valid item"
  let ?mk = "\<lambda>now i. item\<lparr>m_ID := i, m_LastSeenAt := Some seen, m_CreatedAt := now, m_UpdatedAt := now\<rparr>"
  have ins: "post (seeded K R ys) (on_models (insert_row model_clash (?mk now)))
      (either (\<lambda>_ _. True) (\<lambda>_. seeded K R (ys @ [item])))" for now
  proof (rule model_tbl.post_stmt)
    fix s r t assume s: "seeded K R ys s" and run: "insert_row model_clash (?mk now) (models s) = (r, t)"
    have ok: "store_ok s" using s by (simp add: seeded_def keys_from_def)
    have "tbl_ok m_ID model_clash model_valid t"
      using model_tbl.insert_ok [OF model_tbl.store_okD [OF ok], of "?mk now"] valid run
      by (simp add: model_valid_def)
    then have ok': "store_ok (s\<lparr>models := t\<rparr>)" using ok by (intro model_tbl.store_ok_put)
    from run show "either (\<lambda>_ _. True) (\<lambda>_. seeded K R (ys @ [item])) r (s\<lparr>models := t\<rparr>)"
    proof (cases rule: model_tbl.insert_cases)
      case 2
      then show ?thesis using s ok' assms by (auto simp: seeded_def keys_from_def)
    qed simp
  qed (simp_all)
  show "post (seeded K R ys)
     (bind_op time_now (\<lambda>now. on_models (insert_row model_clash (\<lambda>i.
          item\<lparr>m_ID := i, m_LastSeenAt := Some seen, m_CreatedAt := now, m_UpdatedAt := now\<rparr>))))
     (either (\<lambda>_ _. True) (\<lambda>_. seeded K R (ys @ [item])))"
    using ins by (simp add: post_def)
qed

lemma post_seed_one:
  assumes "m_ModelID item \<in> CodexModelIDSet"
  shows "post (seeded K R ys)
     (bind_op (on_models (select_rows (\<lambda>m. m_ModelID m = m_ModelID item))) (\<lambda>found.
        if found \<noteq> [] then ok () else bind_op (repo_UpsertModel item) (\<lambda>_. ok ())))
     (either (\<lambda>_ _. True) (\<lambda>_. seeded K R (ys @ [item])))"
proof (rule postI)
  fix s r s'
  assume s: "seeded K R ys s" and run: "bind_op (on_models (select_rows (\<lambda>m. m_ModelID m = m_ModelID item)))
      (\<lambda>found. if found \<noteq> [] then ok () else bind_op (repo_UpsertModel item) (\<lambda>_. ok ())) s = (r, s')"
  show "either (\<lambda>_ _. True) (\<lambda>_. seeded K R (ys @ [item])) r s'"
  proof (cases r)
    case (Inr u)
    let ?found = "filter (\<lambda>m. m_ModelID m = m_ModelID item) (rows (models s))"
    let ?s1 = "s\<lparr>stmts := Suc (stmts s)\<rparr>"
    have rest: "(if ?found \<noteq> [] then ok () else bind_op (repo_UpsertModel item) (\<lambda>_. ok ())) ?s1 = (Inr u, s')"
      using run Inr by (auto simp: model_tbl.on_tbl_Inr select_rows_def elim!: bind_op_InrE)
    have s1: "seeded K R ys ?s1" using s by simp
    show ?thesis
    proof (cases "?found = []")
      case False
      then obtain m where "m \<in> set (rows (models s))" "m_ModelID m = m_ModelID item"
        by (metis (mono_tags, lifting) filter_empty_conv)
      then have "m_ModelID item \<in> m_ModelID ` set (rows (models s))" by (metis imageI)
      then show ?thesis using rest False s Inr by (auto simp: seeded_def)
    next
      case True
      then obtain m where up: "repo_UpsertModel item ?s1 = (Inr m, s')"
        using rest by (auto elim!: bind_op_InrE)
      have ok1: "store_ok ?s1" using s by (simp add: seeded_def keys_from_def)
      have none: "store_model_at ?s1 (m_ModelID item) = None"
        using True by (simp add: store_model_at_def find_None_iff filter_empty_conv)
      then obtain seen where ins: "insert_model item seen (?s1\<lparr>stmts := Suc (stmts ?s1)\<rparr>) = (Inr m, s')"
        using up by (auto simp: repo_UpsertModel_def query_model_eq [OF ok1] none time_now_def
            split: if_splits elim!: bind_op_InrE)
      have "seeded K R ys (?s1\<lparr>stmts := Suc (stmts ?s1)\<rparr>)" using s by simp
      then show ?thesis using postD [OF post_insert_model [OF assms] _ ins] Inr by simp
    qed
  qed simp
qed

lemma post_EnsureDefaultModels:
  assumes "store_ok s" "gateway_EnsureDefaultModels s = (Inr (), t)"
  shows "\<exists>extra. (\<forall>m \<in> set extra. m_ModelID m \<in> CodexModelIDSet) \<and>
     CodexModelIDSet \<subseteq> m_ModelID ` set (rows (models s) @ extra) \<and>
     pruning (set (rows (keys s)))
       (filter (\<lambda>m. m_ModelID m \<in> CodexModelIDSet) (rows (models s) @ extra)) t \<and>
     prices_official t \<and> policies_official t \<and> (\<forall>q \<in> set (rows (keys t)). allowed_official q)"
proof -
  let ?K = "set (rows (keys s))" and ?R = "rows (models s)"
  let ?items = "map seed_model CodexModelIDs"
  have ids: "map m_ModelID ?items = CodexModelIDs" by (simp add: seed_model_def comp_def)
  obtain s1 where seed: "for_each (\<lambda>item.
        bind_op (on_models (select_rows (\<lambda>m. m_ModelID m = m_ModelID item))) (\<lambda>found.
          if found \<noteq> [] then ok () else bind_op (repo_UpsertModel item) (\<lambda>_. ok ()))) ?items s = (Inr (), s1)"
    and prune: "pruneGatewayModels CodexModelIDs CodexModelIDSet s1 = (Inr (), t)"
    using assms(2) unfolding gateway_EnsureDefaultModels_def repo_EnsureDefaultModels_def Let_def ids
      CodexModelIDSet_eq by (auto elim!: bind_op_InrE)
  have items: "m_ModelID x \<in> CodexModelIDSet" if "?items = ys @ x # zs" for ys x zs
  proof -
    have "x \<in> set ?items" unfolding that by simp
    then show ?thesis by (auto simp: seed_model_def CodexModelIDSet_eq)
  qed
  have start: "seeded ?K ?R [] s" using keys_from_start [OF assms(1)] by (simp add: seeded_def)
  have loop: "post (seeded ?K ?R []) (for_each (\<lambda>item.
        bind_op (on_models (select_rows (\<lambda>m. m_ModelID m = m_ModelID item))) (\<lambda>found.
          if found \<noteq> [] then ok () else bind_op (repo_UpsertModel item) (\<lambda>_. ok ()))) ?items)
      (either (\<lambda>_ _. True) (\<lambda>_. seeded ?K ?R ?items))"
    by (rule post_for_each, rule post_seed_one) (erule items)
  have "either (\<lambda>_ _. True) (\<lambda>_. seeded ?K ?R ?items) (Inr ()) s1"
    by (rule postD [OF loop start seed])
  then have s1: "seeded ?K ?R ?items s1" by simp
  then obtain extra where extra: "rows (models s1) = ?R @ extra" "\<forall>m \<in> set extra. m_ModelID m \<in> CodexModelIDSet"
    by (auto simp: seeded_def)
  have cover: "CodexModelIDSet \<subseteq> m_ModelID ` set (rows (models s1))"
    using s1 by (auto simp: seeded_def CodexModelIDSet_eq seed_model_def)
  have "pruning ?K (?R @ extra) s1" using s1 extra by (simp add: pruning_def seeded_def)
  moreover have "inj_on m_ID (set (?R @ extra))"
  proof -
    have "tbl_ok m_ID model_clash model_valid (models s1)"
      using s1 by (intro model_tbl.store_okD) (simp add: seeded_def keys_from_def)
    then have "inj_on m_ID (set (rows (models s1)))" unfolding tbl_ok_def distinct_map by blast
    then show ?thesis unfolding extra(1) .
  qed
  ultimately have "either (\<lambda>_ _. True) (\<lambda>_ s. pruning ?K (filter (\<lambda>m. m_ModelID m \<in> CodexModelIDSet) (?R @ extra)) s \<and>
        prices_official s \<and> policies_official s \<and> (\<forall>q \<in> set (rows (keys s)). allowed_official q)) (Inr ()) t"
    using postD [OF post_pruneGatewayModels _ prune] by blast
  then show ?thesis using extra(2) cover unfolding extra(1) by auto
qed

section \<open>Samples\<close>

text \<open>A store with one key that may use a retired model only.\<close>

definition retired_key :: api_key_row where
  "retired_key =
     \<lparr>k_id = 1, k_owner_user_id = None, k_name = ''legacy'', k_key_hash = ''h'', k_plain_key = ''ogw_legacy_x'',
      k_key_prefix = ''ogw_legacy_x'', k_key_last4 = ''cy_x'', k_disabled = False, k_upstream_strategy = '''',
      k_default_reasoning_effort = '''', k_quotas = sample_quotas, k_allowed_models = [''gpt-4''],
      k_last_used_at = None, k_created_at = 0, k_updated_at = 0\<rparr>"

definition retired_store :: store where
  "retired_store = (fresh_store (\<lambda>_. 0))\<lparr>keys := \<lparr>rows = [retired_key], seq = 1\<rparr>\<rparr>"

lemma retired_store_ok: "store_ok retired_store"
  by code_simp

lemma retired_started: "gateway_EnsureDefaultModels retired_store = (Inr (), snd (gateway_EnsureDefaultModels retired_store))"
proof -
  have "fst (gateway_EnsureDefaultModels retired_store) = Inr ()" by code_simp
  then show ?thesis by (simp add: prod_eq_iff)
qed

section \<open>Properties\<close>

text \<open>
  C17. After a successful start-up the model table holds exactly the official models, those that
  were there before unchanged (a disabled one stays disabled); prices and policies of other
  models are gone; and every key keeps exactly the official part of its allowed models.
\<close>

theorem startup_catalogue:
  assumes "store_ok s" "gateway_EnsureDefaultModels s = (Inr (), t)"
  shows "m_ModelID ` set (rows (models t)) = CodexModelIDSet \<and>
     (\<forall>m \<in> set (rows (models s)). m_ModelID m \<in> CodexModelIDSet \<longrightarrow> m \<in> set (rows (models t))) \<and>
     prices_official t \<and> policies_official t \<and>
     k_id ` set (rows (keys t)) = k_id ` set (rows (keys s)) \<and>
     (\<forall>r \<in> set (rows (keys t)). \<exists>k \<in> set (rows (keys s)). k_id r = k_id k \<and> k_key_hash r = k_key_hash k \<and>
        normalizeStringList (k_allowed_models r) = official_part (k_allowed_models k))"
proof -
  obtain extra where extra: "\<forall>m \<in> set extra. m_ModelID m \<in> CodexModelIDSet"
    "CodexModelIDSet \<subseteq> m_ModelID ` set (rows (models s) @ extra)"
    and t: "pruning (set (rows (keys s)))
       (filter (\<lambda>m. m_ModelID m \<in> CodexModelIDSet) (rows (models s) @ extra)) t"
      "prices_official t" "policies_official t" "\<forall>q \<in> set (rows (keys t)). allowed_official q"
    using post_EnsureDefaultModels [OF assms] by blast
  have models: "rows (models t) = filter (\<lambda>m. m_ModelID m \<in> CodexModelIDSet) (rows (models s) @ extra)"
    using t(1) by (simp add: pruning_def)
  have "\<exists>k \<in> set (rows (keys s)). k_id r = k_id k \<and> k_key_hash r = k_key_hash k \<and>
        normalizeStringList (k_allowed_models r) = official_part (k_allowed_models k)"
    if r: "r \<in> set (rows (keys t))" for r
  proof -
    obtain k u where k: "k \<in> set (rows (keys s))"
      "r = k\<lparr>k_allowed_models := k_allowed_models r, k_updated_at := u\<rparr>"
      "official_part (k_allowed_models r) = official_part (k_allowed_models k)"
      using t(1) r unfolding pruning_def keys_from_def key_origin_def by metis
    have "k_id r = k_id k" "k_key_hash r = k_key_hash k" by (subst k(2), simp)+
    moreover have "official_part (k_allowed_models r) = normalizeStringList (k_allowed_models r)"
      using t(4) r by (auto simp: official_part_def allowed_official_def filter_id_conv)
    ultimately show ?thesis using k(1,3) by metis
  qed
  moreover have "m_ModelID ` set (rows (models t)) = CodexModelIDSet"
    using extra unfolding models by auto
  ultimately show ?thesis using t models by (auto simp: pruning_def keys_from_def)
qed

lemma startup_catalogue_witness:
  "m_ModelID ` set (rows (models (snd (gateway_EnsureDefaultModels retired_store)))) = CodexModelIDSet"
  using startup_catalogue [OF retired_store_ok retired_started] by blast

text \<open>
  C16. Who may use a model: an empty model name passes every check; another one must be official,
  enabled when the table has it, and among the key's allowed models unless that list is empty.
\<close>

theorem model_access_exact:
  assumes "store_ok s"
  shows "fst (gateway_ValidateModelAccess key modelID s) =
    (if TrimSpace modelID = '''' then Inr ()
     else if TrimSpace modelID \<notin> CodexModelIDSet then Inl ErrGatewayModelDisabled
     else if fault s (stmts s) then Inl DBFailed
     else if \<exists>m. store_model_at s (TrimSpace modelID) = Some m \<and> \<not> m_Enabled m then Inl ErrGatewayModelDisabled
     else if \<exists>k. key = Some k \<and> key_AllowedModels k \<noteq> [] \<and>
                  TrimSpace modelID \<notin> TrimSpace ` set (key_AllowedModels k) then Inl ErrGatewayModelNotAllowed
     else Inr ())"
proof (cases "TrimSpace modelID = ''''")
  case True
  then show ?thesis by (simp add: gateway_ValidateModelAccess_def ValidateModelAccess_def)
next
  case False
  then show ?thesis
    unfolding gateway_ValidateModelAccess_def gateway_models.access_exact [OF assms False] by simp
qed

lemma model_access_exact_witness:
  "fst (gateway_ValidateModelAccess (Some (mapGatewayAPIKey retired_key)) ''gpt-5.5'' retired_store) =
     Inl ErrGatewayModelNotAllowed"
proof -
  have "TrimSpace ''gpt-5.5'' = ''gpt-5.5''" "''gpt-5.5'' \<in> CodexModelIDSet"
    "\<not> fault retired_store (stmts retired_store)" "store_model_at retired_store ''gpt-5.5'' = None"
    "key_AllowedModels (mapGatewayAPIKey retired_key) = [''gpt-4'']" "TrimSpace ''gpt-4'' = ''gpt-4''"
    by code_simp+
  then show ?thesis using model_access_exact [OF retired_store_ok] by simp
qed

text \<open>
  C18. A key that was restricted to models which are no longer official becomes unrestricted at
  start-up: its list of allowed models is emptied, and an empty list allows every enabled model.
\<close>

theorem retired_models_unrestrict_key:
  assumes "store_ok s" "gateway_EnsureDefaultModels s = (Inr (), t)"
    and "k \<in> set (rows (keys s))" "official_part (k_allowed_models k) = []"
    and "\<not> fault t (stmts t)" "m \<in> set (rows (models t))" "m_Enabled m"
  shows "\<exists>r \<in> set (rows (keys t)). k_id r = k_id k \<and>
     fst (gateway_ValidateModelAccess (Some (mapGatewayAPIKey r)) (m_ModelID m) t) = Inr ()"
proof -
  obtain extra where t: "pruning (set (rows (keys s)))
       (filter (\<lambda>m. m_ModelID m \<in> CodexModelIDSet) (rows (models s) @ extra)) t"
    and allowed: "\<forall>q \<in> set (rows (keys t)). allowed_official q"
    using post_EnsureDefaultModels [OF assms(1,2)] by blast
  have ok: "store_ok t" and inj: "inj_on k_id (set (rows (keys s)))"
    and ids: "k_id ` set (rows (keys t)) = k_id ` set (rows (keys s))"
    using t by (simp_all add: pruning_def keys_from_def)
  have "k_id k \<in> k_id ` set (rows (keys t))" unfolding ids by (rule imageI [OF assms(3)])
  then obtain r where r: "r \<in> set (rows (keys t))" "k_id r = k_id k" by auto
  obtain k' where k': "k' \<in> set (rows (keys s))" "k_id k' = k_id r"
    "official_part (k_allowed_models r) = official_part (k_allowed_models k')"
  proof -
    have "key_origin (set (rows (keys s))) r" using t r by (simp add: pruning_def keys_from_def)
    then obtain k' u where k': "k' \<in> set (rows (keys s))"
      "r = k'\<lparr>k_allowed_models := k_allowed_models r, k_updated_at := u\<rparr>"
      "official_part (k_allowed_models r) = official_part (k_allowed_models k')"
      unfolding key_origin_def by blast
    have "k_id r = k_id k'" by (subst k'(2)) simp
    then show ?thesis using that k'(1,3) by metis
  qed
  then have "k' = k" using inj assms(3) r(2) by (simp add: inj_onD)
  then have "official_part (k_allowed_models r) = []" using k'(3) assms(4) by simp
  moreover have "official_part (k_allowed_models r) = normalizeStringList (k_allowed_models r)"
    using allowed r(1) by (auto simp: official_part_def allowed_official_def filter_id_conv)
  ultimately have open_key: "key_AllowedModels (mapGatewayAPIKey r) = []"
    by (simp add: mapGatewayAPIKey_def Let_def)
  have m: "m_ModelID m \<in> CodexModelIDSet" using t assms(6) by (auto simp: pruning_def)
  have "store_model_at t (m_ModelID m) = Some m"
  proof -
    have "store_model_at t (m_ModelID m) \<noteq> None"
      unfolding store_model_at_def find_None_iff using assms(6) by blast
    then obtain q where q: "store_model_at t (m_ModelID m) = Some q" by blast
    then have "q \<in> set (rows (models t))" "m_ModelID q = m_ModelID m"
      by (auto simp: store_model_at_def find_Some_iff)
    then show ?thesis
      using q assms(6) model_tbl.store_okD [OF ok] tbl_ok_unique [of m_ID model_clash model_valid "models t" q m]
        tbl_ok_same [of m_ID model_clash model_valid "models t" q m] by (simp add: model_clash_def)
  qed
  then have "fst (gateway_ValidateModelAccess (Some (mapGatewayAPIKey r)) (m_ModelID m) t) = Inr ()"
    using gateway_models.access_exact [OF ok, of "m_ModelID m" "Some (mapGatewayAPIKey r)"]
      official_trimmed [OF m] m assms(5,7) open_key
    by (simp add: gateway_ValidateModelAccess_def)
  then show ?thesis using r by blast
qed

lemma retired_models_unrestrict_key_witness:
  "\<exists>r. fst (gateway_ValidateModelAccess (Some (mapGatewayAPIKey r)) ''gpt-5.5''
     (snd (gateway_EnsureDefaultModels retired_store))) = Inr ()"
proof -
  let ?t = "snd (gateway_EnsureDefaultModels retired_store)"
  have k: "retired_key \<in> set (rows (keys retired_store))" "official_part (k_allowed_models retired_key) = []"
    "\<not> fault ?t (stmts ?t)"
    by code_simp+
  have "m_ModelID (rows (models ?t) ! 3) = ''gpt-5.5'' \<and> m_Enabled (rows (models ?t) ! 3) \<and> 3 < length (rows (models ?t))"
    by code_simp
  then show ?thesis
    using retired_models_unrestrict_key [OF retired_store_ok retired_started k, of "rows (models ?t) ! 3"]
    by fastforce
qed

end
