(* ===== verification/UsageRepo.thy ===== *)
theory UsageRepo
  imports ModelRepo Diagnostics
begin

text \<open>
  Usage metering in the repository (internal/data/gateway\_repo.go): writing a usage log, the
  filters of the queries, as ent predicates and as SQL text with its arguments, the aggregates
  computed by the database, and the cost estimates. Prices and costs are rational. An aggregate
  that does not fit an int64 makes \<open>Scan\<close> fail, as it does in Go.
\<close>

record GatewayUsageLog =
  l_ID :: int
  l_APIKeyID :: int
  l_APIKeyPrefix :: string
  l_ClientType :: string
  l_ClientIP :: string
  l_APIKeyName :: string
  l_SessionID :: string
  l_RequestID :: string
  l_Method :: string
  l_Path :: string
  l_Endpoint :: string
  l_Model :: string
  l_ReasoningEffort :: string
  l_StatusCode :: int
  l_Success :: bool
  l_Stream :: bool
  l_InputTokens :: int
  l_OutputTokens :: int
  l_TotalTokens :: int
  l_CachedTokens :: int
  l_ReasoningTokens :: int
  l_RequestBytes :: int
  l_ResponseBytes :: int
  l_DurationMS :: int
  l_UpstreamConfiguredMode :: string
  l_UpstreamMode :: string
  l_UpstreamFallback :: bool
  l_UpstreamErrorType :: string
  l_ErrorType :: string
  l_Diagnostic :: GatewayUsageDiagnostic
  l_CreatedAt :: int
  l_EstimatedCostUSD :: "rat option"

text \<open>The row a log is written to; \<open>now\<close> is the column's default when the log has no time.\<close>

definition usage_row_of :: "GatewayUsageLog \<Rightarrow> int \<Rightarrow> int \<Rightarrow> usage_row" where
  "usage_row_of item now i =
     \<lparr>u_id = i, u_api_key_id = (if l_APIKeyID item > 0 then Some (l_APIKeyID item) else None),
      u_api_key_prefix = l_APIKeyPrefix item, u_client_type = l_ClientType item,
      u_client_ip = l_ClientIP item, u_session_id = l_SessionID item, u_request_id = l_RequestID item,
      u_method = l_Method item, u_path = l_Path item, u_endpoint = l_Endpoint item,
      u_model = l_Model item, u_reasoning_effort = l_ReasoningEffort item,
      u_status_code = l_StatusCode item, u_success = l_Success item, u_stream = l_Stream item,
      u_input_tokens = l_InputTokens item, u_output_tokens = l_OutputTokens item,
      u_total_tokens = l_TotalTokens item, u_cached_tokens = l_CachedTokens item,
      u_reasoning_tokens = l_ReasoningTokens item, u_request_bytes = l_RequestBytes item,
      u_response_bytes = l_ResponseBytes item, u_duration_ms = l_DurationMS item,
      u_upstream_configured_mode = l_UpstreamConfiguredMode item, u_upstream_mode = l_UpstreamMode item,
      u_upstream_fallback = l_UpstreamFallback item, u_upstream_error_type = l_UpstreamErrorType item,
      u_diagnostic = mapGatewayUsageDiagnosticForDB (l_Diagnostic item), u_error_type = l_ErrorType item,
      u_created_at = (if IsZero (l_CreatedAt item) then now else l_CreatedAt item)\<rparr>"

definition repo_CreateUsageLog :: "GatewayUsageLog \<Rightarrow> (store, unit) op" where
  "repo_CreateUsageLog item =
     bind_op time_now (\<lambda>now.
     checked (usage_valid (usage_row_of item now 0))
       (bind_op (on_usage (insert_row no_clash (usage_row_of item now))) (\<lambda>_. ok ())))"

text \<open>
  The column read back: its numbers are float64 (\<open>float_round\<close>, \<open>fmt\<close> as in \<open>Diagnostics\<close>).
\<close>

definition mapGatewayUsageLog :: "(rat \<Rightarrow> string) \<Rightarrow> (int \<Rightarrow> rat) \<Rightarrow> usage_row \<Rightarrow> GatewayUsageLog" where
  "mapGatewayUsageLog fmt float_round r =
     \<lparr>l_ID = u_id r, l_APIKeyID = (case u_api_key_id r of None \<Rightarrow> 0 | Some k \<Rightarrow> k),
      l_APIKeyPrefix = u_api_key_prefix r, l_ClientType = u_client_type r, l_ClientIP = u_client_ip r,
      l_APIKeyName = '''', l_SessionID = u_session_id r, l_RequestID = u_request_id r,
      l_Method = u_method r, l_Path = u_path r, l_Endpoint = u_endpoint r, l_Model = u_model r,
      l_ReasoningEffort = u_reasoning_effort r, l_StatusCode = u_status_code r,
      l_Success = u_success r, l_Stream = u_stream r, l_InputTokens = u_input_tokens r,
      l_OutputTokens = u_output_tokens r, l_TotalTokens = u_total_tokens r,
      l_CachedTokens = u_cached_tokens r, l_ReasoningTokens = u_reasoning_tokens r,
      l_RequestBytes = u_request_bytes r, l_ResponseBytes = u_response_bytes r,
      l_DurationMS = u_duration_ms r, l_UpstreamConfiguredMode = u_upstream_configured_mode r,
      l_UpstreamMode = u_upstream_mode r, l_UpstreamFallback = u_upstream_fallback r,
      l_UpstreamErrorType = u_upstream_error_type r, l_ErrorType = u_error_type r,
      l_Diagnostic = mapGatewayUsageDiagnosticFromDB fmt (json_column float_round (u_diagnostic r)),
      l_CreatedAt = u_created_at r, l_EstimatedCostUSD = None\<rparr>"

section \<open>Filters\<close>

record GatewayUsageFilter =
  f_Limit :: int
  f_Offset :: int
  f_KeyID :: int
  f_KeyIDs :: "int list"
  f_ClientType :: string
  f_ClientIP :: string
  f_OwnerUserID :: int
  f_SessionID :: string
  f_Model :: string
  f_ReasoningEffort :: string
  f_Endpoint :: string
  f_UpstreamMode :: string
  f_UpstreamErrorType :: string
  f_ErrorType :: string
  f_ExcludeErrorType :: string
  f_StatusCode :: int
  f_SuccessSet :: bool
  f_Success :: bool
  f_StartTime :: int
  f_EndTime :: int

definition no_filter :: GatewayUsageFilter where
  "no_filter =
     \<lparr>f_Limit = 0, f_Offset = 0, f_KeyID = 0, f_KeyIDs = [], f_ClientType = '''', f_ClientIP = '''',
      f_OwnerUserID = 0, f_SessionID = '''', f_Model = '''', f_ReasoningEffort = '''', f_Endpoint = '''',
      f_UpstreamMode = '''', f_UpstreamErrorType = '''', f_ErrorType = '''', f_ExcludeErrorType = '''',
      f_StatusCode = 0, f_SuccessSet = False, f_Success = False, f_StartTime = zero_time, f_EndTime = zero_time\<rparr>"

datatype text_col =
    ColSessionID | ColClientType | ColClientIP | ColModel | ColReasoningEffort | ColEndpoint
  | ColUpstreamMode | ColErrorType | ColUpstreamErrorType

fun col_name :: "text_col \<Rightarrow> string" where
  "col_name ColSessionID = ''session_id''"
| "col_name ColClientType = ''client_type''"
| "col_name ColClientIP = ''client_ip''"
| "col_name ColModel = ''model''"
| "col_name ColReasoningEffort = ''reasoning_effort''"
| "col_name ColEndpoint = ''endpoint''"
| "col_name ColUpstreamMode = ''upstream_mode''"
| "col_name ColErrorType = ''error_type''"
| "col_name ColUpstreamErrorType = ''upstream_error_type''"

fun col_value :: "text_col \<Rightarrow> usage_row \<Rightarrow> string" where
  "col_value ColSessionID r = u_session_id r"
| "col_value ColClientType r = u_client_type r"
| "col_value ColClientIP r = u_client_ip r"
| "col_value ColModel r = u_model r"
| "col_value ColReasoningEffort r = u_reasoning_effort r"
| "col_value ColEndpoint r = u_endpoint r"
| "col_value ColUpstreamMode r = u_upstream_mode r"
| "col_value ColErrorType r = u_error_type r"
| "col_value ColUpstreamErrorType r = u_upstream_error_type r"

datatype usage_cond =
    CondKeyIn "int list"
  | CondKeyEq int
  | CondOwner int
  | CondEq text_col string
  | CondNeq text_col string
  | CondStatus int
  | CondSuccess bool
  | CondFrom int
  | CondBefore int

definition cond_text :: "text_col \<Rightarrow> string \<Rightarrow> usage_cond list" where
  "cond_text c v = (if v \<noteq> '''' then [CondEq c v] else [])"

text \<open>The conditions of buildUsageWhereClauseWithPrefix, in its order.\<close>

definition key_conds :: "GatewayUsageFilter \<Rightarrow> usage_cond list" where
  "key_conds f =
     (if f_KeyIDs f \<noteq> [] then [CondKeyIn (f_KeyIDs f)]
      else if f_KeyID f > 0 then [CondKeyEq (f_KeyID f)] else [])"

definition field_conds :: "GatewayUsageFilter \<Rightarrow> usage_cond list" where
  "field_conds f =
     cond_text ColSessionID (f_SessionID f) @
     cond_text ColClientType (f_ClientType f) @
     cond_text ColClientIP (f_ClientIP f) @
     cond_text ColModel (f_Model f) @
     cond_text ColReasoningEffort (f_ReasoningEffort f) @
     cond_text ColEndpoint (f_Endpoint f) @
     cond_text ColUpstreamMode (f_UpstreamMode f) @
     (if f_ErrorType f \<noteq> '''' then [CondEq ColErrorType (f_ErrorType f)]
      else cond_text ColUpstreamErrorType (f_UpstreamErrorType f)) @
     (if f_ExcludeErrorType f \<noteq> '''' then [CondNeq ColErrorType (f_ExcludeErrorType f)] else []) @
     (if f_StatusCode f > 0 then [CondStatus (f_StatusCode f)] else []) @
     (if f_SuccessSet f then [CondSuccess (f_Success f)] else []) @
     (if \<not> IsZero (f_StartTime f) then [CondFrom (f_StartTime f)] else []) @
     (if \<not> IsZero (f_EndTime f) then [CondBefore (f_EndTime f)] else [])"

definition usage_conds :: "GatewayUsageFilter \<Rightarrow> usage_cond list" where
  "usage_conds f =
     key_conds f @ (if f_OwnerUserID f > 0 then [CondOwner (f_OwnerUserID f)] else []) @ field_conds f"

text \<open>
  What the conditions mean: a comparison with a null key id is not true; the owner's keys are
  looked up in the key table.
\<close>

fun cond_holds :: "api_key_row list \<Rightarrow> usage_cond \<Rightarrow> usage_row \<Rightarrow> bool" where
  "cond_holds ks (CondKeyIn ids) r = (case u_api_key_id r of None \<Rightarrow> False | Some k \<Rightarrow> k \<in> set ids)"
| "cond_holds ks (CondKeyEq i) r = (u_api_key_id r = Some i)"
| "cond_holds ks (CondOwner owner) r =
     (case u_api_key_id r of None \<Rightarrow> False
      | Some k \<Rightarrow> \<exists>key \<in> set ks. k_id key = k \<and> k_owner_user_id key = Some owner)"
| "cond_holds ks (CondEq c v) r = (col_value c r = v)"
| "cond_holds ks (CondNeq c v) r = (col_value c r \<noteq> v)"
| "cond_holds ks (CondStatus i) r = (u_status_code r = i)"
| "cond_holds ks (CondSuccess b) r = (u_success r = b)"
| "cond_holds ks (CondFrom t) r = (t \<le> u_created_at r)"
| "cond_holds ks (CondBefore t) r = (u_created_at r < t)"

definition conds_hold :: "api_key_row list \<Rightarrow> usage_cond list \<Rightarrow> usage_row \<Rightarrow> bool" where
  "conds_hold ks cs r = (\<forall>c \<in> set cs. cond_holds ks c r)"

text \<open>The text of the clause and its arguments; \<open>n\<close> arguments are in use already.\<close>

datatype sql_arg = ArgInt int | ArgStr string | ArgBool bool | ArgTime int

definition dollar :: "nat \<Rightarrow> string" where
  "dollar n = ''$'' @ nat_digits n"

fun render_cond :: "string \<Rightarrow> nat \<Rightarrow> usage_cond \<Rightarrow> string \<times> sql_arg list" where
  "render_cond p n (CondKeyIn ids) =
     (p @ ''api_key_id IN ('' @ join_with '', '' (map (\<lambda>k. dollar (n + 1 + k)) [0..<length ids]) @ '')'',
      map ArgInt ids)"
| "render_cond p n (CondKeyEq i) = (p @ ''api_key_id = '' @ dollar (n + 1), [ArgInt i])"
| "render_cond p n (CondOwner owner) =
     (p @ ''api_key_id IN (SELECT id FROM gateway_api_keys WHERE owner_user_id = '' @ dollar (n + 1) @ '')'',
      [ArgInt owner])"
| "render_cond p n (CondEq c v) = (p @ col_name c @ '' = '' @ dollar (n + 1), [ArgStr v])"
| "render_cond p n (CondNeq c v) = (p @ col_name c @ '' <> '' @ dollar (n + 1), [ArgStr v])"
| "render_cond p n (CondStatus i) = (p @ ''status_code = '' @ dollar (n + 1), [ArgInt i])"
| "render_cond p n (CondSuccess b) = (p @ ''success = '' @ dollar (n + 1), [ArgBool b])"
| "render_cond p n (CondFrom t) = (p @ ''created_at >= '' @ dollar (n + 1), [ArgTime t])"
| "render_cond p n (CondBefore t) = (p @ ''created_at < '' @ dollar (n + 1), [ArgTime t])"

fun render_conds :: "string \<Rightarrow> nat \<Rightarrow> usage_cond list \<Rightarrow> string list \<times> sql_arg list" where
  "render_conds p n [] = ([], [])"
| "render_conds p n (c # cs) =
     (let (t, a) = render_cond p n c; (ts, as) = render_conds p (n + length a) cs
      in (t # ts, a @ as))"

definition buildUsageWhereClauseWithPrefix :: "GatewayUsageFilter \<Rightarrow> string \<Rightarrow> string \<times> sql_arg list" where
  "buildUsageWhereClauseWithPrefix f p =
     (let (conditions, args) = render_conds p 0 (usage_conds f)
      in if conditions = [] then ('''', args)
         else ('' WHERE '' @ join_with '' AND '' conditions, args))"

definition buildUsageWhereClause :: "GatewayUsageFilter \<Rightarrow> string \<times> sql_arg list" where
  "buildUsageWhereClause f = buildUsageWhereClauseWithPrefix f ''''"

section \<open>Aggregates\<close>

text \<open>The aggregated columns, which summaries, buckets, key and session summaries share.\<close>

record usage_totals =
  TotalRequests :: int
  SuccessRequests :: int
  FailedRequests :: int
  ClientCanceled :: int
  TotalTokens :: int
  InputTokens :: int
  OutputTokens :: int
  CachedTokens :: int
  ReasoningTokens :: int
  TotalBytesIn :: int
  TotalBytesOut :: int
  AverageDurationMS :: int
  BackendRequests :: int
  CLIRequests :: int
  FallbackRequests :: int
  CodexRequests :: int
  OpenCodeRequests :: int
  OtherRequests :: int

definition count_if :: "('a \<Rightarrow> bool) \<Rightarrow> 'a list \<Rightarrow> int" where
  "count_if P xs = int (length (filter P xs))"

definition sum_of :: "('a \<Rightarrow> int) \<Rightarrow> 'a list \<Rightarrow> int" where
  "sum_of f xs = sum_list (map f xs)"

text \<open>\<open>COALESCE(AVG(x)::bigint, 0)\<close>: the cast rounds half away from zero.\<close>

definition avg_bigint :: "('a \<Rightarrow> int) \<Rightarrow> 'a list \<Rightarrow> int" where
  "avg_bigint f xs =
     (if xs = [] then 0
      else let n = int (length xs); t = sum_of f xs
           in if t \<ge> 0 then (2 * t + n) div (2 * n) else - ((- 2 * t + n) div (2 * n)))"

definition totals :: "usage_row list \<Rightarrow> usage_totals" where
  "totals rs =
     \<lparr>TotalRequests = int (length rs),
      SuccessRequests = count_if u_success rs,
      FailedRequests = count_if (\<lambda>r. \<not> u_success r \<and> u_error_type r \<noteq> ''client_canceled'') rs,
      ClientCanceled = count_if (\<lambda>r. u_error_type r = ''client_canceled'') rs,
      TotalTokens = sum_of u_total_tokens rs,
      InputTokens = sum_of u_input_tokens rs,
      OutputTokens = sum_of u_output_tokens rs,
      CachedTokens = sum_of u_cached_tokens rs,
      ReasoningTokens = sum_of u_reasoning_tokens rs,
      TotalBytesIn = sum_of u_request_bytes rs,
      TotalBytesOut = sum_of u_response_bytes rs,
      AverageDurationMS = avg_bigint u_duration_ms rs,
      BackendRequests = count_if (\<lambda>r. u_upstream_mode r = ''codex_backend'') rs,
      CLIRequests = count_if (\<lambda>r. u_upstream_mode r = ''codex_cli'') rs,
      FallbackRequests = count_if u_upstream_fallback rs,
      CodexRequests = count_if (\<lambda>r. u_client_type r = ''codex'') rs,
      OpenCodeRequests = count_if (\<lambda>r. u_client_type r = ''opencode'') rs,
      OtherRequests = count_if (\<lambda>r. u_client_type r \<notin> {''codex'', ''opencode''}) rs\<rparr>"

definition fits_int64 :: "int \<Rightarrow> bool" where
  "fits_int64 i = (min_int64 \<le> i \<and> i \<le> max_int64)"

definition totals_fit :: "usage_totals \<Rightarrow> bool" where
  "totals_fit t =
     (\<forall>i \<in> set [TotalRequests t, SuccessRequests t, FailedRequests t, ClientCanceled t, TotalTokens t,
        InputTokens t, OutputTokens t, CachedTokens t, ReasoningTokens t, TotalBytesIn t, TotalBytesOut t,
        AverageDurationMS t, BackendRequests t, CLIRequests t, FallbackRequests t, CodexRequests t,
        OpenCodeRequests t, OtherRequests t]. fits_int64 i)"

definition scan_totals :: "usage_totals \<Rightarrow> usage_totals result" where
  "scan_totals t = (if totals_fit t then Inr t else Inl (ErrText ''sql: Scan error''))"

text \<open>A raw query on the usage table; the owner condition reads the key table as well.\<close>

definition query_usage :: "usage_cond list \<Rightarrow> (store, usage_row list) op" where
  "query_usage cs = db_stmt (\<lambda>s. (Inr (filter (conds_hold (rows (keys s)) cs) (rows (usage s))), s))"

section \<open>Cost\<close>

definition listModelPriceMap :: "(store, string \<rightharpoonup> GatewayModelPrice) op" where
  "listModelPriceMap =
     bind_op repo_ListModelPrices (\<lambda>list.
       ok (fold (\<lambda>item out. out(pr_ModelID item \<mapsto> item)) list OfficialModelPriceMap))"

definition maxInt64 :: "int \<Rightarrow> int \<Rightarrow> int" where
  "maxInt64 v lo = (if v < lo then lo else v)"

definition estimateCostForTokens :: "int \<Rightarrow> int \<Rightarrow> int \<Rightarrow> GatewayModelPrice \<Rightarrow> rat" where
  "estimateCostForTokens inputTokens cachedTokens outputTokens price =
     (let cached = min (of_int (maxInt64 cachedTokens 0)) (of_int (maxInt64 inputTokens 0));
          nonCached = max (of_int inputTokens - cached) 0;
          output = max (of_int outputTokens) 0
      in (nonCached * InputUSDPerMillion price + cached * CachedInputUSDPerMillion price +
          output * OutputUSDPerMillion price) / 1000000)"

text \<open>One line of the cost queries: a model with its summed tokens.\<close>

definition model_sums :: "usage_row list \<Rightarrow> (string \<times> int \<times> int \<times> int) list" where
  "model_sums rs =
     map (\<lambda>m. let g = filter (\<lambda>r. u_model r = m) rs
              in (m, sum_of u_input_tokens g, sum_of u_cached_tokens g, sum_of u_output_tokens g))
       (remdups (map u_model rs))"

text \<open>
  The loop of estimateUsageCost: \<open>None\<close> is the nil it returns on a scan error or a missing price.
\<close>

fun cost_loop :: "(string \<rightharpoonup> GatewayModelPrice) \<Rightarrow> (string \<times> int \<times> int \<times> int) list \<Rightarrow> rat \<Rightarrow> rat option" where
  "cost_loop ps [] acc = Some acc"
| "cost_loop ps ((m, i, c, out) # gs) acc =
     (if \<not> (fits_int64 i \<and> fits_int64 c \<and> fits_int64 out) then None
      else if i \<le> 0 \<and> c \<le> 0 \<and> out \<le> 0 then cost_loop ps gs acc
      else case ps m of
             None \<Rightarrow> None
           | Some price \<Rightarrow> cost_loop ps gs (acc + estimateCostForTokens i c out price))"

definition estimateUsageCost :: "usage_cond list \<Rightarrow> (store, rat option) op" where
  "estimateUsageCost cs =
     try_op listModelPriceMap (\<lambda>r. case r of
       Inl _ \<Rightarrow> ok None
     | Inr ps \<Rightarrow> try_op (query_usage cs) (\<lambda>q. case q of
         Inl _ \<Rightarrow> ok None
       | Inr rs \<Rightarrow> ok (cost_loop ps (model_sums rs) 0)))"

section \<open>The queries\<close>

record GatewayUsageSummary =
  su_Totals :: usage_totals
  su_EstimatedCostUSD :: "rat option"

definition repo_SummarizeUsage :: "GatewayUsageFilter \<Rightarrow> (store, GatewayUsageSummary) op" where
  "repo_SummarizeUsage f =
     bind_op (query_usage (usage_conds f)) (\<lambda>rs.
     bind_op (from_result (scan_totals (totals rs))) (\<lambda>t.
     bind_op (estimateUsageCost (usage_conds f)) (\<lambda>cost.
       ok \<lparr>su_Totals = t, su_EstimatedCostUSD = cost\<rparr>)))"

text \<open>
  The ent version of the filter. The keys of an owner are looked up first; when that lookup
  fails, the owner is not restricted at all.
\<close>

definition applyUsageFilter :: "GatewayUsageFilter \<Rightarrow> (store, usage_row \<Rightarrow> bool) op" where
  "applyUsageFilter f =
     (let cs = usage_conds (f\<lparr>f_OwnerUserID := 0\<rparr>)
      in if f_OwnerUserID f > 0
         then try_op (on_keys (select_rows (\<lambda>k. k_owner_user_id k = Some (f_OwnerUserID f)))) (\<lambda>r.
                ok (case r of
                      Inl _ \<Rightarrow> conds_hold [] cs
                    | Inr ks \<Rightarrow>
                        (let owned = (if ks = [] then CondKeyEq (-1) else CondKeyIn (map k_id ks))
                         in conds_hold [] (owned # cs))))
         else ok (conds_hold [] cs))"

definition attachUsageKeyNames :: "GatewayUsageLog list \<Rightarrow> (store, GatewayUsageLog list) op" where
  "attachUsageKeyNames list =
     (let ids = keep_first {} (filter (\<lambda>i. i > 0) (map l_APIKeyID list))
      in if ids = [] then ok list
         else try_op (on_keys (select_rows (\<lambda>k. k_id k \<in> set ids))) (\<lambda>r. case r of
                Inl _ \<Rightarrow> ok list
              | Inr ks \<Rightarrow>
                  ok (map (\<lambda>item.
                        if l_APIKeyID item \<le> 0 then item
                        else item\<lparr>l_APIKeyName :=
                               (case map_of (map (\<lambda>k. (k_id k, k_name k)) ks) (l_APIKeyID item) of
                                  None \<Rightarrow> '''' | Some n \<Rightarrow> n)\<rparr>) list)))"

definition attachUsageCosts :: "GatewayUsageLog list \<Rightarrow> (store, GatewayUsageLog list) op" where
  "attachUsageCosts list =
     (if list = [] then ok list
      else try_op listModelPriceMap (\<lambda>r. case r of
             Inl _ \<Rightarrow> ok list
           | Inr ps \<Rightarrow>
               ok (map (\<lambda>item. case ps (l_Model item) of
                     None \<Rightarrow> item
                   | Some price \<Rightarrow>
                       item\<lparr>l_EstimatedCostUSD := Some (estimateCostForTokens (l_InputTokens item)
                              (l_CachedTokens item) (l_OutputTokens item) price)\<rparr>) list)))"

definition repo_ListUsageLogs ::
  "(rat \<Rightarrow> string) \<Rightarrow> (int \<Rightarrow> rat) \<Rightarrow> GatewayUsageFilter \<Rightarrow> (store, GatewayUsageLog list \<times> int) op" where
  "repo_ListUsageLogs fmt float_round f =
     bind_op (applyUsageFilter f) (\<lambda>P.
     bind_op (on_usage (select_rows P)) (\<lambda>counted.
     bind_op (on_usage (select_rows P)) (\<lambda>list.
     bind_op (attachUsageKeyNames
         (map (mapGatewayUsageLog fmt float_round)
            (page (f_Limit f) (f_Offset f) (sort_key (\<lambda>r. - u_created_at r) list)))) (\<lambda>named.
     bind_op (attachUsageCosts named) (\<lambda>out.
       ok (out, int (length counted)))))))"

text \<open>
  Buckets by day: \<open>DATE_TRUNC('day', created_at)\<close> in the database's time zone \<open>dbtz\<close>. The rows are
  grouped by the column \<open>model\<close> and labelled \<open>-\<close> where it is empty.
\<close>

record GatewayUsageBucket =
  b_BucketStart :: int
  b_Model :: string
  b_Totals :: usage_totals
  b_EstimatedCostUSD :: "rat option"

definition model_label :: "string \<Rightarrow> string" where
  "model_label m = (if m = '''' then ''-'' else m)"

definition bucket_groups :: "int \<Rightarrow> bool \<Rightarrow> usage_row list \<Rightarrow> (int \<times> string \<times> usage_row list) list" where
  "bucket_groups dbtz by_model rs =
     (let key = (\<lambda>r. (day_start dbtz (u_created_at r), if by_model then u_model r else ''''))
      in map (\<lambda>k. (fst k, snd k, filter (\<lambda>r. key r = k) rs))
           (sort_key (\<lambda>(d, m). (d, model_label m)) (remdups (map key rs))))"

definition estimateUsageBucketCost :: "string \<Rightarrow> usage_totals \<Rightarrow> (store, rat option) op" where
  "estimateUsageBucketCost model t =
     (if model = '''' \<or> model = ''-'' then ok None
      else try_op listModelPriceMap (\<lambda>r. case r of
             Inl _ \<Rightarrow> ok None
           | Inr ps \<Rightarrow>
               ok (map_option (estimateCostForTokens (InputTokens t) (CachedTokens t) (OutputTokens t)) (ps model))))"

fun bucket_loop :: "GatewayUsageFilter \<Rightarrow> bool \<Rightarrow> (int \<times> string \<times> usage_row list) list \<Rightarrow>
    (store, GatewayUsageBucket list) op" where
  "bucket_loop f by_model [] = ok []"
| "bucket_loop f by_model ((start, m, g) # gs) =
     (let label = (if by_model then model_label m else '''')
      in bind_op (from_result (scan_totals (totals g))) (\<lambda>t.
         bind_op
           (if by_model then estimateUsageBucketCost label t
            else estimateUsageCost (usage_conds (f\<lparr>f_StartTime := start, f_EndTime := start + day\<rparr>)))
           (\<lambda>cost.
         bind_op (bucket_loop f by_model gs) (\<lambda>rest.
           ok (\<lparr>b_BucketStart = start, b_Model = label, b_Totals = t, b_EstimatedCostUSD = cost\<rparr> # rest)))))"

definition repo_ListUsageBuckets :: "int \<Rightarrow> GatewayUsageFilter \<Rightarrow> string \<Rightarrow> (store, GatewayUsageBucket list) op" where
  "repo_ListUsageBuckets dbtz f groupBy =
     (if groupBy \<noteq> ''day'' \<and> groupBy \<noteq> ''day_model'' then fail ErrBadParam
      else bind_op (query_usage (usage_conds f)) (\<lambda>rs.
             bucket_loop f (groupBy = ''day_model'') (bucket_groups dbtz (groupBy = ''day_model'') rs)))"

section \<open>Well-formedness\<close>

lemmas usage_row_simps = usage_row_of_def usage_valid_def no_clash_def

lemma keeps_repo_CreateUsageLog [op_keeps]: "keeps store_ok (repo_CreateUsageLog item)"
  unfolding repo_CreateUsageLog_def by (intro op_keeps usage_tbl.keeps_stmts; simp add: usage_row_simps)

text \<open>The queries only read.\<close>

lemma keeps_query_usage:
  "(\<And>s n. P s \<Longrightarrow> P (s\<lparr>stmts := n\<rparr>)) \<Longrightarrow> keeps P (query_usage cs)"
  unfolding query_usage_def by (rule keeps_db_stmt) (simp_all add: keeps_def)

lemma keeps_reads:
  assumes "\<And>s n. P s \<Longrightarrow> P (s\<lparr>stmts := n\<rparr>)" and "\<And>s. P (s\<lparr>prices := prices s\<rparr>) = P s"
  shows "keeps P repo_ListModelPrices" "keeps P listModelPriceMap" "keeps P (estimateUsageCost cs)"
    "keeps P (repo_SummarizeUsage f)"
proof -
  show prices: "keeps P repo_ListModelPrices"
    unfolding repo_ListModelPrices_def
    by (intro op_keeps price_tbl.on_tbl_keeps) (simp_all add: assms select_rows_table)
  show map: "keeps P listModelPriceMap"
    unfolding listModelPriceMap_def by (intro op_keeps prices)
  show cost: "keeps P (estimateUsageCost cs)" for cs
    unfolding estimateUsageCost_def by (intro op_keeps map keeps_query_usage assms(1))
  show "keeps P (repo_SummarizeUsage f)"
    unfolding repo_SummarizeUsage_def by (intro op_keeps cost keeps_query_usage assms(1))
qed

lemmas keeps_usage_reads [op_keeps] =
  keeps_query_usage [of store_ok, simplified] keeps_reads [of store_ok, simplified]

lemma keeps_repo_ListUsageLogs [op_keeps]: "keeps store_ok (repo_ListUsageLogs fmt float_round f)"
  unfolding repo_ListUsageLogs_def applyUsageFilter_def attachUsageKeyNames_def attachUsageCosts_def
  by (intro op_keeps key_tbl.keeps_select usage_tbl.keeps_select)

lemma keeps_bucket_loop: "keeps store_ok (bucket_loop f b gs)"
proof (induction gs)
  case Nil
  show ?case unfolding bucket_loop.simps by (rule keeps_ok)
next
  case (Cons g gs)
  obtain start m rs where g: "g = (start, m, rs)" by (cases g)
  show ?case unfolding g bucket_loop.simps estimateUsageBucketCost_def
    by (intro op_keeps Cons.IH)
qed

lemma keeps_repo_ListUsageBuckets [op_keeps]: "keeps store_ok (repo_ListUsageBuckets dbtz f groupBy)"
  unfolding repo_ListUsageBuckets_def by (intro op_keeps keeps_bucket_loop)

section \<open>Summaries\<close>

lemma totals_append:
  "TotalRequests (totals (xs @ ys)) = TotalRequests (totals xs) + TotalRequests (totals ys)"
  "TotalTokens (totals (xs @ ys)) = TotalTokens (totals xs) + TotalTokens (totals ys)"
  "InputTokens (totals (xs @ ys)) = InputTokens (totals xs) + InputTokens (totals ys)"
  "OutputTokens (totals (xs @ ys)) = OutputTokens (totals xs) + OutputTokens (totals ys)"
  "CachedTokens (totals (xs @ ys)) = CachedTokens (totals xs) + CachedTokens (totals ys)"
  by (simp_all add: totals_def sum_of_def)

text \<open>What a successful summary says, and that it only reads.\<close>

lemma SummarizeUsage_Inr:
  assumes "repo_SummarizeUsage f s = (Inr x, t)"
  shows "su_Totals x = totals (filter (conds_hold (rows (keys s)) (usage_conds f)) (rows (usage s)))"
  using assms unfolding repo_SummarizeUsage_def query_usage_def
  by (auto simp: db_stmt_Inr scan_totals_def split: if_splits elim!: bind_op_InrE)

lemma SummarizeUsage_reads:
  assumes "repo_SummarizeUsage f s = (r, t)"
  shows "usage t = usage s" "keys t = keys s" "fault t = fault s" "clock t = clock s"
  using keeps_reads(4) [of "\<lambda>x. usage x = usage s" f] keeps_reads(4) [of "\<lambda>x. keys x = keys s" f]
    keeps_reads(4) [of "\<lambda>x. fault x = fault s" f] keeps_reads(4) [of "\<lambda>x. clock x = clock s" f] assms
  by (auto simp: keeps_def dest: spec [where x = s])

text \<open>Without a failing statement, a summary whose numbers fit succeeds.\<close>

lemma cost_total: "\<exists>x t'. estimateUsageCost cs t = (Inr x, t')"
  unfolding estimateUsageCost_def try_op_def
  by (auto split: prod.splits sum.splits)

lemma SummarizeUsage_total:
  assumes "\<not> fault s (stmts s)"
    and "totals_fit (totals (filter (conds_hold (rows (keys s)) (usage_conds f)) (rows (usage s))))"
  obtains x t where "repo_SummarizeUsage f s = (Inr x, t)"
proof -
  let ?s = "s\<lparr>stmts := Suc (stmts s)\<rparr>"
  let ?rs = "filter (conds_hold (rows (keys s)) (usage_conds f)) (rows (usage s))"
  obtain c t where c: "estimateUsageCost (usage_conds f) ?s = (Inr c, t)" using cost_total by blast
  have "query_usage (usage_conds f) s = (Inr ?rs, ?s)"
    by (simp add: query_usage_def db_stmt_ok assms)
  then have "repo_SummarizeUsage f s = (Inr \<lparr>su_Totals = totals ?rs, su_EstimatedCostUSD = c\<rparr>, t)"
    using assms(2) c by (simp add: repo_SummarizeUsage_def scan_totals_def)
  then show thesis by (rule that)
qed

end
