(* ===== verification/Quota.thy ===== *)
theory Quota
  imports UsageRepo
begin

text \<open>
  Quotas and rate policies (internal/biz/gateway.go): the token limits of a key over the current
  day and week, and the policy of a key and model over the last minute, the day and the month.
  The locale \<open>usage_ledger\<close> is what the checks need of the repository: a summary of the usage
  under a filter, which reads the ledger and does not change it.
\<close>

section \<open>Token limits of a key\<close>

record gatewayAPIKeyTokenQuotaLimits =
  lim_TotalTokens :: int
  lim_InputTokens :: int
  lim_OutputTokens :: int
  lim_BillableInputTokens :: int

definition limits_enabled :: "gatewayAPIKeyTokenQuotaLimits \<Rightarrow> bool" where
  "limits_enabled l =
     (lim_TotalTokens l > 0 \<or> lim_InputTokens l > 0 \<or> lim_OutputTokens l > 0 \<or> lim_BillableInputTokens l > 0)"

definition usageBillableInputTokens :: "int \<Rightarrow> int \<Rightarrow> int" where
  "usageBillableInputTokens inputTokens cachedTokens =
     (if inputTokens \<le> 0 then 0
      else if cachedTokens \<le> 0 then inputTokens
      else if cachedTokens \<ge> inputTokens then 0
      else inputTokens - cachedTokens)"

definition limits_exceeded :: "gatewayAPIKeyTokenQuotaLimits \<Rightarrow> usage_totals \<Rightarrow> bool" where
  "limits_exceeded l t =
     (if lim_TotalTokens l > 0 \<and> TotalTokens t \<ge> lim_TotalTokens l then True
      else if lim_InputTokens l > 0 \<and> InputTokens t \<ge> lim_InputTokens l then True
      else if lim_OutputTokens l > 0 \<and> OutputTokens t \<ge> lim_OutputTokens l then True
      else if lim_BillableInputTokens l > 0 \<and>
        usageBillableInputTokens (InputTokens t) (CachedTokens t) \<ge> lim_BillableInputTokens l then True
      else False)"

text \<open>The weekly limit falls back to the legacy total quota when neither newer limit is set.\<close>

definition effectiveAPIKeyWeeklyTokens :: "quotas \<Rightarrow> int" where
  "effectiveAPIKeyWeeklyTokens q =
     (if QuotaWeeklyTokens q > 0 then QuotaWeeklyTokens q
      else if QuotaDailyTokens q \<le> 0 \<and> QuotaTotalTokens q > 0 then QuotaTotalTokens q
      else 0)"

definition weekStart :: "int \<Rightarrow> int \<Rightarrow> int" where
  "weekStart tz dayStart = add_days dayStart (- ((weekday tz dayStart + 6) mod 7))"

definition daily_limits :: "quotas \<Rightarrow> gatewayAPIKeyTokenQuotaLimits" where
  "daily_limits q =
     \<lparr>lim_TotalTokens = QuotaDailyTokens q, lim_InputTokens = QuotaDailyInputTokens q,
      lim_OutputTokens = QuotaDailyOutputTokens q, lim_BillableInputTokens = QuotaDailyBillableInputTokens q\<rparr>"

definition weekly_limits :: "quotas \<Rightarrow> gatewayAPIKeyTokenQuotaLimits" where
  "weekly_limits q =
     \<lparr>lim_TotalTokens = effectiveAPIKeyWeeklyTokens q, lim_InputTokens = QuotaWeeklyInputTokens q,
      lim_OutputTokens = QuotaWeeklyOutputTokens q, lim_BillableInputTokens = QuotaWeeklyBillableInputTokens q\<rparr>"

definition key_window :: "int \<Rightarrow> int \<Rightarrow> int \<Rightarrow> GatewayUsageFilter" where
  "key_window keyID start now = no_filter\<lparr>f_KeyID := keyID, f_StartTime := start, f_EndTime := now\<rparr>"

definition checkTokenWindow ::
  "(GatewayUsageFilter \<Rightarrow> ('s, GatewayUsageSummary) op) \<Rightarrow>
   int \<Rightarrow> gatewayAPIKeyTokenQuotaLimits \<Rightarrow> int \<Rightarrow> int \<Rightarrow> ('s, unit) op" where
  "checkTokenWindow summarize keyID limits start now =
     (if \<not> limits_enabled limits then ok ()
      else bind_op (summarize (key_window keyID start now)) (\<lambda>summary.
             if limits_exceeded limits (su_Totals summary) then fail ErrGatewayQuotaExceeded else ok ()))"

text \<open>\<open>now\<close> is read from the clock (\<open>time_of\<close>) when the caller passes the zero time.\<close>

definition or_now :: "('s, int) op \<Rightarrow> int \<Rightarrow> ('s, int) op" where
  "or_now time_of now = (if IsZero now then time_of else ok now)"

definition CheckAPIKeyTokenQuota ::
  "(GatewayUsageFilter \<Rightarrow> ('s, GatewayUsageSummary) op) \<Rightarrow> ('s, int) op \<Rightarrow>
   int \<Rightarrow> GatewayAPIKey option \<Rightarrow> int \<Rightarrow> ('s, unit) op" where
  "CheckAPIKeyTokenQuota summarize time_of tz key0 now0 =
     (case key0 of
        None \<Rightarrow> fail ErrGatewayAPIKeyNotFound
      | Some key \<Rightarrow>
          if key_ID key \<le> 0 then fail ErrGatewayAPIKeyNotFound
          else let dailyLimits = daily_limits (key_Quotas key); weeklyLimits = weekly_limits (key_Quotas key)
               in if \<not> limits_enabled dailyLimits \<and> \<not> limits_enabled weeklyLimits then ok ()
                  else bind_op (or_now time_of now0) (\<lambda>now.
                       let dayStart = day_start tz now
                       in bind_op (checkTokenWindow summarize (key_ID key) dailyLimits dayStart now) (\<lambda>_.
                          checkTokenWindow summarize (key_ID key) weeklyLimits (weekStart tz dayStart) now)))"

section \<open>Policies\<close>

definition policy_window :: "int \<Rightarrow> string \<Rightarrow> int \<Rightarrow> int \<Rightarrow> GatewayUsageFilter" where
  "policy_window keyID modelID start now =
     no_filter\<lparr>f_KeyID := keyID, f_Model := TrimSpace modelID, f_StartTime := start, f_EndTime := now\<rparr>"

definition checkWindow ::
  "(GatewayUsageFilter \<Rightarrow> ('s, GatewayUsageSummary) op) \<Rightarrow>
   int \<Rightarrow> string \<Rightarrow> int \<Rightarrow> int \<Rightarrow> int \<Rightarrow> bool \<Rightarrow> ('s, unit) op" where
  "checkWindow summarize keyID modelID now limit start tokens =
     (if limit \<le> 0 then ok ()
      else bind_op (summarize (policy_window keyID modelID start now)) (\<lambda>summary.
             if tokens
             then if TotalTokens (su_Totals summary) \<ge> limit then fail ErrGatewayQuotaExceeded else ok ()
             else if TotalRequests (su_Totals summary) \<ge> limit then fail ErrGatewayQuotaExceeded else ok ()))"

text \<open>Any error of the two minute windows is reported as a rate limit.\<close>

definition as_rate_limited :: "('s, unit) op \<Rightarrow> ('s, unit) op" where
  "as_rate_limited m =
     try_op m (\<lambda>r. case r of Inl _ \<Rightarrow> fail ErrGatewayRateLimited | Inr u \<Rightarrow> ok u)"

definition CheckPolicy ::
  "(int \<Rightarrow> string \<Rightarrow> ('s, GatewayPolicy option) op) \<Rightarrow> (GatewayUsageFilter \<Rightarrow> ('s, GatewayUsageSummary) op) \<Rightarrow>
   ('s, int) op \<Rightarrow> int \<Rightarrow> GatewayAPIKey option \<Rightarrow> string \<Rightarrow> int \<Rightarrow> ('s, unit) op" where
  "CheckPolicy get_policy summarize time_of tz key0 modelID now0 =
     (case key0 of
        None \<Rightarrow> fail ErrGatewayAPIKeyNotFound
      | Some key \<Rightarrow>
          if key_ID key \<le> 0 then fail ErrGatewayAPIKeyNotFound
          else bind_op (or_now time_of now0) (\<lambda>now.
               bind_op (get_policy (key_ID key) modelID) (\<lambda>found.
               case found of
                 None \<Rightarrow> ok ()
               | Some policy \<Rightarrow>
                   let check = checkWindow summarize (key_ID key) modelID now;
                       dayStart = day_start tz now; monthStart = month_start tz now
                   in bind_op (as_rate_limited (check (RPM policy) (now - minute) False)) (\<lambda>_.
                      bind_op (as_rate_limited (check (TPM policy) (now - minute) True)) (\<lambda>_.
                      bind_op (check (DailyRequests policy) dayStart False) (\<lambda>_.
                      bind_op (check (MonthlyRequests policy) monthStart False) (\<lambda>_.
                      bind_op (check (DailyTokens policy) dayStart True) (\<lambda>_.
                        check (MonthlyTokens policy) monthStart True))))))))"

definition gateway_CheckAPIKeyTokenQuota where
  "gateway_CheckAPIKeyTokenQuota = CheckAPIKeyTokenQuota repo_SummarizeUsage time_now"
definition gateway_CheckPolicy where
  "gateway_CheckPolicy = CheckPolicy repo_GetPolicyForKeyModel repo_SummarizeUsage time_now"

section \<open>Windows\<close>

text \<open>The week starts on the Monday at or before the day, at its first instant.\<close>

lemma weekStart_monday:
  "weekday tz (weekStart tz d) = 1 \<and> weekStart tz d \<le> d \<and> d \<le> weekStart tz d + 6 * day"
proof -
  let ?n = "day_number tz d + 4"
  let ?k = "(?n mod 7 + 6) mod 7"
  have k: "0 \<le> ?k" "?k \<le> 6" by simp_all
  have "?k * day \<le> 6 * day" "0 \<le> ?k * day"
    using k day_pos by (simp_all add: mult_right_mono)
  moreover have "(?n - ?k) mod 7 = 1"
    by (simp add: mod_simps)
  moreover have "weekday tz (weekStart tz d) = (?n - ?k) mod 7"
    by (simp add: weekStart_def weekday_def algebra_simps)
  moreover have "weekStart tz d = d - ?k * day"
    by (simp add: weekStart_def weekday_def add_days_def)
  ultimately show ?thesis by simp
qed

lemma windows_not_zero:
  assumes "0 \<le> now"
  shows "\<not> IsZero now" "\<not> IsZero (day_start tz now)" "\<not> IsZero (weekStart tz (day_start tz now))"
    "\<not> IsZero (month_start tz now)" "\<not> IsZero (now - minute)"
  using assms weekStart_monday [of tz "day_start tz now"] month_start_bounds [of tz now] less_day_start [of now tz]
  unfolding IsZero_def zero_time_def day_def minute_def by linarith+

section \<open>What the limits mean\<close>

definition has_room :: "gatewayAPIKeyTokenQuotaLimits \<Rightarrow> usage_totals \<Rightarrow> bool" where
  "has_room l t \<longleftrightarrow>
     (lim_TotalTokens l > 0 \<longrightarrow> TotalTokens t < lim_TotalTokens l) \<and>
     (lim_InputTokens l > 0 \<longrightarrow> InputTokens t < lim_InputTokens l) \<and>
     (lim_OutputTokens l > 0 \<longrightarrow> OutputTokens t < lim_OutputTokens l) \<and>
     (lim_BillableInputTokens l > 0 \<longrightarrow>
        max 0 (InputTokens t - max 0 (CachedTokens t)) < lim_BillableInputTokens l)"

lemma limits_exceeded_iff: "limits_exceeded l t = (\<not> has_room l t)"
  by (auto simp: limits_exceeded_def has_room_def usageBillableInputTokens_def)

lemma disabled_room: "\<not> limits_enabled l \<Longrightarrow> has_room l t"
  by (simp add: limits_enabled_def has_room_def)

locale usage_ledger =
  fixes calm :: "'s \<Rightarrow> bool" and used :: "'s \<Rightarrow> GatewayUsageFilter \<Rightarrow> usage_totals"
    and summarize :: "GatewayUsageFilter \<Rightarrow> ('s, GatewayUsageSummary) op"
  assumes summary: "summarize f s = (Inr x, t) \<Longrightarrow> su_Totals x = used s f \<and> used t = used s"
    and no_summary: "summarize f s = (Inl e, t) \<Longrightarrow> used t = used s"
    and calm_summary: "calm s \<Longrightarrow> totals_fit (used s f) \<Longrightarrow> \<exists>x t. summarize f s = (Inr x, t) \<and> calm t"
begin

lemma token_window_passed:
  assumes "checkTokenWindow summarize k l start now s = (Inr (), t)"
  shows "has_room l (used s (key_window k start now)) \<and> used t = used s"
proof (cases "limits_enabled l")
  case True
  then have c: "bind_op (summarize (key_window k start now)) (\<lambda>summary.
      if limits_exceeded l (su_Totals summary) then fail ErrGatewayQuotaExceeded else ok ()) s = (Inr (), t)"
    using assms by (simp add: checkTokenWindow_def)
  then obtain x s1 where x: "summarize (key_window k start now) s = (Inr x, s1)"
    and r: "(if limits_exceeded l (su_Totals x) then fail ErrGatewayQuotaExceeded else ok ()) s1 = (Inr (), t)"
    by (rule bind_op_InrE)
  then show ?thesis using summary [OF x] by (auto simp: limits_exceeded_iff split: if_splits)
next
  case False
  then show ?thesis using assms by (simp add: checkTokenWindow_def disabled_room)
qed

lemma token_window_calm:
  assumes "calm s" "totals_fit (used s (key_window k start now))"
  obtains t where "checkTokenWindow summarize k l start now s =
      (if has_room l (used s (key_window k start now)) then Inr () else Inl ErrGatewayQuotaExceeded, t)"
    "calm t" "used t = used s"
proof (cases "limits_enabled l")
  case True
  obtain x t where x: "summarize (key_window k start now) s = (Inr x, t)" "calm t"
    using calm_summary [OF assms] by blast
  have "checkTokenWindow summarize k l start now s =
      (if has_room l (used s (key_window k start now)) then Inr () else Inl ErrGatewayQuotaExceeded, t)"
    using True summary [OF x(1)] by (simp add: checkTokenWindow_def limits_exceeded_iff bind_op_def x(1))
  then show thesis using that x(2) summary [OF x(1)] by blast
next
  case False
  then show thesis using that [of s] assms(1) by (simp add: checkTokenWindow_def disabled_room)
qed

text \<open>A request that passes has room in both windows, whatever failed on the way.\<close>

lemma quota_passed:
  assumes "CheckAPIKeyTokenQuota summarize time_of tz (Some key) now s = (Inr (), t)" "\<not> IsZero now"
  shows "has_room (daily_limits (key_Quotas key)) (used s (key_window (key_ID key) (day_start tz now) now)) \<and>
         has_room (weekly_limits (key_Quotas key))
           (used s (key_window (key_ID key) (weekStart tz (day_start tz now)) now))"
proof (cases "limits_enabled (daily_limits (key_Quotas key)) \<or> limits_enabled (weekly_limits (key_Quotas key))")
  case True
  then have *: "key_ID key > 0"
    "bind_op (checkTokenWindow summarize (key_ID key) (daily_limits (key_Quotas key)) (day_start tz now) now) (\<lambda>_.
      checkTokenWindow summarize (key_ID key) (weekly_limits (key_Quotas key)) (weekStart tz (day_start tz now)) now) s
     = (Inr (), t)"
    using assms by (auto simp: CheckAPIKeyTokenQuota_def or_now_def Let_def split: if_splits)
  from *(2) obtain s1 where
    d: "checkTokenWindow summarize (key_ID key) (daily_limits (key_Quotas key)) (day_start tz now) now s = (Inr (), s1)"
    and w: "checkTokenWindow summarize (key_ID key) (weekly_limits (key_Quotas key))
        (weekStart tz (day_start tz now)) now s1 = (Inr (), t)"
    by (auto elim!: bind_op_InrE)
  show ?thesis using token_window_passed [OF d] token_window_passed [OF w] by simp
next
  case False
  then show ?thesis by (simp add: disabled_room)
qed

lemma quota_calm:
  assumes "calm s" "\<not> IsZero now" "0 < key_ID key"
    and "totals_fit (used s (key_window (key_ID key) (day_start tz now) now))"
    and "totals_fit (used s (key_window (key_ID key) (weekStart tz (day_start tz now)) now))"
  shows "fst (CheckAPIKeyTokenQuota summarize time_of tz (Some key) now s) =
         (if has_room (daily_limits (key_Quotas key)) (used s (key_window (key_ID key) (day_start tz now) now)) \<and>
             has_room (weekly_limits (key_Quotas key))
               (used s (key_window (key_ID key) (weekStart tz (day_start tz now)) now))
          then Inr () else Inl ErrGatewayQuotaExceeded)"
proof (cases "limits_enabled (daily_limits (key_Quotas key)) \<or> limits_enabled (weekly_limits (key_Quotas key))")
  case True
  obtain s1 where d: "checkTokenWindow summarize (key_ID key) (daily_limits (key_Quotas key)) (day_start tz now) now s =
      (if has_room (daily_limits (key_Quotas key)) (used s (key_window (key_ID key) (day_start tz now) now))
       then Inr () else Inl ErrGatewayQuotaExceeded, s1)" "calm s1" "used s1 = used s"
    using token_window_calm [OF assms(1,4)] by blast
  have fit: "totals_fit (used s1 (key_window (key_ID key) (weekStart tz (day_start tz now)) now))"
    using assms(5) d(3) by simp
  obtain s2 where w: "checkTokenWindow summarize (key_ID key) (weekly_limits (key_Quotas key))
        (weekStart tz (day_start tz now)) now s1 =
      (if has_room (weekly_limits (key_Quotas key)) (used s1 (key_window (key_ID key) (weekStart tz (day_start tz now)) now))
       then Inr () else Inl ErrGatewayQuotaExceeded, s2)"
    using token_window_calm [OF d(2) fit] by blast
  show ?thesis using True assms(2,3) d w
    by (auto simp: CheckAPIKeyTokenQuota_def or_now_def Let_def bind_op_def)
next
  case False
  then show ?thesis using assms(3) by (simp add: CheckAPIKeyTokenQuota_def Let_def disabled_room)
qed

end

text \<open>The policies on top of the ledger.\<close>

definition below :: "int \<Rightarrow> int \<Rightarrow> bool" where
  "below limit n = (limit > 0 \<longrightarrow> n < limit)"

definition amount :: "bool \<Rightarrow> usage_totals \<Rightarrow> int" where
  "amount tokens t = (if tokens then TotalTokens t else TotalRequests t)"

locale rate_ledger = usage_ledger calm used summarize
  for calm :: "'s \<Rightarrow> bool" and used :: "'s \<Rightarrow> GatewayUsageFilter \<Rightarrow> usage_totals"
  and summarize :: "GatewayUsageFilter \<Rightarrow> ('s, GatewayUsageSummary) op" +
  fixes policy_at :: "'s \<Rightarrow> int \<Rightarrow> string \<Rightarrow> GatewayPolicy option"
    and get_policy :: "int \<Rightarrow> string \<Rightarrow> ('s, GatewayPolicy option) op"
  assumes calm_policy: "calm s \<Longrightarrow> \<exists>t. get_policy k m s = (Inr (policy_at s k m), t) \<and> calm t \<and> used t = used s"
begin

lemma window_calm:
  assumes "calm s" "used s = u" "totals_fit (u (policy_window k m start now))"
  shows "\<exists>t. checkWindow summarize k m now limit start tokens s =
      (if below limit (amount tokens (u (policy_window k m start now)))
       then Inr () else Inl ErrGatewayQuotaExceeded, t) \<and> calm t \<and> used t = u"
proof (cases "limit \<le> 0")
  case True
  then show ?thesis using assms(1,2) by (simp add: checkWindow_def below_def)
next
  case False
  have fit: "totals_fit (used s (policy_window k m start now))" using assms(2,3) by simp
  obtain x t where x: "summarize (policy_window k m start now) s = (Inr x, t)" "calm t"
    using calm_summary [OF assms(1) fit] by blast
  have sum: "su_Totals x = u (policy_window k m start now)" "used t = u"
    using summary [OF x(1)] assms(2) by simp_all
  have "checkWindow summarize k m now limit start tokens s =
      (if below limit (amount tokens (u (policy_window k m start now)))
       then Inr () else Inl ErrGatewayQuotaExceeded, t)"
    using False by (simp add: checkWindow_def below_def amount_def bind_op_def x(1) sum(1) not_less)
  then show ?thesis using x(2) sum(2) by blast
qed

lemma limited_calm:
  assumes "calm s" "used s = u" "totals_fit (u (policy_window k m start now))"
  shows "\<exists>t. as_rate_limited (checkWindow summarize k m now limit start tokens) s =
      (if below limit (amount tokens (u (policy_window k m start now)))
       then Inr () else Inl ErrGatewayRateLimited, t) \<and> calm t \<and> used t = u"
proof -
  obtain t where t: "checkWindow summarize k m now limit start tokens s =
      (if below limit (amount tokens (u (policy_window k m start now)))
       then Inr () else Inl ErrGatewayQuotaExceeded, t)" "calm t" "used t = u"
    using window_calm [OF assms] by blast
  have "as_rate_limited (checkWindow summarize k m now limit start tokens) s =
      (if below limit (amount tokens (u (policy_window k m start now)))
       then Inr () else Inl ErrGatewayRateLimited, t)"
    unfolding as_rate_limited_def try_op_def t(1) by simp
  then show ?thesis using t(2,3) by blast
qed

lemma policy_calm:
  assumes "calm s" "\<not> IsZero now" "0 < key_ID key"
    and fit: "\<forall>start \<in> {now - minute, day_start tz now, month_start tz now}.
        totals_fit (used s (policy_window (key_ID key) m start now))"
  shows "fst (CheckPolicy get_policy summarize time_of tz (Some key) m now s) =
    (case policy_at s (key_ID key) m of
       None \<Rightarrow> Inr ()
     | Some p \<Rightarrow>
         let u = (\<lambda>start. used s (policy_window (key_ID key) m start now));
             d = day_start tz now; mo = month_start tz now
         in if \<not> (below (RPM p) (TotalRequests (u (now - minute))) \<and> below (TPM p) (TotalTokens (u (now - minute))))
            then Inl ErrGatewayRateLimited
            else if below (DailyRequests p) (TotalRequests (u d)) \<and> below (MonthlyRequests p) (TotalRequests (u mo)) \<and>
              below (DailyTokens p) (TotalTokens (u d)) \<and> below (MonthlyTokens p) (TotalTokens (u mo))
            then Inr () else Inl ErrGatewayQuotaExceeded)"
proof -
  let ?k = "key_ID key" and ?d = "day_start tz now" and ?mo = "month_start tz now"
  obtain s0 where s0: "get_policy ?k m s = (Inr (policy_at s ?k m), s0)" "calm s0" "used s0 = used s"
    using calm_policy [OF assms(1)] by blast
  show ?thesis
  proof (cases "policy_at s ?k m")
    case None
    then show ?thesis using s0(1) assms(2,3)
      by (simp add: CheckPolicy_def or_now_def bind_op_Inr [where m = "get_policy ?k m" and s = s])
  next
    case (Some p)
    let ?u = "\<lambda>start. used s (policy_window ?k m start now)"
    have fits: "totals_fit (?u (now - minute))" "totals_fit (?u ?d)" "totals_fit (?u ?mo)"
      using fit by simp_all
    obtain s1 where 1: "as_rate_limited (checkWindow summarize ?k m now (RPM p) (now - minute) False) s0 =
        (if below (RPM p) (amount False (?u (now - minute))) then Inr () else Inl ErrGatewayRateLimited, s1)"
      "calm s1" "used s1 = used s"
      using limited_calm [OF s0(2,3) fits(1)] by blast
    obtain s2 where 2: "as_rate_limited (checkWindow summarize ?k m now (TPM p) (now - minute) True) s1 =
        (if below (TPM p) (amount True (?u (now - minute))) then Inr () else Inl ErrGatewayRateLimited, s2)"
      "calm s2" "used s2 = used s"
      using limited_calm [OF 1(2,3) fits(1)] by blast
    obtain s3 where 3: "checkWindow summarize ?k m now (DailyRequests p) (?d) False s2 =
        (if below (DailyRequests p) (amount False (?u (?d))) then Inr () else Inl ErrGatewayQuotaExceeded, s3)"
      "calm s3" "used s3 = used s"
      using window_calm [OF 2(2,3) fits(2)] by blast
    obtain s4 where 4: "checkWindow summarize ?k m now (MonthlyRequests p) (?mo) False s3 =
        (if below (MonthlyRequests p) (amount False (?u (?mo))) then Inr () else Inl ErrGatewayQuotaExceeded, s4)"
      "calm s4" "used s4 = used s"
      using window_calm [OF 3(2,3) fits(3)] by blast
    obtain s5 where 5: "checkWindow summarize ?k m now (DailyTokens p) (?d) True s4 =
        (if below (DailyTokens p) (amount True (?u (?d))) then Inr () else Inl ErrGatewayQuotaExceeded, s5)"
      "calm s5" "used s5 = used s"
      using window_calm [OF 4(2,3) fits(2)] by blast
    obtain s6 where 6: "checkWindow summarize ?k m now (MonthlyTokens p) (?mo) True s5 =
        (if below (MonthlyTokens p) (amount True (?u (?mo))) then Inr () else Inl ErrGatewayQuotaExceeded, s6)"
      "calm s6" "used s6 = used s"
      using window_calm [OF 5(2,3) fits(3)] by blast
    have eq: "CheckPolicy get_policy summarize time_of tz (Some key) m now s =
        bind_op (as_rate_limited (checkWindow summarize ?k m now (RPM p) (now - minute) False)) (\<lambda>_.
        bind_op (as_rate_limited (checkWindow summarize ?k m now (TPM p) (now - minute) True)) (\<lambda>_.
        bind_op (checkWindow summarize ?k m now (DailyRequests p) ?d False) (\<lambda>_.
        bind_op (checkWindow summarize ?k m now (MonthlyRequests p) ?mo False) (\<lambda>_.
        bind_op (checkWindow summarize ?k m now (DailyTokens p) ?d True) (\<lambda>_.
          checkWindow summarize ?k m now (MonthlyTokens p) ?mo True))))) s0"
      using s0(1) Some assms(2,3)
      by (simp add: CheckPolicy_def or_now_def Let_def bind_op_Inr [where m = "get_policy ?k m" and s = s])
    show ?thesis
      unfolding eq by (simp add: bind_op_def 1(1) 2(1) 3(1) 4(1) 5(1) 6(1) Some Let_def amount_def)
  qed
qed

end

section \<open>The ledger of the database\<close>

definition ledger :: "store \<Rightarrow> GatewayUsageFilter \<Rightarrow> usage_totals" where
  "ledger s f = totals (filter (conds_hold (rows (keys s)) (usage_conds f)) (rows (usage s)))"

definition calm_store :: "store \<Rightarrow> bool" where
  "calm_store s = (store_ok s \<and> (\<forall>n. \<not> fault s n))"

definition policy_for :: "store \<Rightarrow> int \<Rightarrow> string \<Rightarrow> GatewayPolicy option" where
  "policy_for s k m =
     (let row = (\<lambda>x. find (\<lambda>p. po_APIKeyID p = k \<and> po_ModelID p = x) (rows (policies s)))
      in if TrimSpace m = '''' then row ''*''
         else case row (TrimSpace m) of Some p \<Rightarrow> Some p | None \<Rightarrow> row ''*'')"

lemma ledger_reads: "usage t = usage s \<Longrightarrow> keys t = keys s \<Longrightarrow> ledger t = ledger s"
  by (simp add: ledger_def fun_eq_iff)

lemma calm_summarize:
  assumes "calm_store s" "totals_fit (ledger s f)"
  shows "\<exists>x t. repo_SummarizeUsage f s = (Inr x, t) \<and> calm_store t"
proof -
  obtain x t where x: "repo_SummarizeUsage f s = (Inr x, t)"
    using SummarizeUsage_total [of s f] assms by (auto simp: calm_store_def ledger_def)
  have "store_ok t"
    by (rule keepsD [OF keeps_usage_reads(5) _ x]) (use assms in \<open>simp add: calm_store_def\<close>)
  then show ?thesis using x SummarizeUsage_reads [OF x] assms(1) by (auto simp: calm_store_def)
qed

lemma calm_query_policy:
  assumes "calm_store s"
  shows "query_policy k m s =
    (Inr (find (\<lambda>p. po_APIKeyID p = k \<and> po_ModelID p = m) (rows (policies s))), s\<lparr>stmts := Suc (stmts s)\<rparr>)"
proof -
  have "on_policies (only_row (\<lambda>p. po_APIKeyID p = k \<and> po_ModelID p = m)) s =
      (case find (\<lambda>p. po_APIKeyID p = k \<and> po_ModelID p = m) (rows (policies s)) of
         None \<Rightarrow> Inl DBNotFound | Some r \<Rightarrow> Inr r, s\<lparr>stmts := Suc (stmts s)\<rparr>)"
    using policy_tbl.only_search [of s "\<lambda>p. po_APIKeyID p = k \<and> po_ModelID p = m"] assms
    by (simp add: calm_store_def policy_clash_def)
  then show ?thesis
    by (simp add: query_policy_def optional_def try_op_def split: option.splits)
qed

lemma calm_stmts: "calm_store s \<Longrightarrow> calm_store (s\<lparr>stmts := n\<rparr>)"
  by (simp add: calm_store_def)

lemma calm_GetPolicy:
  assumes "calm_store s"
  shows "\<exists>t. repo_GetPolicyForKeyModel k m s = (Inr (policy_for s k m), t) \<and> calm_store t \<and> ledger t = ledger s"
proof -
  note q = calm_query_policy [OF assms] calm_query_policy [OF calm_stmts [OF assms]]
  have "\<exists>n. repo_GetPolicyForKeyModel k m s = (Inr (policy_for s k m), s\<lparr>stmts := n\<rparr>)"
    by (auto simp: repo_GetPolicyForKeyModel_def policy_for_def Let_def bind_op_def q split: option.splits)
  then obtain n where "repo_GetPolicyForKeyModel k m s = (Inr (policy_for s k m), s\<lparr>stmts := n\<rparr>)" by blast
  moreover have "ledger (s\<lparr>stmts := n\<rparr>) = ledger s" by (rule ledger_reads) simp_all
  ultimately show ?thesis using calm_stmts [OF assms] by blast
qed

interpretation key_ledger: rate_ledger calm_store ledger repo_SummarizeUsage policy_for repo_GetPolicyForKeyModel
proof unfold_locales
  fix f s x t assume x: "repo_SummarizeUsage f s = (Inr x, t)"
  show "su_Totals x = ledger s f \<and> ledger t = ledger s"
    using SummarizeUsage_Inr [OF x] ledger_reads [OF SummarizeUsage_reads(1,2) [OF x]] by (simp add: ledger_def)
next
  fix f s e t assume x: "repo_SummarizeUsage f s = (Inl e, t)"
  show "ledger t = ledger s" by (rule ledger_reads [OF SummarizeUsage_reads(1,2) [OF x]])
qed (simp_all add: calm_summarize calm_GetPolicy)

section \<open>The checks on the database\<close>

text \<open>The usage of a key in a window of time, and of a key on a model.\<close>

definition key_usage :: "store \<Rightarrow> int \<Rightarrow> int \<Rightarrow> int \<Rightarrow> usage_row list" where
  "key_usage s k from_t to_t =
     filter (\<lambda>r. u_api_key_id r = Some k \<and> from_t \<le> u_created_at r \<and> u_created_at r < to_t) (rows (usage s))"

definition model_usage :: "store \<Rightarrow> int \<Rightarrow> string \<Rightarrow> int \<Rightarrow> int \<Rightarrow> usage_row list" where
  "model_usage s k m from_t to_t =
     filter (\<lambda>r. TrimSpace m = '''' \<or> u_model r = TrimSpace m) (key_usage s k from_t to_t)"

lemma ledger_key_window:
  "0 < k \<Longrightarrow> \<not> IsZero a \<Longrightarrow> \<not> IsZero b \<Longrightarrow> ledger s (key_window k a b) = totals (key_usage s k a b)"
  unfolding ledger_def key_usage_def
  by (rule arg_cong [where f = totals], rule filter_cong)
    (simp_all add: key_window_def no_filter_def usage_conds_def key_conds_def field_conds_def cond_text_def conds_hold_def)

lemma ledger_policy_window:
  "0 < k \<Longrightarrow> \<not> IsZero a \<Longrightarrow> \<not> IsZero b \<Longrightarrow> ledger s (policy_window k m a b) = totals (model_usage s k m a b)"
  unfolding ledger_def model_usage_def key_usage_def filter_filter
  by (rule arg_cong [where f = totals], rule filter_cong)
    (auto simp: policy_window_def no_filter_def usage_conds_def key_conds_def field_conds_def cond_text_def conds_hold_def)

text \<open>
  C9. The token quota of a key is exact: on a database whose statements do not fail, a key
  passes exactly when its usage since midnight and since Monday midnight leaves room under every
  limit that is set, counted in total, input, output and billable (uncached) input tokens;
  otherwise the answer is ErrGatewayQuotaExceeded and nothing else.
\<close>
theorem quota_exact:
  assumes "store_ok s" "\<forall>n. \<not> fault s n" "0 \<le> now" "0 < key_ID key"
    and "totals_fit (totals (key_usage s (key_ID key) (day_start tz now) now))"
    and "totals_fit (totals (key_usage s (key_ID key) (weekStart tz (day_start tz now)) now))"
  shows "fst (gateway_CheckAPIKeyTokenQuota tz (Some key) now s) =
    (if has_room (daily_limits (key_Quotas key)) (totals (key_usage s (key_ID key) (day_start tz now) now)) \<and>
        has_room (weekly_limits (key_Quotas key))
          (totals (key_usage s (key_ID key) (weekStart tz (day_start tz now)) now))
     then Inr () else Inl ErrGatewayQuotaExceeded)"
  using key_ledger.quota_calm [of s now key tz time_now] assms
  by (simp add: gateway_CheckAPIKeyTokenQuota_def calm_store_def windows_not_zero ledger_key_window)

definition sample_usage :: "int \<Rightarrow> int \<Rightarrow> int \<Rightarrow> usage_row" where
  "sample_usage i tokens created =
     \<lparr>u_id = i, u_api_key_id = Some 1, u_api_key_prefix = '''', u_client_type = ''codex'', u_client_ip = '''',
      u_session_id = '''', u_request_id = ''r'', u_method = ''POST'', u_path = ''/v1/responses'',
      u_endpoint = ''responses'', u_model = ''gpt-5.5'', u_reasoning_effort = '''', u_status_code = 200,
      u_success = True, u_stream = False, u_input_tokens = tokens, u_output_tokens = 0, u_total_tokens = tokens,
      u_cached_tokens = 0, u_reasoning_tokens = 0, u_request_bytes = 10, u_response_bytes = 10,
      u_duration_ms = 5, u_upstream_configured_mode = '''', u_upstream_mode = ''codex_backend'',
      u_upstream_fallback = False, u_upstream_error_type = '''', u_diagnostic = [], u_error_type = '''',
      u_created_at = created\<rparr>"

text \<open>Thursday, 1 January 1970, ten seconds past midnight: 60 tokens today, 50 the day before.\<close>

definition used_store :: store where
  "used_store = (fresh_store (\<lambda>n. int n))
     \<lparr>usage := \<lparr>rows = [sample_usage 1 50 (- second), sample_usage 2 60 second], seq = 2\<rparr>,
      policies := \<lparr>rows = [\<lparr>po_ID = 1, po_APIKeyID = 1, po_ModelID = ''*'', RPM = 1, TPM = 0, DailyRequests = 0,
        MonthlyRequests = 0, DailyTokens = 0, MonthlyTokens = 0, po_CreatedAt = 0, po_UpdatedAt = 0\<rparr>], seq = 1\<rparr>\<rparr>"

definition quota_key :: "int \<Rightarrow> int \<Rightarrow> GatewayAPIKey" where
  "quota_key daily weekly =
     \<lparr>key_ID = 1, key_OwnerUserID = 0, key_Name = ''n'', key_PlainKey = '''', key_KeyPrefix = ''p'',
      key_KeyLast4 = ''l'', key_Disabled = False, key_UpstreamStrategy = '''', key_DefaultReasoningEffort = '''',
      key_Quotas = \<lparr>QuotaRequests = 0, QuotaTotalTokens = 0, QuotaDailyTokens = daily, QuotaWeeklyTokens = weekly,
        QuotaDailyInputTokens = 0, QuotaWeeklyInputTokens = 0, QuotaDailyOutputTokens = 0,
        QuotaWeeklyOutputTokens = 0, QuotaDailyBillableInputTokens = 0, QuotaWeeklyBillableInputTokens = 0\<rparr>,
      key_AllowedModels = [], key_LastUsedAt = None, key_CreatedAt = 0, key_UpdatedAt = 0\<rparr>"

lemma used_store_ok: "store_ok used_store" "\<not> fault used_store n"
  by (simp_all add: store_ok_def used_store_def fresh_store_def tbl_ok_def empty_tbl_def sample_usage_def usage_valid_def
      max_len_def not_empty_def policy_valid_def no_clash_def policy_clash_def)

theorem quota_exact_witness:
  "fst (gateway_CheckAPIKeyTokenQuota 0 (Some (quota_key 61 110)) (10 * second) used_store) =
     Inl ErrGatewayQuotaExceeded \<and>
   fst (gateway_CheckAPIKeyTokenQuota 0 (Some (quota_key 61 111)) (10 * second) used_store) = Inr ()"
proof -
  have "totals_fit (totals (key_usage used_store 1 (day_start 0 (10 * second)) (10 * second)))"
    and "totals_fit (totals (key_usage used_store 1 (weekStart 0 (day_start 0 (10 * second))) (10 * second)))"
    by code_simp+
  then have *: "fst (gateway_CheckAPIKeyTokenQuota 0 (Some (quota_key d w)) (10 * second) used_store) =
    (if has_room (daily_limits (key_Quotas (quota_key d w)))
          (totals (key_usage used_store 1 (day_start 0 (10 * second)) (10 * second))) \<and>
        has_room (weekly_limits (key_Quotas (quota_key d w)))
          (totals (key_usage used_store 1 (weekStart 0 (day_start 0 (10 * second))) (10 * second)))
     then Inr () else Inl ErrGatewayQuotaExceeded)" for d w
    using quota_exact [of used_store "10 * second" "quota_key d w" 0] used_store_ok
    by (simp add: quota_key_def second_def)
  show ?thesis unfolding * by code_simp
qed

text \<open>
  A request that passes the token quota had room under every limit, also when statements
  fail: no database failure lets a key past a limit it has reached.
\<close>
theorem quota_passed_has_room:
  assumes "fst (gateway_CheckAPIKeyTokenQuota tz (Some key) now s) = Inr ()" "0 \<le> now"
  shows "0 < key_ID key \<and>
    has_room (daily_limits (key_Quotas key)) (totals (key_usage s (key_ID key) (day_start tz now) now)) \<and>
    has_room (weekly_limits (key_Quotas key))
      (totals (key_usage s (key_ID key) (weekStart tz (day_start tz now)) now))"
proof -
  obtain t where t: "CheckAPIKeyTokenQuota repo_SummarizeUsage time_now tz (Some key) now s = (Inr (), t)"
    using assms(1) unfolding gateway_CheckAPIKeyTokenQuota_def by (metis prod.collapse)
  have "0 < key_ID key"
    using t by (simp add: CheckAPIKeyTokenQuota_def split: if_splits)
  then show ?thesis
    using key_ledger.quota_passed [OF t windows_not_zero(1) [OF assms(2)]] windows_not_zero [OF assms(2)]
    by (simp add: ledger_key_window)
qed

theorem quota_passed_has_room_witness:
  "has_room (daily_limits (key_Quotas (quota_key 61 111)))
     (totals (key_usage used_store 1 (day_start 0 (10 * second)) (10 * second)))"
proof -
  have "fst (gateway_CheckAPIKeyTokenQuota 0 (Some (quota_key 61 111)) (10 * second) used_store) = Inr ()"
    by code_simp
  from quota_passed_has_room [OF this] show ?thesis by (simp add: quota_key_def second_def)
qed

text \<open>
  C10. The policy of a key and model (the one of the model, else the one for all models) is
  exact: the key is rate limited when the requests or tokens of the last minute reach RPM or
  TPM, is out of quota when those of the day or the month reach their limits, and passes
  otherwise; a limit of 0 is no limit.
\<close>
theorem policy_exact:
  assumes "store_ok s" "\<forall>n. \<not> fault s n" "0 \<le> now" "0 < key_ID key"
    and "\<forall>from_t \<in> {now - minute, day_start tz now, month_start tz now}.
           totals_fit (totals (model_usage s (key_ID key) m from_t now))"
  shows "fst (gateway_CheckPolicy tz (Some key) m now s) =
    (case policy_for s (key_ID key) m of
       None \<Rightarrow> Inr ()
     | Some p \<Rightarrow>
         let used = (\<lambda>from_t. totals (model_usage s (key_ID key) m from_t now));
             d = day_start tz now; mo = month_start tz now
         in if \<not> (below (RPM p) (TotalRequests (used (now - minute))) \<and> below (TPM p) (TotalTokens (used (now - minute))))
            then Inl ErrGatewayRateLimited
            else if below (DailyRequests p) (TotalRequests (used d)) \<and> below (MonthlyRequests p) (TotalRequests (used mo)) \<and>
              below (DailyTokens p) (TotalTokens (used d)) \<and> below (MonthlyTokens p) (TotalTokens (used mo))
            then Inr () else Inl ErrGatewayQuotaExceeded)"
  using key_ledger.policy_calm [of s now key tz m time_now] assms
  by (cases "policy_for s (key_ID key) m")
    (simp_all add: gateway_CheckPolicy_def calm_store_def windows_not_zero ledger_policy_window Let_def)

theorem policy_exact_witness:
  "fst (gateway_CheckPolicy 0 (Some (quota_key 0 0)) ''gpt-5.5'' (10 * second) used_store) = Inl ErrGatewayRateLimited"
  by (subst policy_exact) (rule used_store_ok allI | code_simp)+

text \<open>
  A failing database is reported as a rate limit: when the policy of a key sets RPM and the
  statement that counts the last minute fails, the caller is told that it is rate limited.
\<close>
theorem policy_failure_is_rate_limit:
  assumes "store_ok s" "TrimSpace m = ''''" "policy_for s (key_ID key) m = Some p" "0 < RPM p" "0 < key_ID key"
    and "\<not> IsZero now" "\<not> fault s (stmts s)" "fault s (Suc (stmts s))"
  shows "fst (gateway_CheckPolicy tz (Some key) m now s) = Inl ErrGatewayRateLimited"
proof -
  let ?P = "\<lambda>p. po_APIKeyID p = key_ID key \<and> po_ModelID p = ''*''"
  have "on_policies (only_row ?P) s =
      (case find ?P (rows (policies s)) of None \<Rightarrow> Inl DBNotFound | Some r \<Rightarrow> Inr r, s\<lparr>stmts := Suc (stmts s)\<rparr>)"
    using policy_tbl.only_search [of s ?P] assms(1,7) by (simp add: policy_clash_def)
  then have "repo_GetPolicyForKeyModel (key_ID key) m s = (Inr (Some p), s\<lparr>stmts := Suc (stmts s)\<rparr>)"
    using assms(2,3) by (simp add: repo_GetPolicyForKeyModel_def query_policy_def optional_def try_op_def policy_for_def)
  moreover have "repo_SummarizeUsage f (s\<lparr>stmts := Suc (stmts s)\<rparr>) = (Inl DBFailed, s\<lparr>stmts := Suc (Suc (stmts s))\<rparr>)" for f
    using assms(8) by (simp add: repo_SummarizeUsage_def query_usage_def db_stmt_def bind_op_def)
  ultimately show ?thesis
    using assms(4-6)
    by (simp add: gateway_CheckPolicy_def CheckPolicy_def or_now_def bind_op_def Let_def as_rate_limited_def
        try_op_def checkWindow_def)
qed

theorem policy_failure_is_rate_limit_witness:
  "fst (gateway_CheckPolicy 0 (Some (quota_key 0 0)) '''' second (used_store\<lparr>fault := (\<lambda>n. n = 1), usage := empty_tbl\<rparr>)) =
     Inl ErrGatewayRateLimited"
proof (rule policy_failure_is_rate_limit)
  show "store_ok (used_store\<lparr>fault := (\<lambda>n. n = 1), usage := empty_tbl\<rparr>)"
    using used_store_ok(1) by (simp add: store_ok_def)
  show "policy_for (used_store\<lparr>fault := (\<lambda>n. n = 1), usage := empty_tbl\<rparr>) (key_ID (quota_key 0 0)) '''' =
      Some (hd (rows (policies used_store)))"
    by code_simp
qed (code_simp | simp add: used_store_def fresh_store_def quota_key_def IsZero_def zero_time_def second_def)+

end
