(* ===== verification/UsageSummaries.thy ===== *)
theory UsageSummaries
  imports UsageRepo
begin

text \<open>
  Usage grouped by key and by session (ListUsageKeySummaries, ListUsageSessionSummaries in
  internal/data/gateway\_repo.go): the joins with the keys and the context summaries, the totals
  of each group, and the cost of each group, which is left out when a price is missing.
  Texts are ordered by their bytes.
\<close>

section \<open>Groups\<close>

text \<open>\<open>MAX\<close> of a column: null where no row has a value.\<close>

fun max_of :: "('a :: linorder) list \<Rightarrow> 'a option" where
  "max_of [] = None"
| "max_of (x # xs) = (case max_of xs of None \<Rightarrow> Some x | Some y \<Rightarrow> Some (max x y))"

definition coalesce :: "'a \<Rightarrow> 'a option \<Rightarrow> 'a" where
  "coalesce d x = (case x of None \<Rightarrow> d | Some v \<Rightarrow> v)"

definition group_by :: "('a \<Rightarrow> 'k) \<Rightarrow> 'a list \<Rightarrow> ('k \<times> 'a list) list" where
  "group_by f xs = map (\<lambda>k. (k, filter (\<lambda>x. f x = k) xs)) (remdups (map f xs))"

definition row_key :: "usage_row \<Rightarrow> int" where
  "row_key r = coalesce 0 (u_api_key_id r)"

text \<open>\<open>LEFT JOIN gateway_api_keys k ON k.id = l.api_key_id\<close>: the keys of the rows that have one.\<close>

definition joined_keys :: "api_key_row list \<Rightarrow> usage_row list \<Rightarrow> api_key_row list" where
  "joined_keys ks rs = concat (map (\<lambda>r. filter (\<lambda>k. u_api_key_id r = Some (k_id k)) ks) rs)"

definition shown_prefix :: "api_key_row list \<Rightarrow> usage_row list \<Rightarrow> string" where
  "shown_prefix js rs =
     (case max_of (map k_key_prefix js) of
        Some p \<Rightarrow> p
      | None \<Rightarrow> coalesce '''' (max_of (filter (\<lambda>p. p \<noteq> '''') (map u_api_key_prefix rs))))"

text \<open>These two queries do not sum the bytes.\<close>

definition group_totals :: "usage_row list \<Rightarrow> usage_totals" where
  "group_totals rs = (totals rs)\<lparr>TotalBytesIn := 0, TotalBytesOut := 0\<rparr>"

section \<open>Costs of groups\<close>

text \<open>
  The loop over the lines \<open>(group, model, input, cached, output)\<close> of the cost query: the sums, the
  groups seen, and those with a model without price. \<open>None\<close> is a scan error.
\<close>

fun cost_rows ::
  "(string \<rightharpoonup> GatewayModelPrice) \<Rightarrow> ('k \<times> string \<times> int \<times> int \<times> int) list \<Rightarrow>
   ('k \<Rightarrow> rat) \<times> 'k set \<times> 'k set \<Rightarrow> (('k \<Rightarrow> rat) \<times> 'k set \<times> 'k set) option" where
  "cost_rows ps [] st = Some st"
| "cost_rows ps ((k, m, i, c, out) # gs) (spent, seen, missing) =
     (if \<not> (fits_int64 i \<and> fits_int64 c \<and> fits_int64 out) then None
      else if i \<le> 0 \<and> c \<le> 0 \<and> out \<le> 0 then cost_rows ps gs (spent, insert k seen, missing)
      else case ps m of
             None \<Rightarrow> cost_rows ps gs (spent, insert k seen, insert k missing)
           | Some price \<Rightarrow>
               cost_rows ps gs (spent(k := spent k + estimateCostForTokens i c out price), insert k seen, missing))"

definition cost_lines :: "(usage_row \<Rightarrow> 'k) \<Rightarrow> usage_row list \<Rightarrow> ('k \<times> string \<times> int \<times> int \<times> int) list" where
  "cost_lines f rs =
     map (\<lambda>((k, m), g). (k, m, sum_of u_input_tokens g, sum_of u_cached_tokens g, sum_of u_output_tokens g))
       (group_by (\<lambda>r. (f r, u_model r)) rs)"

text \<open>The cost of one group; the price map holds the official prices, so it is never empty.\<close>

definition group_cost :: "(string \<rightharpoonup> GatewayModelPrice) \<Rightarrow> (usage_row \<Rightarrow> 'k) \<Rightarrow> usage_row list \<Rightarrow> 'k \<Rightarrow> rat option" where
  "group_cost ps f rs k =
     (case cost_rows ps (cost_lines f rs) (\<lambda>_. 0, {}, {}) of
        None \<Rightarrow> None
      | Some (spent, seen, missing) \<Rightarrow> if k \<notin> seen \<or> k \<in> missing then None else Some (spent k))"

definition attach_costs ::
  "usage_cond list \<Rightarrow> (usage_row \<Rightarrow> bool) \<Rightarrow> (usage_row \<Rightarrow> 'k) \<Rightarrow> ('a \<Rightarrow> 'k) \<Rightarrow> ('a \<Rightarrow> rat option \<Rightarrow> 'a) \<Rightarrow>
   'a list \<Rightarrow> (store, 'a list) op" where
  "attach_costs cs P f key set_cost list =
     (if list = [] then ok list
      else try_op listModelPriceMap (\<lambda>r. case r of
        Inl _ \<Rightarrow> ok list
      | Inr ps \<Rightarrow> try_op (query_usage cs) (\<lambda>q. case q of
          Inl _ \<Rightarrow> ok list
        | Inr rs \<Rightarrow> ok (map (\<lambda>item. case group_cost ps f (filter P rs) (key item) of
              None \<Rightarrow> item | Some cost \<Rightarrow> set_cost item (Some cost)) list))))"

section \<open>By key\<close>

record GatewayUsageKeySummary =
  ks_APIKeyID :: int
  ks_APIKeyPrefix :: string
  ks_APIKeyName :: string
  ks_Disabled :: bool
  ks_Totals :: usage_totals
  ks_EstimatedCostUSD :: "rat option"

definition key_summary :: "api_key_row list \<Rightarrow> int \<times> usage_row list \<Rightarrow> GatewayUsageKeySummary" where
  "key_summary ks = (\<lambda>(i, rs).
     let js = joined_keys ks rs
     in \<lparr>ks_APIKeyID = i, ks_APIKeyPrefix = shown_prefix js rs,
         ks_APIKeyName = coalesce '''' (max_of (map k_name js)),
         ks_Disabled = list_ex k_disabled js, ks_Totals = group_totals rs, ks_EstimatedCostUSD = None\<rparr>)"

text \<open>The query reads the usage and the key table in one statement.\<close>

definition query_usage_keys :: "usage_cond list \<Rightarrow> (store, usage_row list \<times> api_key_row list) op" where
  "query_usage_keys cs = db_stmt (\<lambda>s.
     (Inr (filter (conds_hold (rows (keys s)) cs) (rows (usage s)), rows (keys s)), s))"

definition scan_all :: "('a \<Rightarrow> usage_totals) \<Rightarrow> 'a list \<Rightarrow> 'a list result" where
  "scan_all f xs = (if list_all (\<lambda>x. totals_fit (f x)) xs then Inr xs else Inl (ErrText ''sql: Scan error''))"

definition attachUsageKeySummaryCosts ::
  "GatewayUsageFilter \<Rightarrow> GatewayUsageKeySummary list \<Rightarrow> (store, GatewayUsageKeySummary list) op" where
  "attachUsageKeySummaryCosts f list =
     attach_costs (usage_conds f) (\<lambda>_. True) row_key ks_APIKeyID (\<lambda>x c. x\<lparr>ks_EstimatedCostUSD := c\<rparr>) list"

definition repo_ListUsageKeySummaries ::
  "GatewayUsageFilter \<Rightarrow> int \<Rightarrow> (store, GatewayUsageKeySummary list) op" where
  "repo_ListUsageKeySummaries f limit =
     bind_op (query_usage_keys (usage_conds f)) (\<lambda>(rs, ks).
     bind_op (from_result (scan_all ks_Totals
         (take (nat limit)
           (sort_key (\<lambda>x. (- TotalTokens (ks_Totals x), - TotalRequests (ks_Totals x)))
             (map (key_summary ks) (group_by row_key rs)))))) (\<lambda>out.
       attachUsageKeySummaryCosts f out))"

section \<open>By session\<close>

record GatewayUsageSessionSummary =
  ss_SessionID :: string
  ss_APIKeyID :: int
  ss_APIKeyPrefix :: string
  ss_APIKeyName :: string
  ss_Totals :: usage_totals
  ss_EstimatedCostUSD :: "rat option"
  ss_FirstSeenAt :: int
  ss_LastSeenAt :: int
  ss_ContextCompactionCount :: int
  ss_ContextSummary :: string
  ss_ContextOriginalBytes :: int
  ss_ContextCompactedBytes :: int
  ss_ContextOriginalTokens :: int
  ss_ContextCompactedTokens :: int
  ss_ContextCompactedAt :: "int option"

definition session_summary ::
  "api_key_row list \<Rightarrow> summary_row list \<Rightarrow> string \<times> usage_row list \<Rightarrow> GatewayUsageSessionSummary" where
  "session_summary ks cts = (\<lambda>(sid, rs).
     let js = joined_keys ks rs;
         cs = filter (\<lambda>c. c_session_id c = sid) cts;
         most = (\<lambda>f. coalesce 0 (max_of (map f cs)))
     in \<lparr>ss_SessionID = sid,
         ss_APIKeyID = coalesce 0 (max_of (List.map_filter u_api_key_id rs)),
         ss_APIKeyPrefix = shown_prefix js rs,
         ss_APIKeyName = coalesce '''' (max_of (map k_name js)),
         ss_Totals = group_totals rs, ss_EstimatedCostUSD = None,
         ss_FirstSeenAt = - coalesce 0 (max_of (map (\<lambda>r. - u_created_at r) rs)),
         ss_LastSeenAt = coalesce 0 (max_of (map u_created_at rs)),
         ss_ContextCompactionCount = most c_compaction_count,
         ss_ContextSummary = coalesce '''' (max_of (map c_summary cs)),
         ss_ContextOriginalBytes = most c_last_original_bytes,
         ss_ContextCompactedBytes = most c_last_compacted_bytes,
         ss_ContextOriginalTokens = most c_last_original_tokens,
         ss_ContextCompactedTokens = most c_last_compacted_tokens,
         ss_ContextCompactedAt = max_of (map c_updated_at cs)\<rparr>)"

definition has_session :: "usage_row \<Rightarrow> bool" where
  "has_session r = (u_session_id r \<noteq> '''')"

definition query_sessions ::
  "usage_cond list \<Rightarrow> (store, usage_row list \<times> api_key_row list \<times> summary_row list) op" where
  "query_sessions cs = db_stmt (\<lambda>s.
     (Inr (filter has_session (filter (conds_hold (rows (keys s)) cs) (rows (usage s))),
           rows (keys s), rows (summaries s)), s))"

definition attachUsageSessionSummaryCosts ::
  "GatewayUsageFilter \<Rightarrow> GatewayUsageSessionSummary list \<Rightarrow> (store, GatewayUsageSessionSummary list) op" where
  "attachUsageSessionSummaryCosts f list =
     attach_costs (usage_conds f) has_session u_session_id ss_SessionID (\<lambda>x c. x\<lparr>ss_EstimatedCostUSD := c\<rparr>) list"

definition repo_ListUsageSessionSummaries ::
  "GatewayUsageFilter \<Rightarrow> int \<Rightarrow> int \<Rightarrow> (store, GatewayUsageSessionSummary list \<times> int) op" where
  "repo_ListUsageSessionSummaries f limit offset =
     bind_op (query_sessions (usage_conds f)) (\<lambda>(counted, _, _).
     bind_op (query_sessions (usage_conds f)) (\<lambda>(rs, ks, cts).
     bind_op (from_result (scan_all ss_Totals
         (page limit offset
           (sort_key (\<lambda>x. - ss_LastSeenAt x)
             (map (session_summary ks cts) (group_by u_session_id rs)))))) (\<lambda>out.
     bind_op (attachUsageSessionSummaryCosts f out) (\<lambda>list.
       ok (list, int (length (remdups (map u_session_id counted))))))))"

end
