(* ===== verification/OpsRepo.thy ===== *)
theory OpsRepo
  imports ModelRepo
begin

text \<open>
  The operational tables in the repository (internal/data/gateway\_repo.go): context summaries
  of long sessions, the audit log and its redaction, alert rules and alert events.
\<close>

section \<open>Context summaries\<close>

record GatewayContextSummary =
  cs_SessionID :: string
  cs_APIKeyID :: int
  cs_APIKeyPrefix :: string
  cs_Summary :: string
  cs_SummaryTokens :: int
  cs_CompactionCount :: int
  cs_LastRequestID :: string
  cs_LastReason :: string
  cs_LastOriginalBytes :: int
  cs_LastCompactedBytes :: int
  cs_LastOriginalTokens :: int
  cs_LastCompactedTokens :: int
  cs_LastError :: string
  cs_CreatedAt :: int
  cs_UpdatedAt :: int

definition mapGatewayContextSummary :: "summary_row \<Rightarrow> GatewayContextSummary" where
  "mapGatewayContextSummary r =
     \<lparr>cs_SessionID = c_session_id r, cs_APIKeyID = (case c_api_key_id r of None \<Rightarrow> 0 | Some i \<Rightarrow> i),
      cs_APIKeyPrefix = c_api_key_prefix r, cs_Summary = c_summary r, cs_SummaryTokens = c_summary_tokens r,
      cs_CompactionCount = c_compaction_count r, cs_LastRequestID = c_last_request_id r,
      cs_LastReason = c_last_reason r, cs_LastOriginalBytes = c_last_original_bytes r,
      cs_LastCompactedBytes = c_last_compacted_bytes r, cs_LastOriginalTokens = c_last_original_tokens r,
      cs_LastCompactedTokens = c_last_compacted_tokens r, cs_LastError = c_last_error r,
      cs_CreatedAt = c_created_at r, cs_UpdatedAt = c_updated_at r\<rparr>"

definition repo_GetContextSummary :: "string \<Rightarrow> (store, GatewayContextSummary option) op" where
  "repo_GetContextSummary sessionID =
     (let sid = TrimSpace sessionID
      in if sid = '''' then ok None
         else bind_op (optional (on_summaries (only_row (\<lambda>r. c_session_id r = sid)))) (\<lambda>item.
                ok (map_option mapGatewayContextSummary item)))"

text \<open>The row of a new summary; the fields the update sets are the same.\<close>

definition summary_row_of :: "GatewayContextSummary \<Rightarrow> int \<Rightarrow> int \<Rightarrow> summary_row" where
  "summary_row_of item now i =
     \<lparr>c_id = i, c_session_id = cs_SessionID item,
      c_api_key_id = (if cs_APIKeyID item > 0 then Some (cs_APIKeyID item) else None),
      c_api_key_prefix = cs_APIKeyPrefix item, c_summary = cs_Summary item,
      c_summary_tokens = cs_SummaryTokens item, c_compaction_count = cs_CompactionCount item,
      c_last_request_id = cs_LastRequestID item, c_last_reason = cs_LastReason item,
      c_last_original_bytes = cs_LastOriginalBytes item, c_last_compacted_bytes = cs_LastCompactedBytes item,
      c_last_original_tokens = cs_LastOriginalTokens item, c_last_compacted_tokens = cs_LastCompactedTokens item,
      c_last_error = cs_LastError item, c_created_at = now, c_updated_at = now\<rparr>"

definition summary_texts_valid :: "GatewayContextSummary \<Rightarrow> bool" where
  "summary_texts_valid item =
     (max_len 16 (cs_APIKeyPrefix item) \<and> max_len 128 (cs_LastRequestID item) \<and>
      max_len 64 (cs_LastReason item) \<and> max_len 256 (cs_LastError item))"

definition write_summary :: "GatewayContextSummary \<Rightarrow> (store, unit) op" where
  "write_summary item =
     bind_op time_now (\<lambda>now.
     checked (summary_texts_valid item)
       (bind_op (on_summaries (update_rows (\<lambda>r. c_session_id r = cs_SessionID item)
            (\<lambda>r. (summary_row_of item now (c_id r))\<lparr>c_created_at := c_created_at r, c_session_id := c_session_id r\<rparr>)))
          (\<lambda>updated.
             if updated > 0 then ok ()
             else bind_op time_now (\<lambda>now2.
                  checked (summary_valid (summary_row_of item now2 0))
                    (bind_op (on_summaries (insert_row summary_clash (summary_row_of item now2))) (\<lambda>_. ok ()))))))"

definition repo_UpsertContextSummary :: "GatewayContextSummary \<Rightarrow> (store, unit) op" where
  "repo_UpsertContextSummary item =
     (let item1 = item\<lparr>cs_SessionID := TrimSpace (cs_SessionID item), cs_Summary := TrimSpace (cs_Summary item)\<rparr>
      in if cs_SessionID item1 = '''' \<or> cs_Summary item1 = '''' then fail ErrBadParam
         else write_summary item1)"

section \<open>Audit log\<close>

record GatewayAuditLog =
  au_ActorID :: int
  au_ActorName :: string
  au_ActorRole :: string
  au_Action :: string
  au_TargetType :: string
  au_TargetID :: string
  au_Metadata :: "(string \<times> any) list"

definition sensitive_words :: "string list" where
  "sensitive_words =
     [''key'', ''token'', ''secret'', ''password'', ''authorization'', ''prompt'', ''response'', ''body'']"

definition sensitive :: "string \<Rightarrow> bool" where
  "sensitive key = list_ex (contains (ToLower key)) sensitive_words"

text \<open>A Go map as the list of its entries.\<close>

definition sanitizeAuditMetadata :: "(string \<times> any) list \<Rightarrow> (string \<times> any) list" where
  "sanitizeAuditMetadata m = filter (\<lambda>(key, _). \<not> sensitive key) m"

definition audit_row_of :: "GatewayAuditLog \<Rightarrow> int \<Rightarrow> int \<Rightarrow> audit_row" where
  "audit_row_of item now i =
     \<lparr>g_id = i, g_actor_id = au_ActorID item, g_actor_name = au_ActorName item,
      g_actor_role = au_ActorRole item, g_action = au_Action item, g_target_type = au_TargetType item,
      g_target_id = au_TargetID item, g_metadata = sanitizeAuditMetadata (au_Metadata item), g_created_at = now\<rparr>"

definition repo_CreateAuditLog :: "GatewayAuditLog \<Rightarrow> (store, unit) op" where
  "repo_CreateAuditLog item =
     bind_op time_now (\<lambda>now.
     checked (audit_valid (audit_row_of item now 0))
       (bind_op (on_audits (insert_row no_clash (audit_row_of item now))) (\<lambda>_. ok ())))"

section \<open>Alert rules and events\<close>

record GatewayAlertEvent =
  ev_ID :: int
  ev_RuleID :: int
  ev_RuleName :: string
  ev_Metric :: string
  ev_Value :: rat
  ev_Threshold :: rat
  ev_Status :: string
  ev_AckBy :: int
  ev_AckAt :: "int option"
  ev_CreatedAt :: int

definition repo_ListAlertRules :: "(store, GatewayAlertRule list) op" where
  "repo_ListAlertRules =
     bind_op (on_rules (select_rows (\<lambda>_. True))) (\<lambda>list. ok (sort_key (\<lambda>r. - a_CreatedAt r) list))"

definition repo_UpsertAlertRule :: "GatewayAlertRule \<Rightarrow> (store, GatewayAlertRule) op" where
  "repo_UpsertAlertRule item =
     checked (rule_valid item)
       (bind_op time_now (\<lambda>now.
          if a_ID item \<le> 0
          then on_rules (insert_row no_clash (\<lambda>i. item\<lparr>a_ID := i, a_CreatedAt := now, a_UpdatedAt := now\<rparr>))
          else on_rules (update_row a_ID no_clash (a_ID item) (\<lambda>r.
                 r\<lparr>a_Name := a_Name item, a_Metric := a_Metric item, a_Operator := a_Operator item,
                   a_Threshold := a_Threshold item, a_WindowSeconds := a_WindowSeconds item,
                   a_Enabled := a_Enabled item, a_UpdatedAt := now\<rparr>))))"

definition repo_DeleteAlertRule :: "int \<Rightarrow> (store, unit) op" where
  "repo_DeleteAlertRule i =
     bind_op (on_events (delete_rows (\<lambda>e. e_rule_id e = Some i))) (\<lambda>_.
       on_rules (delete_row a_ID i))"

definition repo_SetAlertRuleEnabled :: "int \<Rightarrow> bool \<Rightarrow> (store, unit) op" where
  "repo_SetAlertRuleEnabled i enabled =
     bind_op time_now (\<lambda>now.
     bind_op (on_rules (update_row a_ID no_clash i (\<lambda>r. r\<lparr>a_Enabled := enabled, a_UpdatedAt := now\<rparr>)))
       (\<lambda>_. ok ()))"

definition mapGatewayAlertEvent :: "event_row \<Rightarrow> GatewayAlertEvent" where
  "mapGatewayAlertEvent r =
     \<lparr>ev_ID = e_id r, ev_RuleID = (case e_rule_id r of None \<Rightarrow> 0 | Some i \<Rightarrow> i), ev_RuleName = e_rule_name r,
      ev_Metric = e_metric r, ev_Value = e_value r, ev_Threshold = e_threshold r, ev_Status = e_status r,
      ev_AckBy = (case e_ack_by r of None \<Rightarrow> 0 | Some i \<Rightarrow> i), ev_AckAt = e_ack_at r,
      ev_CreatedAt = e_created_at r\<rparr>"

definition repo_ListAlertEvents :: "string \<Rightarrow> int \<Rightarrow> int \<Rightarrow> (store, GatewayAlertEvent list \<times> int) op" where
  "repo_ListAlertEvents status limit offset =
     (let P = (\<lambda>e. status \<noteq> '''' \<longrightarrow> e_status e = status)
      in bind_op (on_events (select_rows P)) (\<lambda>counted.
         bind_op (on_events (select_rows P)) (\<lambda>list.
           ok (map mapGatewayAlertEvent (page limit offset (sort_key (\<lambda>e. - e_created_at e) list)),
               int (length counted)))))"

definition repo_AckAlertEvent :: "int \<Rightarrow> int \<Rightarrow> int \<Rightarrow> (store, unit) op" where
  "repo_AckAlertEvent i ackBy ackAt =
     bind_op (on_events (update_row e_id no_clash i (\<lambda>e.
        e\<lparr>e_status := ''acknowledged'', e_ack_by := Some ackBy, e_ack_at := Some ackAt\<rparr>))) (\<lambda>_. ok ())"

definition event_row_of :: "GatewayAlertEvent \<Rightarrow> int \<Rightarrow> int \<Rightarrow> event_row" where
  "event_row_of item now i =
     \<lparr>e_id = i, e_rule_id = (if ev_RuleID item > 0 then Some (ev_RuleID item) else None),
      e_rule_name = ev_RuleName item, e_metric = ev_Metric item, e_value = ev_Value item,
      e_threshold = ev_Threshold item, e_status = ev_Status item, e_ack_by = None, e_ack_at = None,
      e_created_at = now\<rparr>"

definition repo_CreateAlertEvent :: "GatewayAlertEvent \<Rightarrow> (store, unit) op" where
  "repo_CreateAlertEvent item =
     bind_op time_now (\<lambda>now.
     checked (event_valid (event_row_of item now 0))
       (bind_op (on_events (insert_row no_clash (event_row_of item now))) (\<lambda>_. ok ())))"

section \<open>Well-formedness\<close>

lemmas ops_row_simps = summary_row_of_def summary_valid_def summary_texts_valid_def summary_clash_def
  audit_row_of_def audit_valid_def event_row_of_def event_valid_def rule_valid_def no_clash_def

lemmas ops_stmts = summary_tbl.keeps_stmts audit_tbl.keeps_stmts rule_tbl.keeps_stmts event_tbl.keeps_stmts

lemma keeps_context_summaries [op_keeps]:
  "keeps store_ok (repo_GetContextSummary sid)"
  "keeps store_ok (repo_UpsertContextSummary item)"
  unfolding repo_GetContextSummary_def repo_UpsertContextSummary_def write_summary_def
  by (intro op_keeps model_keeps ops_stmts; simp add: ops_row_simps)+

lemma keeps_audit [op_keeps]: "keeps store_ok (repo_CreateAuditLog entry)"
  unfolding repo_CreateAuditLog_def by (intro op_keeps ops_stmts; simp add: ops_row_simps)

lemma keeps_alerts [op_keeps]:
  "keeps store_ok repo_ListAlertRules"
  "keeps store_ok (repo_UpsertAlertRule rule)"
  "keeps store_ok (repo_DeleteAlertRule i)"
  "keeps store_ok (repo_SetAlertRuleEnabled i b)"
  "keeps store_ok (repo_ListAlertEvents status limit offset)"
  "keeps store_ok (repo_AckAlertEvent i ackBy ackAt)"
  "keeps store_ok (repo_CreateAlertEvent event)"
  unfolding repo_ListAlertRules_def repo_UpsertAlertRule_def repo_DeleteAlertRule_def
    repo_SetAlertRuleEnabled_def repo_ListAlertEvents_def repo_AckAlertEvent_def repo_CreateAlertEvent_def
  by (intro op_keeps ops_stmts; simp add: ops_row_simps max_len_def)+

end
