(* ===== verification/UsageService.thy ===== *)
theory UsageService
  imports Quota UsageSummaries OpsRepo
begin

text \<open>
  The use cases on metering, context summaries, the audit log and alerts
  (internal/biz/gateway.go): a usage log is normalised, written, and then the alert rules are
  evaluated on the usage of their windows. The locale \<open>alert_store\<close> is what the evaluation
  relies on.
\<close>

section \<open>Usage\<close>

definition normalizeUsageFilter :: "GatewayUsageFilter \<Rightarrow> GatewayUsageFilter" where
  "normalizeUsageFilter f =
     (let ids = normalizePositiveIDs (f_KeyIDs f)
      in f\<lparr>f_KeyIDs := (if ids = [] \<and> f_KeyID f > 0 then [f_KeyID f] else ids),
           f_ClientType := NormalizeGatewayClientType (f_ClientType f),
           f_SessionID := TrimSpace (f_SessionID f),
           f_Model := TrimSpace (f_Model f),
           f_Endpoint := TrimSpace (f_Endpoint f),
           f_UpstreamMode := NormalizeGatewayUpstreamMode (f_UpstreamMode f),
           f_UpstreamErrorType := TrimSpace (f_UpstreamErrorType f),
           f_ErrorType := TrimSpace (f_ErrorType f),
           f_ExcludeErrorType := TrimSpace (f_ExcludeErrorType f)\<rparr>)"

definition ListUsageLogs ::
  "(GatewayUsageFilter \<Rightarrow> ('s, GatewayUsageLog list \<times> int) op) \<Rightarrow> GatewayUsageFilter \<Rightarrow>
   ('s, GatewayUsageLog list \<times> int) op" where
  "ListUsageLogs list f =
     list (normalizeUsageFilter (f\<lparr>f_Limit := normalizeLimit (f_Limit f), f_Offset := normalizeOffset (f_Offset f)\<rparr>))"

definition SummarizeUsage ::
  "(GatewayUsageFilter \<Rightarrow> ('s, GatewayUsageSummary) op) \<Rightarrow> GatewayUsageFilter \<Rightarrow> ('s, GatewayUsageSummary) op" where
  "SummarizeUsage summarize f = summarize (normalizeUsageFilter f)"

definition ListUsageBuckets ::
  "(GatewayUsageFilter \<Rightarrow> string \<Rightarrow> ('s, GatewayUsageBucket list) op) \<Rightarrow> GatewayUsageFilter \<Rightarrow> string \<Rightarrow>
   ('s, GatewayUsageBucket list) op" where
  "ListUsageBuckets list f groupBy0 =
     (let g = TrimSpace (ToLower groupBy0); groupBy = (if g = '''' then ''day'' else g)
      in if groupBy \<noteq> ''day'' \<and> groupBy \<noteq> ''day_model'' then fail ErrBadParam
         else list (normalizeUsageFilter f) groupBy)"

definition ListUsageKeySummaries ::
  "(GatewayUsageFilter \<Rightarrow> int \<Rightarrow> ('s, GatewayUsageKeySummary list) op) \<Rightarrow> GatewayUsageFilter \<Rightarrow> int \<Rightarrow>
   ('s, GatewayUsageKeySummary list) op" where
  "ListUsageKeySummaries list f limit = list (normalizeUsageFilter f) (normalizeLimit limit)"

definition ListUsageSessionSummaries ::
  "(GatewayUsageFilter \<Rightarrow> int \<Rightarrow> int \<Rightarrow> ('s, GatewayUsageSessionSummary list \<times> int) op) \<Rightarrow>
   GatewayUsageFilter \<Rightarrow> int \<Rightarrow> int \<Rightarrow> ('s, GatewayUsageSessionSummary list \<times> int) op" where
  "ListUsageSessionSummaries list f limit offset =
     list (normalizeUsageFilter f) (normalizeLimit limit) (normalizeOffset offset)"

section \<open>Context summaries\<close>

definition GetContextSummary ::
  "(string \<Rightarrow> ('s, GatewayContextSummary option) op) \<Rightarrow> string \<Rightarrow> ('s, GatewayContextSummary option) op" where
  "GetContextSummary get sessionID =
     (let sid = TrimSpace sessionID in if sid = '''' then ok None else get sid)"

text \<open>A summary without a token count is estimated at a token for four runes.\<close>

definition UpsertContextSummary ::
  "(GatewayContextSummary \<Rightarrow> ('s, unit) op) \<Rightarrow> GatewayContextSummary \<Rightarrow> ('s, unit) op" where
  "UpsertContextSummary upsert item0 =
     (let item = item0\<lparr>cs_SessionID := TrimSpace (cs_SessionID item0),
            cs_APIKeyPrefix := TrimSpace (cs_APIKeyPrefix item0), cs_Summary := TrimSpace (cs_Summary item0),
            cs_LastRequestID := TrimSpace (cs_LastRequestID item0), cs_LastReason := TrimSpace (cs_LastReason item0),
            cs_LastError := TrimSpace (cs_LastError item0)\<rparr>
      in if cs_SessionID item = '''' \<or> cs_Summary item = '''' then ok ()
         else upsert (if cs_SummaryTokens item \<le> 0
                      then item\<lparr>cs_SummaryTokens := (int (rune_count (cs_Summary item)) + 3) div 4\<rparr> else item))"

section \<open>Audit\<close>

text \<open>A failed write is only logged.\<close>

definition ignore_op :: "('s, 'a) op \<Rightarrow> ('s, unit) op" where
  "ignore_op m = try_op m (\<lambda>_. ok ())"

definition CreateAuditLog :: "(GatewayAuditLog \<Rightarrow> ('s, unit) op) \<Rightarrow> GatewayAuditLog \<Rightarrow> ('s, unit) op" where
  "CreateAuditLog create item0 =
     (let item = item0\<lparr>au_Action := TrimSpace (au_Action item0)\<rparr>
      in if au_Action item = '''' then ok () else ignore_op (create item))"

section \<open>Alerts\<close>

definition UpsertAlertRule ::
  "(GatewayAlertRule \<Rightarrow> ('s, GatewayAlertRule) op) \<Rightarrow> GatewayAlertRule \<Rightarrow> ('s, GatewayAlertRule) op" where
  "UpsertAlertRule upsert item0 =
     (let item = item0\<lparr>a_Name := TrimSpace (a_Name item0), a_Metric := TrimSpace (a_Metric item0)\<rparr>
      in if a_Name item = '''' \<or> a_Metric item = '''' \<or> a_WindowSeconds item \<le> 0 then fail ErrBadParam
         else upsert (if a_Operator item = '''' then item\<lparr>a_Operator := ''>=''\<rparr> else item))"

definition DeleteAlertRule :: "(int \<Rightarrow> ('s, unit) op) \<Rightarrow> int \<Rightarrow> ('s, unit) op" where
  "DeleteAlertRule delete i = (if i \<le> 0 then fail ErrBadParam else delete i)"

definition SetAlertRuleEnabled :: "(int \<Rightarrow> bool \<Rightarrow> ('s, unit) op) \<Rightarrow> int \<Rightarrow> bool \<Rightarrow> ('s, unit) op" where
  "SetAlertRuleEnabled set_enabled i enabled = (if i \<le> 0 then fail ErrBadParam else set_enabled i enabled)"

definition ListAlertEvents ::
  "(string \<Rightarrow> int \<Rightarrow> int \<Rightarrow> ('s, GatewayAlertEvent list \<times> int) op) \<Rightarrow> string \<Rightarrow> int \<Rightarrow> int \<Rightarrow>
   ('s, GatewayAlertEvent list \<times> int) op" where
  "ListAlertEvents list status limit offset =
     list (TrimSpace status) (normalizeLimit limit) (normalizeOffset offset)"

definition AckAlertEvent ::
  "(int \<Rightarrow> int \<Rightarrow> int \<Rightarrow> ('s, unit) op) \<Rightarrow> ('s, int) op \<Rightarrow> int \<Rightarrow> int \<Rightarrow> ('s, unit) op" where
  "AckAlertEvent ack time_of i ackBy =
     (if i \<le> 0 then fail ErrBadParam else bind_op time_of (\<lambda>now. ack i ackBy now))"

definition alertMetricValue :: "string \<Rightarrow> usage_totals \<Rightarrow> rat" where
  "alertMetricValue metric t =
     (let m = TrimSpace metric
      in if m = ''failed_requests'' then of_int (FailedRequests t)
         else if m = ''total_tokens'' then of_int (TotalTokens t)
         else if m = ''average_duration_ms'' then of_int (AverageDurationMS t)
         else 0)"

definition compareAlertValue :: "rat \<Rightarrow> string \<Rightarrow> rat \<Rightarrow> bool" where
  "compareAlertValue v oper threshold =
     (let o' = TrimSpace oper
      in if o' = ''>'' then v > threshold
         else if o' = ''=='' then v = threshold
         else if o' = ''<='' then v \<le> threshold
         else if o' = ''<'' then v < threshold
         else v \<ge> threshold)"

text \<open>\<open>now.Add(-time.Duration(rule.WindowSeconds) * time.Second)\<close>; the product wraps.\<close>

definition alert_window :: "GatewayAlertRule \<Rightarrow> int \<Rightarrow> GatewayUsageFilter" where
  "alert_window rule now =
     no_filter\<lparr>f_StartTime := now + wrap64 (- a_WindowSeconds rule * second), f_EndTime := now\<rparr>"

definition alert_event :: "GatewayAlertRule \<Rightarrow> rat \<Rightarrow> GatewayAlertEvent" where
  "alert_event rule v =
     \<lparr>ev_ID = 0, ev_RuleID = a_ID rule, ev_RuleName = a_Name rule, ev_Metric = a_Metric rule, ev_Value = v,
      ev_Threshold = a_Threshold rule, ev_Status = ''open'', ev_AckBy = 0, ev_AckAt = None,
      ev_CreatedAt = zero_time\<rparr>"

text \<open>One turn of the loop: a rule that is off or cannot be evaluated is skipped.\<close>

definition evaluate_rule ::
  "(GatewayUsageFilter \<Rightarrow> ('s, GatewayUsageSummary) op) \<Rightarrow> (GatewayAlertEvent \<Rightarrow> ('s, unit) op) \<Rightarrow>
   int \<Rightarrow> GatewayAlertRule \<Rightarrow> ('s, unit) op" where
  "evaluate_rule summarize create_event now rule =
     (if \<not> a_Enabled rule then ok ()
      else try_op (summarize (alert_window rule now)) (\<lambda>r. case r of
             Inl _ \<Rightarrow> ok ()
           | Inr summary \<Rightarrow>
               let v = alertMetricValue (a_Metric rule) (su_Totals summary)
               in if \<not> compareAlertValue v (a_Operator rule) (a_Threshold rule) then ok ()
                  else ignore_op (create_event (alert_event rule v))))"

definition evaluateAlertRules ::
  "('s, GatewayAlertRule list) op \<Rightarrow> (GatewayUsageFilter \<Rightarrow> ('s, GatewayUsageSummary) op) \<Rightarrow>
   (GatewayAlertEvent \<Rightarrow> ('s, unit) op) \<Rightarrow> ('s, int) op \<Rightarrow> ('s, unit) op" where
  "evaluateAlertRules list_rules summarize create_event time_of =
     try_op list_rules (\<lambda>r. case r of
       Inl _ \<Rightarrow> ok ()
     | Inr rs \<Rightarrow>
         if rs = [] then ok ()
         else bind_op time_of (\<lambda>now. for_each (evaluate_rule summarize create_event now) rs))"

section \<open>Writing a usage log\<close>

definition normalize_usage_log :: "GatewayUsageLog \<Rightarrow> GatewayUsageLog" where
  "normalize_usage_log item =
     (let ct = NormalizeGatewayClientType (l_ClientType item)
      in item\<lparr>l_ClientType := (if ct = '''' then GatewayClientTypeOther else ct),
              l_UpstreamConfiguredMode := NormalizeGatewayUpstreamMode (l_UpstreamConfiguredMode item),
              l_UpstreamMode := NormalizeGatewayUpstreamMode (l_UpstreamMode item)\<rparr>)"

definition CreateUsageLog ::
  "(GatewayUsageLog \<Rightarrow> ('s, unit) op) \<Rightarrow> ('s, unit) op \<Rightarrow> GatewayUsageLog option \<Rightarrow> ('s, unit) op" where
  "CreateUsageLog create evaluate item0 =
     (case item0 of
        None \<Rightarrow> fail ErrBadParam
      | Some item \<Rightarrow> bind_op (create (normalize_usage_log item)) (\<lambda>_. evaluate))"

definition gateway_evaluateAlertRules :: "(store, unit) op" where
  "gateway_evaluateAlertRules =
     evaluateAlertRules repo_ListAlertRules repo_SummarizeUsage repo_CreateAlertEvent time_now"
definition gateway_CreateUsageLog where
  "gateway_CreateUsageLog = CreateUsageLog repo_CreateUsageLog gateway_evaluateAlertRules"
definition gateway_ListUsageLogs where
  "gateway_ListUsageLogs fmt float_round = ListUsageLogs (repo_ListUsageLogs fmt float_round)"
definition gateway_SummarizeUsage where
  "gateway_SummarizeUsage = SummarizeUsage repo_SummarizeUsage"
definition gateway_ListUsageBuckets where
  "gateway_ListUsageBuckets dbtz = ListUsageBuckets (repo_ListUsageBuckets dbtz)"
definition gateway_ListUsageKeySummaries where
  "gateway_ListUsageKeySummaries = ListUsageKeySummaries repo_ListUsageKeySummaries"
definition gateway_ListUsageSessionSummaries where
  "gateway_ListUsageSessionSummaries = ListUsageSessionSummaries repo_ListUsageSessionSummaries"
definition gateway_GetContextSummary where
  "gateway_GetContextSummary = GetContextSummary repo_GetContextSummary"
definition gateway_UpsertContextSummary where
  "gateway_UpsertContextSummary = UpsertContextSummary repo_UpsertContextSummary"
definition gateway_CreateAuditLog where
  "gateway_CreateAuditLog = CreateAuditLog repo_CreateAuditLog"
definition gateway_UpsertAlertRule where
  "gateway_UpsertAlertRule = UpsertAlertRule repo_UpsertAlertRule"
definition gateway_DeleteAlertRule where
  "gateway_DeleteAlertRule = DeleteAlertRule repo_DeleteAlertRule"
definition gateway_SetAlertRuleEnabled where
  "gateway_SetAlertRuleEnabled = SetAlertRuleEnabled repo_SetAlertRuleEnabled"
definition gateway_ListAlertEvents where
  "gateway_ListAlertEvents = ListAlertEvents repo_ListAlertEvents"
definition gateway_AckAlertEvent where
  "gateway_AckAlertEvent = AckAlertEvent repo_AckAlertEvent time_now"

lemma keeps_ignore_op [op_keeps]: "keeps P m \<Longrightarrow> keeps P (ignore_op m)"
  unfolding ignore_op_def by (intro op_keeps)

lemma keeps_evaluate [op_keeps]:
  assumes "keeps P repo_ListAlertRules" "\<And>f. keeps P (repo_SummarizeUsage f)" "\<And>e. keeps P (repo_CreateAlertEvent e)"
  shows "keeps P gateway_evaluateAlertRules"
  unfolding gateway_evaluateAlertRules_def evaluateAlertRules_def evaluate_rule_def
  by (intro op_keeps assms)

lemma keeps_gateway_usage [op_keeps]:
  "keeps store_ok (gateway_CreateUsageLog item)"
  "keeps store_ok (gateway_ListUsageLogs fmt float_round f)"
  "keeps store_ok (gateway_SummarizeUsage f)"
  "keeps store_ok (gateway_ListUsageBuckets dbtz f g)"
  unfolding gateway_CreateUsageLog_def CreateUsageLog_def gateway_ListUsageLogs_def ListUsageLogs_def
    gateway_SummarizeUsage_def SummarizeUsage_def gateway_ListUsageBuckets_def ListUsageBuckets_def
  by (intro op_keeps)+

lemma keeps_gateway_ops [op_keeps]:
  "keeps store_ok (gateway_GetContextSummary sid)"
  "keeps store_ok (gateway_UpsertContextSummary summary)"
  "keeps store_ok (gateway_CreateAuditLog entry)"
  "keeps store_ok (gateway_UpsertAlertRule rule)"
  "keeps store_ok (gateway_DeleteAlertRule i)"
  "keeps store_ok (gateway_SetAlertRuleEnabled i b)"
  "keeps store_ok (gateway_ListAlertEvents status limit offset)"
  "keeps store_ok (gateway_AckAlertEvent i ackBy)"
  unfolding gateway_GetContextSummary_def GetContextSummary_def gateway_UpsertContextSummary_def
    UpsertContextSummary_def gateway_CreateAuditLog_def CreateAuditLog_def gateway_UpsertAlertRule_def
    UpsertAlertRule_def gateway_DeleteAlertRule_def DeleteAlertRule_def gateway_SetAlertRuleEnabled_def
    SetAlertRuleEnabled_def gateway_ListAlertEvents_def ListAlertEvents_def gateway_AckAlertEvent_def
    AckAlertEvent_def
  by (intro op_keeps)+

section \<open>The interface of the alerts\<close>

text \<open>When a rule fires, and the event it leaves: rule, name, metric, value, threshold, status.\<close>

definition rule_value :: "(GatewayUsageFilter \<Rightarrow> usage_totals) \<Rightarrow> int \<Rightarrow> GatewayAlertRule \<Rightarrow> rat" where
  "rule_value u now rule = alertMetricValue (a_Metric rule) (u (alert_window rule now))"

definition fires :: "(GatewayUsageFilter \<Rightarrow> usage_totals) \<Rightarrow> int \<Rightarrow> GatewayAlertRule \<Rightarrow> bool" where
  "fires u now rule =
     (a_Enabled rule \<and> compareAlertValue (rule_value u now rule) (a_Operator rule) (a_Threshold rule))"

type_synonym event_facts = "int \<times> string \<times> string \<times> rat \<times> rat \<times> string"

definition fired :: "(GatewayUsageFilter \<Rightarrow> usage_totals) \<Rightarrow> int \<Rightarrow> GatewayAlertRule \<Rightarrow> event_facts" where
  "fired u now rule =
     (a_ID rule, a_Name rule, a_Metric rule, rule_value u now rule, a_Threshold rule, ''open'')"

definition facts_of :: "GatewayAlertEvent \<Rightarrow> event_facts" where
  "facts_of e = (ev_RuleID e, ev_RuleName e, ev_Metric e, ev_Value e, ev_Threshold e, ev_Status e)"

locale alert_store = usage_ledger calm used summarize
  for calm :: "'s \<Rightarrow> bool" and used :: "'s \<Rightarrow> GatewayUsageFilter \<Rightarrow> usage_totals"
  and summarize :: "GatewayUsageFilter \<Rightarrow> ('s, GatewayUsageSummary) op" +
  fixes rules_of :: "'s \<Rightarrow> GatewayAlertRule list" and events_of :: "'s \<Rightarrow> event_facts list"
    and list_rules :: "('s, GatewayAlertRule list) op"
    and create_event :: "GatewayAlertEvent \<Rightarrow> ('s, unit) op" and valid_event :: "GatewayAlertEvent \<Rightarrow> bool"
  assumes calm_rules: "calm s \<Longrightarrow> \<exists>t. list_rules s = (Inr (rules_of s), t) \<and> calm t \<and>
      used t = used s \<and> events_of t = events_of s"
    and summary_events: "summarize f s = (r, t) \<Longrightarrow> events_of t = events_of s"
    and calm_event: "calm s \<Longrightarrow> valid_event e \<Longrightarrow> \<exists>t. create_event e s = (Inr (), t) \<and> calm t \<and>
      used t = used s \<and> events_of t = events_of s @ [facts_of e]"
begin

lemma evaluate_rule_calm:
  assumes "calm s" "used s = u" "totals_fit (u (alert_window rule now))" "\<And>v. valid_event (alert_event rule v)"
  shows "\<exists>t. evaluate_rule summarize create_event now rule s = (Inr (), t) \<and> calm t \<and> used t = u \<and>
      events_of t = events_of s @ (if fires u now rule then [fired u now rule] else [])"
proof (cases "a_Enabled rule")
  case False
  then show ?thesis using assms by (simp add: evaluate_rule_def fires_def)
next
  case True
  have fit: "totals_fit (used s (alert_window rule now))" using assms(2,3) by simp
  obtain x s1 where x: "summarize (alert_window rule now) s = (Inr x, s1)" "calm s1"
    using calm_summary [OF assms(1) fit] by blast
  have law: "su_Totals x = u (alert_window rule now)" "used s1 = u" "events_of s1 = events_of s"
    using summary [OF x(1)] summary_events [OF x(1)] assms(2) by simp_all
  let ?v = "rule_value u now rule"
  obtain t where t: "create_event (alert_event rule ?v) s1 = (Inr (), t)" "calm t" "used t = used s1"
    "events_of t = events_of s1 @ [facts_of (alert_event rule ?v)]"
    using calm_event [OF x(2) assms(4)] by blast
  have ev: "facts_of (alert_event rule ?v) = fired u now rule"
    by (simp add: facts_of_def alert_event_def fired_def)
  show ?thesis
  proof (cases "fires u now rule")
    case True
    then have "evaluate_rule summarize create_event now rule s = (Inr (), t)"
      using x(1) law(1) t(1)
      by (simp add: evaluate_rule_def try_op_def ignore_op_def fires_def rule_value_def)
    then show ?thesis using True t law ev by simp
  next
    case False
    then have "evaluate_rule summarize create_event now rule s = (Inr (), s1)"
      using x(1) law(1) \<open>a_Enabled rule\<close>
      by (simp add: evaluate_rule_def try_op_def fires_def rule_value_def)
    then show ?thesis using False x(2) law by simp
  qed
qed

lemma evaluate_rules_calm:
  assumes "calm s" "used s = u" "\<forall>rule \<in> set rs. totals_fit (u (alert_window rule now))"
    and "\<forall>rule \<in> set rs. \<forall>v. valid_event (alert_event rule v)"
  shows "\<exists>t. for_each (evaluate_rule summarize create_event now) rs s = (Inr (), t) \<and>
      events_of t = events_of s @ map (fired u now) (filter (fires u now) rs)"
  using assms
proof (induction rs arbitrary: s)
  case Nil
  then show ?case by simp
next
  case (Cons rule rs)
  have "totals_fit (u (alert_window rule now))" "\<And>v. valid_event (alert_event rule v)"
    using Cons.prems(3,4) by simp_all
  then obtain s1 where s1: "evaluate_rule summarize create_event now rule s = (Inr (), s1)" "calm s1" "used s1 = u"
    "events_of s1 = events_of s @ (if fires u now rule then [fired u now rule] else [])"
    using evaluate_rule_calm [OF Cons.prems(1,2)] by blast
  have "\<forall>rule \<in> set rs. totals_fit (u (alert_window rule now))"
    "\<forall>rule \<in> set rs. \<forall>v. valid_event (alert_event rule v)"
    using Cons.prems(3,4) by simp_all
  then obtain t where "for_each (evaluate_rule summarize create_event now) rs s1 = (Inr (), t)"
    "events_of t = events_of s1 @ map (fired u now) (filter (fires u now) rs)"
    using Cons.IH [OF s1(2,3)] by blast
  then show ?case using s1(1,4) by (simp add: bind_op_def)
qed

text \<open>The events of an evaluation are those of the enabled rules whose comparison holds, in order.\<close>

lemma alerts_exact:
  assumes "calm s" "list_rules s = (Inr (rules_of s), s1)" "time_of s1 = (Inr now, s1)"
    and "\<forall>rule \<in> set (rules_of s). totals_fit (used s (alert_window rule now))"
    and "\<forall>rule \<in> set (rules_of s). \<forall>v. valid_event (alert_event rule v)"
  shows "\<exists>t. evaluateAlertRules list_rules summarize create_event time_of s = (Inr (), t) \<and>
      events_of t = events_of s @ map (fired (used s) now) (filter (fires (used s) now) (rules_of s))"
proof -
  have s1: "calm s1" "used s1 = used s" "events_of s1 = events_of s"
    using calm_rules [OF assms(1)] assms(2) by simp_all
  obtain t where "for_each (evaluate_rule summarize create_event now) (rules_of s) s1 = (Inr (), t)"
    "events_of t = events_of s1 @ map (fired (used s) now) (filter (fires (used s) now) (rules_of s))"
    using evaluate_rules_calm [OF s1(1,2) assms(4,5)] by blast
  then show ?thesis
    using s1(3) assms(2,3) by (simp add: evaluateAlertRules_def try_op_def bind_op_def)
qed

end

section \<open>The alerts of the database\<close>

definition store_rules :: "store \<Rightarrow> GatewayAlertRule list" where
  "store_rules s = sort_key (\<lambda>r. - a_CreatedAt r) (rows (rules s))"

definition store_events :: "store \<Rightarrow> event_facts list" where
  "store_events s = map (\<lambda>e. (coalesce 0 (e_rule_id e), e_rule_name e, e_metric e, e_value e, e_threshold e, e_status e))
     (rows (events s))"

definition event_fits :: "GatewayAlertEvent \<Rightarrow> bool" where
  "event_fits e = (event_valid (event_row_of e 0 0) \<and> 0 \<le> ev_RuleID e)"

lemma calm_list_rules:
  assumes "calm_store s"
  shows "repo_ListAlertRules s = (Inr (store_rules s), s\<lparr>stmts := Suc (stmts s)\<rparr>)"
proof -
  have "on_rules (select_rows (\<lambda>_. True)) s = (Inr (rows (rules s)), s\<lparr>stmts := Suc (stmts s)\<rparr>)"
    using rule_tbl.on_tbl_run [of s "select_rows (\<lambda>_. True)" "Inr (rows (rules s))" "rules s"] assms
    by (simp add: calm_store_def select_rows_def)
  then show ?thesis by (simp add: repo_ListAlertRules_def bind_op_def store_rules_def)
qed

lemma calm_create_event:
  assumes "calm_store s" "event_fits e"
  shows "\<exists>t. repo_CreateAlertEvent e s = (Inr (), t) \<and> calm_store t \<and> ledger t = ledger s \<and>
    store_events t = store_events s @ [facts_of e]"
proof -
  let ?mk = "event_row_of e (db_now s)"
  let ?r = "?mk (seq (events s) + 1)"
  let ?t = "s\<lparr>stmts := Suc (stmts s), events := \<lparr>rows = rows (events s) @ [?r], seq = seq (events s) + 1\<rparr>\<rparr>"
  have "on_events (insert_row no_clash ?mk) s = (Inr ?r, ?t)"
    using event_tbl.on_tbl_run [of s "insert_row no_clash ?mk" "Inr ?r"
        "\<lparr>rows = rows (events s) @ [?r], seq = seq (events s) + 1\<rparr>"] assms(1)
    by (simp add: calm_store_def insert_row_def no_clash_def Let_def)
  then have run: "repo_CreateAlertEvent e s = (Inr (), ?t)"
    using assms(2) by (simp add: repo_CreateAlertEvent_def bind_op_def time_now_def checked_def event_fits_def
        event_valid_def event_row_of_def)
  have "store_ok s" using assms(1) by (simp add: calm_store_def)
  then have "store_ok ?t" using run by (rule keepsD [OF keeps_alerts(7)])
  moreover have "store_events ?t = store_events s @ [facts_of e]"
    using assms(2) by (simp add: store_events_def facts_of_def event_row_of_def coalesce_def event_fits_def)
  moreover have "ledger ?t = ledger s" by (rule ledger_reads) simp_all
  moreover have "\<forall>n. \<not> fault ?t n" using assms(1) by (simp add: calm_store_def)
  ultimately have "calm_store ?t \<and> ledger ?t = ledger s \<and> store_events ?t = store_events s @ [facts_of e]"
    by (simp only: calm_store_def simp_thms)
  with run show ?thesis by (intro exI [of _ ?t]) (simp only: simp_thms)
qed

lemma SummarizeUsage_events:
  assumes "repo_SummarizeUsage f s = (r, t)"
  shows "store_events t = store_events s"
proof -
  have "keeps (\<lambda>x. events x = events s) (repo_SummarizeUsage f)"
    by (rule keeps_reads) simp_all
  then have "events t = events s" using refl assms by (rule keepsD)
  then show ?thesis by (simp add: store_events_def)
qed

interpretation gateway_alerts: alert_store calm_store ledger repo_SummarizeUsage store_rules store_events
  repo_ListAlertRules repo_CreateAlertEvent event_fits
proof unfold_locales
  fix s assume "calm_store s"
  moreover have "ledger (s\<lparr>stmts := Suc (stmts s)\<rparr>) = ledger s" by (rule ledger_reads) simp_all
  ultimately show "\<exists>t. repo_ListAlertRules s = (Inr (store_rules s), t) \<and> calm_store t \<and>
      ledger t = ledger s \<and> store_events t = store_events s"
    by (simp add: calm_list_rules calm_stmts store_events_def)
qed (simp_all add: SummarizeUsage_events calm_create_event)

lemma rule_events_fit:
  assumes "store_ok s" "rule \<in> set (store_rules s)"
  shows "event_fits (alert_event rule v)"
proof -
  have "rule \<in> set (rows (rules s))" using assms(2) by (simp add: store_rules_def)
  then have "rule_valid rule" "0 < a_ID rule"
    using tbl_okD [OF rule_tbl.store_okD [OF assms(1)]] by blast+
  then show ?thesis
    by (simp add: event_fits_def alert_event_def event_row_of_def event_valid_def rule_valid_def max_len_def)
qed


definition sample_rule :: "int \<Rightarrow> string \<Rightarrow> rat \<Rightarrow> GatewayAlertRule" where
  "sample_rule i oper threshold =
     \<lparr>a_ID = i, a_Name = ''tokens'', a_Metric = ''total_tokens'', a_Operator = oper, a_Threshold = threshold,
      a_WindowSeconds = 60, a_Enabled = True, a_CreatedAt = i, a_UpdatedAt = 0\<rparr>"

definition clock10 :: "nat \<Rightarrow> int" where
  "clock10 n = 10 * second"

definition alert_store_state :: store where
  "alert_store_state = (fresh_store clock10)
     \<lparr>usage := \<lparr>rows = [sample_usage 1 50 (- second), sample_usage 2 60 second], seq = 2\<rparr>,
      rules := \<lparr>rows = [sample_rule 1 ''>='' 110, sample_rule 2 ''>'' 110], seq = 2\<rparr>\<rparr>"

lemma alert_store_state_ok: "store_ok alert_store_state" "\<not> fault alert_store_state n"
  by (simp_all add: store_ok_def alert_store_state_def fresh_store_def tbl_ok_def empty_tbl_def sample_usage_def
      usage_valid_def max_len_def not_empty_def rule_valid_def no_clash_def sample_rule_def)


end
