(* ===== verification/ContextGuard.thy ===== *)
theory ContextGuard
  imports Upstream ModelService UsageService
begin

text \<open>
  What a request may weigh (internal/server/gateway\_context\_compaction.go): the effective
  context policy of a model, the estimate of a request's tokens, and \<open>prepareGatewayContext\<close>, which
  forwards a request, rewrites it into a summary, or refuses it. The rewriting itself
  (\<open>compactGatewayContextRequest\<close>, in \<open>Compaction\<close>) is an argument: what is shown here holds for
  every rewriting.
\<close>

section \<open>Policy\<close>

definition defaultGatewayContextCompactBytes :: int where "defaultGatewayContextCompactBytes = 1000000"
definition defaultGatewayContextHardBytes :: int where "defaultGatewayContextHardBytes = 1900000"
definition defaultGatewayContextCompactTokens :: int where "defaultGatewayContextCompactTokens = 180000"
definition defaultGatewayContextHardTokens :: int where "defaultGatewayContextHardTokens = 255000"
definition defaultGatewayContextKeepItems :: int where "defaultGatewayContextKeepItems = 8"

definition normalizeGatewayContextPolicy :: "GatewayModelContextPolicy \<Rightarrow> GatewayModelContextPolicy" where
  "normalizeGatewayContextPolicy p =
     p\<lparr>ContextCompactTokens := positive_or_else (ContextCompactTokens p) defaultGatewayContextCompactTokens,
       ContextHardTokens := positive_or_else (ContextHardTokens p) defaultGatewayContextHardTokens,
       ContextCompactBytes := positive_or_else (ContextCompactBytes p) defaultGatewayContextCompactBytes,
       ContextHardBytes := positive_or_else (ContextHardBytes p) defaultGatewayContextHardBytes,
       ContextKeepItems := max 2 (positive_or_else (ContextKeepItems p) defaultGatewayContextKeepItems)\<rparr>"

definition gatewayContextNeedsCompaction :: "int \<Rightarrow> int \<Rightarrow> GatewayModelContextPolicy \<Rightarrow> bool" where
  "gatewayContextNeedsCompaction bytes tokens p = (ContextCompactBytes p \<le> bytes \<or> ContextCompactTokens p \<le> tokens)"

definition gatewayContextExceedsHardLimit :: "int \<Rightarrow> int \<Rightarrow> GatewayModelContextPolicy \<Rightarrow> bool" where
  "gatewayContextExceedsHardLimit bytes tokens p = (ContextHardBytes p \<le> bytes \<or> ContextHardTokens p \<le> tokens)"

text \<open>A model that is unknown or cannot be read has the policy of its name alone.\<close>

definition blank_model :: "string \<Rightarrow> GatewayModel" where
  "blank_model modelID =
     \<lparr>m_ID = 0, m_ModelID = modelID, m_OwnedBy = '''', m_CreatedUnix = 0, m_Enabled = False, m_Source = '''',
      m_Context = no_context_policy, m_LastSeenAt = None, m_CreatedAt = zero_time, m_UpdatedAt = zero_time\<rparr>"

definition effectiveGatewayContextPolicy ::
  "(string \<Rightarrow> string) \<Rightarrow> string \<Rightarrow> (store, GatewayModelContextPolicy) op" where
  "effectiveGatewayContextPolicy env modelID0 =
     (let modelID = text_or (TrimSpace modelID0) DefaultCodexModelID
      in try_op (gateway_GetModelByID modelID) (\<lambda>r.
           ok (normalizeGatewayContextPolicy
             (EffectiveGatewayModelContextPolicy
               (Some (case r of Inr (Some m) \<Rightarrow> m | _ \<Rightarrow> blank_model modelID)) (GatewayContextFallbackPolicyFromEnv env)))))"

section \<open>Estimates\<close>

fun context_texts :: "json \<Rightarrow> string list" where
  "context_texts (JStr s) = (if TrimSpace s \<noteq> '''' then [TrimSpace s] else [])"
| "context_texts (JArr items) = concat (map context_texts items)"
| "context_texts (JObj m) =
     (let texts = map (\<lambda>(k, v). (k, context_texts v)) m
      in concat (map (\<lambda>k. case map_of texts k of Some ts \<Rightarrow> ts | None \<Rightarrow> [])
           [''content'', ''text'', ''arguments'', ''output'', ''function'', ''tool_calls'', ''summary'']))"
| "context_texts _ = []"

definition gatewayContextTextForUsageEstimate :: "(rat \<Rightarrow> string) \<Rightarrow> string \<Rightarrow> string \<Rightarrow> string" where
  "gatewayContextTextForUsageEstimate fmt_float path body =
     (case decode_object body of
        None \<Rightarrow> ''''
      | Some payload \<Rightarrow>
          let instructions = stringValue (field payload ''instructions''); tools = field payload ''tools''
          in TrimSpace (join_with [CHR 0x0A]
            ((if instructions \<noteq> '''' then [instructions] else []) @
             context_texts (field payload (if path = ''/v1/responses'' then ''input'' else ''messages'')) @
             (if tools \<noteq> JNull then [json_encode fmt_float tools] else []))))"

definition estimateGatewayRequestTokens :: "(rat \<Rightarrow> string) \<Rightarrow> string \<Rightarrow> string \<Rightarrow> int" where
  "estimateGatewayRequestTokens fmt_float path body =
     (let text = gatewayContextTextForUsageEstimate fmt_float path body
      in estimateTokenCount (if TrimSpace text = '''' then body else text))"

section \<open>Preparing a request\<close>

record gatewayContextCompaction =
  co_Body :: string
  co_Summary :: string
  co_Reason :: string
  co_OriginalBytes :: int
  co_CompactedBytes :: int
  co_OriginalTokens :: int
  co_CompactedTokens :: int
  co_Changed :: bool

text \<open>\<open>shrink path body previousSummary keepItems\<close>\<close>

type_synonym compactor = "string \<Rightarrow> string \<Rightarrow> string \<Rightarrow> int \<Rightarrow> upstream_error + gatewayContextCompaction"

text \<open>The body and the diagnostic, and whether the request is refused as too long.\<close>

record gatewayContextPreparation =
  pr_Body :: string
  pr_Diagnostic :: GatewayUsageDiagnostic
  pr_TooLong :: bool

definition context_diagnostic ::
  "(rat \<Rightarrow> string) \<Rightarrow> string \<Rightarrow> string \<Rightarrow> string \<Rightarrow> GatewayModelContextPolicy \<Rightarrow> GatewayUsageDiagnostic" where
  "context_diagnostic fmt_float path body reasoningEffort p =
     (gatewayUsageDiagnosticForRequest path body reasoningEffort)
       \<lparr>d_ContextOriginalBytes := int (length body),
        d_ContextOriginalEstimatedTokens := estimateGatewayRequestTokens fmt_float path body,
        d_ContextWindowTokens := ContextWindowTokens p, d_ContextCompactTokenLimit := ContextCompactTokens p,
        d_ContextHardTokenLimit := ContextHardTokens p, d_ContextCompactByteLimit := ContextCompactBytes p,
        d_ContextHardByteLimit := ContextHardBytes p, d_ContextKeepItems := ContextKeepItems p\<rparr>"

definition prepared :: "string \<Rightarrow> GatewayUsageDiagnostic \<Rightarrow> bool \<Rightarrow> gatewayContextPreparation" where
  "prepared body d tooLong = \<lparr>pr_Body = body, pr_Diagnostic = d, pr_TooLong = tooLong\<rparr>"

text \<open>The summary kept for the session, empty where there is none or it cannot be read.\<close>

definition previous_summary :: "string \<Rightarrow> (store, string \<times> int) op" where
  "previous_summary sessionID =
     (if TrimSpace sessionID = '''' then ok ('''', 0)
      else try_op (gateway_GetContextSummary sessionID) (\<lambda>r. case r of
             Inr (Some stored) \<Rightarrow> ok (cs_Summary stored, cs_CompactionCount stored)
           | _ \<Rightarrow> ok ('''', 0)))"

definition keep_summary ::
  "GatewayAPIKey option \<Rightarrow> string \<Rightarrow> string \<Rightarrow> gatewayContextCompaction \<Rightarrow> int \<Rightarrow> (store, unit) op" where
  "keep_summary key requestID sessionID c count =
     (if TrimSpace sessionID = '''' then ok ()
      else bind_op time_now (\<lambda>now. ignore_op (gateway_UpsertContextSummary
        \<lparr>cs_SessionID = sessionID,
         cs_APIKeyID = (case key of None \<Rightarrow> 0 | Some k \<Rightarrow> key_ID k),
         cs_APIKeyPrefix = (case key of None \<Rightarrow> '''' | Some k \<Rightarrow> key_KeyPrefix k),
         cs_Summary = co_Summary c, cs_SummaryTokens = estimateTokenCount (co_Summary c), cs_CompactionCount = count,
         cs_LastRequestID = requestID, cs_LastReason = co_Reason c, cs_LastOriginalBytes = co_OriginalBytes c,
         cs_LastCompactedBytes = co_CompactedBytes c, cs_LastOriginalTokens = co_OriginalTokens c,
         cs_LastCompactedTokens = co_CompactedTokens c, cs_LastError = '''', cs_CreatedAt = zero_time,
         cs_UpdatedAt = now\<rparr>)))"

definition compacted_diagnostic :: "gatewayContextCompaction \<Rightarrow> int \<Rightarrow> GatewayUsageDiagnostic \<Rightarrow> GatewayUsageDiagnostic" where
  "compacted_diagnostic c count d =
     d\<lparr>d_ContextCompacted := True, d_ContextCompactionReason := co_Reason c, d_ContextCompactionSummary := co_Summary c,
       d_ContextCompactionCount := count, d_ContextOriginalBytes := co_OriginalBytes c,
       d_ContextCompactedBytes := co_CompactedBytes c, d_ContextOriginalEstimatedTokens := co_OriginalTokens c,
       d_ContextCompactedEstimatedTokens := co_CompactedTokens c\<rparr>"

definition prepareGatewayContext ::
  "(string \<Rightarrow> string) \<Rightarrow> (rat \<Rightarrow> string) \<Rightarrow> compactor \<Rightarrow> GatewayAPIKey option \<Rightarrow> string \<Rightarrow> string \<Rightarrow> string \<Rightarrow> string \<Rightarrow>
   string \<Rightarrow> string \<Rightarrow> gatewayRequestOptions \<Rightarrow> (store, gatewayContextPreparation) op" where
  "prepareGatewayContext env fmt_float shrink key requestID sessionID path body requestModel reasoningEffort options =
     bind_op (effectiveGatewayContextPolicy env requestModel) (\<lambda>p.
       let d = context_diagnostic fmt_float path body reasoningEffort p
       in if AgentPassthrough options
          then ok (prepared body (d\<lparr>d_AgentPassthrough := True,
                 d_AgentPassthroughReason := TrimSpace (AgentPassthroughReason options),
                 d_ContextCompactionReason := ''agent_passthrough''\<rparr>) False)
          else if \<not> gatewayContextNeedsCompaction (int (length body)) (d_ContextOriginalEstimatedTokens d) p
          then ok (prepared body d False)
          else bind_op (previous_summary sessionID) (\<lambda>(previousSummary, previousCount).
            case shrink path body previousSummary (ContextKeepItems p) of
              Inl err \<Rightarrow>
                ok (prepared body (d\<lparr>d_ContextCompactionReason := ''parse_failed'',
                      d_UpstreamBody := summarizeErrorForUsage err\<rparr>) True)
            | Inr c \<Rightarrow>
                if \<not> co_Changed c then ok (prepared body (d\<lparr>d_ContextCompactionReason := ''not_compactable''\<rparr>) True)
                else bind_op (keep_summary key requestID sessionID c (previousCount + 1)) (\<lambda>_.
                  ok (prepared (co_Body c) (compacted_diagnostic c (previousCount + 1) d)
                    (gatewayContextExceedsHardLimit (int (length (co_Body c))) (co_CompactedTokens c) p)))))"


section \<open>What is forwarded\<close>

lemma policy_total: "\<exists>p. fst (effectiveGatewayContextPolicy env m s) = Inr p"
  by (simp add: effectiveGatewayContextPolicy_def Let_def try_op_def ok_def split: prod.splits)

lemma ignore_total: "fst (ignore_op m s) = Inr ()"
  by (simp add: ignore_op_def try_op_def ok_def split: prod.splits)

lemma previous_total: "\<exists>p. fst (previous_summary sid s) = Inr p"
  by (auto simp: previous_summary_def try_op_def ok_def split: prod.splits sum.splits option.splits)

lemma keep_total: "fst (keep_summary key rid sid c n s) = Inr ()"
  by (simp add: keep_summary_def bind_time_now ok_def ignore_total)

lemma bind_total: "fst (m s) = Inr x \<Longrightarrow> bind_op m f s = f x (snd (m s))"
  by (cases "m s") simp

text \<open>
  C25. What leaves the gateway. Preparing a request always yields a decision, whatever statements
  fail. Unless the request is an agent passthrough, a body that is forwarded is either the
  client's own, below both thresholds of the model's policy, or the rewritten one, below both
  hard limits; so nothing heavier than the larger of the two is sent. An agent passthrough is
  forwarded as it is, at any weight.
\<close>
theorem forwarded_weight:
  assumes "fst (effectiveGatewayContextPolicy env requestModel s) = Inr p"
  shows "\<exists>r. fst (prepareGatewayContext env fmt_float shrink key requestID sessionID path body requestModel
        reasoningEffort options s) = Inr r \<and>
    (AgentPassthrough options \<longrightarrow> pr_Body r = body \<and> \<not> pr_TooLong r) \<and>
    (\<not> AgentPassthrough options \<and> \<not> pr_TooLong r \<longrightarrow>
       pr_Body r = body \<and> int (length body) < ContextCompactBytes p \<and>
         estimateGatewayRequestTokens fmt_float path body < ContextCompactTokens p \<or>
       (\<exists>previous c. shrink path body previous (ContextKeepItems p) = Inr c \<and> co_Changed c \<and> pr_Body r = co_Body c \<and>
         int (length (pr_Body r)) < ContextHardBytes p \<and> co_CompactedTokens c < ContextHardTokens p))"
proof -
  obtain previous count where prev: "\<And>t. t = snd (effectiveGatewayContextPolicy env requestModel s) \<Longrightarrow>
      fst (previous_summary sessionID t) = Inr (previous, count)"
    using previous_total by (metis prod.collapse)
  show ?thesis
  proof (cases "shrink path body previous (ContextKeepItems p)")
    case (Inl err)
    then show ?thesis
      using prev by (auto simp: prepareGatewayContext_def bind_total [where m = "effectiveGatewayContextPolicy env requestModel", OF assms] bind_total Let_def ok_def prepared_def
          context_diagnostic_def gatewayContextNeedsCompaction_def not_le)
  next
    case (Inr c)
    then show ?thesis
      using prev by (auto simp: prepareGatewayContext_def bind_total [where m = "effectiveGatewayContextPolicy env requestModel", OF assms] bind_total keep_total Let_def ok_def
          prepared_def context_diagnostic_def gatewayContextNeedsCompaction_def gatewayContextExceedsHardLimit_def not_le)
  qed
qed


definition tight_env :: "string \<Rightarrow> string" where
  "tight_env name =
     (if name = ''GATEWAY_CONTEXT_COMPACT_BYTES'' then ''5'' else if name = ''GATEWAY_CONTEXT_HARD_BYTES'' then ''9'' else '''')"

definition sample_shrink :: compactor where
  "sample_shrink path body previous keep =
     Inr \<lparr>co_Body = ''{}'', co_Summary = ''s'', co_Reason = ''request_preflight'', co_OriginalBytes = int (length body),
          co_CompactedBytes = 2, co_OriginalTokens = 1, co_CompactedTokens = 1, co_Changed = True\<rparr>"

definition sample_prepared :: "gatewayContextPreparation result" where
  "sample_prepared = fst (prepareGatewayContext tight_env (\<lambda>_. '''') sample_shrink None ''r'' ''s'' ''/v1/responses'' ''{      }''
     '''' '''' \<lparr>AgentPassthrough = False, AgentPassthroughReason = ''''\<rparr> (fresh_store clock0))"

theorem forwarded_weight_witness: "int (length (pr_Body (projr sample_prepared))) < 9"
proof -
  let ?p = "projr (fst (effectiveGatewayContextPolicy tight_env '''' (fresh_store clock0)))"
  have p: "fst (effectiveGatewayContextPolicy tight_env '''' (fresh_store clock0)) = Inr ?p"
    by (rule sum.collapse(2) [symmetric]) code_simp
  have "ContextCompactBytes ?p = 5" "ContextHardBytes ?p = 9" "\<not> pr_TooLong (projr sample_prepared)" by code_simp+
  then show ?thesis
    using forwarded_weight [OF p, of "\<lambda>_. ''''" sample_shrink None "''r''" "''s''" "''/v1/responses''" "''{      }''" "''''"
        "\<lparr>AgentPassthrough = False, AgentPassthroughReason = ''''\<rparr>"]
    unfolding sample_prepared_def by auto
qed

end
