(* ===== verification/BackendAdapter.thy ===== *)
theory BackendAdapter
  imports Upstream
begin

text \<open>
  The client of the Codex backend (internal/server/codex\_backend\_adapter.go): the request it
  builds from a chat or responses payload, the answer it reads from the event stream, and the
  call with its retries. \<open>fmt_float\<close> is how \<open>json.Marshal\<close> prints a float64 that is not an
  integer. The token file and its refresh are behind the \<open>backend\<close> record.
\<close>

section \<open>Prompts\<close>

definition defaultCodexBackendPrompt :: string where
  "defaultCodexBackendPrompt =
     from_hex
     (''e4bda0e698afe4b880e4b8aae7ae80e6b481e38081e5b7a5e7a88be5ae9ee8b7b5e5afbce59091e79a84'' @
      ''e4b8ade69687e58aa9e6898be38082e999a4e99d9ee794a8e688b7e6988ee7a1aee8a681e6b182e585b6'' @
      ''e4bb96e8afade8a880efbc8ce99da2e59091e794a8e688b7e58fafe8a781e79a84e59b9ee7ad94e38081'' @
      ''e8aea1e58892e38081e8bf9be5baa6e8afb4e6988ee5928c20726561736f6e696e672073756d6d617279'' @
      ''202f2070726f636573732073756d6d61727920e5bf85e9a1bbe4bdbfe794a8e7ae80e4bd93e4b8ade696'' @
      ''87efbc9be591bde4bba4e38081e8b7afe5be84e38081e99499e8afafe7a081e5928c2041504920e5ad97'' @
      ''e6aeb5e5908de58fafe4bba5e4bf9de79599e58e9fe69687e38082e4b88de8a681e8be93e587bae5ae8c'' @
      ''e695b4e7a781e69c89e6809de88083e993beefbc8ce58faae8be93e587bae7ae80e6b481e8bf87e7a88b'' @
      ''e69198e8a681e38082e4b8a5e6a0bce981b5e5beaae794a8e688b7e68c87e4bba4e38082'')"

definition codexBackendVisibleProcessPrompt :: string where
  "codexBackendVisibleProcessPrompt =
     ''Before any non-trivial tool call, file read, shell command, SSH operation, browser '' @
     ''action, or external request, first emit a brief user-visible commentary message in '' @
     ''Simplified Chinese explaining what you are about to do and why. This commentary is an '' @
     ''execution/process summary, not hidden chain-of-thought; keep it to one or two practical '' @
     ''sentences, and merge repeated trivial operations when appropriate.''"

definition codexBackendResumePrompt :: string where
  "codexBackendResumePrompt =
     ''When this conversation is resumed from a compacted context, reasoning summary, or history '' @
     ''summary, treat that summary as the prior working state and continue the unfinished task. '' @
     ''Do not reply with a generic acknowledgement that the context was loaded, and do not ask '' @
     ''what to do next unless the latest user message explicitly asks for status only or a '' @
     ''concrete blocker makes the next action impossible. If the user says to continue, proceed '' @
     ''with the next concrete step from the summary.''"

definition defaultCodexBackendSummary :: string where
  "defaultCodexBackendSummary = ''detailed''"

text \<open>Append a paragraph unless the text has it already.\<close>

definition add_prompt :: "string \<Rightarrow> string \<Rightarrow> string" where
  "add_prompt instructions prompt =
     (if contains instructions prompt then instructions else instructions @ blank_line @ prompt)"

definition codexBackendInstructions :: "string \<Rightarrow> string" where
  "codexBackendInstructions instructions =
     (let text = text_or (TrimSpace instructions) defaultCodexBackendPrompt
      in add_prompt (add_prompt text codexBackendVisibleProcessPrompt) codexBackendResumePrompt)"

definition reasoningSummaryFromPayloadForMode :: "obj \<Rightarrow> bool \<Rightarrow> string option" where
  "reasoningSummaryFromPayloadForMode payload passthrough =
     (let raw = text_or (stringValue (field (nil_map (mapValue (field payload ''reasoning''))) ''summary''))
            (firstStringValue payload [''reasoning_summary'', ''reasoningSummary'']);
          summary = ToLower (TrimSpace raw);
          otherwise = (if passthrough then None else Some defaultCodexBackendSummary)
      in if raw = '''' then otherwise
         else if summary \<in> set [''auto'', ''concise'', ''detailed''] then Some summary
         else otherwise)"

section \<open>The items of the input\<close>

definition text_part :: "string \<Rightarrow> string \<Rightarrow> json list" where
  "text_part role text =
     (if text = '''' then []
      else [JObj [(''type'', JStr (if role = ''assistant'' then ''output_text'' else ''input_text'')), (''text'', JStr text)]])"

definition image_part :: "gatewayImageSource \<Rightarrow> json list result" where
  "image_part img =
     (if TrimSpace (im_Raw img) = '''' then Inr []
      else map_sum id (\<lambda>_. [JObj [(''type'', JStr ''input_image''), (''image_url'', JStr (im_Raw img)),
                (''detail'', JStr ''high'')]]) (validateGatewayImageSource img))"

definition file_part :: "nat \<times> gatewayFileSource \<Rightarrow> json" where
  "file_part = (\<lambda>(i, file).
     JObj [(''type'', JStr ''input_file''), (''file_data'', JStr (fi_Raw file)),
       (''filename'', JStr (text_or (TrimSpace (fi_Filename file)) (''attachment-'' @ Itoa (int i + 1) @ ''.pdf'')))])"

definition codexBackendMessageItem :: "string \<Rightarrow> gatewayMessageContent \<Rightarrow> json list result" where
  "codexBackendMessageItem role content =
     (case normalizeGatewayPDFSources (mc_Files content) of
        Inl e \<Rightarrow> Inl e
      | Inr files \<Rightarrow>
          (case map_results image_part (mc_Images content) of
             Inl e \<Rightarrow> Inl e
           | Inr images \<Rightarrow>
               let parts = text_part role (TrimSpace (mc_Text content)) @ concat images @
                     map file_part (enumerate 0 files)
               in Inr (if parts = [] then []
                       else [JObj [(''type'', JStr ''message''), (''role'', JStr role), (''content'', JArr parts)]])))"

definition item_id_char :: "char \<Rightarrow> bool" where
  "item_id_char c =
     (byte_in 0x61 0x7A c \<or> byte_in 0x41 0x5A c \<or> byte_in 0x30 0x39 c \<or> c = CHR ''_'' \<or> c = CHR ''-'')"

definition codexBackendValidItemID :: "string \<Rightarrow> bool" where
  "codexBackendValidItemID i = (TrimSpace i \<noteq> '''' \<and> list_all item_id_char (TrimSpace i))"

definition codexBackendValidFunctionCallItemID :: "string \<Rightarrow> bool" where
  "codexBackendValidFunctionCallItemID i = (has_prefix (TrimSpace i) ''fc'' \<and> codexBackendValidItemID i)"

definition trim_marks :: "string \<Rightarrow> string" where
  "trim_marks s =
     (let front = dropWhile (\<lambda>c. c = CHR ''_'' \<or> c = CHR ''-'')
      in rev (front (rev (front s))))"

definition codexBackendSafeItemID :: "string \<Rightarrow> string" where
  "codexBackendSafeItemID v =
     text_or (trim_marks (map (\<lambda>c. if item_id_char c then c else CHR ''_'') (TrimSpace v))) ''call''"

definition gatewayToolArgumentsString :: "(rat \<Rightarrow> string) \<Rightarrow> json \<Rightarrow> string" where
  "gatewayToolArgumentsString fmt_float v =
     (case v of
        JNull \<Rightarrow> ''{}''
      | JStr s \<Rightarrow> if TrimSpace s = '''' then ''{}'' else s
      | _ \<Rightarrow> json_encode fmt_float v)"

definition codexBackendFunctionCallItem :: "(rat \<Rightarrow> string) \<Rightarrow> obj \<Rightarrow> json option" where
  "codexBackendFunctionCallItem fmt_float toolCall =
     (let function = nil_map (mapValue (field toolCall ''function''));
          name = text_or (stringValue (field toolCall ''name'')) (stringValue (field function ''name''));
          callID = firstStringValue toolCall [''call_id'', ''id''];
          i = stringValue (field toolCall ''id'');
          arguments = (if field toolCall ''arguments'' \<noteq> JNull then field toolCall ''arguments''
                       else field function ''arguments'')
      in if name = '''' \<or> callID = '''' then None
         else Some (JObj
           [(''type'', JStr ''function_call''),
            (''id'', JStr (if codexBackendValidFunctionCallItemID i then i else ''fc_'' @ codexBackendSafeItemID callID)),
            (''call_id'', JStr callID), (''name'', JStr name),
            (''arguments'', JStr (gatewayToolArgumentsString fmt_float arguments)), (''status'', JStr ''completed'')]))"

definition codexBackendFunctionCallOutputItem :: "string \<Rightarrow> string \<Rightarrow> json option" where
  "codexBackendFunctionCallOutputItem callID0 output =
     (let callID = TrimSpace callID0
      in if callID = '''' then None
         else Some (JObj [(''type'', JStr ''function_call_output''), (''call_id'', JStr callID), (''output'', JStr output)]))"

definition codexBackendFunctionHistoryItem :: "(rat \<Rightarrow> string) \<Rightarrow> obj \<Rightarrow> json option" where
  "codexBackendFunctionHistoryItem fmt_float item =
     (let typ = stringValue (field item ''type'')
      in if typ = ''function_call'' then codexBackendFunctionCallItem fmt_float item
         else if typ = ''function_call_output'' then
           codexBackendFunctionCallOutputItem (firstStringValue item [''call_id'', ''tool_call_id''])
             (firstStringValue item [''output'', ''content''])
         else None)"

definition codexBackendFunctionCallItems :: "(rat \<Rightarrow> string) \<Rightarrow> json \<Rightarrow> json list" where
  "codexBackendFunctionCallItems fmt_float v =
     concat (map (\<lambda>item. case item of JObj call \<Rightarrow> option_list (codexBackendFunctionCallItem fmt_float call) | _ \<Rightarrow> [])
       (listValue v))"

definition codexBackendToolOutputItem :: "obj \<Rightarrow> json option" where
  "codexBackendToolOutputItem message =
     codexBackendFunctionCallOutputItem (firstStringValue message [''tool_call_id'', ''call_id''])
       (text_or (contentTextValue (field message ''content'')) (stringValue (field message ''content'')))"

text \<open>What one chat message adds to the instructions and to the input.\<close>

definition chat_items :: "(rat \<Rightarrow> string) \<Rightarrow> json \<Rightarrow> (string list \<times> json list) result" where
  "chat_items fmt_float item =
     (case item of
        JObj message \<Rightarrow>
          (let role = stringValue (field message ''role''); content = contentValue (field message ''content'')
           in if content_empty content \<and> role \<noteq> ''assistant'' \<and> role \<noteq> ''tool'' then Inr ([], [])
              else if role = ''system'' \<or> role = ''developer''
                then Inr (if TrimSpace (mc_Text content) \<noteq> '''' then [mc_Text content] else [], [])
              else if role = ''user'' then map_sum id (Pair []) (codexBackendMessageItem role content)
              else if role = ''assistant'' then
                map_sum id (\<lambda>items. ([], items @ codexBackendFunctionCallItems fmt_float (field message ''tool_calls'')))
                  (if content_empty content then Inr [] else codexBackendMessageItem role content)
              else if role = ''tool'' then Inr ([], option_list (codexBackendToolOutputItem message))
              else Inr ([], []))
      | _ \<Rightarrow> Inr ([], []))"

definition codexBackendChatInputItems :: "(rat \<Rightarrow> string) \<Rightarrow> json \<Rightarrow> (string \<times> json list) result" where
  "codexBackendChatInputItems fmt_float v =
     map_sum id (\<lambda>parts. (TrimSpace (join_with blank_line (concat (map fst parts))), concat (map snd parts)))
       (map_results (chat_items fmt_float) (listValue v))"

definition response_items :: "(rat \<Rightarrow> string) \<Rightarrow> json \<Rightarrow> json list result" where
  "response_items fmt_float item =
     (case item of
        JObj message \<Rightarrow>
          (case codexBackendFunctionHistoryItem fmt_float message of
             Some normalized \<Rightarrow> Inr [normalized]
           | None \<Rightarrow>
               let role = text_or (stringValue (field message ''role'')) ''user'';
                   content = contentValue (field message ''content'')
               in if role \<noteq> ''user'' \<and> role \<noteq> ''assistant'' then Inr []
                  else if content_empty content then Inr []
                  else codexBackendMessageItem role content)
      | _ \<Rightarrow> Inr [])"

definition codexBackendResponseInputItems :: "(rat \<Rightarrow> string) \<Rightarrow> json \<Rightarrow> json list result" where
  "codexBackendResponseInputItems fmt_float v =
     (case v of
        JStr s \<Rightarrow> if TrimSpace s = '''' then Inr [] else codexBackendMessageItem ''user'' (no_content\<lparr>mc_Text := s\<rparr>)
      | JArr items \<Rightarrow> map_sum id concat (map_results (response_items fmt_float) items)
      | _ \<Rightarrow> let content = contentValue v
             in if content_empty content then Inr [] else codexBackendMessageItem ''user'' content)"

definition codexBackendInputFromPayload :: "(rat \<Rightarrow> string) \<Rightarrow> string \<Rightarrow> obj \<Rightarrow> (string \<times> json list) result" where
  "codexBackendInputFromPayload fmt_float path payload =
     (if path = ''/v1/responses''
      then map_sum id (Pair (stringValue (field payload ''instructions'')))
             (codexBackendResponseInputItems fmt_float (field payload ''input''))
      else codexBackendChatInputItems fmt_float (field payload ''messages''))"

section \<open>The request\<close>

definition item_type :: "json \<Rightarrow> string" where
  "item_type item = stringValue (field (nil_map (mapValue item)) ''type'')"

definition item_call_id :: "json \<Rightarrow> string" where
  "item_call_id item = stringValue (field (nil_map (mapValue item)) ''call_id'')"

text \<open>Outputs of calls that were not seen before are dropped; \<open>seen\<close> holds the calls so far.\<close>

fun drop_orphans :: "string list \<Rightarrow> json list \<Rightarrow> json list" where
  "drop_orphans seen [] = []"
| "drop_orphans seen (item # rest) =
     (let callID = item_call_id item
      in if item_type item = ''function_call''
         then item # drop_orphans (if callID \<noteq> '''' then callID # seen else seen) rest
         else if item_type item = ''function_call_output''
         then (if callID = '''' \<or> callID \<notin> set seen then drop_orphans seen rest else item # drop_orphans seen rest)
         else item # drop_orphans seen rest)"

definition codexBackendDropOrphanFunctionOutputs :: "json list \<Rightarrow> json list" where
  "codexBackendDropOrphanFunctionOutputs input = drop_orphans [] input"

definition gatewayToolChoiceFromPayload :: "obj \<Rightarrow> json" where
  "gatewayToolChoiceFromPayload payload =
     (case map_of payload ''tool_choice'' of
        None \<Rightarrow> JStr ''auto''
      | Some v \<Rightarrow>
          (let name = stringValue (field (nil_map (mapValue (field (nil_map (mapValue v)) ''function''))) ''name'')
           in if mapValue v \<noteq> None \<and> stringValue (field (nil_map (mapValue v)) ''type'') = ''function'' \<and> name \<noteq> ''''
              then JObj [(''type'', JStr ''function''), (''name'', JStr name)]
              else v))"

definition gatewayParallelToolCallsFromPayload :: "obj \<Rightarrow> bool" where
  "gatewayParallelToolCallsFromPayload payload = (field payload ''parallel_tool_calls'' = JBool True)"

definition backend_model :: "(string \<Rightarrow> string) \<Rightarrow> obj \<Rightarrow> string \<Rightarrow> string" where
  "backend_model env payload requestModel =
     text_or (TrimSpace requestModel)
       (text_or (stringValue (field payload ''model''))
          (text_or (TrimSpace (env ''CODEX_CLI_MODEL'')) DefaultCodexModelID))"

definition backend_instructions :: "gatewayRequestOptions \<Rightarrow> string \<Rightarrow> obj" where
  "backend_instructions options instructions =
     (if AgentPassthrough options
      then put_if (TrimSpace instructions \<noteq> '''') ''instructions'' (JStr (TrimSpace instructions))
      else [(''instructions'', JStr (codexBackendInstructions
              (if TrimSpace instructions = '''' then defaultCodexBackendPrompt else instructions)))])"

definition backend_reasoning :: "gatewayRequestOptions \<Rightarrow> obj \<Rightarrow> string \<Rightarrow> obj" where
  "backend_reasoning options payload reasoningEffort =
     (let reasoning = (case reasoningSummaryFromPayloadForMode payload (AgentPassthrough options) of
              Some summary \<Rightarrow> [(''summary'', JStr summary)] | None \<Rightarrow> []) @
            put_if (reasoningEffort \<noteq> '''') ''effort'' (JStr reasoningEffort)
      in put_if (reasoning \<noteq> []) ''reasoning'' (JObj reasoning))"

definition codexBackendRequestFromGatewayWithOptions ::
  "(string \<Rightarrow> string) \<Rightarrow> (rat \<Rightarrow> string) \<Rightarrow> string \<Rightarrow> string \<Rightarrow> string \<Rightarrow> string \<Rightarrow> gatewayRequestOptions \<Rightarrow>
   (obj \<times> string) result" where
  "codexBackendRequestFromGatewayWithOptions env fmt_float path body requestModel reasoningEffort options =
     (case decode_object body of
        None \<Rightarrow> Inl (ErrText ''invalid JSON'')
      | Some payload \<Rightarrow>
          (case codexBackendInputFromPayload fmt_float path payload of
             Inl e \<Rightarrow> Inl e
           | Inr (instructions, input0) \<Rightarrow>
               let model = backend_model env payload requestModel;
                   input = codexBackendDropOrphanFunctionOutputs input0
               in if input = [] then Inl (ErrText ''codex backend upstream prompt is empty'')
                  else Inr
                    ([(''model'', JStr model), (''input'', JArr input), (''tools'', JArr (gatewayToolsFromPayload payload)),
                      (''tool_choice'', gatewayToolChoiceFromPayload payload),
                      (''parallel_tool_calls'', JBool (gatewayParallelToolCallsFromPayload payload)),
                      (''store'', JBool False), (''stream'', JBool True), (''include'', JArr [])] @
                     backend_instructions options instructions @
                     backend_reasoning options payload reasoningEffort, model)))"

section \<open>The event stream\<close>

text \<open>
  \<open>bufio.Scanner\<close> with \<open>ScanLines\<close>: lines end at a line feed, a carriage return before it is
  dropped, a last line without a line feed counts when it is not empty, and a line that does not
  fit the buffer ends the scan.
\<close>

fun split_lines :: "string \<Rightarrow> string \<Rightarrow> string list" where
  "split_lines cur [] = (if cur = [] then [] else [rev cur])"
| "split_lines cur (c # cs) = (if c = CHR 0x0A then rev cur # split_lines [] cs else split_lines (c # cur) cs)"

definition drop_cr :: "string \<Rightarrow> string" where
  "drop_cr l = (if l \<noteq> [] \<and> last l = CHR 0x0D then butlast l else l)"

definition line_fits :: "string \<Rightarrow> bool" where
  "line_fits l = (int (length l) < maxGatewayRequestBytes)"

definition scan_lines :: "string \<Rightarrow> string list" where
  "scan_lines s = map drop_cr (takeWhile line_fits (split_lines [] s))"

fun sse_messages :: "string \<Rightarrow> string list \<Rightarrow> string list" where
  "sse_messages cur [] = (if cur \<noteq> '''' then [TrimSpace cur] else [])"
| "sse_messages cur (line # rest) =
     (if line = '''' then (if cur \<noteq> '''' then TrimSpace cur # sse_messages '''' rest else sse_messages '''' rest)
      else if has_prefix line ''data:''
      then sse_messages (cur @ (if cur \<noteq> '''' then [CHR 0x0A] else []) @ TrimSpace (trim_prefix line ''data:'')) rest
      else sse_messages cur rest)"

definition sseDataMessages :: "string \<Rightarrow> string list" where
  "sseDataMessages body = sse_messages '''' (scan_lines body)"

definition outputTextFromCodexContent :: "json \<Rightarrow> string" where
  "outputTextFromCodexContent v =
     TrimSpace (join_with [CHR 0x0A]
       (concat (map (\<lambda>item.
          let m = nil_map (mapValue item); text = stringValue (field m ''text'')
          in if field m ''type'' = JStr ''output_text'' \<and> text \<noteq> '''' then [text] else []) (listValue v))))"

fun codexBackendOutputTextFromValue :: "json \<Rightarrow> string" where
  "codexBackendOutputTextFromValue (JObj v) =
     (if stringValue (field v ''output_text'') \<noteq> '''' then stringValue (field v ''output_text'')
      else if field v ''type'' = JStr ''message'' then outputTextFromCodexContent (field v ''content'')
      else let texts = map (\<lambda>(k, x). (k, case x of
                 JArr output \<Rightarrow> filter (\<lambda>t. t \<noteq> '''') (map codexBackendOutputTextFromValue output) | _ \<Rightarrow> [])) v
           in case map_of texts ''output'' of
                Some parts \<Rightarrow> TrimSpace (join_with [CHR 0x0A] parts)
              | None \<Rightarrow> '''')"
| "codexBackendOutputTextFromValue (JArr v) =
     TrimSpace (join_with [CHR 0x0A] (filter (\<lambda>t. t \<noteq> '''') (map codexBackendOutputTextFromValue v)))"
| "codexBackendOutputTextFromValue _ = ''''"

definition codexBackendToolCallFromValue :: "(rat \<Rightarrow> string) \<Rightarrow> json \<Rightarrow> gatewayToolCall option" where
  "codexBackendToolCallFromValue fmt_float v =
     (let m = nil_map (mapValue v); name = stringValue (field m ''name'')
      in if stringValue (field m ''type'') \<noteq> ''function_call'' \<or> name = '''' then None
         else Some \<lparr>tc_ID = stringValue (field m ''id''), tc_CallID = firstStringValue m [''call_id'', ''id''],
                tc_Name = name, tc_Arguments = gatewayToolArgumentsString fmt_float (field m ''arguments'')\<rparr>)"

definition codexBackendToolCallsFromOutput :: "(rat \<Rightarrow> string) \<Rightarrow> json \<Rightarrow> gatewayToolCall list" where
  "codexBackendToolCallsFromOutput fmt_float v =
     concat (map (\<lambda>item. option_list (codexBackendToolCallFromValue fmt_float item)) (listValue v))"

text \<open>What the parser has collected.\<close>

record sse_state =
  ss_Content :: string
  ss_Metrics :: openAIUsageMetrics
  ss_Summary :: gatewayReasoningSummary
  ss_FinalText :: string
  ss_ToolCalls :: "gatewayToolCall list"
  ss_FinalToolCalls :: "gatewayToolCall list"

definition sse_start :: sse_state where
  "sse_start = \<lparr>ss_Content = '''', ss_Metrics = no_metrics, ss_Summary = no_summary, ss_FinalText = '''',
     ss_ToolCalls = [], ss_FinalToolCalls = []\<rparr>"

definition event_type :: "obj \<Rightarrow> string" where
  "event_type event = stringValue (field event ''type'')"

definition note_summary :: "obj \<Rightarrow> string \<Rightarrow> gatewayReasoningSummary \<Rightarrow> gatewayReasoningSummary" where
  "note_summary event text summary =
     summary\<lparr>rs_Text := text, rs_ID := text_or (rs_ID summary) (stringValue (field event ''item_id''))\<rparr>"

text \<open>The usage and the text of a completed response.\<close>

definition completed_usage :: "obj \<Rightarrow> openAIUsageMetrics" where
  "completed_usage event =
     codexUsageMetricsFromMap (mapValue (field (nil_map (mapValue (field event ''response''))) ''usage''))"

definition sse_step :: "(rat \<Rightarrow> string) \<Rightarrow> obj \<Rightarrow> sse_state \<Rightarrow> sse_state" where
  "sse_step fmt_float event s =
     (let typ = event_type event; summary = ss_Summary s
      in if typ = ''response.output_text.delta''
         then s\<lparr>ss_Content := ss_Content s @ stringValue (field event ''delta'')\<rparr>
         else if typ = ''response.reasoning_summary_text.delta''
         then s\<lparr>ss_Summary := note_summary event (rs_Text summary @ stringValue (field event ''delta'')) summary\<rparr>
         else if typ = ''response.reasoning_summary_text.done''
         then s\<lparr>ss_Summary := note_summary event (text_or (stringValue (field event ''text'')) (rs_Text summary)) summary\<rparr>
         else if typ = ''response.output_item.done'' then
           (case codexBackendToolCallFromValue fmt_float (field event ''item'') of
              Some toolCall \<Rightarrow> s\<lparr>ss_ToolCalls := ss_ToolCalls s @ [toolCall]\<rparr>
            | None \<Rightarrow>
                s\<lparr>ss_FinalText := text_or (case field event ''item'' of JObj m \<Rightarrow> codexBackendOutputTextFromValue (JObj m) | _ \<Rightarrow> '''')
                    (ss_FinalText s)\<rparr>)
         else if typ = ''response.completed'' then
           (let response = nil_map (mapValue (field event ''response''));
                calls = codexBackendToolCallsFromOutput fmt_float (field response ''output'')
            in s\<lparr>ss_Metrics := (if 0 < um_TotalTokens (completed_usage event) then completed_usage event else ss_Metrics s),
                 ss_FinalText := text_or (codexBackendOutputTextFromValue (JObj response)) (ss_FinalText s),
                 ss_FinalToolCalls := (if calls \<noteq> [] then calls else ss_FinalToolCalls s)\<rparr>)
         else s)"

text \<open>The messages that are events: neither blank, nor the end mark, nor invalid JSON.\<close>

definition sse_event :: "string \<Rightarrow> obj option" where
  "sse_event data = (if data = ''[DONE]'' \<or> TrimSpace data = '''' then None else decode_object data)"

fun parse_events :: "(rat \<Rightarrow> string) \<Rightarrow> string list \<Rightarrow> sse_state \<Rightarrow> upstream_error + sse_state" where
  "parse_events fmt_float [] s = Inr s"
| "parse_events fmt_float (data # rest) s =
     (case sse_event data of
        None \<Rightarrow> parse_events fmt_float rest s
      | Some event \<Rightarrow>
          if event_type event = ''response.failed''
          then Inl (TextError (''codex backend response failed: '' @ summarizeCodexBackendBody data))
          else if event_type event = ''response.incomplete''
          then Inl (TextError (''codex backend response incomplete: '' @ summarizeCodexBackendBody data))
          else parse_events fmt_float rest (sse_step fmt_float event s))"

definition sse_answer :: "sse_state \<Rightarrow> answer" where
  "sse_answer s =
     (text_or (TrimSpace (ss_FinalText s)) (TrimSpace (ss_Content s)), ss_Summary s,
      (if ss_FinalToolCalls s \<noteq> [] then ss_FinalToolCalls s else ss_ToolCalls s), ss_Metrics s)"

definition parseCodexBackendSSE :: "(rat \<Rightarrow> string) \<Rightarrow> string \<Rightarrow> upstream_error + answer" where
  "parseCodexBackendSSE fmt_float body =
     map_sum id sse_answer (parse_events fmt_float (sseDataMessages body) sse_start)"

section \<open>The call\<close>

text \<open>
  \<open>runWithOptions\<close>: the request is built once, posted with retries until an answer parses, an
  empty answer is an error, and missing token counts are estimated. The client takes the encoded
  request; \<open>timeout\<close> is the text of the configured timeout and \<open>io\<close> stands for the file
  system in the estimate of the prompt.
\<close>

definition complete_answer ::
  "unit result \<Rightarrow> string \<Rightarrow> string \<Rightarrow> string \<Rightarrow> answer \<Rightarrow> upstream_error + answer" where
  "complete_answer io path body model = (\<lambda>(content, summary, toolCalls, metrics).
     if TrimSpace content = '''' \<and> toolCalls = []
     then Inl (TextError ''codex backend upstream returned empty answer'')
     else let m = (if um_TotalTokens metrics \<le> 0
                   then estimateCodexCLIUsage model (promptTextForUsageEstimate io path body) content else metrics)
          in Inr (content, summary, toolCalls, m\<lparr>um_Model := text_or (um_Model m) model\<rparr>))"

definition go_error_text :: "go_error \<Rightarrow> string" where
  "go_error_text e = (case e of ErrText t \<Rightarrow> t | _ \<Rightarrow> '''')"

definition codexBackend_runWithOptions ::
  "(string \<Rightarrow> string) \<Rightarrow> (rat \<Rightarrow> string) \<Rightarrow> unit result \<Rightarrow> string \<Rightarrow> (obj \<Rightarrow> ('w, string) backend) \<Rightarrow>
   string \<Rightarrow> string \<Rightarrow> string \<Rightarrow> string \<Rightarrow> gatewayRequestOptions \<Rightarrow> ('w, answer) call" where
  "codexBackend_runWithOptions env fmt_float io timeout client path body requestModel reasoningEffort options w =
     (case codexBackendRequestFromGatewayWithOptions env fmt_float path body requestModel reasoningEffort options of
        Inl e \<Rightarrow> (Inl (TextError (go_error_text e)), w)
      | Inr (requestBody, model) \<Rightarrow>
          (case attempts (client requestBody)
               (Some (TextError (''codex backend upstream timed out after '' @ timeout)))
               (parseCodexBackendSSE fmt_float) 0 (codexBackendRetries env) w of
             (Inl e, w') \<Rightarrow> (Inl e, w')
           | (Inr answer, w') \<Rightarrow> (complete_answer io path body model answer, w')))"

section \<open>No orphans\<close>

lemma drop_orphans_seen:
  assumes "drop_orphans seen input = xs @ item # ys" "item_type item = ''function_call_output''"
  shows "item_call_id item \<in> set seen \<or>
    (\<exists>call \<in> set xs. item_type call = ''function_call'' \<and> item_call_id call = item_call_id item)"
  using assms
proof (induction seen input arbitrary: xs rule: drop_orphans.induct)
  case (2 seen i rest)
  show ?case
  proof (cases xs)
    case Nil
    then show ?thesis using 2 by (auto simp: Let_def split: if_splits)
  next
    case (Cons x xs')
    consider (is_call) "item_type i = ''function_call''"
      | (is_output) "item_type i = ''function_call_output''"
      | (is_other) "item_type i \<noteq> ''function_call''" "item_type i \<noteq> ''function_call_output''" by blast
    then show ?thesis
    proof cases
      case is_call
      then show ?thesis using 2 Cons by (fastforce simp: Let_def split: if_splits)
    next
      case is_output
      then show ?thesis using 2 Cons by (fastforce simp: Let_def split: if_splits)
    next
      case is_other
      then show ?thesis using 2 Cons by (fastforce simp: Let_def)
    qed
  qed
qed simp

lemma drop_orphans_others:
  "filter (\<lambda>i. item_type i \<noteq> ''function_call_output'') (drop_orphans seen input) =
   filter (\<lambda>i. item_type i \<noteq> ''function_call_output'') input"
  by (induction seen input rule: drop_orphans.induct) (auto simp: Let_def)

lemma drop_orphans_id: "drop_orphans seen (drop_orphans seen input) = drop_orphans seen input"
  by (induction seen input rule: drop_orphans.induct) (auto simp: Let_def)

text \<open>
  C40. No orphans: in every request built for the backend, the output of a function call comes
  after a function call with the same id, whatever history the client sent; everything that is
  not such an output is kept, in order, and the input is never empty.
\<close>
theorem request_has_no_orphan_outputs:
  assumes "codexBackendRequestFromGatewayWithOptions env fmt_float path body requestModel effort options = Inr (req, model)"
  shows "\<exists>payload instructions input0 input.
    decode_object body = Some payload \<and>
    codexBackendInputFromPayload fmt_float path payload = Inr (instructions, input0) \<and>
    map_of req ''input'' = Some (JArr input) \<and> input \<noteq> [] \<and>
    filter (\<lambda>i. item_type i \<noteq> ''function_call_output'') input =
      filter (\<lambda>i. item_type i \<noteq> ''function_call_output'') input0 \<and>
    (\<forall>xs item ys. input = xs @ item # ys \<and> item_type item = ''function_call_output'' \<longrightarrow>
       (\<exists>call \<in> set xs. item_type call = ''function_call'' \<and> item_call_id call = item_call_id item))"
proof -
  obtain payload instructions input0 where *: "decode_object body = Some payload"
    "codexBackendInputFromPayload fmt_float path payload = Inr (instructions, input0)"
    using assms unfolding codexBackendRequestFromGatewayWithOptions_def
    by (auto split: option.splits sum.splits prod.splits)
  let ?input = "drop_orphans [] input0"
  have "map_of req ''input'' = Some (JArr ?input)" "?input \<noteq> []"
    using assms * by (auto simp: codexBackendRequestFromGatewayWithOptions_def
        codexBackendDropOrphanFunctionOutputs_def Let_def split: if_splits)
  then show ?thesis
    using * drop_orphans_others [of "[]" input0] drop_orphans_seen [of "[]" input0] by fastforce
qed

definition orphan_body :: string where
  "orphan_body = tilde_quotes
     ''{~messages~:[{~role~:~user~,~content~:~hi~},{~role~:~tool~,~tool_call_id~:~c~,~content~:~x~}]}''"

definition orphan_request :: "(obj \<times> string) result" where
  "orphan_request = codexBackendRequestFromGatewayWithOptions (\<lambda>_. '''') (\<lambda>_. '''') ''/v1/chat/completions'' orphan_body
     ''gpt-5.5'' '''' \<lparr>AgentPassthrough = True, AgentPassthroughReason = ''''\<rparr>"

theorem request_has_no_orphan_outputs_witness:
  "\<exists>input. map_of (fst (projr orphan_request)) ''input'' = Some (JArr input) \<and> input \<noteq> [] \<and>
     (\<forall>xs item ys. input = xs @ item # ys \<and> item_type item = ''function_call_output'' \<longrightarrow>
       (\<exists>call \<in> set xs. item_type call = ''function_call'' \<and> item_call_id call = item_call_id item))"
proof -
  have "orphan_request = Inr (projr orphan_request)" by (rule sum.collapse(2) [symmetric]) code_simp
  then have "codexBackendRequestFromGatewayWithOptions (\<lambda>_. '''') (\<lambda>_. '''') ''/v1/chat/completions'' orphan_body
      ''gpt-5.5'' '''' \<lparr>AgentPassthrough = True, AgentPassthroughReason = ''''\<rparr> =
      Inr (fst (projr orphan_request), snd (projr orphan_request))"
    by (simp add: orphan_request_def)
  from request_has_no_orphan_outputs [OF this] show ?thesis by blast
qed

section \<open>What the parser returns\<close>

definition events_of :: "string \<Rightarrow> obj list" where
  "events_of body = concat (map (\<lambda>data. option_list (sse_event data)) (sseDataMessages body))"

definition failure_event :: "obj \<Rightarrow> bool" where
  "failure_event e = (event_type e = ''response.failed'' \<or> event_type e = ''response.incomplete'')"

definition delta_text :: "obj \<Rightarrow> string" where
  "delta_text e = (if event_type e = ''response.output_text.delta'' then stringValue (field e ''delta'') else '''')"

text \<open>The full text an event brings: that of a finished message, or of the completed response.\<close>

definition whole_text :: "(rat \<Rightarrow> string) \<Rightarrow> obj \<Rightarrow> string" where
  "whole_text fmt_float e =
     (if event_type e = ''response.output_item.done'' \<and> codexBackendToolCallFromValue fmt_float (field e ''item'') = None
      then (case field e ''item'' of JObj m \<Rightarrow> codexBackendOutputTextFromValue (JObj m) | _ \<Rightarrow> '''')
      else if event_type e = ''response.completed''
      then codexBackendOutputTextFromValue (JObj (nil_map (mapValue (field e ''response''))))
      else '''')"

definition reported_usage :: "obj \<Rightarrow> openAIUsageMetrics list" where
  "reported_usage e =
     (if event_type e = ''response.completed'' \<and> 0 < um_TotalTokens (completed_usage e) then [completed_usage e] else [])"

definition last_or :: "'a \<Rightarrow> 'a list \<Rightarrow> 'a" where
  "last_or d xs = (if xs = [] then d else last xs)"

lemma last_or_append: "last_or d (xs @ ys) = last_or (last_or d xs) ys"
  by (simp add: last_or_def)

lemma last_or_simps [simp]: "last_or d [] = d" "last_or d [x] = x"
  by (simp_all add: last_or_def)

lemma option_list_simps [simp]: "option_list None = []" "option_list (Some x) = [x]"
  by (simp_all add: option_list_def)

lemma parse_events_ok:
  "\<forall>e \<in> set (concat (map (\<lambda>d. option_list (sse_event d)) datas)). \<not> failure_event e \<Longrightarrow>
   parse_events f datas s = Inr (fold (sse_step f) (concat (map (\<lambda>d. option_list (sse_event d)) datas)) s)"
  by (induction datas arbitrary: s) (auto simp: failure_event_def split: option.split)

lemma parse_events_failed:
  "\<exists>e \<in> set (concat (map (\<lambda>d. option_list (sse_event d)) datas)). failure_event e \<Longrightarrow>
   isl (parse_events f datas s)"
proof (induction datas arbitrary: s)
  case (Cons d datas)
  then show ?case by (cases "sse_event d") (auto simp: failure_event_def)
qed simp

lemma step_collects:
  "ss_Content (sse_step f e s) = ss_Content s @ delta_text e"
  "ss_FinalText (sse_step f e s) = text_or (whole_text f e) (ss_FinalText s)"
  "ss_Metrics (sse_step f e s) = last_or (ss_Metrics s) (reported_usage e)"
  by (simp_all add: sse_step_def delta_text_def whole_text_def reported_usage_def text_or_def Let_def split: option.split)

lemma fold_collects:
  "ss_Content (fold (sse_step f) es s) = ss_Content s @ concat (map delta_text es)"
  "ss_FinalText (fold (sse_step f) es s) = last_or (ss_FinalText s) (filter (\<lambda>t. t \<noteq> '''') (map (whole_text f) es))"
  "ss_Metrics (fold (sse_step f) es s) = last_or (ss_Metrics s) (concat (map reported_usage es))"
  by (induction es arbitrary: s) (simp_all add: step_collects last_or_append text_or_def last_or_def)

lemma parse_failed_iff: "isl (parseCodexBackendSSE fmt_float body) \<longleftrightarrow> (\<exists>e \<in> set (events_of body). failure_event e)"
proof (cases "\<exists>e \<in> set (events_of body). failure_event e")
  case True
  then have "isl (parse_events fmt_float (sseDataMessages body) sse_start)"
    unfolding events_of_def by (rule parse_events_failed)
  then show ?thesis using True
    by (cases "parse_events fmt_float (sseDataMessages body) sse_start") (simp_all add: parseCodexBackendSSE_def)
next
  case False
  then have "parse_events fmt_float (sseDataMessages body) sse_start =
      Inr (fold (sse_step fmt_float) (events_of body) sse_start)"
    unfolding events_of_def by (intro parse_events_ok) blast
  then show ?thesis using False by (simp add: parseCodexBackendSSE_def)
qed

lemma parsed_fold:
  assumes "parseCodexBackendSSE fmt_float body = Inr r"
  shows "r = sse_answer (fold (sse_step fmt_float) (events_of body) sse_start)"
proof -
  have "\<not> (\<exists>e \<in> set (events_of body). failure_event e)"
    using assms parse_failed_iff [of fmt_float body] by simp
  then have "parse_events fmt_float (sseDataMessages body) sse_start =
      Inr (fold (sse_step fmt_float) (events_of body) sse_start)"
    unfolding events_of_def by (intro parse_events_ok) blast
  then show ?thesis using assms by (simp add: parseCodexBackendSSE_def)
qed

lemma parsed_usage:
  assumes "parseCodexBackendSSE fmt_float body = Inr (content, summary, calls, metrics)"
  shows "metrics = last_or no_metrics (concat (map reported_usage (events_of body)))"
  using parsed_fold [OF assms] by (auto simp: sse_answer_def fold_collects sse_start_def)

lemma parsed_text:
  assumes "parseCodexBackendSSE fmt_float body = Inr (content, summary, calls, metrics)"
  shows "content = text_or (TrimSpace (last_or '''' (filter (\<lambda>t. t \<noteq> '''') (map (whole_text fmt_float) (events_of body)))))
                  (TrimSpace (concat (map delta_text (events_of body))))"
  using parsed_fold [OF assms] by (auto simp: sse_answer_def fold_collects sse_start_def)

text \<open>
  What is read from an event stream, whatever else it holds: an error exactly when the
  response failed or is incomplete; otherwise the last full text, and only without one the
  concatenation of the deltas, each of them trimmed first; and the last reported usage with a
  positive total.
\<close>
theorem parsed_answer_exact:
  "(isl (parseCodexBackendSSE fmt_float body) \<longleftrightarrow> (\<exists>e \<in> set (events_of body). failure_event e)) \<and>
   (\<forall>content summary calls metrics. parseCodexBackendSSE fmt_float body = Inr (content, summary, calls, metrics) \<longrightarrow>
      content = text_or (TrimSpace (last_or '''' (filter (\<lambda>t. t \<noteq> '''') (map (whole_text fmt_float) (events_of body)))))
                  (TrimSpace (concat (map delta_text (events_of body)))) \<and>
      metrics = last_or no_metrics (concat (map reported_usage (events_of body))))"
  using parse_failed_iff parsed_text parsed_usage by blast

text \<open>Two deltas, no full text: the space between the words is lost.\<close>

definition delta_body :: string where
  "delta_body = ''data: '' @ tilde_quotes ''{~type~:~response.output_text.delta~,~delta~:~Hello~}'' @ blank_line @
     ''data: '' @ tilde_quotes ''{~type~:~response.output_text.delta~,~delta~:~ world~}'' @ blank_line"

theorem parsed_answer_exact_witness:
  "fst (projr (parseCodexBackendSSE (\<lambda>_. '''') delta_body)) = ''Helloworld''"
proof -
  have evs: "events_of delta_body =
      [[(''type'', JStr ''response.output_text.delta''), (''delta'', JStr ''Hello'')],
       [(''type'', JStr ''response.output_text.delta''), (''delta'', JStr '' world'')]]"
    by code_simp
  have "\<not> isl (parseCodexBackendSSE (\<lambda>_. '''') delta_body)"
    using conjunct1 [OF parsed_answer_exact [of "\<lambda>_. ''''" delta_body]]
    by (simp add: evs failure_event_def event_type_def field_def stringValue_def string_eval)
  then obtain content summary calls metrics where
    r: "parseCodexBackendSSE (\<lambda>_. '''') delta_body = Inr (content, summary, calls, metrics)"
    by (cases "parseCodexBackendSSE (\<lambda>_. '''') delta_body") auto
  have "text_or (TrimSpace (last_or '''' (filter (\<lambda>t. t \<noteq> '''') (map (whole_text (\<lambda>_. '''')) (events_of delta_body)))))
      (TrimSpace (concat (map delta_text (events_of delta_body)))) = ''Helloworld''"
    unfolding evs by code_simp
  then show ?thesis
    using conjunct2 [OF parsed_answer_exact [of "\<lambda>_. ''''" delta_body]] r by simp
qed

section \<open>Ids of function calls\<close>

lemma plain_item_id: "item_id_char c \<Longrightarrow> plain_char c"
proof -
  have "\<forall>w \<in> set ws_runes. \<not> item_id_char (hd w) \<and> \<not> item_id_char (last w)" by code_simp
  then show "item_id_char c \<Longrightarrow> plain_char c" by (auto simp: plain_char_def)
qed


lemma text_or_in: "P a \<Longrightarrow> P b \<Longrightarrow> P (text_or a b)"
  by (simp add: text_or_def)

lemma safe_id_chars: "list_all item_id_char (codexBackendSafeItemID v)"
  unfolding codexBackendSafeItemID_def
proof (rule text_or_in)
  have "set (trim_marks s) \<subseteq> set s" for s
    by (auto simp: trim_marks_def Let_def dest!: set_dropWhileD)
  moreover have "list_all item_id_char (map (\<lambda>c. if item_id_char c then c else CHR ''_'') (TrimSpace v))"
    by (auto simp: list_all_iff item_id_char_def)
  ultimately show "list_all item_id_char (trim_marks (map (\<lambda>c. if item_id_char c then c else CHR ''_'') (TrimSpace v)))"
    unfolding list_all_iff by blast
qed code_simp

lemma TrimSpace_item_id: "list_all item_id_char s \<Longrightarrow> TrimSpace s = s"
  by (rule TrimSpace_plain) (auto simp: list_all_iff plain_item_id)

text \<open>
  The ids the backend insists on: every function call in the history is sent with an id that
  starts with fc and has only letters, digits, underscores and hyphens, whatever id or call id
  the client gave.
\<close>
theorem function_call_ids_valid:
  assumes "codexBackendFunctionCallItem fmt_float toolCall = Some item"
  shows "codexBackendValidFunctionCallItemID (stringValue (field (nil_map (mapValue item)) ''id'')) \<and>
    item_type item = ''function_call'' \<and> item_call_id item \<noteq> ''''"
proof -
  have made: "codexBackendValidFunctionCallItemID (TrimSpace (''fc_'' @ codexBackendSafeItemID v))" for v
  proof -
    have all: "list_all item_id_char (''fc_'' @ codexBackendSafeItemID v)"
      using safe_id_chars [of v] by (simp add: item_id_char_def byte_in_def)
    then show ?thesis
      using TrimSpace_item_id [OF all]
      by (simp add: codexBackendValidFunctionCallItemID_def codexBackendValidItemID_def has_prefix_def)
  qed
  let ?callID = "firstStringValue toolCall [''call_id'', ''id'']" and ?i = "stringValue (field toolCall ''id'')"
  have trimmed: "TrimSpace (firstStringValue m ks) = firstStringValue m ks" for m ks
    by (cases "filter (\<lambda>t. t \<noteq> '''') (map (\<lambda>k. stringValue (field m k)) ks)")
      (auto simp: firstStringValue_def stringValue_def filter_eq_Cons_iff map_eq_append_conv split: json.splits)
  have trim_i: "TrimSpace ?i = ?i" by (simp add: stringValue_def split: json.split)
  have "TrimSpace ''function_call'' = ''function_call''" by code_simp
  moreover obtain nm args where item: "item = JObj
      [(''type'', JStr ''function_call''),
       (''id'', JStr (if codexBackendValidFunctionCallItemID ?i then ?i else ''fc_'' @ codexBackendSafeItemID ?callID)),
       (''call_id'', JStr ?callID), (''name'', JStr nm), (''arguments'', JStr args), (''status'', JStr ''completed'')]"
    and "?callID \<noteq> ''''"
    using assms unfolding codexBackendFunctionCallItem_def Let_def by (auto split: if_splits)
  ultimately show ?thesis
    using made [of ?callID] trim_i trimmed [of toolCall "[''call_id'', ''id'']"]
    unfolding item item_type_def item_call_id_def
    by (simp add: field_def mapValue_def nil_map_def stringValue_def)
qed

theorem function_call_ids_valid_witness:
  "codexBackendValidFunctionCallItemID (stringValue (field (nil_map (mapValue (the (codexBackendFunctionCallItem (\<lambda>_. '''')
     [(''name'', JStr ''f''), (''call_id'', JStr ''a/b c'')])))) ''id''))"
proof -
  have "codexBackendFunctionCallItem (\<lambda>_. '''') [(''name'', JStr ''f''), (''call_id'', JStr ''a/b c'')] =
      Some (the (codexBackendFunctionCallItem (\<lambda>_. '''') [(''name'', JStr ''f''), (''call_id'', JStr ''a/b c'')]))"
    by (rule option.collapse [symmetric]) code_simp
  from function_call_ids_valid [OF this] show ?thesis by blast
qed

end
