(* ===== verification/EventStream.thy ===== *)
theory EventStream
  imports BackendAdapter
begin

text \<open>
  The streamed answer (internal/server/openai\_gateway\_handler.go): how server-sent events are
  written to the client, and the loop of \<open>streamCodexBackendResponsesWithOptions\<close> that copies
  the events of the backend to the client while it watches for completion, failure, silence and
  cancellation. What arrives on the channels of the loop is a list of inputs; a write to the
  client may fail and end the stream.
\<close>

section \<open>Frames\<close>

definition LF :: char where "LF = CHR 0x0A"

definition sse_frame :: "string \<Rightarrow> string" where
  "sse_frame data = ''data: '' @ data @ [LF, LF]"

definition sse_comment :: "string \<Rightarrow> string" where
  "sse_comment comment = '': '' @ TrimSpace comment @ [LF, LF]"

definition done_frame :: string where
  "done_frame = sse_frame ''[DONE]''"

definition keepalive :: string where
  "keepalive = sse_comment ''keepalive''"

text \<open>What was sent: events and comments.\<close>

datatype frame = Event string | Comment string

fun render :: "frame \<Rightarrow> string" where
  "render (Event data) = sse_frame data"
| "render (Comment c) = sse_comment c"

fun frame_ok :: "frame \<Rightarrow> bool" where
  "frame_ok (Event data) = (data \<noteq> '''' \<and> TrimSpace data = data \<and> LF \<notin> set data \<and> line_fits (''data: '' @ data))"
| "frame_ok (Comment c) = (LF \<notin> set (TrimSpace c) \<and> line_fits ('': '' @ TrimSpace c))"

fun frame_data :: "frame \<Rightarrow> string list" where
  "frame_data (Event data) = [data]"
| "frame_data (Comment c) = []"

lemma split_line: "LF \<notin> set l \<Longrightarrow> split_lines cur (l @ LF # rest) = (rev cur @ l) # split_lines [] rest"
  by (induction l arbitrary: cur) (auto simp: LF_def)

lemma scan_line:
  assumes "LF \<notin> set l" "line_fits l"
  shows "scan_lines (l @ LF # rest) = drop_cr l # scan_lines rest"
  using assms by (simp add: scan_lines_def split_line)

lemma scan_blank: "scan_lines (LF # rest) = '''' # scan_lines rest"
  using scan_line [of "''''" rest] by (simp add: line_fits_def maxGatewayRequestBytes_def drop_cr_def)

lemma drop_cr_trim:
  assumes "TrimSpace d = d" "d \<noteq> ''''"
  shows "drop_cr (p @ d) = p @ d"
proof -
  have "last d \<noteq> CHR 0x0D"
  proof
    assume "last d = CHR 0x0D"
    then have "rev d = CHR 0x0D # rev (butlast d)" using assms(2) by (metis append_butlast_last_id rev_eq_Cons_iff rev_rev_ident)
    moreover have "[CHR 0x0D] \<in> set rev_ws_runes" by code_simp
    moreover have "first_strip rev_ws_runes (rev d) = None"
      using trim_front_stop [OF rev_ws_runes_nonempty] assms(1)
      by (metis TrimSpace_def TrimRightSpace_def rev_rev_ident)
    ultimately show False unfolding first_strip_None by (metis append_Cons append_Nil)
  qed
  then show ?thesis using assms(2) by (simp add: drop_cr_def)
qed

lemma trim_leading_space: "TrimSpace (CHR '' '' # d) = TrimSpace d"
proof -
  have "first_strip ws_runes (CHR '' '' # d) = Some d" by (simp add: ws_runes_def)
  then have "TrimLeftSpace (CHR '' '' # d) = TrimLeftSpace d"
    by (simp add: TrimLeftSpace_def trim_front.simps [of ws_runes "CHR '' '' # d"])
  then show ?thesis by (simp add: TrimSpace_def)
qed

lemma read_frame:
  assumes "frame_ok f"
  shows "sse_messages '''' (scan_lines (render f @ rest)) = frame_data f @ sse_messages '''' (scan_lines rest)"
proof (cases f)
  case (Event data)
  then have d: "data \<noteq> ''''" "TrimSpace data = data" "LF \<notin> set (''data: '' @ data)" "line_fits (''data: '' @ data)"
    using assms by (simp_all add: LF_def)
  have "scan_lines (render f @ rest) = (''data: '' @ data) # '''' # scan_lines rest"
    using scan_line [OF d(3,4), of "LF # rest"] drop_cr_trim [OF d(2,1), of "''data: ''"]
    by (simp add: Event sse_frame_def scan_blank)
  then show ?thesis using d by (simp add: Event has_prefix_def trim_prefix_def trim_leading_space)
next
  case (Comment c)
  let ?l = "'': '' @ TrimSpace c"
  have l: "LF \<notin> set ?l" "line_fits ?l" using assms Comment by (simp_all add: LF_def)
  have "scan_lines (render f @ rest) = drop_cr ?l # '''' # scan_lines rest"
    using scan_line [OF l, of "LF # rest"] by (simp add: Comment sse_comment_def scan_blank)
  moreover have "drop_cr ?l \<noteq> ''''" "\<not> has_prefix (drop_cr ?l) ''data:''"
    by (auto simp: drop_cr_def has_prefix_def)
  ultimately show ?thesis by (simp add: Comment)
qed

text \<open>
  The frames the gateway writes are the events a reader gets back: whatever mix of events and
  keepalive comments is written, the parser of the event stream returns exactly the events, in
  order and unchanged, provided each is one trimmed, non-empty line within the buffer.
\<close>
theorem frames_roundtrip:
  assumes "\<forall>f \<in> set frames. frame_ok f"
  shows "sseDataMessages (concat (map render frames)) = concat (map frame_data frames)"
  using assms
proof (induction frames)
  case Nil
  then show ?case by (simp add: sseDataMessages_def scan_lines_def)
next
  case (Cons f frames)
  then show ?case using read_frame [of f "concat (map render frames)"] by (simp add: sseDataMessages_def)
qed

theorem frames_roundtrip_witness:
  "sseDataMessages (concat (map render [Comment ''keepalive'', Event ''one'', Event ''[DONE]''])) = [''one'', ''[DONE]'']"
proof -
  have "\<forall>f \<in> set [Comment ''keepalive'', Event ''one'', Event ''[DONE]'']. frame_ok f" by code_simp
  from frames_roundtrip [OF this] show ?thesis by simp
qed

section \<open>The loop\<close>

record codexBackendResponsesStreamResult =
  sr_Metrics :: openAIUsageMetrics
  sr_ResponseBytes :: int
  sr_Started :: bool
  sr_ErrorType :: string
  sr_Diagnostic :: GatewayUsageDiagnostic

text \<open>
  What a stream depends on: the request; the model and the prompt text that token estimates use;
  the Unix time of a failure message; the text of the timeout; and the connection to the client,
  which takes the number of the write and the bytes and returns how many went out and an error.
\<close>

record stream_context =
  sx_Path :: string
  sx_Body :: string
  sx_Model :: string
  sx_Effort :: string
  sx_Prompt :: string
  sx_FallbackEnabled :: bool
  sx_Options :: gatewayRequestOptions
  sx_FmtFloat :: "rat \<Rightarrow> string"
  sx_Now :: int
  sx_Timeout :: string
  sx_Write :: "nat \<Rightarrow> string \<Rightarrow> int \<times> upstream_error option"

text \<open>
  What the two \<open>select\<close> statements receive, in the order they receive it. While the response is
  opened: the opened response or its error, with whether the deadline has passed, a tick of the
  heartbeat, the end of the request's context. Then: a message of the backend, the end of its
  body with the error of the scanner, a tick, the end of the context.
\<close>

datatype open_event = Opened bool "upstream_error option" | OpenTick | OpenGone upstream_error

datatype input = Data string | Closed "upstream_error option" | Tick | Gone upstream_error

record stream_state =
  st_Sent :: "frame list"
  st_Result :: codexBackendResponsesStreamResult
  st_Content :: string
  st_Done :: bool
  st_Completed :: bool
  st_Failed :: bool

text \<open>A step goes on with a state or returns an error (or none) with the last state.\<close>

type_synonym verdict = "stream_state + (upstream_error option \<times> stream_state)"

definition on_result ::
  "(codexBackendResponsesStreamResult \<Rightarrow> codexBackendResponsesStreamResult) \<Rightarrow> stream_state \<Rightarrow> stream_state" where
  "on_result f s = s\<lparr>st_Result := f (st_Result s)\<rparr>"

definition on_diagnostic ::
  "(GatewayUsageDiagnostic \<Rightarrow> GatewayUsageDiagnostic) \<Rightarrow> stream_state \<Rightarrow> stream_state" where
  "on_diagnostic f = on_result (\<lambda>r. r\<lparr>sr_Diagnostic := f (sr_Diagnostic r)\<rparr>)"

text \<open>\<open>writeGatewaySSEDataWithError\<close>, \<open>writeGatewaySSECommentWithError\<close>; \<open>result.ResponseBytes += n\<close>.\<close>

definition write_frame :: "stream_context \<Rightarrow> frame \<Rightarrow> stream_state \<Rightarrow> upstream_error option \<times> stream_state" where
  "write_frame x f s =
     (case sx_Write x (length (st_Sent s)) (render f) of
        (n, err) \<Rightarrow>
          (err, on_result (\<lambda>r. r\<lparr>sr_ResponseBytes := wrap64 (sr_ResponseBytes r + n)\<rparr>) (s\<lparr>st_Sent := st_Sent s @ [f]\<rparr>)))"

definition gatewayClientStreamWriteError :: "upstream_error \<Rightarrow> upstream_error" where
  "gatewayClientStreamWriteError err = Wrapped '''' StreamClosed ('': '' @ error_text err)"

definition write_or_return :: "stream_context \<Rightarrow> frame \<Rightarrow> stream_state \<Rightarrow> (stream_state \<Rightarrow> verdict) \<Rightarrow> verdict" where
  "write_or_return x f s k =
     (case write_frame x f s of
        (Some err, s') \<Rightarrow> Inr (Some (gatewayClientStreamWriteError err), s')
      | (None, s') \<Rightarrow> k s')"

text \<open>The failure message: the default case of \<open>mapGatewayHTTPErrorMessage\<close> is the error's text.\<close>

definition failure_message :: "stream_context \<Rightarrow> string \<Rightarrow> upstream_error \<Rightarrow> string" where
  "failure_message x errorType err =
     json_encode (sx_FmtFloat x) (JObj
       [(''type'', JStr ''response.failed''),
        (''response'', JObj
          [(''id'', JStr (''resp_codex_'' @ Itoa (sx_Now x))), (''object'', JStr ''response''),
           (''created_at'', JNum (of_int (sx_Now x))), (''status'', JStr ''failed''), (''output'', JArr []),
           (''output_text'', JStr ''''), (''parallel_tool_calls'', JBool False),
           (''error'', JObj [(''message'', JStr (error_text err)), (''type'', JStr ''gateway_error''),
              (''code'', JStr errorType)])])])"

definition writeGatewayResponsesStreamFailure :: "stream_context \<Rightarrow> string \<Rightarrow> upstream_error \<Rightarrow> stream_state \<Rightarrow> stream_state" where
  "writeGatewayResponsesStreamFailure x errorType err s =
     snd (write_frame x (Event ''[DONE]'') (snd (write_frame x (Event (failure_message x errorType err)) s)))"

definition codexBackendStreamFailureType :: "upstream_error \<Rightarrow> GatewayUsageDiagnostic \<Rightarrow> string" where
  "codexBackendStreamFailureType err d =
     (if 0 < d_UpstreamStreamEvents d \<and> \<not> d_UpstreamStreamCompleted d \<and> \<not> d_UpstreamStreamDoneSeen d
      then ''codex_backend_stream_interrupted''
      else upstreamErrorType err GatewayUpstreamModeCodexBackend)"

definition finalizeSuccess :: "stream_context \<Rightarrow> stream_state \<Rightarrow> stream_state" where
  "finalizeSuccess x s = on_result (\<lambda>r.
     let m = (if um_TotalTokens (sr_Metrics r) \<le> 0
              then estimateCodexCLIUsage (sx_Model x) (sx_Prompt x) (st_Content s) else sr_Metrics r)
     in r\<lparr>sr_Metrics := m\<lparr>um_Model := text_or (um_Model m) (sx_Model x)\<rparr>\<rparr>) s"

text \<open>An error that ends the stream: it is reported to the client, unless the end mark is out.\<close>

definition give_up :: "stream_context \<Rightarrow> bool \<Rightarrow> string \<Rightarrow> upstream_error \<Rightarrow> stream_state \<Rightarrow> verdict" where
  "give_up x tell errorType err s =
     (let s = (if tell then writeGatewayResponsesStreamFailure x errorType err s else s)
      in Inr (Some err, on_diagnostic (\<lambda>d. d\<lparr>d_UpstreamBody := summarizeErrorForUsage err\<rparr>)
           (on_result (\<lambda>r. r\<lparr>sr_ErrorType := errorType\<rparr>) s)))"


definition keep_alive :: "stream_context \<Rightarrow> stream_state \<Rightarrow> verdict" where
  "keep_alive x s = write_or_return x (Comment ''keepalive'') s Inl"

definition stream_error_type :: "upstream_error \<Rightarrow> string" where
  "stream_error_type err = upstreamErrorType err GatewayUpstreamModeCodexBackend"

definition timed_out_error :: "stream_context \<Rightarrow> upstream_error" where
  "timed_out_error x = TextError (''codex backend upstream timed out after '' @ sx_Timeout x)"

definition on_opened :: "stream_context \<Rightarrow> bool \<Rightarrow> upstream_error option \<Rightarrow> stream_state \<Rightarrow> verdict" where
  "on_opened x expired failed s =
     (case (if expired then Some (timed_out_error x) else failed) of
        None \<Rightarrow> Inl (on_diagnostic (\<lambda>d. d\<lparr>d_UpstreamStreamStarted := True\<rparr>) s)
      | Some err \<Rightarrow>
          Inr (Some err,
            on_result (\<lambda>r. r\<lparr>sr_ErrorType := stream_error_type err,
                sr_Diagnostic := (gatewayUsageDiagnosticForUpstreamFailureWithOptions (sx_Path x) (sx_Body x)
                    (sx_Effort x) err (sx_FallbackEnabled x) (sx_Options x))\<lparr>d_ResponseBytes := sr_ResponseBytes r\<rparr>\<rparr>)
              (writeGatewayResponsesStreamFailure x (stream_error_type err) err s)))"

text \<open>The first loop; \<open>None\<close> while it waits for more.\<close>

fun await_response :: "stream_context \<Rightarrow> open_event list \<Rightarrow> stream_state \<Rightarrow> verdict option" where
  "await_response x [] s = None"
| "await_response x (Opened expired failed # _) s = Some (on_opened x expired failed s)"
| "await_response x (OpenTick # rest) s =
     (case keep_alive x s of Inl s' \<Rightarrow> await_response x rest s' | Inr r \<Rightarrow> Some (Inr r))"
| "await_response x (OpenGone err # _) s =
     (let err = (if err = DeadlineExceeded then timed_out_error x else err)
      in Some (give_up x True (stream_error_type err) err s))"

definition replace_content :: "string \<Rightarrow> stream_state \<Rightarrow> stream_state" where
  "replace_content text s = s\<lparr>st_Content := text_or text (st_Content s)\<rparr>"

definition note_failure :: "string \<Rightarrow> string \<Rightarrow> stream_state \<Rightarrow> stream_state" where
  "note_failure data fallback s =
     on_result (\<lambda>r. r\<lparr>sr_ErrorType := codexBackendResponseEventErrorType data fallback\<rparr>)
       (on_diagnostic (\<lambda>d. applyCodexBackendErrorDetailToDiagnostic data
           (d\<lparr>d_UpstreamBody := summarizeCodexBackendBody data\<rparr>))
         (s\<lparr>st_Failed := True\<rparr>))"

definition on_event :: "obj \<Rightarrow> string \<Rightarrow> stream_state \<Rightarrow> stream_state" where
  "on_event event data s =
     (let typ = event_type event; response = nil_map (mapValue (field event ''response''))
      in if typ = ''response.output_text.delta''
         then s\<lparr>st_Content := st_Content s @ stringValue (field event ''delta'')\<rparr>
         else if typ = ''response.output_item.done''
         then replace_content (codexBackendOutputTextFromValue (JObj (nil_map (mapValue (field event ''item''))))) s
         else if typ = ''response.completed''
         then replace_content (codexBackendOutputTextFromValue (JObj response))
           (on_result (\<lambda>r. r\<lparr>sr_Metrics :=
                (if 0 < um_TotalTokens (completed_usage event) then completed_usage event else sr_Metrics r)\<rparr>)
             (on_diagnostic (\<lambda>d. d\<lparr>d_UpstreamStreamCompleted := True\<rparr>) (s\<lparr>st_Completed := True\<rparr>)))
         else if typ = ''response.failed'' then note_failure data ''codex_backend_response_failed'' s
         else if typ = ''response.incomplete'' then note_failure data ''codex_backend_response_incomplete'' s
         else s)"

definition on_data :: "stream_context \<Rightarrow> string \<Rightarrow> stream_state \<Rightarrow> verdict" where
  "on_data x data s =
     (if TrimSpace data = '''' then Inl s
      else write_or_return x (Event data) s (\<lambda>s.
        if data = ''[DONE]''
        then Inl (on_diagnostic (\<lambda>d. d\<lparr>d_UpstreamStreamDoneSeen := True\<rparr>) (s\<lparr>st_Done := True\<rparr>))
        else let s = on_diagnostic (\<lambda>d. d\<lparr>d_UpstreamStreamEvents := d_UpstreamStreamEvents d + 1\<rparr>) s
             in Inl (case decode_object data of None \<Rightarrow> s | Some event \<Rightarrow> on_event event data s)))"

definition succeed :: "stream_context \<Rightarrow> stream_state \<Rightarrow> verdict" where
  "succeed x s = Inr (None, finalizeSuccess x s)"

definition on_closed :: "stream_context \<Rightarrow> upstream_error option \<Rightarrow> stream_state \<Rightarrow> verdict" where
  "on_closed x scan_error s =
     (let failure = (\<lambda>err. codexBackendStreamFailureType err (sr_Diagnostic (st_Result s)));
          fail_response = (\<lambda>s. Inr (Some (TextError ''codex backend response failed''),
            on_result (\<lambda>r. r\<lparr>sr_ErrorType := text_or (sr_ErrorType r) ''codex_backend_response_failed''\<rparr>) s))
      in case scan_error of
           Some err \<Rightarrow>
             if (st_Completed s \<or> st_Done s) \<and> \<not> st_Failed s then succeed x s
             else give_up x (\<not> st_Done s) (failure err) err s
         | None \<Rightarrow>
             if st_Failed s
             then (if st_Done s then fail_response s else write_or_return x (Event ''[DONE]'') s fail_response)
             else if st_Done s then succeed x s
             else if st_Completed s then write_or_return x (Event ''[DONE]'') s (succeed x)
             else give_up x True (failure UnexpectedEOF) UnexpectedEOF s)"

definition on_gone :: "stream_context \<Rightarrow> upstream_error \<Rightarrow> stream_state \<Rightarrow> verdict" where
  "on_gone x err s =
     (if st_Completed s \<and> \<not> st_Failed s then succeed x s
      else give_up x (\<not> st_Done s) (stream_error_type err) err s)"


definition on_input :: "stream_context \<Rightarrow> input \<Rightarrow> stream_state \<Rightarrow> verdict" where
  "on_input x i s =
     (case i of
        Data data \<Rightarrow> on_data x data s
      | Closed scan_error \<Rightarrow> on_closed x scan_error s
      | Tick \<Rightarrow> keep_alive x s
      | Gone err \<Rightarrow> on_gone x err s)"

text \<open>The second loop.\<close>

fun relay :: "stream_context \<Rightarrow> input list \<Rightarrow> stream_state \<Rightarrow> (upstream_error option \<times> stream_state) option" where
  "relay x [] s = None"
| "relay x (i # rest) s = (case on_input x i s of Inl s' \<Rightarrow> relay x rest s' | Inr r \<Rightarrow> Some r)"

definition idle_stream :: stream_state where
  "idle_stream = \<lparr>st_Sent = [],
     st_Result = \<lparr>sr_Metrics = no_metrics, sr_ResponseBytes = 0, sr_Started = False, sr_ErrorType = '''',
       sr_Diagnostic = no_diagnostic\<rparr>,
     st_Content = '''', st_Done = False, st_Completed = False, st_Failed = False\<rparr>"

definition started_stream :: "stream_context \<Rightarrow> stream_state" where
  "started_stream x = on_result (\<lambda>r. r\<lparr>sr_Started := True,
     sr_Diagnostic := gatewayUsageDiagnosticForRequest (sx_Path x) (sx_Body x) (sx_Effort x)\<rparr>) idle_stream"

text \<open>
  \<open>streamCodexBackendResponsesWithOptions\<close>: the error it returns and the last state, with its
  result. \<open>None\<close> where the inputs end before the loop does.
\<close>

definition streamCodexBackendResponsesWithOptions ::
  "(string \<Rightarrow> string) \<Rightarrow> unit result \<Rightarrow> stream_context \<Rightarrow> string \<Rightarrow> open_event list \<Rightarrow> input list \<Rightarrow>
   (upstream_error option \<times> stream_state) option" where
  "streamCodexBackendResponsesWithOptions env io x0 requestModel opens inputs =
     (case codexBackendRequestFromGatewayWithOptions env (sx_FmtFloat x0) (sx_Path x0) (sx_Body x0) requestModel
             (sx_Effort x0) (sx_Options x0) of
        Inl e \<Rightarrow>
          (let err = TextError (go_error_text e)
           in Some (Some err, on_result (\<lambda>r. r\<lparr>sr_ErrorType := stream_error_type err,
                sr_Diagnostic := gatewayUsageDiagnosticForUpstreamFailureWithOptions (sx_Path x0) (sx_Body x0)
                  (sx_Effort x0) err (sx_FallbackEnabled x0) (sx_Options x0)\<rparr>) idle_stream))
      | Inr (request, model) \<Rightarrow>
          (let x = x0\<lparr>sx_Model := model, sx_Prompt := promptTextForUsageEstimate io (sx_Path x0) (sx_Body x0)\<rparr>
           in case keep_alive x (started_stream x) of
                Inr r \<Rightarrow> Some r
              | Inl s \<Rightarrow>
                  (case await_response x opens s of
                     None \<Rightarrow> None
                   | Some (Inr r) \<Rightarrow> Some r
                   | Some (Inl s') \<Rightarrow> relay x inputs s')))"

section \<open>What the client sees\<close>

text \<open>A client that takes every write.\<close>

definition healthy :: "stream_context \<Rightarrow> bool" where
  "healthy x = (\<forall>n text. snd (sx_Write x n text) = None)"

definition messages :: "stream_state \<Rightarrow> string list" where
  "messages s = concat (map frame_data (st_Sent s))"

definition input_messages :: "input list \<Rightarrow> string list" where
  "input_messages inputs =
     concat (map (\<lambda>i. case i of Data data \<Rightarrow> if TrimSpace data = '''' then [] else [data] | _ \<Rightarrow> []) inputs)"

definition message_events :: "string list \<Rightarrow> obj list" where
  "message_events datas = concat (map (\<lambda>data. option_list (sse_event data)) datas)"

definition quiet :: "input \<Rightarrow> bool" where
  "quiet i = (case i of Data _ \<Rightarrow> True | Tick \<Rightarrow> True | _ \<Rightarrow> False)"

lemma write_healthy:
  "healthy x \<Longrightarrow> fst (write_frame x f s) = None"
  "messages (snd (write_frame x f s)) = messages s @ frame_data f"
  "st_Done (snd (write_frame x f s)) = st_Done s"
  "st_Completed (snd (write_frame x f s)) = st_Completed s"
  "st_Failed (snd (write_frame x f s)) = st_Failed s"
  "st_Content (snd (write_frame x f s)) = st_Content s"
  "sr_Metrics (st_Result (snd (write_frame x f s))) = sr_Metrics (st_Result s)"
  by (auto simp: write_frame_def healthy_def on_result_def messages_def split: prod.splits)
    (metis snd_conv)

lemma write_or_return_healthy:
  "healthy x \<Longrightarrow> write_or_return x f s k = k (snd (write_frame x f s))"
  using write_healthy(1) [of x f s] by (cases "write_frame x f s") (simp add: write_or_return_def)

lemma on_result_reads [simp]:
  "messages (on_result f s) = messages s" "st_Done (on_result f s) = st_Done s"
  "st_Completed (on_result f s) = st_Completed s" "st_Failed (on_result f s) = st_Failed s"
  "st_Content (on_result f s) = st_Content s" "st_Result (on_result f s) = f (st_Result s)"
  "messages (s\<lparr>st_Done := b\<rparr>) = messages s" "messages (s\<lparr>st_Completed := b\<rparr>) = messages s"
  "messages (s\<lparr>st_Failed := b\<rparr>) = messages s" "messages (s\<lparr>st_Content := t\<rparr>) = messages s"
  by (simp_all add: on_result_def messages_def)

lemma on_diagnostic_reads [simp]:
  "messages (on_diagnostic f s) = messages s" "st_Done (on_diagnostic f s) = st_Done s"
  "st_Completed (on_diagnostic f s) = st_Completed s" "st_Failed (on_diagnostic f s) = st_Failed s"
  "st_Content (on_diagnostic f s) = st_Content s" "sr_Metrics (st_Result (on_diagnostic f s)) = sr_Metrics (st_Result s)"
  by (simp_all add: on_diagnostic_def)

lemma on_event_reads:
  "messages (on_event e d s) = messages s" "st_Done (on_event e d s) = st_Done s"
  "st_Completed (on_event e d s) \<longleftrightarrow> st_Completed s \<or> event_type e = ''response.completed''"
  "st_Failed (on_event e d s) \<longleftrightarrow> st_Failed s \<or> failure_event e"
  "sr_Metrics (st_Result (on_event e d s)) = last_or (sr_Metrics (st_Result s)) (reported_usage e)"
  by (simp_all add: on_event_def Let_def replace_content_def note_failure_def failure_event_def reported_usage_def)


text \<open>What a stretch of messages and ticks does to the state.\<close>

definition carried :: "input list \<Rightarrow> stream_state \<Rightarrow> stream_state \<Rightarrow> bool" where
  "carried inputs s t =
     (let es = message_events (input_messages inputs)
      in messages t = messages s @ input_messages inputs \<and>
         (st_Done t \<longleftrightarrow> st_Done s \<or> ''[DONE]'' \<in> set (input_messages inputs)) \<and>
         (st_Completed t \<longleftrightarrow> st_Completed s \<or> (\<exists>e \<in> set es. event_type e = ''response.completed'')) \<and>
         (st_Failed t \<longleftrightarrow> st_Failed s \<or> (\<exists>e \<in> set es. failure_event e)) \<and>
         sr_Metrics (st_Result t) = last_or (sr_Metrics (st_Result s)) (concat (map reported_usage es)))"

lemma carried_refl: "carried [] s s"
  by (simp add: carried_def input_messages_def message_events_def)

lemma carried_trans: "carried a s t \<Longrightarrow> carried b t u \<Longrightarrow> carried (a @ b) s u"
proof -
  have "input_messages (a @ b) = input_messages a @ input_messages b"
    and "message_events (ms @ ns) = message_events ms @ message_events ns" for ms ns
    by (simp_all add: input_messages_def message_events_def)
  then show "carried a s t \<Longrightarrow> carried b t u \<Longrightarrow> carried (a @ b) s u"
    unfolding carried_def Let_def by (simp add: last_or_append bex_Un)
qed

lemma quiet_step:
  assumes "healthy x" "quiet i"
  shows "\<exists>t. on_input x i s = Inl t \<and> carried [i] s t"
proof (cases i)
  case (Data data)
  show ?thesis
  proof (cases "TrimSpace data = ''''")
    case True
    then show ?thesis
      by (simp add: Data on_input_def on_data_def carried_def input_messages_def message_events_def)
  next
    case False
    then show ?thesis
      using write_healthy [of x "Event data" s] assms(1)
      by (cases "decode_object data")
        (auto simp: Data on_input_def on_data_def write_or_return_healthy carried_def input_messages_def
          message_events_def sse_event_def on_event_reads Let_def)
  qed
next
  case Tick
  then show ?thesis
    using write_healthy [of x "Comment ''keepalive''" s] assms(1)
    by (simp add: on_input_def keep_alive_def write_or_return_healthy carried_def input_messages_def message_events_def)
qed (use assms in \<open>simp_all add: quiet_def\<close>)

lemma relay_quiet:
  assumes "healthy x" "list_all quiet pre"
  shows "\<exists>t. (\<forall>rest. relay x (pre @ rest) s = relay x rest t) \<and> carried pre s t"
  using assms(2)
proof (induction pre arbitrary: s)
  case Nil
  then show ?case using carried_refl by auto
next
  case (Cons i pre)
  from quiet_step [OF assms(1), of i s] Cons.prems
  obtain t where t: "on_input x i s = Inl t" "carried [i] s t" by auto
  moreover obtain u where "\<forall>rest. relay x (pre @ rest) t = relay x rest u" "carried pre t u"
    using Cons by auto
  ultimately show ?case using carried_trans [of "[i]" s t pre u] by auto
qed

lemma await_quiet:
  assumes "healthy x"
  shows "\<exists>t. await_response x (replicate n OpenTick @ [Opened False None]) s = Some (Inl t) \<and> carried [] s t"
proof (induction n arbitrary: s)
  case 0
  then show ?case
    by (simp add: on_opened_def carried_def input_messages_def message_events_def)
next
  case (Suc n)
  obtain t where t: "keep_alive x s = Inl t" "carried [] s t"
    using quiet_step [OF assms, of Tick s] by (auto simp: on_input_def quiet_def carried_def input_messages_def)
  from Suc [of t] show ?case using t carried_trans [of "[]" s t "[]"] by auto
qed


lemma give_up_eq:
  "\<exists>t. give_up x tell errorType err s = Inr (Some err, t) \<and>
     messages t = messages s @ (if tell then [failure_message x errorType err, ''[DONE]''] else [])"
  by (simp add: give_up_def Let_def writeGatewayResponsesStreamFailure_def write_healthy(2))

lemma succeed_eq:
  "\<exists>t. succeed x s = Inr (None, t) \<and> messages t = messages s \<and>
     sr_Metrics (st_Result t) = (let m = (if um_TotalTokens (sr_Metrics (st_Result s)) \<le> 0
        then estimateCodexCLIUsage (sx_Model x) (sx_Prompt x) (st_Content s) else sr_Metrics (st_Result s))
      in m\<lparr>um_Model := text_or (um_Model m) (sx_Model x)\<rparr>)"
  by (simp add: succeed_def finalizeSuccess_def Let_def)

text \<open>How the loop ends, on a healthy connection.\<close>

definition closing :: "stream_context \<Rightarrow> input \<Rightarrow> stream_state \<Rightarrow> upstream_error option \<Rightarrow> stream_state \<Rightarrow> bool" where
  "closing x i s err t =
     ((err = None \<longleftrightarrow> \<not> st_Failed s \<and> (st_Completed s \<or> (st_Done s \<and> (\<exists>e. i = Closed e)))) \<and>
      (st_Done s \<longrightarrow> messages t = messages s) \<and>
      (\<not> st_Done s \<longrightarrow> err = None \<longrightarrow>
         messages t = messages s @ (if i = Closed None then [''[DONE]''] else [])) \<and>
      (\<not> st_Done s \<longrightarrow> err \<noteq> None \<longrightarrow>
         (\<exists>errorType. messages t = messages s @
            (if i = Closed None \<and> st_Failed s then [] else [failure_message x errorType (the err)]) @ [''[DONE]''])))"

lemma ending_step:
  assumes "healthy x" "\<not> quiet i"
  shows "\<exists>err t. on_input x i s = Inr (err, t) \<and> closing x i s err t \<and>
    (err = None \<longrightarrow> sr_Metrics (st_Result t) = (let m = (if um_TotalTokens (sr_Metrics (st_Result s)) \<le> 0
        then estimateCodexCLIUsage (sx_Model x) (sx_Prompt x) (st_Content s) else sr_Metrics (st_Result s))
      in m\<lparr>um_Model := text_or (um_Model m) (sx_Model x)\<rparr>))"
proof -
  note w = write_healthy [of x "Event ''[DONE]''" s] assms(1)
  consider (gone) err where "i = Gone err" | (broken) err where "i = Closed (Some err)" | (closed) "i = Closed None"
    using assms(2) by (cases i) (auto simp: quiet_def)
  then show ?thesis
  proof cases
    case gone
    then show ?thesis
      using succeed_eq [of x s] give_up_eq [of x "\<not> st_Done s" "stream_error_type err" err s]
      by (auto simp: on_input_def on_gone_def closing_def)
  next
    case broken
    let ?e = "codexBackendStreamFailureType err (sr_Diagnostic (st_Result s))"
    show ?thesis
      using broken succeed_eq [of x s] give_up_eq [of x "\<not> st_Done s" ?e err s]
      by (auto simp: on_input_def on_closed_def closing_def Let_def)
  next
    case closed
    let ?e = "codexBackendStreamFailureType UnexpectedEOF (sr_Diagnostic (st_Result s))"
    let ?s = "snd (write_frame x (Event ''[DONE]'') s)"
    show ?thesis
      using closed succeed_eq [of x s] succeed_eq [of x ?s] give_up_eq [of x True ?e UnexpectedEOF s] w
      by (auto simp: on_input_def on_closed_def closing_def Let_def write_or_return_healthy)
  qed
qed


lemma message_events_data: "message_events (input_messages (map Data datas)) = message_events datas"
  by (induction datas) (auto simp: input_messages_def message_events_def sse_event_def)

text \<open>A whole run: opened after some ticks, a stretch of messages, and an end.\<close>

lemma stream_run:
  assumes "healthy x0" "list_all quiet pre" "\<not> quiet i"
    and "codexBackendRequestFromGatewayWithOptions env (sx_FmtFloat x0) (sx_Path x0) (sx_Body x0) requestModel
           (sx_Effort x0) (sx_Options x0) = Inr (request, model)"
    and "x = x0\<lparr>sx_Model := model, sx_Prompt := promptTextForUsageEstimate io (sx_Path x0) (sx_Body x0)\<rparr>"
  shows "\<exists>s err t. carried pre idle_stream s \<and> on_input x i s = Inr (err, t) \<and>
    streamCodexBackendResponsesWithOptions env io x0 requestModel (replicate n OpenTick @ [Opened False None])
      (pre @ i # rest) = Some (err, t)"
proof -
  have h: "healthy x" using assms(1,5) by (simp add: healthy_def)
  obtain a where a: "keep_alive x (started_stream x) = Inl a" "carried [] (started_stream x) a"
    using quiet_step [OF h, of Tick "started_stream x"]
    by (auto simp: on_input_def quiet_def carried_def input_messages_def)
  moreover have "carried [] idle_stream (started_stream x)"
    by (simp add: carried_def started_stream_def input_messages_def message_events_def)
  moreover obtain b where b: "await_response x (replicate n OpenTick @ [Opened False None]) a = Some (Inl b)" "carried [] a b"
    using await_quiet [OF h] by blast
  moreover obtain s where s: "\<forall>rest. relay x (pre @ rest) b = relay x rest s" "carried pre b s"
    using relay_quiet [OF h assms(2)] by blast
  moreover obtain err t where e: "on_input x i s = Inr (err, t)"
    using ending_step [OF h assms(3)] by blast
  ultimately have "carried pre idle_stream s"
    using carried_trans [of "[]" _ _ "[]"] carried_trans [of "[]" _ _ pre] by (metis append_Nil)
  then show ?thesis
    using a b s e assms(4) by (auto simp: streamCodexBackendResponsesWithOptions_def Let_def assms(5) [symmetric])
qed

text \<open>
  C5. What a client sees of a streamed answer. The loop returns as soon as the body of the backend
  or the request ends. The client has then received every message of the backend, verbatim, in
  order, each once, before anything else. The request succeeds exactly when no failure event came
  and either the response completed, or the backend sent its end mark and the body is over. After
  the backend's own end mark nothing is added; otherwise the stream is closed by an end mark, with
  a failure message before it when the client was not told yet. The one exception: after a
  completed response, a broken body or a cancelled request ends in success without an end mark.
\<close>
theorem stream_relays:
  assumes "healthy x0" "list_all quiet pre" "\<not> quiet i"
    and "codexBackendRequestFromGatewayWithOptions env (sx_FmtFloat x0) (sx_Path x0) (sx_Body x0) requestModel
           (sx_Effort x0) (sx_Options x0) = Inr (request, model)"
  defines "sent \<equiv> input_messages pre"
  defines "failed \<equiv> \<exists>e \<in> set (message_events sent). failure_event e"
    and "completed \<equiv> \<exists>e \<in> set (message_events sent). event_type e = ''response.completed''"
  shows "\<exists>err t. streamCodexBackendResponsesWithOptions env io x0 requestModel
      (replicate n OpenTick @ [Opened False None]) (pre @ i # rest) = Some (err, t) \<and>
    (err = None \<longleftrightarrow> \<not> failed \<and> (completed \<or> (''[DONE]'' \<in> set sent \<and> (\<exists>e. i = Closed e)))) \<and>
    (\<exists>tail errorType. messages t = sent @ tail \<and>
      tail = (if ''[DONE]'' \<in> set sent then []
              else if err = None then (if i = Closed None then [''[DONE]''] else [])
              else if i = Closed None \<and> failed then [''[DONE]'']
              else [failure_message x0 errorType (the err), ''[DONE]'']))"
proof -
  define x where "x = x0\<lparr>sx_Model := model, sx_Prompt := promptTextForUsageEstimate io (sx_Path x0) (sx_Body x0)\<rparr>"
  obtain s err t where s: "carried pre idle_stream s" "on_input x i s = Inr (err, t)"
      "streamCodexBackendResponsesWithOptions env io x0 requestModel (replicate n OpenTick @ [Opened False None])
        (pre @ i # rest) = Some (err, t)"
    using stream_run [OF assms(1-4) x_def] by blast
  have h: "healthy x" using assms(1) by (simp add: healthy_def x_def)
  have c: "closing x i s err t" using ending_step [OF h assms(3), of s] s(2) by simp
  have m: "messages s = sent" "st_Done s \<longleftrightarrow> ''[DONE]'' \<in> set sent" "st_Completed s \<longleftrightarrow> completed" "st_Failed s \<longleftrightarrow> failed"
    using s(1) by (simp_all add: carried_def Let_def sent_def failed_def completed_def idle_stream_def messages_def)
  have f: "failure_message x = failure_message x0" by (simp add: fun_eq_iff failure_message_def x_def)
  show ?thesis
    using c s(3) unfolding closing_def m f by (intro exI [of _ err] exI [of _ t] conjI) (auto split: if_splits)
qed

text \<open>A question, and an answer in two events.\<close>

definition sample_stream :: stream_context where
  "sample_stream =
     \<lparr>sx_Path = ''/v1/responses'', sx_Body = tilde_quotes ''{~model~:~gpt-5.5~,~input~:~hi~}'', sx_Model = '''',
      sx_Effort = '''', sx_Prompt = '''', sx_FallbackEnabled = False, sx_Options = \<lparr>AgentPassthrough = True, AgentPassthroughReason = ''explicit_body''\<rparr>,
      sx_FmtFloat = (\<lambda>_. ''''), sx_Now = 0, sx_Timeout = ''5m0s'', sx_Write = (\<lambda>n text. (int (length text), None))\<rparr>"

definition sample_answer :: "string list" where
  "sample_answer =
     [tilde_quotes ''{~type~:~response.output_text.delta~,~delta~:~hello~}'',
      tilde_quotes ''{~type~:~response.completed~,~response~:{~usage~:{~input_tokens~:5,~output_tokens~:2}}}'']"

definition sample_request :: "(obj \<times> string) result" where
  "sample_request =
     codexBackendRequestFromGatewayWithOptions (\<lambda>_. '''') (sx_FmtFloat sample_stream) (sx_Path sample_stream)
       (sx_Body sample_stream) '''' (sx_Effort sample_stream) (sx_Options sample_stream)"

lemma sample_request_ok: "\<exists>request. sample_request = Inr (request, ''gpt-5.5'')"
proof -
  have "\<not> isl sample_request \<and> snd (projr sample_request) = ''gpt-5.5''" by code_simp
  then show ?thesis by (metis sum.collapse(2) prod.collapse)
qed

lemma sample_healthy: "healthy sample_stream"
  by (simp add: healthy_def sample_stream_def)

theorem stream_relays_witness:
  "\<exists>t. streamCodexBackendResponsesWithOptions (\<lambda>_. '''') (Inr ()) sample_stream ''''
      (replicate 1 OpenTick @ [Opened False None]) (map Data sample_answer @ Closed None # [Tick]) = Some (None, t) \<and>
    messages t = sample_answer @ [''[DONE]'']"
proof -
  obtain request where r: "sample_request = Inr (request, ''gpt-5.5'')" using sample_request_ok by blast
  have q: "list_all quiet (map Data sample_answer)" by (simp add: list_all_iff quiet_def)
  have m: "input_messages (map Data sample_answer) = sample_answer" by code_simp
  have e: "''[DONE]'' \<notin> set sample_answer" "\<not> (\<exists>e \<in> set (message_events sample_answer). failure_event e)"
    "\<exists>e \<in> set (message_events sample_answer). event_type e = ''response.completed''"
    by code_simp+
  from stream_relays [OF sample_healthy q, of "Closed None", OF _ r [unfolded sample_request_def], of "Inr ()" 1 "[Tick]"]
  show ?thesis unfolding m using e by (fastforce simp: quiet_def)
qed

text \<open>
  C31. A streamed answer costs what it would cost unstreamed: when the events of a response
  arrive one by one and the run succeeds, its metrics are exactly those of the call that reads the
  same events as one body, provided the backend reported a usage.
\<close>
theorem streamed_usage_agrees:
  assumes "healthy x0" "\<not> quiet i"
    and "codexBackendRequestFromGatewayWithOptions env (sx_FmtFloat x0) (sx_Path x0) (sx_Body x0) requestModel
           (sx_Effort x0) (sx_Options x0) = Inr (request, model)"
    and "streamCodexBackendResponsesWithOptions env io x0 requestModel (replicate n OpenTick @ [Opened False None])
           (map Data (sseDataMessages body) @ i # rest) = Some (None, t)"
    and "parseCodexBackendSSE fmt_float body = Inr (content, summary, calls, reported)" "0 < um_TotalTokens reported"
    and "complete_answer io (sx_Path x0) (sx_Body x0) model (content, summary, calls, reported) =
           Inr (content', summary', calls', metrics)"
  shows "sr_Metrics (st_Result t) = metrics"
proof -
  define x where "x = x0\<lparr>sx_Model := model, sx_Prompt := promptTextForUsageEstimate io (sx_Path x0) (sx_Body x0)\<rparr>"
  let ?pre = "map Data (sseDataMessages body)"
  have q: "list_all quiet ?pre" by (simp add: list_all_iff quiet_def)
  obtain s where s: "carried ?pre idle_stream s" "on_input x i s = Inr (None, t)"
    using stream_run [OF assms(1) q assms(2,3) x_def, of n rest] assms(4) by auto
  have h: "healthy x" using assms(1) by (simp add: healthy_def x_def)
  have "message_events (input_messages ?pre) = events_of body"
    unfolding message_events_data by (simp add: message_events_def events_of_def)
  then have "sr_Metrics (st_Result s) = last_or no_metrics (concat (map reported_usage (events_of body)))"
    using s(1) by (simp add: carried_def Let_def idle_stream_def)
  also have "\<dots> = reported" using parsed_usage [OF assms(5)] by simp
  finally have r: "sr_Metrics (st_Result s) = reported" .
  have "sr_Metrics (st_Result t) = reported\<lparr>um_Model := text_or (um_Model reported) model\<rparr>"
    using ending_step [OF h assms(2), of s] s(2) assms(6) by (simp add: r Let_def x_def)
  then show ?thesis using assms(6,7) by (auto simp: complete_answer_def Let_def split: if_splits)
qed


definition sample_body :: string where
  "sample_body = concat (map sse_frame sample_answer)"

definition sample_run :: "(upstream_error option \<times> stream_state) option" where
  "sample_run = streamCodexBackendResponsesWithOptions (\<lambda>_. '''') (Inr ()) sample_stream ''''
     (replicate 0 OpenTick @ [Opened False None]) (map Data (sseDataMessages sample_body) @ Closed None # [])"

theorem streamed_usage_agrees_witness:
  "um_TotalTokens (sr_Metrics (st_Result (snd (the sample_run)))) = 7"
proof -
  let ?x = sample_stream and ?p = "parseCodexBackendSSE (\<lambda>_. '''') sample_body"
  let ?c = "\<lambda>model answer. complete_answer (Inr ()) (sx_Path ?x) (sx_Body ?x) model answer"
  obtain request where r: "sample_request = Inr (request, ''gpt-5.5'')" using sample_request_ok by blast
  have "sample_run \<noteq> None" "fst (the sample_run) = None" by code_simp+
  then have run: "sample_run = Some (None, snd (the sample_run))" by (metis option.collapse prod.collapse)
  have p: "?p = Inr (''hello'', no_summary, [], no_metrics\<lparr>um_InputTokens := 5, um_OutputTokens := 2, um_TotalTokens := 7\<rparr>)"
    by code_simp
  have c: "?c ''gpt-5.5'' (''hello'', no_summary, [], no_metrics\<lparr>um_InputTokens := 5, um_OutputTokens := 2, um_TotalTokens := 7\<rparr>) =
    Inr (''hello'', no_summary, [], \<lparr>um_Model = ''gpt-5.5'', um_InputTokens = 5, um_OutputTokens = 2, um_TotalTokens = 7,
      um_CachedTokens = 0, um_ReasoningTokens = 0\<rparr>)"
    by code_simp
  have "\<not> quiet (Closed None)" by (simp add: quiet_def)
  from streamed_usage_agrees [OF sample_healthy this r [unfolded sample_request_def] run [unfolded sample_run_def] p _ c]
  show ?thesis unfolding sample_run_def by (simp add: no_metrics_def)
qed

text \<open>A message of two lines is cut: the client reads the first line only.\<close>

lemma multiline_message_cut: "sseDataMessages (sse_frame ''first\<newline>second'') = [''first'']"
  by code_simp

end
