(* ===== verification/Answers.thy ===== *)
theory Answers
  imports EventStream
begin

text \<open>
  What a client is answered (internal/server/openai\_gateway\_handler.go): the payloads of a chat
  completion and of a response, whole or as a stream of events, and \<open>gatewayStreamWriter\<close>, which
  keeps a stream alive while the upstream works. A \<open>fmt_float\<close> is never needed for what is
  written here: all numbers are integers.
\<close>

section \<open>Parts\<close>

definition jint :: "int \<Rightarrow> json" where
  "jint n = JNum (of_int n)"

definition gatewayToolCallID :: "gatewayToolCall \<Rightarrow> nat \<Rightarrow> string" where
  "gatewayToolCallID c i =
     text_or (TrimSpace (tc_CallID c)) (text_or (TrimSpace (tc_ID c)) (''call_codex_'' @ Itoa (int i)))"

definition function_part :: "gatewayToolCall \<Rightarrow> json" where
  "function_part c = JObj [(''name'', JStr (tc_Name c)), (''arguments'', JStr (tc_Arguments c))]"

definition chatToolCallsPayload :: "gatewayToolCall list \<Rightarrow> json" where
  "chatToolCallsPayload calls =
     JArr (map (\<lambda>(i, c). JObj [(''id'', JStr (gatewayToolCallID c i)), (''type'', JStr ''function''),
        (''function'', function_part c)]) (enumerate 0 calls))"

definition chatToolCallDeltasPayload :: "gatewayToolCall list \<Rightarrow> json" where
  "chatToolCallDeltasPayload calls =
     JArr (map (\<lambda>(i, c). JObj [(''index'', jint (int i)), (''id'', JStr (gatewayToolCallID c i)),
        (''type'', JStr ''function''), (''function'', function_part c)]) (enumerate 0 calls))"

definition responsesFunctionCallPayload :: "gatewayToolCall \<Rightarrow> nat \<Rightarrow> int \<Rightarrow> json" where
  "responsesFunctionCallPayload c i now =
     JObj [(''id'', JStr (text_or (TrimSpace (tc_ID c)) (''fc_codex_'' @ Itoa now @ ''_'' @ Itoa (int i)))),
       (''type'', JStr ''function_call''),
       (''call_id'', JStr (text_or (TrimSpace (tc_CallID c)) (gatewayToolCallID c i))),
       (''name'', JStr (tc_Name c)), (''arguments'', JStr (tc_Arguments c)), (''status'', JStr ''completed'')]"

definition chatUsagePayload :: "openAIUsageMetrics \<Rightarrow> json" where
  "chatUsagePayload m =
     JObj [(''prompt_tokens'', jint (um_InputTokens m)), (''completion_tokens'', jint (um_OutputTokens m)),
       (''total_tokens'', jint (um_TotalTokens m)),
       (''prompt_tokens_details'', JObj [(''cached_tokens'', jint (um_CachedTokens m))]),
       (''completion_tokens_details'', JObj [(''reasoning_tokens'', jint (um_ReasoningTokens m))])]"

definition responsesUsagePayload :: "openAIUsageMetrics \<Rightarrow> json" where
  "responsesUsagePayload m =
     JObj [(''input_tokens'', jint (um_InputTokens m)), (''output_tokens'', jint (um_OutputTokens m)),
       (''total_tokens'', jint (um_TotalTokens m)),
       (''input_tokens_details'', JObj [(''cached_tokens'', jint (um_CachedTokens m))]),
       (''output_tokens_details'', JObj [(''reasoning_tokens'', jint (um_ReasoningTokens m))])]"

definition text_of :: "string \<Rightarrow> string \<Rightarrow> json" where
  "text_of typ text = JObj [(''type'', JStr typ), (''text'', JStr text)]"

definition responsesMessagePayload :: "string \<Rightarrow> string \<Rightarrow> string \<Rightarrow> json" where
  "responsesMessagePayload i content status =
     JObj [(''id'', JStr i), (''type'', JStr ''message''), (''role'', JStr ''assistant''), (''status'', JStr status),
       (''content'', JArr [text_of ''output_text'' content])]"

definition responsesReasoningPayload :: "string \<Rightarrow> string \<Rightarrow> json" where
  "responsesReasoningPayload i summary =
     JObj [(''id'', JStr i), (''type'', JStr ''reasoning''), (''summary'', JArr [text_of ''summary_text'' summary])]"

definition reasoningSummaryID :: "gatewayReasoningSummary \<Rightarrow> int \<Rightarrow> string" where
  "reasoningSummaryID s now = text_or (TrimSpace (rs_ID s)) (''rs_codex_'' @ Itoa now)"

definition message_id :: "int \<Rightarrow> string" where
  "message_id now = ''msg_codex_'' @ Itoa now"

definition responsesOutputPayload :: "string \<Rightarrow> gatewayReasoningSummary \<Rightarrow> gatewayToolCall list \<Rightarrow> int \<Rightarrow> json list" where
  "responsesOutputPayload content summary calls now =
     (if TrimSpace (rs_Text summary) \<noteq> ''''
      then [responsesReasoningPayload (reasoningSummaryID summary now) (rs_Text summary)] else []) @
     (if TrimSpace content \<noteq> '''' then [responsesMessagePayload (message_id now) content ''completed''] else []) @
     map (\<lambda>(i, c). responsesFunctionCallPayload c i now) (enumerate 0 calls)"

text \<open>\<open>containsCJK\<close>: a rune of three bytes in U+4E00 to U+9FFF or U+3400 to U+4DBF.\<close>

definition cjk_rune :: "string \<Rightarrow> bool" where
  "cjk_rune bytes =
     (case map of_char bytes of
        [a, b, c] \<Rightarrow>
          (let r = (a mod 16) * 4096 + (b mod 64) * 64 + c mod 64 :: nat
           in (19968 \<le> r \<and> r \<le> 40959) \<or> (13312 \<le> r \<and> r \<le> 19903))
      | _ \<Rightarrow> False)"

fun cjk_within :: "nat \<Rightarrow> string \<Rightarrow> bool" where
  "cjk_within 0 s = False"
| "cjk_within (Suc n) s =
     (s \<noteq> '''' \<and> (let w = rune_width s in cjk_rune (take w s) \<or> cjk_within n (drop w s)))"

definition containsCJK :: "string \<Rightarrow> bool" where
  "containsCJK text = cjk_within (length text) text"

text \<open>A summary in another script is replaced by a fixed Chinese sentence.\<close>

definition normalizeGatewayReasoningSummary :: "gatewayReasoningSummary \<Rightarrow> gatewayReasoningSummary" where
  "normalizeGatewayReasoningSummary s =
     (let text = TrimSpace (rs_Text s)
      in s\<lparr>rs_Text := (if text = '''' \<or> containsCJK text then text
          else from_hex ''E6ADA3E59CA8E58886E69E90E794A8E688B7E8AFB7E6B182EFBC8CE6A0B8E5AFB9E4B88AE4B88BE69687E4B88EE7BAA6E69D9FEFBC8CE5B9B6E7BB84E7BB87E69C80E7BB88E59B9EE7AD94E38082'')\<rparr>)"

section \<open>Whole answers\<close>

definition response_id :: "int \<Rightarrow> string" where
  "response_id now = ''resp_codex_'' @ Itoa now"

definition chat_id :: "int \<Rightarrow> string" where
  "chat_id now = ''chatcmpl-codex-'' @ Itoa now"

definition finish_reason :: "gatewayToolCall list \<Rightarrow> json" where
  "finish_reason calls = JStr (if calls \<noteq> [] then ''tool_calls'' else ''stop'')"

definition buildCodexCLIChatPayload ::
  "int \<Rightarrow> string \<Rightarrow> string \<Rightarrow> gatewayToolCall list \<Rightarrow> openAIUsageMetrics \<Rightarrow> json" where
  "buildCodexCLIChatPayload now model content calls m =
     JObj [(''id'', JStr (chat_id now)), (''object'', JStr ''chat.completion''), (''created'', jint now),
       (''model'', JStr model),
       (''choices'', JArr [JObj
         [(''index'', jint 0),
          (''message'', JObj ([(''role'', JStr ''assistant''),
             (''content'', if calls \<noteq> [] \<and> TrimSpace content = '''' then JNull else JStr content)] @
             (if calls \<noteq> [] then [(''tool_calls'', chatToolCallsPayload calls)] else []))),
          (''finish_reason'', finish_reason calls)]]),
       (''usage'', chatUsagePayload m)]"

definition completed_response ::
  "string \<Rightarrow> int \<Rightarrow> string \<Rightarrow> string \<Rightarrow> gatewayReasoningSummary \<Rightarrow> gatewayToolCall list \<Rightarrow> openAIUsageMetrics \<Rightarrow> obj" where
  "completed_response i now model content summary calls m =
     [(''id'', JStr i), (''object'', JStr ''response''), (''created_at'', jint now), (''model'', JStr model),
      (''status'', JStr ''completed''), (''output_text'', JStr content), (''parallel_tool_calls'', JBool False),
      (''output'', JArr (responsesOutputPayload content summary calls now)), (''usage'', responsesUsagePayload m)]"

definition buildCodexCLIResponsesPayload ::
  "int \<Rightarrow> string \<Rightarrow> string \<Rightarrow> gatewayReasoningSummary \<Rightarrow> gatewayToolCall list \<Rightarrow> openAIUsageMetrics \<Rightarrow> json" where
  "buildCodexCLIResponsesPayload now model content summary calls m =
     JObj (completed_response (response_id now) now model content summary calls m)"

section \<open>Streams\<close>

text \<open>A response that has no output yet, with its status and further fields.\<close>

definition empty_response :: "string \<Rightarrow> int \<Rightarrow> string \<Rightarrow> string \<Rightarrow> obj \<Rightarrow> json" where
  "empty_response i now model status extra =
     JObj ([(''id'', JStr i), (''object'', JStr ''response''), (''created_at'', jint now), (''model'', JStr model),
       (''status'', JStr status), (''output'', JArr []), (''output_text'', JStr ''''),
       (''parallel_tool_calls'', JBool False)] @ extra)"

definition typed :: "string \<Rightarrow> obj \<Rightarrow> obj" where
  "typed typ extra = (''type'', JStr typ) # extra"

definition reasoning_events :: "gatewayReasoningSummary \<Rightarrow> int \<Rightarrow> obj list" where
  "reasoning_events s now =
     (let i = reasoningSummaryID s now; text = rs_Text s;
          place = [(''item_id'', JStr i), (''output_index'', jint 0), (''summary_index'', jint 0)]
      in [typed ''response.output_item.added'' [(''output_index'', jint 0), (''item'', responsesReasoningPayload i '''')],
          typed ''response.reasoning_summary_part.added'' (place @ [(''part'', text_of ''summary_text'' '''')]),
          typed ''response.reasoning_summary_text.delta'' (place @ [(''delta'', JStr text)]),
          typed ''response.reasoning_summary_text.done'' (place @ [(''text'', JStr text)]),
          typed ''response.reasoning_summary_part.done'' (place @ [(''part'', text_of ''summary_text'' text)]),
          typed ''response.output_item.done'' [(''output_index'', jint 0), (''item'', responsesReasoningPayload i text)]])"

definition message_events_of :: "string \<Rightarrow> int \<Rightarrow> nat \<Rightarrow> obj list" where
  "message_events_of content now n =
     (let i = message_id now; place = [(''item_id'', JStr i), (''output_index'', jint (int n)), (''content_index'', jint 0)]
      in [typed ''response.output_item.added''
            [(''output_index'', jint (int n)), (''item'', responsesMessagePayload i content ''in_progress'')],
          typed ''response.content_part.added'' (place @ [(''part'', text_of ''output_text'' '''')]),
          typed ''response.output_text.delta'' (place @ [(''delta'', JStr content)]),
          typed ''response.output_text.done'' (place @ [(''text'', JStr content)]),
          typed ''response.content_part.done'' (place @ [(''part'', text_of ''output_text'' content)]),
          typed ''response.output_item.done''
            [(''output_index'', jint (int n)), (''item'', responsesMessagePayload i content ''completed'')]])"

definition call_events :: "gatewayToolCall list \<Rightarrow> int \<Rightarrow> nat \<Rightarrow> obj list" where
  "call_events calls now n =
     map (\<lambda>(i, c). typed ''response.output_item.done''
       [(''output_index'', jint (int (n + i))), (''item'', responsesFunctionCallPayload c i now)]) (enumerate 0 calls)"

text \<open>The events of \<open>writeCodexCLIResponsesStreamBody\<close>, before the end mark.\<close>

definition responses_stream_events ::
  "string \<Rightarrow> int \<Rightarrow> string \<Rightarrow> string \<Rightarrow> gatewayReasoningSummary \<Rightarrow> gatewayToolCall list \<Rightarrow> openAIUsageMetrics \<Rightarrow>
   bool \<Rightarrow> obj list" where
  "responses_stream_events i now model content summary calls m includeCreated =
     (let thought = TrimSpace (rs_Text summary) \<noteq> ''''; spoke = TrimSpace content \<noteq> '''';
          n = (if thought then 1 else 0)
      in (if includeCreated then [typed ''response.created'' [(''response'', empty_response i now model ''in_progress'' [])]] else []) @
         (if thought then reasoning_events summary now else []) @
         (if spoke then message_events_of content now n else []) @
         call_events calls now (if spoke then Suc n else n) @
         [typed ''response.completed'' [(''response'', JObj (completed_response i now model content summary calls m))]])"

definition event_frame :: "(rat \<Rightarrow> string) \<Rightarrow> obj \<Rightarrow> frame" where
  "event_frame f e = Event (json_encode f (JObj e))"

definition writeCodexCLIResponsesStreamBody ::
  "(rat \<Rightarrow> string) \<Rightarrow> string \<Rightarrow> int \<Rightarrow> string \<Rightarrow> string \<Rightarrow> gatewayReasoningSummary \<Rightarrow> gatewayToolCall list \<Rightarrow>
   openAIUsageMetrics \<Rightarrow> bool \<Rightarrow> frame list" where
  "writeCodexCLIResponsesStreamBody f i now model content summary calls m includeCreated =
     map (event_frame f) (responses_stream_events i now model content summary calls m includeCreated) @ [Event ''[DONE]'']"

definition chat_chunk :: "int \<Rightarrow> string \<Rightarrow> obj \<Rightarrow> json \<Rightarrow> obj \<Rightarrow> obj" where
  "chat_chunk now model delta reason extra =
     [(''id'', JStr (chat_id now)), (''object'', JStr ''chat.completion.chunk''), (''created'', jint now),
      (''model'', JStr model),
      (''choices'', JArr [JObj [(''index'', jint 0), (''delta'', JObj delta), (''finish_reason'', reason)]])] @ extra"

definition writeCodexCLIChatStreamBody ::
  "(rat \<Rightarrow> string) \<Rightarrow> int \<Rightarrow> string \<Rightarrow> string \<Rightarrow> gatewayToolCall list \<Rightarrow> openAIUsageMetrics \<Rightarrow> frame list" where
  "writeCodexCLIChatStreamBody f now model content calls m =
     [event_frame f (chat_chunk now model
        ([(''role'', JStr ''assistant'')] @
         (if TrimSpace content \<noteq> '''' \<or> calls = [] then [(''content'', JStr content)] else []) @
         (if calls \<noteq> [] then [(''tool_calls'', chatToolCallDeltasPayload calls)] else [])) JNull []),
      event_frame f (chat_chunk now model [] (finish_reason calls) [(''usage'', chatUsagePayload m)]),
      Event ''[DONE]'']"

section \<open>The stream writer\<close>

record gatewayStreamWriter =
  sw_Path :: string
  sw_Model :: string
  sw_Now :: int
  sw_Sent :: "frame list"

definition send :: "frame list \<Rightarrow> gatewayStreamWriter \<Rightarrow> gatewayStreamWriter" where
  "send fs w = w\<lparr>sw_Sent := sw_Sent w @ fs\<rparr>"

definition response_event :: "(rat \<Rightarrow> string) \<Rightarrow> string \<Rightarrow> string \<Rightarrow> obj \<Rightarrow> gatewayStreamWriter \<Rightarrow> frame" where
  "response_event f typ status extra w =
     event_frame f (typed typ [(''response'', empty_response (response_id (sw_Now w)) (sw_Now w) (sw_Model w) status extra)])"

definition newGatewayStreamWriter :: "(rat \<Rightarrow> string) \<Rightarrow> string \<Rightarrow> string \<Rightarrow> int \<Rightarrow> gatewayStreamWriter" where
  "newGatewayStreamWriter f path model now =
     (let w = \<lparr>sw_Path = path, sw_Model = text_or (TrimSpace model) DefaultCodexModelID, sw_Now = now, sw_Sent = []\<rparr>
      in send [if path = ''/v1/responses'' then response_event f ''response.created'' ''in_progress'' [] w
               else Comment ''keepalive''] w)"

definition writeHeartbeat :: "(rat \<Rightarrow> string) \<Rightarrow> gatewayStreamWriter \<Rightarrow> gatewayStreamWriter" where
  "writeHeartbeat f w =
     send [if sw_Path w = ''/v1/responses'' then response_event f ''response.in_progress'' ''in_progress'' [] w
           else Comment ''keepalive''] w"

definition error_part :: "string \<Rightarrow> string \<Rightarrow> json" where
  "error_part message errorType =
     JObj [(''message'', JStr message), (''type'', JStr ''gateway_error''), (''code'', JStr errorType)]"

definition stream_writeError :: "(rat \<Rightarrow> string) \<Rightarrow> string \<Rightarrow> string \<Rightarrow> gatewayStreamWriter \<Rightarrow> gatewayStreamWriter" where
  "stream_writeError f message errorType w =
     send [if sw_Path w = ''/v1/responses''
           then response_event f ''response.failed'' ''failed'' [(''error'', error_part message errorType)] w
           else event_frame f [(''error'', error_part message errorType)],
           Event ''[DONE]''] w"

text \<open>\<open>later\<close> is the time at which a chat stream is written.\<close>

definition writeSuccess ::
  "(rat \<Rightarrow> string) \<Rightarrow> int \<Rightarrow> string \<Rightarrow> string \<Rightarrow> gatewayReasoningSummary \<Rightarrow> gatewayToolCall list \<Rightarrow> openAIUsageMetrics \<Rightarrow>
   gatewayStreamWriter \<Rightarrow> gatewayStreamWriter" where
  "writeSuccess f later model content summary calls m w0 =
     (let w = w0\<lparr>sw_Model := text_or (TrimSpace model) (sw_Model w0)\<rparr>
      in send (if sw_Path w = ''/v1/responses''
               then writeCodexCLIResponsesStreamBody f (response_id (sw_Now w)) (sw_Now w) (sw_Model w) content summary calls m False
               else writeCodexCLIChatStreamBody f later (sw_Model w) content calls m) w)"


section \<open>Reading our own events\<close>

lemma typed_type [simp]: "event_type (typed typ e) = TrimSpace typ"
  by (simp add: event_type_def typed_def field_def stringValue_def)

lemma typed_field: "k \<noteq> ''type'' \<Longrightarrow> field (typed typ e) k = field e k"
  by (simp add: typed_def field_def)

lemma type_names:
  "TrimSpace ''response.created'' = ''response.created''"
  "TrimSpace ''response.completed'' = ''response.completed''"
  "TrimSpace ''response.output_item.added'' = ''response.output_item.added''"
  "TrimSpace ''response.output_item.done'' = ''response.output_item.done''"
  "TrimSpace ''response.reasoning_summary_part.added'' = ''response.reasoning_summary_part.added''"
  "TrimSpace ''response.reasoning_summary_part.done'' = ''response.reasoning_summary_part.done''"
  "TrimSpace ''response.reasoning_summary_text.delta'' = ''response.reasoning_summary_text.delta''"
  "TrimSpace ''response.reasoning_summary_text.done'' = ''response.reasoning_summary_text.done''"
  "TrimSpace ''response.content_part.added'' = ''response.content_part.added''"
  "TrimSpace ''response.content_part.done'' = ''response.content_part.done''"
  "TrimSpace ''response.output_text.delta'' = ''response.output_text.delta''"
  "TrimSpace ''response.output_text.done'' = ''response.output_text.done''"
  "TrimSpace ''message'' = ''message''" "TrimSpace ''reasoning'' = ''reasoning''"
  "TrimSpace ''function_call'' = ''function_call''" "TrimSpace ''output_text'' = ''output_text''"
  by code_simp+

lemma text_or_eq: "text_or '''' b = b" "text_or a a = a" "text_or a '''' = a"
  by (simp_all add: text_or_def)

text \<open>A call as the parser of the backend returns them.\<close>

definition call_clean :: "gatewayToolCall \<Rightarrow> bool" where
  "call_clean c = ((\<forall>t \<in> {tc_ID c, tc_CallID c, tc_Name c}. t \<noteq> '''' \<and> TrimSpace t = t) \<and> TrimSpace (tc_Arguments c) \<noteq> '''')"


lemma read_created: "sse_step f (typed ''response.created'' e) s = s"
  by (simp add: sse_step_def Let_def type_names)

lemma nil_some [simp]: "nil_map (Some m) = m" by (simp add: nil_map_def)

lemma map_obj [simp]: "mapValue (JObj m) = Some m" by (simp add: mapValue_def)

lemma list_arr [simp]: "listValue (JArr xs) = xs" by (simp add: listValue_def)

lemma string_str [simp]: "stringValue (JStr s) = TrimSpace s" by (simp add: stringValue_def)

lemma string_null [simp]: "stringValue JNull = ''''" by (simp add: stringValue_def)

lemma field_simps [simp]:
  "field [] k = JNull" "field ((k, v) # m) k = v" "k \<noteq> k' \<Longrightarrow> field ((k', v) # m) k = field m k"
  by (simp_all add: field_def)

text \<open>The items of an output, as the parser reads them.\<close>

lemma reasoning_item:
  "codexBackendToolCallFromValue f (responsesReasoningPayload i t) = None"
  "codexBackendOutputTextFromValue (responsesReasoningPayload i t) = ''''"
  by (simp_all add: responsesReasoningPayload_def codexBackendToolCallFromValue_def type_names Let_def)

lemma message_item:
  "codexBackendToolCallFromValue f (responsesMessagePayload i content status) = None"
  "codexBackendOutputTextFromValue (responsesMessagePayload i content status) = TrimSpace content"
  by (simp_all add: responsesMessagePayload_def codexBackendToolCallFromValue_def type_names Let_def text_of_def
      outputTextFromCodexContent_def)

lemma call_item:
  assumes "call_clean c"
  shows "codexBackendToolCallFromValue f (responsesFunctionCallPayload c i now) = Some c"
    and "codexBackendOutputTextFromValue (responsesFunctionCallPayload c i now) = ''''"
  using assms
  by (simp_all add: responsesFunctionCallPayload_def codexBackendToolCallFromValue_def type_names Let_def call_clean_def
      text_or_def firstStringValue_def gatewayToolArgumentsString_def)

lemma calls_read:
  "\<forall>c \<in> set calls. call_clean c \<Longrightarrow>
   concat (map (\<lambda>item. option_list (codexBackendToolCallFromValue f item))
     (map (\<lambda>(i, c). responsesFunctionCallPayload c i now) (enumerate n calls))) = calls"
  by (induction calls arbitrary: n) (simp_all add: call_item)

lemma output_calls:
  assumes "\<forall>c \<in> set calls. call_clean c"
  shows "codexBackendToolCallsFromOutput f (JArr (responsesOutputPayload content summary calls now)) = calls"
  using calls_read [OF assms, of f now 0]
  by (simp add: codexBackendToolCallsFromOutput_def responsesOutputPayload_def reasoning_item message_item)


definition metrics_ok :: "openAIUsageMetrics \<Rightarrow> bool" where
  "metrics_ok m =
     (0 < um_TotalTokens m \<and>
      (\<forall>n \<in> {um_InputTokens m, um_OutputTokens m, um_TotalTokens m, um_CachedTokens m, um_ReasoningTokens m}.
         min_int64 \<le> n \<and> n \<le> max_int64))"

lemma int64_jint: "min_int64 \<le> n \<Longrightarrow> n \<le> max_int64 \<Longrightarrow> int64Value (jint n) = n"
proof -
  assume n: "min_int64 \<le> n" "n \<le> max_int64"
  have "- \<lfloor>- (rat_of_int n)\<rfloor> = n" by (metis floor_of_int minus_equation_iff of_int_minus)
  then show ?thesis using n by (simp add: int64Value_def jint_def float_to_int64_def Let_def)
qed

lemma usage_read:
  assumes "metrics_ok m"
  shows "codexUsageMetricsFromMap (mapValue (responsesUsagePayload m)) = m\<lparr>um_Model := ''''\<rparr>"
  using assms
  by (simp add: responsesUsagePayload_def codexUsageMetricsFromMap_def metrics_ok_def int64_jint Let_def
      positive_or_else_def) (simp add: int64Value_def)

lemma completed_read:
  assumes "metrics_ok m" "\<forall>c \<in> set calls. call_clean c"
    and e_def: "e = typed ''response.completed'' [(''response'', JObj (completed_response i now model content summary calls m))]"
  shows "sse_step f e s = s\<lparr>ss_Metrics := m\<lparr>um_Model := ''''\<rparr>, ss_FinalText := text_or (TrimSpace content) (ss_FinalText s),
    ss_FinalToolCalls := (if calls \<noteq> [] then calls else ss_FinalToolCalls s)\<rparr>"
proof -
  let ?r = "completed_response i now model content summary calls m"
  have r: "nil_map (mapValue (field e ''response'')) = ?r" by (simp add: e_def typed_field)
  have u: "completed_usage e = m\<lparr>um_Model := ''''\<rparr>"
    unfolding completed_usage_def r by (simp add: completed_response_def usage_read [OF assms(1)])
  have "filter (\<lambda>t. t \<noteq> '''') (map codexBackendOutputTextFromValue (responsesOutputPayload content summary calls now)) =
      (if TrimSpace content \<noteq> '''' then [TrimSpace content] else [])"
    using assms(2) by (auto simp: responsesOutputPayload_def reasoning_item message_item call_item filter_empty_conv in_set_enumerate_eq)
  then have t: "codexBackendOutputTextFromValue (JObj ?r) = TrimSpace content"
    by (simp add: completed_response_def Let_def)
  have c: "codexBackendToolCallsFromOutput f (field ?r ''output'') = calls"
    using output_calls [OF assms(2)] by (simp add: completed_response_def)
  have "0 < um_TotalTokens m" using assms(1) by (simp add: metrics_ok_def)
  moreover have "event_type e = ''response.completed''" by (simp add: e_def type_names)
  ultimately show ?thesis unfolding sse_step_def Let_def r u t c by simp
qed


lemma reasoning_read:
  assumes "ss_Summary s = no_summary"
  shows "fold (sse_step f) (reasoning_events summary now) s =
    s\<lparr>ss_Summary := \<lparr>rs_ID = TrimSpace (reasoningSummaryID summary now), rs_Text = TrimSpace (rs_Text summary)\<rparr>\<rparr>"
proof -
  let ?i = "reasoningSummaryID summary now"
  have 1: "sse_step f (typed ''response.output_item.added'' e) t = t"
    "sse_step f (typed ''response.reasoning_summary_part.added'' e) t = t"
    "sse_step f (typed ''response.reasoning_summary_part.done'' e) t = t" for e t
    by (simp_all add: sse_step_def Let_def type_names)
  have 2: "sse_step f (typed ''response.output_item.done'' [(''output_index'', n), (''item'', responsesReasoningPayload j t)]) u = u"
    for n j t u
    using reasoning_item(1) [of f j t] reasoning_item(2) [of j t] unfolding sse_step_def Let_def
    by (simp add: type_names typed_field text_or_def responsesReasoningPayload_def)
  show ?thesis
    using assms unfolding reasoning_events_def Let_def
    by (simp add: 1 2) (simp add: sse_step_def Let_def type_names typed_field note_summary_def no_summary_def text_or_def)
qed

lemma message_read:
  "fold (sse_step f) (message_events_of content now n) s =
   s\<lparr>ss_Content := ss_Content s @ TrimSpace content, ss_FinalText := text_or (TrimSpace content) (ss_FinalText s)\<rparr>"
proof -
  have 1: "sse_step f (typed ''response.output_item.added'' e) t = t"
    "sse_step f (typed ''response.content_part.added'' e) t = t"
    "sse_step f (typed ''response.content_part.done'' e) t = t"
    "sse_step f (typed ''response.output_text.done'' e) t = t" for e t
    by (simp_all add: sse_step_def Let_def type_names)
  have 2: "sse_step f (typed ''response.output_item.done''
      [(''output_index'', k), (''item'', responsesMessagePayload j content st)]) u =
      u\<lparr>ss_FinalText := text_or (TrimSpace content) (ss_FinalText u)\<rparr>" for k j st u
    using message_item(1) [of f j content st] message_item(2) [of j content st] unfolding sse_step_def Let_def
    by (simp add: type_names typed_field responsesMessagePayload_def)
  show ?thesis
    unfolding message_events_of_def Let_def
    by (simp add: 1 2) (simp add: sse_step_def Let_def type_names typed_field)
qed

lemma calls_events_read:
  assumes "\<forall>c \<in> set calls. call_clean c"
  shows "fold (sse_step f) (call_events calls now n) s = s\<lparr>ss_ToolCalls := ss_ToolCalls s @ calls\<rparr>"
proof -
  have "sse_step f (typed ''response.output_item.done'' [(''output_index'', k), (''item'', responsesFunctionCallPayload c i now)]) u =
      u\<lparr>ss_ToolCalls := ss_ToolCalls u @ [c]\<rparr>" if "call_clean c" for k c i u
    using call_item [OF that] by (simp add: sse_step_def Let_def type_names typed_field)
  then have "fold (sse_step f) (map (\<lambda>(i, c). typed ''response.output_item.done''
       [(''output_index'', jint (int (n + i))), (''item'', responsesFunctionCallPayload c i now)]) (enumerate k calls)) s =
    s\<lparr>ss_ToolCalls := ss_ToolCalls s @ calls\<rparr>" for k
    using assms by (induction calls arbitrary: k s) simp_all
  then show ?thesis by (simp add: call_events_def)
qed


lemma no_failures: "e \<in> set (responses_stream_events i now model content summary calls m created) \<Longrightarrow> \<not> failure_event e"
  by (auto simp: responses_stream_events_def Let_def reasoning_events_def message_events_of_def call_events_def
      failure_event_def type_names split: if_splits)


definition sample_metrics :: openAIUsageMetrics where
  "sample_metrics = \<lparr>um_Model = ''gpt-5.5'', um_InputTokens = 9, um_OutputTokens = 4, um_TotalTokens = 13,
     um_CachedTokens = 2, um_ReasoningTokens = 1\<rparr>"

definition sample_call :: gatewayToolCall where
  "sample_call = \<lparr>tc_ID = ''fc_1'', tc_CallID = ''call_1'', tc_Name = ''ls'', tc_Arguments = ''{}''\<rparr>"


end
