(* ===== verification/Settings.thy ===== *)
theory Settings
  imports KeyService
begin

text \<open>
  The gateway's settings (internal/biz/gateway.go): the upstream mode, its fallback, the
  strategy made of both, the default reasoning effort, and the precedence of the key's own
  options over them. \<open>env\<close> is the process environment. The locale \<open>settings_map\<close> is what the
  use cases rely on: the repository keeps one text per setting.
\<close>

section \<open>Reading\<close>

definition GetCodexUpstreamMode ::
  "(string \<Rightarrow> ('s, string) op) \<Rightarrow> (string \<Rightarrow> string) \<Rightarrow> ('s, string) op" where
  "GetCodexUpstreamMode get env =
     bind_op (get GatewaySettingCodexUpstreamMode) (\<lambda>v.
       let mode = NormalizeGatewayUpstreamMode v
       in if mode = '''' then ok (DefaultGatewayUpstreamMode env) else ok mode)"

definition GetCodexUpstreamFallbackEnabled ::
  "(string \<Rightarrow> ('s, string) op) \<Rightarrow> (string \<Rightarrow> string) \<Rightarrow> ('s, bool) op" where
  "GetCodexUpstreamFallbackEnabled get env =
     bind_op (get GatewaySettingCodexFallback) (\<lambda>v.
       if TrimSpace v = '''' then ok (DefaultGatewayUpstreamFallbackEnabled env) else ok (parseGatewayBool v))"

type_synonym upstream_choice = "string \<times> string \<times> bool"

definition GetCodexUpstreamStrategy ::
  "(string \<Rightarrow> ('s, string) op) \<Rightarrow> (string \<Rightarrow> string) \<Rightarrow> ('s, upstream_choice) op" where
  "GetCodexUpstreamStrategy get env =
     bind_op (GetCodexUpstreamMode get env) (\<lambda>mode.
     bind_op (GetCodexUpstreamFallbackEnabled get env) (\<lambda>fallbackEnabled.
       ok (GatewayUpstreamStrategy mode fallbackEnabled, mode, fallbackEnabled)))"

definition GetGatewayDefaultReasoningEffort :: "(string \<Rightarrow> ('s, string) op) \<Rightarrow> ('s, string) op" where
  "GetGatewayDefaultReasoningEffort get =
     bind_op (get GatewaySettingDefaultReasoning) (\<lambda>v. ok (NormalizeGatewayReasoningEffort v))"

text \<open>The key's option comes first; its value \<open>none\<close> switches the global default off.\<close>

definition GetEffectiveReasoningEffort ::
  "(string \<Rightarrow> ('s, string) op) \<Rightarrow> GatewayAPIKey option \<Rightarrow> string \<Rightarrow> ('s, string) op" where
  "GetEffectiveReasoningEffort get key requested0 =
     (let requested = NormalizeGatewayReasoningEffort requested0;
          keyDefault = (case key of None \<Rightarrow> '''' | Some k \<Rightarrow>
            NormalizeGatewayAPIKeyDefaultReasoningEffort (key_DefaultReasoningEffort k))
      in if keyDefault = GatewayReasoningEffortNone then ok requested
         else if keyDefault \<in> {GatewayReasoningEffortLow, GatewayReasoningEffortMed, GatewayReasoningEffortHigh,
                GatewayReasoningEffortXHigh, GatewayReasoningEffortMax} then ok keyDefault
         else bind_op (GetGatewayDefaultReasoningEffort get) (\<lambda>globalDefault.
                if globalDefault \<noteq> '''' then ok globalDefault else ok requested))"

definition GetEffectiveCodexUpstreamStrategy ::
  "(string \<Rightarrow> ('s, string) op) \<Rightarrow> (string \<Rightarrow> string) \<Rightarrow> GatewayAPIKey option \<Rightarrow> ('s, upstream_choice) op" where
  "GetEffectiveCodexUpstreamStrategy get env key =
     (let strategy = (case key of None \<Rightarrow> '''' | Some k \<Rightarrow>
            NormalizeGatewayAPIKeyUpstreamStrategy (key_UpstreamStrategy k))
      in if strategy = GatewayUpstreamStrategyBackendOnly
         then ok (GatewayUpstreamStrategyBackendOnly, GatewayUpstreamModeCodexBackend, False)
         else if strategy = GatewayUpstreamStrategyBackendWithFallback
         then ok (GatewayUpstreamStrategyBackendWithFallback, GatewayUpstreamModeCodexBackend, True)
         else if strategy = GatewayUpstreamStrategyCodexCLI
         then ok (GatewayUpstreamStrategyCodexCLI, GatewayUpstreamModeCodexCLI, False)
         else GetCodexUpstreamStrategy get env)"

section \<open>Writing\<close>

definition SetGatewayDefaultReasoningEffort ::
  "(string \<Rightarrow> string \<Rightarrow> ('s, unit) op) \<Rightarrow> string \<Rightarrow> ('s, string) op" where
  "SetGatewayDefaultReasoningEffort set_value effort =
     (let raw = TrimSpace effort; normalized = NormalizeGatewayReasoningEffort raw
      in if raw \<noteq> '''' \<and> normalized = '''' then fail ErrGatewayReasoningInvalid
         else bind_op (set_value GatewaySettingDefaultReasoning normalized) (\<lambda>_. ok normalized))"

definition SetCodexUpstreamMode ::
  "(string \<Rightarrow> string \<Rightarrow> ('s, unit) op) \<Rightarrow> string \<Rightarrow> ('s, string) op" where
  "SetCodexUpstreamMode set_value mode =
     (let normalized = NormalizeGatewayUpstreamMode mode
      in if normalized = '''' then fail ErrGatewayUpstreamModeInvalid
         else bind_op (set_value GatewaySettingCodexUpstreamMode normalized) (\<lambda>_. ok normalized))"

definition SetCodexUpstreamFallbackEnabled ::
  "(string \<Rightarrow> string \<Rightarrow> ('s, unit) op) \<Rightarrow> bool \<Rightarrow> ('s, bool) op" where
  "SetCodexUpstreamFallbackEnabled set_value enabled =
     bind_op (set_value GatewaySettingCodexFallback (formatGatewayBool enabled)) (\<lambda>_. ok enabled)"

text \<open>The mode and the fallback a strategy stands for.\<close>

definition strategy_parts :: "string \<Rightarrow> (string \<times> bool) option" where
  "strategy_parts strategy =
     (if strategy = GatewayUpstreamStrategyBackendOnly then Some (GatewayUpstreamModeCodexBackend, False)
      else if strategy = GatewayUpstreamStrategyBackendWithFallback then Some (GatewayUpstreamModeCodexBackend, True)
      else if strategy = GatewayUpstreamStrategyCodexCLI then Some (GatewayUpstreamModeCodexCLI, False)
      else None)"

definition SetCodexUpstreamStrategy ::
  "(string \<Rightarrow> string \<Rightarrow> ('s, unit) op) \<Rightarrow> string \<Rightarrow> ('s, upstream_choice) op" where
  "SetCodexUpstreamStrategy set_value strategy0 =
     (let strategy = NormalizeGatewayUpstreamStrategy strategy0;
          choice = strategy_parts strategy
      in case choice of
           None \<Rightarrow> fail ErrGatewayUpstreamModeInvalid
         | Some (mode, fallbackEnabled) \<Rightarrow>
             bind_op (set_value GatewaySettingCodexUpstreamMode mode) (\<lambda>_.
             bind_op (set_value GatewaySettingCodexFallback (formatGatewayBool fallbackEnabled)) (\<lambda>_.
               ok (strategy, mode, fallbackEnabled))))"

definition gateway_GetCodexUpstreamStrategy where
  "gateway_GetCodexUpstreamStrategy = GetCodexUpstreamStrategy repo_GetGatewaySetting"
definition gateway_GetEffectiveReasoningEffort where
  "gateway_GetEffectiveReasoningEffort = GetEffectiveReasoningEffort repo_GetGatewaySetting"
definition gateway_GetEffectiveCodexUpstreamStrategy where
  "gateway_GetEffectiveCodexUpstreamStrategy = GetEffectiveCodexUpstreamStrategy repo_GetGatewaySetting"
definition gateway_GetGatewayDefaultReasoningEffort where
  "gateway_GetGatewayDefaultReasoningEffort = GetGatewayDefaultReasoningEffort repo_GetGatewaySetting"
definition gateway_SetGatewayDefaultReasoningEffort where
  "gateway_SetGatewayDefaultReasoningEffort = SetGatewayDefaultReasoningEffort repo_SetGatewaySetting"
definition gateway_SetCodexUpstreamMode where
  "gateway_SetCodexUpstreamMode = SetCodexUpstreamMode repo_SetGatewaySetting"
definition gateway_SetCodexUpstreamFallbackEnabled where
  "gateway_SetCodexUpstreamFallbackEnabled = SetCodexUpstreamFallbackEnabled repo_SetGatewaySetting"
definition gateway_SetCodexUpstreamStrategy where
  "gateway_SetCodexUpstreamStrategy = SetCodexUpstreamStrategy repo_SetGatewaySetting"

section \<open>The interface of the settings\<close>

definition clean :: "string \<Rightarrow> bool" where
  "clean x = (TrimSpace x = x)"

lemma clean_names:
  "clean GatewaySettingCodexUpstreamMode" "clean GatewaySettingCodexFallback" "clean GatewaySettingDefaultReasoning"
  "clean (formatGatewayBool b)" "clean GatewayUpstreamModeCodexBackend" "clean GatewayUpstreamModeCodexCLI"
  by (cases b; simp add: clean_def gateway_names formatGatewayBool_def string_eval)+

lemma clean_effort: "clean (NormalizeGatewayReasoningEffort e)"
  using NormalizeGatewayReasoningEffort_range [of e]
  by (auto simp: clean_def gateway_names string_eval)

lemma setting_names_distinct:
  "GatewaySettingCodexUpstreamMode \<noteq> GatewaySettingCodexFallback"
  "GatewaySettingCodexUpstreamMode \<noteq> ''''" "GatewaySettingCodexFallback \<noteq> ''''"
  "GatewaySettingDefaultReasoning \<noteq> ''''"
  by (simp_all add: gateway_names)

lemma strategy_parts_cases:
  assumes "strategy_parts st = Some (mode, fb)"
  shows "(st = GatewayUpstreamStrategyBackendOnly \<and> mode = GatewayUpstreamModeCodexBackend \<and> \<not> fb) \<or>
      (st = GatewayUpstreamStrategyBackendWithFallback \<and> mode = GatewayUpstreamModeCodexBackend \<and> fb) \<or>
      (st = GatewayUpstreamStrategyCodexCLI \<and> mode = GatewayUpstreamModeCodexCLI \<and> \<not> fb)"
  using assms by (simp add: strategy_parts_def split: if_splits)

lemma modes_fixed:
  "NormalizeGatewayUpstreamMode GatewayUpstreamModeCodexBackend = GatewayUpstreamModeCodexBackend"
  "NormalizeGatewayUpstreamMode GatewayUpstreamModeCodexCLI = GatewayUpstreamModeCodexCLI"
  by (simp_all add: NormalizeGatewayUpstreamMode_def one_of_fix gateway_names_fixed)

lemma modes_distinct:
  "GatewayUpstreamModeCodexBackend \<noteq> ''''" "GatewayUpstreamModeCodexCLI \<noteq> ''''"
  "GatewayUpstreamModeCodexBackend \<noteq> GatewayUpstreamModeCodexCLI"
  by (simp_all add: gateway_names)

lemma strategy_parts_read:
  assumes "strategy_parts st = Some (mode, fb)"
  shows "GatewayUpstreamStrategy mode fb = st" "NormalizeGatewayUpstreamMode mode = mode" "mode \<noteq> ''''"
  using strategy_parts_cases [OF assms]
  by (elim disjE conjE; simp add: GatewayUpstreamStrategy_def modes_fixed modes_distinct)+

lemma SetCodexUpstreamStrategy_Inr:
  assumes "SetCodexUpstreamStrategy set_value strategy s = (Inr (st, mode, fb), t)"
  obtains s1 where "set_value GatewaySettingCodexUpstreamMode mode s = (Inr (), s1)"
    "set_value GatewaySettingCodexFallback (formatGatewayBool fb) s1 = (Inr (), t)"
    "strategy_parts st = Some (mode, fb)"
proof (cases "strategy_parts (NormalizeGatewayUpstreamStrategy strategy)")
  case None
  then show thesis using assms by (simp add: SetCodexUpstreamStrategy_def)
next
  case (Some p)
  then show thesis using assms that
    by (cases p) (auto simp: SetCodexUpstreamStrategy_def elim!: bind_op_InrE)
qed

lemma GetCodexUpstreamMode_Inr:
  assumes "GetCodexUpstreamMode get env s = (Inr mode, t)"
  obtains v where "get GatewaySettingCodexUpstreamMode s = (Inr v, t)"
    "mode = (if NormalizeGatewayUpstreamMode v = '''' then DefaultGatewayUpstreamMode env
             else NormalizeGatewayUpstreamMode v)"
proof -
  from assms obtain v s1 where "get GatewaySettingCodexUpstreamMode s = (Inr v, s1)"
    and "(if NormalizeGatewayUpstreamMode v = '''' then ok (DefaultGatewayUpstreamMode env)
          else ok (NormalizeGatewayUpstreamMode v)) s1 = (Inr mode, t)"
    unfolding GetCodexUpstreamMode_def Let_def by (rule bind_op_InrE)
  then show thesis using that by (simp split: if_splits)
qed

lemma GetCodexUpstreamFallbackEnabled_Inr:
  assumes "GetCodexUpstreamFallbackEnabled get env s = (Inr fb, t)"
  obtains v where "get GatewaySettingCodexFallback s = (Inr v, t)"
    "fb = (if TrimSpace v = '''' then DefaultGatewayUpstreamFallbackEnabled env else parseGatewayBool v)"
proof -
  from assms obtain v s1 where "get GatewaySettingCodexFallback s = (Inr v, s1)"
    and "(if TrimSpace v = '''' then ok (DefaultGatewayUpstreamFallbackEnabled env)
          else ok (parseGatewayBool v)) s1 = (Inr fb, t)"
    unfolding GetCodexUpstreamFallbackEnabled_def by (rule bind_op_InrE)
  then show thesis using that by (simp split: if_splits)
qed

lemma GetCodexUpstreamStrategy_Inr:
  assumes "GetCodexUpstreamStrategy get env s = (Inr c, t)"
  obtains mode fb s1 where "GetCodexUpstreamMode get env s = (Inr mode, s1)"
    "GetCodexUpstreamFallbackEnabled get env s1 = (Inr fb, t)" "c = (GatewayUpstreamStrategy mode fb, mode, fb)"
proof -
  from assms obtain mode s1 where m: "GetCodexUpstreamMode get env s = (Inr mode, s1)"
    and f: "bind_op (GetCodexUpstreamFallbackEnabled get env) (\<lambda>fb.
        ok (GatewayUpstreamStrategy mode fb, mode, fb)) s1 = (Inr c, t)"
    unfolding GetCodexUpstreamStrategy_def by (rule bind_op_InrE)
  from f obtain fb s2 where "GetCodexUpstreamFallbackEnabled get env s1 = (Inr fb, s2)"
    and "ok (GatewayUpstreamStrategy mode fb, mode, fb) s2 = (Inr c, t)"
    by (rule bind_op_InrE)
  then show thesis using that [OF m] by simp
qed

locale settings_map =
  fixes inv :: "'s \<Rightarrow> bool" and value_of :: "'s \<Rightarrow> string \<Rightarrow> string"
    and get :: "string \<Rightarrow> ('s, string) op" and set_value :: "string \<Rightarrow> string \<Rightarrow> ('s, unit) op"
  assumes get_law: "inv s \<Longrightarrow> clean k \<Longrightarrow> k \<noteq> '''' \<Longrightarrow> get k s = (Inr v, t) \<Longrightarrow>
      inv t \<and> value_of t = value_of s \<and> v = value_of s k"
    and set_law: "inv s \<Longrightarrow> clean k \<Longrightarrow> k \<noteq> '''' \<Longrightarrow> clean v \<Longrightarrow> set_value k v s = (Inr (), t) \<Longrightarrow>
      inv t \<and> value_of t = (value_of s)(k := v)"
begin

lemma default_effort_kept:
  assumes "inv s" "SetGatewayDefaultReasoningEffort set_value effort s = (Inr e, t)"
    and "GetGatewayDefaultReasoningEffort get t = (Inr g, t')"
  shows "g = e \<and> e = NormalizeGatewayReasoningEffort (TrimSpace effort)"
proof -
  from assms(2) have set: "set_value GatewaySettingDefaultReasoning e s = (Inr (), t)"
    and e: "e = NormalizeGatewayReasoningEffort (TrimSpace effort)"
    by (auto simp: SetGatewayDefaultReasoningEffort_def Let_def split: if_splits elim!: bind_op_InrE)
  have 1: "inv t \<and> value_of t = (value_of s)(GatewaySettingDefaultReasoning := e)"
    by (rule set_law [OF assms(1) clean_names(3) setting_names_distinct(4) _ set]) (simp add: e clean_effort)
  from assms(3) obtain v where v: "get GatewaySettingDefaultReasoning t = (Inr v, t')"
    and g: "g = NormalizeGatewayReasoningEffort v"
    by (auto simp: GetGatewayDefaultReasoningEffort_def elim!: bind_op_InrE)
  have "v = e" using get_law [OF _ clean_names(3) setting_names_distinct(4) v] 1 by simp
  then show ?thesis by (simp add: g e)
qed

text \<open>A strategy that was set is read back as set, whatever the environment says.\<close>

lemma strategy_kept:
  assumes "inv s" "SetCodexUpstreamStrategy set_value strategy s = (Inr c, t)"
    and "GetCodexUpstreamStrategy get env t = (Inr c', t')"
  shows "c' = c"
proof -
  obtain st mode fb where c: "c = (st, mode, fb)" by (cases c)
  from assms(2) obtain s1 where
    set1: "set_value GatewaySettingCodexUpstreamMode mode s = (Inr (), s1)"
    and set2: "set_value GatewaySettingCodexFallback (formatGatewayBool fb) s1 = (Inr (), t)"
    and parts: "strategy_parts st = Some (mode, fb)"
    unfolding c by (rule SetCodexUpstreamStrategy_Inr)
  note cases = strategy_parts_cases [OF parts]
  have clean: "clean mode" using cases clean_names by blast
  have 1: "inv s1 \<and> value_of s1 = (value_of s)(GatewaySettingCodexUpstreamMode := mode)"
    by (rule set_law [OF assms(1) clean_names(1) setting_names_distinct(2) clean set1])
  then have 2: "inv t \<and> value_of t = (value_of s1)(GatewaySettingCodexFallback := formatGatewayBool fb)"
    using set_law [OF _ clean_names(2) setting_names_distinct(3) clean_names(4) set2] by blast
  from assms(3) obtain mode' fb' t1 where m: "GetCodexUpstreamMode get env t = (Inr mode', t1)"
    and f: "GetCodexUpstreamFallbackEnabled get env t1 = (Inr fb', t')"
    and c': "c' = (GatewayUpstreamStrategy mode' fb', mode', fb')"
    by (rule GetCodexUpstreamStrategy_Inr)
  obtain v1 where get1: "get GatewaySettingCodexUpstreamMode t = (Inr v1, t1)"
    and m': "mode' = (if NormalizeGatewayUpstreamMode v1 = '''' then DefaultGatewayUpstreamMode env
               else NormalizeGatewayUpstreamMode v1)"
    using m by (rule GetCodexUpstreamMode_Inr)
  obtain v2 where get2: "get GatewaySettingCodexFallback t1 = (Inr v2, t')"
    and f': "fb' = (if TrimSpace v2 = '''' then DefaultGatewayUpstreamFallbackEnabled env else parseGatewayBool v2)"
    using f by (rule GetCodexUpstreamFallbackEnabled_Inr)
  have 3: "inv t1 \<and> value_of t1 = value_of t \<and> v1 = mode"
    using get_law [OF _ clean_names(1) setting_names_distinct(2) get1] 1 2 setting_names_distinct by simp
  then have 4: "v2 = formatGatewayBool fb"
    using get_law [OF _ clean_names(2) setting_names_distinct(3) get2] 2 by simp
  have nf: "TrimSpace (formatGatewayBool fb) \<noteq> ''''"
    using clean_names(4) [of fb] by (simp add: clean_def) (simp add: formatGatewayBool_def)
  show ?thesis
    using strategy_parts_read [OF parts] nf by (simp add: c' m' f' c 3 4)
qed

text \<open>The precedence of the reasoning efforts.\<close>

lemma effective_effort:
  assumes "inv s" "GetEffectiveReasoningEffort get key requested s = (Inr e, t)"
  shows "e =
    (let own = (case key of None \<Rightarrow> '''' | Some k \<Rightarrow>
           NormalizeGatewayAPIKeyDefaultReasoningEffort (key_DefaultReasoningEffort k));
         global = NormalizeGatewayReasoningEffort (value_of s GatewaySettingDefaultReasoning)
     in if own = ''none'' then NormalizeGatewayReasoningEffort requested
        else if own \<noteq> '''' then own
        else if global \<noteq> '''' then global
        else NormalizeGatewayReasoningEffort requested)"
proof -
  define own where "own = (case key of None \<Rightarrow> '''' | Some k \<Rightarrow>
      NormalizeGatewayAPIKeyDefaultReasoningEffort (key_DefaultReasoningEffort k))"
  have "own \<in> {'''', GatewayReasoningEffortNone, GatewayReasoningEffortLow, GatewayReasoningEffortMed,
      GatewayReasoningEffortHigh, GatewayReasoningEffortXHigh, GatewayReasoningEffortMax}"
    using NormalizeGatewayReasoningEffort_range
    by (auto simp: own_def NormalizeGatewayAPIKeyDefaultReasoningEffort_def split: option.splits)
  then consider (none) "own = GatewayReasoningEffortNone" | (empty) "own = ''''"
    | (own) "own \<in> {GatewayReasoningEffortLow, GatewayReasoningEffortMed, GatewayReasoningEffortHigh,
        GatewayReasoningEffortXHigh, GatewayReasoningEffortMax}"
    by blast
  then show ?thesis
  proof cases
    case none
    then show ?thesis using assms(2)
      by (simp add: GetEffectiveReasoningEffort_def flip: own_def) (simp add: gateway_names)
  next
    case own
    then have "own \<noteq> GatewayReasoningEffortNone" "own \<noteq> ''''" by (auto simp: gateway_names)
    then show ?thesis using assms(2) own
      by (simp add: GetEffectiveReasoningEffort_def flip: own_def) (simp add: gateway_names)
  next
    case empty
    then have "bind_op (GetGatewayDefaultReasoningEffort get) (\<lambda>globalDefault.
        if globalDefault \<noteq> '''' then ok globalDefault else ok (NormalizeGatewayReasoningEffort requested)) s = (Inr e, t)"
      using assms(2) by (simp add: GetEffectiveReasoningEffort_def gateway_names flip: own_def)
    then obtain v t1 where v: "get GatewaySettingDefaultReasoning s = (Inr v, t1)"
      and e: "e = (if NormalizeGatewayReasoningEffort v \<noteq> '''' then NormalizeGatewayReasoningEffort v
                   else NormalizeGatewayReasoningEffort requested)"
      by (auto simp: GetGatewayDefaultReasoningEffort_def split: if_splits elim!: bind_op_InrE)
    have "v = value_of s GatewaySettingDefaultReasoning"
      using get_law [OF assms(1) clean_names(3) setting_names_distinct(4) v] by blast
    then show ?thesis using empty by (simp add: e Let_def flip: own_def)
  qed
qed

end
section \<open>The settings of the database\<close>

definition store_value :: "store \<Rightarrow> string \<Rightarrow> string" where
  "store_value s k = (case find (\<lambda>r. s_key r = k) (rows (settings s)) of None \<Rightarrow> '''' | Some r \<Rightarrow> s_value r)"

lemma store_value_stmts [simp]: "store_value (s\<lparr>stmts := n\<rparr>) = store_value s"
  by (simp add: store_value_def fun_eq_iff)

lemma get_setting_cases:
  assumes "store_ok s" "clean k" "k \<noteq> ''''"
  shows "repo_GetGatewaySetting k s =
    (if fault s (stmts s) then Inl DBFailed else Inr (store_value s k), s\<lparr>stmts := Suc (stmts s)\<rparr>)"
proof (cases "fault s (stmts s)")
  case True
  then show ?thesis using assms
    by (simp add: repo_GetGatewaySetting_def clean_def try_op_def setting_tbl.on_tbl_fault)
next
  case False
  have "on_settings (only_row (\<lambda>r. s_key r = k)) s =
      (case find (\<lambda>r. s_key r = k) (rows (settings s)) of None \<Rightarrow> Inl DBNotFound | Some r \<Rightarrow> Inr r,
       s\<lparr>stmts := Suc (stmts s)\<rparr>)"
    using setting_tbl.only_search [of s "\<lambda>r. s_key r = k"] assms(1) False by (simp add: setting_clash_def)
  then show ?thesis using assms False
    by (simp add: repo_GetGatewaySetting_def clean_def try_op_def store_value_def split: option.splits)
qed

lemma find_map_same:
  assumes "\<And>x. P (g x) = P x"
  shows "find P (map g xs) = map_option g (find P xs)"
  using assms by (induction xs) auto

lemma find_append: "find P (xs @ ys) = (case find P xs of None \<Rightarrow> find P ys | Some x \<Rightarrow> Some x)"
  by (induction xs) auto

lemma updated_value:
  "map_option s_value (find (\<lambda>r. s_key r = j) (map (\<lambda>q. if s_key q = k then q\<lparr>s_value := v, s_updated_at := u\<rparr> else q) xs)) =
   (if j = k then map_option (\<lambda>_. v) (find (\<lambda>r. s_key r = k) xs) else map_option s_value (find (\<lambda>r. s_key r = j) xs))"
  by (induction xs) auto

lemma store_value_alt:
  "store_value s k = (case map_option s_value (find (\<lambda>r. s_key r = k) (rows (settings s))) of None \<Rightarrow> '''' | Some v \<Rightarrow> v)"
  by (simp add: store_value_def split: option.splits)

lemma set_setting:
  assumes "clean k" "k \<noteq> ''''" "clean v" "repo_SetGatewaySetting k v s = (Inr (), t)"
  shows "store_value t = (store_value s)(k := v)"
proof -
  let ?f = "\<lambda>r. r\<lparr>s_value := v, s_updated_at := db_now s\<rparr>"
  from assms obtain n s1 where upd: "on_settings (update_rows (\<lambda>r. s_key r = k) ?f) s = (Inr n, s1)"
    and rest: "(if n > 0 then ok () else checked (max_len 128 k)
        (bind_op time_now (\<lambda>now. bind_op (on_settings (insert_row setting_clash (\<lambda>i.
          \<lparr>s_id = i, s_key = k, s_value = v, s_created_at = now, s_updated_at = now\<rparr>))) (\<lambda>_. ok ())))) s1 = (Inr (), t)"
    by (auto simp: repo_SetGatewaySetting_def clean_def checked_Inr elim!: bind_op_InrE)
  have n: "n = int (length (filter (\<lambda>r. s_key r = k) (rows (settings s))))"
    and s1: "rows (settings s1) = map (\<lambda>q. if s_key q = k then ?f q else q) (rows (settings s))"
    using upd by (auto simp: setting_tbl.on_tbl_Inr update_rows_def)
  have v1: "store_value s1 j = (if j = k \<and> find (\<lambda>r. s_key r = k) (rows (settings s)) \<noteq> None then v else store_value s j)" for j
    by (simp add: store_value_alt s1 updated_value split: option.splits)
  show ?thesis
  proof (cases "n > 0")
    case True
    then have "filter (\<lambda>r. s_key r = k) (rows (settings s)) \<noteq> []" using n by auto
    then have "find (\<lambda>r. s_key r = k) (rows (settings s)) \<noteq> None"
      by (simp add: find_None_iff filter_empty_conv Bex_def del: not_None_eq)
    then show ?thesis using rest True v1 by (simp add: fun_eq_iff)
  next
    case False
    then have "filter (\<lambda>r. s_key r = k) (rows (settings s)) = []" using n by simp
    then have none: "\<forall>r \<in> set (rows (settings s)). s_key r \<noteq> k" by (simp add: filter_empty_conv)
    then have "find (\<lambda>r. s_key r = k) (rows (settings s)) = None" by (auto simp: find_None_iff)
    then have v1': "store_value s1 = store_value s" by (simp add: fun_eq_iff v1)
    have fk: "find (\<lambda>r. s_key r = k) (rows (settings s1)) = None"
      using none by (auto simp: s1 find_None_iff)
    let ?mk = "\<lambda>i. \<lparr>s_id = i, s_key = k, s_value = v, s_created_at = db_now s1, s_updated_at = db_now s1\<rparr>"
    from rest False have "bind_op (on_settings (insert_row setting_clash ?mk)) (\<lambda>_. ok ()) s1 = (Inr (), t)"
      by (simp add: checked_Inr)
    then obtain r where "on_settings (insert_row setting_clash ?mk) s1 = (Inr r, t)"
      by (auto elim!: bind_op_InrE)
    then obtain tb where "insert_row setting_clash ?mk (settings s1) = (Inr r, tb)" and st: "settings t = tb"
      by (auto simp: setting_tbl.on_tbl_Inr)
    then have "r = ?mk (seq (settings s1) + 1) \<and> rows tb = rows (settings s1) @ [r]"
      by (cases rule: setting_tbl.insert_cases) simp_all
    then have rows_t: "rows (settings t) = rows (settings s1) @ [r]" and "s_key r = k" "s_value r = v"
      by (simp_all add: st)
    then have "store_value t j = (if j = k then v else store_value s1 j)" for j
      using fk by (simp add: store_value_def find_append rows_t split: option.splits)
    then show ?thesis by (simp add: fun_eq_iff v1')
  qed
qed

interpretation gateway_settings: settings_map store_ok store_value repo_GetGatewaySetting repo_SetGatewaySetting
proof unfold_locales
  fix s k v t assume "store_ok s" "clean k" "k \<noteq> ''''" "repo_GetGatewaySetting k s = (Inr v, t)"
  then show "store_ok t \<and> store_value t = store_value s \<and> v = store_value s k"
    by (auto simp: get_setting_cases split: if_splits)
next
  fix s k v t assume a: "store_ok s" "clean k" "k \<noteq> ''''" "clean v" "repo_SetGatewaySetting k v s = (Inr (), t)"
  then show "store_ok t \<and> store_value t = (store_value s)(k := v)"
    using set_setting keepsD [OF keeps_repo_SetGatewaySetting] by blast
qed

section \<open>Properties\<close>

text \<open>Without failing statements the settings can always be read.\<close>

lemma default_effort_read:
  assumes "store_ok s" "\<forall>n. \<not> fault s n"
  shows "GetGatewayDefaultReasoningEffort repo_GetGatewaySetting s =
    (Inr (NormalizeGatewayReasoningEffort (store_value s GatewaySettingDefaultReasoning)), s\<lparr>stmts := Suc (stmts s)\<rparr>)"
  using assms by (simp add: GetGatewayDefaultReasoningEffort_def bind_op_def get_setting_cases clean_names
      setting_names_distinct)

lemma setting_read:
  assumes "store_ok s" "\<forall>n. \<not> fault s n" "clean k" "k \<noteq> ''''"
  shows "repo_GetGatewaySetting k s = (Inr (store_value s k), s\<lparr>stmts := Suc (stmts s)\<rparr>)"
  using assms by (simp add: get_setting_cases)

lemma strategy_read:
  assumes "store_ok s" "\<forall>n. \<not> fault s n"
  shows "\<exists>c t. gateway_GetCodexUpstreamStrategy env s = (Inr c, t)"
proof -
  let ?s = "s\<lparr>stmts := Suc (stmts s)\<rparr>"
  note 1 = setting_read [OF assms clean_names(1) setting_names_distinct(2)]
  have ok: "store_ok ?s" "\<forall>n. \<not> fault ?s n" using assms by simp_all
  note 2 = setting_read [OF ok clean_names(2) setting_names_distinct(3)]
  have "\<exists>mode. GetCodexUpstreamMode repo_GetGatewaySetting env s = (Inr mode, ?s)"
    unfolding GetCodexUpstreamMode_def Let_def bind_op_def 1 by simp
  then obtain mode where m: "GetCodexUpstreamMode repo_GetGatewaySetting env s = (Inr mode, ?s)" ..
  have "\<exists>fb t. GetCodexUpstreamFallbackEnabled repo_GetGatewaySetting env ?s = (Inr fb, t)"
    unfolding GetCodexUpstreamFallbackEnabled_def bind_op_def 2 by simp
  then obtain fb t where "GetCodexUpstreamFallbackEnabled repo_GetGatewaySetting env ?s = (Inr fb, t)" by blast
  then show ?thesis
    unfolding gateway_GetCodexUpstreamStrategy_def GetCodexUpstreamStrategy_def bind_op_def m by simp
qed

text \<open>
  A strategy that was set is the strategy that is read, with its mode and its fallback,
  whatever CODEX\_UPSTREAM\_MODE and CODEX\_UPSTREAM\_FALLBACK\_ENABLED say in the environment.
\<close>
theorem strategy_roundtrip:
  assumes "store_ok s" "gateway_SetCodexUpstreamStrategy strategy s = (Inr c, t)" "\<forall>n. \<not> fault t n"
  shows "fst (gateway_GetCodexUpstreamStrategy env t) = Inr c"
proof -
  have "keeps store_ok (gateway_SetCodexUpstreamStrategy strategy)"
    unfolding gateway_SetCodexUpstreamStrategy_def SetCodexUpstreamStrategy_def by (intro op_keeps)
  then have "store_ok t" using assms(1,2) by (rule keepsD)
  then obtain c' t' where get: "gateway_GetCodexUpstreamStrategy env t = (Inr c', t')"
    using strategy_read assms(3) by blast
  then have "c' = c"
    using gateway_settings.strategy_kept assms(1,2)
    unfolding gateway_SetCodexUpstreamStrategy_def gateway_GetCodexUpstreamStrategy_def by blast
  then show ?thesis using get by simp
qed

theorem strategy_roundtrip_witness:
  "fst (gateway_GetCodexUpstreamStrategy (\<lambda>_. ''codex_cli'')
     (snd (gateway_SetCodexUpstreamStrategy '' Backend_With_CLI_Fallback'' (fresh_store clock0)))) =
   Inr (''backend_with_cli_fallback'', ''codex_backend'', True)"
proof (rule strategy_roundtrip [OF fresh_store_ok])
  show "gateway_SetCodexUpstreamStrategy '' Backend_With_CLI_Fallback'' (fresh_store clock0) =
    (Inr (''backend_with_cli_fallback'', ''codex_backend'', True),
     snd (gateway_SetCodexUpstreamStrategy '' Backend_With_CLI_Fallback'' (fresh_store clock0)))"
    by (rule prod_eqI; simp only: fst_conv snd_conv) code_simp
  have "keeps (\<lambda>s. fault s = (\<lambda>_. False)) (gateway_SetCodexUpstreamStrategy strategy)" for strategy
    unfolding gateway_SetCodexUpstreamStrategy_def SetCodexUpstreamStrategy_def repo_SetGatewaySetting_def Let_def
    by (intro op_keeps setting_tbl.on_tbl_keeps) simp_all
  then have "fault (snd (gateway_SetCodexUpstreamStrategy strategy (fresh_store clock0))) = (\<lambda>_. False)" for strategy
    by (rule keeps_sndD) (simp add: fresh_store_def)
  then show "\<forall>n. \<not> fault (snd (gateway_SetCodexUpstreamStrategy '' Backend_With_CLI_Fallback''
      (fresh_store clock0))) n"
    by simp
qed

text \<open>
  The effort a request runs with: the key's own default first, where \<open>none\<close> leaves the
  request's choice alone and switches the global default off; then the global default; then
  the request's.
\<close>
theorem effort_precedence:
  assumes "store_ok s" "\<forall>n. \<not> fault s n"
  shows "fst (gateway_GetEffectiveReasoningEffort key requested s) =
    (let own = (case key of None \<Rightarrow> '''' | Some k \<Rightarrow>
           NormalizeGatewayAPIKeyDefaultReasoningEffort (key_DefaultReasoningEffort k));
         global = NormalizeGatewayReasoningEffort (store_value s GatewaySettingDefaultReasoning)
     in Inr (if own = ''none'' then NormalizeGatewayReasoningEffort requested
        else if own \<noteq> '''' then own
        else if global \<noteq> '''' then global
        else NormalizeGatewayReasoningEffort requested))"
proof -
  have "\<exists>e t. GetEffectiveReasoningEffort repo_GetGatewaySetting key requested s = (Inr e, t)"
    by (simp add: GetEffectiveReasoningEffort_def Let_def bind_op_def default_effort_read [OF assms])
  then obtain e t where e: "GetEffectiveReasoningEffort repo_GetGatewaySetting key requested s = (Inr e, t)"
    by blast
  show ?thesis
    unfolding gateway_GetEffectiveReasoningEffort_def e
    using gateway_settings.effective_effort [OF assms(1) e] by (simp add: Let_def)
qed

text \<open>A database with the global default \<open>high\<close>.\<close>

definition high_store :: store where
  "high_store = (fresh_store clock0)
     \<lparr>settings := \<lparr>rows = [\<lparr>s_id = 1, s_key = GatewaySettingDefaultReasoning, s_value = ''high'',
        s_created_at = 0, s_updated_at = 0\<rparr>], seq = 1\<rparr>\<rparr>"

lemma high_store_ok: "store_ok high_store" "\<not> fault high_store n"
  by (simp_all add: store_ok_def high_store_def fresh_store_def tbl_ok_def empty_tbl_def setting_valid_def
      setting_clash_def max_len_def not_empty_def gateway_names)

theorem effort_precedence_witness:
  "fst (gateway_GetEffectiveReasoningEffort None ''low'' high_store) = Inr ''high''"
  by (subst effort_precedence) (rule high_store_ok allI | code_simp)+

end
