(* ===== verification/Metering.thy ===== *)
theory Metering
  imports UsageService "HOL-Library.Multiset"
begin

text \<open>
  What metering guarantees end to end: a logged request counts for its key in every window its
  time lies in, and for nobody else; the listing, the summary and the summary by key agree on
  what was logged; a log the schema refuses is not counted at all.
\<close>

section \<open>A log and the usage of its key\<close>

definition log_time :: "GatewayUsageLog \<Rightarrow> store \<Rightarrow> int" where
  "log_time item s = (if IsZero (l_CreatedAt item) then db_now s else l_CreatedAt item)"

definition logged_row :: "GatewayUsageLog \<Rightarrow> store \<Rightarrow> usage_row" where
  "logged_row item s = usage_row_of (normalize_usage_log item) (db_now s) (seq (usage s) + 1)"

lemma normalize_usage_log_fields [simp]:
  "l_CreatedAt (normalize_usage_log item) = l_CreatedAt item"
  "l_APIKeyID (normalize_usage_log item) = l_APIKeyID item"
  "l_RequestID (normalize_usage_log item) = l_RequestID item"
  "l_TotalTokens (normalize_usage_log item) = l_TotalTokens item"
  by (simp_all add: normalize_usage_log_def Let_def)

lemma logged_row_fields [simp]:
  "u_created_at (logged_row item s) = log_time item s"
  "u_api_key_id (logged_row item s) = (if l_APIKeyID item > 0 then Some (l_APIKeyID item) else None)"
  "u_total_tokens (logged_row item s) = l_TotalTokens item"
  by (simp_all add: logged_row_def usage_row_of_def log_time_def)

lemma insert_usage_Inr:
  assumes "on_usage (insert_row no_clash mk) s = (Inr r, t)"
  shows "rows (usage t) = rows (usage s) @ [mk (seq (usage s) + 1)]"
proof -
  obtain tb where ins: "insert_row no_clash mk (usage s) = (Inr r, tb)" and "usage t = tb"
    using assms by (auto simp: usage_tbl.on_tbl_Inr)
  with ins show ?thesis by (cases rule: usage_tbl.insert_cases) simp_all
qed

lemma repo_CreateUsageLog_Inr:
  assumes "repo_CreateUsageLog item s = (Inr (), t)"
  shows "rows (usage t) = rows (usage s) @ [usage_row_of item (db_now s) (seq (usage s) + 1)]"
proof -
  have "bind_op (on_usage (insert_row no_clash (usage_row_of item (db_now s)))) (\<lambda>_. ok ()) s = (Inr (), t)"
    using assms by (simp add: repo_CreateUsageLog_def checked_Inr)
  then obtain r where "on_usage (insert_row no_clash (usage_row_of item (db_now s))) s = (Inr r, t)"
    by (auto elim!: bind_op_InrE)
  then show ?thesis by (rule insert_usage_Inr)
qed

text \<open>Evaluating alerts leaves the usage as it is.\<close>

lemma evaluate_keeps_usage: "keeps (\<lambda>s. usage s = u) gateway_evaluateAlertRules"
proof (rule keeps_evaluate)
  show "keeps (\<lambda>s. usage s = u) repo_ListAlertRules"
    unfolding repo_ListAlertRules_def by (intro op_keeps rule_tbl.on_tbl_keeps) simp_all
  show "\<And>f. keeps (\<lambda>s. usage s = u) (repo_SummarizeUsage f)"
    by (rule keeps_reads) simp_all
  show "\<And>e. keeps (\<lambda>s. usage s = u) (repo_CreateAlertEvent e)"
    unfolding repo_CreateAlertEvent_def by (intro op_keeps event_tbl.on_tbl_keeps) simp_all
qed

lemma CreateUsageLog_rows:
  assumes "gateway_CreateUsageLog (Some item) s = (Inr (), t)"
  shows "rows (usage t) = rows (usage s) @ [logged_row item s]"
proof -
  from assms obtain s1 where c: "repo_CreateUsageLog (normalize_usage_log item) s = (Inr (), s1)"
    and e: "gateway_evaluateAlertRules s1 = (Inr (), t)"
    by (auto simp: gateway_CreateUsageLog_def CreateUsageLog_def elim!: bind_op_InrE)
  have "usage t = usage s1"
    using evaluate_keeps_usage refl e by (rule keepsD)
  then show ?thesis using repo_CreateUsageLog_Inr [OF c] by (simp add: logged_row_def)
qed


definition sample_log :: "string \<Rightarrow> int \<Rightarrow> GatewayUsageLog" where
  "sample_log rid tokens =
     (mapGatewayUsageLog (\<lambda>_. '''') of_int (sample_usage 0 tokens 5))\<lparr>l_RequestID := rid\<rparr>"


text \<open>
  A request whose request id is longer than the column is not metered: the log is refused
  before any statement runs, and nothing of it counts in any window. The id is taken from the
  client's X-Request-Id header, so a client can keep its usage out of its quota.
\<close>
theorem long_request_id_not_metered:
  assumes "128 < length (l_RequestID item)"
  shows "\<exists>msg. gateway_CreateUsageLog (Some item) s = (Inl (DBValidation msg), s)"
  using assms
  by (simp add: gateway_CreateUsageLog_def CreateUsageLog_def repo_CreateUsageLog_def bind_op_def time_now_def
      checked_def usage_valid_def usage_row_of_def max_len_def fail_def)

theorem long_request_id_not_metered_witness:
  "usage (snd (gateway_CreateUsageLog (Some (sample_log (replicate 129 CHR ''x'') 1000000)) (fresh_store clock0))) = empty_tbl"
  using long_request_id_not_metered [of "sample_log (replicate 129 CHR ''x'') 1000000" "fresh_store clock0"]
  by (auto simp: sample_log_def fresh_store_def)

section \<open>The listing and the summary\<close>

lemma conds_hold_append [simp]: "conds_hold ks (xs @ ys) r = (conds_hold ks xs r \<and> conds_hold ks ys r)"
  by (auto simp: conds_hold_def)

lemma conds_hold_Nil [simp]: "conds_hold ks [] r"
  by (simp add: conds_hold_def)

lemma conds_hold_Cons [simp]: "conds_hold ks (c # cs) r = (cond_holds ks c r \<and> conds_hold ks cs r)"
  by (simp add: conds_hold_def)


text \<open>Only the owner's condition looks at the keys.\<close>

definition keyless :: "usage_cond \<Rightarrow> bool" where
  "keyless c = (\<forall>owner. c \<noteq> CondOwner owner)"

lemma keyless_conds: "list_all keyless (key_conds f)" "list_all keyless (field_conds f)"
  by (simp_all add: key_conds_def field_conds_def cond_text_def keyless_def)

lemma keyless_holds: "list_all keyless cs \<Longrightarrow> conds_hold ks cs r = conds_hold [] cs r"
proof (induction cs)
  case (Cons c cs)
  then have "cond_holds ks c r = cond_holds [] c r" by (cases c) (simp_all add: keyless_def)
  then show ?case using Cons by simp
qed simp

lemma usage_conds_owner:
  "conds_hold ks (usage_conds f) r =
     (conds_hold [] (usage_conds (f\<lparr>f_OwnerUserID := 0\<rparr>)) r \<and>
      (0 < f_OwnerUserID f \<longrightarrow> cond_holds ks (CondOwner (f_OwnerUserID f)) r))"
proof -
  have same: "key_conds (f\<lparr>f_OwnerUserID := 0\<rparr>) = key_conds f" "field_conds (f\<lparr>f_OwnerUserID := 0\<rparr>) = field_conds f"
    by (simp_all add: key_conds_def field_conds_def)
  show ?thesis
    unfolding usage_conds_def same conds_hold_append
    using keyless_holds [OF keyless_conds(1), of ks f r] keyless_holds [OF keyless_conds(2), of ks f r]
    by simp blast
qed

lemma owned_keys:
  assumes "u_api_key_id r \<noteq> Some (-1)"
  shows "conds_hold ks' [if filter (\<lambda>k. k_owner_user_id k = Some owner) ks = [] then CondKeyEq (-1)
           else CondKeyIn (map k_id (filter (\<lambda>k. k_owner_user_id k = Some owner) ks))] r =
         cond_holds ks (CondOwner owner) r"
proof (cases "filter (\<lambda>k. k_owner_user_id k = Some owner) ks = []")
  case True
  then have "\<forall>k \<in> set ks. k_owner_user_id k \<noteq> Some owner" by (simp add: filter_empty_conv)
  then show ?thesis using True assms by (auto split: option.splits)
next
  case False
  then show ?thesis by (auto split: option.splits)
qed

lemma applyUsageFilter_calm:
  assumes "\<forall>n. \<not> fault s n" "\<forall>r \<in> set (rows (usage s)). u_api_key_id r \<noteq> Some (-1)"
  shows "\<exists>P t. applyUsageFilter f s = (Inr P, t) \<and> usage t = usage s \<and> fault t = fault s \<and>
     (\<forall>r \<in> set (rows (usage s)). P r = conds_hold (rows (keys s)) (usage_conds f) r)"
proof (cases "0 < f_OwnerUserID f")
  case False
  then have "applyUsageFilter f s = (Inr (conds_hold [] (usage_conds (f\<lparr>f_OwnerUserID := 0\<rparr>))), s)"
    by (simp add: applyUsageFilter_def)
  then show ?thesis using False usage_conds_owner [of "rows (keys s)" f] by simp
next
  case True
  let ?ks = "filter (\<lambda>k. k_owner_user_id k = Some (f_OwnerUserID f)) (rows (keys s))"
  let ?o = "if ?ks = [] then CondKeyEq (-1) else CondKeyIn (map k_id ?ks)"
  let ?P = "conds_hold [] (?o # usage_conds (f\<lparr>f_OwnerUserID := 0\<rparr>))"
  have sel: "on_keys (select_rows (\<lambda>k. k_owner_user_id k = Some (f_OwnerUserID f))) s =
      (Inr ?ks, s\<lparr>stmts := Suc (stmts s), keys := keys s\<rparr>)"
    using key_tbl.on_tbl_run [of s "select_rows (\<lambda>k. k_owner_user_id k = Some (f_OwnerUserID f))" "Inr ?ks" "keys s"]
      assms(1) by (simp add: select_rows_def)
  have "applyUsageFilter f s = (Inr ?P, s\<lparr>stmts := Suc (stmts s), keys := keys s\<rparr>)"
    using True sel by (simp add: applyUsageFilter_def try_op_def Let_def)
  moreover have "?P r = conds_hold (rows (keys s)) (usage_conds f) r" if "r \<in> set (rows (usage s))" for r
    using owned_keys [of r "[]" "f_OwnerUserID f" "rows (keys s)"] assms(2) that True
      usage_conds_owner [of "rows (keys s)" f r]
    by (simp only: conds_hold_Cons conds_hold_Nil) blast
  ultimately show ?thesis by (intro exI [of _ ?P] exI [of _ "s\<lparr>stmts := Suc (stmts s), keys := keys s\<rparr>"]) simp
qed

lemma select_usage_calm:
  assumes "\<forall>n. \<not> fault s n"
  shows "on_usage (select_rows P) s = (Inr (filter P (rows (usage s))), s\<lparr>stmts := Suc (stmts s), usage := usage s\<rparr>)"
  using usage_tbl.on_tbl_run [of s "select_rows P" "Inr (filter P (rows (usage s)))" "usage s"] assms
  by (simp add: select_rows_def)



text \<open>
  The listing fails open: when the lookup of an owner's keys fails, the owner is dropped
  from the filter, and the caller, who asked for one user's requests, gets those of every user.
\<close>
theorem owner_filter_lost_on_failure:
  assumes "fault s (stmts s)" "0 < f_OwnerUserID f"
  shows "repo_ListUsageLogs fmt float_round f s =
    repo_ListUsageLogs fmt float_round (f\<lparr>f_OwnerUserID := 0\<rparr>) (s\<lparr>stmts := Suc (stmts s)\<rparr>)"
proof -
  let ?P = "conds_hold [] (usage_conds (f\<lparr>f_OwnerUserID := 0\<rparr>))" and ?s = "s\<lparr>stmts := Suc (stmts s)\<rparr>"
  have "on_keys (select_rows Q) s = (Inl DBFailed, ?s)" for Q
    by (rule key_tbl.on_tbl_fault [OF assms(1)])
  then have "applyUsageFilter f s = (Inr ?P, ?s)"
    using assms(2) by (simp add: applyUsageFilter_def try_op_def Let_def)
  moreover have "applyUsageFilter (f\<lparr>f_OwnerUserID := 0\<rparr>) ?s = (Inr ?P, ?s)"
    by (simp add: applyUsageFilter_def)
  ultimately show ?thesis by (simp add: repo_ListUsageLogs_def bind_op_def [of "applyUsageFilter _"])
qed

text \<open>The two requests of key 1 are listed for user 7, who has no key.\<close>

definition failing_store :: store where
  "failing_store = used_store\<lparr>fault := (\<lambda>n. n = 0)\<rparr>"

definition owner_filter :: GatewayUsageFilter where
  "owner_filter = no_filter\<lparr>f_OwnerUserID := 7, f_Limit := 30\<rparr>"

theorem owner_filter_lost_on_failure_witness:
  "length (fst (projr (fst (repo_ListUsageLogs (\<lambda>_. '''') of_int owner_filter failing_store)))) = 2"
proof -
  have 1: "fault failing_store (stmts failing_store)" by code_simp
  have 2: "0 < f_OwnerUserID owner_filter" by code_simp
  show ?thesis unfolding owner_filter_lost_on_failure [OF 1 2] by code_simp
qed

section \<open>The summary by key\<close>

lemma sum_single:
  fixes c :: int
  shows "distinct ks \<Longrightarrow> k \<in> set ks \<Longrightarrow> (\<Sum>j\<leftarrow>ks. if j = k then c else 0) = c"
proof (induction ks)
  case (Cons j ks)
  show ?case
  proof (cases "j = k")
    case True
    then have "(\<Sum>i\<leftarrow>ks. if i = k then c else 0) = (\<Sum>i\<leftarrow>ks. 0)"
      using Cons.prems(1) by (intro arg_cong [where f = sum_list] map_cong) auto
    then show ?thesis using True by simp
  qed (use Cons in simp)
qed simp

lemma sum_of_groups:
  "distinct ks \<Longrightarrow> f ` set xs \<subseteq> set ks \<Longrightarrow> (\<Sum>k\<leftarrow>ks. sum_of h (filter (\<lambda>x. f x = k) xs)) = sum_of h xs"
proof (induction xs)
  case Nil
  show ?case by (induction ks) (simp_all add: sum_of_def)
next
  case (Cons x xs)
  have "(\<Sum>k\<leftarrow>ks. sum_of h (filter (\<lambda>y. f y = k) (x # xs))) =
      (\<Sum>k\<leftarrow>ks. (if k = f x then h x else 0) + sum_of h (filter (\<lambda>y. f y = k) xs))"
    by (intro arg_cong [where f = sum_list] map_cong) (auto simp: sum_of_def)
  also have "\<dots> = (\<Sum>k\<leftarrow>ks. if k = f x then h x else 0) + (\<Sum>k\<leftarrow>ks. sum_of h (filter (\<lambda>y. f y = k) xs))"
    by (rule sum_list_addf)
  finally show ?case using Cons sum_single [of ks "f x" "h x"] by (simp add: sum_of_def)
qed

lemma sum_of_group_by: "(\<Sum>p\<leftarrow>group_by f xs. sum_of h (snd p)) = sum_of h xs"
  using sum_of_groups [of "remdups (map f xs)" f xs h] by (simp add: group_by_def o_def)

lemma sum_list_sort_key: "(\<Sum>x\<leftarrow>sort_key g xs. h x) = (\<Sum>x\<leftarrow>xs. (h x :: int))"
  by (metis mset_map mset_sort sum_mset_sum_list)

lemma attach_key_costs:
  assumes "attachUsageKeySummaryCosts f list s = (r, t)"
  shows "\<exists>out. r = Inr out \<and> map ks_Totals out = map ks_Totals list"
  using assms unfolding attachUsageKeySummaryCosts_def attach_costs_def try_op_def
  by (auto split: if_splits prod.splits sum.splits option.splits simp: comp_def intro!: map_cong)

text \<open>
  The summary by key is a partition of the usage: as long as the limit does not cut groups
  off, the requests and the tokens of the keys add up to those of the summary under the same
  filter, rows without a key included.
\<close>
theorem key_summaries_add_up:
  assumes "fst (repo_ListUsageKeySummaries f limit s) = Inr out" "fst (repo_SummarizeUsage f s) = Inr x"
    and "int (length (rows (usage s))) \<le> limit"
  shows "(\<Sum>k\<leftarrow>out. TotalRequests (ks_Totals k)) = TotalRequests (su_Totals x) \<and>
    (\<Sum>k\<leftarrow>out. TotalTokens (ks_Totals k)) = TotalTokens (su_Totals x)"
proof -
  let ?rs = "filter (conds_hold (rows (keys s)) (usage_conds f)) (rows (usage s))"
  let ?list = "map (key_summary (rows (keys s))) (group_by row_key ?rs)"
  let ?sorted = "sort_key (\<lambda>x. (- TotalTokens (ks_Totals x), - TotalRequests (ks_Totals x))) ?list"
  have len: "length (group_by row_key ?rs) \<le> length (rows (usage s))"
    unfolding group_by_def length_map
    by (rule le_trans [OF length_remdups_leq]) simp
  then have take: "take (nat limit) ?sorted = ?sorted"
    using assms(3) by (intro take_all) simp
  have "\<exists>s1 t. attachUsageKeySummaryCosts f ?sorted s1 = (Inr out, t)"
    using assms(1) take unfolding repo_ListUsageKeySummaries_def query_usage_keys_def
    by (auto simp: bind_op_def db_stmt_def Let_def scan_all_def prod_eq_iff split: if_splits prod.splits sum.splits)
  then have tot: "map ks_Totals out = map ks_Totals ?sorted" using attach_key_costs by blast
  have sums: "(\<Sum>k\<leftarrow>out. g (ks_Totals k)) = (\<Sum>p\<leftarrow>group_by row_key ?rs. g (group_totals (snd p)))" for g :: "usage_totals \<Rightarrow> int"
  proof -
    have "(\<Sum>k\<leftarrow>out. g (ks_Totals k)) = sum_list (map g (map ks_Totals out))" by (simp add: comp_def)
    also have "\<dots> = (\<Sum>k\<leftarrow>?sorted. g (ks_Totals k))" unfolding tot by (simp add: comp_def)
    also have "\<dots> = (\<Sum>k\<leftarrow>?list. g (ks_Totals k))" by (rule sum_list_sort_key)
    finally show ?thesis by (simp add: comp_def key_summary_def case_prod_beta Let_def)
  qed
  have x: "su_Totals x = totals ?rs"
    using SummarizeUsage_Inr [of f s x "snd (repo_SummarizeUsage f s)"] assms(2) by (simp add: prod_eq_iff)
  have len_sum: "int (length ys) = sum_of (\<lambda>_. 1) ys" for ys :: "usage_row list"
    by (induction ys) (simp_all add: sum_of_def)
  show ?thesis
    using sum_of_group_by [of "\<lambda>_. 1" row_key ?rs] sum_of_group_by [of u_total_tokens row_key ?rs]
    unfolding sums x by (simp add: group_totals_def totals_def len_sum)
qed

theorem key_summaries_add_up_witness:
  "(\<Sum>k\<leftarrow>projr (fst (repo_ListUsageKeySummaries no_filter 30 used_store)). TotalTokens (ks_Totals k)) = 110"
proof -
  let ?list = "fst (repo_ListUsageKeySummaries no_filter 30 used_store)"
  let ?sum = "fst (repo_SummarizeUsage no_filter used_store)"
  have list: "?list = Inr (projr ?list)" by (rule sum.collapse(2) [symmetric]) code_simp
  have sum: "?sum = Inr (projr ?sum)" by (rule sum.collapse(2) [symmetric]) code_simp
  have fits: "int (length (rows (usage used_store))) \<le> 30" by code_simp
  show ?thesis unfolding conjunct2 [OF key_summaries_add_up [OF list sum fits]] by code_simp
qed

section \<open>Costs\<close>

lemma official_prices_sane:
  assumes "OfficialModelPriceMap m = Some p"
  shows "0 \<le> CachedInputUSDPerMillion p" "CachedInputUSDPerMillion p \<le> InputUSDPerMillion p" "0 \<le> OutputUSDPerMillion p"
proof -
  have later: "fold (\<lambda>item m. if pr_ModelID item = '''' then m else m(pr_ModelID item \<mapsto> item)) items f m = Some p \<Longrightarrow>
      f m = Some p \<or> p \<in> set items" for items :: "GatewayModelPrice list" and f
    by (induction items arbitrary: f) (force split: if_splits)+
  have "p \<in> set OfficialModelPrices"
    using later [OF assms [unfolded OfficialModelPriceMap_def]] by simp
  moreover have "\<forall>p \<in> set OfficialModelPrices. 0 \<le> CachedInputUSDPerMillion p \<and>
      CachedInputUSDPerMillion p \<le> InputUSDPerMillion p \<and> 0 \<le> OutputUSDPerMillion p"
    by code_simp
  ultimately show "0 \<le> CachedInputUSDPerMillion p" "CachedInputUSDPerMillion p \<le> InputUSDPerMillion p"
    "0 \<le> OutputUSDPerMillion p"
    by blast+
qed

lemma cost_formula:
  "estimateCostForTokens i c out p =
     (of_int (max i 0) * InputUSDPerMillion p
      - of_int (min (max c 0) (max i 0)) * (InputUSDPerMillion p - CachedInputUSDPerMillion p)
      + of_int (max out 0) * OutputUSDPerMillion p) / 1000000"
proof -
  have nc: "max (of_int i - of_int (min (max c 0) (max i 0))) (0 :: rat) =
      of_int (max i 0) - of_int (min (max c 0) (max i 0))"
    by (simp add: max_def min_def)
  have mm: "min (of_int (maxInt64 c 0)) (of_int (maxInt64 i 0)) = (of_int (min (max c 0) (max i 0)) :: rat)"
    by (simp add: maxInt64_def max_def min_def)
  have o': "max (of_int out) (0 :: rat) = of_int (max out 0)" by (simp add: max_def)
  show ?thesis
    unfolding estimateCostForTokens_def Let_def mm nc o' by (simp add: algebra_simps)
qed

text \<open>
  The estimated cost of a request at an official price is never negative; cached tokens can
  only lower it, and count at most for as many tokens as the input has, whatever the upstream
  reported.
\<close>
theorem official_cost_bounds:
  assumes "OfficialModelPriceMap m = Some p"
  shows "0 \<le> estimateCostForTokens i c out p \<and>
    estimateCostForTokens i c out p \<le> estimateCostForTokens i 0 out p \<and>
    (i \<le> c \<longrightarrow> estimateCostForTokens i c out p = estimateCostForTokens i i out p)"
proof (intro conjI impI)
  note p = official_prices_sane [OF assms]
  let ?c = "min (max c 0) (max i 0)" and ?d = "InputUSDPerMillion p - CachedInputUSDPerMillion p"
  have c: "0 \<le> ?c" "?c \<le> max i 0" by simp_all
  have "(of_int ?c :: rat) \<le> of_int (max i 0)" using c(2) by (simp only: of_int_le_iff)
  moreover have "(0 :: rat) \<le> of_int (max i 0)" by (simp only: of_int_0_le_iff max.cobounded2)
  moreover have "?d \<le> InputUSDPerMillion p" "0 \<le> ?d" using p by simp_all
  ultimately have "of_int ?c * ?d \<le> of_int (max i 0) * InputUSDPerMillion p" by (intro mult_mono) simp_all
  moreover have "0 \<le> of_int (max out 0) * OutputUSDPerMillion p"
    using p(3) by (intro mult_nonneg_nonneg) simp_all
  ultimately show "0 \<le> estimateCostForTokens i c out p" by (simp add: cost_formula)
  have "(0 :: rat) \<le> of_int ?c" using c(1) by (simp only: of_int_0_le_iff)
  then have "0 \<le> of_int ?c * ?d" using p(2) by (intro mult_nonneg_nonneg) simp_all
  then show "estimateCostForTokens i c out p \<le> estimateCostForTokens i 0 out p"
    by (simp add: cost_formula divide_right_mono)
  assume "i \<le> c"
  then have "min (max c 0) (max i 0) = min (max i 0) (max i 0)" by (simp add: max_def min_def)
  then show "estimateCostForTokens i c out p = estimateCostForTokens i i out p" by (simp only: cost_formula)
qed

theorem official_cost_bounds_witness:
  "estimateCostForTokens 100 900 0 (the (OfficialModelPriceMap ''gpt-5.5'')) =
   estimateCostForTokens 100 100 0 (the (OfficialModelPriceMap ''gpt-5.5''))"
proof -
  have "OfficialModelPriceMap ''gpt-5.5'' = Some (the (OfficialModelPriceMap ''gpt-5.5''))" by code_simp
  from official_cost_bounds [OF this, of 100 900 0] show ?thesis by simp
qed

text \<open>
  A bucket by day is charged for its whole day: the tokens of a bucket obey the time range
  of the filter, but its cost is estimated over the 24 hours from midnight. Here the filter
  leaves one request of 60 tokens, and the bucket costs as much as all 90 of that day.
\<close>
definition bucket_store :: store where
  "bucket_store = used_store\<lparr>usage := \<lparr>rows = [sample_usage 1 30 second, sample_usage 2 60 (3 * second)], seq = 2\<rparr>\<rparr>"

theorem day_bucket_cost_ignores_range:
  "map (\<lambda>b. (TotalTokens (b_Totals b), b_EstimatedCostUSD b))
     (projr (fst (gateway_ListUsageBuckets 0 (no_filter\<lparr>f_StartTime := 2 * second\<rparr>) ''day'' bucket_store))) =
   [(60, Some (estimateCostForTokens 90 0 0 (the (OfficialModelPriceMap ''gpt-5.5''))))]"
  by code_simp

end
