(* ===== verification/RequestLog.thy ===== *)
theory RequestLog
  imports Limiter ContextGuard Answers Settings Metering
begin

text \<open>
  What surrounds the handling of a request (internal/server/openai\_gateway\_handler.go): the
  world a request runs in, the address of the client, error replies, and \<open>recordUsage\<close>, which
  writes the usage log and touches the key after every request. A request sees the database, the
  limiters and the network, an abstract \<open>'w\<close>.
\<close>

section \<open>The world\<close>

record 'w gateway_world =
  gw_Store :: store
  gw_Limiters :: limiters
  gw_Net :: 'w

definition db :: "(store, 'a) op \<Rightarrow> ('w gateway_world, 'a) op" where
  "db m g = (case m (gw_Store g) of (r, s) \<Rightarrow> (r, g\<lparr>gw_Store := s\<rparr>))"

definition net :: "('w \<Rightarrow> 'a \<times> 'w) \<Rightarrow> ('w gateway_world, 'a) op" where
  "net f g = (case f (gw_Net g) of (r, w) \<Rightarrow> (Inr r, g\<lparr>gw_Net := w\<rparr>))"

definition limited :: "(limiters \<Rightarrow> 'a \<times> limiters) \<Rightarrow> ('w gateway_world, 'a) op" where
  "limited f g = (case f (gw_Limiters g) of (r, l) \<Rightarrow> (Inr r, g\<lparr>gw_Limiters := l\<rparr>))"

text \<open>
  What a reply to the client is: a status with a body and perhaps a \<open>Retry-After\<close> header, a
  stream of frames, or a stream that has not ended yet.
\<close>

datatype client_reply = Reply int "int option" string | Streamed "frame list" | Hanging

section \<open>The address of the client\<close>

text \<open>
  Package \<open>net/netip\<close> on addresses in some representation: parsing an address, the host of
  \<open>host:port\<close>, an address without its IPv4-in-IPv6 mapping, its text, whether it is loopback,
  private or link-local, and whether a text is a prefix that contains it.
\<close>

record netip =
  ip_Parse :: "string \<Rightarrow> string option"
  ip_Host :: "string \<Rightarrow> string option"
  ip_Unmap :: "string \<Rightarrow> string"
  ip_Text :: "string \<Rightarrow> string"
  ip_Local :: "string \<Rightarrow> bool"
  ip_InPrefix :: "string \<Rightarrow> string \<Rightarrow> bool"

fun split_commas :: "string \<Rightarrow> string \<Rightarrow> string list" where
  "split_commas cur [] = [rev cur]"
| "split_commas cur (c # cs) = (if c = CHR '','' then rev cur # split_commas [] cs else split_commas (c # cur) cs)"

definition trim_brackets :: "string \<Rightarrow> string" where
  "trim_brackets s =
     (let drop_marks = dropWhile (\<lambda>c. c = CHR ''['' \<or> c = CHR '']'') in rev (drop_marks (rev (drop_marks s))))"

definition parseGatewayIP :: "netip \<Rightarrow> string \<Rightarrow> string option" where
  "parseGatewayIP n raw =
     (let v = TrimSpace raw
      in if v = '''' then None
         else case ip_Parse n v of
                Some a \<Rightarrow> Some a
              | None \<Rightarrow> (case ip_Host n v of None \<Rightarrow> None | Some host \<Rightarrow> ip_Parse n (trim_brackets host)))"

definition normalizedGatewayIPString :: "netip \<Rightarrow> string \<Rightarrow> string" where
  "normalizedGatewayIPString n raw =
     (case parseGatewayIP n raw of None \<Rightarrow> '''' | Some a \<Rightarrow> ip_Text n (ip_Unmap n a))"

definition firstGatewayForwardedIP :: "netip \<Rightarrow> string \<Rightarrow> string" where
  "firstGatewayForwardedIP n raw =
     (case filter (\<lambda>t. t \<noteq> '''') (map (normalizedGatewayIPString n) (split_commas [] raw)) of
        t # _ \<Rightarrow> t | [] \<Rightarrow> '''')"

definition gatewayRemoteAddrAllowsForwardedHeaders :: "netip \<Rightarrow> (string \<Rightarrow> string) \<Rightarrow> string \<Rightarrow> bool" where
  "gatewayRemoteAddrAllowsForwardedHeaders n env a =
     (let raw = TrimSpace (env ''GATEWAY_TRUSTED_PROXY_CIDRS'')
      in if raw \<noteq> '''' then list_ex (\<lambda>p. ip_InPrefix n (TrimSpace p) a) (split_commas [] raw)
         else ip_Local n (ip_Unmap n a))"

definition gatewayClientIPFromRequest :: "netip \<Rightarrow> (string \<Rightarrow> string) \<Rightarrow> http_request \<Rightarrow> string" where
  "gatewayClientIPFromRequest n env r =
     (case parseGatewayIP n (rq_RemoteAddr r) of
        None \<Rightarrow> ''''
      | Some remote \<Rightarrow>
          let forwarded = text_or (firstGatewayForwardedIP n (rq_Header r ''X-Forwarded-For''))
                (normalizedGatewayIPString n (rq_Header r ''X-Real-Ip''));
              own = ip_Text n (ip_Unmap n remote)
          in if gatewayRemoteAddrAllowsForwardedHeaders n env remote then text_or forwarded own else own)"

section \<open>Errors\<close>

definition errGatewayContextLengthExceeded :: string where
  "errGatewayContextLengthExceeded =
     from_hex ''E4B88AE4B88BE69687E5B7B2E8B685E8BF87E6A8A1E59E8BE7AA97E58FA3EFBC8CE8AFB7E58E8BE7BCA9E58E86E58FB2E68896E5BC80E590AFE696B0E4BC9AE8AF9D''"

text \<open>\<open>text\<close> is the text of the errors that are none of the gateway's own.\<close>

definition mapGatewayHTTPErrorMessage :: "(go_error \<Rightarrow> string) \<Rightarrow> go_error \<Rightarrow> string" where
  "mapGatewayHTTPErrorMessage text err =
     (case err of
        ErrGatewayAPIKeyNotFound \<Rightarrow> from_hex ''415049206B657920E697A0E69588''
      | ErrGatewayAPIKeyDisabled \<Rightarrow> from_hex ''415049206B657920E5B7B2E7A681E794A8''
      | ErrGatewayModelDisabled \<Rightarrow> from_hex ''E6A8A1E59E8BE5B7B2E7A681E794A8''
      | ErrGatewayModelNotAllowed \<Rightarrow> from_hex ''E5BD93E5898D206B657920E4B88DE58581E8AEB8E4BDBFE794A8E8AFA5E6A8A1E59E8B''
      | ErrGatewayRateLimited \<Rightarrow> from_hex ''415049206B657920E99990E6B581E8B685E99990''
      | ErrGatewayQuotaExceeded \<Rightarrow> from_hex ''415049206B657920E9858DE9A29DE8B685E99990''
      | ErrText t \<Rightarrow> t
      | _ \<Rightarrow> text err)"

definition gatewayErrorType :: "go_error \<Rightarrow> string" where
  "gatewayErrorType err =
     (case err of
        ErrGatewayAPIKeyNotFound \<Rightarrow> ''gateway_api_key_invalid''
      | ErrGatewayAPIKeyDisabled \<Rightarrow> ''gateway_api_key_disabled''
      | ErrGatewayModelDisabled \<Rightarrow> ''gateway_model_disabled''
      | ErrGatewayModelNotAllowed \<Rightarrow> ''gateway_model_not_allowed''
      | ErrGatewayRateLimited \<Rightarrow> ''gateway_rate_limited''
      | ErrGatewayQuotaExceeded \<Rightarrow> ''gateway_quota_exceeded''
      | _ \<Rightarrow> ''gateway_error'')"

definition limit_error_type :: "limit_error \<Rightarrow> string" where
  "limit_error_type err =
     (case err of LargeRequestInFlight \<Rightarrow> ''gateway_large_request_inflight''
      | LargeRequestBurst \<Rightarrow> ''gateway_large_request_burst'')"

text \<open>The details are integers here; none is nil.\<close>

definition writeGatewayErrorResponse :: "int \<Rightarrow> int option \<Rightarrow> string \<Rightarrow> string \<Rightarrow> (string \<times> int) list \<Rightarrow> client_reply" where
  "writeGatewayErrorResponse status retry message errorType details =
     Reply status retry (json_encode (\<lambda>_. '''') (JObj [(''error'', JObj
       ([(''message'', JStr message), (''type'', JStr ''gateway_error''), (''code'', JStr (text_or errorType ''gateway_error''))] @
        map (\<lambda>(k, v). (k, jint v)) details))]))"

definition writeGatewayError :: "(go_error \<Rightarrow> string) \<Rightarrow> int \<Rightarrow> go_error \<Rightarrow> string \<Rightarrow> client_reply" where
  "writeGatewayError text status err errorType =
     writeGatewayErrorResponse status None (mapGatewayHTTPErrorMessage text err) errorType []"

section \<open>The usage log\<close>

definition empty_log :: GatewayUsageLog where
  "empty_log =
     \<lparr>l_ID = 0, l_APIKeyID = 0, l_APIKeyPrefix = '''', l_ClientType = '''', l_ClientIP = '''', l_APIKeyName = '''',
      l_SessionID = '''', l_RequestID = '''', l_Method = '''', l_Path = '''', l_Endpoint = '''', l_Model = '''',
      l_ReasoningEffort = '''', l_StatusCode = 0, l_Success = False, l_Stream = False, l_InputTokens = 0,
      l_OutputTokens = 0, l_TotalTokens = 0, l_CachedTokens = 0, l_ReasoningTokens = 0, l_RequestBytes = 0,
      l_ResponseBytes = 0, l_DurationMS = 0, l_UpstreamConfiguredMode = '''', l_UpstreamMode = '''',
      l_UpstreamFallback = False, l_UpstreamErrorType = '''', l_ErrorType = '''', l_Diagnostic = no_diagnostic,
      l_CreatedAt = 0, l_EstimatedCostUSD = None\<rparr>"

text \<open>
  \<open>recordUsage\<close> of a log whose duration and time are taken now. The client type is the one found
  when the request arrived; a log that cannot be written is only reported in the process log.
\<close>

definition recordUsage ::
  "(http_request \<Rightarrow> string) \<Rightarrow> http_request \<Rightarrow> GatewayAPIKey \<Rightarrow> int \<Rightarrow> GatewayUsageLog \<Rightarrow> ('w gateway_world, unit) op" where
  "recordUsage clientIP r key start item0 =
     bind_op (db time_now) (\<lambda>now.
       let item = item0\<lparr>l_DurationMS := (now - start) div 1000000, l_CreatedAt := now,
             l_ClientType := text_or (l_ClientType item0) (DetectGatewayClientType [gatewayClientTypeFromRequest r]),
             l_ClientIP := text_or (l_ClientIP item0) (clientIP r)\<rparr>
       in bind_op (ignore_op (db (gateway_CreateUsageLog (Some item)))) (\<lambda>_.
          if 0 < key_ID key
          then bind_op (db time_now) (\<lambda>used. ignore_op (db (gateway_TouchAPIKeyUsed (key_ID key) used)))
          else ok ()))"

end
