(* ===== verification/GatewayRuns.thy ===== *)
theory GatewayRuns
  imports ModelService Settings Metering
begin

text \<open>
  The gateway as a whole: every operation of \<open>GatewayUsecase\<close> that writes the database, as one
  step relation on the store, and what holds of every store the service can reach, statement
  failures included. The operations are those of internal/biz/gateway.go over the repository of
  internal/data/gateway\_repo.go; the read-only operations take statements and change nothing
  else, and are steps too.
\<close>

section \<open>The operations that keep the store well formed\<close>

lemma keeps_bind_given:
  assumes "keeps P m" and "\<And>s x t. P s \<Longrightarrow> m s = (Inr x, t) \<Longrightarrow> Q x" and "\<And>x. Q x \<Longrightarrow> keeps P (f x)"
  shows "keeps P (bind_op m f)"
proof (rule keepsI)
  fix s r t assume P: "P s" and run: "bind_op m f s = (r, t)"
  from run show "P t"
  proof (cases rule: bind_op_cases)
    case (error e)
    then show ?thesis using keepsD [OF assms(1) P] by blast
  next
    case (normal x s')
    have "P s'" by (rule keepsD [OF assms(1) P normal(1)])
    then show ?thesis using keepsD [OF assms(3) _ normal(2)] assms(2) [OF P normal(1)] by blast
  qed
qed

lemma keeps_model_ops [op_keeps]:
  "keeps store_ok (gateway_ValidateModelAccess key m)"
  "keeps store_ok (gateway_ListModels limit offset b search)"
  "keeps store_ok (gateway_UpsertModel model)"
  "keeps store_ok (gateway_UpsertSyncedModel model)"
  "keeps store_ok (gateway_SetModelEnabled i b)"
  "keeps store_ok (gateway_GetModelByID m)"
  "keeps store_ok (gateway_UpdateModelContextPolicy i policy)"
  "keeps store_ok (gateway_DeleteModel i)"
  "keeps store_ok (gateway_UpsertPolicy p)"
  "keeps store_ok (gateway_DeletePolicy i)"
  "keeps store_ok (gateway_UpsertModelPrice price)"
  "keeps store_ok (gateway_DeleteModelPrice i)"
  "keeps store_ok gateway_EnsureDefaultModels"
  unfolding gateway_ValidateModelAccess_def ValidateModelAccess_def gateway_ListModels_def ListModels_def
    gateway_UpsertModel_def UpsertModel_def gateway_UpsertSyncedModel_def UpsertSyncedModel_def
    gateway_SetModelEnabled_def SetModelEnabled_def gateway_GetModelByID_def GetModelByID_def
    gateway_UpdateModelContextPolicy_def UpdateModelContextPolicy_def gateway_DeleteModel_def DeleteModel_def
    gateway_UpsertPolicy_def UpsertPolicy_def gateway_DeletePolicy_def DeletePolicy_def
    gateway_UpsertModelPrice_def UpsertModelPrice_def gateway_DeleteModelPrice_def DeleteModelPrice_def
    gateway_EnsureDefaultModels_def
  by (intro op_keeps)+

lemma keeps_setting_ops [op_keeps]:
  "keeps store_ok (gateway_SetGatewayDefaultReasoningEffort e)"
  "keeps store_ok (gateway_SetCodexUpstreamMode m)"
  "keeps store_ok (gateway_SetCodexUpstreamFallbackEnabled b)"
  "keeps store_ok (gateway_SetCodexUpstreamStrategy st)"
  unfolding gateway_SetGatewayDefaultReasoningEffort_def SetGatewayDefaultReasoningEffort_def
    gateway_SetCodexUpstreamMode_def SetCodexUpstreamMode_def
    gateway_SetCodexUpstreamFallbackEnabled_def SetCodexUpstreamFallbackEnabled_def
    gateway_SetCodexUpstreamStrategy_def SetCodexUpstreamStrategy_def
  by (intro op_keeps)+

section \<open>The keys stay clean\<close>

lemma keys_clean_reads:
  "keeps keys_clean (on_keys (select_rows P))"
  "keeps keys_clean (on_keys (only_row P))"
  unfolding keys_clean_eq by (rule key_tbl.keeps_rows_stmts)+

lemmas clean_stmts = keys_clean_other keys_clean_reads keys_clean_repo_writes keys_clean_repo_DeleteAPIKey

lemma keys_clean_set_allowed_models:
  assumes "set xs \<subseteq> CodexModelIDSet" "distinct xs"
  shows "keeps keys_clean (set_allowed_models i xs)"
proof -
  have "keeps keys_clean (on_keys (update_row k_id key_clash i (\<lambda>r. r\<lparr>k_allowed_models := xs, k_updated_at := t\<rparr>)))"
    for t
    unfolding keys_clean_eq
    by (rule key_tbl.keeps_rows_update) (use assms in \<open>simp add: key_clean_def options_clean_def\<close>)
  then show ?thesis unfolding set_allowed_models_def by (intro op_keeps)
qed

lemma selected_clean:
  "keys_clean s \<Longrightarrow> on_keys (select_rows P) s = (Inr ks, t) \<Longrightarrow> \<forall>k \<in> set ks. key_clean k"
  by (auto simp: keys_clean_def on_tbl_def db_stmt_def select_rows_def Let_def split: if_splits)

lemma keys_clean_repo_DeleteModel: "keeps keys_clean (repo_DeleteModel i)"
proof -
  have narrow: "keeps keys_clean (for_each (\<lambda>key.
      let current = normalizeStringList (k_allowed_models key); remaining = removeString current m
      in if length remaining = length current then ok () else set_allowed_models (k_id key) remaining) ks)"
    if "\<forall>k \<in> set ks. key_clean k" for ks m
  proof (rule keeps_for_each)
    fix key assume "key \<in> set ks"
    then have "set (removeString (normalizeStringList (k_allowed_models key)) m) \<subseteq> CodexModelIDSet"
      using that official_trimmed
      by (auto simp: key_clean_def options_clean_def removeString_def set_normalizeStringList dest!: bspec)
    then show "keeps keys_clean (let current = normalizeStringList (k_allowed_models key); remaining = removeString current m
      in if length remaining = length current then ok () else set_allowed_models (k_id key) remaining)"
      using normalizeStringList_clean [of "k_allowed_models key"] unfolding Let_def
      by (intro op_keeps keys_clean_set_allowed_models) (simp_all add: removeString_def)
  qed
  show ?thesis
    unfolding repo_DeleteModel_def Let_def
    by (rule keeps_bind_op, rule clean_stmts, rule keeps_bind_op, rule clean_stmts, rule keeps_bind_op, rule clean_stmts,
        rule keeps_bind_given [where Q = "\<lambda>ks. \<forall>k \<in> set ks. key_clean k"], rule clean_stmts, erule (1) selected_clean,
        rule keeps_bind_op, erule narrow [unfolded Let_def], rule clean_stmts)
qed

lemma keys_clean_repo_models:
  "keeps keys_clean (repo_ListModels limit offset b search)"
  "keeps keys_clean (repo_UpsertModel model)"
  "keeps keys_clean (repo_UpsertSyncedModel model)"
  "keeps keys_clean (repo_SetModelEnabled i b)"
  "keeps keys_clean (repo_UpdateModelContextPolicy i policy)"
  "keeps keys_clean (repo_GetModelByID m)"
  "keeps keys_clean (repo_UpsertPolicy item)"
  "keeps keys_clean (repo_DeletePolicy i)"
  "keeps keys_clean (repo_UpsertModelPrice price)"
  "keeps keys_clean (repo_DeleteModelPrice i)"
  unfolding repo_ListModels_def repo_UpsertModel_def repo_UpsertSyncedModel_def repo_SetModelEnabled_def
    repo_UpdateModelContextPolicy_def repo_GetModelByID_def repo_UpsertPolicy_def repo_DeletePolicy_def
    repo_UpsertModelPrice_def repo_DeleteModelPrice_def query_model_def query_policy_def insert_model_def Let_def
  by (intro op_keeps clean_stmts)+

lemma keys_clean_repo_EnsureDefaultModels: "keeps keys_clean repo_EnsureDefaultModels"
proof -
  have "set (filterAllowedStrings (normalizeStringList xs) (set (map m_ModelID (map seed_model CodexModelIDs)))) \<subseteq> CodexModelIDSet"
    and "distinct (filterAllowedStrings (normalizeStringList xs) (set (map m_ModelID (map seed_model CodexModelIDs))))" for xs
    using normalizeStringList_clean [of xs]
    by (auto simp: filterAllowedStrings_def seed_model_def CodexModelIDSet_def)
  then show ?thesis
    unfolding repo_EnsureDefaultModels_def pruneGatewayModels_def Let_def
    by (intro op_keeps clean_stmts keys_clean_repo_models keys_clean_repo_DeleteModel keys_clean_set_allowed_models)
qed

text \<open>An operation that leaves the keys alone keeps them clean.\<close>

lemma keys_clean_untouched: "(\<And>v. keeps (\<lambda>s. keys s = v) m) \<Longrightarrow> keeps keys_clean m"
  unfolding keys_clean_eq by (simp add: keeps_def)

lemma keys_clean_settings [op_keeps]:
  "keeps keys_clean (repo_GetGatewaySetting k)" "keeps keys_clean (repo_SetGatewaySetting k v)"
  unfolding repo_GetGatewaySetting_def repo_SetGatewaySetting_def by (intro op_keeps clean_stmts)+

lemma keys_clean_usage [op_keeps]:
  "keeps keys_clean (repo_CreateUsageLog item)"
  "keeps keys_clean (repo_ListAlertRules)"
  "keeps keys_clean (repo_CreateAlertEvent e)"
  "keeps keys_clean (repo_UpsertContextSummary cs)"
  "keeps keys_clean (repo_GetContextSummary sid)"
  "keeps keys_clean (repo_CreateAuditLog entry)"
  "keeps keys_clean (repo_UpsertAlertRule rule)"
  "keeps keys_clean (repo_DeleteAlertRule i)"
  "keeps keys_clean (repo_SetAlertRuleEnabled i b)"
  "keeps keys_clean (repo_AckAlertEvent i j t)"
  unfolding repo_CreateUsageLog_def repo_ListAlertRules_def repo_CreateAlertEvent_def
    repo_UpsertContextSummary_def repo_GetContextSummary_def repo_CreateAuditLog_def repo_UpsertAlertRule_def
    repo_DeleteAlertRule_def repo_SetAlertRuleEnabled_def repo_AckAlertEvent_def write_summary_def Let_def
  by (intro op_keeps clean_stmts)+

lemma keys_clean_SummarizeUsage [op_keeps]: "keeps keys_clean (repo_SummarizeUsage f)"
  by (rule keys_clean_untouched) (rule keepsI, use SummarizeUsage_reads in auto)

lemma keys_clean_model_ops [op_keeps]:
  "keeps keys_clean (gateway_UpsertModel model)"
  "keeps keys_clean (gateway_UpsertSyncedModel model)"
  "keeps keys_clean (gateway_SetModelEnabled i b)"
  "keeps keys_clean (gateway_UpdateModelContextPolicy i policy)"
  "keeps keys_clean (gateway_DeleteModel i)"
  "keeps keys_clean (gateway_UpsertPolicy p)"
  "keeps keys_clean (gateway_DeletePolicy i)"
  "keeps keys_clean (gateway_UpsertModelPrice price)"
  "keeps keys_clean (gateway_DeleteModelPrice i)"
  "keeps keys_clean gateway_EnsureDefaultModels"
  unfolding gateway_UpsertModel_def UpsertModel_def gateway_UpsertSyncedModel_def UpsertSyncedModel_def
    gateway_SetModelEnabled_def SetModelEnabled_def gateway_UpdateModelContextPolicy_def UpdateModelContextPolicy_def
    gateway_DeleteModel_def DeleteModel_def gateway_UpsertPolicy_def UpsertPolicy_def gateway_DeletePolicy_def
    DeletePolicy_def gateway_UpsertModelPrice_def UpsertModelPrice_def gateway_DeleteModelPrice_def
    DeleteModelPrice_def gateway_EnsureDefaultModels_def
  by (intro op_keeps keys_clean_repo_models keys_clean_repo_DeleteModel keys_clean_repo_EnsureDefaultModels)+

lemma keys_clean_other_ops [op_keeps]:
  "keeps keys_clean (gateway_SetGatewayDefaultReasoningEffort e)"
  "keeps keys_clean (gateway_SetCodexUpstreamMode m)"
  "keeps keys_clean (gateway_SetCodexUpstreamFallbackEnabled b)"
  "keeps keys_clean (gateway_SetCodexUpstreamStrategy st)"
  "keeps keys_clean (gateway_CreateUsageLog item)"
  "keeps keys_clean (gateway_UpsertContextSummary summary)"
  "keeps keys_clean (gateway_CreateAuditLog entry)"
  "keeps keys_clean (gateway_UpsertAlertRule rule)"
  "keeps keys_clean (gateway_DeleteAlertRule i)"
  "keeps keys_clean (gateway_SetAlertRuleEnabled i b)"
  "keeps keys_clean (gateway_AckAlertEvent i ackBy)"
  unfolding gateway_SetGatewayDefaultReasoningEffort_def SetGatewayDefaultReasoningEffort_def
    gateway_SetCodexUpstreamMode_def SetCodexUpstreamMode_def
    gateway_SetCodexUpstreamFallbackEnabled_def SetCodexUpstreamFallbackEnabled_def
    gateway_SetCodexUpstreamStrategy_def SetCodexUpstreamStrategy_def
    gateway_CreateUsageLog_def CreateUsageLog_def gateway_evaluateAlertRules_def evaluateAlertRules_def
    evaluate_rule_def gateway_UpsertContextSummary_def
    UpsertContextSummary_def gateway_CreateAuditLog_def CreateAuditLog_def gateway_UpsertAlertRule_def
    UpsertAlertRule_def gateway_DeleteAlertRule_def DeleteAlertRule_def gateway_SetAlertRuleEnabled_def
    SetAlertRuleEnabled_def gateway_AckAlertEvent_def AckAlertEvent_def Let_def
  by (intro op_keeps)+

section \<open>Steps and reachable stores\<close>

inductive gateway_step :: "store \<Rightarrow> store \<Rightarrow> bool" where
  create_key: "gateway_step s (snd (gateway_CreateAPIKey raw input s))"
| update_key: "gateway_step s (snd (gateway_UpdateAPIKey uinput s))"
| reset_key: "gateway_step s (snd (gateway_ResetAPIKeySecret raw i s))"
| delete_key: "gateway_step s (snd (gateway_DeleteAPIKey i s))"
| delete_keys: "gateway_step s (snd (gateway_DeleteAPIKeys ids s))"
| disable_key: "gateway_step s (snd (gateway_SetAPIKeyDisabled i b s))"
| disable_all: "gateway_step s (snd (gateway_DisableAllAPIKeys s))"
| enable_all: "gateway_step s (snd (gateway_EnableAllAPIKeys s))"
| authenticate: "gateway_step s (snd (gateway_AuthenticateAPIKey plain s))"
| touch_key: "gateway_step s (snd (gateway_TouchAPIKeyUsed i t s))"
| start_up: "gateway_step s (snd (gateway_EnsureDefaultModels s))"
| upsert_model: "gateway_step s (snd (gateway_UpsertModel model s))"
| sync_model: "gateway_step s (snd (gateway_UpsertSyncedModel model s))"
| enable_model: "gateway_step s (snd (gateway_SetModelEnabled i b s))"
| context_policy: "gateway_step s (snd (gateway_UpdateModelContextPolicy i ctx s))"
| delete_model: "gateway_step s (snd (gateway_DeleteModel i s))"
| upsert_policy: "gateway_step s (snd (gateway_UpsertPolicy policy s))"
| delete_policy: "gateway_step s (snd (gateway_DeletePolicy i s))"
| upsert_price: "gateway_step s (snd (gateway_UpsertModelPrice price s))"
| delete_price: "gateway_step s (snd (gateway_DeleteModelPrice i s))"
| set_effort: "gateway_step s (snd (gateway_SetGatewayDefaultReasoningEffort effort s))"
| set_mode: "gateway_step s (snd (gateway_SetCodexUpstreamMode mode s))"
| set_fallback: "gateway_step s (snd (gateway_SetCodexUpstreamFallbackEnabled b s))"
| set_strategy: "gateway_step s (snd (gateway_SetCodexUpstreamStrategy strategy s))"
| log_usage: "gateway_step s (snd (gateway_CreateUsageLog item s))"
| check_quota: "gateway_step s (snd (gateway_CheckAPIKeyTokenQuota tz key now s))"
| check_policy: "gateway_step s (snd (gateway_CheckPolicy tz key m now s))"
| save_summary: "gateway_step s (snd (gateway_UpsertContextSummary summary s))"
| audit: "gateway_step s (snd (gateway_CreateAuditLog entry s))"
| upsert_rule: "gateway_step s (snd (gateway_UpsertAlertRule rule s))"
| delete_rule: "gateway_step s (snd (gateway_DeleteAlertRule i s))"
| enable_rule: "gateway_step s (snd (gateway_SetAlertRuleEnabled i b s))"
| ack_event: "gateway_step s (snd (gateway_AckAlertEvent i by_id s))"

inductive_cases gateway_stepE: "gateway_step s t"

text \<open>The service starts on empty tables; which statements fail is open.\<close>

inductive reachable :: "store \<Rightarrow> bool" where
  start: "reachable ((fresh_store c)\<lparr>fault := f\<rparr>)"
| step: "reachable s \<Longrightarrow> gateway_step s t \<Longrightarrow> reachable t"

text \<open>A predicate every operation keeps is kept by every step.\<close>

lemma keeps_checks [op_keeps]:
  "keeps store_ok (gateway_CheckAPIKeyTokenQuota tz key now)" "keeps keys_clean (gateway_CheckAPIKeyTokenQuota tz key now)"
  "keeps store_ok (gateway_CheckPolicy tz key m now)" "keeps keys_clean (gateway_CheckPolicy tz key m now)"
proof -
  have reads: "keeps keys_clean (repo_GetPolicyForKeyModel k m)" for k m
    unfolding repo_GetPolicyForKeyModel_def query_policy_def Let_def by (intro op_keeps clean_stmts)
  show "keeps store_ok (gateway_CheckAPIKeyTokenQuota tz key now)" "keeps keys_clean (gateway_CheckAPIKeyTokenQuota tz key now)"
    unfolding gateway_CheckAPIKeyTokenQuota_def CheckAPIKeyTokenQuota_def checkTokenWindow_def or_now_def Let_def
    by (intro op_keeps)+
  show "keeps store_ok (gateway_CheckPolicy tz key m now)" "keeps keys_clean (gateway_CheckPolicy tz key m now)"
    unfolding gateway_CheckPolicy_def CheckPolicy_def checkWindow_def as_rate_limited_def or_now_def Let_def
    by (intro op_keeps reads)+
qed

lemma step_keeps:
  assumes "gateway_step s t"
  shows "(store_ok s \<longrightarrow> store_ok t) \<and> (keys_clean s \<longrightarrow> keys_clean t)"
  using assms
  by (rule gateway_stepE) (hypsubst; intro conjI impI; erule keeps_sndD [rotated]; intro op_keeps)+

lemma reachable_ok:
  assumes "reachable s"
  shows "store_ok s" "keys_clean s"
proof -
  from assms have "store_ok s \<and> keys_clean s"
  proof induction
    case (start c f)
    show ?case by (simp add: store_ok_def keys_clean_def fresh_store_def empty_tbl_def tbl_ok_def)
  next
    case (step s t)
    then show ?case using step_keeps by blast
  qed
  then show "store_ok s" "keys_clean s" by simp_all
qed

lemma reachable_fresh: "reachable (fresh_store c)"
proof -
  have "(fresh_store c)\<lparr>fault := \<lambda>_. False\<rparr> = fresh_store c" by (simp add: fresh_store_def)
  then show ?thesis using reachable.start [where c = c and f = "\<lambda>_. False"] by simp
qed

text \<open>
  C33. Whatever operations ran on a store that started empty, and whichever of their statements
  failed, the store is well formed: ids and unique columns are unique, every row passed its
  validators, and every key is clean: its hash is the SHA-256 of its plain secret, its quotas are
  not negative, its strategy and effort are known names and its allowed models official ones.
\<close>
theorem reachable_well_formed:
  assumes "reachable s"
  shows "store_ok s \<and> keys_clean s"
  using reachable_ok [OF assms] by simp

theorem reachable_well_formed_witness:
  "store_ok (snd (gateway_CreateAPIKey (Inr sample_raw) sample_input (fresh_store (\<lambda>_. 0))))"
proof -
  have "reachable (snd (gateway_CreateAPIKey (Inr sample_raw) sample_input (fresh_store (\<lambda>_. 0))))"
    by (rule reachable.step [OF reachable_fresh]) (rule gateway_step.create_key)
  from reachable_well_formed [OF this] show ?thesis by simp
qed

text \<open>
  C34. In every store the service can reach, each key row is authenticated by its own plain key
  (a disabled one is refused as disabled), so no operation strands a key; and a text that
  authenticates as a row hashes like the plain key of that row.
\<close>
theorem reachable_keys_authenticate:
  assumes "reachable s" "r \<in> set (rows (keys s))" "\<not> fault s (stmts s)"
  shows "fst (gateway_AuthenticateAPIKey (k_plain_key r) s) =
      (if k_disabled r then Inl ErrGatewayAPIKeyDisabled else Inr (mapGatewayAPIKey r)) \<and>
    (\<forall>plain. fst (gateway_AuthenticateAPIKey plain s) = Inr (mapGatewayAPIKey r) \<longrightarrow>
       sha256 (TrimSpace plain) = sha256 (k_plain_key r))"
proof -
  note ok = reachable_ok(1) [OF assms(1)]
  have clean: "TrimSpace (k_plain_key r) = k_plain_key r" "k_plain_key r \<noteq> ''''"
    "k_key_hash r = hex_encode (sha256 (k_plain_key r))"
    using reachable_ok(2) [OF assms(1)] assms(2) by (auto simp: keys_clean_def key_clean_def)
  have at: "store_key_at s (k_key_hash r) = Some (mapGatewayAPIKey r)"
    using store_key_at_iff [OF ok] assms(2) by auto
  have auth: "gateway_AuthenticateAPIKey plain s =
      (if TrimSpace plain = '''' then (Inl ErrGatewayAPIKeyNotFound, s)
       else (case store_key_at s (hex_encode (sha256 (TrimSpace plain))) of
               None \<Rightarrow> Inl ErrGatewayAPIKeyNotFound
             | Some k \<Rightarrow> if key_Disabled k then Inl ErrGatewayAPIKeyDisabled else Inr k,
             s\<lparr>stmts := Suc (stmts s)\<rparr>))" for plain
    using repo_GetAPIKeyByHash_eq [OF ok] assms(3)
    by (auto simp: gateway_AuthenticateAPIKey_def AuthenticateAPIKey_def bind_op_def split: option.splits)
  have "hex_encode (sha256 (TrimSpace plain)) = k_key_hash r"
    if "fst (gateway_AuthenticateAPIKey plain s) = Inr (mapGatewayAPIKey r)" for plain
  proof -
    have "store_key_at s (hex_encode (sha256 (TrimSpace plain))) = Some (mapGatewayAPIKey r)"
      using that by (auto simp: auth split: if_splits option.splits)
    then obtain q where q: "q \<in> set (rows (keys s))" "k_key_hash q = hex_encode (sha256 (TrimSpace plain))"
      "mapGatewayAPIKey q = mapGatewayAPIKey r"
      using store_key_at_iff [OF ok] by auto
    have "k_id q = k_id r" using q(3) key_ID_map by metis
    have "q = r" by (rule tbl_ok_same [OF key_tbl.store_okD [OF ok] q(1) assms(2) \<open>k_id q = k_id r\<close>])
    then show ?thesis using q(2) by simp
  qed
  then show ?thesis
    using clean at hex_encode_inj by (auto simp: auth)
qed

theorem reachable_keys_authenticate_witness:
  "fst (gateway_AuthenticateAPIKey (PlainKey sample_secret) sample_store) = Inr (mapGatewayAPIKey (sample_row 1))"
proof -
  have "reachable sample_store"
    using reachable.step [OF reachable_fresh gateway_step.create_key] sample_created_ok by (metis snd_conv)
  moreover have "sample_row 1 \<in> set (rows (keys sample_store))" by (simp add: sample_store_def)
  moreover have "\<not> fault sample_store (stmts sample_store)" by (simp add: sample_store_def fresh_store_def)
  ultimately have "fst (gateway_AuthenticateAPIKey (k_plain_key (sample_row 1)) sample_store) =
      Inr (mapGatewayAPIKey (sample_row 1))"
    using reachable_keys_authenticate by (fastforce simp: sample_row_def)
  then show ?thesis by (simp add: sample_row_def)
qed

section \<open>The usage log only grows\<close>

abbreviation grows :: "usage_row list \<Rightarrow> store \<Rightarrow> bool" where
  "grows us s \<equiv> (\<exists>vs. rows (usage s) = us @ vs)"

lemma grows_frames:
  "keeps (grows us) (on_keys b1)" "keeps (grows us) (on_models b2)" "keeps (grows us) (on_policies b3)"
  "keeps (grows us) (on_prices b4)" "keeps (grows us) (on_settings b5)" "keeps (grows us) (on_rules b6)"
  "keeps (grows us) (on_events b7)" "keeps (grows us) (on_audits b8)" "keeps (grows us) (on_summaries b9)"
  by (rule key_tbl.on_tbl_keeps model_tbl.on_tbl_keeps policy_tbl.on_tbl_keeps price_tbl.on_tbl_keeps
      setting_tbl.on_tbl_keeps rule_tbl.on_tbl_keeps event_tbl.on_tbl_keeps audit_tbl.on_tbl_keeps
      summary_tbl.on_tbl_keeps; simp)+

lemma grows_usage: "keeps (grows us) (on_usage (insert_row no_clash f))" "keeps (grows us) (repo_SummarizeUsage q)"
  by (rule usage_tbl.on_tbl_keeps; auto simp: insert_row_def Let_def split: if_splits)
    (rule keepsI, use SummarizeUsage_reads in auto)

lemmas key_repo_defs = repo_CreateAPIKey_def repo_UpdateAPIKey_def repo_ResetAPIKeySecret_def repo_DeleteAPIKey_def
  repo_DeleteAPIKeys_def repo_SetAPIKeyDisabled_def repo_DisableAllAPIKeys_def repo_EnableAllAPIKeys_def
  repo_GetAPIKeyByID_def repo_GetAPIKeyByHash_def repo_TouchAPIKeyUsed_def
  repo_GetGatewaySetting_def repo_SetGatewaySetting_def
lemmas model_repo_defs = repo_UpsertModel_def repo_UpsertSyncedModel_def repo_SetModelEnabled_def
  repo_UpdateModelContextPolicy_def repo_UpsertPolicy_def repo_DeletePolicy_def repo_UpsertModelPrice_def
  repo_DeleteModelPrice_def repo_DeleteModel_def repo_EnsureDefaultModels_def pruneGatewayModels_def
  query_model_def query_policy_def insert_model_def set_allowed_models_def repo_GetPolicyForKeyModel_def
lemmas ops_repo_defs = repo_CreateUsageLog_def repo_ListAlertRules_def repo_CreateAlertEvent_def
  repo_UpsertContextSummary_def repo_CreateAuditLog_def repo_UpsertAlertRule_def
  repo_DeleteAlertRule_def repo_SetAlertRuleEnabled_def repo_AckAlertEvent_def write_summary_def

lemma grows_key_ops:
  "keeps (grows us) (gateway_CreateAPIKey raw input)" "keeps (grows us) (gateway_UpdateAPIKey uinput)"
  "keeps (grows us) (gateway_ResetAPIKeySecret raw i)" "keeps (grows us) (gateway_DeleteAPIKey i)"
  "keeps (grows us) (gateway_DeleteAPIKeys ids)" "keeps (grows us) (gateway_SetAPIKeyDisabled i b)"
  "keeps (grows us) gateway_DisableAllAPIKeys" "keeps (grows us) gateway_EnableAllAPIKeys"
  "keeps (grows us) (gateway_AuthenticateAPIKey plain)" "keeps (grows us) (gateway_TouchAPIKeyUsed i t)"
  unfolding gateway_CreateAPIKey_def CreateAPIKey_def gateway_UpdateAPIKey_def UpdateAPIKey_def
    gateway_ResetAPIKeySecret_def ResetAPIKeySecret_def gateway_DeleteAPIKey_def DeleteAPIKey_def
    gateway_DeleteAPIKeys_def DeleteAPIKeys_def gateway_SetAPIKeyDisabled_def SetAPIKeyDisabled_def
    gateway_DisableAllAPIKeys_def gateway_EnableAllAPIKeys_def gateway_AuthenticateAPIKey_def AuthenticateAPIKey_def
    gateway_TouchAPIKeyUsed_def TouchAPIKeyUsed_def key_repo_defs Let_def
  by (intro op_keeps grows_frames)+

lemma grows_model_ops:
  "keeps (grows us) gateway_EnsureDefaultModels"
  "keeps (grows us) (gateway_UpsertModel model)" "keeps (grows us) (gateway_UpsertSyncedModel model)"
  "keeps (grows us) (gateway_SetModelEnabled i b)" "keeps (grows us) (gateway_UpdateModelContextPolicy i ctx)"
  "keeps (grows us) (gateway_DeleteModel i)" "keeps (grows us) (gateway_UpsertPolicy p)"
  "keeps (grows us) (gateway_DeletePolicy i)" "keeps (grows us) (gateway_UpsertModelPrice price)"
  "keeps (grows us) (gateway_DeleteModelPrice i)"
  unfolding gateway_EnsureDefaultModels_def gateway_UpsertModel_def UpsertModel_def gateway_UpsertSyncedModel_def
    UpsertSyncedModel_def gateway_SetModelEnabled_def SetModelEnabled_def gateway_UpdateModelContextPolicy_def
    UpdateModelContextPolicy_def gateway_DeleteModel_def DeleteModel_def gateway_UpsertPolicy_def UpsertPolicy_def
    gateway_DeletePolicy_def DeletePolicy_def gateway_UpsertModelPrice_def UpsertModelPrice_def
    gateway_DeleteModelPrice_def DeleteModelPrice_def model_repo_defs Let_def
  by (intro op_keeps grows_frames)+

lemma grows_other_ops:
  "keeps (grows us) (gateway_SetGatewayDefaultReasoningEffort e)" "keeps (grows us) (gateway_SetCodexUpstreamMode m)"
  "keeps (grows us) (gateway_SetCodexUpstreamFallbackEnabled b)" "keeps (grows us) (gateway_SetCodexUpstreamStrategy st)"
  "keeps (grows us) (gateway_CreateUsageLog item)"
  "keeps (grows us) (gateway_CheckAPIKeyTokenQuota tz key now)" "keeps (grows us) (gateway_CheckPolicy tz key m now)"
  "keeps (grows us) (gateway_UpsertContextSummary summary)" "keeps (grows us) (gateway_CreateAuditLog entry)"
  "keeps (grows us) (gateway_UpsertAlertRule rule)" "keeps (grows us) (gateway_DeleteAlertRule i)"
  "keeps (grows us) (gateway_SetAlertRuleEnabled i b)" "keeps (grows us) (gateway_AckAlertEvent i ackBy)"
  unfolding gateway_SetGatewayDefaultReasoningEffort_def SetGatewayDefaultReasoningEffort_def
    gateway_SetCodexUpstreamMode_def SetCodexUpstreamMode_def
    gateway_SetCodexUpstreamFallbackEnabled_def SetCodexUpstreamFallbackEnabled_def
    gateway_SetCodexUpstreamStrategy_def SetCodexUpstreamStrategy_def
    gateway_CreateUsageLog_def CreateUsageLog_def gateway_evaluateAlertRules_def evaluateAlertRules_def
    evaluate_rule_def gateway_CheckAPIKeyTokenQuota_def CheckAPIKeyTokenQuota_def checkTokenWindow_def
    gateway_CheckPolicy_def CheckPolicy_def checkWindow_def as_rate_limited_def or_now_def gateway_UpsertContextSummary_def
    UpsertContextSummary_def gateway_CreateAuditLog_def CreateAuditLog_def gateway_UpsertAlertRule_def
    UpsertAlertRule_def gateway_DeleteAlertRule_def DeleteAlertRule_def gateway_SetAlertRuleEnabled_def
    SetAlertRuleEnabled_def gateway_AckAlertEvent_def AckAlertEvent_def
    ops_repo_defs key_repo_defs model_repo_defs Let_def
  by (intro op_keeps grows_frames grows_usage)+

lemma step_grows: "gateway_step s t \<Longrightarrow> grows us s \<Longrightarrow> grows us t"
  by (erule gateway_stepE)
    (hypsubst; erule keeps_sndD [rotated]; intro grows_key_ops grows_model_ops grows_other_ops)+

lemma steps_grow: "gateway_step\<^sup>*\<^sup>* s t \<Longrightarrow> \<exists>vs. rows (usage t) = rows (usage s) @ vs"
  by (induction rule: rtranclp_induct) (auto dest!: step_grows)

lemma quota_room:
  assumes "fst (gateway_CheckAPIKeyTokenQuota tz (Some key) now s) = Inr ()" "0 \<le> now"
  shows "0 < key_ID key \<and>
    has_room (daily_limits (key_Quotas key)) (totals (key_usage s (key_ID key) (day_start tz now) now))"
proof -
  obtain t where t: "CheckAPIKeyTokenQuota repo_SummarizeUsage time_now tz (Some key) now s = (Inr (), t)"
    using assms(1) unfolding gateway_CheckAPIKeyTokenQuota_def by (metis prod.collapse)
  have "0 < key_ID key" using t by (simp add: CheckAPIKeyTokenQuota_def split: if_splits)
  then show ?thesis
    using key_ledger.quota_passed [OF t windows_not_zero(1) [OF assms(2)]] windows_not_zero [OF assms(2)]
    by (simp add: ledger_key_window)
qed

lemma more_rows_more_tokens:
  assumes "rows (usage t) = rows (usage s) @ vs" "\<forall>r \<in> set vs. 0 \<le> u_total_tokens r"
  shows "TotalTokens (totals (key_usage s k a b)) \<le> TotalTokens (totals (key_usage t k a b))"
proof -
  have "0 \<le> sum_of u_total_tokens (filter P vs)" for P
    unfolding sum_of_def using assms(2) by (intro sum_list_nonneg) auto
  then show ?thesis by (simp add: key_usage_def assms(1) totals_append) (simp add: totals_def)
qed

text \<open>
  C35. A key that used up its daily quota is refused for the rest of the day, whatever else the
  service does and whichever statements fail: once a logged request brings its tokens since
  midnight to the limit, the check lets no later request of that day through, in any store
  reached by later operations. It rests on the usage log being append-only, and needs that no
  later log row carries a negative token count.
\<close>
theorem exhausted_key_stays_refused:
  assumes log: "gateway_CreateUsageLog (Some item) s = (Inr (), t)" and later: "gateway_step\<^sup>*\<^sup>* t u"
    and key: "l_APIKeyID item = key_ID key" "0 < QuotaDailyTokens (key_Quotas key)"
    and today: "0 \<le> now" "day_start tz now \<le> log_time item s" "log_time item s < now"
    and used: "QuotaDailyTokens (key_Quotas key) \<le>
        TotalTokens (totals (key_usage s (key_ID key) (day_start tz now) now)) + l_TotalTokens item"
    and signs: "\<forall>r \<in> set (rows (usage u)). 0 \<le> u_total_tokens r"
  shows "fst (gateway_CheckAPIKeyTokenQuota tz (Some key) now u) \<noteq> Inr ()"
proof
  assume "fst (gateway_CheckAPIKeyTokenQuota tz (Some key) now u) = Inr ()"
  from quota_room [OF this today(1)] have pos: "0 < key_ID key"
    and room: "TotalTokens (totals (key_usage u (key_ID key) (day_start tz now) now)) < QuotaDailyTokens (key_Quotas key)"
    using key(2) by (simp_all add: has_room_def daily_limits_def)
  obtain vs where vs: "rows (usage u) = rows (usage t) @ vs" using steps_grow [OF later] by blast
  have "TotalTokens (totals (key_usage t (key_ID key) (day_start tz now) now)) =
      TotalTokens (totals (key_usage s (key_ID key) (day_start tz now) now)) + l_TotalTokens item"
    unfolding key_usage_def CreateUsageLog_rows [OF log] using pos key(1) today
    by (simp add: totals_append) (simp add: totals_def sum_of_def)
  then show False
    using more_rows_more_tokens [OF vs, of "key_ID key" "day_start tz now" now] signs vs room used by auto
qed

theorem exhausted_key_stays_refused_witness:
  "fst (gateway_CheckAPIKeyTokenQuota 0 (Some (quota_key 7 0)) (10 * second)
      (snd (gateway_SetAPIKeyDisabled 1 False
       (snd (gateway_CreateUsageLog (Some (sample_log ''r'' 7)) (fresh_store clock0)))))) \<noteq> Inr ()"
proof (rule exhausted_key_stays_refused [of "sample_log ''r'' 7" "fresh_store clock0"])
  show "gateway_CreateUsageLog (Some (sample_log ''r'' 7)) (fresh_store clock0) =
      (Inr (), snd (gateway_CreateUsageLog (Some (sample_log ''r'' 7)) (fresh_store clock0)))"
    by (rule prod_eqI; simp only: fst_conv snd_conv) code_simp
  show "gateway_step\<^sup>*\<^sup>* (snd (gateway_CreateUsageLog (Some (sample_log ''r'' 7)) (fresh_store clock0)))
      (snd (gateway_SetAPIKeyDisabled 1 False
         (snd (gateway_CreateUsageLog (Some (sample_log ''r'' 7)) (fresh_store clock0)))))"
    by (rule r_into_rtranclp) (rule gateway_step.disable_key)
qed code_simp+

end
