(* ===== verification/GatewayHandler.thy ===== *)
theory GatewayHandler
  imports RequestLog GatewayRuns
begin

text \<open>
  A request from end to end (internal/server/openai\_gateway\_handler.go): \<open>ServeHTTP\<close>
  authenticates the key and dispatches, \<open>handleModels\<close> lists the models, \<open>handleProxy\<close> makes
  every check before the upstream is called, \<open>handleCodexBackendResponsesStream\<close> relays a stream
  and \<open>handleCodexCLIProxy\<close> calls the upstream and writes the answer. A handler is an operation
  on the world of a request that returns what the client receives; it runs alone here, the
  interleaving of the limiters is the subject of \<open>Limiter\<close>.
\<close>

section \<open>What the handler is configured with\<close>

text \<open>
  The environment, the offset of the local time zone, the formatting of floats, whether rate
  limits are on, the compaction of contexts (an error or a rewritten body), whether attachments
  can be stored, the texts of errors, the client's address, the trace of the request, the reader of
  the body, the backend's client for a request body, the command line, what a stream and the wait
  for an answer receive, and how much of what is sent goes out.
\<close>

record 'w gateway_config =
  gc_Env :: "string \<Rightarrow> string"
  gc_TZ :: int
  gc_FmtFloat :: "rat \<Rightarrow> string"
  gc_RateLimitEnabled :: bool
  gc_Shrink :: compactor
  gc_IO :: "unit result"
  gc_ErrorText :: "go_error \<Rightarrow> string"
  gc_ClientIP :: "http_request \<Rightarrow> string"
  gc_TraceID :: string
  gc_ReadError :: "http_request \<Rightarrow> go_error option"
  gc_Timeout :: string
  gc_Client :: "obj \<Rightarrow> ('w, string) backend"
  gc_CLI :: "string \<Rightarrow> string \<Rightarrow> string \<Rightarrow> string \<Rightarrow> ('w, string \<times> openAIUsageMetrics) call"
  gc_Stream :: "obj \<Rightarrow> 'w \<Rightarrow> (open_event list \<times> input list) \<times> 'w"
  gc_Wait :: "'w \<Rightarrow> (nat \<times> upstream_error option) \<times> 'w"
  gc_Write :: "nat \<Rightarrow> string \<Rightarrow> int \<times> upstream_error option"

definition maxGatewayRequestBytes :: int where
  "maxGatewayRequestBytes = 94371840"

definition statusClientClosedRequest :: int where
  "statusClientClosedRequest = 499"

text \<open>What a proxied request is known by.\<close>

record proxy_request =
  px_Request :: http_request
  px_Key :: GatewayAPIKey
  px_RequestID :: string
  px_SessionID :: string
  px_Model :: string
  px_Effort :: string
  px_Stream :: bool
  px_Body :: string
  px_Start :: int
  px_Options :: gatewayRequestOptions

definition px_Path :: "proxy_request \<Rightarrow> string" where
  "px_Path q = rq_Path (px_Request q)"

type_synonym ('w, 'a) served = "('w gateway_world, 'a) op"

section \<open>Replies and log entries\<close>

definition requestIDFromRequest :: "http_request \<Rightarrow> string" where
  "requestIDFromRequest r = rq_Header r ''X-Request-Id''"

definition gateway_log :: "http_request \<Rightarrow> GatewayAPIKey \<Rightarrow> string \<Rightarrow> string \<Rightarrow> string \<Rightarrow> int \<Rightarrow> GatewayUsageLog" where
  "gateway_log r key requestID sessionID endpoint status =
     empty_log\<lparr>l_APIKeyID := key_ID key, l_APIKeyPrefix := key_KeyPrefix key, l_SessionID := sessionID,
       l_RequestID := requestID, l_Method := rq_Method r, l_Path := rq_Path r, l_Endpoint := endpoint,
       l_StatusCode := status\<rparr>"

text \<open>The entry of a request that failed, or was refused before the upstream was chosen.\<close>

definition refused_log :: "proxy_request \<Rightarrow> int \<Rightarrow> string \<Rightarrow> GatewayUsageLog" where
  "refused_log q status errorType =
     (gateway_log (px_Request q) (px_Key q) (px_RequestID q) (px_SessionID q) (gatewayEndpointFromPath (px_Path q)) status)
       \<lparr>l_Model := px_Model q, l_ReasoningEffort := px_Effort q, l_Success := False, l_Stream := px_Stream q,
        l_RequestBytes := int (length (px_Body q)), l_ErrorType := errorType\<rparr>"

definition failed_log :: "proxy_request \<Rightarrow> int \<Rightarrow> string \<Rightarrow> string \<Rightarrow> int \<Rightarrow> GatewayUsageDiagnostic \<Rightarrow> GatewayUsageLog" where
  "failed_log q status errorType mode responseBytes d =
     (refused_log q status errorType)
       \<lparr>l_UpstreamConfiguredMode := mode, l_UpstreamMode := mode, l_UpstreamErrorType := errorType,
        l_ResponseBytes := responseBytes, l_Diagnostic := d\<rparr>"

definition served_log ::
  "proxy_request \<Rightarrow> string \<Rightarrow> openAIUsageMetrics \<Rightarrow> int \<Rightarrow> GatewayUsageDiagnostic \<Rightarrow> GatewayUsageLog" where
  "served_log q mode m responseBytes d =
     (refused_log q 200 '''')
       \<lparr>l_Model := um_Model m, l_Success := True, l_InputTokens := um_InputTokens m, l_OutputTokens := um_OutputTokens m,
        l_TotalTokens := um_TotalTokens m, l_CachedTokens := um_CachedTokens m,
        l_ReasoningTokens := um_ReasoningTokens m, l_ResponseBytes := responseBytes,
        l_UpstreamConfiguredMode := mode, l_UpstreamMode := mode, l_Diagnostic := d\<rparr>"

definition record_request ::
  "'w gateway_config \<Rightarrow> proxy_request \<Rightarrow> GatewayUsageLog \<Rightarrow> 'a \<Rightarrow> ('w, 'a) served" where
  "record_request c q item reply =
     bind_op (recordUsage (gc_ClientIP c) (px_Request q) (px_Key q) (px_Start q) item) (\<lambda>_. ok reply)"

definition refuse :: "'w gateway_config \<Rightarrow> proxy_request \<Rightarrow> int \<Rightarrow> go_error \<Rightarrow> string \<Rightarrow> ('w, client_reply) served" where
  "refuse c q status err errorType =
     record_request c q (refused_log q status errorType) (writeGatewayError (gc_ErrorText c) status err errorType)"

definition blocked_audit :: "proxy_request \<Rightarrow> go_error \<Rightarrow> GatewayAuditLog" where
  "blocked_audit q err =
     \<lparr>au_ActorID = key_ID (px_Key q), au_ActorName = key_KeyPrefix (px_Key q), au_ActorRole = ''api_key'',
      au_Action = ''api.request_blocked'', au_TargetType = ''api_key'', au_TargetID = Itoa (key_ID (px_Key q)),
      au_Metadata = [(''model'', AStr (px_Model q)), (''endpoint'', AStr (gatewayEndpointFromPath (px_Path q))),
        (''error_type'', AStr (gatewayErrorType err))]\<rparr>"

text \<open>A request over its quota or its rate: besides the entry in the usage log, one in the audit log.\<close>

definition block_request :: "'w gateway_config \<Rightarrow> proxy_request \<Rightarrow> go_error \<Rightarrow> ('w, client_reply) served" where
  "block_request c q err =
     bind_op (refuse c q 429 err (gatewayErrorType err)) (\<lambda>reply.
     bind_op (ignore_op (db (gateway_CreateAuditLog (blocked_audit q err)))) (\<lambda>_. ok reply))"

definition writeGatewayLargeRequestLimit ::
  "'w gateway_config \<Rightarrow> proxy_request \<Rightarrow> string \<Rightarrow> GatewayUsageDiagnostic \<Rightarrow> limit_error \<Rightarrow> ('w, client_reply) served" where
  "writeGatewayLargeRequestLimit c q upstreamMode d err =
     (let wait = gatewayLargeRequestRetryAfterSeconds (gc_Env c); errorType = limit_error_type err
      in record_request c q (failed_log q 429 errorType upstreamMode 0 d)
           (writeGatewayErrorResponse 429 (if 0 < wait then Some wait else None)
              (gatewayLargeRequestLimitMessage err wait) errorType
              (if 0 < wait then [(''retry_after_seconds'', wait)] else [])))"

section \<open>The list of models\<close>

definition reasoning_level_texts :: "(string \<times> string) list" where
  "reasoning_level_texts =
     [(GatewayReasoningEffortLow, ''Fast responses with lighter reasoning''),
      (GatewayReasoningEffortMed, ''Balances speed and reasoning depth''),
      (GatewayReasoningEffortHigh, ''Greater reasoning depth for complex problems''),
      (GatewayReasoningEffortXHigh, ''Extra high reasoning depth for complex problems''),
      (GatewayReasoningEffortMax, ''Maximum reasoning depth for the hardest problems'')]"

definition codexModelReasoningLevels :: "string \<Rightarrow> json" where
  "codexModelReasoningLevels modelID =
     JArr (map (\<lambda>effort. JObj [(''effort'', JStr effort), (''description'', JStr (map_get '''' reasoning_level_texts effort))])
       (OfficialModelReasoningEffortsForModel modelID))"

text \<open>Go's integer division truncates.\<close>

definition effective_context_percent :: "GatewayModelContextPolicy \<Rightarrow> int" where
  "effective_context_percent p =
     (if 0 < ContextWindowTokens p \<and> 0 < ContextHardTokens p
      then (let n = wrap64 (ContextHardTokens p * 100) in sgn n * (\<bar>n\<bar> div ContextWindowTokens p))
      else 95)"

definition model_created :: "GatewayModel \<Rightarrow> int" where
  "model_created item = (if m_CreatedUnix item = 0 then m_CreatedAt item div second else m_CreatedUnix item)"

definition model_item :: "GatewayModel \<Rightarrow> json" where
  "model_item item =
     JObj [(''id'', JStr (m_ModelID item)), (''object'', JStr ''model''), (''created'', jint (model_created item)),
       (''owned_by'', JStr (m_OwnedBy item))]"

definition codex_model_item :: "(string \<Rightarrow> string) \<Rightarrow> GatewayModel \<Rightarrow> json" where
  "codex_model_item env item =
     (let p = normalizeGatewayContextPolicy
            (EffectiveGatewayModelContextPolicy (Some item) (GatewayContextFallbackPolicyFromEnv env));
          name = JStr (m_ModelID item)
      in JObj
       [(''slug'', name), (''id'', name), (''name'', name), (''display_name'', name), (''description'', name),
        (''object'', JStr ''model''), (''created'', jint (model_created item)), (''owned_by'', JStr (m_OwnedBy item)),
        (''default_reasoning_level'', JStr (OfficialModelDefaultReasoningEffort (m_ModelID item))),
        (''supported_reasoning_levels'', codexModelReasoningLevels (m_ModelID item)),
        (''shell_type'', JStr ''shell_command''), (''visibility'', JStr ''list''), (''supported_in_api'', JBool True),
        (''priority'', jint 0), (''additional_speed_tiers'', JArr [JStr ''fast'']),
        (''service_tiers'', JArr [JObj [(''id'', JStr ''priority''), (''name'', JStr ''Fast''),
           (''description'', JStr ''Increased throughput'')]]),
        (''availability_nux'', JObj [(''message'', JStr '''')]), (''upgrade'', JNull),
        (''supports_reasoning_summaries'', JBool True), (''default_reasoning_summary'', JStr ''detailed''),
        (''support_verbosity'', JBool True), (''default_verbosity'', JStr ''medium''),
        (''apply_patch_tool_type'', JStr ''freeform''), (''web_search_tool_type'', JStr ''text_and_image''),
        (''truncation_policy'', JObj [(''mode'', JStr ''tokens''), (''limit'', jint 10000)]),
        (''supports_parallel_tool_calls'', JBool True), (''supports_image_detail_original'', JBool True),
        (''context_window'', jint (ContextWindowTokens p)), (''max_context_window'', jint (ContextWindowTokens p)),
        (''effective_context_window_percent'', jint (effective_context_percent p)),
        (''experimental_supported_tools'', JArr []), (''input_modalities'', JArr [JStr ''text'', JStr ''image'']),
        (''supports_search_tool'', JBool True), (''base_instructions'', JStr ''''),
        (''model_messages'', JObj [(''instructions_template'', JStr ''''), (''instructions_variables'', JObj [])])])"

definition models_payload :: "'w gateway_config \<Rightarrow> GatewayModel list \<Rightarrow> string" where
  "models_payload c items =
     json_encode (gc_FmtFloat c) (JObj [(''object'', JStr ''list''), (''data'', JArr (map model_item items)),
       (''models'', JArr (map (codex_model_item (gc_Env c)) items))])"

definition handleModels ::
  "'w gateway_config \<Rightarrow> http_request \<Rightarrow> GatewayAPIKey \<Rightarrow> string \<Rightarrow> int \<Rightarrow> ('w, client_reply) served" where
  "handleModels c r key requestID start =
     try_op (db (gateway_ListModels 200 0 True '''')) (\<lambda>listed.
       let item = gateway_log r key requestID (sessionIDFromHeaders r) ''models''
       in case listed of
            Inl err \<Rightarrow>
              bind_op (recordUsage (gc_ClientIP c) r key start ((item 500)\<lparr>l_ErrorType := ''model_list_failed''\<rparr>)) (\<lambda>_.
                ok (writeGatewayError (gc_ErrorText c) 500 err ''model_list_failed''))
          | Inr (listing, _) \<Rightarrow>
              let body = models_payload c listing
              in bind_op (recordUsage (gc_ClientIP c) r key start
                   ((item 200)\<lparr>l_Success := True, l_ResponseBytes := int (length body)\<rparr>)) (\<lambda>_.
                 ok (Reply 200 None body)))"

section \<open>The upstream call\<close>

definition effectiveReasoningEffort ::
  "GatewayAPIKey option \<Rightarrow> string \<Rightarrow> ('w, string) served" where
  "effectiveReasoningEffort key requested0 =
     (let requested = NormalizeGatewayReasoningEffort requested0
      in try_op (db (gateway_GetEffectiveReasoningEffort key requested)) (\<lambda>r. case r of
           Inl _ \<Rightarrow> ok requested | Inr effort \<Rightarrow> ok effort))"

definition effectiveCodexUpstream ::
  "(string \<Rightarrow> string) \<Rightarrow> GatewayAPIKey option \<Rightarrow> ('w, upstream_choice) served" where
  "effectiveCodexUpstream env key =
     try_op (db (gateway_GetEffectiveCodexUpstreamStrategy env key)) (\<lambda>r. case r of
         Inl _ \<Rightarrow>
           (let mode = codexUpstreamMode env; fallbackEnabled = codexUpstreamFallbackEnabled env
            in ok (GatewayUpstreamStrategy mode fallbackEnabled, mode, fallbackEnabled))
       | Inr (strategy, mode0, fallbackEnabled) \<Rightarrow>
           (let mode = text_or mode0 (codexUpstreamMode env)
            in ok (text_or strategy (GatewayUpstreamStrategy mode fallbackEnabled), mode, fallbackEnabled)))"

definition run_upstream :: "'w gateway_config \<Rightarrow> proxy_request \<Rightarrow> string \<Rightarrow> bool \<Rightarrow> 'w upstream_run" where
  "run_upstream c q upstreamMode fallbackEnabled =
     runCodexUpstreamWithOptions (gc_Env c)
       (codexBackend_runWithOptions (gc_Env c) (gc_FmtFloat c) (gc_IO c) (gc_Timeout c) (gc_Client c) (px_Path q) (px_Body q)
          (px_Model q) (px_Effort q) (px_Options q))
       (gc_CLI c (px_Path q) (px_Body q) (px_Model q) (px_Effort q))
       upstreamMode fallbackEnabled (px_Path q) (px_Body q) (px_Effort q) (px_Options q)"

text \<open>
  \<open>runCodexUpstreamWithStreamHeartbeat\<close> of a streamed request: the call goes on in the
  background; the wait for it ends with its answer, or with the error of the request's context,
  after some heartbeats. A call that is no longer waited for still acts on the network.
\<close>

definition runCodexUpstreamWithStreamHeartbeat ::
  "'w gateway_config \<Rightarrow> proxy_request \<Rightarrow> gatewayStreamWriter \<Rightarrow> string \<Rightarrow> bool \<Rightarrow>
   'w \<Rightarrow> ((codexUpstreamCallResult \<times> upstream_error option) \<times> gatewayStreamWriter) \<times> 'w" where
  "runCodexUpstreamWithStreamHeartbeat c q writer upstreamMode fallbackEnabled w =
     (case run_upstream c q upstreamMode fallbackEnabled w of (answer, w1) \<Rightarrow>
      case gc_Wait c w1 of ((ticks, gone), w2) \<Rightarrow>
        (((case gone of
             None \<Rightarrow> answer
           | Some err \<Rightarrow> (failed_call upstreamMode False ''client_canceled'' no_diagnostic, Some err)),
          (writeHeartbeat (gc_FmtFloat c) ^^ ticks) writer), w2))"

text \<open>How many bytes of a list of frames go out.\<close>

definition bytes_out :: "'w gateway_config \<Rightarrow> frame list \<Rightarrow> int" where
  "bytes_out c fs = wrap64 (sum_list (map (\<lambda>(n, f). fst (gc_Write c n (render f))) (enumerate 0 fs)))"

definition upstream_status :: "upstream_error \<Rightarrow> int" where
  "upstream_status err = (if isGatewayClientCanceled err then statusClientClosedRequest else 502)"

definition upstream_failure :: "upstream_error \<Rightarrow> string \<Rightarrow> string \<Rightarrow> string" where
  "upstream_failure err errorType mode =
     (if isGatewayClientCanceled err then ''client_canceled'' else text_or errorType (upstreamErrorType err mode))"

definition upstream_reply :: "upstream_error \<Rightarrow> string \<Rightarrow> client_reply" where
  "upstream_reply err errorType =
     writeGatewayErrorResponse (upstream_status err) None (error_text err) errorType []"

definition with_response_bytes :: "int \<Rightarrow> GatewayUsageDiagnostic \<Rightarrow> GatewayUsageDiagnostic" where
  "with_response_bytes n d = (if 0 < n then d\<lparr>d_ResponseBytes := n\<rparr> else d)"

section \<open>Streams of the backend\<close>

definition stream_context_of :: "'w gateway_config \<Rightarrow> proxy_request \<Rightarrow> bool \<Rightarrow> int \<Rightarrow> stream_context" where
  "stream_context_of c q fallbackEnabled now =
     \<lparr>sx_Path = px_Path q, sx_Body = px_Body q, sx_Model = px_Model q, sx_Effort = px_Effort q, sx_Prompt = '''',
      sx_FallbackEnabled = fallbackEnabled, sx_Options = px_Options q, sx_FmtFloat = gc_FmtFloat c,
      sx_Now = now div second, sx_Timeout = gc_Timeout c, sx_Write = gc_Write c\<rparr>"

text \<open>
  The upstream is called when the request could be built and the client took the first comment;
  what it sends is known as a whole here.
\<close>

definition stream_inputs ::
  "'w gateway_config \<Rightarrow> proxy_request \<Rightarrow> stream_context \<Rightarrow> ('w, open_event list \<times> input list) served" where
  "stream_inputs c q x =
     (case codexBackendRequestFromGatewayWithOptions (gc_Env c) (gc_FmtFloat c) (px_Path q) (px_Body q) (px_Model q)
             (px_Effort q) (px_Options q) of
        Inl _ \<Rightarrow> ok ([], [])
      | Inr (request, _) \<Rightarrow>
          (case keep_alive x (started_stream x) of
             Inr _ \<Rightarrow> ok ([], [])
           | Inl _ \<Rightarrow> net (gc_Stream c request)))"

definition named_metrics :: "proxy_request \<Rightarrow> openAIUsageMetrics \<Rightarrow> openAIUsageMetrics" where
  "named_metrics q m = m\<lparr>um_Model := text_or (um_Model m) (px_Model q)\<rparr>"

definition finish_stream ::
  "'w gateway_config \<Rightarrow> proxy_request \<Rightarrow> GatewayUsageDiagnostic \<Rightarrow> upstream_error option \<Rightarrow> stream_state \<Rightarrow>
   ('w, client_reply) served" where
  "finish_stream c q requestDiagnostic err st =
     (let r = st_Result st; n = sr_ResponseBytes r; mode = GatewayUpstreamModeCodexBackend;
          d = with_response_bytes n (mergeGatewayUsageDiagnostic requestDiagnostic (sr_Diagnostic r))
      in case err of
           Some e \<Rightarrow>
             (let errorType = upstream_failure e (sr_ErrorType r) mode
              in record_request c q (failed_log q (upstream_status e) errorType mode n d)
                   (if sr_Started r then Streamed (st_Sent st) else upstream_reply e errorType))
         | None \<Rightarrow>
             record_request c q (served_log q mode (named_metrics q (sr_Metrics r)) n d) (Streamed (st_Sent st)))"

definition handleCodexBackendResponsesStream ::
  "'w gateway_config \<Rightarrow> proxy_request \<Rightarrow> GatewayUsageDiagnostic \<Rightarrow> bool \<Rightarrow> ('w, client_reply) served" where
  "handleCodexBackendResponsesStream c q requestDiagnostic fallbackEnabled =
     bind_op (db time_now) (\<lambda>now.
       let x = stream_context_of c q fallbackEnabled now
       in bind_op (stream_inputs c q x) (\<lambda>(opens, inputs).
            case streamCodexBackendResponsesWithOptions (gc_Env c) (gc_IO c) x (px_Model q) opens inputs of
              None \<Rightarrow> ok Hanging
            | Some (err, st) \<Rightarrow> finish_stream c q requestDiagnostic err st))"

section \<open>Answers of the gateway's own\<close>

definition answered_log ::
  "proxy_request \<Rightarrow> string \<Rightarrow> codexUpstreamCallResult \<Rightarrow> int \<Rightarrow> GatewayUsageDiagnostic \<Rightarrow> GatewayUsageLog" where
  "answered_log q mode result responseBytes d =
     (served_log q mode (named_metrics q (cr_Metrics result)) responseBytes d)
       \<lparr>l_UpstreamMode := cr_ActualMode result, l_UpstreamFallback := cr_Fallback result,
        l_UpstreamErrorType := cr_UpstreamErrorType result\<rparr>"

definition call_diagnostic :: "codexUpstreamCallResult \<Rightarrow> GatewayUsageDiagnostic \<Rightarrow> GatewayUsageDiagnostic" where
  "call_diagnostic result requestDiagnostic =
     (if d_RequestBytes (cr_Diagnostic result) = 0 then requestDiagnostic else cr_Diagnostic result)"

definition stream_answer ::
  "'w gateway_config \<Rightarrow> proxy_request \<Rightarrow> string \<Rightarrow> GatewayUsageDiagnostic \<Rightarrow> codexUpstreamCallResult \<Rightarrow>
   upstream_error option \<Rightarrow> gatewayStreamWriter \<Rightarrow> ('w, client_reply) served" where
  "stream_answer c q mode requestDiagnostic result err writer =
     (case err of
        Some e \<Rightarrow>
          (let errorType = upstream_failure e (cr_UpstreamErrorType result) mode;
               sent = sw_Sent (stream_writeError (gc_FmtFloat c) (error_text e) errorType writer); n = bytes_out c sent
           in record_request c q (failed_log q (upstream_status e) errorType mode n
                (with_response_bytes n (call_diagnostic result requestDiagnostic))) (Streamed sent))
      | None \<Rightarrow>
          bind_op (db time_now) (\<lambda>later.
            let m = named_metrics q (cr_Metrics result);
                sent = sw_Sent (writeSuccess (gc_FmtFloat c) (later div second) (um_Model m) (cr_Content result)
                  (normalizeGatewayReasoningSummary (cr_ReasoningSummary result)) (cr_ToolCalls result) m writer)
            in record_request c q (answered_log q mode result (bytes_out c sent) requestDiagnostic) (Streamed sent)))"

definition answer_payload :: "proxy_request \<Rightarrow> codexUpstreamCallResult \<Rightarrow> int \<Rightarrow> json" where
  "answer_payload q result now =
     (let m = named_metrics q (cr_Metrics result); content = cr_Content result; calls = cr_ToolCalls result
      in if px_Path q = ''/v1/responses''
         then buildCodexCLIResponsesPayload now (um_Model m) content
           (normalizeGatewayReasoningSummary (cr_ReasoningSummary result)) calls m
         else buildCodexCLIChatPayload now (um_Model m) content calls m)"

definition whole_answer ::
  "'w gateway_config \<Rightarrow> proxy_request \<Rightarrow> string \<Rightarrow> GatewayUsageDiagnostic \<Rightarrow> codexUpstreamCallResult \<Rightarrow>
   upstream_error option \<Rightarrow> ('w, client_reply) served" where
  "whole_answer c q mode requestDiagnostic result err =
     (case err of
        Some e \<Rightarrow>
          (let errorType = upstream_failure e (cr_UpstreamErrorType result) mode
           in record_request c q (failed_log q (upstream_status e) errorType mode 0
                (call_diagnostic result requestDiagnostic)) (upstream_reply e errorType))
      | None \<Rightarrow>
          bind_op (db time_now) (\<lambda>now.
            let body = json_encode (gc_FmtFloat c) (answer_payload q result (now div second))
            in record_request c q (answered_log q mode result (int (length body)) requestDiagnostic) (Reply 200 None body)))"

definition handleCodexCLIProxy ::
  "'w gateway_config \<Rightarrow> proxy_request \<Rightarrow> GatewayUsageDiagnostic \<Rightarrow> ('w, client_reply) served" where
  "handleCodexCLIProxy c q requestDiagnostic =
     bind_op (effectiveCodexUpstream (gc_Env c) (Some (px_Key q))) (\<lambda>(_, mode, fallbackEnabled).
       if px_Stream q
       then bind_op (db time_now) (\<lambda>now.
              let writer = newGatewayStreamWriter (gc_FmtFloat c) (px_Path q) (px_Model q) (now div second)
              in bind_op (net (runCodexUpstreamWithStreamHeartbeat c q writer mode fallbackEnabled)) (\<lambda>((result, err), writer).
                 stream_answer c q mode requestDiagnostic result err writer))
       else bind_op (net (run_upstream c q mode fallbackEnabled)) (\<lambda>(result, err).
              whole_answer c q mode requestDiagnostic result err))"

section \<open>The checks\<close>

text \<open>The slot of a large request is given back when its handler returns.\<close>

definition releasing :: "string option \<Rightarrow> ('w, client_reply) served \<Rightarrow> ('w, client_reply) served" where
  "releasing slot m =
     (case slot of
        None \<Rightarrow> m
      | Some k \<Rightarrow> try_op m (\<lambda>reply.
          if reply = Inr Hanging then from_result reply
          else bind_op (limited (\<lambda>l. ((), l\<lparr>InFlight := release k (InFlight l)\<rparr>))) (\<lambda>_. from_result reply)))"

definition call_upstream ::
  "'w gateway_config \<Rightarrow> proxy_request \<Rightarrow> string \<Rightarrow> bool \<Rightarrow> GatewayUsageDiagnostic \<Rightarrow> ('w, client_reply) served" where
  "call_upstream c q upstreamMode fallbackEnabled d =
     (if px_Stream q \<and> px_Path q = ''/v1/responses'' \<and> upstreamMode = GatewayUpstreamModeCodexBackend
      then handleCodexBackendResponsesStream c q d fallbackEnabled
      else handleCodexCLIProxy c q d)"

definition guard_large_request ::
  "'w gateway_config \<Rightarrow> proxy_request \<Rightarrow> string \<Rightarrow> bool \<Rightarrow> GatewayUsageDiagnostic \<Rightarrow> ('w, client_reply) served" where
  "guard_large_request c q upstreamMode fallbackEnabled d =
     bind_op (db time_now) (\<lambda>now.
     bind_op (limited (acquireGatewayLargeRequestSlot (gc_Env c) now (Some (px_Key q)) (px_Path q) (px_Body q))) (\<lambda>slot.
       case slot of
         Inl err \<Rightarrow>
           writeGatewayLargeRequestLimit c q upstreamMode
             (if d_RequestBytes d = 0 then gatewayUsageDiagnosticForRequest (px_Path q) (px_Body q) (px_Effort q) else d) err
       | Inr held \<Rightarrow> releasing held (call_upstream c q upstreamMode fallbackEnabled d)))"

definition forward_request :: "'w gateway_config \<Rightarrow> proxy_request \<Rightarrow> ('w, client_reply) served" where
  "forward_request c q =
     bind_op (effectiveCodexUpstream (gc_Env c) (Some (px_Key q))) (\<lambda>(_, upstreamMode, fallbackEnabled).
     bind_op (db (prepareGatewayContext (gc_Env c) (gc_FmtFloat c) (gc_Shrink c) (Some (px_Key q)) (px_RequestID q)
         (px_SessionID q) (px_Path q) (px_Body q) (px_Model q) (px_Effort q) (px_Options q))) (\<lambda>p.
       if pr_TooLong p
       then record_request c q (failed_log q 413 gatewayContextErrorType upstreamMode 0 (pr_Diagnostic p))
         (writeGatewayError (gc_ErrorText c) 413 (ErrText errGatewayContextLengthExceeded) gatewayContextErrorType)
       else guard_large_request c (q\<lparr>px_Body := pr_Body p\<rparr>) upstreamMode fallbackEnabled (pr_Diagnostic p)))"

text \<open>The quota and the policy, where rate limits are on.\<close>

definition check_limits :: "'w gateway_config \<Rightarrow> proxy_request \<Rightarrow> ('w, client_reply) served" where
  "check_limits c q =
     (if gc_RateLimitEnabled c
      then bind_op (db time_now) (\<lambda>now.
        try_op (db (gateway_CheckAPIKeyTokenQuota (gc_TZ c) (Some (px_Key q)) now)) (\<lambda>r. case r of
          Inl err \<Rightarrow> block_request c q err
        | Inr _ \<Rightarrow>
            bind_op (db time_now) (\<lambda>now.
            try_op (db (gateway_CheckPolicy (gc_TZ c) (Some (px_Key q)) (px_Model q) now)) (\<lambda>r. case r of
              Inl err \<Rightarrow> block_request c q err
            | Inr _ \<Rightarrow> forward_request c q))))
      else forward_request c q)"

definition check_access :: "'w gateway_config \<Rightarrow> proxy_request \<Rightarrow> ('w, client_reply) served" where
  "check_access c q =
     try_op (db (gateway_ValidateModelAccess (Some (px_Key q)) (px_Model q))) (\<lambda>r. case r of
         Inl err \<Rightarrow> refuse c q 403 err (gatewayErrorType err)
       | Inr _ \<Rightarrow> check_limits c q)"

definition proxied :: "http_request \<Rightarrow> GatewayAPIKey \<Rightarrow> string \<Rightarrow> int \<Rightarrow> string \<Rightarrow> bool \<Rightarrow> string \<Rightarrow> proxy_request" where
  "proxied r key requestID start model stream effort =
     \<lparr>px_Request = r, px_Key = key, px_RequestID = requestID, px_SessionID = sessionIDFromGatewayRequest r (rq_Body r),
      px_Model = model, px_Effort = effort, px_Stream = stream, px_Body = rq_Body r, px_Start = start,
      px_Options = gatewayRequestOptionsFromRequest r (rq_Body r)\<rparr>"

definition effort_error :: string where
  "effort_error = ''gateway_reasoning_effort_invalid''"

definition handleProxy ::
  "'w gateway_config \<Rightarrow> http_request \<Rightarrow> GatewayAPIKey \<Rightarrow> string \<Rightarrow> int \<Rightarrow> ('w, client_reply) served" where
  "handleProxy c r key requestID start =
     (case gc_ReadError c r of
        Some err \<Rightarrow> ok (writeGatewayError (gc_ErrorText c) 400 err ''read_request_failed'')
      | None \<Rightarrow>
          if maxGatewayRequestBytes < int (length (rq_Body r))
          then ok (writeGatewayError (gc_ErrorText c) 413 (ErrText ''request body too large'') ''request_too_large'')
          else (case parseRequestModelStreamAndReasoningEffort (rq_Body r) of (model, stream, parsed) \<Rightarrow>
            case parsed of
              Inl err \<Rightarrow> refuse c (proxied r key requestID start model stream '''') 400 err effort_error
            | Inr requested \<Rightarrow>
                bind_op (effectiveReasoningEffort (Some key) requested) (\<lambda>effort.
                  let q = proxied r key requestID start model stream effort
                  in if \<not> IsOfficialModelReasoningEffortSupported model effort
                     then refuse c q 400 (ErrText (''unsupported reasoning_effort '' @ effort @ '' for model '' @ model)) effort_error
                     else check_access c q)))"

definition authenticate :: "http_request \<Rightarrow> ('w, GatewayAPIKey) served" where
  "authenticate r =
     (let token = NormalizeGatewayBearer (rq_Header r ''Authorization'')
      in if token = '''' then fail ErrGatewayAPIKeyNotFound else db (gateway_AuthenticateAPIKey token))"

definition proxy_paths :: "string list" where
  "proxy_paths = [''/v1/chat/completions'', ''/v1/responses'']"

definition ServeHTTP :: "'w gateway_config \<Rightarrow> http_request \<Rightarrow> ('w, client_reply) served" where
  "ServeHTTP c r =
     bind_op (db time_now) (\<lambda>start.
       let requestID = text_or (requestIDFromRequest r) (gc_TraceID c)
       in try_op (authenticate r) (\<lambda>a. case a of
            Inl err \<Rightarrow> ok (writeGatewayError (gc_ErrorText c) 401 err '''')
          | Inr key \<Rightarrow>
              if rq_Method r = ''GET'' \<and> rq_Path r = ''/v1/models'' then handleModels c r key requestID start
              else if rq_Method r = ''POST'' \<and> rq_Path r \<in> set proxy_paths then handleProxy c r key requestID start
              else ok (writeGatewayError (gc_ErrorText c) 404
                (ErrText (''unsupported gateway path: '' @ rq_Method r @ '' '' @ rq_Path r)) ''unsupported_path'')))"

end
