(* ===== verification/Admission.thy ===== *)
theory Admission
  imports GatewayHandler
begin

text \<open>
  What the handler of a request guarantees whatever the database, the client and the upstream do:
  the upstream is called only for an admitted request; every request leaves at most one entry in
  the usage log, which agrees with what the client was told; the slot of a large request is given
  back. The checks read the database and change nothing in it but the number of statements run.
\<close>

section \<open>What passing the policy means\<close>

definition policy_room :: "int \<Rightarrow> int \<Rightarrow> GatewayPolicy \<Rightarrow> (int \<Rightarrow> usage_totals) \<Rightarrow> bool" where
  "policy_room tz now p u \<longleftrightarrow>
     below (RPM p) (TotalRequests (u (now - minute))) \<and> below (TPM p) (TotalTokens (u (now - minute))) \<and>
     below (DailyRequests p) (TotalRequests (u (day_start tz now))) \<and>
     below (MonthlyRequests p) (TotalRequests (u (month_start tz now))) \<and>
     below (DailyTokens p) (TotalTokens (u (day_start tz now))) \<and>
     below (MonthlyTokens p) (TotalTokens (u (month_start tz now)))"

locale policy_ledger = rate_ledger calm used summarize policy_at get_policy
  for calm :: "'s \<Rightarrow> bool" and used :: "'s \<Rightarrow> GatewayUsageFilter \<Rightarrow> usage_totals"
    and summarize :: "GatewayUsageFilter \<Rightarrow> ('s, GatewayUsageSummary) op"
    and policy_at :: "'s \<Rightarrow> int \<Rightarrow> string \<Rightarrow> GatewayPolicy option"
    and get_policy :: "int \<Rightarrow> string \<Rightarrow> ('s, GatewayPolicy option) op" +
  fixes inv :: "'s \<Rightarrow> bool"
  assumes found_policy: "inv s \<Longrightarrow> get_policy k m s = (Inr p, t) \<Longrightarrow> p = policy_at s k m \<and> used t = used s"
begin

lemma window_passed:
  assumes "checkWindow summarize k m now limit start tokens s = (Inr (), t)" "used s = u"
  shows "below limit (amount tokens (u (policy_window k m start now))) \<and> used t = u"
proof (cases "limit \<le> 0")
  case True
  then show ?thesis using assms by (simp add: checkWindow_def below_def)
next
  case False
  with assms(1) have "bind_op (summarize (policy_window k m start now)) (\<lambda>summary.
      if tokens then if TotalTokens (su_Totals summary) \<ge> limit then fail ErrGatewayQuotaExceeded else ok ()
      else if TotalRequests (su_Totals summary) \<ge> limit then fail ErrGatewayQuotaExceeded else ok ()) s = (Inr (), t)"
    by (simp add: checkWindow_def)
  then obtain x s1 where x: "summarize (policy_window k m start now) s = (Inr x, s1)"
    and r: "(if tokens then if TotalTokens (su_Totals x) \<ge> limit then fail ErrGatewayQuotaExceeded else ok ()
      else if TotalRequests (su_Totals x) \<ge> limit then fail ErrGatewayQuotaExceeded else ok ()) s1 = (Inr (), t)"
    by (rule bind_op_InrE)
  then show ?thesis
    using summary [OF x] assms(2) by (auto simp: below_def amount_def split: if_splits)
qed

lemma limited_passed:
  "as_rate_limited m s = (Inr (), t) \<Longrightarrow> m s = (Inr (), t)"
  by (auto simp: as_rate_limited_def try_op_def split: prod.splits sum.splits)

text \<open>A request that passes is below every limit of the policy, whatever failed on the way.\<close>

lemma policy_passed:
  assumes "CheckPolicy get_policy summarize time_of tz (Some key) m now s = (Inr (), t)" "inv s" "\<not> IsZero now"
    and "policy_at s (key_ID key) m = Some p"
  shows "0 < key_ID key \<and> policy_room tz now p (\<lambda>start. used s (policy_window (key_ID key) m start now))"
proof -
  let ?c = "checkWindow summarize (key_ID key) m now"
  have k: "0 < key_ID key" using assms(1) by (simp add: CheckPolicy_def split: if_splits)
  from assms(1) k assms(3) obtain found s0 where found: "get_policy (key_ID key) m s = (Inr found, s0)"
    and checks: "(case found of None \<Rightarrow> ok () | Some policy \<Rightarrow>
        bind_op (as_rate_limited (?c (RPM policy) (now - minute) False)) (\<lambda>_.
        bind_op (as_rate_limited (?c (TPM policy) (now - minute) True)) (\<lambda>_.
        bind_op (?c (DailyRequests policy) (day_start tz now) False) (\<lambda>_.
        bind_op (?c (MonthlyRequests policy) (month_start tz now) False) (\<lambda>_.
        bind_op (?c (DailyTokens policy) (day_start tz now) True) (\<lambda>_.
          ?c (MonthlyTokens policy) (month_start tz now) True)))))) s0 = (Inr (), t)"
    by (auto simp: CheckPolicy_def or_now_def Let_def elim!: bind_op_InrE)
  have f: "found = Some p" "used s0 = used s"
    using found_policy [OF assms(2) found] assms(4) by simp_all
  from checks f(1) obtain s1 s2 s3 s4 s5 where
    "as_rate_limited (?c (RPM p) (now - minute) False) s0 = (Inr (), s1)"
    "as_rate_limited (?c (TPM p) (now - minute) True) s1 = (Inr (), s2)"
    "?c (DailyRequests p) (day_start tz now) False s2 = (Inr (), s3)"
    "?c (MonthlyRequests p) (month_start tz now) False s3 = (Inr (), s4)"
    "?c (DailyTokens p) (day_start tz now) True s4 = (Inr (), s5)"
    "?c (MonthlyTokens p) (month_start tz now) True s5 = (Inr (), t)"
    by (auto elim!: bind_op_InrE)
  note runs = this(1,2) [THEN limited_passed] this(3-6)
  note 1 = window_passed [OF runs(1) f(2)]
  note 2 = window_passed [OF runs(2) conjunct2 [OF 1]]
  note 3 = window_passed [OF runs(3) conjunct2 [OF 2]]
  note 4 = window_passed [OF runs(4) conjunct2 [OF 3]]
  note 5 = window_passed [OF runs(5) conjunct2 [OF 4]]
  note 6 = window_passed [OF runs(6) conjunct2 [OF 5]]
  show ?thesis using k 1 2 3 4 5 6 by (simp add: policy_room_def amount_def)
qed

end

lemma query_policy_Inr:
  assumes "store_ok s" "query_policy k m s = (Inr p, t)"
  shows "p = find (\<lambda>p. po_APIKeyID p = k \<and> po_ModelID p = m) (rows (policies s)) \<and> t = s\<lparr>stmts := Suc (stmts s)\<rparr>"
proof -
  have fine: "\<not> fault s (stmts s)"
    using assms(2) by (auto simp: query_policy_def optional_def try_op_def policy_tbl.on_tbl_fault)
  have "on_policies (only_row (\<lambda>p. po_APIKeyID p = k \<and> po_ModelID p = m)) s =
      (case find (\<lambda>p. po_APIKeyID p = k \<and> po_ModelID p = m) (rows (policies s)) of
         None \<Rightarrow> Inl DBNotFound | Some r \<Rightarrow> Inr r, s\<lparr>stmts := Suc (stmts s)\<rparr>)"
    using policy_tbl.only_search [of s "\<lambda>p. po_APIKeyID p = k \<and> po_ModelID p = m"] assms(1) fine
    by (simp add: policy_clash_def)
  then show ?thesis
    using assms(2) by (auto simp: query_policy_def optional_def try_op_def split: option.splits)
qed

lemma GetPolicy_Inr:
  assumes "store_ok s" "repo_GetPolicyForKeyModel k m s = (Inr p, t)"
  shows "p = policy_for s k m \<and> ledger t = ledger s"
proof -
  have ok: "store_ok (s\<lparr>stmts := n\<rparr>)" for n using assms(1) by simp
  have "p = policy_for s k m \<and> (\<exists>n. t = s\<lparr>stmts := n\<rparr>)"
  proof (cases "TrimSpace m = ''''")
    case True
    then show ?thesis
      using assms(2) query_policy_Inr [OF assms(1), of k "''*''" p t]
      by (auto simp: repo_GetPolicyForKeyModel_def policy_for_def)
  next
    case False
    with assms(2) obtain q s1 where q: "query_policy k (TrimSpace m) s = (Inr q, s1)"
      and r: "(case q of Some p \<Rightarrow> ok (Some p) | None \<Rightarrow> query_policy k ''*'') s1 = (Inr p, t)"
      by (auto simp: repo_GetPolicyForKeyModel_def elim!: bind_op_InrE)
    note first = query_policy_Inr [OF assms(1) q]
    show ?thesis
    proof (cases q)
      case None
      then have "query_policy k ''*'' (s\<lparr>stmts := Suc (stmts s)\<rparr>) = (Inr p, t)" using r first by simp
      from query_policy_Inr [OF ok this] show ?thesis
        using None first False by (auto simp: policy_for_def Let_def)
    next
      case (Some a)
      then have "p = Some a" "t = s\<lparr>stmts := Suc (stmts s)\<rparr>" using r first by simp_all
      then show ?thesis using Some first False by (auto simp: policy_for_def Let_def split: option.splits)
    qed
  qed
  moreover have "ledger (s\<lparr>stmts := n\<rparr>) = ledger s" for n by (rule ledger_reads) simp_all
  ultimately show ?thesis by auto
qed

interpretation key_policies: policy_ledger calm_store ledger repo_SummarizeUsage policy_for repo_GetPolicyForKeyModel store_ok
  by unfold_locales (rule GetPolicy_Inr)

section \<open>Operations that only read\<close>

text \<open>Two stores that differ in the number of statements run.\<close>

definition same :: "store \<Rightarrow> store \<Rightarrow> bool" where
  "same s t = (t = s\<lparr>stmts := stmts t\<rparr>)"

lemma same_refl [simp]: "same s s"
  by (simp add: same_def)

lemma same_stmts [simp]: "same s (t\<lparr>stmts := n\<rparr>) = same s t"
  unfolding same_def by (cases s; cases t) auto

lemma sameE: "same s t \<Longrightarrow> (\<And>n. t = s\<lparr>stmts := n\<rparr> \<Longrightarrow> P) \<Longrightarrow> P"
  by (auto simp: same_def)

lemma same_store:
  assumes "same s t"
  shows "store_ok t = store_ok s" "store_key_at t = store_key_at s" "store_model_at t = store_model_at s"
    "policy_for t = policy_for s" "key_usage t = key_usage s" "model_usage t = model_usage s" "usage t = usage s"
    "clock t = clock s"
  by (rule sameE [OF assms]; simp add: store_key_at_def store_model_at_def policy_for_def key_usage_def model_usage_def
      fun_eq_iff Let_def)+

named_theorems reads \<open>operations that change no table\<close>

lemma same_selects [reads]:
  "keeps (same s) (on_keys (only_row P))" "keeps (same s) (on_models (only_row Q))"
  "keeps (same s) (on_models (select_rows Q))" "keeps (same s) (on_policies (only_row R))"
  "keeps (same s) (on_settings (only_row S))"
  by (rule key_tbl.on_tbl_keeps model_tbl.on_tbl_keeps policy_tbl.on_tbl_keeps setting_tbl.on_tbl_keeps;
      simp add: only_row_table select_rows_table)+

lemma same_summarize [reads]: "keeps (same s) (repo_SummarizeUsage f)"
  by (rule keeps_reads) simp_all

lemma same_wrappers [reads]:
  "keeps (same s) m \<Longrightarrow> keeps (same s) (optional m)"
  "keeps (same s) m \<Longrightarrow> keeps (same s) (not_found_as e m)"
  unfolding optional_def not_found_as_def by (intro op_keeps; assumption)+

lemma same_repo [reads]:
  "keeps (same s) (repo_GetAPIKeyByHash h)" "keeps (same s) (repo_GetModelByID m)"
  "keeps (same s) (repo_GetPolicyForKeyModel k m)" "keeps (same s) (repo_GetGatewaySetting key)"
  "keeps (same s) (repo_ListModels limit offset b search)"
  unfolding repo_GetAPIKeyByHash_def repo_GetModelByID_def repo_GetPolicyForKeyModel_def repo_GetGatewaySetting_def
    repo_ListModels_def query_model_def query_policy_def Let_def
  by (intro op_keeps reads)+

lemma same_gateway [reads]:
  "keeps (same s) (gateway_AuthenticateAPIKey plain)" "keeps (same s) (gateway_ValidateModelAccess key m)"
  "keeps (same s) (gateway_CheckAPIKeyTokenQuota tz key now)" "keeps (same s) (gateway_CheckPolicy tz key m now)"
  "keeps (same s) (gateway_GetEffectiveReasoningEffort key e)"
  "keeps (same s) (gateway_GetEffectiveCodexUpstreamStrategy env key)"
  "keeps (same s) (gateway_ListModels limit offset b search)"
  unfolding gateway_AuthenticateAPIKey_def AuthenticateAPIKey_def gateway_ValidateModelAccess_def ValidateModelAccess_def
    gateway_CheckAPIKeyTokenQuota_def CheckAPIKeyTokenQuota_def checkTokenWindow_def gateway_CheckPolicy_def CheckPolicy_def
    checkWindow_def as_rate_limited_def or_now_def gateway_GetEffectiveReasoningEffort_def GetEffectiveReasoningEffort_def
    GetGatewayDefaultReasoningEffort_def gateway_GetEffectiveCodexUpstreamStrategy_def
    GetEffectiveCodexUpstreamStrategy_def GetCodexUpstreamStrategy_def GetCodexUpstreamMode_def
    GetCodexUpstreamFallbackEnabled_def gateway_ListModels_def ListModels_def Let_def
  by (intro op_keeps reads)+

text \<open>A read, run in a world whose store is still as found, tells of the store found.\<close>

definition found :: "'w \<Rightarrow> limiters \<Rightarrow> store \<Rightarrow> 'w gateway_world \<Rightarrow> bool" where
  "found w l s g = (gw_Net g = w \<and> gw_Limiters g = l \<and> same s (gw_Store g))"

lemma read_try:
  assumes "keeps (same s) m" and "\<And>t r. same s t \<Longrightarrow> fst (m t) = r \<Longrightarrow> post (found w l s) (f r) Q"
  shows "post (found w l s) (try_op (db m) f) Q"
proof (rule postI)
  fix g r g' assume g: "found w l s g" and run: "try_op (db m) f g = (r, g')"
  obtain x t where m: "m (gw_Store g) = (x, t)" by fastforce
  have "same s t" by (rule keepsD [OF assms(1) _ m]) (use g in \<open>simp add: found_def\<close>)
  then have "found w l s (g\<lparr>gw_Store := t\<rparr>)" using g by (simp add: found_def)
  moreover have "f x (g\<lparr>gw_Store := t\<rparr>) = (r, g')" using run m by (simp add: try_op_def db_def)
  moreover have "post (found w l s) (f x) Q" using assms(2) [of "gw_Store g" x] g m by (simp add: found_def)
  ultimately show "Q r g'" by (metis postD)
qed

lemma bind_as_try: "bind_op m f = try_op m (\<lambda>r. case r of Inl e \<Rightarrow> fail e | Inr x \<Rightarrow> f x)"
  by (simp add: fun_eq_iff bind_op_def try_op_def split: prod.splits sum.splits)

lemma read_bind:
  assumes "keeps (same s) m" and "\<And>t x. same s t \<Longrightarrow> fst (m t) = Inr x \<Longrightarrow> post (found w l s) (f x) Q"
    and "\<And>e g. found w l s g \<Longrightarrow> Q (Inl e) g"
  shows "post (found w l s) (bind_op (db m) f) Q"
  unfolding bind_as_try
  by (rule read_try [OF assms(1)]) (use assms(2,3) in \<open>auto split: sum.splits intro: post_fail\<close>)

lemma read_time:
  assumes "\<And>t. same s t \<Longrightarrow> post (found w l s) (f (db_now t)) Q"
  shows "post (found w l s) (bind_op (db time_now) f) Q"
proof -
  have eq: "bind_op (db time_now) f = try_op (db time_now) (\<lambda>r. case r of Inl e \<Rightarrow> f 0 | Inr x \<Rightarrow> f x)"
    by (simp add: fun_eq_iff bind_op_def try_op_def db_def time_now_def)
  show ?thesis
    unfolding eq by (rule read_try [OF keeps_time_now]) (use assms in \<open>auto simp: time_now_def\<close>)
qed

lemma read_try_value:
  assumes "keeps (same s) m" "\<And>x. post (found w l s) (f x) Q"
  shows "post (found w l s) (try_op (db m) f) Q"
  by (rule read_try [OF assms])

lemma db_now_eq: "db_now s = clock s (stmts s)"
  by (simp add: db_now_def)

section \<open>The upstream is guarded\<close>

text \<open>Whether a key may use a model: the model is served, not disabled, and among the key's models.\<close>

definition may_use :: "store \<Rightarrow> GatewayAPIKey \<Rightarrow> string \<Rightarrow> bool" where
  "may_use s key m \<longleftrightarrow>
     TrimSpace m = '''' \<or>
     TrimSpace m \<in> CodexModelIDSet \<and> (\<forall>x. store_model_at s (TrimSpace m) = Some x \<longrightarrow> m_Enabled x) \<and>
     (key_AllowedModels key = [] \<or> TrimSpace m \<in> TrimSpace ` set (key_AllowedModels key))"

definition has_quota :: "int \<Rightarrow> store \<Rightarrow> GatewayAPIKey \<Rightarrow> int \<Rightarrow> bool" where
  "has_quota tz s key now \<longleftrightarrow>
     has_room (daily_limits (key_Quotas key)) (totals (key_usage s (key_ID key) (day_start tz now) now)) \<and>
     has_room (weekly_limits (key_Quotas key)) (totals (key_usage s (key_ID key) (weekStart tz (day_start tz now)) now))"

definition below_rates :: "int \<Rightarrow> store \<Rightarrow> GatewayAPIKey \<Rightarrow> string \<Rightarrow> int \<Rightarrow> bool" where
  "below_rates tz s key m now \<longleftrightarrow>
     (\<forall>p. policy_for s (key_ID key) m = Some p \<longrightarrow>
        policy_room tz now p (\<lambda>start. totals (model_usage s (key_ID key) m start now)))"

text \<open>The request is a POST to a proxied path, of a key and for a model that pass every check, at times
  read from the clock.\<close>

definition request_model :: "http_request \<Rightarrow> string" where
  "request_model r = fst (parseRequestModelStreamAndReasoningEffort (rq_Body r))"

definition token_hash :: "http_request \<Rightarrow> string" where
  "token_hash r = hex_encode (sha256 (TrimSpace (NormalizeGatewayBearer (rq_Header r ''Authorization''))))"

definition admitted :: "'w gateway_config \<Rightarrow> store \<Rightarrow> http_request \<Rightarrow> bool" where
  "admitted c s r \<longleftrightarrow>
     rq_Method r = ''POST'' \<and> rq_Path r \<in> set proxy_paths \<and> int (length (rq_Body r)) \<le> maxGatewayRequestBytes \<and>
     (\<exists>key. store_key_at s (token_hash r) = Some key \<and> \<not> key_Disabled key \<and> may_use s key (request_model r) \<and>
        (gc_RateLimitEnabled c \<longrightarrow>
          (\<exists>now \<in> range (clock s). has_quota (gc_TZ c) s key now) \<and>
          (\<exists>now \<in> range (clock s). below_rates (gc_TZ c) s key (request_model r) now)))"

text \<open>What the checks tell about the store.\<close>

lemma authenticated:
  assumes "store_ok s" "fst (gateway_AuthenticateAPIKey plain s) = Inr key"
  shows "store_key_at s (hex_encode (sha256 (TrimSpace plain))) = Some key \<and> \<not> key_Disabled key"
  using repo_GetAPIKeyByHash_eq [OF assms(1)] assms(2)
  by (auto simp: gateway_AuthenticateAPIKey_def AuthenticateAPIKey_def bind_op_def
      split: option.splits if_splits)

lemma access_passed:
  assumes "store_ok s" "fst (gateway_ValidateModelAccess (Some key) m s) = Inr ()"
  shows "may_use s key m"
proof (cases "TrimSpace m = ''''")
  case False
  from gateway_models.access_exact [OF assms(1) this, of "Some key"] assms(2) False show ?thesis
    by (auto simp: may_use_def gateway_ValidateModelAccess_def split: if_splits)
qed (simp add: may_use_def)

lemma quota_passed_room:
  assumes "fst (gateway_CheckAPIKeyTokenQuota tz (Some key) now s) = Inr ()" "0 \<le> now"
  shows "has_quota tz s key now"
proof -
  obtain t where t: "CheckAPIKeyTokenQuota repo_SummarizeUsage time_now tz (Some key) now s = (Inr (), t)"
    using assms(1) unfolding gateway_CheckAPIKeyTokenQuota_def by (metis prod.collapse)
  have "0 < key_ID key" using t by (simp add: CheckAPIKeyTokenQuota_def split: if_splits)
  then show ?thesis
    using key_ledger.quota_passed [OF t windows_not_zero(1) [OF assms(2)]] windows_not_zero [OF assms(2)]
    by (simp add: has_quota_def ledger_key_window)
qed

lemma policy_passed_room:
  assumes "fst (gateway_CheckPolicy tz (Some key) m now s) = Inr ()" "0 \<le> now" "store_ok s"
  shows "below_rates tz s key m now"
proof -
  obtain t where t: "CheckPolicy repo_GetPolicyForKeyModel repo_SummarizeUsage time_now tz (Some key) m now s = (Inr (), t)"
    using assms(1) unfolding gateway_CheckPolicy_def by (metis prod.collapse)
  have "0 < key_ID key" using t by (simp add: CheckPolicy_def split: if_splits)
  then show ?thesis
    using key_policies.policy_passed [OF t assms(3) windows_not_zero(1) [OF assms(2)]] windows_not_zero [OF assms(2)]
    by (auto simp: below_rates_def ledger_policy_window policy_room_def)
qed

lemma same_facts:
  assumes "same s t"
  shows "may_use t = may_use s" "has_quota tz t = has_quota tz s" "below_rates tz t = below_rates tz s"
  by (simp_all add: fun_eq_iff may_use_def has_quota_def below_rates_def same_store [OF assms])

text \<open>The network is as before, or the request was admitted.\<close>

definition guarded :: "'w \<Rightarrow> bool \<Rightarrow> 'a result \<Rightarrow> 'w gateway_world \<Rightarrow> bool" where
  "guarded w a r g = (gw_Net g = w \<or> a)"

lemma guarded_keeps: "keeps (\<lambda>g. gw_Net g = w) m \<Longrightarrow> post (found w l s) m (guarded w a)"
  unfolding keeps_def post_def found_def guarded_def by blast

lemma guarded_admitted: "a \<Longrightarrow> post P m (guarded w a)"
  by (simp add: post_def guarded_def)

lemma db_net [op_keeps]: "keeps (\<lambda>g. gw_Net g = w) (db m)"
  by (simp add: keeps_def db_def split: prod.splits)

lemma keeps_ignore: "keeps P m \<Longrightarrow> keeps P (ignore_op m)"
  unfolding ignore_op_def by (intro op_keeps)

lemma refusals_keep_net:
  "keeps (\<lambda>g. gw_Net g = w) (recordUsage ip r key start item)"
  "keeps (\<lambda>g. gw_Net g = w) (record_request c q item reply)"
  "keeps (\<lambda>g. gw_Net g = w) (refuse c q status err errorType)"
  "keeps (\<lambda>g. gw_Net g = w) (block_request c q err)"
  "keeps (\<lambda>g. gw_Net g = w) (handleModels c r key requestID start)"
  unfolding recordUsage_def record_request_def refuse_def block_request_def handleModels_def Let_def
  by (intro op_keeps keeps_ignore)+

lemma found_guarded: "found w l s g \<Longrightarrow> guarded w a r g"
  by (simp add: found_def guarded_def)

lemma checked_try:
  assumes "keeps (same s) m" "\<And>e. keeps (\<lambda>g. gw_Net g = w) (h e)"
    and "\<And>t x. same s t \<Longrightarrow> fst (m t) = Inr x \<Longrightarrow> post (found w l s) (f x) (guarded w a)"
  shows "post (found w l s) (try_op (db m) (\<lambda>r. case r of Inl e \<Rightarrow> h e | Inr x \<Rightarrow> f x)) (guarded w a)"
  by (rule read_try [OF assms(1)]) (auto split: sum.splits intro: guarded_keeps assms(2,3))

lemma time_is_read: "same s t \<Longrightarrow> db_now t \<in> range (clock s)"
  by (auto simp: db_now_def same_store)

lemma limits_guard:
  assumes "store_ok s" "\<forall>n. 0 \<le> clock s n"
    and "\<And>u. (gc_RateLimitEnabled c \<longrightarrow>
          (\<exists>now \<in> range (clock s). has_quota (gc_TZ c) s (px_Key q) now) \<and>
          (\<exists>now \<in> range (clock s). below_rates (gc_TZ c) s (px_Key q) (px_Model q) now)) \<Longrightarrow> a"
  shows "post (found w l s) (check_limits c q) (guarded w a)"
proof (cases "gc_RateLimitEnabled c")
  case False
  then show ?thesis using assms(3) by (simp add: check_limits_def guarded_admitted)
next
  case True
  have "post (found w l s) (forward_request c q) (guarded w a)"
    if "same s t0" "same s t1" "same s t2" "same s t3"
      "fst (gateway_CheckAPIKeyTokenQuota (gc_TZ c) (Some (px_Key q)) (db_now t0) t1) = Inr ()"
      "fst (gateway_CheckPolicy (gc_TZ c) (Some (px_Key q)) (px_Model q) (db_now t2) t3) = Inr ()" for t0 t1 t2 t3
  proof (rule guarded_admitted, rule assms(3), intro impI conjI)
    have pos: "0 \<le> db_now t0" "0 \<le> db_now t2"
      using assms(2) same_store(8) [OF that(1)] same_store(8) [OF that(3)] by (simp_all add: db_now_def)
    show "\<exists>now \<in> range (clock s). has_quota (gc_TZ c) s (px_Key q) now"
      using quota_passed_room [OF that(5) pos(1)] same_facts(2) [OF that(2)] time_is_read [OF that(1)] by auto
    show "\<exists>now \<in> range (clock s). below_rates (gc_TZ c) s (px_Key q) (px_Model q) now"
      using policy_passed_room [OF that(6) pos(2)] same_store(1) [OF that(4)] same_facts(3) [OF that(4)]
        time_is_read [OF that(3)] assms(1) by auto
  qed
  then show ?thesis
    unfolding check_limits_def if_P [OF True]
    by (intro read_time checked_try reads refusals_keep_net) simp_all
qed

lemma access_guard:
  assumes "store_ok s" "\<forall>n. 0 \<le> clock s n"
    and "may_use s (px_Key q) (px_Model q) \<Longrightarrow> (gc_RateLimitEnabled c \<longrightarrow>
          (\<exists>now \<in> range (clock s). has_quota (gc_TZ c) s (px_Key q) now) \<and>
          (\<exists>now \<in> range (clock s). below_rates (gc_TZ c) s (px_Key q) (px_Model q) now)) \<Longrightarrow> a"
  shows "post (found w l s) (check_access c q) (guarded w a)"
  unfolding check_access_def
proof (intro checked_try reads refusals_keep_net)
  fix t and x :: unit assume "same s t" "fst (gateway_ValidateModelAccess (Some (px_Key q)) (px_Model q) t) = Inr x"
  then have "may_use s (px_Key q) (px_Model q)"
    using access_passed [of t "px_Key q" "px_Model q"] same_store(1) [of s t] same_facts(1) [of s t] assms(1) by simp
  then show "post (found w l s) (check_limits c q) (guarded w a)"
    using assms by (intro limits_guard) auto
qed

lemma proxy_guard:
  assumes "store_ok s" "\<forall>n. 0 \<le> clock s n" "rq_Method r = ''POST''" "rq_Path r \<in> set proxy_paths"
    and "store_key_at s (token_hash r) = Some key" "\<not> key_Disabled key"
  shows "post (found w l s) (handleProxy c r key requestID start) (guarded w (admitted c s r))"
proof -
  have q: "px_Key (proxied r key requestID start m st e) = key" "px_Model (proxied r key requestID start m st e) = m"
    for m st e by (simp_all add: proxied_def)
  show ?thesis
  proof (cases "gc_ReadError c r = None \<and> int (length (rq_Body r)) \<le> maxGatewayRequestBytes")
    case False
    then show ?thesis
      by (auto simp: handleProxy_def split: option.splits intro!: guarded_keeps op_keeps)
  next
    case True
    obtain m st parsed where p: "parseRequestModelStreamAndReasoningEffort (rq_Body r) = (m, st, parsed)"
      by (metis prod.exhaust)
    have m: "request_model r = m" by (simp add: request_model_def p)
    have access: "post (found w l s) (check_access c (proxied r key requestID start m st e)) (guarded w (admitted c s r))" for e
      by (rule access_guard [OF assms(1,2)])
        (use True assms(3-6) m in \<open>auto simp: admitted_def q\<close>)
    have rest: "post (found w l s) (handleProxy c r key requestID start) (guarded w (admitted c s r))
      = post (found w l s) (case parsed of
          Inl err \<Rightarrow> refuse c (proxied r key requestID start m st '''') 400 err effort_error
        | Inr requested \<Rightarrow>
            bind_op (effectiveReasoningEffort (Some key) requested) (\<lambda>effort.
              let q = proxied r key requestID start m st effort
              in if \<not> IsOfficialModelReasoningEffortSupported m effort
                 then refuse c q 400 (ErrText (''unsupported reasoning_effort '' @ effort @ '' for model '' @ m)) effort_error
                 else check_access c q)) (guarded w (admitted c s r))"
      using True by (simp add: handleProxy_def p)
    show ?thesis
    proof (cases parsed)
      case (Inl err)
      then show ?thesis unfolding rest by (auto intro!: guarded_keeps refusals_keep_net)
    next
      case (Inr requested)
      have "post (found w l s) (effectiveReasoningEffort (Some key) requested)
          (either (\<lambda>_. found w l s) (\<lambda>_. found w l s))"
        unfolding effectiveReasoningEffort_def Let_def
        by (rule read_try [OF same_gateway(5)]) (auto intro!: post_ok split: sum.splits)
      then show ?thesis
        unfolding rest Inr Let_def sum.case
        by (rule post_bind) (auto intro!: found_guarded access guarded_keeps refusals_keep_net)
    qed
  qed
qed

text \<open>What holds of every request: of the refusals, of the list of models and of a proxied request.\<close>

lemma serve_post:
  assumes "store_ok s" and refusal: "\<And>x. post (found w l s) (ok x) Q"
    and list: "\<And>key requestID start. store_key_at s (token_hash r) = Some key \<Longrightarrow> \<not> key_Disabled key \<Longrightarrow>
        post (found w l s) (handleModels c r key requestID start) Q"
    and proxy: "\<And>key requestID start. store_key_at s (token_hash r) = Some key \<Longrightarrow> \<not> key_Disabled key \<Longrightarrow>
        rq_Method r = ''POST'' \<Longrightarrow> rq_Path r \<in> set proxy_paths \<Longrightarrow>
        post (found w l s) (handleProxy c r key requestID start) Q"
  shows "post (found w l s) (ServeHTTP c r) Q"
  unfolding ServeHTTP_def Let_def
proof (rule read_time)
  fix t0 assume "same s t0"
  let ?id = "text_or (requestIDFromRequest r) (gc_TraceID c)"
  let ?next = "\<lambda>a. case a of
      Inl err \<Rightarrow> ok (writeGatewayError (gc_ErrorText c) 401 err '''')
    | Inr key \<Rightarrow>
        if rq_Method r = ''GET'' \<and> rq_Path r = ''/v1/models'' then handleModels c r key ?id (db_now t0)
        else if rq_Method r = ''POST'' \<and> rq_Path r \<in> set proxy_paths then handleProxy c r key ?id (db_now t0)
        else ok (writeGatewayError (gc_ErrorText c) 404
          (ErrText (''unsupported gateway path: '' @ rq_Method r @ '' '' @ rq_Path r)) ''unsupported_path'')"
  have authentic: "store_key_at s (token_hash r) = Some key \<and> \<not> key_Disabled key"
    if "same s t" "fst (gateway_AuthenticateAPIKey (NormalizeGatewayBearer (rq_Header r ''Authorization'')) t) = Inr key"
    for t key
    using authenticated [of t _ key, OF _ that(2)] same_store(1,2) [OF that(1)] assms(1) by (simp add: token_hash_def)
  show "post (found w l s) (try_op (authenticate r) ?next) Q"
  proof (cases "NormalizeGatewayBearer (rq_Header r ''Authorization'') = ''''")
    case True
    then show ?thesis using refusal by (simp add: authenticate_def try_op_def post_def)
  next
    case False
    show ?thesis
      unfolding authenticate_def Let_def if_not_P [OF False]
    proof (rule read_try [OF same_gateway(1)])
      fix t x assume "same s t"
        "fst (gateway_AuthenticateAPIKey (NormalizeGatewayBearer (rq_Header r ''Authorization'')) t) = x"
      then show "post (found w l s) (?next x) Q"
        using authentic [of t] by (cases x) (auto intro: refusal list proxy)
    qed
  qed
qed

section \<open>A sample request\<close>

text \<open>A key of a given hash that uses the command line; a network that counts the calls.\<close>

definition cli_row :: "string \<Rightarrow> api_key_row" where
  "cli_row h =
     \<lparr>k_id = 1, k_owner_user_id = None, k_name = ''prod'', k_key_hash = h, k_plain_key = '''', k_key_prefix = ''ogw'',
      k_key_last4 = ''last'', k_disabled = False, k_upstream_strategy = GatewayUpstreamStrategyCodexCLI,
      k_default_reasoning_effort = '''', k_quotas = sample_quotas, k_allowed_models = [], k_last_used_at = None,
      k_created_at = 0, k_updated_at = 0\<rparr>"

definition cli_store :: "string \<Rightarrow> store" where
  "cli_store h = (fresh_store clock0)\<lparr>keys := \<lparr>rows = [cli_row h], seq = 1\<rparr>\<rparr>"

definition counting_config :: "nat gateway_config" where
  "counting_config =
     \<lparr>gc_Env = (\<lambda>_. ''''), gc_TZ = 0, gc_FmtFloat = (\<lambda>_. ''''), gc_RateLimitEnabled = True,
      gc_Shrink = (\<lambda>path body previous keep. Inl (TextError '''')), gc_IO = Inl (ErrText ''''),
      gc_ErrorText = (\<lambda>_. ''''), gc_ClientIP = (\<lambda>_. ''''), gc_TraceID = ''t'', gc_ReadError = (\<lambda>_. None),
      gc_Timeout = ''3m'', gc_Client = (\<lambda>_. flaky_backend 0),
      gc_CLI = (\<lambda>path body model effort n. (Inl Canceled, Suc n)),
      gc_Stream = (\<lambda>request n. (([], []), Suc n)), gc_Wait = (\<lambda>n. ((0, None), n)),
      gc_Write = (\<lambda>n text. (int (length text), None))\<rparr>"

definition cli_call :: http_request where
  "cli_call =
     \<lparr>rq_Method = ''POST'', rq_Path = ''/v1/chat/completions'',
      rq_Header = (\<lambda>k. if k = ''Authorization'' then ''Bearer ogw_x'' else ''''), rq_Body = '''', rq_RemoteAddr = ''''\<rparr>"

definition sample_hash :: string where
  "sample_hash = hex_encode (sha256 ''ogw_x'')"

definition fresh_world :: "store \<Rightarrow> nat gateway_world" where
  "fresh_world s = \<lparr>gw_Store = s, gw_Limiters = \<lparr>InFlight = Map.empty, Bursts = Map.empty\<rparr>, gw_Net = 0\<rparr>"

lemma sample_store_valid: "store_ok (cli_store sample_hash)"
proof -
  have len: "length sample_hash = 64" by (simp add: sample_hash_def)
  have "key_valid (cli_row sample_hash)"
    using len by (auto simp: key_valid_def key_name_valid_def key_secret_valid_def key_options_valid_def max_len_def
        not_empty_def cli_row_def GatewayUpstreamStrategyCodexCLI_def)
  then show ?thesis
    using fresh_store_ok [of clock0]
    by (simp add: store_ok_def cli_store_def tbl_ok_def fresh_store_def cli_row_def)
qed

lemma sample_bearer: "NormalizeGatewayBearer (rq_Header cli_call ''Authorization'') = ''ogw_x''"
  by code_simp

text \<open>The request is served as the proxied request of the one key.\<close>

lemma sample_authenticated:
  "authenticate cli_call (fresh_world (cli_store sample_hash)) =
     (Inr (mapGatewayAPIKey (cli_row sample_hash)), fresh_world ((cli_store sample_hash)\<lparr>stmts := 1\<rparr>))"
proof -
  have t: "TrimSpace ''ogw_x'' = ''ogw_x''" by code_simp
  have "gateway_AuthenticateAPIKey ''ogw_x'' (cli_store sample_hash) =
      (Inr (mapGatewayAPIKey (cli_row sample_hash)), (cli_store sample_hash)\<lparr>stmts := 1\<rparr>)"
    using repo_GetAPIKeyByHash_eq [OF sample_store_valid, of sample_hash]
    by (simp add: gateway_AuthenticateAPIKey_def AuthenticateAPIKey_def BuildGatewayAPIKeySecret_def t Let_def
        store_key_at_def cli_store_def cli_row_def fresh_store_def bind_op_def mapGatewayAPIKey_def sample_hash_def)
  then show ?thesis
    unfolding authenticate_def sample_bearer by (simp add: db_def fresh_world_def)
qed

lemma sample_serve:
  "ServeHTTP counting_config cli_call (fresh_world (cli_store sample_hash)) =
     handleProxy counting_config cli_call (mapGatewayAPIKey (cli_row sample_hash)) ''t'' 0
       (fresh_world ((cli_store sample_hash)\<lparr>stmts := 1\<rparr>))"
proof -
  have "bind_op (db time_now) f (fresh_world (cli_store sample_hash)) = f 0 (fresh_world (cli_store sample_hash))" for f :: "int \<Rightarrow> (nat, client_reply) served"
    by (simp add: bind_op_def db_def time_now_def fresh_world_def db_now_def cli_store_def fresh_store_def clock0_def)
  moreover have "text_or (requestIDFromRequest cli_call) (gc_TraceID counting_config) = ''t''" by code_simp
  moreover have "rq_Method cli_call = ''POST''" "rq_Path cli_call \<in> set proxy_paths" by code_simp+
  ultimately show ?thesis
    unfolding ServeHTTP_def try_op_def sample_authenticated Let_def by (simp add: sample_authenticated)
qed

lemma sample_proxied:
  "case handleProxy counting_config cli_call (mapGatewayAPIKey (cli_row h)) ''t'' 0
       (fresh_world ((cli_store h)\<lparr>stmts := 1\<rparr>)) of
     (r, g) \<Rightarrow> gw_Net g = 1 \<and> length (rows (usage (gw_Store g))) = 1 \<and> r \<noteq> Inr Hanging"
  by code_simp

lemma sample_served:
  "gw_Net (snd (ServeHTTP counting_config cli_call (fresh_world (cli_store sample_hash)))) = 1"
  "length (rows (usage (gw_Store (snd (ServeHTTP counting_config cli_call (fresh_world (cli_store sample_hash))))))) = 1"
  "fst (ServeHTTP counting_config cli_call (fresh_world (cli_store sample_hash))) \<noteq> Inr Hanging"
  unfolding sample_serve using sample_proxied [of sample_hash] unfolding case_prod_beta by blast+

section \<open>The gate\<close>

text \<open>
  C1. The gate. The upstream is reached only by a request that is admitted by the database as it
  was when the request arrived: a POST to a proxied path of at most 90 MiB, whose bearer text
  hashes to a stored key that is not disabled, for a model that is served, not disabled and among
  those of the key, and, with rate limits on, with room in every window of the key's daily and
  weekly quotas and below every limit of its policy. Whatever else arrives, and whichever
  statements fail, the network is left untouched.
\<close>
theorem upstream_guarded:
  assumes "store_ok (gw_Store g)" "\<forall>n. 0 \<le> clock (gw_Store g) n"
    and "gw_Net (snd (ServeHTTP c r g)) \<noteq> gw_Net g"
  shows "admitted c (gw_Store g) r"
proof -
  have "post (found (gw_Net g) (gw_Limiters g) (gw_Store g)) (ServeHTTP c r)
      (guarded (gw_Net g) (admitted c (gw_Store g) r))"
    by (rule serve_post [OF assms(1)])
      (rule guarded_keeps, rule keeps_ok, rule guarded_keeps, rule refusals_keep_net, rule proxy_guard [OF assms(1,2)])
  from postD [OF this, of g] show ?thesis
    using assms(3) by (metis found_def guarded_def prod.collapse same_refl)
qed

theorem upstream_guarded_witness: "admitted counting_config (cli_store sample_hash) cli_call"
proof -
  have "gw_Net (snd (ServeHTTP counting_config cli_call (fresh_world (cli_store sample_hash)))) \<noteq>
      gw_Net (fresh_world (cli_store sample_hash))"
    unfolding sample_served(1) by (simp add: fresh_world_def)
  moreover have "\<forall>n. 0 \<le> clock (cli_store sample_hash) n"
    by (simp add: cli_store_def fresh_store_def clock0_def)
  ultimately show ?thesis
    using upstream_guarded [of "fresh_world (cli_store sample_hash)" counting_config cli_call] sample_store_valid
    by (simp add: fresh_world_def)
qed

end
