(* ===== verification/Accounting.thy ===== *)
theory Accounting
  imports Admission
begin

text \<open>
  The books of a request: at most one row is added to the usage log, for the key of the request,
  with the status the client was told and tokens only for an answer; and the slot of a large
  request is given back, so the counts of the in-flight limiter are as before.
\<close>

section \<open>Operations that do not log\<close>

abbreviation quiet_rows :: "usage_row list \<Rightarrow> store \<Rightarrow> bool" where
  "quiet_rows us s \<equiv> rows (usage s) = us"

definition unlogged :: "usage_row list \<Rightarrow> 'w gateway_world \<Rightarrow> bool" where
  "unlogged us g = quiet_rows us (gw_Store g)"

named_theorems quiet \<open>operations that leave the usage log alone\<close>

lemma quiet_frames [quiet]:
  "keeps (quiet_rows us) (on_keys b1)" "keeps (quiet_rows us) (on_models b2)" "keeps (quiet_rows us) (on_policies b3)"
  "keeps (quiet_rows us) (on_prices b4)" "keeps (quiet_rows us) (on_settings b5)" "keeps (quiet_rows us) (on_rules b6)"
  "keeps (quiet_rows us) (on_events b7)" "keeps (quiet_rows us) (on_audits b8)" "keeps (quiet_rows us) (on_summaries b9)"
  by (rule key_tbl.on_tbl_keeps model_tbl.on_tbl_keeps policy_tbl.on_tbl_keeps price_tbl.on_tbl_keeps
      setting_tbl.on_tbl_keeps rule_tbl.on_tbl_keeps event_tbl.on_tbl_keeps audit_tbl.on_tbl_keeps
      summary_tbl.on_tbl_keeps; simp)+

lemma quiet_reads:
  assumes "\<And>s. keeps (same s) m"
  shows "keeps (quiet_rows us) m"
proof (rule keepsI)
  fix s r t assume "quiet_rows us s" "m s = (r, t)"
  moreover have "same s t" by (rule keepsD [OF assms same_refl \<open>m s = (r, t)\<close>])
  ultimately show "quiet_rows us t" using same_store(7) by metis
qed

lemma quiet_summarize [quiet]: "keeps (quiet_rows us) (repo_SummarizeUsage f)"
  by (rule quiet_reads) (rule reads)

lemma quiet_gateway [quiet]:
  "keeps (quiet_rows us) (gateway_AuthenticateAPIKey plain)" "keeps (quiet_rows us) (gateway_ValidateModelAccess key m)"
  "keeps (quiet_rows us) (gateway_CheckAPIKeyTokenQuota tz key now)" "keeps (quiet_rows us) (gateway_CheckPolicy tz key m now)"
  "keeps (quiet_rows us) (gateway_GetEffectiveReasoningEffort key e)"
  "keeps (quiet_rows us) (gateway_GetEffectiveCodexUpstreamStrategy env key)"
  "keeps (quiet_rows us) (gateway_ListModels limit offset b search)"
  by (rule quiet_reads; rule reads)+

lemma quiet_wrappers [quiet]: "keeps P m \<Longrightarrow> keeps P (optional m)"
  unfolding optional_def by (intro op_keeps)

lemma quiet_writes [quiet]:
  "keeps (quiet_rows us) (gateway_TouchAPIKeyUsed i t)" "keeps (quiet_rows us) (gateway_CreateAuditLog entry)"
  "keeps (quiet_rows us) (gateway_GetModelByID m)" "keeps (quiet_rows us) (gateway_GetContextSummary sid)"
  "keeps (quiet_rows us) (gateway_UpsertContextSummary summary)"
  unfolding gateway_TouchAPIKeyUsed_def TouchAPIKeyUsed_def repo_TouchAPIKeyUsed_def gateway_CreateAuditLog_def
    CreateAuditLog_def repo_CreateAuditLog_def gateway_GetModelByID_def GetModelByID_def repo_GetModelByID_def query_model_def
    gateway_GetContextSummary_def GetContextSummary_def repo_GetContextSummary_def gateway_UpsertContextSummary_def
    UpsertContextSummary_def repo_UpsertContextSummary_def write_summary_def ignore_op_def Let_def
  by (intro op_keeps quiet)+

lemma quiet_prepare [quiet]:
  "keeps (quiet_rows us) (prepareGatewayContext env f shrink key rid sid path body m e options)"
  unfolding prepareGatewayContext_def effectiveGatewayContextPolicy_def previous_summary_def keep_summary_def ignore_op_def
    Let_def
  by (intro op_keeps quiet)+

lemma quiet_db: "keeps (quiet_rows us) m \<Longrightarrow> keeps (unlogged us) (db m)"
  by (rule keepsI) (auto simp: db_def unlogged_def split: prod.splits dest: keepsD)

lemma quiet_net [quiet]: "keeps (unlogged us) (net f)" "keeps (unlogged us) (limited h)"
  by (simp_all add: keeps_def net_def limited_def unlogged_def split: prod.splits)

lemma quiet_time [quiet]: "keeps (unlogged us) (db time_now)"
  by (rule quiet_db) (rule keeps_time_now)

lemma quiet_served [quiet]:
  "keeps (unlogged us) (effectiveReasoningEffort key e)" "keeps (unlogged us) (effectiveCodexUpstream env key)"
  "keeps (unlogged us) (stream_inputs c q x)" "keeps (unlogged us) (authenticate r)"
  unfolding effectiveReasoningEffort_def effectiveCodexUpstream_def stream_inputs_def authenticate_def Let_def
  by (intro op_keeps quiet quiet_db)+

section \<open>The entry of a request\<close>

text \<open>An entry for a key that agrees with what the client was told.\<close>

definition entry_of :: "GatewayAPIKey \<Rightarrow> client_reply result \<Rightarrow> usage_row \<Rightarrow> bool" where
  "entry_of key r row \<longleftrightarrow>
     u_api_key_id row = (if 0 < key_ID key then Some (key_ID key) else None) \<and>
     u_success row = (u_status_code row = 200) \<and>
     (u_success row \<or> u_input_tokens row = 0 \<and> u_output_tokens row = 0 \<and> u_total_tokens row = 0 \<and>
        u_cached_tokens row = 0 \<and> u_reasoning_tokens row = 0) \<and>
     (case r of Inr (Reply status _ _) \<Rightarrow> u_status_code row = status | Inr (Streamed _) \<Rightarrow> True | _ \<Rightarrow> False)"

definition accounted :: "usage_row list \<Rightarrow> GatewayAPIKey \<Rightarrow> client_reply result \<Rightarrow> 'w gateway_world \<Rightarrow> bool" where
  "accounted us key r g \<longleftrightarrow>
     unlogged us g \<or> (\<exists>row. unlogged (us @ [row]) g \<and> entry_of key r row)"

definition item_for :: "GatewayAPIKey \<Rightarrow> client_reply \<Rightarrow> GatewayUsageLog \<Rightarrow> bool" where
  "item_for key reply item \<longleftrightarrow>
     l_APIKeyID item = key_ID key \<and> l_Success item = (l_StatusCode item = 200) \<and>
     (l_Success item \<or> l_InputTokens item = 0 \<and> l_OutputTokens item = 0 \<and> l_TotalTokens item = 0 \<and>
        l_CachedTokens item = 0 \<and> l_ReasoningTokens item = 0) \<and>
     (case reply of Reply status _ _ \<Rightarrow> l_StatusCode item = status | Streamed _ \<Rightarrow> True | Hanging \<Rightarrow> False)"

lemma logged_fields [simp]:
  "u_status_code (logged_row item s) = l_StatusCode item" "u_success (logged_row item s) = l_Success item"
  "u_input_tokens (logged_row item s) = l_InputTokens item" "u_output_tokens (logged_row item s) = l_OutputTokens item"
  "u_cached_tokens (logged_row item s) = l_CachedTokens item"
  "u_reasoning_tokens (logged_row item s) = l_ReasoningTokens item"
  by (simp_all add: logged_row_def usage_row_of_def normalize_usage_log_def Let_def)

lemma item_for_row:
  "item_for key reply item \<Longrightarrow> entry_of key (Inr reply) (logged_row item s)"
  by (cases reply) (auto simp: item_for_def entry_of_def)

lemma CreateUsageLog_any:
  "quiet_rows us (snd (gateway_CreateUsageLog (Some item) s)) \<or>
   quiet_rows (us @ [logged_row item s]) (snd (gateway_CreateUsageLog (Some item) s))"
  if "quiet_rows us s"
proof -
  obtain r s1 where c: "repo_CreateUsageLog (normalize_usage_log item) s = (r, s1)" by fastforce
  have eq: "gateway_CreateUsageLog (Some item) s =
      (case r of Inl e \<Rightarrow> (Inl e, s1) | Inr _ \<Rightarrow> gateway_evaluateAlertRules s1)"
    by (simp add: gateway_CreateUsageLog_def CreateUsageLog_def bind_op_def c)
  show ?thesis
  proof (cases r)
    case (Inl e)
    have "checked (usage_valid (usage_row_of (normalize_usage_log item) (db_now s) 0))
        (bind_op (on_usage (insert_row no_clash (usage_row_of (normalize_usage_log item) (db_now s)))) (\<lambda>_. ok ())) s = (Inl e, s1)"
      using c Inl by (simp add: repo_CreateUsageLog_def)
    then have "usage s1 = usage s"
      by (auto simp: checked_def bind_op_def on_tbl_def db_stmt_def insert_row_def
          no_clash_def Let_def split: if_splits)
    then show ?thesis using eq Inl that by simp
  next
    case (Inr x)
    then have "rows (usage s1) = us @ [logged_row item s]"
      using repo_CreateUsageLog_Inr [of _ s s1] c that by (simp add: logged_row_def)
    moreover have "usage (snd (gateway_evaluateAlertRules s1)) = usage s1"
      by (rule keeps_sndD [OF evaluate_keeps_usage]) simp
    ultimately show ?thesis using eq Inr by simp
  qed
qed

lemma record_usage_entry:
  assumes "item_for key reply item"
  shows "post (unlogged us) (recordUsage ip r key0 start item) (\<lambda>x g. x = Inr () \<and> accounted us key (Inr reply) g)"
proof (rule postI)
  fix g :: "'w gateway_world" and x g'
  assume g: "unlogged us g" and run: "recordUsage ip r key0 start item g = (x, g')"
  define now where "now = db_now (gw_Store g)"
  define sent where "sent = item\<lparr>l_DurationMS := (now - start) div 1000000, l_CreatedAt := now,
      l_ClientType := text_or (l_ClientType item) (DetectGatewayClientType [gatewayClientTypeFromRequest r]),
      l_ClientIP := text_or (l_ClientIP item) (ip r)\<rparr>"
  define s1 where "s1 = snd (gateway_CreateUsageLog (Some sent) (gw_Store g))"
  have time: "bind_op (db time_now) f g = f now g" for f :: "int \<Rightarrow> ('w, unit) served"
    by (simp add: bind_op_def db_def time_now_def now_def)
  have "ignore_op (db (gateway_CreateUsageLog (Some sent))) g = (Inr (), g\<lparr>gw_Store := s1\<rparr>)"
    by (simp add: ignore_op_def try_op_def db_def s1_def split: prod.splits)
  note put_log = bind_op_Inr [where m = "ignore_op (db (gateway_CreateUsageLog (Some sent)))" and s = g, OF this]
  have x: "(x, g') = (if 0 < key_ID key0
      then bind_op (db time_now) (\<lambda>used. ignore_op (db (gateway_TouchAPIKeyUsed (key_ID key0) used))) else ok ())
      (g\<lparr>gw_Store := s1\<rparr>)"
    using run unfolding recordUsage_def time Let_def sent_def [symmetric] put_log by simp
  have "item_for key reply sent" using assms by (cases reply) (auto simp: item_for_def sent_def)
  moreover have "quiet_rows us s1 \<or> quiet_rows (us @ [logged_row sent (gw_Store g)]) s1"
    using CreateUsageLog_any [where us = us and s = "gw_Store g" and item = sent] g by (simp add: s1_def unlogged_def)
  ultimately have s1: "accounted us key (Inr reply) (g\<lparr>gw_Store := s1\<rparr>)"
    unfolding accounted_def using item_for_row by (auto simp: unlogged_def)
  have touch: "keeps (unlogged vs) (if 0 < key_ID key0
      then bind_op (db time_now) (\<lambda>used. ignore_op (db (gateway_TouchAPIKeyUsed (key_ID key0) used)))
      else ok () :: ('w, unit) served)" for vs
    unfolding ignore_op_def by (intro op_keeps quiet quiet_db)
  have "accounted us key (Inr reply) g'"
    using s1 keepsD [OF touch _ x [symmetric]] unfolding accounted_def by blast
  moreover have "x = Inr ()"
    using x by (simp add: bind_op_def db_def time_now_def ignore_op_def try_op_def split: if_splits prod.splits)
  ultimately show "x = Inr () \<and> accounted us key (Inr reply) g'" by simp
qed

lemma record_then:
  assumes "item_for key reply item"
  shows "post (unlogged us) (bind_op (recordUsage ip r key0 start item) (\<lambda>_. ok reply)) (accounted us key)"
proof (rule postI)
  fix g x g' assume g: "unlogged us g" and run: "bind_op (recordUsage ip r key0 start item) (\<lambda>_. ok reply) g = (x, g')"
  obtain y g1 where u: "recordUsage ip r key0 start item g = (y, g1)" by fastforce
  from postD [OF record_usage_entry [OF assms] g u] have "y = Inr ()" "accounted us key (Inr reply) g1" by simp_all
  then show "accounted us key x g'" using run u by simp
qed

lemma record_entry:
  "item_for key reply item \<Longrightarrow> post (unlogged us) (record_request c q item reply) (accounted us key)"
  unfolding record_request_def by (rule record_then)

lemma silent:
  assumes "keeps (unlogged us) m"
  shows "post (unlogged us) m (accounted us key)"
  using assms by (simp add: keeps_def post_def accounted_def)

lemma silent_bind:
  assumes "keeps (unlogged us) m" "\<And>x. post (unlogged us) (f x) (accounted us key)"
  shows "post (unlogged us) (bind_op m f) (accounted us key)"
proof (rule postI)
  fix g r g' assume g: "unlogged us g" and run: "bind_op m f g = (r, g')"
  from run show "accounted us key r g'"
  proof (cases rule: bind_op_cases)
    case (error e)
    then show ?thesis using keepsD [OF assms(1) g] by (auto simp: accounted_def)
  next
    case (normal x g1)
    then show ?thesis using keepsD [OF assms(1) g] postD [OF assms(2)] by blast
  qed
qed

lemma silent_try:
  assumes "keeps (unlogged us) m" "\<And>x. post (unlogged us) (f x) (accounted us key)"
  shows "post (unlogged us) (try_op m f) (accounted us key)"
  by (rule post_try [where M = "\<lambda>_. unlogged us"])
    (use assms in \<open>auto simp: keeps_def post_def\<close>)

text \<open>What happens after the reply changes neither the reply nor the log.\<close>

lemma afterwards:
  assumes "post (unlogged us) m (accounted us key)" "\<And>vs. keeps (unlogged vs) n" "\<And>g. \<exists>x. fst (n g) = Inr x"
  shows "post (unlogged us) (bind_op m (\<lambda>reply. bind_op n (\<lambda>_. ok reply))) (accounted us key)"
proof (rule postI)
  fix g r g' assume g: "unlogged us g" and run: "bind_op m (\<lambda>reply. bind_op n (\<lambda>_. ok reply)) g = (r, g')"
  from run show "accounted us key r g'"
  proof (cases rule: bind_op_cases)
    case (error e)
    then show ?thesis using postD [OF assms(1) g] by blast
  next
    case (normal reply g1)
    have "accounted us key (Inr reply) g1" using postD [OF assms(1) g normal(1)] .
    moreover have "unlogged vs g1 \<Longrightarrow> unlogged vs (snd (n g1))" for vs by (rule keeps_sndD [OF assms(2)])
    moreover have "r = Inr reply" "g' = snd (n g1)"
      using normal(2) assms(3) [of g1] by (auto simp: bind_op_def split: prod.splits sum.splits)
    ultimately show ?thesis unfolding accounted_def by auto
  qed
qed

lemma post_case_option:
  "(x = None \<Longrightarrow> post P m Q) \<Longrightarrow> (\<And>y. x = Some y \<Longrightarrow> post P (f y) Q) \<Longrightarrow>
   post P (case x of None \<Rightarrow> m | Some y \<Rightarrow> f y) Q"
  by (cases x) simp_all

lemma post_case_sum:
  "(\<And>e. x = Inl e \<Longrightarrow> post P (h e) Q) \<Longrightarrow> (\<And>y. x = Inr y \<Longrightarrow> post P (f y) Q) \<Longrightarrow>
   post P (case x of Inl e \<Rightarrow> h e | Inr y \<Rightarrow> f y) Q"
  by (cases x) simp_all

lemma post_case_prod: "(\<And>a b. x = (a, b) \<Longrightarrow> post P (f a b) Q) \<Longrightarrow> post P (case x of (a, b) \<Rightarrow> f a b) Q"
  by (cases x) simp

lemma post_case_applied:
  "(\<And>a b. x = (a, b) \<Longrightarrow> post P (f a b y) Q) \<Longrightarrow> post P ((case x of (a, b) \<Rightarrow> f a b) y) Q"
  by (cases x) simp

lemmas post_cases = post_case_option post_case_sum post_case_prod post_if post_Let

section \<open>The entries of every handler\<close>

lemma log_items:
  "item_for (px_Key q) (Streamed fs) (failed_log q (upstream_status e) errorType mode n d)"
  "item_for (px_Key q) (upstream_reply e errorType) (failed_log q (upstream_status e) errorType' mode n d)"
  "item_for (px_Key q) (Streamed fs) (served_log q mode m n d)"
  "item_for (px_Key q) (Streamed fs) (answered_log q mode result n d)"
  "item_for (px_Key q) (Reply 200 None body) (answered_log q mode result n d)"
  "status \<noteq> 200 \<Longrightarrow> item_for (px_Key q) (writeGatewayErrorResponse status retry message et details) (failed_log q status et mode n d)"
  "status \<noteq> 200 \<Longrightarrow> item_for (px_Key q) (writeGatewayError text status err et) (refused_log q status et)"
  "status \<noteq> 200 \<Longrightarrow> item_for (px_Key q) (writeGatewayError text status err et) (failed_log q status et mode n d)"
  by (simp_all add: item_for_def failed_log_def served_log_def answered_log_def refused_log_def gateway_log_def empty_log_def
      upstream_status_def statusClientClosedRequest_def upstream_reply_def writeGatewayErrorResponse_def writeGatewayError_def)

lemma finish_entry: "post (unlogged us) (finish_stream c q d err st) (accounted us (px_Key q))"
  unfolding finish_stream_def Let_def by (intro post_cases record_entry; simp add: log_items)

lemma stream_entry:
  "post (unlogged us) (handleCodexBackendResponsesStream c q d fb) (accounted us (px_Key q))"
  unfolding handleCodexBackendResponsesStream_def Let_def
  by (intro silent_bind quiet post_cases finish_entry) (rule silent, rule keeps_ok)

lemma answer_entries:
  "post (unlogged us) (stream_answer c q mode d result err writer) (accounted us (px_Key q))"
  "post (unlogged us) (whole_answer c q mode d result err) (accounted us (px_Key q))"
  unfolding stream_answer_def whole_answer_def Let_def
  by (intro post_cases silent_bind quiet record_entry log_items)+

lemma cli_entry: "post (unlogged us) (handleCodexCLIProxy c q d) (accounted us (px_Key q))"
  unfolding handleCodexCLIProxy_def Let_def by (intro silent_bind quiet post_cases answer_entries) (rule post_case_applied, rule answer_entries)

lemma releasing_entry:
  assumes "post (unlogged us) m (accounted us key)"
  shows "post (unlogged us) (releasing slot m) (accounted us key)"
proof (cases slot)
  case None
  then show ?thesis using assms by (simp add: releasing_def)
next
  case (Some k)
  show ?thesis
  proof (rule postI)
    fix g r g' assume g: "unlogged us g" and run: "releasing slot m g = (r, g')"
    obtain x g1 where m: "m g = (x, g1)" by fastforce
    then have "accounted us key x g1" using postD [OF assms g] by blast
    then show "accounted us key r g'" using run m Some
      by (auto simp: releasing_def try_op_def bind_op_def limited_def accounted_def unlogged_def split: if_splits)
  qed
qed

lemma guard_entry: "post (unlogged us) (guard_large_request c q mode fb d) (accounted us (px_Key q))"
  unfolding guard_large_request_def call_upstream_def writeGatewayLargeRequestLimit_def Let_def
  by (intro silent_bind quiet post_cases releasing_entry stream_entry cli_entry record_entry log_items) simp_all

lemma forward_entry: "post (unlogged us) (forward_request c q) (accounted us (px_Key q))"
proof -
  have "post (unlogged us) (guard_large_request c (q\<lparr>px_Body := b\<rparr>) mode fb d) (accounted us (px_Key q))" for b mode fb d
    using guard_entry [of us c "q\<lparr>px_Body := b\<rparr>"] by simp
  then show ?thesis
    unfolding forward_request_def
    by (intro silent_bind quiet quiet_db post_cases record_entry log_items) simp_all
qed

lemma refusal_entries:
  assumes "status \<noteq> 200"
  shows "post (unlogged us) (refuse c q status err et) (accounted us (px_Key q))"
  unfolding refuse_def by (intro record_entry log_items assms)

lemma block_entry: "post (unlogged us) (block_request c q err) (accounted us (px_Key q))"
  unfolding block_request_def
  by (rule afterwards, rule refusal_entries, simp, unfold ignore_op_def, intro op_keeps quiet_db quiet)
    (simp add: try_op_def split: prod.splits)

lemma check_entries:
  "post (unlogged us) (check_limits c q) (accounted us (px_Key q))"
  "post (unlogged us) (check_access c q) (accounted us (px_Key q))"
proof -
  show limits: "post (unlogged us) (check_limits c q) (accounted us (px_Key q))"
    unfolding check_limits_def
    by (intro post_cases silent_bind silent_try quiet quiet_db block_entry forward_entry)
  show "post (unlogged us) (check_access c q) (accounted us (px_Key q))"
    unfolding check_access_def
    by (intro post_cases silent_try quiet quiet_db limits refusal_entries) simp
qed

lemma models_entry: "post (unlogged us) (handleModels c r key requestID start) (accounted us key)"
  unfolding handleModels_def Let_def
  by (intro silent_try quiet quiet_db post_cases record_then;
      simp add: item_for_def gateway_log_def empty_log_def writeGatewayError_def writeGatewayErrorResponse_def)

lemma proxy_entry: "post (unlogged us) (handleProxy c r key requestID start) (accounted us key)"
proof -
  have key: "px_Key (proxied r key requestID start m st e) = key" for m st e by (simp add: proxied_def)
  have "post (unlogged us) (check_access c (proxied r key requestID start m st e)) (accounted us key)"
    and "status \<noteq> 200 \<Longrightarrow>
      post (unlogged us) (refuse c (proxied r key requestID start m st e) status err et) (accounted us key)"
    for m st e status err et
    using check_entries(2) [of us c "proxied r key requestID start m st e"]
      refusal_entries [of status us c "proxied r key requestID start m st e" err et] by (simp_all add: key)
  then show ?thesis
    unfolding handleProxy_def Let_def
    by (intro post_cases silent_bind quiet) (auto intro!: silent keeps_ok)
qed

text \<open>
  C2. The books. A request adds at most one row to the usage log and changes none. The row is the
  authenticated key's; it counts as a success exactly when its status is 200; it carries tokens
  only then; and where the client received a whole reply, the status of the row is the status of
  the reply. A stream that has not ended has no row.
\<close>
theorem one_log_per_request:
  assumes "store_ok (gw_Store g)"
  shows "rows (usage (gw_Store (snd (ServeHTTP c r g)))) = rows (usage (gw_Store g)) \<or>
    (\<exists>key row. rows (usage (gw_Store (snd (ServeHTTP c r g)))) = rows (usage (gw_Store g)) @ [row] \<and>
       store_key_at (gw_Store g) (token_hash r) = Some key \<and> \<not> key_Disabled key \<and>
       entry_of key (fst (ServeHTTP c r g)) row)"
proof -
  let ?s = "gw_Store g" and ?us = "rows (usage (gw_Store g))"
  let ?Q = "\<lambda>x h. unlogged ?us h \<or> (\<exists>key row. unlogged (?us @ [row]) h \<and>
       store_key_at ?s (token_hash r) = Some key \<and> \<not> key_Disabled key \<and> entry_of key x row)"
  have start: "found w l ?s h \<Longrightarrow> unlogged ?us h" for w l h
    using same_store(7) [of ?s "gw_Store h"] by (simp add: found_def unlogged_def)
  have entry: "post (found w l ?s) m ?Q"
    if "post (unlogged ?us) m (accounted ?us key)" "store_key_at ?s (token_hash r) = Some key" "\<not> key_Disabled key"
    for m key w l
    by (rule post_weaken [OF that(1)]) (use start that(2,3) in \<open>auto simp: accounted_def\<close>)
  have "post (found w l ?s) (ServeHTTP c r) ?Q" for w l
    by (rule serve_post [OF assms])
      (rule post_ok, simp add: start, (rule entry, rule models_entry proxy_entry, assumption+)+)
  from postD [OF this [of "gw_Net g" "gw_Limiters g"], of g] show ?thesis
    by (simp add: found_def unlogged_def)
qed

section \<open>The slot of a large request\<close>

definition slots :: "(string \<Rightarrow> int) \<Rightarrow> 'w gateway_world \<Rightarrow> bool" where
  "slots n g = (count_of (InFlight (gw_Limiters g)) = n)"

text \<open>The counts are as before, or the stream still runs and holds one slot.\<close>

definition returned :: "(string \<Rightarrow> int) \<Rightarrow> client_reply result \<Rightarrow> 'w gateway_world \<Rightarrow> bool" where
  "returned n r g \<longleftrightarrow> slots n g \<or> r = Inr Hanging \<and> (\<exists>k. slots (n(k := n k + 1)) g)"

named_theorems keeps_slots \<open>operations that leave the limiters alone\<close>

lemma slots_db [keeps_slots]: "keeps (slots n) (db m)" "keeps (slots n) (net f)"
  by (simp_all add: keeps_def db_def net_def slots_def split: prod.splits)

lemma slots_handlers [keeps_slots]:
  "keeps (slots n) (recordUsage ip r key start item)" "keeps (slots n) (record_request c q item reply)"
  "keeps (slots n) (refuse c q status err et)" "keeps (slots n) (block_request c q err)"
  "keeps (slots n) (handleModels c r key requestID start)"
  "keeps (slots n) (effectiveReasoningEffort key' e)" "keeps (slots n) (effectiveCodexUpstream env key')"
  "keeps (slots n) (stream_inputs c q x)" "keeps (slots n) (finish_stream c q d failed st)"
  "keeps (slots n) (stream_answer c q mode d result failed writer)" "keeps (slots n) (whole_answer c q mode d result failed)"
  "keeps (slots n) (writeGatewayLargeRequestLimit c q mode d limit)"
  unfolding recordUsage_def record_request_def refuse_def block_request_def handleModels_def effectiveReasoningEffort_def
    effectiveCodexUpstream_def stream_inputs_def finish_stream_def stream_answer_def whole_answer_def
    writeGatewayLargeRequestLimit_def ignore_op_def Let_def
  by (intro op_keeps keeps_slots)+

lemma keeps_case_applied:
  "(\<And>a b. x = (a, b) \<Longrightarrow> keeps P (f a b y)) \<Longrightarrow> keeps P ((case x of (a, b) \<Rightarrow> f a b) y)"
  by (cases x) simp

lemma slots_call [keeps_slots]: "keeps (slots n) (call_upstream c q mode fb d)"
proof -
  have "keeps (slots n) (handleCodexBackendResponsesStream c q d fb)"
    unfolding handleCodexBackendResponsesStream_def Let_def by (intro op_keeps keeps_slots)
  moreover have "keeps (slots n) (handleCodexCLIProxy c q d)"
    unfolding handleCodexCLIProxy_def Let_def
    by (intro op_keeps keeps_slots) (rule keeps_case_applied, rule keeps_slots)
  ultimately show ?thesis by (simp add: call_upstream_def)
qed

lemma count_upd:
  "count_of (l(k \<mapsto> x)) = (count_of l)(k := x)" "count_of (l(k := None)) = (count_of l)(k := 0)"
  by (auto simp: count_of_def fun_eq_iff)

lemma taken_and_released:
  assumes "tryAcquire k limit l = ((held, granted), f)" "\<forall>j. 0 \<le> count_of l j"
  shows "count_of f = (if held then (count_of l)(k := count_of l k + 1) else count_of l)"
    and "held \<Longrightarrow> count_of h = count_of f \<Longrightarrow> count_of (release k h) = count_of l"
proof -
  show f: "count_of f = (if held then (count_of l)(k := count_of l k + 1) else count_of l)"
    using assms(1) by (auto simp: tryAcquire_def count_upd split: if_splits)
  assume "held" "count_of h = count_of f"
  then have h: "count_of h = (count_of l)(k := count_of l k + 1)" using f by simp
  then show "count_of (release k h) = count_of l"
    using assms(2) [rule_format, of k] by (auto simp: release_def count_upd fun_eq_iff)
qed

lemma acquire_cases:
  assumes "acquireGatewayLargeRequestSlot env now key path body l = (r, l')"
  obtains (idle) "InFlight l' = InFlight l" "r = Inr None \<or> (\<exists>e. r = Inl e)"
  | (asked) k limit held granted where "tryAcquire k limit (InFlight l) = ((held, granted), InFlight l')"
      "r = (if granted then Inr (if held then Some k else None) else Inl LargeRequestInFlight)"
proof (cases "gatewayLargeRequestNeedsGuard env path body")
  case False
  then show thesis using idle assms by (simp add: acquireGatewayLargeRequestSlot_def)
next
  case True
  let ?k = "gatewayLargeRequestLimiterKey key" and ?limit = "gatewayLargeRequestMaxInFlightPerKey env"
  obtain ok b where b: "allow ?k (gatewayLargeRequestBurstMaxPerKey env) (gatewayLargeRequestBurstWindowPerKey env)
      now now (Bursts l) = (ok, b)" by fastforce
  obtain held granted f where f: "tryAcquire ?k ?limit (InFlight l) = ((held, granted), f)"
    by (metis prod.exhaust)
  show thesis
  proof (cases "ok \<and> 0 < ?limit")
    case False
    then show thesis
      using assms True b by (intro idle) (auto simp: acquireGatewayLargeRequestSlot_def Let_def split: if_splits bool.splits)
  next
    case ok: True
    then have "(r, l') = (if granted then (Inr (if held then Some ?k else None), l\<lparr>Bursts := b, InFlight := f\<rparr>)
        else (Inl LargeRequestInFlight, l\<lparr>Bursts := b, InFlight := f\<rparr>))"
      using assms True b f by (auto simp: acquireGatewayLargeRequestSlot_def Let_def split: bool.splits)
    then show thesis using f by (intro asked) (auto split: if_splits)
  qed
qed

text \<open>The guard gives back what it took.\<close>

lemma limited_bind: "bind_op (limited h) f g = f (fst (h (gw_Limiters g))) (g\<lparr>gw_Limiters := snd (h (gw_Limiters g))\<rparr>)"
  by (simp add: bind_op_def limited_def split: prod.splits)

lemma slot_taken:
  assumes "acquireGatewayLargeRequestSlot env now key path body l = (Inr slot, l')" "\<forall>j. 0 \<le> count_of (InFlight l) j"
  shows "(slot = None \<and> count_of (InFlight l') = count_of (InFlight l)) \<or>
    (\<exists>k. slot = Some k \<and> count_of (InFlight l') = (count_of (InFlight l))(k := count_of (InFlight l) k + 1) \<and>
       (\<forall>h. count_of h = count_of (InFlight l') \<longrightarrow> count_of (release k h) = count_of (InFlight l)))"
  using assms(1)
proof (cases rule: acquire_cases)
  case (asked k limit held granted)
  note t = taken_and_released [OF asked(1) assms(2)]
  show ?thesis
  proof (cases held)
    case True
    then have "slot = Some k" using asked(2) by (simp split: if_splits)
    then show ?thesis using t True by auto
  next
    case False
    then show ?thesis using t(1) asked(2) by (simp split: if_splits)
  qed
qed simp_all

lemma slot_refused:
  assumes "acquireGatewayLargeRequestSlot env now key path body l = (Inl e, l')"
  shows "count_of (InFlight l') = count_of (InFlight l)"
  using assms
proof (cases rule: acquire_cases)
  case (asked k limit held granted)
  then show ?thesis by (auto simp: tryAcquire_def split: if_splits)
qed simp_all

lemma slots_guard:
  assumes "\<forall>j. 0 \<le> n j"
  shows "post (slots n) (guard_large_request c q mode fb d) (returned n)"
proof (rule postI)
  fix g r g' assume g: "slots n g" and run: "guard_large_request c q mode fb d g = (r, g')"
  define now where "now = db_now (gw_Store g)"
  obtain x l' where a: "acquireGatewayLargeRequestSlot (gc_Env c) now (Some (px_Key q)) (px_Path q) (px_Body q)
      (gw_Limiters g) = (x, l')" by fastforce
  have n: "count_of (InFlight (gw_Limiters g)) = n" using g by (simp add: slots_def)
  define d' where "d' = (if d_RequestBytes d = 0 then gatewayUsageDiagnosticForRequest (px_Path q) (px_Body q) (px_Effort q) else d)"
  have time: "bind_op (db time_now) f g = f now g" for f :: "int \<Rightarrow> ('a, client_reply) served"
    by (simp add: bind_op_def db_def time_now_def now_def)
  have eq: "(r, g') = (case x of Inl err \<Rightarrow> writeGatewayLargeRequestLimit c q mode d' err
      | Inr held \<Rightarrow> releasing held (call_upstream c q mode fb d)) (g\<lparr>gw_Limiters := l'\<rparr>)"
    using run unfolding guard_large_request_def time limited_bind a d'_def by simp
  show "returned n r g'"
  proof (cases x)
    case (Inl e)
    then have "slots n (g\<lparr>gw_Limiters := l'\<rparr>)" using slot_refused a n by (simp add: slots_def)
    moreover have "writeGatewayLargeRequestLimit c q mode d' e (g\<lparr>gw_Limiters := l'\<rparr>) = (r, g')" using eq Inl by simp
    ultimately have "slots n g'" by (rule keepsD [OF slots_handlers(12)])
    then show ?thesis by (simp add: returned_def)
  next
    case (Inr slot)
    obtain y g1 where call: "call_upstream c q mode fb d (g\<lparr>gw_Limiters := l'\<rparr>) = (y, g1)" by fastforce
    have "\<forall>j. 0 \<le> count_of (InFlight (gw_Limiters g)) j" using assms n by simp
    from slot_taken [OF a [unfolded Inr] this] show ?thesis
    proof (elim disjE conjE exE)
      assume "slot = None" "count_of (InFlight l') = count_of (InFlight (gw_Limiters g))"
      then show ?thesis
        using keepsD [OF slots_call _ call, of n] eq Inr call n by (simp add: slots_def releasing_def returned_def)
    next
      fix k assume k: "slot = Some k"
        "count_of (InFlight l') = (count_of (InFlight (gw_Limiters g)))(k := count_of (InFlight (gw_Limiters g)) k + 1)"
        "\<forall>h. count_of h = count_of (InFlight l') \<longrightarrow> count_of (release k h) = count_of (InFlight (gw_Limiters g))"
      have g1: "slots (n(k := n k + 1)) g1"
        using keepsD [OF slots_call _ call, of "n(k := n k + 1)"] k(2) n by (simp add: slots_def)
      show ?thesis
        using eq Inr call k g1 n
        by (auto simp: releasing_def try_op_def bind_op_def limited_def returned_def slots_def split: if_splits)
    qed
  qed
qed

lemma kept: "keeps (slots n) m \<Longrightarrow> post (slots n) m (returned n)"
  by (simp add: keeps_def post_def returned_def)

lemma kept_bind:
  assumes "keeps (slots n) m" "\<And>x. post (slots n) (f x) (returned n)"
  shows "post (slots n) (bind_op m f) (returned n)"
proof (rule postI)
  fix g r g' assume g: "slots n g" and run: "bind_op m f g = (r, g')"
  from run show "returned n r g'"
  proof (cases rule: bind_op_cases)
    case (error e)
    then show ?thesis using keepsD [OF assms(1) g] by (auto simp: returned_def)
  next
    case (normal x g1)
    then show ?thesis using keepsD [OF assms(1) g] postD [OF assms(2)] by blast
  qed
qed

lemma kept_try:
  assumes "keeps (slots n) m" "\<And>x. post (slots n) (f x) (returned n)"
  shows "post (slots n) (try_op m f) (returned n)"
  by (rule post_try [where M = "\<lambda>_. slots n"]) (use assms in \<open>auto simp: keeps_def post_def\<close>)

lemma slots_proxy:
  assumes n: "\<forall>j. 0 \<le> n j"
  shows "post (slots n) (handleProxy c r key requestID start) (returned n)"
proof -
  have forward: "post (slots n) (forward_request c q) (returned n)" for q
    unfolding forward_request_def
    by (intro kept_bind keeps_slots post_cases slots_guard n kept)
  have limits: "post (slots n) (check_limits c q) (returned n)" for q
    unfolding check_limits_def by (intro post_cases kept_bind kept_try keeps_slots forward) (rule kept, rule keeps_slots)+
  have "post (slots n) (check_access c q) (returned n)" for q
    unfolding check_access_def by (intro post_cases kept_try keeps_slots limits) (rule kept, rule keeps_slots)
  then show ?thesis
    unfolding handleProxy_def Let_def
    by (intro post_cases kept_bind keeps_slots) (auto intro!: kept keeps_ok keeps_slots)
qed

text \<open>
  C24. The slot of a large request is given back on every path, error paths included: after a
  request the counts of the in-flight limiter are as before it, unless its stream still runs;
  then at most one count is one higher.
\<close>
theorem slot_given_back:
  assumes "\<forall>k. 0 \<le> count_of (InFlight (gw_Limiters g)) k"
  shows "count_of (InFlight (gw_Limiters (snd (ServeHTTP c r g)))) = count_of (InFlight (gw_Limiters g)) \<or>
    fst (ServeHTTP c r g) = Inr Hanging \<and>
    (\<exists>k. count_of (InFlight (gw_Limiters (snd (ServeHTTP c r g)))) =
       (count_of (InFlight (gw_Limiters g)))(k := count_of (InFlight (gw_Limiters g)) k + 1))"
proof -
  let ?n = "count_of (InFlight (gw_Limiters g))"
  have "keeps (slots ?n) (authenticate r)"
    unfolding authenticate_def Let_def by (intro op_keeps keeps_slots)
  then have "post (slots ?n) (ServeHTTP c r) (returned ?n)"
    unfolding ServeHTTP_def Let_def
    by (intro kept_bind kept_try keeps_slots post_cases slots_proxy assms) (auto intro!: kept keeps_ok keeps_slots)
  from postD [OF this, of g] show ?thesis
    by (simp add: slots_def returned_def)
qed

section \<open>Instances\<close>

theorem one_log_per_request_witness:
  "\<exists>key row. rows (usage (gw_Store (snd (ServeHTTP counting_config cli_call (fresh_world (cli_store sample_hash)))))) = [row] \<and>
     entry_of key (fst (ServeHTTP counting_config cli_call (fresh_world (cli_store sample_hash)))) row"
proof -
  have "rows (usage (gw_Store (snd (ServeHTTP counting_config cli_call (fresh_world (cli_store sample_hash)))))) \<noteq> []"
    using sample_served(2) by auto
  moreover have "rows (usage (gw_Store (fresh_world (cli_store sample_hash)))) = []"
    by (simp add: fresh_world_def cli_store_def fresh_store_def empty_tbl_def)
  ultimately show ?thesis
    using one_log_per_request [of "fresh_world (cli_store sample_hash)" counting_config cli_call] sample_store_valid
    by (auto simp: fresh_world_def)
qed

theorem slot_given_back_witness:
  "count_of (InFlight (gw_Limiters (snd (ServeHTTP counting_config cli_call (fresh_world (cli_store sample_hash)))))) = (\<lambda>_. 0)"
proof -
  have 0: "count_of (InFlight (gw_Limiters (fresh_world (cli_store sample_hash)))) = (\<lambda>_. 0)"
    by (simp add: fresh_world_def count_of_def fun_eq_iff)
  show ?thesis
    using sample_served(3) slot_given_back [of "fresh_world (cli_store sample_hash)" counting_config cli_call] 0 by auto
qed

end
