(* ===== verification/GoRunes.thy ===== *)
theory GoRunes
  imports Json
begin

text \<open>
  More of Go's \<open>strings\<close>, for texts that are cut and searched: the runes of a text, cutting at a
  number of runes, splitting, replacing, the white space and quotes around a text, and the two
  regular expressions of internal/server/gateway\_context\_compaction.go as scanners. A scanner
  gives the length of the match at the front of a text; the expressions take the first
  alternative that matches and the longest run of each class.
\<close>

section \<open>Runes\<close>

text \<open>\<open>[]rune(s)\<close>, each rune as its encoding: an invalid byte becomes U+FFFD.\<close>

function runes :: "string \<Rightarrow> string list" where
  "runes s =
     (if s = '''' then []
      else (if rune_width s = 1 \<and> 0x80 \<le> (of_char (hd s) :: nat) then replacement else take (rune_width s) s) #
           runes (drop (rune_width s) s))"
  by pat_completeness auto
termination by (relation "measure length") (simp_all add: rune_width_pos)

declare runes.simps [simp del]

lemma runes_Nil [simp]: "runes '''' = []"
  by (simp add: runes.simps)

text \<open>\<open>limitRunes\<close>, \<open>tailText\<close>\<close>

definition limitRunes :: "string \<Rightarrow> nat \<Rightarrow> string" where
  "limitRunes text n = concat (take n (runes (TrimSpace text)))"

definition last_n :: "nat \<Rightarrow> 'a list \<Rightarrow> 'a list" where
  "last_n n xs = drop (length xs - n) xs"

definition tailText :: "string \<Rightarrow> nat \<Rightarrow> string" where
  "tailText text n = concat (last_n n (runes (TrimSpace text)))"

lemma length_last_n [simp]: "length (last_n n xs) = min n (length xs)"
  by (simp add: last_n_def)

lemma last_n_id: "length xs \<le> n \<Longrightarrow> last_n n xs = xs"
  by (simp add: last_n_def)

lemma set_last_n: "set (last_n n xs) \<subseteq> set xs"
  by (simp add: last_n_def set_drop_subset)

lemma distinct_last_n: "distinct xs \<Longrightarrow> distinct (last_n n xs)"
  by (simp add: last_n_def)

lemma last_last_n: "0 < n \<Longrightarrow> xs \<noteq> [] \<Longrightarrow> last (last_n n xs) = last xs"
  by (simp add: last_n_def last_drop)

section \<open>Splitting and replacing\<close>

text \<open>\<open>strings.Split\<close> at a byte; \<open>strings.Replace\<close> of the first occurrence; \<open>strings.LastIndex\<close>.\<close>

fun split_on :: "char \<Rightarrow> string \<Rightarrow> string list" where
  "split_on c [] = ['''']"
| "split_on c (x # xs) =
     (case split_on c xs of
        [] \<Rightarrow> []
      | l # ls \<Rightarrow> if x = c then '''' # l # ls else (x # l) # ls)"

lemma split_on_nonempty [simp]: "split_on c s \<noteq> []"
  by (induction s) (auto split: list.splits)

lemma join_split_on: "join_with [c] (split_on c s) = s"
proof (induction s)
  case (Cons x xs)
  obtain l ls where s: "split_on c xs = l # ls" by (cases "split_on c xs") simp_all
  with Cons show ?case by (cases ls) auto
qed simp

definition replace_first :: "string \<Rightarrow> string \<Rightarrow> string \<Rightarrow> string" where
  "replace_first s old new =
     (case index_of s old of None \<Rightarrow> s | Some n \<Rightarrow> take n s @ new @ drop (n + length old) s)"

definition last_index_of :: "string \<Rightarrow> string \<Rightarrow> nat option" where
  "last_index_of s sub =
     map_option (\<lambda>n. length s - n - length sub) (index_of (rev s) (rev sub))"

text \<open>\<open>strings.IndexAny\<close> and \<open>strings.LastIndexAny\<close> over the runes \<open>rs\<close>; \<open>strings.Trim\<close> with them.\<close>

fun index_any :: "string list \<Rightarrow> string \<Rightarrow> nat option" where
  "index_any rs [] = None"
| "index_any rs (c # cs) =
     (if \<exists>r \<in> set rs. has_prefix (c # cs) r then Some 0 else map_option Suc (index_any rs cs))"

fun last_index_any :: "string list \<Rightarrow> string \<Rightarrow> nat option" where
  "last_index_any rs [] = None"
| "last_index_any rs (c # cs) =
     (case last_index_any rs cs of
        Some n \<Rightarrow> Some (Suc n)
      | None \<Rightarrow> if \<exists>r \<in> set rs. has_prefix (c # cs) r then Some 0 else None)"

definition trim_runes :: "string list \<Rightarrow> string \<Rightarrow> string" where
  "trim_runes rs s = rev (trim_front (map rev rs) (rev (trim_front rs s)))"

section \<open>Scanning\<close>

text \<open>\<open>FindAllString\<close>: the matches from left to right, none of them empty.\<close>

function find_all :: "(string \<Rightarrow> nat) \<Rightarrow> string \<Rightarrow> string list" where
  "find_all m s =
     (if s = '''' then []
      else if m s = 0 then find_all m (tl s)
      else take (m s) s # find_all m (drop (m s) s))"
  by pat_completeness auto
termination by (relation "measure (length \<circ> snd)") auto

declare find_all.simps [simp del, go_eval]

definition is_letter :: "char \<Rightarrow> bool" where
  "is_letter c = (byte_in 0x41 0x5A c \<or> byte_in 0x61 0x7A c)"

definition is_word :: "char \<Rightarrow> bool" where
  "is_word c = (is_letter c \<or> is_digit c \<or> c = CHR ''_'')"

text \<open>
  The pattern of facts, \<open>FACT_\<close>, a name, an equals sign and a value, in any letter case; in that
  mode the class of letters also has the long s and the Kelvin sign. \<open>fact_run extra s\<close> is the
  length of the run of the class.
\<close>

function fact_run :: "(char \<Rightarrow> bool) \<Rightarrow> string \<Rightarrow> nat" where
  "fact_run extra [] = 0"
| "fact_run extra (c # cs) =
     (if is_letter c \<or> is_digit c \<or> c = CHR ''_'' \<or> c = CHR ''-'' \<or> extra c then 1 + fact_run extra cs
      else if has_prefix (c # cs) [CHR 0xC5, CHR 0xBF] then 2 + fact_run extra (drop 1 cs)
      else if has_prefix (c # cs) [CHR 0xE2, CHR 0x84, CHR 0xAA] then 3 + fact_run extra (drop 2 cs)
      else 0)"
  by pat_completeness auto
termination by (relation "measure (length \<circ> snd)") auto

definition fact_prefix :: "string \<Rightarrow> nat" where
  "fact_prefix s =
     (if \<not> has_prefix (map lower_byte (take 5 s)) ''fact_'' then 0
      else let n = fact_run (\<lambda>_. False) (drop 5 s); r = drop (5 + n) s;
               v = fact_run (\<lambda>c. c = CHR ''.'' \<or> c = CHR '':'') (tl r)
           in if n = 0 \<or> \<not> has_prefix r ''='' \<or> v = 0 then 0 else 5 + n + 1 + v)"

text \<open>A fact does not start within a word; \<open>w\<close> says whether the byte before is part of one.\<close>

function find_facts :: "bool \<Rightarrow> string \<Rightarrow> string list" where
  "find_facts w s =
     (if s = '''' then []
      else if w \<or> fact_prefix s = 0 then find_facts (is_word (hd s)) (tl s)
      else take (fact_prefix s) s # find_facts (is_word (last (take (fact_prefix s) s))) (drop (fact_prefix s) s))"
  by pat_completeness auto
termination by (relation "measure (length \<circ> snd)") auto

declare find_facts.simps [simp del, go_eval]

text \<open>The pattern of file names: a Windows path, an absolute path, a relative path.\<close>

definition path_char :: "char \<Rightarrow> bool" where
  "path_char c = (is_word c \<or> c = CHR ''.'' \<or> c = CHR ''-'')"

definition windows_path :: "string \<Rightarrow> nat" where
  "windows_path s =
     (case s of
        a # b # c # r \<Rightarrow>
          let n = length (takeWhile (\<lambda>c. c \<notin> set [CHR 0x09, CHR 0x0A, CHR 0x0C, CHR 0x0D, CHR '' '', CHR 0x22,
                    CHR 0x27, CHR ''<'', CHR ''>'', CHR ''|'']) r)
          in if is_letter a \<and> b = CHR '':'' \<and> c = CHR 0x5C \<and> n \<noteq> 0 then 3 + n else 0
      | _ \<Rightarrow> 0)"

text \<open>The length of a sequence of segments with single slashes between them.\<close>

function segments_run :: "string \<Rightarrow> nat" where
  "segments_run s =
     (let n = length (takeWhile path_char s); r = drop n s; m = (if r = [] then 0 else segments_run (tl r))
      in if n = 0 then 0
         else if has_prefix r ''/'' \<and> m \<noteq> 0 then n + 1 + m
         else n)"
  by pat_completeness auto
termination by (relation "measure length") auto

declare segments_run.simps [simp del, go_eval]

definition absolute_path :: "string \<Rightarrow> nat" where
  "absolute_path s =
     (if \<not> has_prefix s ''/'' then 0
      else let n = length (takeWhile path_char (tl s)); r = drop n (tl s); m = segments_run (tl r)
           in if n \<noteq> 0 \<and> has_prefix r ''/'' \<and> m \<noteq> 0 then 1 + n + 1 + m else 0)"

definition relative_path :: "string \<Rightarrow> nat" where
  "relative_path s =
     (let n = length (takeWhile path_char s); r = drop n s;
          m = length (takeWhile (\<lambda>c. path_char c \<or> c = CHR ''/'') (tl r))
      in if n \<noteq> 0 \<and> has_prefix r ''/'' \<and> m \<noteq> 0 then n + 1 + m else 0)"

definition path_prefix :: "string \<Rightarrow> nat" where
  "path_prefix s =
     (if windows_path s \<noteq> 0 then windows_path s
      else if absolute_path s \<noteq> 0 then absolute_path s
      else relative_path s)"

section \<open>Well-formed runes\<close>

text \<open>The encoding of one rune.\<close>

definition rune :: "string \<Rightarrow> bool" where
  "rune r \<longleftrightarrow> r \<noteq> '''' \<and> rune_width r = length r \<and> (length r = 1 \<longrightarrow> (of_char (hd r) :: nat) < 0x80)"

lemma lead_width_ascii: "(of_char a :: nat) < 0x80 \<Longrightarrow> lead_width a = 1"
  by (simp add: lead_width_def byte_in_def)

lemma rune_width_ascii: "(of_char a :: nat) < 0x80 \<Longrightarrow> rune_width (a # s) = 1"
  by (simp add: lead_width_ascii)

lemma replacement_bytes: "replacement = [CHR 0xEF, CHR 0xBF, CHR 0xBD]"
  by (simp add: replacement_def utf8_encode_def byte_of_def char_of_eq_iff take_bit_eq_mod)

lemma rune_replacement [simp]: "rune replacement"
  unfolding replacement_bytes rune_def by (simp add: lead_width_def byte_in_def second_byte_ok_def)

lemma rune_width_le: "rune_width s \<le> length s"
  by (cases s) (auto simp: Let_def lead_width_def)

lemma rune_width_append: "rune r \<Longrightarrow> rune_width (r @ t) = length r"
proof (cases r)
  case (Cons a s)
  assume r: "rune r"
  show ?thesis
  proof (cases "length r = 1")
    case True
    then show ?thesis using r Cons by (simp add: rune_def lead_width_ascii)
  next
    case False
    then have "length s = lead_width a - 1" "lead_width a = length r"
      using r Cons by (auto simp: rune_def Let_def split: if_splits)
    then show ?thesis using r Cons False by (auto simp: rune_def Let_def split: if_splits)
  qed
qed (simp add: rune_def)

lemma rune_take:
  assumes "s \<noteq> ''''" "\<not> (rune_width s = 1 \<and> 0x80 \<le> (of_char (hd s) :: nat))"
  shows "rune (take (rune_width s) s)"
proof -
  obtain a t where s: "s = a # t" using assms(1) by (cases s) simp_all
  have l: "length (take (rune_width s) s) = rune_width s" using rune_width_le by simp
  have "rune_width (take (rune_width s) s) = rune_width s"
  proof (cases "rune_width s = 1")
    case True
    then have "(of_char a :: nat) < 0x80" using assms(2) s by simp
    then show ?thesis using True s by (simp add: lead_width_ascii)
  next
    case False
    then have "rune_width s = lead_width a" using s by (auto simp: Let_def split: if_splits)
    then show ?thesis using False s by (cases "lead_width a") (auto simp: Let_def split: if_splits)
  qed
  then show ?thesis using assms l s rune_width_pos [OF assms(1)]
    by (cases "rune_width s") (auto simp: rune_def)
qed

lemma runes_append: "rune r \<Longrightarrow> runes (r @ t) = r # runes t"
proof -
  assume r: "rune r"
  then have "r @ t \<noteq> ''''" "hd (r @ t) = hd r" by (auto simp: rune_def)
  then show ?thesis using r
    by (subst runes.simps) (auto simp: rune_width_append rune_def)
qed

lemma set_runes: "r \<in> set (runes s) \<Longrightarrow> rune r"
proof (induction s rule: runes.induct)
  case (1 s)
  show ?case
  proof (cases "s = ''''")
    case False
    then have "r = (if rune_width s = 1 \<and> 0x80 \<le> (of_char (hd s) :: nat) then replacement else take (rune_width s) s) \<or>
        r \<in> set (runes (drop (rune_width s) s))"
      using "1.prems" by (subst (asm) runes.simps) simp
    then show ?thesis using rune_take [OF False] "1.IH" [OF False] by (auto split: if_splits)
  qed (use 1 in simp)
qed

lemma runes_concat: "\<forall>r \<in> set rs. rune r \<Longrightarrow> runes (concat rs) = rs"
  by (induction rs) (auto simp: runes_append)

lemma runes_take [simp]: "runes (concat (take n (runes s))) = take n (runes s)"
  by (rule runes_concat) (meson in_set_takeD set_runes)

lemma rune_count_runes: "rune_count s = length (runes s)"
proof (induction s rule: runes.induct)
  case (1 s)
  then show ?case by (subst runes.simps, subst rune_count.simps) simp
qed

text \<open>A text with its invalid bytes replaced.\<close>

definition to_utf8 :: "string \<Rightarrow> string" where
  "to_utf8 s = concat (runes s)"

lemma runes_to_utf8 [simp]: "runes (to_utf8 s) = runes s"
  unfolding to_utf8_def by (rule runes_concat) (simp add: set_runes)

lemma to_utf8_idem [simp]: "to_utf8 (to_utf8 s) = to_utf8 s"
  by (subst to_utf8_def) (simp, simp add: to_utf8_def)

lemma to_utf8_limit [simp]: "to_utf8 (limitRunes s n) = limitRunes s n"
  by (simp add: limitRunes_def to_utf8_def)

lemma limit_runes_bound: "rune_count (limitRunes s n) \<le> n"
  by (simp add: limitRunes_def rune_count_runes)

lemma tail_runes_bound: "rune_count (tailText s n) \<le> n"
proof -
  have "runes (concat (last_n n (runes (TrimSpace s)))) = last_n n (runes (TrimSpace s))"
    by (rule runes_concat) (meson set_last_n set_runes subsetD)
  then show ?thesis by (simp add: tailText_def rune_count_runes)
qed

lemma runes_utf8_append: "runes (to_utf8 a @ b) = runes a @ runes b"
proof -
  have "\<forall>r \<in> set rs. rune r \<Longrightarrow> runes (concat rs @ b) = rs @ runes b" for rs
    by (induction rs) (auto simp: runes_append)
  then show ?thesis unfolding to_utf8_def by (simp add: set_runes)
qed

lemma ascii_runes: "list_all (\<lambda>c. (of_char c :: nat) < 0x80) s \<Longrightarrow> runes s = map (\<lambda>c. [c]) s"
proof (induction s)
  case (Cons c s)
  then have "rune [c]" by (simp add: rune_def lead_width_ascii)
  then show ?case using Cons runes_append [of "[c]" s] by simp
qed simp

section \<open>Occurrences\<close>

lemma contains_iff: "contains s sub \<longleftrightarrow> (\<exists>p q. s = p @ sub @ q)"
proof (induction s)
  case Nil
  then show ?case by (simp add: contains_def)
next
  case (Cons c cs)
  have step: "contains (c # cs) sub \<longleftrightarrow> has_prefix (c # cs) sub \<or> contains cs sub"
    by (simp add: contains_def)
  have "(\<exists>p q. c # cs = p @ sub @ q) \<longleftrightarrow> (\<exists>q. c # cs = sub @ q) \<or> (\<exists>p q. cs = p @ sub @ q)" (is "?l \<longleftrightarrow> ?r")
  proof
    assume ?l
    then obtain p q where "c # cs = p @ sub @ q" by blast
    then show ?r by (cases p) auto
  next
    assume ?r
    then show ?l
    proof
      assume "\<exists>q. c # cs = sub @ q"
      then obtain q where "c # cs = [] @ sub @ q" by auto
      then show ?l by blast
    next
      assume "\<exists>p q. cs = p @ sub @ q"
      then obtain p q where "c # cs = (c # p) @ sub @ q" by auto
      then show ?l by blast
    qed
  qed
  then show ?case by (simp only: step has_prefix_iff Cons.IH)
qed

lemma contains_part:
  assumes "contains s (a @ b @ c)"
  shows "contains s b"
proof -
  obtain p q where "s = (p @ a) @ b @ (c @ q)" using assms unfolding contains_iff by auto
  then show ?thesis unfolding contains_iff by blast
qed

lemma contains_set: "contains s sub \<Longrightarrow> set sub \<subseteq> set s"
  by (auto simp: contains_iff)

end
