(* ===== verification/RestoreState.thy ===== *)
theory RestoreState
  imports GoRunes Upstream
begin

text \<open>
  The summary a long conversation is cut down to (the lower half of
  internal/server/gateway\_context\_compaction.go): the segments of text that were cut out are
  searched line by line for what the user asked, allowed and forbade, and the findings become
  a JSON object, the restore state, in which the next compaction looks for its facts. The markers
  that are searched for are Chinese and English; the Chinese ones are written as their bytes.
\<close>

section \<open>Data\<close>

record gatewayContextTextSegment =
  sg_Label :: string
  sg_Role :: string
  sg_Text :: string

record gatewayContextRestoreNextAction =
  na_Type :: string
  na_Description :: string
  na_RequiresConfirmation :: bool

text \<open>A nil list and an empty one are written differently; only one field can be nil.\<close>

record gatewayContextRestoreState =
  rs_SchemaVersion :: string
  rs_CurrentUserGoal :: string
  rs_CurrentActiveGoal :: string
  rs_LatestUserInstruction :: string
  rs_LatestUncompressedUserInstruction :: string
  rs_DurableFacts :: "string list"
  rs_PinnedRawUserDirectives :: "string list"
  rs_CurrentEffectiveConstraints :: "string list"
  rs_MustNotDo :: "string list option"
  rs_AllowedActions :: "string list"
  rs_RequiresUserConfirmationBefore :: "string list"
  rs_CurrentTaskPhase :: string
  rs_CompletedWork :: "string list"
  rs_RemainingWork :: "string list"
  rs_NextAction :: gatewayContextRestoreNextAction
  rs_Uncertainties :: "string list"
  rs_HistoricalContextOnly :: "string list"
  rs_ObsoleteOrSupersededGoals :: "string list"
  rs_ObsoleteOrSupersededConstraints :: "string list"
  rs_RestoreAudit :: "string list"
  rs_Source :: string

definition defaultGatewayContextSummaryMaxRunes :: nat where "defaultGatewayContextSummaryMaxRunes = 12000"
definition defaultGatewayContextHeadMaxRunes :: nat where "defaultGatewayContextHeadMaxRunes = 2000"
definition defaultGatewayContextRecentMaxRunes :: nat where "defaultGatewayContextRecentMaxRunes = 8000"
definition defaultGatewayContextAnchorMaxRunes :: nat where "defaultGatewayContextAnchorMaxRunes = 4000"

section \<open>Markers\<close>

text \<open>Lines the gateway wrote itself in an earlier compaction.\<close>

definition meta_markers :: "string list" where
  "meta_markers =
     [''gateway_context_restore_state.v1'', ''gateway_preflight_compaction'', ''latest_user_instruction'',
      ''current_task_phase'', ''must_not_do'', ''requires_user_confirmation_before'',
      ''pinned_raw_user_directives'', ''historical_context_only'', ''obsolete_or_superseded'',
      ''restore_audit'', from_hex ''e4bba5e4b88be698afe7bd91e585b3e887aae58aa8e58e8be7bca9'',
      from_hex ''e58e8be7bca9e681a2e5a48de689a7e8a18ce9949ae782b9'',
      from_hex ''e88ba5'' @ '' latest_user_instruction'', ''treat current_effective_constraints'',
      ''confirm current_user_goal'']"

text \<open>Stop, pause, do not, forbidden, must not, cannot, read-only and so on.\<close>

definition gatewayStopOrRestrictionMarkers :: "string list" where
  "gatewayStopOrRestrictionMarkers =
     [from_hex ''e5819ce6ada2'', from_hex ''e69a82e5819c'', from_hex ''e4b88de8a681'',
      from_hex ''e7a681e6ada2'', from_hex ''e4b88de5be97'', from_hex ''e4b88de883bd'',
      from_hex ''e58faae8afbb'', from_hex ''e4b88de8a681e689a7e8a18c'', from_hex ''e4b88de8a681e58699'',
      from_hex ''e4b88de8a681e9878de590af'', from_hex ''e69caae7bb8f'', from_hex ''e99c80e8a681e7a1aee8aea4'',
      ''stop'', ''pause'', ''do not'', ''don't'', ''must not'', ''cannot'', ''read-only'', ''no tool'',
      ''without confirmation'', ''needs confirmation'']"

text \<open>Continue, and allow tool calls.\<close>

definition gatewayAllowContinueMarkers :: "string list" where
  "gatewayAllowContinueMarkers =
     [from_hex ''e7bba7e7bbade689a7e8a18ce5b9b6e58581e8aeb8e5b7a5e585b7e8b083e794a8'',
      from_hex ''e6988ee7a1aee58581e8aeb8e5b7a5e585b7e8b083e794a8'',
      from_hex ''e58581e8aeb8e5b7a5e585b7e8b083e794a8'', from_hex ''e58fafe4bba5e8b083e794a8e5b7a5e585b7'',
      from_hex ''e7bba7e7bbade689a7e8a18c'', from_hex ''e7bba7e7bbade5819a'',
      from_hex ''e7bba7e7bbade5a484e79086'', from_hex ''e58fafe4bba5e7bba7e7bbad'',
      from_hex ''e79bb4e68ea5e7bba7e7bbad'', ''continue and allow tool'', ''allow tool calls'',
      ''authorized to use tools'', ''continue execution'', ''proceed'']"

text \<open>The current request, goal or latest message of the user, permissions and prohibitions.\<close>

definition directive_markers :: "string list" where
  "directive_markers =
     [from_hex ''e5bd93e5898de8afb7e6b182'', from_hex ''e69c80e696b0e794a8e688b7'',
      from_hex ''e69c80e8bf91e4b880e69da1e794a8e688b7'', from_hex ''e69cace8bdaee79baee6a087'',
      from_hex ''e5bd93e5898de79baee6a087'', from_hex ''e68e88e69d83'', from_hex ''e58581e8aeb8'',
      from_hex ''e5bf85e9a1bb'', from_hex ''e4b880e5ae9ae8a681'', from_hex ''e58faae883bd'',
      from_hex ''e5819ce6ada2'', from_hex ''e69a82e5819c'', from_hex ''e4b88de8a681'',
      from_hex ''e7a681e6ada2'', from_hex ''e4b88de5be97'', from_hex ''e58faae8afbb'',
      from_hex ''e4b88de8a681e689a7e8a18c'', from_hex ''e4b88de8a681e58699'',
      from_hex ''e4b88de8a681e9878de590af'', ''current request'', ''latest user'', ''current goal'',
      ''authorized'', ''allowed'', ''must'', ''only'', ''stop'', ''pause'', ''do not'', ''don't'',
      ''must not'', ''read-only'', ''no tool'']"

definition latest_markers :: "string list" where
  "latest_markers =
     [from_hex ''e5bd93e5898de8afb7e6b182'', from_hex ''e69c80e696b0e794a8e688b7'',
      from_hex ''e69c80e8bf91e4b880e69da1e794a8e688b7'', from_hex ''e69cace8bdaee79baee6a087'',
      from_hex ''e5bd93e5898de79baee6a087'', ''current request'', ''latest user'', ''current goal'']"

definition goal_markers :: "string list" where
  "goal_markers = [from_hex ''e69cace8bdaee79baee6a087'', from_hex ''e5bd93e5898de79baee6a087'',
      from_hex ''e5bd93e5898de8afb7e6b182'', ''current goal'', ''current request'']"

text \<open>Done, passed, repaired, verified; next step, to do, remaining; an old goal.\<close>

definition completed_markers :: "string list" where
  "completed_markers = [from_hex ''e5ae8ce68890'', from_hex ''e5b7b2e5ae8ce68890'', from_hex ''e9809ae8bf87'',
      from_hex ''e4bfaee5a48de5ae8c'', from_hex ''e9aa8ce8af81'', ''passed'', ''done'', ''fixed'',
      ''verified'']"

definition remaining_markers :: "string list" where
  "remaining_markers = [from_hex ''e4b88be4b880e6ada5'', from_hex ''e5be85e58a9e'', from_hex ''e589a9e4bd99'',
      from_hex ''e4b98be5908e'', from_hex ''e7bba7e7bbad'', ''remaining'', ''todo'', ''next'']"

definition obsolete_markers :: "string list" where
  "obsolete_markers = [from_hex ''e697a7e79baee6a087'', from_hex ''e58e86e58fb2e79baee6a087'', ''obsolete'', ''superseded'',
      ''old goal'']"

text \<open>Progress, current request, next step, to do, done, blocked, risk, handoff and so on.\<close>

definition progress_markers :: "string list" where
  "progress_markers =
     [from_hex ''e69c80e696b0e4bc9ae8af9de8bf9be5baa6'', from_hex ''e5bd93e5898de8afb7e6b182'',
      from_hex ''e5bd93e5898de8bf9be5baa6'', from_hex ''e5bd93e5898de78ab6e68081'',
      from_hex ''e69cace8bdaee79baee6a087'', from_hex ''e4b88be4b880e6ada5'', from_hex ''e5be85e58a9e'',
      from_hex ''e5b7b2e5ae8ce68890'', from_hex ''e9aa8ce8af81'', from_hex ''e983a8e7bdb2'',
      from_hex ''e998bbe5a19e'', from_hex ''e9a38ee999a9'', from_hex ''e59b9ee5bd92'',
      from_hex ''e4baa4e68ea5'', from_hex ''e7bba7e7bbad'', ''latest progress'', ''current progress'',
      ''current status'', ''next step'', ''todo'', ''done'', ''verified'', ''deployed'', ''blocked'',
      ''risk'', ''handoff'', ''resume'']"

definition history_keywords :: "string list" where
  "history_keywords =
     [''error'', ''failed'', ''failure'', ''panic'', ''timeout'', ''502'', ''499'', ''context'',
      from_hex ''e4b88ae4b88be69687'', from_hex ''e8b685e99990'', ''fallback'', ''stream'']"

definition says :: "string \<Rightarrow> string list \<Rightarrow> bool" where
  "says text markers = (\<exists>m \<in> set markers. contains text m)"

section \<open>Lines\<close>

definition gatewayLineIsCompactionMeta :: "string \<Rightarrow> bool" where
  "gatewayLineIsCompactionMeta line =
     (let lower = ToLower (TrimSpace line) in lower = '''' \<or> says lower meta_markers)"

definition gatewayInstructionAllowsContinue :: "string \<Rightarrow> bool" where
  "gatewayInstructionAllowsContinue text =
     (let lower = ToLower (TrimSpace text) in lower \<noteq> '''' \<and> says lower gatewayAllowContinueMarkers)"

definition gatewayLineAllowsContinue :: "string \<Rightarrow> bool" where
  "gatewayLineAllowsContinue text = gatewayInstructionAllowsContinue text"

definition gatewayLineIsStopOrRestriction :: "string \<Rightarrow> bool" where
  "gatewayLineIsStopOrRestriction text =
     (let lower = ToLower (TrimSpace text)
      in lower \<noteq> '''' \<and> \<not> gatewayLineAllowsContinue text \<and>
         says lower (map ToLower gatewayStopOrRestrictionMarkers))"

definition gatewayInstructionStops :: "string \<Rightarrow> bool" where
  "gatewayInstructionStops text =
     (gatewayLineIsStopOrRestriction text \<and> \<not> gatewayInstructionAllowsContinue text)"

definition gatewaySegmentCanProvideUserInstruction :: "gatewayContextTextSegment \<Rightarrow> bool" where
  "gatewaySegmentCanProvideUserInstruction segment =
     (let role = ToLower (TrimSpace (sg_Role segment)); label = ToLower (TrimSpace (sg_Label segment))
      in if role \<in> set [''assistant'', ''tool'', ''system'', ''developer''] then False
         else if role = ''user'' then True
         else if says label [''assistant'', ''tool'', ''system'', ''developer''] then False
         else says label [''input'', ''instructions'', ''content'', ''text''])"

definition progress_lines :: "gatewayContextTextSegment \<Rightarrow> string list" where
  "progress_lines segment =
     filter (\<lambda>line. \<not> (line = '''' \<or> 900 < rune_count line \<or> gatewayLineIsCompactionMeta line))
       (map TrimSpace (split_on (CHR 0x0A) (sg_Text segment)))"

definition gatewayUserProgressLines :: "gatewayContextTextSegment list \<Rightarrow> string list" where
  "gatewayUserProgressLines segments =
     concat (map progress_lines (filter gatewaySegmentCanProvideUserInstruction segments))"

definition gatewayAllProgressLines :: "gatewayContextTextSegment list \<Rightarrow> string list" where
  "gatewayAllProgressLines segments = concat (map progress_lines segments)"

text \<open>The last 16 lines that say one of the markers, each once.\<close>

definition gatewayDirectiveLines :: "string list \<Rightarrow> string list \<Rightarrow> string list" where
  "gatewayDirectiveLines lines markers =
     last_n 16 (keep_first {} (filter
       (\<lambda>line. let lower = ToLower (TrimSpace line)
               in lower \<noteq> '''' \<and> \<not> gatewayLineIsCompactionMeta line \<and> says lower (map ToLower markers)) lines))"

text \<open>The marker has to be at the start of the line or within its first 32 runes.\<close>

definition gatewayLineHasCurrentDirectiveMarker :: "string \<Rightarrow> string list \<Rightarrow> bool" where
  "gatewayLineHasCurrentDirectiveMarker line markers =
     (let lower = ToLower (TrimSpace line);
          head = (if 32 < rune_count lower then concat (take 32 (runes lower)) else lower)
      in lower \<noteq> '''' \<and> \<not> gatewayLineIsCompactionMeta line \<and>
         (\<exists>m \<in> set (map (\<lambda>m. ToLower (TrimSpace m)) markers). m \<noteq> '''' \<and> (has_prefix lower m \<or> contains head m)))"

definition gatewayCurrentDirectiveLines :: "string list \<Rightarrow> string list \<Rightarrow> string list" where
  "gatewayCurrentDirectiveLines lines markers =
     last_n 16 (keep_first {} (filter (\<lambda>line. gatewayLineHasCurrentDirectiveMarker line markers) lines))"

definition pinnedGatewayRawDirectives :: "gatewayContextTextSegment list \<Rightarrow> nat \<Rightarrow> string list" where
  "pinnedGatewayRawDirectives segments limit =
     map (\<lambda>line. limitRunes line 700)
       (last_n limit (gatewayDirectiveLines (gatewayUserProgressLines segments) directive_markers))"

definition last_line :: "string list \<Rightarrow> string" where
  "last_line lines = (if lines = [] then '''' else limitRunes (last lines) 900)"

definition latestGatewayUserInstruction :: "gatewayContextTextSegment list \<Rightarrow> string" where
  "latestGatewayUserInstruction segments =
     (let lines = gatewayCurrentDirectiveLines (gatewayUserProgressLines segments) latest_markers
      in last_line (if lines = []
                    then gatewayDirectiveLines (gatewayUserProgressLines segments) gatewayStopOrRestrictionMarkers
                    else lines))"

definition currentGatewayGoal :: "gatewayContextTextSegment list \<Rightarrow> string" where
  "currentGatewayGoal segments =
     last_line (gatewayCurrentDirectiveLines (gatewayUserProgressLines segments) goal_markers)"

section \<open>Durable facts\<close>

text \<open>
  The Go code keeps a set \<open>seen\<close> beside the list; it holds the elements of the list, so the list
  is enough here.
\<close>

definition gatewayAppendDurableFact :: "nat \<Rightarrow> string list \<Rightarrow> string \<Rightarrow> string list" where
  "gatewayAppendDurableFact limit facts raw =
     (let fact = TrimSpace raw; kept = limitRunes fact 300
      in if fact = '''' \<or> gatewayLineIsCompactionMeta fact then facts
         else if kept \<in> set facts then facts
         else last_n limit (facts @ [kept]))"

definition fact_prefixes :: "string list" where
  "fact_prefixes = [from_hex ''e5b7b2e799bbe8aeb0e4ba8be5ae9eefbc9a'', from_hex ''e5b7b2e799bbe8aeb0e4ba8be5ae9e'' @ '':'',
      ''durable fact:'', ''registered fact:'']"

definition fact_requests :: "string list" where
  "fact_requests = [from_hex ''e5bd93e5898de69c80e696b0e794a8e688b7e8afb7e6b182efbc9ae799bbe8aeb0e887aae784b6e8afade8a880e4ba8be5ae9e'',
      from_hex ''e5bd93e5898de69c80e696b0e794a8e688b7e8afb7e6b182efbc9ae799bbe8aeb0e4ba8be5ae9e'']"

text \<open>The curly quotes and the straight one.\<close>

definition left_quotes :: "string list" where "left_quotes = [(from_hex ''e2809c''), [CHR 0x22]]"
definition right_quotes :: "string list" where "right_quotes = [(from_hex ''e2809d''), [CHR 0x22]]"

definition gatewayNaturalFactLine :: "string \<Rightarrow> string" where
  "gatewayNaturalFactLine raw =
     (let line = TrimSpace raw
      in case filter (\<lambda>m. has_prefix (ToLower line) (ToLower m)) fact_prefixes of
           m # _ \<Rightarrow> TrimSpace (drop (length m) line)
         | [] \<Rightarrow>
             if \<exists>p \<in> set fact_requests. has_prefix line p
             then (case (index_any left_quotes line, last_index_any right_quotes line) of
                     (Some a, Some b) \<Rightarrow>
                       if a < b then TrimSpace (trim_runes (left_quotes @ right_quotes) (drop a (take b line))) else ''''
                   | _ \<Rightarrow> '''')
             else '''')"

definition line_facts :: "string \<Rightarrow> string list" where
  "line_facts line =
     (if contains line (from_hex ''e4ba8be5ae9e'') \<or> contains (ToLower line) ''fact''
      then find_facts False line @ (if gatewayNaturalFactLine line \<noteq> '''' then [gatewayNaturalFactLine line] else [])
      else [])"

definition gatewayFactLines :: "gatewayContextTextSegment list \<Rightarrow> nat \<Rightarrow> string list" where
  "gatewayFactLines segments limit =
     foldl (gatewayAppendDurableFact limit) [] (concat (map line_facts (gatewayUserProgressLines segments)))"

definition gatewayDurableFacts ::
  "gatewayContextRestoreState option \<Rightarrow> gatewayContextTextSegment list \<Rightarrow> nat \<Rightarrow> string list" where
  "gatewayDurableFacts previous segments limit =
     (if limit = 0 then []
      else foldl (gatewayAppendDurableFact limit)
        (foldl (gatewayAppendDurableFact limit) [] (case previous of None \<Rightarrow> [] | Some p \<Rightarrow> rs_DurableFacts p))
        (gatewayFactLines segments limit))"

section \<open>What is allowed and what is not\<close>

definition gatewayResolveDirectiveConflicts :: "string list \<Rightarrow> string \<Rightarrow> string list" where
  "gatewayResolveDirectiveConflicts directives latest =
     (let out = (if gatewayInstructionAllowsContinue latest
                 then filter (\<lambda>d. \<not> gatewayLineIsStopOrRestriction d) directives
                 else if gatewayInstructionStops latest
                 then filter (\<lambda>d. \<not> gatewayLineAllowsContinue d) directives
                 else directives)
      in if directives = [] then []
         else if out = [] \<and> TrimSpace latest \<noteq> '''' then [latest]
         else out)"

definition gatewayCurrentEffectiveConstraints :: "string list \<Rightarrow> string list \<Rightarrow> string \<Rightarrow> string list" where
  "gatewayCurrentEffectiveConstraints mustNotDo allowed latest =
     (if gatewayInstructionAllowsContinue latest
      then [''latest_user_instruction '' @ (from_hex ''e6988ee7a1aee58581e8aeb8e7bba7e7bbade689a7e8a18ce5928ce5b7a5e585b7e8b083e794a8'')]
      else mustNotDo @ allowed)"

definition gatewayObsoleteConstraints ::
  "gatewayContextRestoreState option \<Rightarrow> gatewayContextTextSegment list \<Rightarrow> string list \<Rightarrow> string \<Rightarrow> string list" where
  "gatewayObsoleteConstraints previous segments directives latest =
     (if \<not> gatewayInstructionAllowsContinue latest then []
      else (case previous of
              None \<Rightarrow> []
            | Some p \<Rightarrow>
                map (\<lambda>item. limitRunes (''superseded previous must_not_do: '' @ item) 500)
                  (filter (\<lambda>item. TrimSpace item \<noteq> '''') (case rs_MustNotDo p of None \<Rightarrow> [] | Some xs \<Rightarrow> xs)) @
                (if rs_CurrentTaskPhase p = ''stopped'' \<or> rs_CurrentTaskPhase p = ''waiting_for_user''
                 then [''superseded previous phase: '' @ rs_CurrentTaskPhase p] else [])) @
           map (\<lambda>line. limitRunes (''superseded by latest allow/continue: '' @ line) 500)
             (filter (\<lambda>line. line \<notin> set directives \<and> gatewayLineIsStopOrRestriction line)
               (gatewayDirectiveLines (gatewayAllProgressLines segments)
                 (gatewayStopOrRestrictionMarkers @ gatewayAllowContinueMarkers))))"

text \<open>Stop; pause, read-only, waiting; verify, regression, test.\<close>

definition gatewayTaskPhase :: "string \<Rightarrow> string list \<Rightarrow> string" where
  "gatewayTaskPhase latest directives =
     (let text = ToLower (join_with [CHR 0x0A] (latest # directives))
      in if gatewayInstructionAllowsContinue latest then ''executing''
         else if says text [from_hex ''e5819ce6ada2'', ''stop''] then ''stopped''
         else if says text [from_hex ''e69a82e5819c'', from_hex ''e58faae8afbb'', from_hex ''e7ad89e5be85'', ''pause'',
      ''read-only'', ''waiting''] then ''waiting_for_user''
         else if says text [from_hex ''e9aa8ce8af81'', from_hex ''e59b9ee5bd92'', from_hex ''e6b58be8af95'', ''verify'',
      ''regression'', ''test''] then ''verifying''
         else ''executing'')"

definition gatewayNeedsConfirmation :: "string \<Rightarrow> string list \<Rightarrow> string \<Rightarrow> string list \<Rightarrow> bool" where
  "gatewayNeedsConfirmation phase mustNotDo latest uncertainties =
     (if gatewayInstructionAllowsContinue latest \<and> mustNotDo = [] then False
      else if phase = ''stopped'' \<or> phase = ''waiting_for_user'' then True
      else if uncertainties \<noteq> [] then True
      else says (ToLower (join_with [CHR 0x0A] (mustNotDo @ [latest]))) [from_hex ''e7a1aee8aea4'', ''confirmation'', from_hex ''e69caae7bb8f''])"

definition gatewayConfirmationActions :: "bool \<Rightarrow> string list \<Rightarrow> string list" where
  "gatewayConfirmationActions required mustNotDo =
     (if required \<or> mustNotDo \<noteq> []
      then [''tool_call'', ''file_write'', ''shell'', ''ssh'', ''restart_service''] else [])"

definition gatewayNextAction :: "string \<Rightarrow> string list \<Rightarrow> bool \<Rightarrow> gatewayContextRestoreNextAction" where
  "gatewayNextAction phase remaining requiresConfirmation =
     (if phase = ''stopped''
      then \<lparr>na_Type = ''no_op'', na_Description = (from_hex ''e794a8e688b7e5b7b2e8a681e6b182e5819ce6ada2efbc9be4b88de5be97e7bba7e7bbade5b7a5e585b7e8b083e794a8e38082''), na_RequiresConfirmation = True\<rparr>
      else if requiresConfirmation
      then \<lparr>na_Type = ''ask_user'',
             na_Description = (from_hex ''e681a2e5a48de78ab6e68081e5ad98e59ca8e7a681e6ada2e4ba8be9a1b9e68896e4b88de7a1aee5ae9ae680a7efbc9be7bba7e7bbade5898de58588e7a1aee8aea4e38082''),
             na_RequiresConfirmation = True\<rparr>
      else \<lparr>na_Type = ''execute'',
             na_Description = limitRunes (if remaining \<noteq> [] then last remaining
               else (from_hex ''e68c89'' @ '' latest_user_instruction '' @ from_hex ''e7bba7e7bbade689a7e8a18ce5bd93e5898de4bbbbe58aa1e38082'')) 700,
             na_RequiresConfirmation = False\<rparr>)"

section \<open>History\<close>

fun keep_first_by :: "('a \<Rightarrow> 'b) \<Rightarrow> 'b set \<Rightarrow> 'a list \<Rightarrow> 'a list" where
  "keep_first_by f seen [] = []"
| "keep_first_by f seen (x # xs) =
     (if f x \<in> seen then keep_first_by f seen xs else x # keep_first_by f (insert (f x) seen) xs)"

definition keywordLines :: "gatewayContextTextSegment list \<Rightarrow> string list \<Rightarrow> nat \<Rightarrow> string list" where
  "keywordLines segments keywords limit =
     take limit (map (\<lambda>(label, line). ''- ['' @ label @ ''] '' @ line)
       (keep_first_by (\<lambda>(label, line). label @ '':'' @ line) {}
         (concat (map (\<lambda>segment. map (Pair (sg_Label segment))
           (filter (\<lambda>line. line \<noteq> '''' \<and> rune_count line \<le> 260 \<and> says (ToLower line) (map ToLower keywords))
             (map TrimSpace (split_on (CHR 0x0A) (sg_Text segment))))) segments))))"

definition trim_marks_of_path :: "string \<Rightarrow> string" where
  "trim_marks_of_path = trim_runes (map (\<lambda>c. [c]) ''.,;:()[]{}'')"

definition uniqueMatches :: "gatewayContextTextSegment list \<Rightarrow> (string \<Rightarrow> nat) \<Rightarrow> nat \<Rightarrow> string list" where
  "uniqueMatches segments pattern limit =
     take limit (keep_first {} (filter (\<lambda>m. m \<noteq> '''')
       (map trim_marks_of_path (concat (map (\<lambda>segment. find_all pattern (sg_Text segment)) segments)))))"

definition gatewayHistoricalContext ::
  "gatewayContextTextSegment list \<Rightarrow> string \<Rightarrow> bool \<Rightarrow> string list" where
  "gatewayHistoricalContext segments previous hasPreviousState =
     (if TrimSpace previous \<noteq> ''''
      then [(if hasPreviousState then ''previous_structured_state'' else ''previous_summary'') @ '': '' @
            limitRunes (TrimSpace previous) 1000]
      else []) @
     map ((@) ''path: '') (uniqueMatches segments path_prefix 10) @
     map (\<lambda>line. limitRunes line 400) (keywordLines segments history_keywords 10)"

definition obsoleteGatewayGoals :: "gatewayContextTextSegment list \<Rightarrow> string \<Rightarrow> string list" where
  "obsoleteGatewayGoals segments currentGoal =
     map (\<lambda>line. limitRunes line 500)
       (filter (\<lambda>line. \<not> (TrimSpace currentGoal \<noteq> '''' \<and> contains line currentGoal))
         (gatewayDirectiveLines (gatewayAllProgressLines segments) obsolete_markers))"

section \<open>The restore state\<close>

definition restore_audit :: "string list" where
  "restore_audit =
     [''Confirm current_user_goal and latest_user_instruction before continuing; latest_uncompressed_user_instruction '' @
      ''overrides older structured state.'',
      ''Treat current_effective_constraints, must_not_do, and current_task_phase as current state; treat '' @
      ''historical_context_only and obsolete_or_superseded_constraints as non-current.'',
      ''If latest_uncompressed_user_instruction explicitly allows continuing, do not keep older stopped or '' @
      ''must_not_do constraints active.'',
      ''If current_task_phase is stopped or waiting_for_user without a newer allow/continue instruction, do not '' @
      ''call tools; ask the user or stop.'',
      ''If any uncertainty conflicts with the next action, ask the user before '' @
      ''shell/file/browser/ssh/restart operations.'']"

definition schema_version :: string where
  "schema_version = ''gateway_context_restore_state.v1''"

text \<open>The prohibitions, before the one that is added to a stopped state.\<close>

definition restore_must_not_do ::
  "gatewayContextRestoreState option \<Rightarrow> string list \<Rightarrow> string \<Rightarrow> string \<Rightarrow> string list option" where
  "restore_must_not_do previous directives latestFromCurrentSegments latest =
     (let found = gatewayDirectiveLines directives gatewayStopOrRestrictionMarkers
      in if gatewayInstructionAllowsContinue latest then None
         else case previous of
                Some p \<Rightarrow> if found = [] \<and> TrimSpace latestFromCurrentSegments = '''' then rs_MustNotDo p else Some found
              | None \<Rightarrow> Some found)"

definition restore_allowed :: "string list \<Rightarrow> string \<Rightarrow> string list" where
  "restore_allowed directives latest =
     (let found = gatewayDirectiveLines directives gatewayAllowContinueMarkers
      in if gatewayInstructionAllowsContinue latest \<and> found = []
         then [(from_hex ''e69c80e696b0e794a8e688b7e6b688e681afe6988ee7a1aee58581e8aeb8e7bba7e7bbade689a7e8a18ce5928ce5b7a5e585b7e8b083e794a8'')] else found)"

definition list_of :: "'a list option \<Rightarrow> 'a list" where
  "list_of x = (case x of None \<Rightarrow> [] | Some xs \<Rightarrow> xs)"

definition latest_instruction ::
  "gatewayContextRestoreState option \<Rightarrow> gatewayContextTextSegment list \<Rightarrow> string" where
  "latest_instruction previous segments =
     (let directives = pinnedGatewayRawDirectives segments 12
      in text_or (text_or (latestGatewayUserInstruction segments) (if directives = [] then '''' else last directives))
           (case previous of None \<Rightarrow> '''' | Some p \<Rightarrow> rs_LatestUserInstruction p))"

definition restore_goal ::
  "gatewayContextRestoreState option \<Rightarrow> gatewayContextTextSegment list \<Rightarrow> string" where
  "restore_goal previous segments =
     text_or (text_or (currentGatewayGoal segments) (latestGatewayUserInstruction segments))
       (case previous of None \<Rightarrow> '''' | Some p \<Rightarrow> rs_CurrentUserGoal p)"

definition restore_uncertainties :: "string \<Rightarrow> string \<Rightarrow> string list" where
  "restore_uncertainties goal latest =
     (if TrimSpace goal = '''' then [''current_user_goal was not explicit in compacted text''] else []) @
     (if TrimSpace latest = '''' then [''latest_user_instruction was not explicit in compacted text''] else [])"

definition stopped_rule :: string where
  "stopped_rule = (from_hex ''e5819ce6ada2e78ab6e68081efbc9ae4b88de5be97e7bba7e7bbade689a7e8a18ce5b7a5e585b7e8b083e794a8'')"

definition buildGatewayContextRestoreState ::
  "string \<Rightarrow> gatewayContextTextSegment list \<Rightarrow> gatewayContextRestoreState option \<Rightarrow> gatewayContextRestoreState" where
  "buildGatewayContextRestoreState previous segments previousState =
     (let latestFromCurrentSegments = latestGatewayUserInstruction segments;
          latest = latest_instruction previousState segments;
          directives = gatewayResolveDirectiveConflicts (pinnedGatewayRawDirectives segments 12) latest;
          goal = restore_goal previousState segments;
          phase = gatewayTaskPhase latest directives;
          mustNotDo = restore_must_not_do previousState directives latestFromCurrentSegments latest;
          allowed = restore_allowed directives latest;
          lines = gatewayAllProgressLines segments;
          remaining = gatewayDirectiveLines lines remaining_markers;
          uncertainties = restore_uncertainties goal latest;
          confirm = gatewayNeedsConfirmation phase (list_of mustNotDo) latest uncertainties;
          forbidden = (if phase = ''stopped'' \<and> list_of mustNotDo = [] then Some [stopped_rule] else mustNotDo)
      in \<lparr>rs_SchemaVersion = schema_version,
          rs_CurrentUserGoal = goal,
          rs_CurrentActiveGoal = goal,
          rs_LatestUserInstruction = latest,
          rs_LatestUncompressedUserInstruction = latestFromCurrentSegments,
          rs_DurableFacts = gatewayDurableFacts previousState segments 64,
          rs_PinnedRawUserDirectives = directives,
          rs_CurrentEffectiveConstraints = gatewayCurrentEffectiveConstraints (list_of mustNotDo) allowed latest,
          rs_MustNotDo = forbidden,
          rs_AllowedActions = allowed,
          rs_RequiresUserConfirmationBefore = gatewayConfirmationActions confirm (list_of forbidden),
          rs_CurrentTaskPhase = phase,
          rs_CompletedWork = gatewayDirectiveLines lines completed_markers,
          rs_RemainingWork = remaining,
          rs_NextAction = gatewayNextAction phase remaining confirm,
          rs_Uncertainties = uncertainties,
          rs_HistoricalContextOnly = gatewayHistoricalContext segments previous (previousState \<noteq> None),
          rs_ObsoleteOrSupersededGoals = obsoleteGatewayGoals segments goal,
          rs_ObsoleteOrSupersededConstraints = gatewayObsoleteConstraints previousState segments directives latest,
          rs_RestoreAudit = restore_audit,
          rs_Source = ''gateway_preflight_compaction''\<rparr>)"

section \<open>Its text\<close>

text \<open>
  \<open>json.MarshalIndent\<close> with two blanks. The members of a struct are written in their order; a
  struct has no numbers here.
\<close>

definition new_line :: "nat \<Rightarrow> string" where
  "new_line d = CHR 0x0A # replicate (2 * d) (CHR '' '')"

definition spread :: "nat \<Rightarrow> char \<Rightarrow> char \<Rightarrow> string list \<Rightarrow> string" where
  "spread d a b items =
     (if items = [] then [a, b]
      else a # join_with '','' (map ((@) (new_line (Suc d))) items) @ new_line d @ [b])"

fun indent_json :: "nat \<Rightarrow> json \<Rightarrow> string" where
  "indent_json d JNull = ''null''"
| "indent_json d (JBool b) = (if b then ''true'' else ''false'')"
| "indent_json d (JNum q) = encode_number (\<lambda>_. '''') q"
| "indent_json d (JStr s) = encode_string s"
| "indent_json d (JArr vs) = spread d (CHR ''['') (CHR '']'') (map (indent_json (Suc d)) vs)"
| "indent_json d (JObj m) =
     spread d (CHR ''{'') (CHR ''}'') (map (\<lambda>(k, v). encode_string k @ '': '' @ indent_json (Suc d) v) m)"

definition texts_json :: "string list \<Rightarrow> json" where
  "texts_json xs = JArr (map JStr xs)"

definition action_json :: "gatewayContextRestoreNextAction \<Rightarrow> json" where
  "action_json a =
     JObj [(''type'', JStr (na_Type a)), (''description'', JStr (na_Description a)),
           (''requires_confirmation'', JBool (na_RequiresConfirmation a))]"

definition state_json :: "gatewayContextRestoreState \<Rightarrow> obj" where
  "state_json r =
     [(''schema_version'', JStr (rs_SchemaVersion r)),
      (''current_user_goal'', JStr (rs_CurrentUserGoal r)),
      (''current_active_goal'', JStr (rs_CurrentActiveGoal r)),
      (''latest_user_instruction'', JStr (rs_LatestUserInstruction r))] @
     put_if (rs_LatestUncompressedUserInstruction r \<noteq> '''') ''latest_uncompressed_user_instruction''
       (JStr (rs_LatestUncompressedUserInstruction r)) @
     put_if (rs_DurableFacts r \<noteq> []) ''durable_facts'' (texts_json (rs_DurableFacts r)) @
     [(''pinned_raw_user_directives'', texts_json (rs_PinnedRawUserDirectives r))] @
     put_if (rs_CurrentEffectiveConstraints r \<noteq> []) ''current_effective_constraints''
       (texts_json (rs_CurrentEffectiveConstraints r)) @
     [(''must_not_do'', case rs_MustNotDo r of None \<Rightarrow> JNull | Some xs \<Rightarrow> texts_json xs),
      (''allowed_actions'', texts_json (rs_AllowedActions r)),
      (''requires_user_confirmation_before'', texts_json (rs_RequiresUserConfirmationBefore r)),
      (''current_task_phase'', JStr (rs_CurrentTaskPhase r)),
      (''completed_work'', texts_json (rs_CompletedWork r)),
      (''remaining_work'', texts_json (rs_RemainingWork r)),
      (''next_action'', action_json (rs_NextAction r)),
      (''uncertainties'', texts_json (rs_Uncertainties r)),
      (''historical_context_only'', texts_json (rs_HistoricalContextOnly r)),
      (''obsolete_or_superseded_goals'', texts_json (rs_ObsoleteOrSupersededGoals r))] @
     put_if (rs_ObsoleteOrSupersededConstraints r \<noteq> []) ''obsolete_or_superseded_constraints''
       (texts_json (rs_ObsoleteOrSupersededConstraints r)) @
     [(''restore_audit'', texts_json (rs_RestoreAudit r)), (''source'', JStr (rs_Source r))]"

text \<open>
  \<open>json.Unmarshal\<close> into the struct. A member belongs to the field whose name it has up to letter
  case; the last one counts. A member of the wrong type is an error, null leaves a text as it was
  and makes a list nil.
\<close>

function fold_name :: "string \<Rightarrow> string" where
  "fold_name [] = []"
| "fold_name (c # cs) =
     (if has_prefix (c # cs) [CHR 0xC5, CHR 0xBF] then CHR ''s'' # fold_name (drop 1 cs)
      else if has_prefix (c # cs) [CHR 0xE2, CHR 0x84, CHR 0xAA] then CHR ''k'' # fold_name (drop 2 cs)
      else lower_byte c # fold_name cs)"
  by pat_completeness auto
termination by (relation "measure length") auto

definition members :: "obj \<Rightarrow> string \<Rightarrow> json list" where
  "members m name = map snd (filter (\<lambda>(k, _). fold_name k = name) m)"

definition is_text :: "json \<Rightarrow> bool" where
  "is_text v = (case v of JStr _ \<Rightarrow> True | JNull \<Rightarrow> True | _ \<Rightarrow> False)"

definition is_texts :: "json \<Rightarrow> bool" where
  "is_texts v = (case v of JArr vs \<Rightarrow> list_all is_text vs | JNull \<Rightarrow> True | _ \<Rightarrow> False)"

definition is_flag :: "json \<Rightarrow> bool" where
  "is_flag v = (case v of JBool _ \<Rightarrow> True | JNull \<Rightarrow> True | _ \<Rightarrow> False)"

definition is_action :: "json \<Rightarrow> bool" where
  "is_action v =
     (case v of
        JObj m \<Rightarrow> list_all is_text (members m ''type'') \<and> list_all is_text (members m ''description'') \<and>
                   list_all is_flag (members m ''requires_confirmation'')
      | JNull \<Rightarrow> True
      | _ \<Rightarrow> False)"

definition text_fields :: "string list" where
  "text_fields =
     [''schema_version'', ''current_user_goal'', ''current_active_goal'', ''latest_user_instruction'',
      ''latest_uncompressed_user_instruction'', ''current_task_phase'', ''source'']"

definition list_fields :: "string list" where
  "list_fields =
     [''durable_facts'', ''pinned_raw_user_directives'', ''current_effective_constraints'', ''must_not_do'',
      ''allowed_actions'', ''requires_user_confirmation_before'', ''completed_work'', ''remaining_work'',
      ''uncertainties'', ''historical_context_only'', ''obsolete_or_superseded_goals'',
      ''obsolete_or_superseded_constraints'', ''restore_audit'']"

definition text_member :: "obj \<Rightarrow> string \<Rightarrow> string" where
  "text_member m name =
     (case filter (\<lambda>v. v \<noteq> JNull) (rev (members m name)) of JStr s # _ \<Rightarrow> s | _ \<Rightarrow> '''')"

definition list_member :: "obj \<Rightarrow> string \<Rightarrow> string list option" where
  "list_member m name =
     (case rev (members m name) of
        JArr vs # _ \<Rightarrow> Some (map (\<lambda>v. case v of JStr s \<Rightarrow> s | _ \<Rightarrow> '''') vs)
      | _ \<Rightarrow> None)"

definition action_member :: "obj \<Rightarrow> string \<Rightarrow> gatewayContextRestoreNextAction" where
  "action_member m name =
     (let a = concat (map (\<lambda>v. nil_map (mapValue v)) (members m name))
      in \<lparr>na_Type = text_member a ''type'', na_Description = text_member a ''description'',
          na_RequiresConfirmation =
            (case filter (\<lambda>v. v \<noteq> JNull) (rev (members a ''requires_confirmation'')) of
               JBool b # _ \<Rightarrow> b | _ \<Rightarrow> False)\<rparr>)"

definition json_state :: "obj \<Rightarrow> gatewayContextRestoreState" where
  "json_state m =
     \<lparr>rs_SchemaVersion = text_member m ''schema_version'',
      rs_CurrentUserGoal = text_member m ''current_user_goal'',
      rs_CurrentActiveGoal = text_member m ''current_active_goal'',
      rs_LatestUserInstruction = text_member m ''latest_user_instruction'',
      rs_LatestUncompressedUserInstruction = text_member m ''latest_uncompressed_user_instruction'',
      rs_DurableFacts = list_of (list_member m ''durable_facts''),
      rs_PinnedRawUserDirectives = list_of (list_member m ''pinned_raw_user_directives''),
      rs_CurrentEffectiveConstraints = list_of (list_member m ''current_effective_constraints''),
      rs_MustNotDo = list_member m ''must_not_do'',
      rs_AllowedActions = list_of (list_member m ''allowed_actions''),
      rs_RequiresUserConfirmationBefore = list_of (list_member m ''requires_user_confirmation_before''),
      rs_CurrentTaskPhase = text_member m ''current_task_phase'',
      rs_CompletedWork = list_of (list_member m ''completed_work''),
      rs_RemainingWork = list_of (list_member m ''remaining_work''),
      rs_NextAction = action_member m ''next_action'',
      rs_Uncertainties = list_of (list_member m ''uncertainties''),
      rs_HistoricalContextOnly = list_of (list_member m ''historical_context_only''),
      rs_ObsoleteOrSupersededGoals = list_of (list_member m ''obsolete_or_superseded_goals''),
      rs_ObsoleteOrSupersededConstraints = list_of (list_member m ''obsolete_or_superseded_constraints''),
      rs_RestoreAudit = list_of (list_member m ''restore_audit''),
      rs_Source = text_member m ''source''\<rparr>"

definition decode_state :: "string \<Rightarrow> gatewayContextRestoreState option" where
  "decode_state s =
     (case json_decode s of
        Some (JObj m) \<Rightarrow>
          if (\<forall>n \<in> set text_fields. list_all is_text (members m n)) \<and>
             (\<forall>n \<in> set list_fields. list_all is_texts (members m n)) \<and>
             list_all is_action (members m ''next_action'') \<and> text_member m ''schema_version'' \<noteq> ''''
          then Some (json_state m) else None
      | _ \<Rightarrow> None)"

text \<open>The whole text, else what is between its first and its last brace.\<close>

definition parseGatewayContextRestoreState :: "string \<Rightarrow> gatewayContextRestoreState option" where
  "parseGatewayContextRestoreState previous0 =
     (let previous = TrimSpace previous0
      in if previous = '''' then None
         else case decode_state previous of
                Some state \<Rightarrow> Some state
              | None \<Rightarrow>
                  (case (index_of previous ''{'', last_index_of previous ''}'') of
                     (Some a, Some b) \<Rightarrow> if a < b then decode_state (drop a (take (b + 1) previous)) else None
                   | _ \<Rightarrow> None))"

text \<open>
  \<open>json.MarshalIndent\<close> does not fail on texts and flags, so the Markdown summary the code falls
  back to is never written.
\<close>

definition buildGatewayContextSummary :: "string \<Rightarrow> gatewayContextTextSegment list \<Rightarrow> string" where
  "buildGatewayContextSummary previous segments =
     limitRunes (indent_json 0 (JObj (state_json (buildGatewayContextRestoreState previous segments
       (parseGatewayContextRestoreState previous))))) defaultGatewayContextSummaryMaxRunes"

section \<open>What stays beside the summary\<close>

definition gatewayContextHasProgressMarker :: "string \<Rightarrow> bool" where
  "gatewayContextHasProgressMarker text =
     (let lower = ToLower (TrimSpace text) in lower \<noteq> '''' \<and> says lower progress_markers)"

text \<open>The last line with a progress marker, with 6 lines before and 17 after it.\<close>

definition recentGatewayProgressAnchorText :: "string \<Rightarrow> string" where
  "recentGatewayProgressAnchorText text =
     (let lines = split_on (CHR 0x0A) (TrimSpace text)
      in case filter (\<lambda>(i, line). gatewayContextHasProgressMarker line) (rev (enumerate 0 lines)) of
           [] \<Rightarrow> ''''
         | (start, _) # _ \<Rightarrow>
             limitRunes (TrimSpace (join_with [CHR 0x0A] (drop (start - 6) (take (start + 18) lines))))
               defaultGatewayContextAnchorMaxRunes)"

definition recentGatewayContextText :: "string \<Rightarrow> string" where
  "recentGatewayContextText text =
     (let head = limitRunes text defaultGatewayContextHeadMaxRunes;
          tail = tailText text defaultGatewayContextRecentMaxRunes;
          anchor = recentGatewayProgressAnchorText text
      in TrimSpace (join_with blank_line
           ((if TrimSpace head \<noteq> '''' then [(''## '' @ from_hex ''e58e9fe69687e5bc80e5a4b4'') @ [CHR 0x0A] @ head] else []) @
            (if \<not> gatewayContextHasProgressMarker tail \<and> anchor \<noteq> ''''
             then [(''## '' @ from_hex ''e69c80e8bf91e8bf9be5baa6e9949ae782b9'') @ [CHR 0x0A] @ anchor] else []) @
            [(''## '' @ from_hex ''e58e9fe69687e69cabe5b0be'') @ [CHR 0x0A] @ tail])))"

definition anchor_title :: string where
  "anchor_title = (''## '' @ from_hex ''e58e8be7bca9e681a2e5a48de689a7e8a18ce9949ae782b9'')"

definition anchor_note :: string where
  "anchor_note =
     (from_hex ''e4bba5e4b88be58685e5aeb9e69da5e887aae8a2abe58e8be7bca9e58e9fe69687efbc9be5a682e69e9ce587bae78eb0'') @ (from_hex ''e2809ce5bd93e5898de8afb7e6b182'' @ '' / '' @ from_hex ''e69c80e696b0e4bc9ae8af9de8bf9be5baa6'' @ '' / '' @ from_hex ''e4b88be4b880e6ada5e2809d'') @
     (from_hex ''efbc8ce5ae83e4bb8de698afe5bd93e5898de8a681e7bba7e7bbade689a7e8a18ce79a84e4bbbbe58aa1e78ab6e68081'') @ (from_hex ''efbc8ce4b88de8a681e5bd93e4bd9ce697a7e69198e8a681e5bfbde795a5'')"

definition gatewayContextExecutionAnchorText :: "string \<Rightarrow> string \<Rightarrow> string" where
  "gatewayContextExecutionAnchorText label text =
     (let body = recentGatewayContextText text
      in if body = '''' then ''''
         else TrimSpace (anchor_title @ [CHR 0x0A] @ anchor_note @ (from_hex ''e38082'') @ blank_line @
                ''### '' @ label @ [CHR 0x0A] @ body))"

definition gatewayContextHandoffText :: "gatewayContextTextSegment list \<Rightarrow> string" where
  "gatewayContextHandoffText segments =
     (let blocks = take 3 (concat (map (\<lambda>segment.
            let text = TrimSpace (sg_Text segment); body = recentGatewayContextText text
            in if text = '''' \<or> \<not> gatewayContextHasProgressMarker text \<or> body = '''' then []
               else [''### '' @ sg_Label segment @ [CHR 0x0A] @ body]) (rev segments)))
      in if blocks = [] then ''''
         else TrimSpace (anchor_title @ [CHR 0x0A] @ anchor_note @
                (from_hex ''efbc9be88ba5e5908ee7bbade8bf98e69c89e69caae58e8be7bca9e6b688e681afefbc8ce58899e4bba5e5908ee7bbade69caae58e8be7bca9e6b688e681afe4b8bae58786e38082'') @ blank_line @ join_with blank_line blocks))"

end
