(* ===== verification/Compaction.thy ===== *)
theory Compaction
  imports RestoreState ContextGuard
begin

text \<open>
  How a request that is too long is rewritten (\<open>compactGatewayContextRequest\<close> in
  internal/server/gateway\_context\_compaction.go): the old items of the conversation become one
  message with a summary, the system messages at the start and the last items stay, and long
  texts are replaced by their beginning and end. The Go code mutates the decoded body in place;
  here each function returns the new value with the segments of text it cut out. A loop over a
  Go map visits it in any order: \<open>order\<close> is that order.
\<close>

section \<open>The text of an item\<close>

text \<open>\<open>m[k] = v\<close>\<close>

definition put :: "string \<Rightarrow> json \<Rightarrow> obj \<Rightarrow> obj" where
  "put k v m = AList.update k v m"

definition gatewayContextTextFromValue :: "obj option \<Rightarrow> string" where
  "gatewayContextTextFromValue m =
     (case m of
        None \<Rightarrow> ''''
      | Some item \<Rightarrow>
          TrimSpace (join_with [CHR 0x0A] (filter (\<lambda>t. t \<noteq> '''')
            [mc_Text (contentValue (field item ''content'')), stringValue (field item ''arguments''),
             stringValue (field item ''output'')])))"

definition has_key :: "obj \<Rightarrow> string \<Rightarrow> bool" where
  "has_key m k = (map_of m k \<noteq> None)"

text \<open>The first text part gets the text, the others become empty.\<close>

fun replace_parts :: "string \<Rightarrow> json list \<Rightarrow> bool \<times> json list" where
  "replace_parts text [] = (False, [])"
| "replace_parts text (JObj m # parts) =
     (if stringValue (field m ''type'') \<in> set [''text'', ''input_text'', ''output_text'']
      then (True, JObj (put ''text'' (JStr text) m) # snd (replace_parts '''' parts))
      else apsnd (Cons (JObj m)) (replace_parts text parts))"
| "replace_parts text (v # parts) = apsnd (Cons v) (replace_parts text parts)"

definition replaceContentText :: "obj \<Rightarrow> string \<Rightarrow> obj" where
  "replaceContentText item text =
     (case field item ''content'' of
        JStr _ \<Rightarrow> put ''content'' (JStr text) item
      | JArr parts \<Rightarrow>
          (case replace_parts text parts of
             (replaced, parts') \<Rightarrow>
               put ''content'' (JArr (if replaced then parts'
                 else JObj [(''type'', JStr ''input_text''), (''text'', JStr text)] # parts')) item)
      | _ \<Rightarrow>
          if has_key item ''arguments'' then put ''arguments'' (JStr text) item
          else if has_key item ''output'' then put ''output'' (JStr text) item
          else put ''content'' (JStr text) item)"

definition gatewayContextSummaryMessagePlaceholder :: string where
  "gatewayContextSummaryMessagePlaceholder = ''[gateway_context_summary]''"

text \<open>What stands in the place of a text that is cut out.\<close>

definition cut_text :: "string \<Rightarrow> string \<Rightarrow> string" where
  "cut_text label text =
     gatewayContextSummaryMessagePlaceholder @ blank_line @ gatewayContextExecutionAnchorText label text"

definition segment :: "string \<Rightarrow> string \<Rightarrow> string \<Rightarrow> gatewayContextTextSegment" where
  "segment label role text = \<lparr>sg_Label = label, sg_Role = role, sg_Text = text\<rparr>"

text \<open>\<open>None\<close> where the content is short.\<close>

definition compactLargeContent ::
  "obj option \<Rightarrow> string \<Rightarrow> string \<Rightarrow> (obj \<times> gatewayContextTextSegment) option" where
  "compactLargeContent m label role =
     (case m of
        None \<Rightarrow> None
      | Some item \<Rightarrow>
          let text = gatewayContextTextFromValue m
          in if rune_count text < 4000 then None
             else Some (replaceContentText item (cut_text label text), segment label role text))"

definition gatewayContextSummaryPlaceholderWithHandoff :: "gatewayContextTextSegment list \<Rightarrow> string" where
  "gatewayContextSummaryPlaceholderWithHandoff segments =
     (let handoff = gatewayContextHandoffText segments
      in if handoff = '''' then gatewayContextSummaryMessagePlaceholder
         else gatewayContextSummaryMessagePlaceholder @ blank_line @ handoff)"

section \<open>Chat messages\<close>

definition item_field :: "json \<Rightarrow> string \<Rightarrow> string" where
  "item_field v k = stringValue (field (nil_map (mapValue v)) k)"

definition chat_label :: "json \<Rightarrow> string" where
  "chat_label v = ''chat.'' @ item_field v ''role''"

definition chatMessageNeedsPrevious :: "json \<Rightarrow> bool" where
  "chatMessageNeedsPrevious v = (item_field v ''role'' = ''tool'')"

text \<open>The system and developer messages at the start.\<close>

definition leads :: "json \<Rightarrow> bool" where
  "leads v = (item_field v ''role'' = ''system'' \<or> item_field v ''role'' = ''developer'')"

definition lead_end :: "json list \<Rightarrow> nat" where
  "lead_end messages = length (takeWhile leads messages)"

text \<open>Move the cut to the front as long as the item at it needs the one before.\<close>

fun cut_back :: "('a \<Rightarrow> bool) \<Rightarrow> nat \<Rightarrow> 'a list \<Rightarrow> nat \<Rightarrow> nat" where
  "cut_back needs low xs 0 = 0"
| "cut_back needs low xs (Suc n) = (if low < Suc n \<and> needs (xs ! Suc n) then cut_back needs low xs n else Suc n)"

text \<open>The index of the longest item, where it has 4000 runes.\<close>

fun largest :: "(json \<Rightarrow> nat) \<Rightarrow> nat \<Rightarrow> nat option \<times> nat \<Rightarrow> json list \<Rightarrow> nat option \<times> nat" where
  "largest f i best [] = best"
| "largest f i (at_index, n) (v # vs) =
     largest f (Suc i) (if n < f v then (Some i, f v) else (at_index, n)) vs"

definition text_size :: "json \<Rightarrow> nat" where
  "text_size v = rune_count (gatewayContextTextFromValue (mapValue v))"

text \<open>A rewritten list of items with the segments cut out of it; \<open>None\<close> where nothing changed.\<close>

type_synonym rewritten = "(json list \<times> gatewayContextTextSegment list) option"

definition compact_largest :: "(json \<Rightarrow> string) \<Rightarrow> (json \<Rightarrow> string) \<Rightarrow> json list \<Rightarrow> rewritten" where
  "compact_largest label role items =
     (case largest text_size 0 (None, 0) items of
        (Some i, n) \<Rightarrow>
          if n < 4000 then None
          else map_option (\<lambda>(item, seg). (items[i := JObj item], [seg]))
                 (compactLargeContent (mapValue (items ! i)) (label (items ! i)) (role (items ! i)))
      | (None, _) \<Rightarrow> None)"

definition message_role :: "json \<Rightarrow> string" where
  "message_role v = item_field v ''role''"

definition compactLargestChatMessage :: "json list \<Rightarrow> rewritten" where
  "compactLargestChatMessage messages = compact_largest chat_label message_role messages"

definition compact_single :: "(json \<Rightarrow> string) \<Rightarrow> (json \<Rightarrow> string) \<Rightarrow> json \<Rightarrow> rewritten" where
  "compact_single label role v =
     map_option (\<lambda>(item, seg). ([JObj item], [seg])) (compactLargeContent (mapValue v) (label v) (role v))"

definition cut_segments :: "(json \<Rightarrow> string) \<Rightarrow> (json \<Rightarrow> string) \<Rightarrow> json list \<Rightarrow> gatewayContextTextSegment list" where
  "cut_segments label role items =
     concat (map (\<lambda>v. let text = gatewayContextTextFromValue (mapValue v)
                      in if text = '''' then [] else [segment (label v) (role v) text]) items)"

definition chat_keep_start :: "json list \<Rightarrow> nat \<Rightarrow> nat" where
  "chat_keep_start messages keepItems =
     cut_back chatMessageNeedsPrevious (lead_end messages) messages
       (max (lead_end messages) (length messages - keepItems))"

definition chat_summary_message :: "gatewayContextTextSegment list \<Rightarrow> json" where
  "chat_summary_message old =
     JObj [(''role'', JStr ''user''), (''content'', JStr (gatewayContextSummaryPlaceholderWithHandoff old))]"

definition compactChatMessages :: "json list \<Rightarrow> nat \<Rightarrow> rewritten" where
  "compactChatMessages messages keepItems =
     (case messages of
        [] \<Rightarrow> None
      | [v] \<Rightarrow> compact_single chat_label message_role v
      | _ \<Rightarrow>
          let leadEnd = lead_end messages; keepStart = chat_keep_start messages keepItems;
              old = cut_segments chat_label message_role (drop leadEnd (take keepStart messages))
          in if keepStart \<le> leadEnd then compactLargestChatMessage messages
             else Some (take leadEnd messages @ chat_summary_message old # drop keepStart messages, old))"

definition compactChatPayload :: "obj \<Rightarrow> nat \<Rightarrow> (obj \<times> gatewayContextTextSegment list) option" where
  "compactChatPayload payload keepItems =
     (case field payload ''messages'' of
        JArr messages \<Rightarrow>
          map_option (\<lambda>(next, old). (put ''messages'' (JArr next) payload, old)) (compactChatMessages messages keepItems)
      | _ \<Rightarrow> None)"

section \<open>Items of a response\<close>

definition response_label :: "json \<Rightarrow> string" where
  "response_label v = ''responses.'' @ item_field v ''type''"

definition responsesItemNeedsPrevious :: "json \<Rightarrow> bool" where
  "responsesItemNeedsPrevious v = (item_field v ''type'' = ''function_call_output'')"

definition part_role :: "json \<Rightarrow> string" where
  "part_role part =
     (let t = item_field part ''type''
      in if t = ''output_text'' then ''assistant'' else if t = ''input_text'' then ''user'' else '''')"

definition gatewayResponseItemRole :: "json \<Rightarrow> string" where
  "gatewayResponseItemRole v =
     (if item_field v ''role'' \<noteq> '''' then item_field v ''role''
      else if item_field v ''type'' = ''function_call_output'' then ''tool''
      else if item_field v ''type'' = ''message''
      then (case filter (\<lambda>r. r \<noteq> '''') (map part_role (listValue (field (nil_map (mapValue v)) ''content''))) of
              r # _ \<Rightarrow> r | [] \<Rightarrow> '''')
      else '''')"

definition compactLargestResponsesItem :: "json list \<Rightarrow> rewritten" where
  "compactLargestResponsesItem items = compact_largest response_label gatewayResponseItemRole items"

text \<open>The long texts among the items that are kept.\<close>

definition compact_recent :: "json \<Rightarrow> json \<times> gatewayContextTextSegment list" where
  "compact_recent v =
     (let text = gatewayContextTextFromValue (mapValue v)
      in if contains text gatewayContextSummaryMessagePlaceholder \<or> rune_count text < 4000 then (v, [])
         else case compactLargeContent (mapValue v) (''responses.recent.'' @ item_field v ''type'') (gatewayResponseItemRole v) of
                None \<Rightarrow> (v, [])
              | Some (item, seg) \<Rightarrow> (JObj item, [seg]))"

definition compactLargeResponsesItems :: "json list \<Rightarrow> json list \<times> gatewayContextTextSegment list" where
  "compactLargeResponsesItems items = (map (fst \<circ> compact_recent) items, concat (map (snd \<circ> compact_recent) items))"

definition response_keep_start :: "json list \<Rightarrow> nat \<Rightarrow> nat" where
  "response_keep_start items keepItems =
     cut_back responsesItemNeedsPrevious 0 items (length items - keepItems)"

definition response_summary_message :: "gatewayContextTextSegment list \<Rightarrow> json" where
  "response_summary_message old =
     JObj [(''type'', JStr ''message''), (''role'', JStr ''user''),
           (''content'', JArr [JObj [(''type'', JStr ''input_text''),
              (''text'', JStr (gatewayContextSummaryPlaceholderWithHandoff old))]])]"

definition compactResponsesItems :: "json list \<Rightarrow> nat \<Rightarrow> rewritten" where
  "compactResponsesItems items keepItems =
     (case items of
        [] \<Rightarrow> None
      | [v] \<Rightarrow> compact_single response_label gatewayResponseItemRole v
      | _ \<Rightarrow>
          let keepStart = response_keep_start items keepItems;
              old = cut_segments response_label gatewayResponseItemRole (take keepStart items)
          in if keepStart = 0 then compactLargestResponsesItem items
             else case compactLargeResponsesItems (drop keepStart items) of
                    (kept, recent) \<Rightarrow> Some (response_summary_message old # kept, old @ recent))"

definition compactResponsesPayload :: "obj \<Rightarrow> nat \<Rightarrow> (obj \<times> gatewayContextTextSegment list) option" where
  "compactResponsesPayload payload keepItems =
     (case field payload ''input'' of
        JStr v \<Rightarrow>
          if rune_count v < 4000 then None
          else Some (put ''input'' (JStr (cut_text ''responses.input'' v)) payload, [segment ''responses.input'' ''user'' v])
      | JArr items \<Rightarrow>
          map_option (\<lambda>(next, old). (put ''input'' (JArr next) payload, old)) (compactResponsesItems items keepItems)
      | _ \<Rightarrow> None)"

section \<open>Other long texts\<close>

definition gatewayContextCompactableStringKey :: "string \<Rightarrow> bool" where
  "gatewayContextCompactableStringKey key =
     (TrimSpace key \<in> set [''instructions'', ''input'', ''content'', ''text'', ''arguments'', ''output''])"

definition gatewayContextSkipGenericCompaction :: "string list \<Rightarrow> bool" where
  "gatewayContextSkipGenericCompaction path = (\<exists>part \<in> set path. part \<in> set [''tools'', ''tool_choice'', ''metadata''])"

definition gatewayPayloadStringRole :: "string list \<Rightarrow> string" where
  "gatewayPayloadStringRole path =
     (let joined = join_with ''.'' path
      in if says joined [''.instructions'', ''.input'', ''.content'', ''.text''] then ''user''
         else if contains joined ''.output'' then ''tool''
         else '''')"

definition compactLargeStringValue ::
  "string \<Rightarrow> string \<Rightarrow> string \<Rightarrow> json \<times> gatewayContextTextSegment list" where
  "compactLargeStringValue text label role =
     (if contains text gatewayContextSummaryMessagePlaceholder \<or> contains text schema_version \<or> rune_count text < 4000
      then (JStr text, [])
      else (JStr (cut_text label text), [segment label role text]))"

definition index_name :: "nat \<Rightarrow> string" where
  "index_name i = ''['' @ Itoa (int i) @ '']''"

lemma enumerate_size [termination_simp]: "(i, v) \<in> set (enumerate n vs) \<Longrightarrow> f v < Suc (size_list f vs)"
proof -
  assume "(i, v) \<in> set (enumerate n vs)"
  then have "v \<in> set vs" by (auto simp: in_set_enumerate_eq)
  then show ?thesis by (simp add: less_Suc_eq_le size_list_estimation')
qed

fun compactLargePayloadStrings ::
  "(obj \<Rightarrow> obj) \<Rightarrow> string list \<Rightarrow> json \<Rightarrow> json \<times> gatewayContextTextSegment list" where
  "compactLargePayloadStrings order path (JObj m) =
     (let results = map (\<lambda>(key, child).
            let nextPath = path @ [key]
            in (key,
                if gatewayContextSkipGenericCompaction nextPath then (child, [])
                else case child of
                       JStr text \<Rightarrow>
                         if gatewayContextCompactableStringKey key
                         then compactLargeStringValue text (join_with ''.'' nextPath) (gatewayPayloadStringRole nextPath)
                         else (child, [])
                     | _ \<Rightarrow> compactLargePayloadStrings order nextPath child)) m
      in (JObj (map (\<lambda>(key, r). (key, fst r)) results),
          concat (map (\<lambda>(key, _). case map_of results key of None \<Rightarrow> [] | Some r \<Rightarrow> snd r) (order m))))"
| "compactLargePayloadStrings order path (JArr vs) =
     (let results = map (\<lambda>(i, child). compactLargePayloadStrings order (path @ [index_name i]) child) (enumerate 0 vs)
      in (JArr (map fst results), concat (map snd results)))"
| "compactLargePayloadStrings order path v = (v, [])"

section \<open>The whole request\<close>

definition summary_introduction :: string where
  "summary_introduction =
     (from_hex ''e4bba5e4b88be698afe7bd91e585b3e887aae58aa8e58e8be7bca9e5908ee79a84e5b7a5e7a88be4bc9ae8af9de78ab6e68081e58c85e38082e5bf85e9a1bbe58588e8afbbe58f96e585b6e4b8ade79a84'' @ '' JSON schema '' @ from_hex ''e5ad97e6aeb5'') @
     (from_hex ''e5b9b6e5819a'' @ '' restore_audit'' @ from_hex ''efbc8ce5868de586b3e5ae9ae698afe590a6e7bba7e7bbadefbc9be4b88de8a681e4bb8e'' @ '' historical_context_only'' @ from_hex ''e38081'') @
     (''obsolete_or_superseded_constraints '' @ from_hex ''e68896e58e86e58fb2e8b7afe5be84'' @ ''/'' @ from_hex ''e697a5e5bf97e9878ce887aae8a18ce7949fe68890e696b0e79baee6a087e38082'') @
     (''latest_uncompressed_user_instruction '' @ from_hex ''e5928ce5908ee7bbade69caae58e8be7bca9e794a8e688b7e6b688e681afe4bc98e58588e4ba8ee697a7e78ab6e68081e58c85efbc9b'') @
     (from_hex ''e5a682e69e9ce5ae83e6988ee7a1aee58581e8aeb8e7bba7e7bbade689a7e8a18ce68896e5b7a5e585b7e8b083e794a8efbc8ce4b88de8a681e7bba7e7bbade5a597e794a8e697a7e79a84'' @ '' stopped / must_not_do / '') @
     (''requires_user_confirmation_before'' @ from_hex ''e38082e58faae69c89'' @ '' current_effective_constraints'' @ from_hex ''e38081'' @ ''must_not_do '') @
     (from_hex ''e5928c'' @ '' current_task_phase '' @ from_hex ''e585b1e5908ce8a1a8e7a4bae5bd93e5898de4bb8de5819ce6ada2e38081e69a82e5819ce38081e58faae8afbbe68896e99c80e8a681e7a1aee8aea4e697b6efbc8c'') @
     (from_hex ''e4b88be4b880e6ada5e6898de58faae883bde7a1aee8aea4e68896e5819ce6ada2e38082'') @ blank_line"

text \<open>The first item whose text has the placeholder gets the summary.\<close>

fun insert_summary :: "string \<Rightarrow> json list \<Rightarrow> json list" where
  "insert_summary message [] = []"
| "insert_summary message (v # vs) =
     (let text = gatewayContextTextFromValue (mapValue v)
      in if contains text gatewayContextSummaryMessagePlaceholder
         then JObj (replaceContentText (nil_map (mapValue v))
                (replace_first text gatewayContextSummaryMessagePlaceholder message)) # vs
         else v # insert_summary message vs)"

definition insertGatewayContextSummary :: "string \<Rightarrow> obj \<Rightarrow> string \<Rightarrow> obj" where
  "insertGatewayContextSummary path payload summary =
     (let message = summary_introduction @ summary
      in if path = ''/v1/responses''
         then (case field payload ''input'' of
                 JArr items \<Rightarrow> put ''input'' (JArr (insert_summary message items)) payload
               | JStr s \<Rightarrow>
                   if contains s gatewayContextSummaryMessagePlaceholder
                   then put ''input'' (JStr (replace_first s gatewayContextSummaryMessagePlaceholder message)) payload
                   else payload
               | _ \<Rightarrow> payload)
         else (case field payload ''messages'' of
                 JArr items \<Rightarrow> put ''messages'' (JArr (insert_summary message items)) payload
               | _ \<Rightarrow> payload))"

definition unchanged :: "int \<Rightarrow> int \<Rightarrow> gatewayContextCompaction" where
  "unchanged bytes tokens =
     \<lparr>co_Body = '''', co_Summary = '''', co_Reason = '''', co_OriginalBytes = bytes, co_CompactedBytes = 0,
      co_OriginalTokens = tokens, co_CompactedTokens = 0, co_Changed = False\<rparr>"

text \<open>The rewritten payload and all segments cut out of it, before the summary is inserted.\<close>

definition compact_payload ::
  "(obj \<Rightarrow> obj) \<Rightarrow> string \<Rightarrow> obj \<Rightarrow> nat \<Rightarrow> (obj \<times> gatewayContextTextSegment list) option" where
  "compact_payload order path payload keepItems =
     (case (if path = ''/v1/responses'' then compactResponsesPayload payload keepItems
            else compactChatPayload payload keepItems) of
        None \<Rightarrow> None
      | Some (next, old) \<Rightarrow>
          if old = [] then None
          else case compactLargePayloadStrings order [''payload''] (JObj next) of
                 (v, others) \<Rightarrow> Some (nil_map (mapValue v), old @ others))"

definition compactGatewayContextRequest ::
  "(obj \<Rightarrow> obj) \<Rightarrow> (rat \<Rightarrow> string) \<Rightarrow> string \<Rightarrow> string \<Rightarrow> string \<Rightarrow> int \<Rightarrow>
   upstream_error + gatewayContextCompaction" where
  "compactGatewayContextRequest order fmt_float path body previousSummary keepItems =
     (case decode_object body of
        None \<Rightarrow> Inl (TextError ''invalid character'')
      | Some payload \<Rightarrow>
          let bytes = int (length body); tokens = estimateGatewayRequestTokens fmt_float path body
          in Inr (case compact_payload order path payload (nat (max 2 keepItems)) of
               None \<Rightarrow> unchanged bytes tokens
             | Some (next, old) \<Rightarrow>
                 let summary = buildGatewayContextSummary previousSummary old;
                     nextBody = json_encode fmt_float (JObj (insertGatewayContextSummary path next summary))
                 in \<lparr>co_Body = nextBody, co_Summary = summary, co_Reason = ''request_preflight'',
                     co_OriginalBytes = bytes, co_CompactedBytes = int (length nextBody),
                     co_OriginalTokens = tokens,
                     co_CompactedTokens = estimateGatewayRequestTokens fmt_float path nextBody,
                     co_Changed = True\<rparr>))"

end
