(* ===== verification/CompactionRules.thy ===== *)
theory CompactionRules
  imports Compaction RestoreRules
begin

text \<open>
  What a rewritten request keeps of the conversation, what it takes for the words of the user, and
  how the facts of a restore state are handed on.
\<close>

section \<open>The items that are kept\<close>

lemma cut_back_bounds: "low \<le> n \<Longrightarrow> low \<le> cut_back needs low xs n \<and> cut_back needs low xs n \<le> n"
  by (induction n) auto

lemma cut_back_stops: "low < cut_back needs low xs n \<Longrightarrow> \<not> needs (xs ! cut_back needs low xs n)"
  by (induction n) (auto split: if_splits)

lemma cut_back_needs: "cut_back needs low xs n < i \<Longrightarrow> i \<le> n \<Longrightarrow> needs (xs ! i)"
  by (induction n) (auto simp: le_Suc_eq split: if_splits)

lemma lead_end_le: "lead_end messages \<le> length messages"
  by (simp add: lead_end_def length_takeWhile_le)

lemma take_lead_end: "take (lead_end messages) messages = takeWhile leads messages"
  unfolding lead_end_def by (rule takeWhile_eq_take [symmetric])

lemma chat_keep_start_bounds:
  "lead_end messages \<le> chat_keep_start messages k \<and>
   chat_keep_start messages k \<le> max (lead_end messages) (length messages - k)"
  unfolding chat_keep_start_def by (intro cut_back_bounds max.cobounded1)

lemma compact_largest_some:
  assumes "compact_largest label role items = Some (rest, old)"
  obtains i item seg where "rest = items[i := JObj item]" "old = [seg]"
    "compactLargeContent (mapValue (items ! i)) (label (items ! i)) (role (items ! i)) = Some (item, seg)"
  using assms by (auto simp: compact_largest_def split: prod.splits option.splits if_splits)

lemma compactChatMessages_long:
  assumes "2 \<le> length messages"
  shows "compactChatMessages messages keepItems =
    (let a = lead_end messages; b = chat_keep_start messages keepItems;
         old = cut_segments chat_label message_role (drop a (take b messages))
     in if b \<le> a then compactLargestChatMessage messages
        else Some (takeWhile leads messages @ chat_summary_message old # drop b messages, old))"
proof -
  obtain v w vs where "messages = v # w # vs" using assms by (cases messages; cases "tl messages") auto
  then show ?thesis unfolding compactChatMessages_def take_lead_end [symmetric] by (simp add: Let_def)
qed

text \<open>
  C29. What is left of a chat. Rewriting a conversation of two messages or more either
  replaces the text of one message, and leaves the others and their order alone, or keeps the
  system messages at the start and at least the last \<open>keepItems\<close> messages unchanged and puts one
  message of the user between them. In that case the kept end does not start with the answer of a
  tool, and only answers of tools stand in it before the last \<open>keepItems\<close>, but for its first.
\<close>
theorem chat_keeps_both_ends:
  assumes "compactChatMessages messages keepItems = Some (rest, old)" and "2 \<le> length messages" and "2 \<le> keepItems"
  shows "(\<exists>i item. rest = messages[i := JObj item]) \<or>
    (\<exists>middle recent.
       messages = takeWhile leads messages @ middle @ recent \<and>
       rest = takeWhile leads messages @ chat_summary_message old # recent \<and>
       old = cut_segments chat_label message_role middle \<and> middle \<noteq> [] \<and>
       keepItems \<le> length recent \<and> \<not> chatMessageNeedsPrevious (hd recent) \<and>
       list_all chatMessageNeedsPrevious (tl (take (length recent - keepItems + 1) recent)))"
proof -
  let ?a = "lead_end messages" and ?b = "chat_keep_start messages keepItems"
  note rewritten = assms(1) [unfolded compactChatMessages_long [OF assms(2)] Let_def]
  show ?thesis
  proof (cases "?b \<le> ?a")
    case True
    then have "compactLargestChatMessage messages = Some (rest, old)"
      using rewritten by simp
    then show ?thesis unfolding compactLargestChatMessage_def by (elim compact_largest_some) blast
  next
    case False
    define n where "n = length messages - keepItems"
    have b: "?b \<le> max ?a n" using chat_keep_start_bounds n_def by blast
    then have le: "?a < ?b" "?b \<le> n" using False by (auto simp: max_def split: if_splits)
    have long: "keepItems \<le> length messages" "n < length messages" "0 < n"
      using le assms n_def by auto
    have keep: "?b = cut_back chatMessageNeedsPrevious ?a messages n"
      using le b by (simp add: chat_keep_start_def n_def [symmetric] max_def)
    have stop: "\<not> chatMessageNeedsPrevious (messages ! ?b)"
      using cut_back_stops [of ?a chatMessageNeedsPrevious messages n] le(1) unfolding keep by simp
    have needs: "chatMessageNeedsPrevious (messages ! i)" if "?b < i" "i \<le> n" for i
      using cut_back_needs [of chatMessageNeedsPrevious ?a messages n i] that unfolding keep by simp
    let ?middle = "drop ?a (take ?b messages)" and ?recent = "drop ?b messages"
    have shape: "rest = takeWhile leads messages @ chat_summary_message old # ?recent"
      "old = cut_segments chat_label message_role ?middle"
      using rewritten False by auto
    have "messages = take ?a messages @ ?middle @ ?recent"
      using le by (metis append_take_drop_id less_imp_le_nat min.absorb1 append_assoc take_take)
    moreover have "?middle \<noteq> []" using le long by simp
    moreover have "keepItems \<le> length ?recent" using le long n_def by simp
    moreover have "hd ?recent = messages ! ?b" using le long by (simp add: hd_drop_conv_nth)
    moreover have "list_all chatMessageNeedsPrevious (tl (take (length ?recent - keepItems + 1) ?recent))"
    proof -
      have "chatMessageNeedsPrevious (tl (take (length ?recent - keepItems + 1) ?recent) ! i)"
        if "i < length (tl (take (length ?recent - keepItems + 1) ?recent))" for i
      proof -
        have i: "i + ?b < n" using that le long n_def by auto
        then have "tl (take (length ?recent - keepItems + 1) ?recent) ! i = messages ! (?b + Suc i)"
          using that le long by (simp add: nth_tl)
        then show ?thesis using needs [of "?b + Suc i"] i by simp
      qed
      then show ?thesis by (simp add: list_all_length)
    qed
    ultimately show ?thesis using shape stop unfolding take_lead_end by metis
  qed
qed


definition sample_chat :: "json list" where
  "sample_chat =
     map (\<lambda>(r, t). JObj [(''role'', JStr r), (''content'', JStr t)])
       [(''system'', ''be brief''), (''user'', ''one''), (''assistant'', ''two''), (''tool'', ''three''), (''user'', ''four'')]"

theorem chat_keeps_both_ends_witness:
  "\<exists>rest old. compactChatMessages sample_chat 2 = Some (rest, old) \<and>
     ((\<exists>i item. rest = sample_chat[i := JObj item]) \<or>
      (\<exists>middle recent.
         sample_chat = takeWhile leads sample_chat @ middle @ recent \<and>
         rest = takeWhile leads sample_chat @ chat_summary_message old # recent \<and>
         old = cut_segments chat_label message_role middle \<and> middle \<noteq> [] \<and>
         2 \<le> length recent \<and> \<not> chatMessageNeedsPrevious (hd recent) \<and>
         list_all chatMessageNeedsPrevious (tl (take (length recent - 2 + 1) recent))))"
proof -
  have two: "2 \<le> length sample_chat" by (simp add: sample_chat_def)
  have "\<not> chat_keep_start sample_chat 2 \<le> lead_end sample_chat" by code_simp
  then obtain rest old where some: "compactChatMessages sample_chat 2 = Some (rest, old)"
    unfolding compactChatMessages_long [OF two] Let_def by simp
  then show ?thesis using chat_keeps_both_ends [OF some two] by blast
qed

section \<open>Items of a response\<close>

lemma kept_outputs:
  assumes "\<not> responsesItemNeedsPrevious b" "responsesItemNeedsPrevious x" "responsesItemNeedsPrevious y"
  shows "response_keep_start (start @ [a, b, x, y]) 2 = length start + 1"
proof -
  have nth: "(start @ [a, b, x, y]) ! Suc (Suc (length start)) = x" "(start @ [a, b, x, y]) ! Suc (length start) = b"
    by (simp_all add: nth_append)
  have "response_keep_start (start @ [a, b, x, y]) 2 =
      cut_back responsesItemNeedsPrevious 0 (start @ [a, b, x, y]) (Suc (Suc (length start)))"
    by (simp add: response_keep_start_def)
  then show ?thesis by (simp add: nth assms)
qed

lemma compactResponsesItems_long:
  assumes "2 \<le> length items"
  shows "compactResponsesItems items keepItems =
    (let b = response_keep_start items keepItems;
         old = cut_segments response_label gatewayResponseItemRole (take b items)
     in if b = 0 then compactLargestResponsesItem items
        else Some (response_summary_message old # map (fst \<circ> compact_recent) (drop b items),
               old @ concat (map (snd \<circ> compact_recent) (drop b items))))"
proof -
  obtain v w vs where "items = v # w # vs" using assms by (cases items; cases "tl items") auto
  then show ?thesis unfolding compactResponsesItems_def compactLargeResponsesItems_def by (simp add: Let_def)
qed

text \<open>
  Two calls that were made together are torn apart: of two calls and their two outputs at the
  end, the first call is cut, and its output stays.
\<close>

theorem parallel_calls_are_torn:
  assumes "\<not> responsesItemNeedsPrevious b" "responsesItemNeedsPrevious x" "responsesItemNeedsPrevious y"
  shows "\<exists>old. map_option fst (compactResponsesItems (start @ [a, b, x, y]) 2) =
    Some (response_summary_message old # map (fst \<circ> compact_recent) [b, x, y])"
proof -
  have "2 \<le> length (start @ [a, b, x, y])" by simp
  note compactResponsesItems_long [OF this, of 2]
  then show ?thesis unfolding kept_outputs [OF assms, of start a] by (auto simp: Let_def)
qed


section \<open>Whose words they are\<close>

lemma message_path_role:
  "gatewayPayloadStringRole [''payload'', ''messages'', index, ''content''] = ''user''"
proof -
  have "join_with ''.'' [''payload'', ''messages'', index, ''content''] = (''payload.messages.'' @ index) @ ''.content'' @ ''''"
    by simp
  then have "contains (join_with ''.'' [''payload'', ''messages'', index, ''content'']) ''.content''"
    unfolding contains_iff by blast
  then show ?thesis by (simp add: gatewayPayloadStringRole_def says_def Let_def)
qed

lemma user_segment_instructs: "gatewaySegmentCanProvideUserInstruction (segment label ''user'' text)"
proof -
  have "ToLower (TrimSpace ''user'') = ''user''" by code_simp
  then show ?thesis by (simp add: gatewaySegmentCanProvideUserInstruction_def segment_def Let_def)
qed

lemma message_path_searched:
  "\<not> gatewayContextSkipGenericCompaction [''payload'', ''messages'', index_name i, ''content'']"
  "\<not> gatewayContextSkipGenericCompaction [''payload'', ''messages'']"
  by (simp_all add: gatewayContextSkipGenericCompaction_def index_name_def)

lemma map_of_results: "map_of (map (\<lambda>(k, c). (k, f k c)) m) key = map_option (f key) (map_of m key)"
  by (induction m) auto

definition member_result :: "(obj \<Rightarrow> obj) \<Rightarrow> string list \<Rightarrow> string \<Rightarrow> json \<Rightarrow> json \<times> gatewayContextTextSegment list" where
  "member_result order path key child =
     (if gatewayContextSkipGenericCompaction (path @ [key]) then (child, [])
      else case child of
             JStr text \<Rightarrow>
               if gatewayContextCompactableStringKey key
               then compactLargeStringValue text (join_with ''.'' (path @ [key])) (gatewayPayloadStringRole (path @ [key]))
               else (child, [])
           | _ \<Rightarrow> compactLargePayloadStrings order (path @ [key]) child)"

lemma object_segments:
  "snd (compactLargePayloadStrings order path (JObj m)) =
   concat (map (\<lambda>(key, _). case map_of m key of None \<Rightarrow> [] | Some child \<Rightarrow> snd (member_result order path key child)) (order m))"
  unfolding compactLargePayloadStrings.simps(1) Let_def member_result_def [symmetric] map_of_results snd_conv
  by (intro arg_cong [where f = concat] map_cong refl) (auto split: option.splits)

lemma member_segments:
  assumes "map_of m key = Some child" "key \<in> fst ` set (order m)" "s \<in> set (snd (member_result order path key child))"
  shows "s \<in> set (snd (compactLargePayloadStrings order path (JObj m)))"
  unfolding object_segments using assms by force


lemma element_segments:
  assumes "i < length vs" "s \<in> set (snd (compactLargePayloadStrings order (path @ [index_name i]) (vs ! i)))"
  shows "s \<in> set (snd (compactLargePayloadStrings order path (JArr vs)))"
proof -
  have "(i, vs ! i) \<in> set (enumerate 0 vs)" using assms(1) by (simp add: in_set_enumerate_eq)
  then show ?thesis unfolding compactLargePayloadStrings.simps(2) Let_def snd_conv using assms(2) by force
qed

text \<open>
  C28. The answer of a tool becomes an instruction of the user. When a request is rewritten,
  the long text of every message that was kept is cut out as a segment that may tell the model
  what to do, whoever wrote the message: the role is guessed from the path of the text, which
  has \<open>.content\<close> in it, and not from the message. So lines of a tool's output can become the latest
  instruction of the restore state.
\<close>
theorem tool_text_can_instruct:
  assumes "map_of payload ''messages'' = Some (JArr messages)" "messages ! i = JObj message" "i < length messages"
    and "map_of message ''role'' = Some (JStr ''tool'')" "map_of message ''content'' = Some (JStr text)"
    and "4000 \<le> rune_count text" "\<not> contains text gatewayContextSummaryMessagePlaceholder" "\<not> contains text schema_version"
    and "\<forall>m. set (order m) = set m"
  shows "\<exists>s \<in> set (snd (compactLargePayloadStrings order [''payload''] (JObj payload))).
    sg_Text s = text \<and> gatewaySegmentCanProvideUserInstruction s"
proof -
  let ?path = "[''payload'', ''messages'', index_name i]"
  let ?s = "segment (join_with ''.'' (?path @ [''content''])) ''user'' text"
  have key: "k \<in> fst ` set (order m)" if "map_of m k = Some v" for m k v
    using map_of_SomeD [OF that] assms(9) by force
  have "?s \<in> set (snd (member_result order ?path ''content'' (JStr text)))"
    using assms(6-8) message_path_searched(1) message_path_role
    by (simp add: member_result_def compactLargeStringValue_def gatewayContextCompactableStringKey_def string_eval)
  then have "?s \<in> set (snd (compactLargePayloadStrings order ?path (JObj message)))"
    using member_segments [of message, OF assms(5)] key [OF assms(5)] by blast
  then have "?s \<in> set (snd (compactLargePayloadStrings order [''payload'', ''messages''] (JArr messages)))"
    using element_segments [OF assms(3), of ?s order "[''payload'', ''messages'']"] assms(2) by simp
  then have "?s \<in> set (snd (member_result order [''payload''] ''messages'' (JArr messages)))"
    using message_path_searched(2) by (simp add: member_result_def del: compactLargePayloadStrings.simps)
  then have "?s \<in> set (snd (compactLargePayloadStrings order [''payload''] (JObj payload)))"
    using member_segments [of payload, OF assms(1)] key [OF assms(1)] by blast
  moreover have "sg_Text ?s = text" by (simp add: segment_def)
  ultimately show ?thesis using user_segment_instructs by blast
qed

definition long_text :: string where
  "long_text = replicate 4000 (CHR ''a'')"

definition tool_message :: obj where
  "tool_message = [(''role'', JStr ''tool''), (''content'', JStr long_text)]"

theorem tool_text_can_instruct_witness:
  "\<exists>s \<in> set (snd (compactLargePayloadStrings (\<lambda>m. m) [''payload''] (JObj [(''messages'', JArr [JObj tool_message])]))).
     sg_Text s = long_text \<and> gatewaySegmentCanProvideUserInstruction s"
proof (rule tool_text_can_instruct [where message = tool_message and messages = "[JObj tool_message]" and i = 0])
  show "4000 \<le> rune_count long_text"
    unfolding long_text_def rune_count_runes by (subst ascii_runes) (simp_all add: list_all_iff)
  have "set long_text = {CHR ''a''}" by (simp add: long_text_def)
  then show "\<not> contains long_text gatewayContextSummaryMessagePlaceholder" "\<not> contains long_text schema_version"
    using contains_set [of long_text] by (fastforce simp: gatewayContextSummaryMessagePlaceholder_def schema_version_def)+
qed (simp_all add: tool_message_def)


section \<open>Facts\<close>

text \<open>The facts as they are kept: trimmed, cut at 300 runes, without the lines of the gateway itself.\<close>

definition fact_texts :: "string list \<Rightarrow> string list" where
  "fact_texts raws =
     map (\<lambda>f. limitRunes (TrimSpace f) 300)
       (filter (\<lambda>f. TrimSpace f \<noteq> '''' \<and> \<not> gatewayLineIsCompactionMeta (TrimSpace f)) raws)"

lemma fact_texts_Nil: "fact_texts [] = []"
  by (simp add: fact_texts_def)

lemma fact_texts_append: "fact_texts (xs @ ys) = fact_texts xs @ fact_texts ys"
  by (simp add: fact_texts_def)

lemma append_fact_cases:
  "gatewayAppendDurableFact limit facts raw =
     (if fact_texts [raw] = [] \<or> hd (fact_texts [raw]) \<in> set facts then facts
      else last_n limit (facts @ fact_texts [raw]))"
  by (auto simp: gatewayAppendDurableFact_def fact_texts_def Let_def)

lemma append_fact_bounds:
  assumes "distinct facts" "length facts \<le> limit" "\<forall>f \<in> set facts. rune_count f \<le> 300"
  shows "distinct (gatewayAppendDurableFact limit facts raw)"
    "length (gatewayAppendDurableFact limit facts raw) \<le> limit"
    "\<forall>f \<in> set (gatewayAppendDurableFact limit facts raw). rune_count f \<le> 300"
proof -
  let ?facts = "gatewayAppendDurableFact limit facts raw"
  have one: "fact_texts [raw] = [] \<or> (\<exists>f. fact_texts [raw] = [f] \<and> rune_count f \<le> 300)"
    by (simp add: fact_texts_def limit_runes_bound)
  show "distinct ?facts" using one assms(1) by (auto simp: append_fact_cases intro: distinct_last_n)
  show "length ?facts \<le> limit" using assms(2) by (simp add: append_fact_cases)
  show "\<forall>f \<in> set ?facts. rune_count f \<le> 300"
  proof
    fix f
    assume "f \<in> set ?facts"
    then have "f \<in> set facts \<union> set (fact_texts [raw])"
      using set_last_n [of limit "facts @ fact_texts [raw]"] by (auto simp: append_fact_cases split: if_splits)
    then show "rune_count f \<le> 300" using assms(3) one by auto
  qed
qed

lemma append_facts_bounds:
  assumes "distinct facts" "length facts \<le> limit" "\<forall>f \<in> set facts. rune_count f \<le> 300"
  shows "distinct (foldl (gatewayAppendDurableFact limit) facts raws) \<and>
    length (foldl (gatewayAppendDurableFact limit) facts raws) \<le> limit \<and>
    (\<forall>f \<in> set (foldl (gatewayAppendDurableFact limit) facts raws). rune_count f \<le> 300)"
  using assms
proof (induction raws arbitrary: facts)
  case (Cons raw raws)
  from Cons.IH [OF append_fact_bounds [OF Cons.prems, of raw]] show ?case unfolding foldl_Cons .
qed simp

lemma append_fact_set:
  assumes "distinct facts" "card (set facts \<union> set (fact_texts [raw])) \<le> limit"
  shows "set (gatewayAppendDurableFact limit facts raw) = set facts \<union> set (fact_texts [raw])"
proof (cases "fact_texts [raw]")
  case Nil
  then show ?thesis by (simp add: append_fact_cases)
next
  case (Cons f fs)
  then have f: "fact_texts [raw] = [f]" by (simp add: fact_texts_def split: if_splits)
  show ?thesis
  proof (cases "f \<in> set facts")
    case True
    then show ?thesis using f by (auto simp: append_fact_cases)
  next
    case False
    then have "length (facts @ [f]) \<le> limit" using assms f by (simp add: distinct_card)
    then show ?thesis using f False by (auto simp: append_fact_cases last_n_id)
  qed
qed

lemma append_facts_set:
  assumes "distinct facts" "length facts \<le> limit" "\<forall>f \<in> set facts. rune_count f \<le> 300"
    "card (set facts \<union> set (fact_texts raws)) \<le> limit"
  shows "set (foldl (gatewayAppendDurableFact limit) facts raws) = set facts \<union> set (fact_texts raws)"
  using assms
proof (induction raws arbitrary: facts)
  case Nil
  then show ?case by (simp add: fact_texts_def)
next
  case (Cons raw raws)
  have all: "set (fact_texts (raw # raws)) = set (fact_texts [raw]) \<union> set (fact_texts raws)"
    using fact_texts_append [of "[raw]" raws] by simp
  have "card (set facts \<union> set (fact_texts [raw])) \<le> limit"
    by (rule order.trans [OF card_mono Cons.prems(4)]) (auto simp: all)
  note step = append_fact_set [OF Cons.prems(1) this] and bounds = append_fact_bounds [OF Cons.prems(1-3), of raw]
  have "card (set (gatewayAppendDurableFact limit facts raw) \<union> set (fact_texts raws)) \<le> limit"
    using Cons.prems(4) unfolding step all by (simp add: Un_assoc)
  from Cons.IH [OF bounds this] show ?case unfolding step all by (simp add: Un_assoc)
qed

text \<open>
  C30. Facts are not forgotten. The durable facts of a restore state are at most 64, each once and
  each of at most 300 runes; as long as the facts of the earlier state and the new ones fit, every
  one of them is there, trimmed and cut to its length, and no other.
\<close>
theorem facts_are_handed_on:
  assumes "card (set (fact_texts (rs_DurableFacts before)) \<union> set (fact_texts (gatewayFactLines segments 64))) \<le> 64"
  shows "distinct (rs_DurableFacts (buildGatewayContextRestoreState text segments (Some before))) \<and>
    length (rs_DurableFacts (buildGatewayContextRestoreState text segments (Some before))) \<le> 64 \<and>
    (\<forall>f \<in> set (rs_DurableFacts (buildGatewayContextRestoreState text segments (Some before))). rune_count f \<le> 300) \<and>
    set (rs_DurableFacts (buildGatewayContextRestoreState text segments (Some before))) =
      set (fact_texts (rs_DurableFacts before)) \<union> set (fact_texts (gatewayFactLines segments 64))"
proof -
  let ?old = "foldl (gatewayAppendDurableFact 64) [] (rs_DurableFacts before)"
  let ?new = "gatewayFactLines segments 64"
  have facts: "rs_DurableFacts (buildGatewayContextRestoreState text segments (Some before)) =
      foldl (gatewayAppendDurableFact 64) ?old ?new"
    by (simp add: buildGatewayContextRestoreState_def gatewayDurableFacts_def Let_def)
  have old: "distinct ?old" "length ?old \<le> 64" "\<forall>f \<in> set ?old. rune_count f \<le> 300"
    using append_facts_bounds [of "[]" 64 "rs_DurableFacts before"] by simp_all
  have "card (set (fact_texts (rs_DurableFacts before))) \<le> 64"
    by (rule order.trans [OF card_mono assms]) auto
  then have "set ?old = set (fact_texts (rs_DurableFacts before))"
    using append_facts_set [of "[]" 64 "rs_DurableFacts before"] by simp
  then have "set (foldl (gatewayAppendDurableFact 64) ?old ?new) =
      set (fact_texts (rs_DurableFacts before)) \<union> set (fact_texts ?new)"
    using append_facts_set [OF old, of ?new] assms by simp
  then show ?thesis unfolding facts using append_facts_bounds [OF old, of ?new] by simp
qed


definition fact_segment :: gatewayContextTextSegment where
  "fact_segment = segment ''chat.user'' ''user'' ''durable fact: the port is 8400''"

definition empty_state :: gatewayContextRestoreState where
  "empty_state = json_state []"

lemma gathered_bounds: "length (gatewayFactLines segments n) \<le> n"
  using append_facts_bounds [of "[]" n] by (simp add: gatewayFactLines_def)

lemma length_fact_texts: "length (fact_texts raws) \<le> length raws"
  by (simp add: fact_texts_def)

theorem facts_are_handed_on_witness:
  "set (rs_DurableFacts (buildGatewayContextRestoreState '''' [fact_segment] (Some empty_state))) =
     set (fact_texts (gatewayFactLines [fact_segment] 64))"
proof -
  have none: "rs_DurableFacts empty_state = []" by (simp add: empty_state_def json_state_def list_member_def members_def list_of_def)
  have "card (set (fact_texts (rs_DurableFacts empty_state)) \<union> set (fact_texts (gatewayFactLines [fact_segment] 64))) \<le> 64"
    unfolding none fact_texts_Nil list.set(1) Un_empty_left
    by (rule order.trans [OF card_length order.trans [OF length_fact_texts gathered_bounds]])
  from facts_are_handed_on [OF this] show ?thesis unfolding none fact_texts_Nil list.set(1) Un_empty_left by blast
qed

end
