(* ===== verification/Accounts.thy ===== *)
theory Accounts
  imports GatewayRuns
begin

text \<open>
  The accounts of users and administrators as they are stored: the tables \<open>users\<close> and
  \<open>admin\_users\<close> (internal/data/model/schema/user.go, admin\_user.go) beside the tables of the
  gateway, the repositories over them (internal/data/auth\_repo.go, admin\_auth\_repo.go,
  user\_admin\_repo.go, constraint\_error.go) and the administrator a start-up creates
  (admin\_user\_init.go). The administrators are read and written with plain SQL, which passes none
  of the validators of ent.
\<close>

section \<open>Rows\<close>

record account_row =
  ac_id :: int
  ac_username :: string
  ac_password_hash :: string
  ac_oauth_provider :: "string option"
  ac_oauth_subject :: "string option"
  ac_oauth_email :: "string option"
  ac_oauth_display_name :: "string option"
  ac_disabled :: bool
  ac_last_login_at :: "int option"
  ac_created_at :: int
  ac_updated_at :: int

definition max_len_opt :: "nat \<Rightarrow> string option \<Rightarrow> bool" where
  "max_len_opt n v = (case v of None \<Rightarrow> True | Some s \<Rightarrow> max_len n s)"

definition user_valid :: "account_row \<Rightarrow> bool" where
  "user_valid r =
     (not_empty (ac_username r) \<and> max_len 32 (ac_username r) \<and> not_empty (ac_password_hash r) \<and>
      max_len_opt 32 (ac_oauth_provider r) \<and> max_len_opt 255 (ac_oauth_subject r) \<and>
      max_len_opt 255 (ac_oauth_email r) \<and> max_len_opt 128 (ac_oauth_display_name r))"

text \<open>The two unique indexes; rows without an identity do not clash on it.\<close>

definition username_clash :: "account_row \<Rightarrow> account_row \<Rightarrow> bool" where
  "username_clash a b = (ac_username a = ac_username b)"

definition identity_clash :: "account_row \<Rightarrow> account_row \<Rightarrow> bool" where
  "identity_clash a b =
     (ac_oauth_provider a \<noteq> None \<and> ac_oauth_provider a = ac_oauth_provider b \<and>
      ac_oauth_subject a \<noteq> None \<and> ac_oauth_subject a = ac_oauth_subject b)"

definition account_clash :: "account_row \<Rightarrow> account_row \<Rightarrow> bool" where
  "account_clash a b = (username_clash a b \<or> identity_clash a b)"

text \<open>The database of the console: that of the gateway and the two tables of accounts.\<close>

record console = store +
  user_tbl :: "account_row tbl"
  admin_tbl :: "account_row tbl"

definition on_users :: "(account_row tbl \<Rightarrow> 'a result \<times> account_row tbl) \<Rightarrow> (console, 'a) op" where
  "on_users body = db_stmt (\<lambda>s. case body (user_tbl s) of (r, t) \<Rightarrow> (r, s\<lparr>user_tbl := t\<rparr>))"

definition on_admins :: "(account_row tbl \<Rightarrow> 'a result \<times> account_row tbl) \<Rightarrow> (console, 'a) op" where
  "on_admins body = db_stmt (\<lambda>s. case body (admin_tbl s) of (r, t) \<Rightarrow> (r, s\<lparr>admin_tbl := t\<rparr>))"

text \<open>An operation of the gateway on the database of the console.\<close>

definition on_gateway :: "(store, 'a) op \<Rightarrow> (console, 'a) op" where
  "on_gateway m c =
     (case m (store.truncate c) of
        (r, s) \<Rightarrow> (r, store.extend s (console.fields (user_tbl c) (admin_tbl c))))"

section \<open>Errors of constraints\<close>

text \<open>The text of a violated index names it.\<close>

definition unique_violation :: "string \<Rightarrow> go_error" where
  "unique_violation index =
     DBConstraint (''duplicate key value violates unique constraint '' @ [CHR 0x22] @ index @ [CHR 0x22])"

definition isDuplicateUniqueConstraint :: "go_error \<Rightarrow> string list \<Rightarrow> bool" where
  "isDuplicateUniqueConstraint err ks =
     (case err of
        DBConstraint text \<Rightarrow>
          let msg = ToLower text
          in (contains msg ''duplicate'' \<or> contains msg ''unique'') \<and> (\<exists>k \<in> set ks. contains msg (ToLower k))
      | _ \<Rightarrow> False)"

definition isDuplicateUsernameConstraint :: "go_error \<Rightarrow> bool" where
  "isDuplicateUsernameConstraint err =
     isDuplicateUniqueConstraint err [''user_username'', ''users.username'', ''username'']"

definition isDuplicateOAuthIdentityConstraint :: "go_error \<Rightarrow> bool" where
  "isDuplicateOAuthIdentityConstraint err = isDuplicateUniqueConstraint err [''oauth_provider'', ''oauth_subject'']"

text \<open>The database looks at the index of the user names first.\<close>

definition insert_user :: "(int \<Rightarrow> account_row) \<Rightarrow> account_row tbl \<Rightarrow> account_row result \<times> account_row tbl" where
  "insert_user mk t =
     (case insert_row account_clash mk t of
        (Inl e, t') \<Rightarrow>
          (Inl (unique_violation (if \<exists>q \<in> set (rows t). username_clash q (mk (seq t + 1)) then ''user_username''
                                  else ''user_oauth_provider_oauth_subject'')), t')
      | ok_row \<Rightarrow> ok_row)"

section \<open>Values of the use cases\<close>

record User =
  us_ID :: int
  us_Username :: string
  us_PasswordHash :: string
  us_Disabled :: bool
  us_OAuthProvider :: "string option"
  us_OAuthSubject :: "string option"
  us_OAuthEmail :: "string option"
  us_OAuthName :: "string option"
  us_Role :: int
  us_LastLoginAt :: "int option"
  us_CreatedAt :: int
  us_UpdatedAt :: int

record AdminUser =
  ad_ID :: int
  ad_Username :: string
  ad_PasswordHash :: string
  ad_OAuthProvider :: "string option"
  ad_OAuthSubject :: "string option"
  ad_OAuthEmail :: "string option"
  ad_OAuthName :: "string option"
  ad_Disabled :: bool

record OAuthIdentity =
  oi_Provider :: string
  oi_Subject :: string
  oi_Email :: string
  oi_Name :: string
  oi_PreferredUsername :: string

definition RoleUser :: int where "RoleUser = 0"
definition RoleAdmin :: int where "RoleAdmin = 1"

definition entUserToBizUser :: "account_row \<Rightarrow> User" where
  "entUserToBizUser r =
     \<lparr>us_ID = ac_id r, us_Username = ac_username r, us_PasswordHash = ac_password_hash r, us_Disabled = ac_disabled r,
      us_OAuthProvider = ac_oauth_provider r, us_OAuthSubject = ac_oauth_subject r,
      us_OAuthEmail = ac_oauth_email r, us_OAuthName = ac_oauth_display_name r, us_Role = RoleUser,
      us_LastLoginAt = ac_last_login_at r, us_CreatedAt = ac_created_at r, us_UpdatedAt = ac_updated_at r\<rparr>"

definition adminRowToBiz :: "account_row \<Rightarrow> AdminUser" where
  "adminRowToBiz r =
     \<lparr>ad_ID = ac_id r, ad_Username = ac_username r, ad_PasswordHash = ac_password_hash r,
      ad_OAuthProvider = ac_oauth_provider r, ad_OAuthSubject = ac_oauth_subject r,
      ad_OAuthEmail = ac_oauth_email r, ad_OAuthName = ac_oauth_display_name r, ad_Disabled = ac_disabled r\<rparr>"

text \<open>Looked up by id or name, an administrator comes without the identity.\<close>

definition short_admin :: "account_row \<Rightarrow> AdminUser" where
  "short_admin r =
     \<lparr>ad_ID = ac_id r, ad_Username = ac_username r, ad_PasswordHash = ac_password_hash r,
      ad_OAuthProvider = None, ad_OAuthSubject = None, ad_OAuthEmail = None, ad_OAuthName = None,
      ad_Disabled = ac_disabled r\<rparr>"

definition nullString :: "string \<Rightarrow> string option" where
  "nullString v = (if v = '''' then None else Some v)"

section \<open>Users\<close>

text \<open>\<open>LIMIT 1\<close> of plain SQL.\<close>

definition first_row :: "('r \<Rightarrow> bool) \<Rightarrow> 'r tbl \<Rightarrow> 'r result \<times> 'r tbl" where
  "first_row P t = (case filter P (rows t) of [] \<Rightarrow> (Inl DBNotFound, t) | r # _ \<Rightarrow> (Inr r, t))"

definition exist_row :: "('r \<Rightarrow> bool) \<Rightarrow> 'r tbl \<Rightarrow> bool result \<times> 'r tbl" where
  "exist_row P t = (Inr (\<exists>r \<in> set (rows t). P r), t)"

definition has_identity :: "string \<Rightarrow> string \<Rightarrow> account_row \<Rightarrow> bool" where
  "has_identity provider subject r = (ac_oauth_provider r = Some provider \<and> ac_oauth_subject r = Some subject)"

definition auth_GetUserByUsername :: "string \<Rightarrow> (console, User) op" where
  "auth_GetUserByUsername username =
     (if username = '''' then fail (ErrText ''username is required'')
      else bind_op (on_users (only_row (\<lambda>r. ac_username r = username))) (\<lambda>u. ok (entUserToBizUser u)))"

definition auth_GetUserByID :: "int \<Rightarrow> (console, User) op" where
  "auth_GetUserByID i =
     (if i \<le> 0 then fail (ErrText ''user id is required'')
      else bind_op (on_users (only_row (\<lambda>r. ac_id r = i))) (\<lambda>u. ok (entUserToBizUser u)))"

definition auth_GetUserByOAuthIdentity :: "string \<Rightarrow> string \<Rightarrow> (console, User) op" where
  "auth_GetUserByOAuthIdentity provider subject =
     (if provider = '''' \<or> subject = '''' then fail (ErrText ''oauth provider and subject are required'')
      else bind_op (on_users (first_row (has_identity provider subject))) (\<lambda>u. ok (entUserToBizUser u)))"

definition isUsernameUsedByAdmin :: "string \<Rightarrow> (console, bool) op" where
  "isUsernameUsedByAdmin username =
     (if username = '''' then ok False else on_admins (exist_row (\<lambda>r. ac_username r = username)))"

definition new_user :: "User \<Rightarrow> int \<Rightarrow> int \<Rightarrow> account_row" where
  "new_user u now i =
     \<lparr>ac_id = i, ac_username = us_Username u, ac_password_hash = us_PasswordHash u,
      ac_oauth_provider = us_OAuthProvider u, ac_oauth_subject = us_OAuthSubject u,
      ac_oauth_email = us_OAuthEmail u, ac_oauth_display_name = us_OAuthName u,
      ac_disabled = False, ac_last_login_at = None, ac_created_at = now, ac_updated_at = now\<rparr>"

text \<open>A user name taken by a user or by an administrator is refused.\<close>

definition save_user :: "User \<Rightarrow> (console, User) op" where
  "save_user u =
     checked (user_valid (new_user u 0 0))
       (bind_op time_now (\<lambda>now.
        try_op (on_users (insert_user (new_user u now))) (\<lambda>r. case r of
          Inl err \<Rightarrow> if isDuplicateUsernameConstraint err then fail ErrUserExists else fail err
        | Inr row \<Rightarrow> ok (entUserToBizUser row))))"

definition auth_CreateUser :: "User \<Rightarrow> (console, User) op" where
  "auth_CreateUser u =
     bind_op (isUsernameUsedByAdmin (us_Username u)) (\<lambda>exists.
       if exists then fail ErrUserExists else save_user u)"

text \<open>Plain SQL: a row that is not there is no error, a second row with the identity is one.\<close>

definition bind_identity :: "int \<Rightarrow> OAuthIdentity \<Rightarrow> int \<Rightarrow> account_row tbl \<Rightarrow> unit result \<times> account_row tbl" where
  "bind_identity i identity now t =
     (let f = (\<lambda>r. r\<lparr>ac_oauth_provider := Some (oi_Provider identity), ac_oauth_subject := Some (oi_Subject identity),
                    ac_oauth_email := nullString (oi_Email identity),
                    ac_oauth_display_name := nullString (oi_Name identity), ac_updated_at := now\<rparr>)
      in case find_row ac_id i t of
           None \<Rightarrow> (Inr (), t)
         | Some r \<Rightarrow>
             if \<exists>q \<in> set (rows t). ac_id q \<noteq> i \<and> identity_clash q (f r)
             then (Inl (unique_violation ''oauth_provider_oauth_subject''), t)
             else (Inr (), t\<lparr>rows := map (\<lambda>q. if ac_id q = i then f q else q) (rows t)\<rparr>))"

definition auth_BindUserOAuthIdentity :: "int \<Rightarrow> OAuthIdentity \<Rightarrow> (console, unit) op" where
  "auth_BindUserOAuthIdentity i identity =
     (if i \<le> 0 then fail (ErrText ''user id is required'')
      else if oi_Provider identity = '''' \<or> oi_Subject identity = ''''
      then fail (ErrText ''oauth provider and subject are required'')
      else bind_op time_now (\<lambda>now. on_users (bind_identity i identity now)))"

definition auth_UpdateUserLastLogin :: "int \<Rightarrow> int \<Rightarrow> (console, unit) op" where
  "auth_UpdateUserLastLogin i t =
     bind_op time_now (\<lambda>now.
     bind_op (on_users (update_row ac_id account_clash i (\<lambda>r. r\<lparr>ac_last_login_at := Some t, ac_updated_at := now\<rparr>)))
       (\<lambda>_. ok ()))"

section \<open>Administrators\<close>

definition admin_GetAdminByID :: "int \<Rightarrow> (console, AdminUser) op" where
  "admin_GetAdminByID i =
     (if i \<le> 0 then fail (ErrText ''admin id is required'')
      else bind_op (on_admins (first_row (\<lambda>r. ac_id r = i))) (\<lambda>r. ok (short_admin r)))"

definition admin_GetAdminByUsername :: "string \<Rightarrow> (console, AdminUser) op" where
  "admin_GetAdminByUsername username =
     (if username = '''' then fail (ErrText ''username is required'')
      else bind_op (on_admins (first_row (\<lambda>r. ac_username r = username))) (\<lambda>r. ok (short_admin r)))"

definition admin_GetAdminByOAuthIdentity :: "string \<Rightarrow> string \<Rightarrow> (console, AdminUser) op" where
  "admin_GetAdminByOAuthIdentity provider subject =
     (if provider = '''' \<or> subject = '''' then fail (ErrText ''oauth provider and subject are required'')
      else bind_op (on_admins (first_row (has_identity provider subject))) (\<lambda>r. ok (adminRowToBiz r)))"

definition admin_BindAdminOAuthIdentity :: "int \<Rightarrow> OAuthIdentity \<Rightarrow> (console, unit) op" where
  "admin_BindAdminOAuthIdentity i identity =
     (if i \<le> 0 then fail (ErrText ''admin id is required'')
      else if oi_Provider identity = '''' \<or> oi_Subject identity = ''''
      then fail (ErrText ''oauth provider and subject are required'')
      else bind_op time_now (\<lambda>now. on_admins (bind_identity i identity now)))"

definition admin_UpdateAdminLastLogin :: "int \<Rightarrow> int \<Rightarrow> (console, unit) op" where
  "admin_UpdateAdminLastLogin i t =
     (if i \<le> 0 then fail (ErrText ''admin id is required'')
      else bind_op time_now (\<lambda>now.
        bind_op (on_admins (update_rows (\<lambda>r. ac_id r = i)
            (\<lambda>r. r\<lparr>ac_last_login_at := Some t, ac_updated_at := now\<rparr>)))
          (\<lambda>_. ok ())))"

text \<open>\<open>INSERT \<dots> ON CONFLICT (username) DO UPDATE\<close>: an administrator that exists keeps all but the password.\<close>

definition upsert_admin :: "string \<Rightarrow> string \<Rightarrow> int \<Rightarrow> account_row tbl \<Rightarrow> unit result \<times> account_row tbl" where
  "upsert_admin username hash now t =
     (if \<exists>r \<in> set (rows t). ac_username r = username
      then (Inr (), t\<lparr>rows := map (\<lambda>r. if ac_username r = username
                                       then r\<lparr>ac_password_hash := hash, ac_updated_at := now\<rparr> else r) (rows t),
                      seq := seq t + 1\<rparr>)
      else (Inr (), \<lparr>rows = rows t @ [\<lparr>ac_id = seq t + 1, ac_username = username, ac_password_hash = hash,
              ac_oauth_provider = None, ac_oauth_subject = None, ac_oauth_email = None, ac_oauth_display_name = None,
              ac_disabled = False, ac_last_login_at = None, ac_created_at = now, ac_updated_at = now\<rparr>],
            seq = seq t + 1\<rparr>))"

text \<open>The configured administrator, if there is one; \<open>hash\<close> is \<open>bcrypt.GenerateFromPassword\<close>.\<close>

definition InitAdminUsersIfNeeded :: "(string \<Rightarrow> string result) \<Rightarrow> (string \<times> string) option \<Rightarrow> (console, unit) op" where
  "InitAdminUsersIfNeeded hash configured =
     (case configured of
        None \<Rightarrow> ok ()
      | Some (username, password) \<Rightarrow>
          if username = '''' \<or> password = '''' then ok ()
          else bind_op (from_result (hash password)) (\<lambda>h.
               bind_op time_now (\<lambda>now. on_admins (upsert_admin username h now))))"

section \<open>Users as administrators see them\<close>

definition plain_user :: "string \<Rightarrow> string \<Rightarrow> User" where
  "plain_user username passwordHash =
     \<lparr>us_ID = 0, us_Username = username, us_PasswordHash = passwordHash, us_Disabled = False,
      us_OAuthProvider = None, us_OAuthSubject = None, us_OAuthEmail = None, us_OAuthName = None,
      us_Role = RoleUser, us_LastLoginAt = None, us_CreatedAt = zero_time, us_UpdatedAt = zero_time\<rparr>"

definition useradmin_CreateUser :: "string \<Rightarrow> string \<Rightarrow> (console, User) op" where
  "useradmin_CreateUser username0 passwordHash =
     (let username = TrimSpace username0
      in if username = '''' \<or> passwordHash = '''' then fail ErrBadParam
         else bind_op (on_admins (exist_row (\<lambda>r. ac_username r = username))) (\<lambda>exists.
                if exists then fail ErrUserExists else save_user (plain_user username passwordHash)))"

definition listed_user :: "account_row \<Rightarrow> User" where
  "listed_user r =
     (plain_user (ac_username r) '''')
       \<lparr>us_ID := ac_id r, us_Disabled := ac_disabled r, us_LastLoginAt := ac_last_login_at r,
        us_CreatedAt := ac_created_at r, us_UpdatedAt := ac_updated_at r\<rparr>"

definition useradmin_ListUsers :: "int \<Rightarrow> int \<Rightarrow> string \<Rightarrow> (console, User list \<times> int) op" where
  "useradmin_ListUsers limit0 offset0 usernameLike0 =
     (let limit = (if limit0 \<le> 0 then 30 else if limit0 > 1000 then 1000 else limit0);
          offset = (if offset0 < 0 then 0 else offset0); usernameLike = TrimSpace usernameLike0;
          P = (\<lambda>r. usernameLike = '''' \<or> contains (ac_username r) usernameLike)
      in bind_op (on_users (select_rows P)) (\<lambda>counted.
         bind_op (on_users (select_rows P)) (\<lambda>list.
           ok (map listed_user (page limit offset (sort_key (\<lambda>r. - ac_id r) list)), int (length counted)))))"

definition update_user :: "int \<Rightarrow> (int \<Rightarrow> account_row \<Rightarrow> account_row) \<Rightarrow> (console, unit) op" where
  "update_user userID f =
     bind_op time_now (\<lambda>now.
     bind_op (not_found_as ErrUserNotFound (on_users (update_row ac_id account_clash userID (f now)))) (\<lambda>_. ok ()))"

definition useradmin_SetUserDisabled :: "int \<Rightarrow> bool \<Rightarrow> (console, unit) op" where
  "useradmin_SetUserDisabled userID disabled =
     (if userID \<le> 0 then fail ErrBadParam
      else update_user userID (\<lambda>now r. r\<lparr>ac_disabled := disabled, ac_updated_at := now\<rparr>))"

definition useradmin_ResetUserPassword :: "int \<Rightarrow> string \<Rightarrow> (console, unit) op" where
  "useradmin_ResetUserPassword userID passwordHash =
     (if userID \<le> 0 \<or> passwordHash = '''' then fail ErrBadParam
      else update_user userID (\<lambda>now r. r\<lparr>ac_password_hash := passwordHash, ac_updated_at := now\<rparr>))"

end
