(* ===== verification/SignIn.thy ===== *)
theory SignIn
  imports Accounts
begin

text \<open>
  Signing in (internal/biz/auth.go, auth\_claims.go, auth\_context.go, admin\_auth.go,
  user\_admin.go; pkg/jwt/jwt.go, internal/data/token.go, admin\_token.go;
  internal/server/auth\_middleware.go): tokens and what a request knows from its token, the sign-in
  of users and of administrators, by password and by an identity of the OAuth provider, and the
  administration of users. bcrypt and the JWT library are arguments.
\<close>

section \<open>Tokens\<close>

record token_claims =
  tc_UserID :: int
  tc_Username :: string
  tc_Role :: int
  tc_Subject :: string
  tc_ExpiresAt :: int
  tc_IssuedAt :: int

text \<open>What \<open>jwt.ParseWithClaims\<close> says of a token it does not accept.\<close>

datatype token_error = TokenExpired | TokenInvalid

text \<open>
  bcrypt's two functions, the signature and the check of a token at a time, and the configured
  lifetime of tokens in seconds (\<open>data.auth.jwtExpireSeconds\<close>).
\<close>

record sign_in =
  si_Hash :: "string \<Rightarrow> string result"
  si_Matches :: "string \<Rightarrow> string \<Rightarrow> bool"
  si_Sign :: "token_claims \<Rightarrow> string result"
  si_Verify :: "int \<Rightarrow> string \<Rightarrow> token_error + token_claims"
  si_ExpireSeconds :: int

definition token_lifetime :: "sign_in \<Rightarrow> int" where
  "token_lifetime e = (if si_ExpireSeconds e > 0 then wrap64 (si_ExpireSeconds e * second) else 7 * day)"

text \<open>\<open>jwt.NewNumericDate\<close> keeps whole seconds.\<close>

definition NewToken :: "sign_in \<Rightarrow> int \<Rightarrow> string \<Rightarrow> int \<Rightarrow> ('x db_scheme, string \<times> int) op" where
  "NewToken e userID username role =
     bind_op time_now (\<lambda>now.
       let expireAt = now + token_lifetime e
       in bind_op (from_result (si_Sign e
            \<lparr>tc_UserID = userID, tc_Username = username, tc_Role = role, tc_Subject = ''access_token'',
             tc_ExpiresAt = expireAt div second, tc_IssuedAt = now div second\<rparr>))
            (\<lambda>signed. ok (signed, expireAt)))"

section \<open>What a request knows\<close>

record AuthClaims =
  cl_UserID :: int
  cl_Username :: string
  cl_Role :: int

datatype AuthState = AuthNone | AuthOK | AuthExpired | AuthInvalid

record auth_context =
  cx_Claims :: "AuthClaims option"
  cx_State :: AuthState

definition bearerToken :: "string \<Rightarrow> string" where
  "bearerToken auth0 =
     (let auth = TrimSpace auth0
      in if length auth > 7 \<and> EqualFold (take 7 auth) ''Bearer '' then TrimSpace (drop 7 auth) else '''')"

text \<open>
  \<open>configured\<close>: there is a secret; \<open>header\<close> is the Authorization header, \<open>None\<close> outside of a
  transport. The middlewares for users and administrators are the same.
\<close>

definition AuthClaimsMiddleware :: "sign_in \<Rightarrow> bool \<Rightarrow> int \<Rightarrow> string option \<Rightarrow> auth_context" where
  "AuthClaimsMiddleware e configured now header =
     (case header of
        None \<Rightarrow> \<lparr>cx_Claims = None, cx_State = AuthNone\<rparr>
      | Some auth \<Rightarrow>
          if \<not> configured \<or> bearerToken auth = '''' then \<lparr>cx_Claims = None, cx_State = AuthNone\<rparr>
          else case si_Verify e now (bearerToken auth) of
                 Inr c \<Rightarrow> \<lparr>cx_Claims = Some \<lparr>cl_UserID = tc_UserID c, cl_Username = tc_Username c, cl_Role = tc_Role c\<rparr>,
                           cx_State = AuthOK\<rparr>
               | Inl TokenExpired \<Rightarrow> \<lparr>cx_Claims = None, cx_State = AuthExpired\<rparr>
               | Inl TokenInvalid \<Rightarrow> \<lparr>cx_Claims = None, cx_State = AuthInvalid\<rparr>)"

definition IsAdmin :: "AuthClaims option \<Rightarrow> bool" where
  "IsAdmin c = (case c of None \<Rightarrow> False | Some c \<Rightarrow> cl_Role c = RoleAdmin)"

section \<open>Users\<close>

definition missing_credentials :: go_error where
  "missing_credentials = ErrText ''missing username or password''"

text \<open>The time of the last sign-in; that it could not be written is only logged.\<close>

definition note_login :: "(int \<Rightarrow> int \<Rightarrow> (console, unit) op) \<Rightarrow> int \<Rightarrow> (console, unit) op" where
  "note_login update i = bind_op time_now (\<lambda>now. try_op (update i now) (\<lambda>_. ok ()))"

definition Register :: "sign_in \<Rightarrow> string \<Rightarrow> string \<Rightarrow> (console, string \<times> int \<times> User) op" where
  "Register e username password =
     (if username = '''' \<or> password = '''' then fail missing_credentials
      else try_op (auth_GetUserByUsername username) (\<lambda>r. case r of
        Inr _ \<Rightarrow> fail ErrUserExists
      | Inl _ \<Rightarrow>
          bind_op (from_result (si_Hash e password)) (\<lambda>hash.
          bind_op (auth_CreateUser (plain_user username hash)) (\<lambda>created0.
          let created = created0\<lparr>us_Role := 0\<rparr>
          in bind_op (NewToken e (us_ID created) (us_Username created) (us_Role created)) (\<lambda>(token, expireAt).
             bind_op (note_login auth_UpdateUserLastLogin (us_ID created)) (\<lambda>_.
               ok (token, expireAt, created)))))))"

definition Login :: "sign_in \<Rightarrow> string \<Rightarrow> string \<Rightarrow> (console, string \<times> int \<times> User) op" where
  "Login e username password =
     (if username = '''' \<or> password = '''' then fail missing_credentials
      else try_op (auth_GetUserByUsername username) (\<lambda>r. case r of
        Inl _ \<Rightarrow> fail ErrUserNotFound
      | Inr usr \<Rightarrow>
          if us_Disabled usr then fail ErrUserDisabled
          else if \<not> si_Matches e (us_PasswordHash usr) password then fail ErrInvalidPassword
          else bind_op (NewToken e (us_ID usr) (us_Username usr) (us_Role usr)) (\<lambda>(token, expireAt).
               bind_op (note_login auth_UpdateUserLastLogin (us_ID usr)) (\<lambda>_.
                 ok (token, expireAt, usr)))))"

definition GetCurrentUser :: "int \<Rightarrow> (console, User) op" where
  "GetCurrentUser userID =
     (if userID \<le> 0 then fail (ErrText ''user_id is required'') else auth_GetUserByID userID)"

section \<open>Administrators\<close>

definition admin_session :: "sign_in \<Rightarrow> AdminUser \<Rightarrow> (console, string \<times> int \<times> AdminUser) op" where
  "admin_session e admin =
     bind_op (NewToken e (ad_ID admin) (ad_Username admin) RoleAdmin) (\<lambda>(token, expireAt).
     bind_op (note_login admin_UpdateAdminLastLogin (ad_ID admin)) (\<lambda>_.
       ok (token, expireAt, admin)))"

definition admin_Login :: "sign_in \<Rightarrow> string \<Rightarrow> string \<Rightarrow> (console, string \<times> int \<times> AdminUser) op" where
  "admin_Login e username password =
     (if username = '''' \<or> password = '''' then fail missing_credentials
      else try_op (admin_GetAdminByUsername username) (\<lambda>r. case r of
        Inl _ \<Rightarrow> fail ErrUserNotFound
      | Inr admin \<Rightarrow>
          if ad_Disabled admin then fail ErrUserDisabled
          else if \<not> si_Matches e (ad_PasswordHash admin) password then fail ErrInvalidPassword
          else admin_session e admin))"

text \<open>Known by its identity, or by its name, which is the email; then the identity is bound to it.\<close>

definition find_oauth_admin :: "OAuthIdentity \<Rightarrow> (console, AdminUser) op" where
  "find_oauth_admin identity =
     try_op (admin_GetAdminByOAuthIdentity (oi_Provider identity) (oi_Subject identity)) (\<lambda>r. case r of
       Inr admin \<Rightarrow> ok admin
     | Inl _ \<Rightarrow>
         if oi_Email identity = '''' then fail ErrUserNotFound
         else try_op (admin_GetAdminByUsername (oi_Email identity)) (\<lambda>r. case r of
           Inl _ \<Rightarrow> fail ErrUserNotFound
         | Inr admin \<Rightarrow> bind_op (admin_BindAdminOAuthIdentity (ad_ID admin) identity) (\<lambda>_. ok admin)))"

definition LoginWithOAuth :: "sign_in \<Rightarrow> OAuthIdentity \<Rightarrow> (console, string \<times> int \<times> AdminUser) op" where
  "LoginWithOAuth e identity =
     (if oi_Provider identity = '''' \<or> oi_Subject identity = ''''
      then fail (ErrText ''missing oauth provider or subject'')
      else bind_op (find_oauth_admin identity) (\<lambda>admin.
           if ad_Disabled admin then fail ErrUserDisabled else admin_session e admin))"

section \<open>Administration of users\<close>

definition useradmin_requireAdmin :: "auth_context \<Rightarrow> (console, AuthClaims) op" where
  "useradmin_requireAdmin cx =
     (case cx_Claims cx of
        None \<Rightarrow> fail ErrForbidden
      | Some c \<Rightarrow> if cl_Role c \<noteq> RoleAdmin then fail ErrForbidden else ok c)"

definition useradmin_List :: "auth_context \<Rightarrow> int \<Rightarrow> int \<Rightarrow> string \<Rightarrow> (console, User list \<times> int) op" where
  "useradmin_List cx limit0 offset0 searchUsername =
     bind_op (useradmin_requireAdmin cx) (\<lambda>_.
       let limit = (if limit0 \<le> 0 then 30 else if limit0 > 1000 then 1000 else limit0);
           offset = (if offset0 < 0 then 0 else offset0)
       in useradmin_ListUsers limit offset (TrimSpace searchUsername))"

definition useradmin_Create :: "sign_in \<Rightarrow> auth_context \<Rightarrow> string \<Rightarrow> string \<Rightarrow> (console, User) op" where
  "useradmin_Create e cx username0 password =
     bind_op (useradmin_requireAdmin cx) (\<lambda>_.
       let username = TrimSpace username0
       in if username = '''' \<or> password = '''' then fail ErrBadParam
          else bind_op (from_result (si_Hash e password)) (\<lambda>hash. useradmin_CreateUser username hash))"

definition useradmin_ResetPassword :: "sign_in \<Rightarrow> auth_context \<Rightarrow> int \<Rightarrow> string \<Rightarrow> (console, unit) op" where
  "useradmin_ResetPassword e cx userID password =
     bind_op (useradmin_requireAdmin cx) (\<lambda>_.
       if userID \<le> 0 \<or> password = '''' then fail ErrBadParam
       else bind_op (from_result (si_Hash e password)) (\<lambda>hash. useradmin_ResetUserPassword userID hash))"

definition useradmin_SetDisabled :: "auth_context \<Rightarrow> int \<Rightarrow> bool \<Rightarrow> (console, unit) op" where
  "useradmin_SetDisabled cx userID disabled =
     bind_op (useradmin_requireAdmin cx) (\<lambda>_.
       if userID \<le> 0 then fail ErrBadParam else useradmin_SetUserDisabled userID disabled)"

end
