(* ===== verification/ConsoleValues.thy ===== *)
theory ConsoleValues
  imports GoRunes GatewayRuns
begin

text \<open>
  The values of the console's JSON-RPC (internal/data/jsonrpc.go, jsonrpc\_gateway.go,
  internal/errcode/catalog.go): codes, how parameters are read from the decoded struct, and the
  maps the answers are made of. Numbers of parameters are float64. An answer becomes a protobuf
  struct; what that cannot hold makes the whole answer empty.
\<close>

section \<open>Answers\<close>

text \<open>What the code puts into a \<open>map[string]any\<close>; \<open>RInts\<close> is a \<open>[]int\<close>.\<close>

datatype rpc =
    RNil
  | RBool bool
  | RInt int
  | RFloat rat
  | RStr string
  | RList "rpc list"
  | RMap "(string \<times> rpc) list"
  | RInts "int list"

type_synonym rpc_map = "(string \<times> rpc) list"

record JsonrpcResult =
  jr_Code :: int
  jr_Message :: string
  jr_Data :: "obj option"

text \<open>
  \<open>structpb.NewValue\<close>: integers become float64, a string has to be valid UTF-8, and a
  \<open>[]int\<close> is not a value.
\<close>

fun all_some :: "'a option list \<Rightarrow> 'a list option" where
  "all_some [] = Some []"
| "all_some (x # xs) =
     (case (x, all_some xs) of (Some y, Some ys) \<Rightarrow> Some (y # ys) | _ \<Rightarrow> None)"

fun struct_value :: "rpc \<Rightarrow> json option" where
  "struct_value RNil = Some JNull"
| "struct_value (RBool b) = Some (JBool b)"
| "struct_value (RInt i) = map_option JNum (round_float64 (of_int i))"
| "struct_value (RFloat q) = Some (JNum q)"
| "struct_value (RStr s) = (if to_utf8 s = s then Some (JStr s) else None)"
| "struct_value (RList vs) = map_option JArr (all_some (map struct_value vs))"
| "struct_value (RMap m) =
     map_option JObj (all_some (map (\<lambda>(k, v). if to_utf8 k = k then map_option (Pair k) (struct_value v) else None) m))"
| "struct_value (RInts _) = None"

definition newDataStruct :: "rpc_map \<Rightarrow> obj option" where
  "newDataStruct m =
     all_some (map (\<lambda>(k, v). if to_utf8 k = k then map_option (Pair k) (struct_value v) else None) m)"

text \<open>A code of the catalogue with its message.\<close>

definition errcode :: "int \<Rightarrow> string \<Rightarrow> JsonrpcResult" where
  "errcode code message = \<lparr>jr_Code = code, jr_Message = message, jr_Data = None\<rparr>"

definition OK_Code :: int where "OK_Code = 0"
definition JSONRPCUnknownURL_Code :: int where "JSONRPCUnknownURL_Code = 40001"
definition InvalidParam_Code :: int where "InvalidParam_Code = 40010"
definition UnknownMethod_Code :: int where "UnknownMethod_Code = 40020"

definition code_OK :: JsonrpcResult where "code_OK = errcode OK_Code ''OK''"
definition code_InvalidParam :: JsonrpcResult where
  "code_InvalidParam = errcode InvalidParam_Code (from_hex ''e58f82e695b0e4b88de59088e6b395'')"
definition code_UserInvalidParam :: JsonrpcResult where
  "code_UserInvalidParam = errcode 40030 (from_hex ''e58f82e695b0e4b88de59088e6b395'')"
definition code_UserSetDisabledInvalid :: JsonrpcResult where
  "code_UserSetDisabledInvalid = errcode 40071 (from_hex ''e58f82e695b0e99499e8afafefbc9a757365725f696420e697a0e69588'')"
definition code_APIKeyInvalid :: JsonrpcResult where
  "code_APIKeyInvalid = errcode 40101 (''API key '' @ from_hex ''e697a0e69588'')"
definition code_APIKeyDisabled :: JsonrpcResult where
  "code_APIKeyDisabled = errcode 40102 (''API key '' @ from_hex ''e5b7b2e7a681e794a8'')"
definition code_APIModelDisabled :: JsonrpcResult where
  "code_APIModelDisabled = errcode 40320 (from_hex ''e6a8a1e59e8be5b7b2e7a681e794a8'')"
definition code_APIModelNotAllowed :: JsonrpcResult where
  "code_APIModelNotAllowed = errcode 40321 (from_hex ''e5bd93e5898d206b657920e4b88de58581e8aeb8e4bdbfe794a8e8afa5e6a8a1e59e8b'')"
definition code_AdminRequired :: JsonrpcResult where
  "code_AdminRequired = errcode 40301 (from_hex ''e99c80e8a681e7aea1e79086e59198e69d83e99990'')"
definition code_AuthRequired :: JsonrpcResult where
  "code_AuthRequired = errcode 40302 (from_hex ''e69caae799bbe5bd95'')"
definition code_AdminDisabled :: JsonrpcResult where
  "code_AdminDisabled = errcode 40303 (from_hex ''e7aea1e79086e59198e5b7b2e7a681e794a8'')"
definition code_PermissionDenied :: JsonrpcResult where
  "code_PermissionDenied = errcode 40304 (from_hex ''e69d83e99990e4b88de8b6b3'')"
definition code_AuthUserNotFound :: JsonrpcResult where
  "code_AuthUserNotFound = errcode 10001 (from_hex ''e794a8e688b7e4b88de5ad98e59ca8'')"
definition code_AuthInvalidPassword :: JsonrpcResult where
  "code_AuthInvalidPassword = errcode 10002 (from_hex ''e5af86e7a081e99499e8afaf'')"
definition code_AuthUserDisabled :: JsonrpcResult where
  "code_AuthUserDisabled = errcode 10003 (from_hex ''e794a8e688b7e5b7b2e8a2abe7a681e794a8'')"
definition code_AuthUserExists :: JsonrpcResult where
  "code_AuthUserExists = errcode 10004 (from_hex ''e794a8e688b7e5908de5b7b2e5ad98e59ca8'')"
definition code_AuthExpired :: JsonrpcResult where
  "code_AuthExpired = errcode 10005 (from_hex ''e799bbe5bd95e5b7b2e8bf87e69c9fefbc8ce8afb7e9878de696b0e799bbe5bd95'')"
definition code_AuthInvalid :: JsonrpcResult where
  "code_AuthInvalid = errcode 10006 (from_hex ''e799bbe5bd95e697a0e69588efbc8ce8afb7e9878de696b0e799bbe5bd95'')"
definition code_Internal :: JsonrpcResult where
  "code_Internal = errcode 50000 (from_hex ''e69c8de58aa1e599a8e58685e983a8e99499e8afaf'')"
definition code_AuthCurrentUserFailed :: JsonrpcResult where
  "code_AuthCurrentUserFailed = errcode 50001 (from_hex ''e88eb7e58f96e794a8e688b7e4bfa1e681afe5a4b1e8b4a5'')"
definition code_UserListFailed :: JsonrpcResult where
  "code_UserListFailed = errcode 50020 (from_hex ''e88eb7e58f96e794a8e688b7e58897e8a1a8e5a4b1e8b4a5'')"
definition code_APIOperationFailed :: JsonrpcResult where
  "code_APIOperationFailed = errcode 50040 (''API '' @ from_hex ''e6938de4bd9ce5a4b1e8b4a5'')"

definition okResult :: "string \<Rightarrow> rpc_map \<Rightarrow> JsonrpcResult" where
  "okResult message data = \<lparr>jr_Code = OK_Code, jr_Message = message, jr_Data = newDataStruct data\<rparr>"

section \<open>Parameters\<close>

text \<open>
  What the code takes from the library: \<open>fmt.Sprintf\<close> with \<open>%v\<close> on a list or an object, and
  \<open>strconv.ParseFloat\<close>.
\<close>

record rpc_lib =
  lib_Show :: "json \<Rightarrow> string"
  lib_ParseFloat :: "string \<Rightarrow> rat option"

text \<open>\<open>%.0f\<close> rounds to the nearest integer, halves to the even one.\<close>

definition whole_number :: "rat \<Rightarrow> string" where
  "whole_number q =
     (if q < 0 then ''-'' @ Itoa (half_even (- q)) else Itoa (half_even q))"

definition fmt_v :: "rpc_lib \<Rightarrow> json \<Rightarrow> string" where
  "fmt_v lib v = (case v of JStr s \<Rightarrow> s | JBool b \<Rightarrow> (if b then ''true'' else ''false'') | _ \<Rightarrow> lib_Show lib v)"

definition getString :: "rpc_lib \<Rightarrow> obj \<Rightarrow> string \<Rightarrow> string" where
  "getString lib m key =
     (case map_of m key of
        None \<Rightarrow> '''' | Some JNull \<Rightarrow> ''''
      | Some (JNum q) \<Rightarrow> whole_number q
      | Some v \<Rightarrow> fmt_v lib v)"

definition getInt :: "obj \<Rightarrow> string \<Rightarrow> int \<Rightarrow> int" where
  "getInt m key d = (case map_of m key of Some (JNum q) \<Rightarrow> float_to_int64 q | _ \<Rightarrow> d)"

definition getInt64 :: "obj \<Rightarrow> string \<Rightarrow> int \<Rightarrow> int" where
  "getInt64 m key d =
     (case map_of m key of
        Some (JNum q) \<Rightarrow> float_to_int64 q
      | Some (JStr s) \<Rightarrow> (case ParseInt s of Some n \<Rightarrow> n | None \<Rightarrow> d)
      | _ \<Rightarrow> d)"

definition getInt64WithFallback :: "obj \<Rightarrow> string \<Rightarrow> string \<Rightarrow> int" where
  "getInt64WithFallback m key fallbackKey =
     (case map_of m key of
        None \<Rightarrow> getInt64 m fallbackKey 0 | Some JNull \<Rightarrow> getInt64 m fallbackKey 0
      | Some _ \<Rightarrow> getInt64 m key 0)"

definition getFloat :: "rpc_lib \<Rightarrow> obj \<Rightarrow> string \<Rightarrow> rat \<Rightarrow> rat" where
  "getFloat lib m key d =
     (case map_of m key of
        Some (JNum q) \<Rightarrow> q
      | Some (JStr s) \<Rightarrow> (case lib_ParseFloat lib (TrimSpace s) of Some q \<Rightarrow> q | None \<Rightarrow> d)
      | _ \<Rightarrow> d)"

definition getBool :: "obj \<Rightarrow> string \<Rightarrow> bool \<Rightarrow> bool" where
  "getBool m key d = (case map_of m key of Some (JBool b) \<Rightarrow> b | _ \<Rightarrow> d)"

definition has_param :: "obj \<Rightarrow> string \<Rightarrow> bool" where
  "has_param m key = (map_of m key \<noteq> None)"

definition getStringList :: "rpc_lib \<Rightarrow> obj \<Rightarrow> string \<Rightarrow> string list" where
  "getStringList lib m key =
     (case map_of m key of
        Some (JArr vs) \<Rightarrow> filter (\<lambda>s. s \<noteq> '''') (map (\<lambda>v. TrimSpace (fmt_v lib v)) vs)
      | Some (JStr s) \<Rightarrow>
          if TrimSpace s = '''' then [] else filter (\<lambda>s. s \<noteq> '''') (map TrimSpace (split_on (CHR '','') s))
      | _ \<Rightarrow> [])"

definition intFromAny :: "json \<Rightarrow> int" where
  "intFromAny v =
     (case v of
        JNum q \<Rightarrow> float_to_int64 q
      | JStr s \<Rightarrow> (case ParseInt (TrimSpace s) of Some n \<Rightarrow> n | None \<Rightarrow> 0)
      | _ \<Rightarrow> 0)"

definition getIntList :: "obj \<Rightarrow> string \<Rightarrow> int list" where
  "getIntList m key =
     (case map_of m key of
        Some (JArr vs) \<Rightarrow> filter (\<lambda>n. n > 0) (map intFromAny vs)
      | Some (JStr s) \<Rightarrow> filter (\<lambda>n. n > 0) (map (\<lambda>part. intFromAny (JStr (TrimSpace part))) (split_on (CHR '','') s))
      | _ \<Rightarrow> [])"

text \<open>Numbers with \<open>k\<close> or \<open>m\<close> behind them; the product is rounded to a float64.\<close>

definition parseContextQuantity :: "rpc_lib \<Rightarrow> json \<Rightarrow> bool \<Rightarrow> int option" where
  "parseContextQuantity lib raw allowUnit =
     (case raw of
        JNum q \<Rightarrow> Some (float_to_int64 q)
      | JStr v \<Rightarrow>
          let text = ToLower (filter (\<lambda>c. c \<noteq> CHR '' '') (TrimSpace v));
              k = has_suffix text ''k''; m = \<not> k \<and> has_suffix text ''m'';
              multiplier = (if k then 1000 else if m then 1000000 else 1 :: rat);
              digits = (if k \<or> m then butlast text else text)
          in if text = '''' then Some 0
             else if (k \<or> m) \<and> \<not> allowUnit then None
             else (case lib_ParseFloat lib digits of
                     None \<Rightarrow> None
                   | Some q \<Rightarrow> Some (case round_float64 (q * multiplier) of Some p \<Rightarrow> float_to_int64 p | None \<Rightarrow> min_int64))
      | _ \<Rightarrow> None)"

definition getContextQuantityInt64 :: "rpc_lib \<Rightarrow> obj \<Rightarrow> string \<Rightarrow> int \<Rightarrow> int" where
  "getContextQuantityInt64 lib m key d =
     (case map_of m key of
        None \<Rightarrow> d
      | Some raw \<Rightarrow> (case parseContextQuantity lib raw True of Some value \<Rightarrow> value | None \<Rightarrow> d))"

definition getContextPlainInt :: "rpc_lib \<Rightarrow> obj \<Rightarrow> string \<Rightarrow> int \<Rightarrow> int" where
  "getContextPlainInt lib m key d =
     (case map_of m key of
        None \<Rightarrow> d
      | Some raw \<Rightarrow> (case parseContextQuantity lib raw False of Some value \<Rightarrow> value | None \<Rightarrow> d))"

definition gatewayUsageFilterFromParams :: "rpc_lib \<Rightarrow> int \<Rightarrow> obj \<Rightarrow> GatewayUsageFilter" where
  "gatewayUsageFilterFromParams lib now pm =
     (let endRaw = getInt64 pm ''end_time'' 0
      in \<lparr>f_Limit = getInt pm ''limit'' 30, f_Offset = getInt pm ''offset'' 0, f_KeyID = getInt pm ''key_id'' 0,
          f_KeyIDs = getIntList pm ''key_ids'', f_ClientType = getString lib pm ''client_type'',
          f_ClientIP = getString lib pm ''client_ip'', f_OwnerUserID = 0,
          f_SessionID = getString lib pm ''session_id'', f_Model = getString lib pm ''model'',
          f_ReasoningEffort = getString lib pm ''reasoning_effort'', f_Endpoint = getString lib pm ''endpoint'',
          f_UpstreamMode = getString lib pm ''upstream_mode'',
          f_UpstreamErrorType = getString lib pm ''upstream_error_type'',
          f_ErrorType = getString lib pm ''error_type'', f_ExcludeErrorType = getString lib pm ''exclude_error_type'',
          f_StatusCode = getInt pm ''status_code'' 0, f_SuccessSet = has_param pm ''success'',
          f_Success = getBool pm ''success'' False,
          f_StartTime = getInt64 pm ''start_time'' ((now - day) div second) * second,
          f_EndTime = (if endRaw > 0 then endRaw * second else zero_time)\<rparr>)"

end
