(* ===== verification/ConsoleAnswers.thy ===== *)
theory ConsoleAnswers
  imports ConsoleValues
begin

text \<open>
  How the values of the gateway are written into answers (the lower half of
  internal/data/jsonrpc\_gateway.go). A Go map is the list of its entries in the order in which
  the code names them.
\<close>

definition Unix :: "int \<Rightarrow> int" where
  "Unix t = t div second"

definition if_some :: "'a option \<Rightarrow> string \<Rightarrow> ('a \<Rightarrow> rpc) \<Rightarrow> rpc_map" where
  "if_some v k f = (case v of None \<Rightarrow> [] | Some x \<Rightarrow> [(k, f x)])"

definition stringListForRPC :: "string list \<Rightarrow> rpc" where
  "stringListForRPC items = RList (map RStr items)"

definition mapGatewayAPIKeyForRPC :: "GatewayAPIKey \<Rightarrow> bool \<Rightarrow> rpc_map" where
  "mapGatewayAPIKeyForRPC item includePlainKey =
     (let q = key_Quotas item
      in [(''id'', RInt (key_ID item)), (''owner_user_id'', RInt (key_OwnerUserID item)), (''name'', RStr (key_Name item)),
          (''key_prefix'', RStr (key_KeyPrefix item)), (''key_last4'', RStr (key_KeyLast4 item)),
          (''disabled'', RBool (key_Disabled item)), (''upstream_strategy'', RStr (key_UpstreamStrategy item)),
          (''default_reasoning_effort'', RStr (key_DefaultReasoningEffort item)),
          (''quota_requests'', RInt (QuotaRequests q)), (''quota_total_tokens'', RInt (QuotaTotalTokens q)),
          (''quota_daily_tokens'', RInt (QuotaDailyTokens q)), (''quota_weekly_tokens'', RInt (QuotaWeeklyTokens q)),
          (''quota_daily_input_tokens'', RInt (QuotaDailyInputTokens q)),
          (''quota_weekly_input_tokens'', RInt (QuotaWeeklyInputTokens q)),
          (''quota_daily_output_tokens'', RInt (QuotaDailyOutputTokens q)),
          (''quota_weekly_output_tokens'', RInt (QuotaWeeklyOutputTokens q)),
          (''quota_daily_billable_input_tokens'', RInt (QuotaDailyBillableInputTokens q)),
          (''quota_weekly_billable_input_tokens'', RInt (QuotaWeeklyBillableInputTokens q)),
          (''allowed_models'', stringListForRPC (key_AllowedModels item)),
          (''created_at'', RInt (Unix (key_CreatedAt item))), (''updated_at'', RInt (Unix (key_UpdatedAt item)))] @
         (if includePlainKey then [(''plain_key'', RStr (key_PlainKey item))] else []) @
         if_some (key_LastUsedAt item) ''last_used_at'' (\<lambda>t. RInt (Unix t)))"

text \<open>A key that was created or reset, with its new plain text; the second entry of a name replaces the first.\<close>

definition with_plain_key :: "rpc_map \<Rightarrow> string \<Rightarrow> rpc_map" where
  "with_plain_key m plain = filter (\<lambda>(k, _). k \<noteq> ''plain_key'') m @ [(''plain_key'', RStr plain)]"

definition mapGatewayModelForRPC :: "(string \<Rightarrow> string) \<Rightarrow> GatewayModel \<Rightarrow> rpc_map" where
  "mapGatewayModelForRPC env item =
     (let c = m_Context item;
          e = EffectiveGatewayModelContextPolicy (Some item) (GatewayContextFallbackPolicyFromEnv env)
      in [(''id'', RInt (m_ID item)), (''model_id'', RStr (m_ModelID item)), (''owned_by'', RStr (m_OwnedBy item)),
          (''created_unix'', RInt (m_CreatedUnix item)), (''enabled'', RBool (m_Enabled item)),
          (''source'', RStr (m_Source item)),
          (''context_window_tokens'', RInt (ContextWindowTokens c)),
          (''context_compact_tokens'', RInt (ContextCompactTokens c)),
          (''context_hard_tokens'', RInt (ContextHardTokens c)),
          (''context_compact_bytes'', RInt (ContextCompactBytes c)),
          (''context_hard_bytes'', RInt (ContextHardBytes c)), (''context_keep_items'', RInt (ContextKeepItems c)),
          (''created_at'', RInt (Unix (m_CreatedAt item))), (''updated_at'', RInt (Unix (m_UpdatedAt item))),
          (''effective_context_window_tokens'', RInt (ContextWindowTokens e)),
          (''effective_context_compact_tokens'', RInt (ContextCompactTokens e)),
          (''effective_context_hard_tokens'', RInt (ContextHardTokens e)),
          (''effective_context_compact_bytes'', RInt (ContextCompactBytes e)),
          (''effective_context_hard_bytes'', RInt (ContextHardBytes e)),
          (''effective_context_keep_items'', RInt (ContextKeepItems e))] @
         if_some (m_LastSeenAt item) ''last_seen_at'' (\<lambda>t. RInt (Unix t)))"

definition put_flag :: "string \<Rightarrow> bool \<Rightarrow> rpc_map" where
  "put_flag k b = (if b then [(k, RBool True)] else [])"

definition put_count :: "string \<Rightarrow> int \<Rightarrow> rpc_map" where
  "put_count k n = (if n > 0 then [(k, RInt n)] else [])"

definition put_text :: "string \<Rightarrow> string \<Rightarrow> rpc_map" where
  "put_text k s = (if s \<noteq> '''' then [(k, RStr s)] else [])"

definition mapGatewayUsageDiagnosticForRPC :: "GatewayUsageDiagnostic \<Rightarrow> rpc_map" where
  "mapGatewayUsageDiagnosticForRPC d =
     put_count ''request_bytes'' (d_RequestBytes d) @ put_count ''response_bytes'' (d_ResponseBytes d) @
     put_flag ''backend_only'' (d_BackendOnly d) @ put_flag ''fallback_enabled'' (d_FallbackEnabled d) @
     put_flag ''fallback_blocked'' (d_FallbackBlocked d) @ put_flag ''agent_passthrough'' (d_AgentPassthrough d) @
     put_text ''agent_passthrough_reason'' (d_AgentPassthroughReason d) @
     put_text ''reasoning_effort'' (d_ReasoningEffort d) @
     put_count ''upstream_http_status'' (d_UpstreamHTTPStatus d) @
     put_text ''upstream_error_code'' (d_UpstreamErrorCode d) @
     put_text ''upstream_error_message'' (d_UpstreamErrorMessage d) @
     put_text ''upstream_body'' (d_UpstreamBody d) @
     put_flag ''upstream_stream_started'' (d_UpstreamStreamStarted d) @
     put_flag ''upstream_stream_completed'' (d_UpstreamStreamCompleted d) @
     put_flag ''upstream_stream_done_seen'' (d_UpstreamStreamDoneSeen d) @
     put_count ''upstream_stream_events'' (d_UpstreamStreamEvents d) @
     put_flag ''context_compacted'' (d_ContextCompacted d) @
     put_text ''context_compaction_reason'' (d_ContextCompactionReason d) @
     put_text ''context_compaction_summary'' (d_ContextCompactionSummary d) @
     put_count ''context_compaction_count'' (d_ContextCompactionCount d) @
     put_count ''context_original_bytes'' (d_ContextOriginalBytes d) @
     put_count ''context_compacted_bytes'' (d_ContextCompactedBytes d) @
     put_count ''context_original_estimated_tokens'' (d_ContextOriginalEstimatedTokens d) @
     put_count ''context_compacted_estimated_tokens'' (d_ContextCompactedEstimatedTokens d) @
     put_count ''context_window_tokens'' (d_ContextWindowTokens d) @
     put_count ''context_compact_token_limit'' (d_ContextCompactTokenLimit d) @
     put_count ''context_hard_token_limit'' (d_ContextHardTokenLimit d) @
     put_count ''context_compact_byte_limit'' (d_ContextCompactByteLimit d) @
     put_count ''context_hard_byte_limit'' (d_ContextHardByteLimit d) @
     put_count ''context_keep_items'' (d_ContextKeepItems d)"

definition gatewayBillableInputTokens :: "int \<Rightarrow> int \<Rightarrow> int" where
  "gatewayBillableInputTokens inputTokens cachedTokens =
     (if inputTokens \<le> 0 then 0
      else if cachedTokens \<le> 0 then inputTokens
      else if cachedTokens \<ge> inputTokens then 0
      else inputTokens - cachedTokens)"

definition cost_entry :: "rat option \<Rightarrow> rpc_map" where
  "cost_entry cost = [(''estimated_cost_usd'', case cost of Some q \<Rightarrow> RFloat q | None \<Rightarrow> RNil)]"

definition mapGatewayUsageForRPC :: "GatewayUsageLog \<Rightarrow> rpc_map" where
  "mapGatewayUsageForRPC item =
     [(''id'', RInt (l_ID item)), (''api_key_id'', RInt (l_APIKeyID item)), (''api_key_prefix'', RStr (l_APIKeyPrefix item)),
      (''client_type'', RStr (l_ClientType item)), (''client_ip'', RStr (l_ClientIP item)),
      (''api_key_name'', RStr (l_APIKeyName item)), (''session_id'', RStr (l_SessionID item)),
      (''request_id'', RStr (l_RequestID item)), (''method'', RStr (l_Method item)), (''path'', RStr (l_Path item)),
      (''endpoint'', RStr (l_Endpoint item)), (''model'', RStr (l_Model item)),
      (''reasoning_effort'', RStr (l_ReasoningEffort item)), (''status_code'', RInt (l_StatusCode item)),
      (''success'', RBool (l_Success item)), (''stream'', RBool (l_Stream item)),
      (''input_tokens'', RInt (l_InputTokens item)), (''output_tokens'', RInt (l_OutputTokens item)),
      (''total_tokens'', RInt (l_TotalTokens item)), (''cached_tokens'', RInt (l_CachedTokens item)),
      (''cached_input_tokens'', RInt (l_CachedTokens item)),
      (''billable_input_tokens'', RInt (gatewayBillableInputTokens (l_InputTokens item) (l_CachedTokens item))),
      (''reasoning_tokens'', RInt (l_ReasoningTokens item)), (''request_bytes'', RInt (l_RequestBytes item)),
      (''response_bytes'', RInt (l_ResponseBytes item)), (''duration_ms'', RInt (l_DurationMS item)),
      (''upstream_configured_mode'', RStr (l_UpstreamConfiguredMode item)),
      (''upstream_mode'', RStr (l_UpstreamMode item)), (''upstream_fallback'', RBool (l_UpstreamFallback item)),
      (''upstream_error_type'', RStr (l_UpstreamErrorType item)), (''error_type'', RStr (l_ErrorType item)),
      (''diagnostic'', RMap (mapGatewayUsageDiagnosticForRPC (l_Diagnostic item))),
      (''diagnostic_summary'', RStr (diagnostic_Summary (l_Diagnostic item))),
      (''created_at'', RInt (Unix (l_CreatedAt item)))] @ cost_entry (l_EstimatedCostUSD item)"

section \<open>Sums\<close>

definition request_counts :: "usage_totals \<Rightarrow> rpc_map" where
  "request_counts t =
     [(''total_requests'', RInt (TotalRequests t)), (''success_requests'', RInt (SuccessRequests t)),
      (''failed_requests'', RInt (FailedRequests t)), (''client_canceled_requests'', RInt (ClientCanceled t)),
      (''total_tokens'', RInt (TotalTokens t)), (''input_tokens'', RInt (InputTokens t)),
      (''output_tokens'', RInt (OutputTokens t)), (''cached_tokens'', RInt (CachedTokens t)),
      (''cached_input_tokens'', RInt (CachedTokens t)),
      (''billable_input_tokens'', RInt (gatewayBillableInputTokens (InputTokens t) (CachedTokens t))),
      (''reasoning_tokens'', RInt (ReasoningTokens t))]"

definition byte_counts :: "usage_totals \<Rightarrow> rpc_map" where
  "byte_counts t = [(''total_bytes_in'', RInt (TotalBytesIn t)), (''total_bytes_out'', RInt (TotalBytesOut t))]"

definition way_counts :: "usage_totals \<Rightarrow> rpc_map" where
  "way_counts t =
     [(''average_duration_ms'', RInt (AverageDurationMS t)), (''backend_requests'', RInt (BackendRequests t)),
      (''cli_requests'', RInt (CLIRequests t)), (''fallback_requests'', RInt (FallbackRequests t)),
      (''codex_requests'', RInt (CodexRequests t)), (''opencode_requests'', RInt (OpenCodeRequests t)),
      (''other_client_requests'', RInt (OtherRequests t))]"

definition mapGatewaySummary :: "GatewayUsageSummary \<Rightarrow> rpc_map" where
  "mapGatewaySummary item =
     (let t = su_Totals item
      in request_counts t @ byte_counts t @ way_counts t @ cost_entry (su_EstimatedCostUSD item))"

definition mapGatewayUsageBucketForRPC :: "GatewayUsageBucket \<Rightarrow> rpc_map" where
  "mapGatewayUsageBucketForRPC item =
     (let t = b_Totals item
      in [(''bucket_start'', RInt (Unix (b_BucketStart item))), (''model'', RStr (b_Model item))] @
         request_counts t @ byte_counts t @ way_counts t @ cost_entry (b_EstimatedCostUSD item))"

definition mapGatewayUsageKeySummaryForRPC :: "GatewayUsageKeySummary \<Rightarrow> rpc_map" where
  "mapGatewayUsageKeySummaryForRPC item =
     (let t = ks_Totals item
      in [(''api_key_id'', RInt (ks_APIKeyID item)), (''api_key_prefix'', RStr (ks_APIKeyPrefix item)),
          (''api_key_name'', RStr (ks_APIKeyName item)), (''disabled'', RBool (ks_Disabled item))] @
         request_counts t @ way_counts t @ cost_entry (ks_EstimatedCostUSD item))"

definition mapGatewayUsageSessionSummaryForRPC :: "GatewayUsageSessionSummary \<Rightarrow> rpc_map" where
  "mapGatewayUsageSessionSummaryForRPC item =
     (let t = ss_Totals item
      in [(''session_id'', RStr (ss_SessionID item)), (''api_key_id'', RInt (ss_APIKeyID item)),
          (''api_key_prefix'', RStr (ss_APIKeyPrefix item)), (''api_key_name'', RStr (ss_APIKeyName item))] @
         request_counts t @ way_counts t @
         [(''first_seen_at'', RInt (Unix (ss_FirstSeenAt item))), (''last_seen_at'', RInt (Unix (ss_LastSeenAt item))),
          (''context_compaction_count'', RInt (ss_ContextCompactionCount item)),
          (''context_summary'', RStr (ss_ContextSummary item)),
          (''context_original_bytes'', RInt (ss_ContextOriginalBytes item)),
          (''context_compacted_bytes'', RInt (ss_ContextCompactedBytes item)),
          (''context_original_tokens'', RInt (ss_ContextOriginalTokens item)),
          (''context_compacted_tokens'', RInt (ss_ContextCompactedTokens item))] @
         if_some (ss_ContextCompactedAt item) ''context_compacted_at'' (\<lambda>t. RInt (Unix t)) @
         cost_entry (ss_EstimatedCostUSD item))"

section \<open>Policies, prices, alerts, settings\<close>

definition mapGatewayPolicyForRPC :: "GatewayPolicy \<Rightarrow> rpc_map" where
  "mapGatewayPolicyForRPC item =
     [(''id'', RInt (po_ID item)), (''api_key_id'', RInt (po_APIKeyID item)), (''model_id'', RStr (po_ModelID item)),
      (''rpm'', RInt (RPM item)), (''tpm'', RInt (TPM item)), (''daily_requests'', RInt (DailyRequests item)),
      (''monthly_requests'', RInt (MonthlyRequests item)), (''daily_tokens'', RInt (DailyTokens item)),
      (''monthly_tokens'', RInt (MonthlyTokens item)), (''created_at'', RInt (Unix (po_CreatedAt item))),
      (''updated_at'', RInt (Unix (po_UpdatedAt item)))]"

definition mapGatewayPriceForRPC :: "GatewayModelPrice \<Rightarrow> rpc_map" where
  "mapGatewayPriceForRPC item =
     (let at_time = (\<lambda>t. if IsZero t then 0 else Unix t)
      in [(''id'', RInt (pr_ID item)), (''model_id'', RStr (pr_ModelID item)),
          (''input_usd_per_million'', RFloat (InputUSDPerMillion item)),
          (''cached_input_usd_per_million'', RFloat (CachedInputUSDPerMillion item)),
          (''output_usd_per_million'', RFloat (OutputUSDPerMillion item)),
          (''reasoning_tokens_billed_as'', RStr ''output_tokens''), (''reasoning_tokens_double_count'', RBool False),
          (''created_at'', RInt (at_time (pr_CreatedAt item))), (''updated_at'', RInt (at_time (pr_UpdatedAt item)))])"

definition mapGatewayAlertRuleForRPC :: "GatewayAlertRule \<Rightarrow> rpc_map" where
  "mapGatewayAlertRuleForRPC item =
     [(''id'', RInt (a_ID item)), (''name'', RStr (a_Name item)), (''metric'', RStr (a_Metric item)),
      (''operator'', RStr (a_Operator item)), (''threshold'', RFloat (a_Threshold item)),
      (''window_seconds'', RInt (a_WindowSeconds item)), (''enabled'', RBool (a_Enabled item)),
      (''created_at'', RInt (Unix (a_CreatedAt item))), (''updated_at'', RInt (Unix (a_UpdatedAt item)))]"

definition mapGatewayAlertEventForRPC :: "GatewayAlertEvent \<Rightarrow> rpc_map" where
  "mapGatewayAlertEventForRPC item =
     [(''id'', RInt (ev_ID item)), (''rule_id'', RInt (ev_RuleID item)), (''rule_name'', RStr (ev_RuleName item)),
      (''metric'', RStr (ev_Metric item)), (''value'', RFloat (ev_Value item)),
      (''threshold'', RFloat (ev_Threshold item)), (''status'', RStr (ev_Status item)), (''ack_by'', RInt (ev_AckBy item)),
      (''created_at'', RInt (Unix (ev_CreatedAt item)))] @
     if_some (ev_AckAt item) ''ack_at'' (\<lambda>t. RInt (Unix t))"

definition gatewayUpstreamStrategyFromLegacyParams :: "string \<Rightarrow> bool \<Rightarrow> string" where
  "gatewayUpstreamStrategyFromLegacyParams mode fallbackEnabled =
     (if NormalizeGatewayUpstreamMode mode = GatewayUpstreamModeCodexCLI then GatewayUpstreamStrategyCodexCLI
      else if fallbackEnabled then GatewayUpstreamStrategyBackendWithFallback
      else GatewayUpstreamStrategyBackendOnly)"

definition strategy_option :: "string \<Rightarrow> string \<Rightarrow> string \<Rightarrow> string \<Rightarrow> rpc" where
  "strategy_option label value_text mode description =
     RMap [(''label'', RStr label), (''value'', RStr value_text), (''mode'', RStr mode), (''description'', RStr description)]"

definition effort_option :: "string \<Rightarrow> string \<Rightarrow> string \<Rightarrow> rpc" where
  "effort_option label value_text description =
     RMap [(''label'', RStr label), (''value'', RStr value_text), (''description'', RStr description)]"

definition mapGatewayUpstreamModeForRPC ::
  "(string \<Rightarrow> string) \<Rightarrow> string \<Rightarrow> string \<Rightarrow> bool \<Rightarrow> string \<Rightarrow> rpc_map" where
  "mapGatewayUpstreamModeForRPC env strategy0 mode0 fallbackEnabled defaultReasoningEffort0 =
     (let mode1 = NormalizeGatewayUpstreamMode mode0;
          mode = (if mode1 = '''' then DefaultGatewayUpstreamMode env else mode1);
          strategy1 = NormalizeGatewayUpstreamStrategy strategy0;
          strategy = (if strategy1 = '''' then GatewayUpstreamStrategy mode fallbackEnabled else strategy1)
      in [(''strategy'', RStr strategy), (''mode'', RStr mode), (''fallback_enabled'', RBool fallbackEnabled),
          (''default_strategy'', RStr GatewayUpstreamStrategyBackendOnly),
          (''default_mode'', RStr (DefaultGatewayUpstreamMode env)),
          (''default_reasoning_effort'', RStr (NormalizeGatewayReasoningEffort defaultReasoningEffort0)),
          (''options'', RList
             [strategy_option (from_hex ''4261636b656e6420e79bb4e8bf9e'') GatewayUpstreamStrategyBackendOnly GatewayUpstreamModeCodexBackend
                (from_hex ''e58faae8b5b020436f646578206261636b656e64efbc8ce5a4b1e8b4a5e79bb4e68ea5e8bf94e59b9ee99499e8afafe38082''),
              strategy_option (from_hex ''4261636b656e64202b20434c4920e5859ce5ba95'') GatewayUpstreamStrategyBackendWithFallback GatewayUpstreamModeCodexBackend
                (from_hex ''4261636b656e6420e5a4b1e8b4a5e5908ee4bb85e7baafe69687e69cac202f20e59bbee78987e8afb7e6b182e58fafe4b8b4e697b6e9998de7baa7e588b020434c49e38082''),
              strategy_option (from_hex ''e5bcbae588b620434c49'') GatewayUpstreamStrategyCodexCLI GatewayUpstreamModeCodexCLI
                (from_hex ''e6af8fe6aca1e8afb7e6b182e983bde8b5b0e69c8de58aa1e7abaf20636f6465782065786563e38082'')]),
          (''reasoning_effort_options'', RList
             [effort_option (from_hex ''e585b3e997ad'') '''' (from_hex ''e4b88de6b3a8e585a5e585a8e5b180e9bb98e8aea420726561736f6e696e675f6566666f7274e38082''),
              effort_option ''Fast'' GatewayReasoningEffortLow (from_hex ''e5aea2e688b7e7abafe69caae4bca0206566666f727420e697b6e9bb98e8aea4e4bdbfe794a8206c6f77e38082''),
              effort_option ''Medium'' GatewayReasoningEffortMed (from_hex ''e5aea2e688b7e7abafe69caae4bca0206566666f727420e697b6e9bb98e8aea4e4bdbfe794a8206d656469756de38082''),
              effort_option ''High'' GatewayReasoningEffortHigh (from_hex ''e5aea2e688b7e7abafe69caae4bca0206566666f727420e697b6e9bb98e8aea4e4bdbfe794a82068696768e38082''),
              effort_option ''Deep'' GatewayReasoningEffortXHigh (from_hex ''e5aea2e688b7e7abafe69caae4bca0206566666f727420e697b6e9bb98e8aea4e4bdbfe794a8207868696768e38082''),
              effort_option ''Max'' GatewayReasoningEffortMax
                (from_hex ''e5aea2e688b7e7abafe69caae4bca0206566666f727420e697b6e9bb98e8aea4e4bdbfe794a8206d6178efbc9be6a8a1e59e8be4b88de694afe68c81e697b6e8afb7e6b182e4bc9ae6988ee7a1aee5a4b1e8b4a5e38082'')])])"

end
