(* ===== verification/Console.thy ===== *)
theory Console
  imports SignIn ConsoleAnswers
begin

text \<open>
  The JSON-RPC of the console (\<open>JsonrpcData\<close> in internal/data/jsonrpc.go and jsonrpc\_gateway.go,
  called through internal/biz/jsonrpc.go and internal/service/jsonrpc.go): which calls need a
  login, the methods of the domains \<open>system\<close>, \<open>auth\<close>, \<open>user\<close> and \<open>api\<close>, and the trail each
  change of the gateway leaves in the audit log. A call is an operation on the database that
  returns an answer; errors are answers too.
\<close>

text \<open>
  Sign-in, library, environment, formatting of floats and rounding to float64 in the cost of a
  listed request, the time zone of the database, random bytes for new keys.
\<close>

record rpc_env =
  re_SignIn :: sign_in
  re_Lib :: rpc_lib
  re_Env :: "string \<Rightarrow> string"
  re_FmtFloat :: "rat \<Rightarrow> string"
  re_FloatRound :: "int \<Rightarrow> rat"
  re_DBTZ :: int
  re_Random :: "string result"

type_synonym answer_op = "(console, JsonrpcResult) op"

text \<open>\<open>x, err := m(); if err != nil { return failed(err) }\<close>\<close>

definition or_answer :: "(console, 'a) op \<Rightarrow> (go_error \<Rightarrow> JsonrpcResult) \<Rightarrow> ('a \<Rightarrow> answer_op) \<Rightarrow> answer_op" where
  "or_answer m failed f = try_op m (\<lambda>r. case r of Inl err \<Rightarrow> ok (failed err) | Inr x \<Rightarrow> f x)"

section \<open>Who is calling\<close>

definition requireLogin :: "auth_context \<Rightarrow> JsonrpcResult + AuthClaims" where
  "requireLogin cx =
     (case cx_Claims cx of
        Some c \<Rightarrow> Inr c
      | None \<Rightarrow> Inl (case cx_State cx of
            AuthExpired \<Rightarrow> code_AuthExpired
          | AuthInvalid \<Rightarrow> code_AuthInvalid
          | _ \<Rightarrow> code_AuthRequired))"

definition errAdminUsernameMismatch :: go_error where
  "errAdminUsernameMismatch = ErrText ''admin username mismatch''"

definition getCurrentAdmin :: "AuthClaims \<Rightarrow> (console, AdminUser) op" where
  "getCurrentAdmin c =
     bind_op (admin_GetAdminByID (cl_UserID c)) (\<lambda>admin.
       if ad_Username admin \<noteq> cl_Username c then fail errAdminUsernameMismatch else ok admin)"

text \<open>The account behind the token is looked up: it has to be there, by id and name, and enabled.\<close>

definition requireAdmin :: "auth_context \<Rightarrow> (AuthClaims \<Rightarrow> answer_op) \<Rightarrow> answer_op" where
  "requireAdmin cx f =
     (case requireLogin cx of
        Inl res \<Rightarrow> ok res
      | Inr c \<Rightarrow>
          if cl_Role c \<noteq> RoleAdmin then ok code_AdminRequired
          else or_answer (getCurrentAdmin c)
                 (\<lambda>err. if err = DBNotFound \<or> err = errAdminUsernameMismatch then code_AdminRequired else code_Internal)
                 (\<lambda>admin. if ad_Disabled admin then ok code_AdminDisabled else f c))"

definition isPublic :: "string \<Rightarrow> string \<Rightarrow> bool" where
  "isPublic url method =
     (url = ''system'' \<and> (method = ''ping'' \<or> method = ''version'') \<or>
      url = ''auth'' \<and> (method = ''login'' \<or> method = ''admin_login'' \<or> method = ''logout''))"

section \<open>system and auth\<close>

definition handleSystem :: "string \<Rightarrow> answer_op" where
  "handleSystem method =
     (if method = ''ping'' then ok (okResult ''OK'' [(''pong'', RStr ''pong'')])
      else if method = ''version'' then ok (okResult ''OK'' [(''version'', RStr ''1.0.0'')])
      else ok (errcode UnknownMethod_Code (''unknown system method: '' @ method)))"

definition mapAuthError :: "go_error \<Rightarrow> JsonrpcResult" where
  "mapAuthError err =
     (case err of
        ErrUserNotFound \<Rightarrow> code_AuthUserNotFound
      | ErrInvalidPassword \<Rightarrow> code_AuthInvalidPassword
      | ErrUserDisabled \<Rightarrow> code_AuthUserDisabled
      | ErrUserExists \<Rightarrow> code_AuthUserExists
      | _ \<Rightarrow> code_Internal)"

definition session_data :: "int \<Rightarrow> string \<Rightarrow> string \<Rightarrow> int \<Rightarrow> int \<Rightarrow> rpc_map" where
  "session_data user_id username token expireAt now =
     [(''user_id'', RInt user_id), (''username'', RStr username), (''access_token'', RStr token),
      (''expires_at'', RInt (Unix expireAt)), (''token_type'', RStr ''Bearer''), (''issued_at'', RInt (Unix now))]"

definition missing_name_or_password :: JsonrpcResult where
  "missing_name_or_password = errcode InvalidParam_Code (from_hex ''e7bcbae5b091e794a8e688b7e5908de68896e5af86e7a081'')"

definition signed_in :: string where
  "signed_in = from_hex ''e799bbe5bd95e68890e58a9f''"

definition auth_login :: "rpc_env \<Rightarrow> obj \<Rightarrow> answer_op" where
  "auth_login e pm =
     (let username = getString (re_Lib e) pm ''username''; password = getString (re_Lib e) pm ''password''
      in if username = '''' \<or> password = '''' then ok missing_name_or_password
         else or_answer (Login (re_SignIn e) username password) mapAuthError (\<lambda>(token, expireAt, user).
              bind_op time_now (\<lambda>now.
                ok (okResult signed_in (session_data (us_ID user) (us_Username user) token expireAt now)))))"

definition auth_admin_login :: "rpc_env \<Rightarrow> obj \<Rightarrow> answer_op" where
  "auth_admin_login e pm =
     (let username = getString (re_Lib e) pm ''username''; password = getString (re_Lib e) pm ''password''
      in if username = '''' \<or> password = '''' then ok missing_name_or_password
         else or_answer (admin_Login (re_SignIn e) username password) mapAuthError (\<lambda>(token, expireAt, admin).
              bind_op time_now (\<lambda>now.
                ok (okResult signed_in (session_data (ad_ID admin) (ad_Username admin) token expireAt now)))))"

definition auth_me :: "auth_context \<Rightarrow> answer_op" where
  "auth_me cx =
     (case cx_Claims cx of
        None \<Rightarrow> ok code_AuthRequired
      | Some c \<Rightarrow>
          if cl_Role c = RoleAdmin
          then or_answer (getCurrentAdmin c) (\<lambda>_. code_AuthCurrentUserFailed) (\<lambda>admin.
                 ok (okResult ''OK''
                   [(''id'', RInt (ad_ID admin)), (''username'', RStr (ad_Username admin)), (''role'', RInt RoleAdmin),
                    (''disabled'', RBool (ad_Disabled admin))]))
          else or_answer (GetCurrentUser (cl_UserID c)) (\<lambda>_. code_AuthCurrentUserFailed) (\<lambda>u.
                 ok (okResult ''OK''
                   ([(''id'', RInt (us_ID u)), (''username'', RStr (us_Username u)), (''role'', RInt (us_Role u)),
                     (''disabled'', RBool (us_Disabled u)), (''created_at'', RInt (Unix (us_CreatedAt u)))] @
                    if_some (us_LastLoginAt u) ''last_login_at'' (\<lambda>t. RInt (Unix t))))))"

definition handleAuth :: "rpc_env \<Rightarrow> auth_context \<Rightarrow> string \<Rightarrow> obj \<Rightarrow> answer_op" where
  "handleAuth e cx method pm =
     (if method = ''login'' then auth_login e pm
      else if method = ''admin_login'' then auth_admin_login e pm
      else if method = ''register''
      then ok (errcode InvalidParam_Code (from_hex ''e585ace5bc80e6b3a8e5868ce5b7b2e585b3e997adefbc8ce8afb7e88194e7b3bbe7aea1e79086e59198e5889be5bbbae7bb84e7bb87e8b4a6e58fb7''))
      else if method = ''logout'' then ok code_OK
      else if method = ''me'' then auth_me cx
      else ok (errcode UnknownMethod_Code (from_hex ''617574683a20e69caae79fa5e696b9e6b3953d'' @ method)))"

section \<open>user\<close>

definition mapUserAdminError :: "go_error \<Rightarrow> JsonrpcResult" where
  "mapUserAdminError err =
     (case err of
        ErrUserNotFound \<Rightarrow> code_AuthUserNotFound
      | ErrBadParam \<Rightarrow> code_UserInvalidParam
      | ErrForbidden \<Rightarrow> code_AdminRequired
      | ErrNoPermission \<Rightarrow> code_PermissionDenied
      | _ \<Rightarrow> code_Internal)"

definition user_create :: "rpc_env \<Rightarrow> auth_context \<Rightarrow> obj \<Rightarrow> answer_op" where
  "user_create e cx pm =
     or_answer (useradmin_Create (re_SignIn e) cx (getString (re_Lib e) pm ''username'') (getString (re_Lib e) pm ''password''))
       mapUserAdminError (\<lambda>u.
         ok (okResult (from_hex ''e5889be5bbbae7bb84e7bb87e8b4a6e58fb7e68890e58a9f'')
           [(''id'', RInt (us_ID u)), (''username'', RStr (us_Username u)), (''disabled'', RBool (us_Disabled u)),
            (''created_at'', RInt (Unix (us_CreatedAt u)))]))"

definition user_reset_password :: "rpc_env \<Rightarrow> auth_context \<Rightarrow> obj \<Rightarrow> answer_op" where
  "user_reset_password e cx pm =
     (let userID = getInt pm ''user_id'' 0
      in or_answer (useradmin_ResetPassword (re_SignIn e) cx userID (getString (re_Lib e) pm ''password''))
           mapUserAdminError (\<lambda>_. ok (okResult (from_hex ''e9878de7bdaee7bb84e7bb87e8b4a6e58fb7e5af86e7a081e68890e58a9f'') [(''user_id'', RInt userID)])))"

definition user_entry :: "User \<Rightarrow> rpc" where
  "user_entry u =
     RMap [(''id'', RInt (us_ID u)), (''username'', RStr (us_Username u)), (''disabled'', RBool (us_Disabled u)),
           (''last_login_at'', RInt (case us_LastLoginAt u of Some t \<Rightarrow> Unix t | None \<Rightarrow> 0)),
           (''created_at'', RInt (Unix (us_CreatedAt u)))]"

definition user_list :: "rpc_env \<Rightarrow> auth_context \<Rightarrow> obj \<Rightarrow> answer_op" where
  "user_list e cx pm =
     (let limit = getInt pm ''limit'' 30; offset = getInt pm ''offset'' 0;
          search = TrimSpace (getString (re_Lib e) pm ''search'')
      in or_answer (useradmin_List cx limit offset search) (\<lambda>_. code_UserListFailed) (\<lambda>(list, total).
           ok (okResult (from_hex ''e88eb7e58f96e8b4a6e58fb7e58897e8a1a8e68890e58a9f'')
             [(''users'', RList (map user_entry list)), (''total'', RInt total), (''limit'', RInt limit),
              (''offset'', RInt offset), (''search'', RStr search)])))"

definition user_set_disabled :: "auth_context \<Rightarrow> obj \<Rightarrow> answer_op" where
  "user_set_disabled cx pm =
     (let userID = getInt pm ''user_id'' 0; disabled = getBool pm ''disabled'' False
      in if userID \<le> 0 then ok code_UserSetDisabledInvalid
         else or_answer (useradmin_SetDisabled cx userID disabled) mapUserAdminError (\<lambda>_.
                ok (okResult (if disabled then from_hex ''e7a681e794a8e68890e58a9f'' else from_hex ''e590afe794a8e68890e58a9f'')
                  [(''success'', RBool True), (''user_id'', RInt userID), (''disabled'', RBool disabled)])))"

definition handleUser :: "rpc_env \<Rightarrow> auth_context \<Rightarrow> string \<Rightarrow> obj \<Rightarrow> answer_op" where
  "handleUser e cx method pm =
     requireAdmin cx (\<lambda>_.
       if method = ''create'' then user_create e cx pm
       else if method = ''reset_password'' then user_reset_password e cx pm
       else if method = ''list'' then user_list e cx pm
       else if method = ''set_disabled'' then user_set_disabled cx pm
       else ok (errcode UnknownMethod_Code (from_hex ''e69caae79fa5e794a8e688b7e68ea5e58fa3206d6574686f643d'' @ method)))"

section \<open>api\<close>

definition mapGatewayError :: "go_error \<Rightarrow> JsonrpcResult" where
  "mapGatewayError err =
     (case err of
        ErrBadParam \<Rightarrow> code_InvalidParam
      | ErrGatewayAPIKeyNotFound \<Rightarrow> code_APIKeyInvalid
      | ErrGatewayAPIKeyDisabled \<Rightarrow> code_APIKeyDisabled
      | ErrGatewayModelDisabled \<Rightarrow> code_APIModelDisabled
      | ErrGatewayModelNotAllowed \<Rightarrow> code_APIModelNotAllowed
      | ErrGatewayModelCatalogFixed \<Rightarrow>
          errcode InvalidParam_Code (from_hex ''e6a8a1e59e8be58897e8a1a8e4b8bae59bbae5ae9ae5ae98e696b9e79baee5bd95efbc8ce4b88de694afe68c81e6898be5b7a5e696b0e5a29ee68896e588a0e999a4'')
      | ErrGatewayRateLimited \<Rightarrow> errcode 50040 (from_hex ''415049206b657920e99990e6b581e8b685e99990'')
      | ErrGatewayQuotaExceeded \<Rightarrow> errcode 50040 (from_hex ''415049206b657920e9858de9a29de8b685e99990'')
      | ErrGatewayPolicyInvalid \<Rightarrow> errcode InvalidParam_Code (from_hex ''e6a8a1e59e8be7ad96e795a5e58f82e695b0e99499e8afaf'')
      | ErrGatewayExportRange \<Rightarrow> errcode InvalidParam_Code (from_hex ''e5afbce587bae697b6e997b4e88c83e59bb4e8bf87e5a4a7'')
      | ErrGatewayUpstreamModeInvalid \<Rightarrow> errcode InvalidParam_Code (from_hex ''436f64657820e4b88ae6b8b8e7ad96e795a5e58f82e695b0e99499e8afaf'')
      | ErrGatewayReasoningInvalid \<Rightarrow> errcode InvalidParam_Code (from_hex ''e9bb98e8aea4e68ea8e79086e6a1a3e4bd8de58f82e695b0e99499e8afaf'')
      | ErrGatewayModelContextInvalid \<Rightarrow> errcode InvalidParam_Code (from_hex ''e6a8a1e59e8be4b88ae4b88be69687e7ad96e795a5e58f82e695b0e99499e8afaf'')
      | ErrGatewayAPIKeyRemarkInvalid \<Rightarrow> errcode InvalidParam_Code (from_hex ''e5a487e6b3a8e58faae883bde58c85e590abe5ad97e6af8de5928ce695b0e5ad97'')
      | _ \<Rightarrow> code_APIOperationFailed)"

text \<open>A call of the gateway whose error becomes the answer.\<close>

definition call_gateway :: "(store, 'a) op \<Rightarrow> ('a \<Rightarrow> answer_op) \<Rightarrow> answer_op" where
  "call_gateway m f = or_answer (on_gateway m) mapGatewayError f"

definition read_gateway :: "(store, 'a) op \<Rightarrow> ('a \<Rightarrow> answer_op) \<Rightarrow> answer_op" where
  "read_gateway m f = or_answer (on_gateway m) (\<lambda>_. code_APIOperationFailed) f"

definition rpc_audit :: "auth_context \<Rightarrow> string \<Rightarrow> string \<Rightarrow> string \<Rightarrow> (string \<times> any) list \<Rightarrow> GatewayAuditLog" where
  "rpc_audit cx action targetType targetID metadata =
     (let c = cx_Claims cx
      in \<lparr>au_ActorID = (case c of Some c \<Rightarrow> cl_UserID c | None \<Rightarrow> 0),
          au_ActorName = (case c of Some c \<Rightarrow> cl_Username c | None \<Rightarrow> ''''),
          au_ActorRole = (case c of Some c \<Rightarrow> if cl_Role c = RoleAdmin then ''admin'' else ''user'' | None \<Rightarrow> ''''),
          au_Action = action, au_TargetType = targetType, au_TargetID = targetID, au_Metadata = metadata\<rparr>)"

definition auditGateway ::
  "auth_context \<Rightarrow> string \<Rightarrow> string \<Rightarrow> string \<Rightarrow> (string \<times> any) list \<Rightarrow> JsonrpcResult \<Rightarrow> answer_op" where
  "auditGateway cx action targetType targetID metadata reply =
     try_op (on_gateway (gateway_CreateAuditLog (rpc_audit cx action targetType targetID metadata))) (\<lambda>_. ok reply)"

text \<open>The entries of a page.\<close>

definition items_of :: "('a \<Rightarrow> rpc_map) \<Rightarrow> 'a list \<Rightarrow> string \<times> rpc" where
  "items_of f list = (''items'', RList (map (\<lambda>x. RMap (f x)) list))"

definition filter_of :: "rpc_env \<Rightarrow> obj \<Rightarrow> (GatewayUsageFilter \<Rightarrow> answer_op) \<Rightarrow> answer_op" where
  "filter_of e pm f = bind_op time_now (\<lambda>now. f (gatewayUsageFilterFromParams (re_Lib e) now pm))"

subsection \<open>Settings\<close>

definition api_upstream_get :: "rpc_env \<Rightarrow> answer_op" where
  "api_upstream_get e =
     call_gateway (gateway_GetCodexUpstreamStrategy (re_Env e)) (\<lambda>(strategy, mode, fallbackEnabled).
     call_gateway gateway_GetGatewayDefaultReasoningEffort (\<lambda>effort.
       ok (okResult (from_hex ''e88eb7e58f9620436f64657820e4b88ae6b8b8e7ad96e795a5e68890e58a9f'')
         (mapGatewayUpstreamModeForRPC (re_Env e) strategy mode fallbackEnabled effort))))"

text \<open>The strategy asked for: named, put together from the older parameters, or the current one.\<close>

definition wanted_strategy :: "rpc_env \<Rightarrow> obj \<Rightarrow> (string \<Rightarrow> answer_op) \<Rightarrow> answer_op" where
  "wanted_strategy e pm f =
     (let strategyInput = getString (re_Lib e) pm ''strategy''
      in if strategyInput \<noteq> '''' then f strategyInput
         else if has_param pm ''mode'' \<or> has_param pm ''fallback_enabled''
         then f (gatewayUpstreamStrategyFromLegacyParams (getString (re_Lib e) pm ''mode'')
                   (getBool pm ''fallback_enabled'' False))
         else call_gateway (gateway_GetCodexUpstreamStrategy (re_Env e)) (\<lambda>(currentStrategy, _, _). f currentStrategy))"

definition api_upstream_set :: "rpc_env \<Rightarrow> auth_context \<Rightarrow> obj \<Rightarrow> answer_op" where
  "api_upstream_set e cx pm =
     wanted_strategy e pm (\<lambda>strategyInput.
       let effortInput = getString (re_Lib e) pm ''default_reasoning_effort'';
           hasEffort = has_param pm ''default_reasoning_effort'';
           raw = TrimSpace effortInput
       in if hasEffort \<and> raw \<noteq> '''' \<and> NormalizeGatewayReasoningEffort raw = ''''
          then ok (mapGatewayError ErrGatewayReasoningInvalid)
          else
            call_gateway (gateway_SetCodexUpstreamStrategy strategyInput) (\<lambda>(strategy, mode, fallbackEnabled).
            call_gateway gateway_GetGatewayDefaultReasoningEffort (\<lambda>current.
            call_gateway (if hasEffort then gateway_SetGatewayDefaultReasoningEffort effortInput else ok current) (\<lambda>effort.
              auditGateway cx ''api.gateway_upstream_set'' ''gateway_setting'' GatewaySettingCodexUpstreamMode
                [(''strategy'', AStr strategy), (''mode'', AStr mode), (''fallback_enabled'', ABool fallbackEnabled),
                 (''default_reasoning_effort'', AStr effort)]
                (okResult (from_hex ''e58887e68da220436f64657820e4b88ae6b8b8e7ad96e795a5e68890e58a9f'')
                  (mapGatewayUpstreamModeForRPC (re_Env e) strategy mode fallbackEnabled effort))))))"

subsection \<open>Keys\<close>

definition quotas_of :: "obj \<Rightarrow> quotas" where
  "quotas_of pm =
     \<lparr>QuotaRequests = getInt64 pm ''quota_requests'' 0, QuotaTotalTokens = 0,
      QuotaDailyTokens = getInt64 pm ''quota_daily_tokens'' 0,
      QuotaWeeklyTokens = getInt64WithFallback pm ''quota_weekly_tokens'' ''quota_total_tokens'',
      QuotaDailyInputTokens = getInt64 pm ''quota_daily_input_tokens'' 0,
      QuotaWeeklyInputTokens = getInt64 pm ''quota_weekly_input_tokens'' 0,
      QuotaDailyOutputTokens = getInt64 pm ''quota_daily_output_tokens'' 0,
      QuotaWeeklyOutputTokens = getInt64 pm ''quota_weekly_output_tokens'' 0,
      QuotaDailyBillableInputTokens = getInt64 pm ''quota_daily_billable_input_tokens'' 0,
      QuotaWeeklyBillableInputTokens = getInt64 pm ''quota_weekly_billable_input_tokens'' 0\<rparr>"

definition key_input_of :: "rpc_lib \<Rightarrow> obj \<Rightarrow> CreateGatewayAPIKeyInput" where
  "key_input_of lib pm =
     \<lparr>in_Name = getString lib pm ''name'', in_OwnerUserID = getInt pm ''owner_user_id'' 0, in_Quotas = quotas_of pm,
      in_AllowedModels = getStringList lib pm ''allowed_models'',
      in_UpstreamStrategy = getString lib pm ''upstream_strategy'',
      in_DefaultReasoningEffort = getString lib pm ''default_reasoning_effort''\<rparr>"

definition api_key_list :: "rpc_env \<Rightarrow> obj \<Rightarrow> answer_op" where
  "api_key_list e pm =
     (let limit = getInt pm ''limit'' 30; offset = getInt pm ''offset'' 0;
          search = TrimSpace (getString (re_Lib e) pm ''search'')
      in read_gateway (gateway_ListAPIKeys limit offset search) (\<lambda>(list, total).
           ok (okResult (from_hex ''e88eb7e58f9620415049206b657920e58897e8a1a8e68890e58a9f'')
             [items_of (\<lambda>k. mapGatewayAPIKeyForRPC k True) list, (''total'', RInt total), (''limit'', RInt limit),
              (''offset'', RInt offset), (''search'', RStr search)])))"

definition api_key_create :: "rpc_env \<Rightarrow> auth_context \<Rightarrow> obj \<Rightarrow> answer_op" where
  "api_key_create e cx pm =
     call_gateway (gateway_CreateAPIKey (re_Random e) (key_input_of (re_Lib e) pm)) (\<lambda>item.
       auditGateway cx ''api.key_create'' ''api_key'' (Itoa (key_ID (cr_Key item)))
         [(''name'', AStr (key_Name (cr_Key item))), (''owner_user_id'', AInt (key_OwnerUserID (cr_Key item)))]
         (okResult (from_hex ''e5889be5bbba20415049206b657920e68890e58a9f'') (with_plain_key (mapGatewayAPIKeyForRPC (cr_Key item) True) (cr_PlainKey item))))"

definition api_key_update :: "rpc_env \<Rightarrow> auth_context \<Rightarrow> obj \<Rightarrow> answer_op" where
  "api_key_update e cx pm =
     call_gateway (gateway_UpdateAPIKey (CreateGatewayAPIKeyInput.extend (key_input_of (re_Lib e) pm)
         (UpdateGatewayAPIKeyInput.fields (getInt pm ''key_id'' 0) (getBool pm ''disabled'' False)))) (\<lambda>item.
       auditGateway cx ''api.key_update'' ''api_key'' (Itoa (key_ID item))
         [(''owner_user_id'', AInt (key_OwnerUserID item)), (''disabled'', ABool (key_Disabled item))]
         (okResult (from_hex ''e69bb4e696b020415049206b657920e68890e58a9f'') (mapGatewayAPIKeyForRPC item True)))"

definition api_key_reset_secret :: "rpc_env \<Rightarrow> auth_context \<Rightarrow> obj \<Rightarrow> answer_op" where
  "api_key_reset_secret e cx pm =
     call_gateway (gateway_ResetAPIKeySecret (re_Random e) (getInt pm ''key_id'' 0)) (\<lambda>item.
       auditGateway cx ''api.key_reset_secret'' ''api_key'' (Itoa (key_ID (cr_Key item)))
         [(''name'', AStr (key_Name (cr_Key item)))]
         (okResult (from_hex ''e9878de7bdae20415049206b657920e68890e58a9f'') (with_plain_key (mapGatewayAPIKeyForRPC (cr_Key item) True) (cr_PlainKey item))))"

definition api_key_delete :: "auth_context \<Rightarrow> obj \<Rightarrow> answer_op" where
  "api_key_delete cx pm =
     (let keyID = getInt pm ''key_id'' 0
      in call_gateway (gateway_DeleteAPIKey keyID) (\<lambda>_.
           auditGateway cx ''api.key_delete'' ''api_key'' (Itoa keyID) []
             (okResult (from_hex ''e588a0e999a420415049206b657920e68890e58a9f'') [(''key_id'', RInt keyID)])))"

text \<open>The ids are given to the audit log as they are; \<open>sanitizeAuditMetadata\<close> drops them by their name.\<close>

definition api_key_delete_batch :: "auth_context \<Rightarrow> obj \<Rightarrow> answer_op" where
  "api_key_delete_batch cx pm =
     (let keyIDs = getIntList pm ''key_ids''
      in call_gateway (gateway_DeleteAPIKeys keyIDs) (\<lambda>deleted.
           auditGateway cx ''api.key_delete_batch'' ''api_key'' ''batch''
             [(''key_ids'', AStr (join_with '' '' (map Itoa keyIDs))), (''deleted'', AInt deleted)]
             (okResult (from_hex ''e689b9e9878fe588a0e999a420415049206b657920e68890e58a9f'') [(''key_ids'', RInts keyIDs), (''deleted'', RInt deleted)])))"

definition api_key_set_disabled :: "auth_context \<Rightarrow> obj \<Rightarrow> answer_op" where
  "api_key_set_disabled cx pm =
     (let keyID = getInt pm ''key_id'' 0; disabled = getBool pm ''disabled'' False
      in call_gateway (gateway_SetAPIKeyDisabled keyID disabled) (\<lambda>_.
           auditGateway cx ''api.key_set_disabled'' ''api_key'' (Itoa keyID) [(''disabled'', ABool disabled)]
             (okResult (if disabled then from_hex ''e7a681e794a820415049206b657920e68890e58a9f'' else from_hex ''e590afe794a820415049206b657920e68890e58a9f'')
               [(''key_id'', RInt keyID), (''disabled'', RBool disabled)])))"

definition api_key_disable_all :: "auth_context \<Rightarrow> answer_op" where
  "api_key_disable_all cx =
     call_gateway gateway_DisableAllAPIKeys (\<lambda>updated.
       auditGateway cx ''api.key_disable_all'' ''api_key'' ''all'' [(''updated'', AInt updated)]
         (okResult (from_hex ''e585a8e983a820415049206b657920e5b7b2e7a681e794a8'') [(''updated'', RInt updated), (''disabled'', RBool True)]))"

definition api_key_enable_all :: "auth_context \<Rightarrow> answer_op" where
  "api_key_enable_all cx =
     call_gateway gateway_EnableAllAPIKeys (\<lambda>updated.
       auditGateway cx ''api.key_enable_all'' ''api_key'' ''all'' [(''updated'', AInt updated)]
         (okResult (from_hex ''e585a8e983a820415049206b657920e5b7b2e590afe794a8'') [(''updated'', RInt updated), (''disabled'', RBool False)]))"

subsection \<open>Usage\<close>

definition api_summary :: "rpc_env \<Rightarrow> obj \<Rightarrow> answer_op" where
  "api_summary e pm =
     filter_of e pm (\<lambda>filt. read_gateway (gateway_SummarizeUsage filt) (\<lambda>summary.
       ok (okResult (from_hex ''e88eb7e58f962041504920e794a8e9878fe6a682e8a788e68890e58a9f'') [(''summary'', RMap (mapGatewaySummary summary))])))"

definition api_usage_list :: "rpc_env \<Rightarrow> obj \<Rightarrow> answer_op" where
  "api_usage_list e pm =
     filter_of e pm (\<lambda>filt.
       read_gateway (gateway_ListUsageLogs (re_FmtFloat e) (re_FloatRound e) filt) (\<lambda>(list, total).
       read_gateway (gateway_SummarizeUsage filt) (\<lambda>summary.
         ok (okResult (from_hex ''e88eb7e58f9620757361676520e8aeb0e5bd95e68890e58a9f'')
           [items_of mapGatewayUsageForRPC list, (''total'', RInt total), (''limit'', RInt (f_Limit filt)),
            (''offset'', RInt (f_Offset filt)), (''summary'', RMap (mapGatewaySummary summary))]))))"

definition api_usage_buckets :: "rpc_env \<Rightarrow> obj \<Rightarrow> answer_op" where
  "api_usage_buckets e pm =
     filter_of e pm (\<lambda>filt. let groupBy = TrimSpace (getString (re_Lib e) pm ''group_by'') in
       call_gateway (gateway_ListUsageBuckets (re_DBTZ e) filt groupBy) (\<lambda>buckets.
         ok (okResult (from_hex ''e88eb7e58f9620757361676520e8819ae59088e68890e58a9f'')
           [items_of mapGatewayUsageBucketForRPC buckets, (''group_by'', RStr groupBy)])))"

definition api_usage_key_summaries :: "rpc_env \<Rightarrow> obj \<Rightarrow> answer_op" where
  "api_usage_key_summaries e pm =
     filter_of e pm (\<lambda>filt. let limit = getInt pm ''limit'' 30 in
       call_gateway (gateway_ListUsageKeySummaries filt limit) (\<lambda>list.
         ok (okResult (from_hex ''e88eb7e58f96206b657920757361676520e8819ae59088e68890e58a9f'')
           [items_of mapGatewayUsageKeySummaryForRPC list, (''limit'', RInt limit)])))"

definition api_usage_session_summaries :: "rpc_env \<Rightarrow> obj \<Rightarrow> answer_op" where
  "api_usage_session_summaries e pm =
     filter_of e pm (\<lambda>filt. let limit = getInt pm ''limit'' 30; offset = getInt pm ''offset'' 0 in
       call_gateway (gateway_ListUsageSessionSummaries filt limit offset) (\<lambda>(list, total).
         ok (okResult (from_hex ''e88eb7e58f96e4bc9ae8af9d20757361676520e8819ae59088e68890e58a9f'')
           [items_of mapGatewayUsageSessionSummaryForRPC list, (''total'', RInt total), (''limit'', RInt limit),
            (''offset'', RInt offset)])))"

subsection \<open>Models, policies, prices\<close>

definition api_model_list :: "rpc_env \<Rightarrow> obj \<Rightarrow> answer_op" where
  "api_model_list e pm =
     (let limit = getInt pm ''limit'' 100; offset = getInt pm ''offset'' 0;
          enabledOnly = getBool pm ''enabled_only'' False; search = TrimSpace (getString (re_Lib e) pm ''search'')
      in read_gateway (gateway_ListModels limit offset enabledOnly search) (\<lambda>(list, total).
           ok (okResult (from_hex ''e88eb7e58f96e6a8a1e59e8be58897e8a1a8e68890e58a9f'')
             [items_of (mapGatewayModelForRPC (re_Env e)) list, (''total'', RInt total), (''limit'', RInt limit),
              (''offset'', RInt offset), (''search'', RStr search), (''enabled_only'', RBool enabledOnly)])))"

definition api_official_price_list :: answer_op where
  "api_official_price_list =
     ok (okResult (from_hex ''e88eb7e58f96e5ae98e696b9e6a8a1e59e8be4bbb7e6a0bce68890e58a9f'') [items_of mapGatewayPriceForRPC OfficialModelPrices])"

definition api_model_set_enabled :: "auth_context \<Rightarrow> obj \<Rightarrow> answer_op" where
  "api_model_set_enabled cx pm =
     (let modelID = getInt pm ''id'' 0; enabled = getBool pm ''enabled'' True
      in call_gateway (gateway_SetModelEnabled modelID enabled) (\<lambda>_.
           auditGateway cx ''api.model_set_enabled'' ''api_model'' (Itoa modelID) [(''enabled'', ABool enabled)]
             (okResult (from_hex ''e69bb4e696b0e6a8a1e59e8be78ab6e68081e68890e58a9f'') [(''id'', RInt modelID), (''enabled'', RBool enabled)])))"

definition context_policy_of :: "rpc_lib \<Rightarrow> obj \<Rightarrow> GatewayModelContextPolicy" where
  "context_policy_of lib pm =
     \<lparr>ContextWindowTokens = getContextQuantityInt64 lib pm ''context_window_tokens'' 0,
      ContextCompactTokens = getContextQuantityInt64 lib pm ''context_compact_tokens'' 0,
      ContextHardTokens = getContextQuantityInt64 lib pm ''context_hard_tokens'' 0,
      ContextCompactBytes = getContextQuantityInt64 lib pm ''context_compact_bytes'' 0,
      ContextHardBytes = getContextQuantityInt64 lib pm ''context_hard_bytes'' 0,
      ContextKeepItems = getContextPlainInt lib pm ''context_keep_items'' 0\<rparr>"

definition api_model_context_update :: "rpc_env \<Rightarrow> auth_context \<Rightarrow> obj \<Rightarrow> answer_op" where
  "api_model_context_update e cx pm =
     (let modelID = getInt pm ''id'' 0
      in call_gateway (gateway_UpdateModelContextPolicy modelID (context_policy_of (re_Lib e) pm)) (\<lambda>item.
           auditGateway cx ''api.model_context_update'' ''api_model'' (Itoa modelID) [(''model_id'', AStr (m_ModelID item))]
             (okResult (from_hex ''e69bb4e696b0e6a8a1e59e8be4b88ae4b88be69687e7ad96e795a5e68890e58a9f'') (mapGatewayModelForRPC (re_Env e) item))))"

definition api_policy_list :: "obj \<Rightarrow> answer_op" where
  "api_policy_list pm =
     call_gateway (repo_ListPolicies (getInt pm ''api_key_id'' 0)) (\<lambda>list.
       ok (okResult (from_hex ''e88eb7e58f96e7ad96e795a5e58897e8a1a8e68890e58a9f'') [items_of mapGatewayPolicyForRPC list]))"

definition api_policy_upsert :: "rpc_env \<Rightarrow> auth_context \<Rightarrow> obj \<Rightarrow> answer_op" where
  "api_policy_upsert e cx pm =
     call_gateway (gateway_UpsertPolicy
         \<lparr>po_ID = 0, po_APIKeyID = getInt pm ''api_key_id'' 0, po_ModelID = getString (re_Lib e) pm ''model_id'',
          RPM = getInt64 pm ''rpm'' 0, TPM = getInt64 pm ''tpm'' 0, DailyRequests = getInt64 pm ''daily_requests'' 0,
          MonthlyRequests = getInt64 pm ''monthly_requests'' 0, DailyTokens = getInt64 pm ''daily_tokens'' 0,
          MonthlyTokens = getInt64 pm ''monthly_tokens'' 0, po_CreatedAt = zero_time, po_UpdatedAt = zero_time\<rparr>) (\<lambda>item.
       auditGateway cx ''api.policy_upsert'' ''api_policy'' (Itoa (po_ID item))
         [(''api_key_id'', AInt (po_APIKeyID item)), (''model_id'', AStr (po_ModelID item))]
         (okResult (from_hex ''e4bf9de5ad98e7ad96e795a5e68890e58a9f'') (mapGatewayPolicyForRPC item)))"

definition api_policy_delete :: "auth_context \<Rightarrow> obj \<Rightarrow> answer_op" where
  "api_policy_delete cx pm =
     (let policyID = getInt pm ''policy_id'' 0
      in call_gateway (gateway_DeletePolicy policyID) (\<lambda>_.
           auditGateway cx ''api.policy_delete'' ''api_policy'' (Itoa policyID) []
             (okResult (from_hex ''e588a0e999a4e7ad96e795a5e68890e58a9f'') [(''policy_id'', RInt policyID)])))"

definition api_price_list :: answer_op where
  "api_price_list =
     call_gateway repo_ListModelPrices (\<lambda>list.
       ok (okResult (from_hex ''e88eb7e58f96e4bbb7e6a0bce58897e8a1a8e68890e58a9f'') [items_of mapGatewayPriceForRPC list]))"

definition api_price_upsert :: "rpc_env \<Rightarrow> auth_context \<Rightarrow> obj \<Rightarrow> answer_op" where
  "api_price_upsert e cx pm =
     call_gateway (gateway_UpsertModelPrice
         \<lparr>pr_ID = 0, pr_ModelID = getString (re_Lib e) pm ''model_id'',
          InputUSDPerMillion = getFloat (re_Lib e) pm ''input_usd_per_million'' 0,
          CachedInputUSDPerMillion = getFloat (re_Lib e) pm ''cached_input_usd_per_million'' 0,
          OutputUSDPerMillion = getFloat (re_Lib e) pm ''output_usd_per_million'' 0,
          pr_CreatedAt = zero_time, pr_UpdatedAt = zero_time\<rparr>) (\<lambda>item.
       auditGateway cx ''api.price_upsert'' ''api_model_price'' (pr_ModelID item) []
         (okResult (from_hex ''e4bf9de5ad98e6a8a1e59e8be4bbb7e6a0bce68890e58a9f'') (mapGatewayPriceForRPC item)))"

definition api_price_delete :: "auth_context \<Rightarrow> obj \<Rightarrow> answer_op" where
  "api_price_delete cx pm =
     (let priceID = getInt pm ''price_id'' 0
      in call_gateway (gateway_DeleteModelPrice priceID) (\<lambda>_.
           auditGateway cx ''api.price_delete'' ''api_model_price'' (Itoa priceID) []
             (okResult (from_hex ''e588a0e999a4e6a8a1e59e8be4bbb7e6a0bce68890e58a9f'') [(''price_id'', RInt priceID)])))"

subsection \<open>Alerts\<close>

definition api_alert_rule_list :: answer_op where
  "api_alert_rule_list =
     call_gateway repo_ListAlertRules (\<lambda>list.
       ok (okResult (from_hex ''e88eb7e58f96e5918ae8ada6e8a784e58899e68890e58a9f'') [items_of mapGatewayAlertRuleForRPC list]))"

definition api_alert_rule_upsert :: "rpc_env \<Rightarrow> auth_context \<Rightarrow> obj \<Rightarrow> answer_op" where
  "api_alert_rule_upsert e cx pm =
     call_gateway (gateway_UpsertAlertRule
         \<lparr>a_ID = getInt pm ''id'' 0, a_Name = getString (re_Lib e) pm ''name'',
          a_Metric = getString (re_Lib e) pm ''metric'', a_Operator = getString (re_Lib e) pm ''operator'',
          a_Threshold = getFloat (re_Lib e) pm ''threshold'' 0, a_WindowSeconds = getInt64 pm ''window_seconds'' 300,
          a_Enabled = getBool pm ''enabled'' True, a_CreatedAt = zero_time, a_UpdatedAt = zero_time\<rparr>) (\<lambda>item.
       auditGateway cx ''api.alert_rule_upsert'' ''api_alert_rule'' (Itoa (a_ID item)) [(''metric'', AStr (a_Metric item))]
         (okResult (from_hex ''e4bf9de5ad98e5918ae8ada6e8a784e58899e68890e58a9f'') (mapGatewayAlertRuleForRPC item)))"

definition api_alert_rule_set_enabled :: "auth_context \<Rightarrow> obj \<Rightarrow> answer_op" where
  "api_alert_rule_set_enabled cx pm =
     (let ruleID = getInt pm ''rule_id'' 0; enabled = getBool pm ''enabled'' True
      in call_gateway (gateway_SetAlertRuleEnabled ruleID enabled) (\<lambda>_.
           auditGateway cx ''api.alert_rule_set_enabled'' ''api_alert_rule'' (Itoa ruleID) [(''enabled'', ABool enabled)]
             (okResult (from_hex ''e69bb4e696b0e5918ae8ada6e8a784e58899e78ab6e68081e68890e58a9f'') [(''rule_id'', RInt ruleID), (''enabled'', RBool enabled)])))"

definition api_alert_rule_delete :: "auth_context \<Rightarrow> obj \<Rightarrow> answer_op" where
  "api_alert_rule_delete cx pm =
     (let ruleID = getInt pm ''rule_id'' 0
      in call_gateway (gateway_DeleteAlertRule ruleID) (\<lambda>_.
           auditGateway cx ''api.alert_rule_delete'' ''api_alert_rule'' (Itoa ruleID) []
             (okResult (from_hex ''e588a0e999a4e5918ae8ada6e8a784e58899e68890e58a9f'') [(''rule_id'', RInt ruleID)])))"

definition api_alert_event_list :: "rpc_env \<Rightarrow> obj \<Rightarrow> answer_op" where
  "api_alert_event_list e pm =
     (let status = TrimSpace (getString (re_Lib e) pm ''status''); limit = getInt pm ''limit'' 30;
          offset = getInt pm ''offset'' 0
      in call_gateway (gateway_ListAlertEvents status limit offset) (\<lambda>(list, total).
           ok (okResult (from_hex ''e88eb7e58f96e5918ae8ada6e4ba8be4bbb6e68890e58a9f'')
             [items_of mapGatewayAlertEventForRPC list, (''total'', RInt total), (''limit'', RInt limit),
              (''offset'', RInt offset)])))"

definition api_alert_event_ack :: "auth_context \<Rightarrow> obj \<Rightarrow> answer_op" where
  "api_alert_event_ack cx pm =
     (let eventID = getInt pm ''event_id'' 0;
          ackBy = (case cx_Claims cx of Some c \<Rightarrow> cl_UserID c | None \<Rightarrow> 0)
      in call_gateway (gateway_AckAlertEvent eventID ackBy) (\<lambda>_.
           auditGateway cx ''api.alert_event_ack'' ''api_alert_event'' (Itoa eventID) []
             (okResult (from_hex ''e7a1aee8aea4e5918ae8ada6e4ba8be4bbb6e68890e58a9f'') [(''event_id'', RInt eventID)])))"

subsection \<open>What users may call\<close>

definition unknown_api_user_method :: "string \<Rightarrow> JsonrpcResult" where
  "unknown_api_user_method method = errcode UnknownMethod_Code (from_hex ''e69caae79fa52041504920e794a8e688b7e68ea5e58fa3206d6574686f643d'' @ method)"

definition user_key_list :: "AuthClaims \<Rightarrow> obj \<Rightarrow> answer_op" where
  "user_key_list c pm =
     (let limit = getInt pm ''limit'' 30; offset = getInt pm ''offset'' 0
      in call_gateway (gateway_ListAPIKeysByOwner (cl_UserID c) limit offset) (\<lambda>(list, total).
           ok (okResult (from_hex ''e88eb7e58f96e68891e79a8420415049206b657920e68890e58a9f'')
             [items_of (\<lambda>k. mapGatewayAPIKeyForRPC k False) list, (''total'', RInt total), (''limit'', RInt limit),
              (''offset'', RInt offset)])))"

definition user_usage_summary :: "rpc_env \<Rightarrow> AuthClaims \<Rightarrow> obj \<Rightarrow> answer_op" where
  "user_usage_summary e c pm =
     filter_of e pm (\<lambda>filt.
       call_gateway (gateway_SummarizeUsage (filt\<lparr>f_OwnerUserID := cl_UserID c\<rparr>)) (\<lambda>summary.
         ok (okResult (from_hex ''e88eb7e58f96e68891e79a8420757361676520e6a682e8a788e68890e58a9f'') [(''summary'', RMap (mapGatewaySummary summary))])))"

definition user_usage_list :: "rpc_env \<Rightarrow> AuthClaims \<Rightarrow> obj \<Rightarrow> answer_op" where
  "user_usage_list e c pm =
     filter_of e pm (\<lambda>filt.
       call_gateway (gateway_ListUsageLogs (re_FmtFloat e) (re_FloatRound e) (filt\<lparr>f_OwnerUserID := cl_UserID c\<rparr>))
         (\<lambda>(list, total).
           ok (okResult (from_hex ''e88eb7e58f96e68891e79a8420757361676520e8aeb0e5bd95e68890e58a9f'')
             [items_of mapGatewayUsageForRPC list, (''total'', RInt total), (''limit'', RInt (f_Limit filt)),
              (''offset'', RInt (f_Offset filt))])))"

definition handleGatewayUser :: "rpc_env \<Rightarrow> auth_context \<Rightarrow> string \<Rightarrow> obj \<Rightarrow> answer_op" where
  "handleGatewayUser e cx method pm =
     (case requireLogin cx of
        Inl res \<Rightarrow> ok res
      | Inr c \<Rightarrow>
          if cl_Role c \<noteq> RoleUser then ok code_AuthRequired
          else if method = ''user_key_list'' then user_key_list c pm
          else if method = ''user_usage_summary'' then user_usage_summary e c pm
          else if method = ''user_usage_list'' then user_usage_list e c pm
          else ok (unknown_api_user_method method))"

subsection \<open>Dispatch\<close>

text \<open>The methods of administrators, by name.\<close>

definition api_methods :: "rpc_env \<Rightarrow> auth_context \<Rightarrow> obj \<Rightarrow> (string \<times> answer_op) list" where
  "api_methods e cx pm =
     [(''summary'', api_summary e pm),
      (''gateway_upstream_get'', api_upstream_get e), (''gateway_upstream_set'', api_upstream_set e cx pm),
      (''key_list'', api_key_list e pm), (''key_create'', api_key_create e cx pm),
      (''key_update'', api_key_update e cx pm), (''key_reset_secret'', api_key_reset_secret e cx pm),
      (''key_delete'', api_key_delete cx pm), (''key_delete_batch'', api_key_delete_batch cx pm),
      (''key_set_disabled'', api_key_set_disabled cx pm),
      (''key_disable_all'', api_key_disable_all cx), (''key_enable_all'', api_key_enable_all cx),
      (''usage_list'', api_usage_list e pm), (''usage_buckets'', api_usage_buckets e pm),
      (''usage_key_summaries'', api_usage_key_summaries e pm),
      (''usage_session_summaries'', api_usage_session_summaries e pm),
      (''model_list'', api_model_list e pm), (''official_model_price_list'', api_official_price_list),
      (''model_upsert'', ok (mapGatewayError ErrGatewayModelCatalogFixed)),
      (''model_set_enabled'', api_model_set_enabled cx pm),
      (''model_context_update'', api_model_context_update e cx pm),
      (''model_delete'', ok (mapGatewayError ErrGatewayModelCatalogFixed)),
      (''policy_list'', api_policy_list pm), (''policy_upsert'', api_policy_upsert e cx pm),
      (''policy_delete'', api_policy_delete cx pm),
      (''price_list'', api_price_list), (''price_upsert'', api_price_upsert e cx pm),
      (''price_delete'', api_price_delete cx pm),
      (''alert_rule_list'', api_alert_rule_list), (''alert_rule_upsert'', api_alert_rule_upsert e cx pm),
      (''alert_rule_set_enabled'', api_alert_rule_set_enabled cx pm),
      (''alert_rule_delete'', api_alert_rule_delete cx pm),
      (''alert_event_list'', api_alert_event_list e pm), (''alert_event_ack'', api_alert_event_ack cx pm)]"

definition handleGateway :: "rpc_env \<Rightarrow> auth_context \<Rightarrow> string \<Rightarrow> obj \<Rightarrow> answer_op" where
  "handleGateway e cx method pm =
     (if has_prefix method ''user_'' then handleGatewayUser e cx method pm
      else requireAdmin cx (\<lambda>_.
        case map_of (api_methods e cx pm) method of
          Some m \<Rightarrow> m
        | None \<Rightarrow> ok (errcode UnknownMethod_Code (from_hex ''e69caae79fa52041504920e8bdace58f91e68ea5e58fa3206d6574686f643d'' @ method))))"

text \<open>A call with its parameters; \<open>None\<close> stands for no parameters.\<close>

definition Handle :: "rpc_env \<Rightarrow> auth_context \<Rightarrow> string \<Rightarrow> string \<Rightarrow> obj option \<Rightarrow> answer_op" where
  "Handle e cx url method params =
     (let pm = (case params of None \<Rightarrow> [] | Some m \<Rightarrow> m)
      in case (if isPublic url method then Inr () else map_sum id (\<lambda>_. ()) (requireLogin cx)) of
           Inl res \<Rightarrow> ok res
         | Inr _ \<Rightarrow>
             if url = ''system'' then handleSystem method
             else if url = ''auth'' then handleAuth e cx method pm
             else if url = ''user'' then handleUser e cx method pm
             else if url = ''api'' then handleGateway e cx method pm
             else ok (errcode JSONRPCUnknownURL_Code (''unknown jsonrpc url='' @ url)))"


section \<open>What is logged of the parameters\<close>

definition isSensitiveJSONRPCParamKey :: "string \<Rightarrow> bool" where
  "isSensitiveJSONRPCParamKey key =
     (ToLower (TrimSpace key) \<in> set
        [''password'', ''token'', ''access_token'', ''refresh_token'', ''authorization'', ''api_key'', ''plain_key'',
         ''client_secret'', ''jwt_secret''])"

fun redactJSONRPCParams :: "json \<Rightarrow> json" where
  "redactJSONRPCParams (JObj m) =
     JObj (map (\<lambda>(key, item).
       (key, if isSensitiveJSONRPCParamKey key then JStr ''[REDACTED]'' else redactJSONRPCParams item)) m)"
| "redactJSONRPCParams (JArr vs) = JArr (map redactJSONRPCParams vs)"
| "redactJSONRPCParams v = v"

end
