(* ===== verification/SignInRules.thy ===== *)
theory SignInRules
  imports Console
begin

text \<open>
  Signing in to the console: who is given a token and whom the token speaks for, that an
  administrator's token is accepted where administrators are asked for, and what a sign-in with an
  identity of the OAuth provider writes.
\<close>

section \<open>Statements on the accounts\<close>

lemma on_users_run:
  "\<not> fault c (stmts c) \<Longrightarrow> body (user_tbl c) = (r, t) \<Longrightarrow>
     on_users body c = (r, c\<lparr>stmts := Suc (stmts c), user_tbl := t\<rparr>)"
  by (simp add: on_users_def db_stmt_def)

lemma on_admins_run:
  "\<not> fault c (stmts c) \<Longrightarrow> body (admin_tbl c) = (r, t) \<Longrightarrow>
     on_admins body c = (r, c\<lparr>stmts := Suc (stmts c), admin_tbl := t\<rparr>)"
  by (simp add: on_admins_def db_stmt_def)

lemma note_login_Inr: "\<exists>t. note_login m i c = (Inr (), t)"
  by (simp add: note_login_def bind_op_def time_now_def try_op_def case_prod_beta)

text \<open>What of an account the time of its last sign-in does not change.\<close>

definition lasting :: "account_row \<Rightarrow> account_row" where
  "lasting r = r\<lparr>ac_last_login_at := None, ac_updated_at := 0\<rparr>"

definition lasting_rows :: "account_row tbl \<Rightarrow> account_row list" where
  "lasting_rows t = map lasting (rows t)"

text \<open>Who may change something: an administrator there is, enabled, whom the token names as it is.\<close>

definition admin_caller :: "auth_context \<Rightarrow> console \<Rightarrow> bool" where
  "admin_caller cx c =
     (case cx_Claims cx of
        None \<Rightarrow> False
      | Some cl \<Rightarrow> cl_Role cl = RoleAdmin \<and>
          (\<exists>r \<in> set (rows (admin_tbl c)).
             ac_id r = cl_UserID cl \<and> ac_username r = cl_Username cl \<and> \<not> ac_disabled r))"

section \<open>Tokens\<close>

text \<open>The bytes of a JWT: three parts in base64url, joined with dots.\<close>

definition token_char :: "char \<Rightarrow> bool" where
  "token_char ch =
     (ch \<in> set ''ABCDEFGHIJKLMNOPQRSTUVWXYZabcdefghijklmnopqrstuvwxyz0123456789-_.'')"

lemma token_plain: "token_char ch \<Longrightarrow> plain_char ch"
proof -
  have "list_all plain_char ''ABCDEFGHIJKLMNOPQRSTUVWXYZabcdefghijklmnopqrstuvwxyz0123456789-_.''"
    by code_simp
  then show "token_char ch \<Longrightarrow> plain_char ch" unfolding token_char_def list_all_iff by (rule bspec)
qed

lemma TrimSpace_enclosed:
  assumes "s \<noteq> []" "plain_char (hd s)" "plain_char (last s)"
  shows "TrimSpace s = s"
proof -
  have "first_strip ws_runes s = None"
    unfolding first_strip_None
  proof (intro ballI allI notI)
    fix w r assume w: "w \<in> set ws_runes" and s: "s = w @ r"
    then have "w \<noteq> []" using ws_runes_nonempty by metis
    then have "hd w = hd s" using s by simp
    with assms(2) w show False by (auto simp: plain_char_def)
  qed
  moreover have "first_strip rev_ws_runes (rev s) = None"
    unfolding first_strip_None
  proof (intro ballI allI notI)
    fix v r assume v: "v \<in> set rev_ws_runes" and s: "rev s = v @ r"
    then obtain w where w: "w \<in> set ws_runes" "v = rev w" by (auto simp: rev_ws_runes_def)
    then have "w \<noteq> []" using ws_runes_nonempty by metis
    moreover have "s = rev r @ w" using s w by (simp add: rev_swap)
    ultimately have "last w = last s" by simp
    with assms(3) w show False by (auto simp: plain_char_def)
  qed
  ultimately show ?thesis
    by (simp add: TrimSpace_def TrimLeftSpace_def TrimRightSpace_def trim_front_id)
qed

lemma bearerToken_sent:
  assumes "tok \<noteq> ''''" "\<forall>ch \<in> set tok. token_char ch"
  shows "bearerToken (''Bearer '' @ tok) = tok"
proof -
  have "plain_char (CHR ''B'')" by (rule token_plain) (simp add: token_char_def)
  then have "TrimSpace (''Bearer '' @ tok) = ''Bearer '' @ tok"
    using assms token_plain by (intro TrimSpace_enclosed) auto
  moreover have "TrimSpace tok = tok" using assms token_plain by (intro TrimSpace_plain) blast
  moreover have "EqualFold ''Bearer '' ''Bearer ''" by (simp add: EqualFold_def)
  ultimately show ?thesis using assms(1) by (simp add: bearerToken_def Let_def)
qed

text \<open>
  A signature the library checks: within the lifetime of its claims a token is read back as they are.
  Tokens are not empty and consist of the bytes of a JWT.
\<close>

definition sound_tokens :: "sign_in \<Rightarrow> bool" where
  "sound_tokens e =
     (\<forall>cl tok. si_Sign e cl = Inr tok \<longrightarrow>
        tok \<noteq> '''' \<and> (\<forall>ch \<in> set tok. token_char ch) \<and>
        (\<forall>now. now < tc_ExpiresAt cl * second \<longrightarrow> si_Verify e now tok = Inr cl))"

lemma token_read_back:
  assumes "sound_tokens e" and "NewToken e i name role c = (Inr (tok, expireAt), c')"
    and "now < expireAt div second * second"
  shows "AuthClaimsMiddleware e True now (Some (''Bearer '' @ tok)) =
    \<lparr>cx_Claims = Some \<lparr>cl_UserID = i, cl_Username = name, cl_Role = role\<rparr>, cx_State = AuthOK\<rparr>"
proof -
  obtain cl where cl: "si_Sign e cl = Inr tok" "tc_UserID cl = i" "tc_Username cl = name" "tc_Role cl = role"
    "tc_ExpiresAt cl = expireAt div second"
    using assms(2) by (fastforce simp: NewToken_def time_now_def Let_def elim!: bind_op_InrE)
  then have tok: "tok \<noteq> ''''" "\<forall>ch \<in> set tok. token_char ch" "si_Verify e now tok = Inr cl"
    using assms(1,3) unfolding sound_tokens_def by metis+
  show ?thesis using bearerToken_sent [OF tok(1,2)] tok(1,3) cl by (simp add: AuthClaimsMiddleware_def)
qed

section \<open>Who is signed in\<close>

lemma user_found:
  assumes "auth_GetUserByUsername name c = (Inr u, c')"
  shows "\<exists>r \<in> set (rows (user_tbl c)). ac_username r = name \<and> u = entUserToBizUser r"
  using assms
  by (auto simp: auth_GetUserByUsername_def on_users_def db_stmt_def only_row_def Let_def filter_eq_Cons_iff
      elim!: bind_op_InrE split: if_splits list.splits prod.splits)

lemma Login_Inr:
  assumes "Login e name password c = (Inr (tok, expireAt, u), c')"
  obtains d d' where "auth_GetUserByUsername name c = (Inr u, d)" "\<not> us_Disabled u"
    "si_Matches e (us_PasswordHash u) password"
    "NewToken e (us_ID u) (us_Username u) (us_Role u) d = (Inr (tok, expireAt), d')"
  using assms
  by (auto simp: Login_def try_op_def elim!: bind_op_InrE split: if_splits sum.splits prod.splits)

text \<open>
  C12. A session is the user's who signed in. If a sign-in with a name and a password succeeds, then
  there is a row with this name, not disabled, whose hash matches the password; and until the
  expiry that was returned, a request which carries the token is one of exactly this user, never
  an administrator's.
\<close>

theorem session_speaks_for_its_user:
  assumes "sound_tokens e"
    and "Login e name password c = (Inr (tok, expireAt, u), c')"
    and "now < expireAt div second * second"
  shows "(\<exists>r \<in> set (rows (user_tbl c)). ac_username r = name \<and> ac_id r = us_ID u \<and> \<not> ac_disabled r \<and>
            si_Matches e (ac_password_hash r) password) \<and>
         requireLogin (AuthClaimsMiddleware e True now (Some (''Bearer '' @ tok))) =
           Inr \<lparr>cl_UserID = us_ID u, cl_Username = name, cl_Role = RoleUser\<rparr>"
proof -
  obtain d d' where run: "auth_GetUserByUsername name c = (Inr u, d)" "\<not> us_Disabled u"
    "si_Matches e (us_PasswordHash u) password"
    "NewToken e (us_ID u) (us_Username u) (us_Role u) d = (Inr (tok, expireAt), d')"
    using Login_Inr [OF assms(2)] by metis
  obtain r where r: "r \<in> set (rows (user_tbl c))" "ac_username r = name" "u = entUserToBizUser r"
    using user_found [OF run(1)] by metis
  then show ?thesis using run token_read_back [OF assms(1) run(4) assms(3)]
    by (auto simp: entUserToBizUser_def requireLogin_def)
qed

section \<open>Administrators\<close>

text \<open>Ids and names of a table of accounts name one row each; ids are positive.\<close>

definition accounts_ok :: "account_row tbl \<Rightarrow> bool" where
  "accounts_ok t =
     (distinct (map ac_id (rows t)) \<and> distinct (map ac_username (rows t)) \<and> (\<forall>r \<in> set (rows t). 0 < ac_id r))"

lemma admin_by_id:
  assumes "admin_GetAdminByID i c = (Inr admin, c')"
  shows "\<exists>r \<in> set (rows (admin_tbl c)). ac_id r = i \<and> admin = short_admin r"
  using assms
  by (auto simp: admin_GetAdminByID_def on_admins_def db_stmt_def first_row_def Let_def filter_eq_Cons_iff
      elim!: bind_op_InrE split: if_splits list.splits prod.splits)

lemma admin_by_name:
  assumes "admin_GetAdminByUsername name c = (Inr admin, c')"
  shows "\<exists>r \<in> set (rows (admin_tbl c)). ac_username r = name \<and> admin = short_admin r"
  using assms
  by (auto simp: admin_GetAdminByUsername_def on_admins_def db_stmt_def first_row_def Let_def filter_eq_Cons_iff
      elim!: bind_op_InrE split: if_splits list.splits prod.splits)

lemma admin_by_identity:
  assumes "admin_GetAdminByOAuthIdentity provider subject c = (Inr admin, c')"
  shows "\<exists>r \<in> set (rows (admin_tbl c)). has_identity provider subject r \<and> admin = adminRowToBiz r"
  using assms
  by (auto simp: admin_GetAdminByOAuthIdentity_def on_admins_def db_stmt_def first_row_def Let_def
      filter_eq_Cons_iff elim!: bind_op_InrE split: if_splits list.splits prod.splits)

text \<open>What the sign-in of an administrator leaves of each row: id, name and whether it is disabled.\<close>

definition admin_face :: "account_row \<Rightarrow> int \<times> string \<times> bool" where
  "admin_face r = (ac_id r, ac_username r, ac_disabled r)"

definition faces :: "console \<Rightarrow> (int \<times> string \<times> bool) list" where
  "faces c = map admin_face (rows (admin_tbl c))"

lemma faces_admins:
  assumes "\<And>t. map admin_face (rows (snd (body t))) = map admin_face (rows t)"
  shows "keeps (\<lambda>c. faces c = F) (on_admins body)"
  unfolding on_admins_def
  by (rule keeps_db_stmt) (simp_all add: keeps_def case_prod_beta faces_def assms)

lemma faces_map:
  assumes "\<And>r. admin_face (f r) = admin_face r"
  shows "map admin_face (map (\<lambda>q. if P q then f q else q) qs) = map admin_face qs"
  by (simp add: assms)

lemma faces_sign_in:
  "keeps (\<lambda>c. faces c = F) (admin_GetAdminByOAuthIdentity provider subject)"
  "keeps (\<lambda>c. faces c = F) (admin_GetAdminByUsername name)" "keeps (\<lambda>c. faces c = F) time_now"
  "keeps (\<lambda>c. faces c = F) (admin_BindAdminOAuthIdentity i identity)"
  "keeps (\<lambda>c. faces c = F) (NewToken e j name role)" "keeps (\<lambda>c. faces c = F) (note_login admin_UpdateAdminLastLogin j)"
proof -
  show now: "keeps (\<lambda>c. faces c = F) time_now" by (simp add: keeps_def time_now_def)
  have first: "keeps (\<lambda>c. faces c = F) (on_admins (first_row P))" for P
    by (rule faces_admins) (simp add: first_row_def split: list.splits)
  show "keeps (\<lambda>c. faces c = F) (admin_GetAdminByOAuthIdentity provider subject)"
    "keeps (\<lambda>c. faces c = F) (admin_GetAdminByUsername name)"
    unfolding admin_GetAdminByOAuthIdentity_def admin_GetAdminByUsername_def by (intro op_keeps first)+
  have bind: "keeps (\<lambda>c. faces c = F) (on_admins (bind_identity i identity t))" for t
  proof (rule faces_admins)
    fix tb
    show "map admin_face (rows (snd (bind_identity i identity t tb))) = map admin_face (rows tb)"
      using faces_map [of "\<lambda>r. r\<lparr>ac_oauth_provider := Some (oi_Provider identity),
          ac_oauth_subject := Some (oi_Subject identity), ac_oauth_email := nullString (oi_Email identity),
          ac_oauth_display_name := nullString (oi_Name identity), ac_updated_at := t\<rparr>" "\<lambda>q. ac_id q = i" "rows tb"]
      by (simp add: bind_identity_def Let_def admin_face_def split: option.split)
  qed
  show "keeps (\<lambda>c. faces c = F) (admin_BindAdminOAuthIdentity i identity)"
    unfolding admin_BindAdminOAuthIdentity_def by (intro op_keeps now bind)
  show "keeps (\<lambda>c. faces c = F) (NewToken e j name role)"
    unfolding NewToken_def Let_def by (intro op_keeps now)
  have last: "keeps (\<lambda>c. faces c = F) (on_admins (update_rows (\<lambda>r. ac_id r = j)
      (\<lambda>r. r\<lparr>ac_last_login_at := Some t, ac_updated_at := u\<rparr>)))" for t u
  proof (rule faces_admins)
    fix tb
    show "map admin_face (rows (snd (update_rows (\<lambda>r. ac_id r = j)
        (\<lambda>r. r\<lparr>ac_last_login_at := Some t, ac_updated_at := u\<rparr>) tb))) = map admin_face (rows tb)"
      using faces_map [of "\<lambda>r. r\<lparr>ac_last_login_at := Some t, ac_updated_at := u\<rparr>" "\<lambda>q. ac_id q = j" "rows tb"]
      by (simp add: update_rows_def admin_face_def)
  qed
  show "keeps (\<lambda>c. faces c = F) (note_login admin_UpdateAdminLastLogin j)"
    unfolding note_login_def admin_UpdateAdminLastLogin_def by (intro op_keeps now last)
qed

text \<open>A session for an administrator of the table.\<close>

definition entitled :: "console \<Rightarrow> AdminUser \<Rightarrow> bool" where
  "entitled c admin = ((ad_ID admin, ad_Username admin, False) \<in> set (faces c))"

lemma admin_session_post:
  assumes "admin_session e admin c = (Inr (tok, expireAt, admin'), c')"
  shows "admin' = admin \<and> faces c' = faces c \<and>
    (\<exists>d. NewToken e (ad_ID admin) (ad_Username admin) RoleAdmin c = (Inr (tok, expireAt), d))"
proof -
  have "keeps (\<lambda>d. faces d = faces c) (admin_session e admin)"
    unfolding admin_session_def by (intro op_keeps faces_sign_in)
  then have "faces c' = faces c" using assms by (simp add: keeps_def) (metis snd_conv)
  moreover have "admin' = admin \<and> (\<exists>d. NewToken e (ad_ID admin) (ad_Username admin) RoleAdmin c = (Inr (tok, expireAt), d))"
    using assms by (auto simp: admin_session_def elim!: bind_op_InrE)
  ultimately show ?thesis by blast
qed

lemma admin_caller_faces:
  "cx_Claims cx = Some cl \<Longrightarrow> cl_Role cl = RoleAdmin \<Longrightarrow>
     admin_caller cx c \<longleftrightarrow> (cl_UserID cl, cl_Username cl, False) \<in> set (faces c)"
  unfolding admin_caller_def faces_def admin_face_def set_map image_iff by (auto intro: sym)

lemma entitled_caller:
  assumes "sound_tokens e" and "entitled c admin"
    and "admin_session e admin c = (Inr (tok, expireAt, admin'), c')"
    and "now < expireAt div second * second"
  shows "admin_caller (AuthClaimsMiddleware e True now (Some (''Bearer '' @ tok))) c'"
proof -
  obtain d where "faces c' = faces c" and
    tok: "NewToken e (ad_ID admin) (ad_Username admin) RoleAdmin c = (Inr (tok, expireAt), d)"
    using admin_session_post [OF assms(3)] by blast
  then show ?thesis using assms(2) token_read_back [OF assms(1) tok assms(4)]
    by (simp add: admin_caller_faces entitled_def)
qed

lemma faces_of_rows:
  "admin_GetAdminByUsername name c = (Inr admin, d) \<Longrightarrow>
     ad_Username admin = name \<and> (ad_ID admin, ad_Username admin, ad_Disabled admin) \<in> set (faces c)"
  "admin_GetAdminByOAuthIdentity provider subject c = (Inr admin, d) \<Longrightarrow>
     (ad_ID admin, ad_Username admin, ad_Disabled admin) \<in> set (faces c)"
  using admin_by_name [of name c admin d] admin_by_identity [of provider subject c admin d]
  by (auto simp: faces_def admin_face_def short_admin_def adminRowToBiz_def)

lemma found_admin:
  assumes "find_oauth_admin identity c = (Inr admin, d)"
  shows "faces d = faces c \<and> (ad_ID admin, ad_Username admin, ad_Disabled admin) \<in> set (faces c)"
proof -
  have "keeps (\<lambda>d. faces d = F) (find_oauth_admin identity)" for F
    unfolding find_oauth_admin_def by (intro op_keeps faces_sign_in)
  then have same: "faces d = faces c" using assms by (simp add: keeps_def) (metis snd_conv)
  obtain r c1 where first: "admin_GetAdminByOAuthIdentity (oi_Provider identity) (oi_Subject identity) c = (r, c1)"
    by fastforce
  then have c1: "faces c1 = faces c"
    using faces_sign_in(1) [of "faces c"] by (simp add: keeps_def) (metis snd_conv)
  have "(ad_ID admin, ad_Username admin, ad_Disabled admin) \<in> set (faces c)"
  proof (cases r)
    case (Inr a)
    then show ?thesis using first faces_of_rows(2) assms by (auto simp: find_oauth_admin_def try_op_def)
  next
    case (Inl err)
    then obtain a c2 where "admin_GetAdminByUsername (oi_Email identity) c1 = (Inr a, c2)" "admin = a"
      using first assms
      by (auto simp: find_oauth_admin_def try_op_def elim!: bind_op_InrE split: if_splits prod.splits sum.splits)
    then show ?thesis using faces_of_rows(1) c1 by metis
  qed
  then show ?thesis using same by blast
qed

text \<open>Whoever signs in as an administrator, by name or by identity.\<close>

definition signs_in :: "sign_in \<Rightarrow> (console, string \<times> int \<times> AdminUser) op \<Rightarrow> bool" where
  "signs_in e m = ((\<exists>name password. m = admin_Login e name password) \<or> (\<exists>identity. m = LoginWithOAuth e identity))"

lemma signed_in_admin:
  assumes "signs_in e m" and "m c = (Inr (tok, expireAt, admin), c')"
  shows "\<exists>d. faces d = faces c \<and> entitled d admin \<and> admin_session e admin d = (Inr (tok, expireAt, admin), c')"
  using assms(1) unfolding signs_in_def
proof (elim disjE exE)
  fix name password
  assume m: "m = admin_Login e name password"
  obtain r d where g: "admin_GetAdminByUsername name c = (r, d)" by fastforce
  then have "faces d = faces c"
    using faces_sign_in(2) [of "faces c" name] by (simp add: keeps_def) (metis snd_conv)
  moreover obtain a where a: "r = Inr a" "\<not> ad_Disabled a" "admin_session e a d = (Inr (tok, expireAt, admin), c')"
    using assms(2) g by (auto simp: m admin_Login_def try_op_def split: if_splits sum.splits)
  moreover have "admin = a" using admin_session_post [OF a(3)] by simp
  moreover have "(ad_ID a, ad_Username a, ad_Disabled a) \<in> set (faces c)"
    using faces_of_rows(1) g a(1) by metis
  ultimately show ?thesis unfolding entitled_def by metis
next
  fix identity
  assume m: "m = LoginWithOAuth e identity"
  obtain a d where g: "find_oauth_admin identity c = (Inr a, d)" and
    s: "\<not> ad_Disabled a" "admin_session e a d = (Inr (tok, expireAt, admin), c')"
    using assms(2) by (auto simp: m LoginWithOAuth_def elim!: bind_op_InrE split: if_splits)
  moreover have "admin = a" using admin_session_post [OF s(2)] by simp
  ultimately show ?thesis using found_admin [OF g] by (auto simp: entitled_def)
qed

lemma ball_map_ids: "(\<forall>r \<in> set rs. 0 < ac_id r) \<longleftrightarrow> list_all (\<lambda>i. 0 < i) (map ac_id rs)"
  by (simp add: list_all_iff)

lemma faces_accounts: "faces c = faces d \<Longrightarrow> accounts_ok (admin_tbl c) = accounts_ok (admin_tbl d)"
proof -
  assume "faces c = faces d"
  then have "map (fst \<circ> admin_face) (rows (admin_tbl c)) = map (fst \<circ> admin_face) (rows (admin_tbl d))"
    "map (fst \<circ> (snd \<circ> admin_face)) (rows (admin_tbl c)) = map (fst \<circ> (snd \<circ> admin_face)) (rows (admin_tbl d))"
    unfolding faces_def by (metis map_map)+
  moreover have "fst \<circ> admin_face = ac_id" "fst \<circ> (snd \<circ> admin_face) = ac_username"
    by (auto simp: admin_face_def)
  ultimately show ?thesis unfolding accounts_ok_def by (metis (no_types, lifting) ball_map_ids)
qed

lemma filter_the_one: "distinct (map f xs) \<Longrightarrow> x \<in> set xs \<Longrightarrow> filter (\<lambda>q. f q = f x) xs = [x]"
  by (induction xs) (auto simp: filter_empty_conv intro: image_eqI [OF sym])

lemma find_in_distinct: "distinct (map f xs) \<Longrightarrow> x \<in> set xs \<Longrightarrow> find (\<lambda>q. f q = f x) xs = Some x"
  by (induction xs) (auto dest: sym)

lemma requireAdmin_accepts:
  assumes "cx_Claims cx = Some cl" "cl_Role cl = RoleAdmin" "admin_caller cx c" "accounts_ok (admin_tbl c)"
    and "\<not> fault c (stmts c)"
  shows "requireAdmin cx f c = f cl (c\<lparr>stmts := Suc (stmts c)\<rparr>)"
proof -
  obtain r where r: "r \<in> set (rows (admin_tbl c))" "ac_id r = cl_UserID cl" "ac_username r = cl_Username cl"
    "\<not> ac_disabled r"
    using assms(1-3) by (auto simp: admin_caller_def)
  then have "filter (\<lambda>q. ac_id q = cl_UserID cl) (rows (admin_tbl c)) = [r]"
    using assms(4) filter_the_one [of ac_id "rows (admin_tbl c)" r] by (simp add: accounts_ok_def)
  then have "on_admins (first_row (\<lambda>q. ac_id q = cl_UserID cl)) c = (Inr r, c\<lparr>stmts := Suc (stmts c)\<rparr>)"
    using on_admins_run [OF assms(5), of "first_row (\<lambda>q. ac_id q = cl_UserID cl)" "Inr r" "admin_tbl c"]
    by (simp add: first_row_def)
  moreover have "0 < cl_UserID cl" using r assms(4) unfolding accounts_ok_def by metis
  ultimately show ?thesis using assms(1,2) r
    by (simp add: requireAdmin_def requireLogin_def or_answer_def try_op_def getCurrentAdmin_def
        admin_GetAdminByID_def bind_op_def short_admin_def)
qed

text \<open>
  C13. An administrator who signs in gets in. After a successful sign-in, by name and password or by
  an identity of the OAuth provider, every call that asks for an administrator and carries the token
  before its expiry is let through with exactly this administrator's claims, as long as the database
  answers.
\<close>

theorem signed_in_admin_gets_in:
  assumes "sound_tokens e" and "accounts_ok (admin_tbl c)"
    and "signs_in e m" and "m c = (Inr (tok, expireAt, admin), c')"
    and "now < expireAt div second * second" and "\<not> fault c' (stmts c')"
  shows "requireAdmin (AuthClaimsMiddleware e True now (Some (''Bearer '' @ tok))) f c' =
    f \<lparr>cl_UserID = ad_ID admin, cl_Username = ad_Username admin, cl_Role = RoleAdmin\<rparr> (c'\<lparr>stmts := Suc (stmts c')\<rparr>)"
proof -
  let ?cx = "AuthClaimsMiddleware e True now (Some (''Bearer '' @ tok))"
  let ?cl = "\<lparr>cl_UserID = ad_ID admin, cl_Username = ad_Username admin, cl_Role = RoleAdmin\<rparr>"
  obtain d where d: "faces d = faces c" "entitled d admin" "admin_session e admin d = (Inr (tok, expireAt, admin), c')"
    using signed_in_admin [OF assms(3,4)] by blast
  obtain d' where tok: "NewToken e (ad_ID admin) (ad_Username admin) RoleAdmin d = (Inr (tok, expireAt), d')"
    and same: "faces c' = faces d" using admin_session_post [OF d(3)] by blast
  have "cx_Claims ?cx = Some ?cl" unfolding token_read_back [OF assms(1) tok assms(5)] by simp
  moreover have "accounts_ok (admin_tbl c')" using assms(2) same d(1) faces_accounts by metis
  ultimately show ?thesis
    using requireAdmin_accepts [OF _ _ entitled_caller [OF assms(1) d(2,3) assms(5)] _ assms(6)] by simp
qed

section \<open>Signing in with a name and a password\<close>

definition login_claims :: "sign_in \<Rightarrow> account_row \<Rightarrow> int \<Rightarrow> token_claims" where
  "login_claims e r now =
     \<lparr>tc_UserID = ac_id r, tc_Username = ac_username r, tc_Role = RoleUser, tc_Subject = ''access_token'',
      tc_ExpiresAt = (now + token_lifetime e) div second, tc_IssuedAt = now div second\<rparr>"

text \<open>What a sign-in says, in terms of the rows.\<close>

definition login_answer :: "sign_in \<Rightarrow> string \<Rightarrow> string \<Rightarrow> account_row list \<Rightarrow> int \<Rightarrow> (string \<times> int \<times> User) result" where
  "login_answer e name password rs now =
     (if name = '''' \<or> password = '''' then Inl missing_credentials
      else case find (\<lambda>r. ac_username r = name) rs of
        None \<Rightarrow> Inl ErrUserNotFound
      | Some r \<Rightarrow>
          if ac_disabled r then Inl ErrUserDisabled
          else if \<not> si_Matches e (ac_password_hash r) password then Inl ErrInvalidPassword
          else (case si_Sign e (login_claims e r now) of
                  Inl err \<Rightarrow> Inl err
                | Inr tok \<Rightarrow> Inr (tok, now + token_lifetime e, entUserToBizUser r)))"

lemma bind_note_login:
  "fst (bind_op (note_login m i) (\<lambda>_. ok x) c) = Inr x"
  using note_login_Inr [of m i c] by (auto simp: bind_op_def)

lemma biz_user_fields:
  "us_ID (entUserToBizUser r) = ac_id r" "us_Username (entUserToBizUser r) = ac_username r"
  "us_Role (entUserToBizUser r) = RoleUser" "us_Disabled (entUserToBizUser r) = ac_disabled r"
  "us_PasswordHash (entUserToBizUser r) = ac_password_hash r"
  by (simp_all add: entUserToBizUser_def)

lemma find_the_one:
  assumes "distinct (map ac_username rs)"
  shows "filter (\<lambda>r. ac_username r = name) rs =
    (case find (\<lambda>r. ac_username r = name) rs of None \<Rightarrow> [] | Some r \<Rightarrow> [r])"
proof (cases "find (\<lambda>r. ac_username r = name) rs")
  case None
  then have "filter (\<lambda>r. ac_username r = name) rs = []" by (simp add: find_None_iff filter_empty_conv)
  then show ?thesis using None by simp
next
  case (Some r)
  then have "r \<in> set rs" "ac_username r = name" by (auto simp: find_Some_iff)
  then show ?thesis using filter_the_one [of ac_username rs r] assms Some by simp
qed

text \<open>
  C11. Signing in with a name and a password, exactly, when the database answers: which of the four
  refusals comes, in which order the checks are made, and what a session contains.
\<close>

theorem login_exact:
  assumes "\<not> fault c (stmts c)" and "accounts_ok (user_tbl c)"
  shows "fst (Login e name password c) =
    login_answer e name password (rows (user_tbl c)) (clock c (Suc (stmts c)))"
proof (cases "name = '''' \<or> password = ''''")
  case True
  then show ?thesis by (auto simp: Login_def login_answer_def)
next
  case False
  let ?c = "c\<lparr>stmts := Suc (stmts c)\<rparr>"
  have get: "auth_GetUserByUsername name c =
      (case find (\<lambda>r. ac_username r = name) (rows (user_tbl c)) of
         None \<Rightarrow> (Inl DBNotFound, ?c) | Some r \<Rightarrow> (Inr (entUserToBizUser r), ?c))"
    using on_users_run [OF assms(1), of "only_row (\<lambda>r. ac_username r = name)"] assms(2) False
      find_the_one [of "rows (user_tbl c)" name]
    by (simp add: auth_GetUserByUsername_def only_row_def accounts_ok_def bind_op_def split: option.split)
  have session: "fst (bind_op (NewToken e (ac_id r) (ac_username r) RoleUser)
      (\<lambda>(token, expireAt). bind_op (note_login auth_UpdateUserLastLogin i) (\<lambda>_. ok (token, expireAt, u))) ?c) =
    (case si_Sign e (login_claims e r (clock c (Suc (stmts c)))) of
       Inl err \<Rightarrow> Inl err | Inr tok \<Rightarrow> Inr (tok, clock c (Suc (stmts c)) + token_lifetime e, u))" for r i and u :: User
    by (cases "si_Sign e (login_claims e r (clock c (Suc (stmts c))))")
      (simp_all add: NewToken_def bind_time_now db_now_def Let_def login_claims_def bind_note_login
        bind_op_def [of "bind_op a b" for a b])
  show ?thesis
    using False get session
    by (simp add: Login_def login_answer_def try_op_def biz_user_fields split: option.split)
qed

section \<open>Signing in with an identity\<close>

definition bound_to :: "OAuthIdentity \<Rightarrow> account_row \<Rightarrow> account_row" where
  "bound_to identity r =
     r\<lparr>ac_oauth_provider := Some (oi_Provider identity), ac_oauth_subject := Some (oi_Subject identity),
       ac_oauth_email := nullString (oi_Email identity), ac_oauth_display_name := nullString (oi_Name identity)\<rparr>"

lemma lasting_session: "keeps (\<lambda>c. lasting_rows (admin_tbl c) = L) (admin_session e admin)"
proof -
  have "keeps (\<lambda>c. lasting_rows (admin_tbl c) = L) (on_admins (update_rows (\<lambda>r. ac_id r = j)
      (\<lambda>r. r\<lparr>ac_last_login_at := Some t, ac_updated_at := u\<rparr>)))" for j t u
    unfolding on_admins_def
    by (rule keeps_db_stmt) (auto simp: keeps_def update_rows_def lasting_rows_def lasting_def)
  moreover have "keeps (\<lambda>c. lasting_rows (admin_tbl c) = L) time_now" by (simp add: keeps_def time_now_def)
  ultimately show ?thesis
    unfolding admin_session_def note_login_def admin_UpdateAdminLastLogin_def NewToken_def Let_def by (intro op_keeps)
qed

lemma find_unbound:
  assumes "\<And>n. \<not> fault c n" and "accounts_ok (admin_tbl c)"
    and "oi_Provider identity \<noteq> ''''" "oi_Subject identity \<noteq> ''''" "oi_Email identity \<noteq> ''''"
    and "\<forall>q \<in> set (rows (admin_tbl c)). \<not> has_identity (oi_Provider identity) (oi_Subject identity) q"
    and "r \<in> set (rows (admin_tbl c))" "ac_username r = oi_Email identity"
  obtains c' where "find_oauth_admin identity c = (Inr (short_admin r), c')"
    "lasting_rows (admin_tbl c') = map (\<lambda>q. lasting (if ac_id q = ac_id r then bound_to identity q else q)) (rows (admin_tbl c))"
proof -
  let ?t = "admin_tbl c" and ?c1 = "c\<lparr>stmts := Suc (stmts c)\<rparr>" and ?c2 = "c\<lparr>stmts := Suc (Suc (stmts c))\<rparr>"
  have one: "admin_GetAdminByOAuthIdentity (oi_Provider identity) (oi_Subject identity) c = (Inl DBNotFound, ?c1)"
    using on_admins_run [OF assms(1), of "first_row (has_identity (oi_Provider identity) (oi_Subject identity))"
        "Inl DBNotFound" ?t] assms(3,4,6)
    by (simp add: admin_GetAdminByOAuthIdentity_def first_row_def filter_False bind_op_def)
  have "filter (\<lambda>q. ac_username q = oi_Email identity) (rows ?t) = [r]"
    using filter_the_one [of ac_username "rows ?t" r] assms(2,7,8) by (simp add: accounts_ok_def)
  then have two: "admin_GetAdminByUsername (oi_Email identity) ?c1 = (Inr (short_admin r), ?c2)"
    using on_admins_run [of ?c1 "first_row (\<lambda>q. ac_username q = oi_Email identity)" "Inr r" ?t] assms(1,5)
    by (simp add: admin_GetAdminByUsername_def first_row_def bind_op_def)
  let ?now = "db_now ?c2"
  let ?rs = "map (\<lambda>q. if ac_id q = ac_id r then (bound_to identity q)\<lparr>ac_updated_at := ?now\<rparr> else q) (rows ?t)"
  have "find_row ac_id (ac_id r) ?t = Some r"
    using assms(2,7) find_in_distinct [of ac_id "rows ?t" r] by (simp add: accounts_ok_def find_row_def)
  moreover have "\<not> (\<exists>q \<in> set (rows ?t). identity_clash q ((bound_to identity r)\<lparr>ac_updated_at := ?now\<rparr>))"
    using assms(6) by (auto simp: identity_clash_def bound_to_def has_identity_def)
  ultimately have "bind_identity (ac_id r) identity ?now ?t = (Inr (), ?t\<lparr>rows := ?rs\<rparr>)"
    by (simp add: bind_identity_def Let_def bound_to_def)
  moreover have "0 < ac_id r" using assms(2,7) by (simp add: accounts_ok_def)
  ultimately have three: "admin_BindAdminOAuthIdentity (ac_id r) identity ?c2 =
      (Inr (), ?c2\<lparr>stmts := Suc (stmts ?c2), admin_tbl := ?t\<lparr>rows := ?rs\<rparr>\<rparr>)"
    using on_admins_run [of ?c2 "bind_identity (ac_id r) identity ?now"] assms(1,3,4)
    by (simp add: admin_BindAdminOAuthIdentity_def)
  have "find_oauth_admin identity c =
      (Inr (short_admin r), ?c2\<lparr>stmts := Suc (stmts ?c2), admin_tbl := ?t\<lparr>rows := ?rs\<rparr>\<rparr>)"
    using one two three assms(5) by (simp add: find_oauth_admin_def try_op_def short_admin_def bind_op_def)
  moreover have "map lasting ?rs = map (\<lambda>q. lasting (if ac_id q = ac_id r then bound_to identity q else q)) (rows ?t)"
    by (simp add: lasting_def)
  ultimately show ?thesis using that by (simp add: lasting_rows_def)
qed

text \<open>
  C14. A sign-in with an identity that nobody has, and with the name of an administrator as its
  e-mail, binds the identity to this administrator. The identity bound before is replaced, and the
  row is written also when the administrator is disabled and the sign-in is refused.
\<close>

theorem oauth_email_rebinds:
  assumes "\<And>n. \<not> fault c n" and "accounts_ok (admin_tbl c)"
    and "oi_Provider identity \<noteq> ''''" "oi_Subject identity \<noteq> ''''" "oi_Email identity \<noteq> ''''"
    and "\<forall>q \<in> set (rows (admin_tbl c)). \<not> has_identity (oi_Provider identity) (oi_Subject identity) q"
    and "r \<in> set (rows (admin_tbl c))" "ac_username r = oi_Email identity"
    and "LoginWithOAuth e identity c = (res, c')"
  shows "map lasting (rows (admin_tbl c')) =
           map (\<lambda>q. lasting (if ac_id q = ac_id r then bound_to identity q else q)) (rows (admin_tbl c)) \<and>
         (ac_disabled r \<longrightarrow> res = Inl ErrUserDisabled)"
proof -
  obtain d where find: "find_oauth_admin identity c = (Inr (short_admin r), d)" and
    rows: "lasting_rows (admin_tbl d) =
      map (\<lambda>q. lasting (if ac_id q = ac_id r then bound_to identity q else q)) (rows (admin_tbl c))"
    by (rule find_unbound [OF assms(1-8)])
  have run: "LoginWithOAuth e identity c =
      (if ac_disabled r then (Inl ErrUserDisabled, d) else admin_session e (short_admin r) d)"
    using find assms(3,4) by (simp add: LoginWithOAuth_def bind_op_def short_admin_def)
  have "lasting_rows (admin_tbl c') = lasting_rows (admin_tbl d)"
  proof (cases "ac_disabled r")
    case True
    then show ?thesis using run assms(9) by simp
  next
    case False
    then have "admin_session e (short_admin r) d = (res, c')" using run assms(9) by simp
    from keepsD [OF lasting_session [where L = "lasting_rows (admin_tbl d)"] refl this] show ?thesis .
  qed
  moreover have "ac_disabled r \<longrightarrow> res = Inl ErrUserDisabled" using run assms(9) by auto
  ultimately show ?thesis using rows by (simp add: lasting_rows_def)
qed

section \<open>A console with one user and one administrator\<close>

definition sample_account :: "int \<Rightarrow> string \<Rightarrow> bool \<Rightarrow> account_row" where
  "sample_account i name disabled =
     \<lparr>ac_id = i, ac_username = name, ac_password_hash = ''h:'' @ name, ac_oauth_provider = None,
      ac_oauth_subject = None, ac_oauth_email = None, ac_oauth_display_name = None, ac_disabled = disabled,
      ac_last_login_at = None, ac_created_at = 0, ac_updated_at = 0\<rparr>"

definition sample_console :: "bool \<Rightarrow> console" where
  "sample_console disabled =
     store.extend (fresh_store (\<lambda>_. 0)) (console.fields
       \<lparr>rows = [sample_account 7 ''ann'' False], seq = 7\<rparr> \<lparr>rows = [sample_account 1 ''root'' disabled], seq = 1\<rparr>)"

text \<open>Sign-in whose only tokens are \<open>user.jwt\<close> for ann and \<open>admin.jwt\<close> for root.\<close>

definition sample_claims :: "bool \<Rightarrow> token_claims" where
  "sample_claims admin =
     \<lparr>tc_UserID = (if admin then 1 else 7), tc_Username = (if admin then ''root'' else ''ann''),
      tc_Role = (if admin then RoleAdmin else RoleUser), tc_Subject = ''access_token'',
      tc_ExpiresAt = 604800, tc_IssuedAt = 0\<rparr>"

definition sample_sign_in :: sign_in where
  "sample_sign_in =
     \<lparr>si_Hash = (\<lambda>p. Inr (''h:'' @ p)), si_Matches = (\<lambda>h p. h = ''h:'' @ p),
      si_Sign = (\<lambda>c. if c = sample_claims False then Inr ''user.jwt'' else if c = sample_claims True then Inr ''admin.jwt''
                     else Inl (ErrText ''sign'')),
      si_Verify = (\<lambda>now tok.
        if tok = ''user.jwt'' \<and> now < 604800 * second then Inr (sample_claims False)
        else if tok = ''admin.jwt'' \<and> now < 604800 * second then Inr (sample_claims True) else Inl TokenExpired),
      si_ExpireSeconds = 604800\<rparr>"

lemma sample_tokens: "sound_tokens sample_sign_in"
proof -
  have "list_all token_char ''user.jwt''" "list_all token_char ''admin.jwt''" by code_simp+
  then show ?thesis
    unfolding sound_tokens_def list_all_iff
    by (auto simp: sample_sign_in_def sample_claims_def split: if_splits)
qed

lemma sample_console_facts:
  "\<not> fault (sample_console b) n" "accounts_ok (user_tbl (sample_console b))" "accounts_ok (admin_tbl (sample_console b))"
  by (simp_all add: sample_console_def fresh_store_def store.defs console.defs accounts_ok_def
      sample_account_def)

text \<open>The outcome of a sign-in: the token and the expiry, or the error.\<close>

lemma sample_user_session:
  "map_sum id (\<lambda>(tok, till, _). (tok, till)) (fst (Login sample_sign_in ''ann'' ''ann'' (sample_console False))) =
     Inr (''user.jwt'', 604800 * second)"
  by code_simp

lemma sample_admin_session:
  "map_sum id (\<lambda>(tok, till, a). (tok, till, ad_Username a)) (fst (admin_Login sample_sign_in ''root'' ''root'' (sample_console False))) =
     Inr (''admin.jwt'', 604800 * second, ''root'')"
  by code_simp

lemma map_sum_Inr: "map_sum id f s = Inr y \<Longrightarrow> (\<And>x. s = Inr x \<Longrightarrow> f x = y \<Longrightarrow> P) \<Longrightarrow> P"
  by (cases s) auto

lemma sample_no_faults: "admin_Login e name password (sample_console b) = (r, c') \<Longrightarrow> \<not> fault c' n"
proof -
  have admins: "keeps (\<lambda>c :: console. fault c = v) (on_admins body)" for body :: "account_row tbl \<Rightarrow> 'a result \<times> account_row tbl" and v
    unfolding on_admins_def by (rule keeps_db_stmt) (simp_all add: keeps_def case_prod_beta)
  have "keeps (\<lambda>c. fault c = v) (admin_Login e name password)" for v
    unfolding admin_Login_def admin_session_def note_login_def NewToken_def admin_GetAdminByUsername_def
      admin_UpdateAdminLastLogin_def Let_def
    by (intro op_keeps admins)
  then show "admin_Login e name password (sample_console b) = (r, c') \<Longrightarrow> \<not> fault c' n"
    using sample_console_facts(1) [of b] by (simp add: keeps_def) (metis snd_conv)
qed

theorem session_speaks_for_its_user_witness:
  "requireLogin (AuthClaimsMiddleware sample_sign_in True 604799000000000 (Some ''Bearer user.jwt'')) =
     Inr \<lparr>cl_UserID = us_ID (snd (snd (projr (fst (Login sample_sign_in ''ann'' ''ann'' (sample_console False)))))),
          cl_Username = ''ann'', cl_Role = RoleUser\<rparr>"
proof -
  obtain tok till u c' where run: "Login sample_sign_in ''ann'' ''ann'' (sample_console False) = (Inr (tok, till, u), c')"
    and tok: "tok = ''user.jwt''" "till = 604800 * second"
    using sample_user_session by (cases "Login sample_sign_in ''ann'' ''ann'' (sample_console False)") (auto split: sum.splits elim!: map_sum_Inr)
  have "(604799000000000 :: int) < till div second * second" by (simp add: tok(2) second_def)
  from session_speaks_for_its_user [OF sample_tokens run this] show ?thesis by (simp add: run tok(1))
qed

theorem signed_in_admin_gets_in_witness:
  "\<exists>c'. requireAdmin (AuthClaimsMiddleware sample_sign_in True 604799000000000 (Some ''Bearer admin.jwt''))
     (\<lambda>cl. ok (okResult (cl_Username cl) [])) c' =
   (Inr (okResult ''root'' []), c'\<lparr>stmts := Suc (stmts c')\<rparr>)"
proof -
  obtain tok till a c' where run: "admin_Login sample_sign_in ''root'' ''root'' (sample_console False) = (Inr (tok, till, a), c')"
    and tok: "tok = ''admin.jwt''" "till = 604800 * second" "ad_Username a = ''root''"
    using sample_admin_session by (cases "admin_Login sample_sign_in ''root'' ''root'' (sample_console False)") (auto elim!: map_sum_Inr)
  have "\<not> fault c' (stmts c')" using sample_no_faults run by metis
  moreover have "(604799000000000 :: int) < till div second * second" by (simp add: tok(2) second_def)
  moreover have "signs_in sample_sign_in (admin_Login sample_sign_in ''root'' ''root'')" by (auto simp: signs_in_def)
  ultimately have "requireAdmin (AuthClaimsMiddleware sample_sign_in True 604799000000000 (Some (''Bearer '' @ tok)))
     (\<lambda>cl. ok (okResult (cl_Username cl) [])) c' = (Inr (okResult (ad_Username a) []), c'\<lparr>stmts := Suc (stmts c')\<rparr>)"
    using signed_in_admin_gets_in [where m = "admin_Login sample_sign_in ''root'' ''root''" and c = "sample_console False",
        OF sample_tokens sample_console_facts(3) _ run] by simp
  then show ?thesis by (auto simp: tok)
qed

theorem login_exact_witness:
  "fst (Login sample_sign_in ''ann'' ''guess'' (sample_console False)) = Inl ErrInvalidPassword"
proof -
  have "login_answer sample_sign_in ''ann'' ''guess'' (rows (user_tbl (sample_console False)))
      (clock (sample_console False) (Suc (stmts (sample_console False)))) = Inl ErrInvalidPassword"
    by code_simp
  then show ?thesis using login_exact [OF sample_console_facts(1,2)] by simp
qed

theorem oauth_email_rebinds_witness:
  "fst (LoginWithOAuth sample_sign_in \<lparr>oi_Provider = ''idp'', oi_Subject = ''42'', oi_Email = ''root'', oi_Name = '''',
      oi_PreferredUsername = ''''\<rparr> (sample_console True)) = Inl ErrUserDisabled \<and>
   map ac_oauth_subject (rows (admin_tbl (snd (LoginWithOAuth sample_sign_in
     \<lparr>oi_Provider = ''idp'', oi_Subject = ''42'', oi_Email = ''root'', oi_Name = '''', oi_PreferredUsername = ''''\<rparr>
     (sample_console True))))) = [Some ''42'']"
proof -
  let ?i = "\<lparr>oi_Provider = ''idp'', oi_Subject = ''42'', oi_Email = ''root'', oi_Name = '''', oi_PreferredUsername = ''''\<rparr>"
  let ?c = "sample_console True" and ?r = "sample_account 1 ''root'' True"
  obtain res c' where run: "LoginWithOAuth sample_sign_in ?i ?c = (res, c')" by fastforce
  have tbl: "rows (admin_tbl ?c) = [?r]"
    by (simp add: sample_console_def fresh_store_def store.defs console.defs)
  have "map lasting (rows (admin_tbl c')) =
      map (\<lambda>q. lasting (if ac_id q = ac_id ?r then bound_to ?i q else q)) (rows (admin_tbl ?c)) \<and>
      (ac_disabled ?r \<longrightarrow> res = Inl ErrUserDisabled)"
    by (rule oauth_email_rebinds [OF sample_console_facts(1,3) _ _ _ _ _ _ run])
      (simp_all add: tbl sample_account_def has_identity_def)
  then have "map ac_oauth_subject (map lasting (rows (admin_tbl c'))) = [Some ''42'']" "res = Inl ErrUserDisabled"
    by (simp_all add: tbl sample_account_def lasting_def bound_to_def)
  moreover have "ac_oauth_subject \<circ> lasting = ac_oauth_subject" by (auto simp: lasting_def)
  ultimately show ?thesis by (simp add: run)
qed

end
