(* ===== verification/ConsoleRules.thy ===== *)
theory ConsoleRules
  imports SignInRules Admission
begin

text \<open>
  What the console promises: only administrators change anything, users see what is theirs, whom a
  token speaks for, who may sign in and what the log does not show.
\<close>

section \<open>Statements on the tables of the console\<close>

lemma truncate_stmts [simp]: "store.truncate (c\<lparr>stmts := n\<rparr>) = (store.truncate c)\<lparr>stmts := n\<rparr>"
  by (cases c) (simp add: store.defs)

lemma truncate_accounts [simp]:
  "store.truncate (c\<lparr>user_tbl := t\<rparr>) = store.truncate c" "store.truncate (c\<lparr>admin_tbl := t\<rparr>) = store.truncate c"
  by (cases c; simp add: store.defs)+

lemma extend_console [simp]:
  "store.truncate (store.extend s (console.fields u a)) = s"
  "user_tbl (store.extend s (console.fields u a)) = u" "admin_tbl (store.extend s (console.fields u a)) = a"
  by (cases s; simp add: store.defs console.defs)+

lemma on_gateway_keeps:
  assumes "keeps P m"
  shows "keeps (\<lambda>c. P (store.truncate c) \<and> Q (user_tbl c) (admin_tbl c)) (on_gateway m)"
  using assms by (auto simp: keeps_def on_gateway_def case_prod_beta)

text \<open>The tables of the gateway as in \<open>s\<close>, the accounts as \<open>us\<close> and \<open>as\<close>.\<close>

definition only_logins :: "store \<Rightarrow> account_row list \<Rightarrow> account_row list \<Rightarrow> console \<Rightarrow> bool" where
  "only_logins s us as c =
     (same s (store.truncate c) \<and> lasting_rows (user_tbl c) = us \<and> lasting_rows (admin_tbl c) = as)"

lemma only_logins_stmts [simp]: "only_logins s us as (c\<lparr>stmts := n\<rparr>) = only_logins s us as c"
  by (simp add: only_logins_def)

named_theorems quiet_calls \<open>calls of the console that change nothing\<close>

lemma only_logins_gateway [quiet_calls]:
  assumes "keeps (same s) m"
  shows "keeps (only_logins s us as) (on_gateway m)"
  using on_gateway_keeps [OF assms, of "\<lambda>u a. lasting_rows u = us \<and> lasting_rows a = as"]
  by (simp add: only_logins_def [abs_def])

lemma only_logins_users:
  assumes "\<And>t. lasting_rows t = us \<Longrightarrow> lasting_rows (snd (body t)) = us"
  shows "keeps (only_logins s us as) (on_users body)"
  unfolding on_users_def
  by (rule keeps_db_stmt) (simp_all add: keeps_def case_prod_beta only_logins_def assms)

lemma only_logins_admins:
  assumes "\<And>t. lasting_rows t = as \<Longrightarrow> lasting_rows (snd (body t)) = as"
  shows "keeps (only_logins s us as) (on_admins body)"
  unfolding on_admins_def
  by (rule keeps_db_stmt) (simp_all add: keeps_def case_prod_beta only_logins_def assms)

lemma only_logins_reads [quiet_calls]:
  "keeps (only_logins s us as) (on_users (only_row P))" "keeps (only_logins s us as) (on_users (first_row P))"
  "keeps (only_logins s us as) (on_admins (first_row P))"
  by (rule only_logins_users only_logins_admins; simp add: only_row_table first_row_def split: list.splits)+

lemma only_logins_time [quiet_calls]: "keeps (only_logins s us as) time_now"
  by (simp add: keeps_def time_now_def)

text \<open>The two statements that write the time of a sign-in.\<close>

lemma lasting_update:
  assumes "distinct (map ac_id (lasting_rows t))" and "\<And>r. lasting (f r) = lasting r"
  shows "lasting_rows (snd (update_row ac_id account_clash i f t)) = lasting_rows t"
proof (cases "find_row ac_id i t")
  case None
  then show ?thesis by (simp add: update_row_def)
next
  case (Some r)
  have ids: "distinct (map ac_id (rows t))"
    using assms(1) by (simp add: lasting_rows_def lasting_def o_def)
  have r: "r \<in> set (rows t)" "ac_id r = i"
    using Some by (auto simp: find_row_def find_Some_iff)
  have "lasting (if ac_id q = i then f r else q) = lasting q" if "q \<in> set (rows t)" for q
    using that r ids assms(2) by (auto simp: distinct_map dest: inj_onD)
  then show ?thesis using Some by (simp add: update_row_def lasting_rows_def)
qed

lemma lasting_update_all:
  "(\<And>r. lasting (f r) = lasting r) \<Longrightarrow> lasting_rows (snd (update_rows P f t)) = lasting_rows t"
  by (simp add: update_rows_def lasting_rows_def)

lemma only_logins_logins [quiet_calls]:
  assumes "distinct (map ac_id us)"
  shows "keeps (only_logins s us as) (auth_UpdateUserLastLogin i t)"
    "keeps (only_logins s us as) (admin_UpdateAdminLastLogin j t)"
proof -
  have last: "lasting (r\<lparr>ac_last_login_at := Some t, ac_updated_at := now\<rparr>) = lasting r" for r now
    by (simp add: lasting_def)
  have u: "keeps (only_logins s us as) (on_users (update_row ac_id account_clash i
      (\<lambda>r. r\<lparr>ac_last_login_at := Some t, ac_updated_at := now\<rparr>)))" for now
    by (rule only_logins_users) (use assms last in \<open>auto simp: lasting_update\<close>)
  have a: "keeps (only_logins s us as) (on_admins (update_rows (\<lambda>r. ac_id r = j)
      (\<lambda>r. r\<lparr>ac_last_login_at := Some t, ac_updated_at := now\<rparr>)))" for now
    by (rule only_logins_admins) (simp add: lasting_update_all last)
  show "keeps (only_logins s us as) (auth_UpdateUserLastLogin i t)"
    unfolding auth_UpdateUserLastLogin_def by (intro op_keeps quiet_calls u)
  show "keeps (only_logins s us as) (admin_UpdateAdminLastLogin j t)"
    unfolding admin_UpdateAdminLastLogin_def by (intro op_keeps quiet_calls a)
qed

section \<open>Calls that change nothing\<close>

lemma only_logins_session [quiet_calls]:
  assumes "distinct (map ac_id us)"
  shows "keeps (only_logins s us as) (Login e name pw)" "keeps (only_logins s us as) (admin_Login e name pw)"
  unfolding Login_def admin_Login_def admin_session_def note_login_def NewToken_def auth_GetUserByUsername_def
    admin_GetAdminByUsername_def Let_def
  by (intro op_keeps quiet_calls assms)+

lemma only_logins_lookups [quiet_calls]:
  "keeps (only_logins s us as) (GetCurrentUser i)" "keeps (only_logins s us as) (getCurrentAdmin c)"
  unfolding GetCurrentUser_def auth_GetUserByID_def getCurrentAdmin_def admin_GetAdminByID_def
  by (intro op_keeps quiet_calls)+

lemma keeps_or_answer [quiet_calls]:
  "keeps P m \<Longrightarrow> (\<And>x. keeps P (f x)) \<Longrightarrow> keeps P (or_answer m g f)"
  unfolding or_answer_def by (intro op_keeps)

lemma reads_of_users [quiet_calls]:
  "keeps (same s) (gateway_ListAPIKeysByOwner owner limit offset)" "keeps (same s) (gateway_SummarizeUsage f)"
  "keeps (same s) (gateway_ListUsageLogs fmt fr f)"
proof -
  have selects: "keeps (same s) (on_keys (select_rows P))" "keeps (same s) (on_usage (select_rows Q))" for P Q
    by (rule key_tbl.on_tbl_keeps usage_tbl.on_tbl_keeps; simp add: select_rows_table)+
  have prices: "keeps (same s) listModelPriceMap"
    by (rule keeps_reads) simp_all
  show "keeps (same s) (gateway_ListAPIKeysByOwner owner limit offset)"
    unfolding gateway_ListAPIKeysByOwner_def ListAPIKeysByOwner_def repo_ListAPIKeysByOwner_def list_keys_def
    by (intro op_keeps selects)
  show "keeps (same s) (gateway_SummarizeUsage f)"
    unfolding gateway_SummarizeUsage_def SummarizeUsage_def by (intro reads)
  show "keeps (same s) (gateway_ListUsageLogs fmt fr f)"
    unfolding gateway_ListUsageLogs_def ListUsageLogs_def repo_ListUsageLogs_def applyUsageFilter_def
      attachUsageKeyNames_def attachUsageCosts_def Let_def
    by (intro op_keeps selects prices)
qed

lemma only_logins_auth [quiet_calls]:
  assumes "distinct (map ac_id us)"
  shows "keeps (only_logins s us as) (handleSystem method)" "keeps (only_logins s us as) (handleAuth e cx method pm)"
  unfolding handleSystem_def handleAuth_def auth_login_def auth_admin_login_def auth_me_def Let_def
  by (intro op_keeps quiet_calls assms)+

lemma only_logins_user_calls [quiet_calls]: "keeps (only_logins s us as) (handleGatewayUser e cx method pm)"
  unfolding handleGatewayUser_def user_key_list_def user_usage_summary_def user_usage_list_def filter_of_def
    call_gateway_def Let_def
  by (intro op_keeps quiet_calls)

lemma current_admin_found:
  assumes "getCurrentAdmin cl c = (Inr admin, c')"
  shows "\<exists>r \<in> set (rows (admin_tbl c)). ac_id r = cl_UserID cl \<and> ac_username r = cl_Username cl \<and>
           ac_disabled r = ad_Disabled admin"
  using assms
  by (auto simp: getCurrentAdmin_def admin_GetAdminByID_def on_admins_def db_stmt_def first_row_def short_admin_def
      Let_def filter_eq_Cons_iff elim!: bind_op_InrE split: if_splits list.splits prod.splits)

lemma requireAdmin_refuses:
  assumes "\<not> admin_caller cx c" and "only_logins s us as c"
  shows "only_logins s us as (snd (requireAdmin cx f c))"
proof (cases "cx_Claims cx")
  case None
  then show ?thesis using assms(2) by (simp add: requireAdmin_def requireLogin_def)
next
  case (Some cl)
  obtain r c' where run: "getCurrentAdmin cl c = (r, c')" by fastforce
  have same: "only_logins s us as c'"
    using keepsD [OF only_logins_lookups(2) assms(2) run] .
  show ?thesis
  proof (cases r)
    case (Inl err)
    then show ?thesis using Some run same assms(2)
      by (simp add: requireAdmin_def requireLogin_def or_answer_def try_op_def)
  next
    case (Inr admin)
    then have "cl_Role cl = RoleAdmin \<Longrightarrow> ad_Disabled admin"
      using current_admin_found [of cl c admin c'] run assms(1) Some by (auto simp: admin_caller_def)
    then show ?thesis using Some Inr run same assms(2)
      by (simp add: requireAdmin_def requireLogin_def or_answer_def try_op_def)
  qed
qed

lemma refused_call:
  assumes "\<not> admin_caller cx c" and "only_logins s us as c" and "distinct (map ac_id us)"
  shows "only_logins s us as (snd (Handle e cx url method params c))"
  using assms(2) requireAdmin_refuses [OF assms(1,2)]
    keeps_sndD [OF only_logins_auth(1) [OF assms(3)] assms(2)] keeps_sndD [OF only_logins_auth(2) [OF assms(3)] assms(2)]
    keeps_sndD [OF only_logins_user_calls assms(2)]
  by (simp add: Handle_def handleUser_def handleGateway_def Let_def split: sum.split)

text \<open>
  C3. Only administrators change anything through the console. Whatever a caller sends whose token
  does not name an enabled administrator (no token, a user's, that of a renamed, disabled or deleted
  administrator), and whatever the database does meanwhile: every table of the gateway stays as
  it is, and of the accounts only the time of the last sign-in may change.
\<close>

theorem only_admins_change_the_gateway:
  assumes "\<not> admin_caller cx c" and "distinct (map ac_id (rows (user_tbl c)))"
    and "Handle e cx url method params c = (answer, c')"
  shows "store.truncate c' = (store.truncate c)\<lparr>stmts := stmts c'\<rparr> \<and>
    map lasting (rows (user_tbl c')) = map lasting (rows (user_tbl c)) \<and>
    map lasting (rows (admin_tbl c')) = map lasting (rows (admin_tbl c))"
proof -
  have "only_logins (store.truncate c) (lasting_rows (user_tbl c)) (lasting_rows (admin_tbl c)) c"
    by (simp add: only_logins_def)
  moreover have "distinct (map ac_id (lasting_rows (user_tbl c)))"
    using assms(2) by (simp add: lasting_rows_def lasting_def o_def)
  ultimately have "only_logins (store.truncate c) (lasting_rows (user_tbl c)) (lasting_rows (admin_tbl c))
      (snd (Handle e cx url method params c))"
    by (rule refused_call [OF assms(1)])
  then have "only_logins (store.truncate c) (lasting_rows (user_tbl c)) (lasting_rows (admin_tbl c)) c'"
    using assms(3) by simp
  moreover have "stmts (store.truncate c') = stmts c'" by (cases c') (simp add: store.defs)
  ultimately show ?thesis by (simp add: only_logins_def same_def lasting_rows_def)
qed

section \<open>What users see\<close>

text \<open>
  An operation that does not see the difference between a state and a view of it: it returns the
  same and does the same to both. \<open>I\<close> says what is known of the states it runs in.
\<close>

definition blind :: "('s \<Rightarrow> 's) \<Rightarrow> ('s \<Rightarrow> bool) \<Rightarrow> ('s, 'a) op \<Rightarrow> bool" where
  "blind v I m = (\<forall>t. I t \<longrightarrow> m (v t) = apsnd v (m t) \<and> I (snd (m t)))"

text \<open>\<open>yields I m r\<close>: in such a state \<open>m\<close> may return \<open>r\<close>.\<close>

definition yields :: "('s \<Rightarrow> bool) \<Rightarrow> ('s, 'a) op \<Rightarrow> 'a result \<Rightarrow> bool" where
  "yields I m r = (\<exists>t. I t \<and> fst (m t) = r)"

named_theorems blind_rules \<open>operations that do not see the difference\<close>

lemma blind_pure [blind_rules]: "blind v I (ok x)" "blind v I (fail e)" "blind v I (from_result r)"
  by (simp_all add: blind_def)

lemma blind_try:
  assumes "blind v I m" and "\<And>r. yields I m r \<Longrightarrow> blind v I (f r)"
  shows "blind v I (try_op m f)"
  unfolding blind_def
proof (intro allI impI)
  fix t assume t: "I t"
  obtain r u where m: "m t = (r, u)" by fastforce
  then have "m (v t) = (r, v u)" "I u" using assms(1) t by (auto simp: blind_def)
  moreover have "blind v I (f r)" using assms(2) t m by (force simp: yields_def)
  ultimately show "try_op m f (v t) = apsnd v (try_op m f t) \<and> I (snd (try_op m f t))"
    using m by (simp add: try_op_def blind_def)
qed

lemma blind_bind:
  assumes "blind v I m" and "\<And>x. yields I m (Inr x) \<Longrightarrow> blind v I (f x)"
  shows "blind v I (bind_op m f)"
  unfolding bind_as_try
  by (rule blind_try [OF assms(1)]) (auto intro: blind_rules assms(2) split: sum.split)

lemma blind_branch [blind_rules]:
  "(b \<Longrightarrow> blind v I m) \<Longrightarrow> (\<not> b \<Longrightarrow> blind v I n) \<Longrightarrow> blind v I (if b then m else n)"
  "(\<And>e. r = Inl e \<Longrightarrow> blind v I (g e)) \<Longrightarrow> (\<And>x. r = Inr x \<Longrightarrow> blind v I (f x)) \<Longrightarrow>
     blind v I (case r of Inl e \<Rightarrow> g e | Inr x \<Rightarrow> f x)"
  by (auto split: sum.split)

text \<open>What of the database is a user's: the user's keys and their usage, and the list of prices.\<close>

definition own_keys :: "int \<Rightarrow> store \<Rightarrow> api_key_row list" where
  "own_keys uid s = filter (\<lambda>k. k_owner_user_id k = Some uid) (rows (keys s))"

definition own_usage :: "int \<Rightarrow> store \<Rightarrow> usage_row list" where
  "own_usage uid s = filter (\<lambda>r. \<exists>k \<in> set (own_keys uid s). u_api_key_id r = Some (k_id k)) (rows (usage s))"

definition own_store :: "int \<Rightarrow> store \<Rightarrow> store" where
  "own_store uid s =
     s\<lparr>keys := (keys s)\<lparr>rows := own_keys uid s\<rparr>, usage := (usage s)\<lparr>rows := own_usage uid s\<rparr>,
       models := empty_tbl, policies := empty_tbl, settings := empty_tbl, rules := empty_tbl, events := empty_tbl,
       audits := empty_tbl, summaries := empty_tbl\<rparr>"

definition own_view :: "int \<Rightarrow> console \<Rightarrow> console" where
  "own_view uid c = store.extend (own_store uid (store.truncate c)) (console.fields empty_tbl empty_tbl)"

lemma own_store_fields [simp]:
  "rows (keys (own_store uid t)) = own_keys uid t" "rows (usage (own_store uid t)) = own_usage uid t"
  "prices (own_store uid t) = prices t" "stmts (own_store uid t) = stmts t" "fault (own_store uid t) = fault t"
  "clock (own_store uid t) = clock t" "own_store uid (t\<lparr>stmts := n\<rparr>) = (own_store uid t)\<lparr>stmts := n\<rparr>"
  by (simp_all add: own_store_def own_keys_def own_usage_def)

lemma blind_read:
  assumes "\<And>t. same s t \<Longrightarrow> \<exists>r. body t = (r, t) \<and> body (own_store uid t) = (r, own_store uid t)"
  shows "blind (own_store uid) (same s) (db_stmt body)"
  unfolding blind_def
proof (intro allI impI)
  fix t assume "same s t"
  then have "same s (t\<lparr>stmts := Suc (stmts t)\<rparr>)" by simp
  from assms [OF this] obtain r where "body (t\<lparr>stmts := Suc (stmts t)\<rparr>) = (r, t\<lparr>stmts := Suc (stmts t)\<rparr>)"
    "body ((own_store uid t)\<lparr>stmts := Suc (stmts t)\<rparr>) = (r, (own_store uid t)\<lparr>stmts := Suc (stmts t)\<rparr>)" by auto
  then show "db_stmt body (own_store uid t) = apsnd (own_store uid) (db_stmt body t) \<and> same s (snd (db_stmt body t))"
    using \<open>same s t\<close> by (simp add: db_stmt_def Let_def)
qed

lemma same_own: "same s t \<Longrightarrow> own_keys uid t = own_keys uid s" "same s t \<Longrightarrow> own_usage uid t = own_usage uid s"
  "same s t \<Longrightarrow> keys t = keys s" "same s t \<Longrightarrow> usage t = usage s" "same s t \<Longrightarrow> fault t = fault s"
  by (erule sameE; simp add: own_keys_def own_usage_def)+

lemma blind_keys:
  assumes "\<forall>k \<in> set (rows (keys s)). P k \<longrightarrow> k_owner_user_id k = Some uid"
  shows "blind (own_store uid) (same s) (on_keys (select_rows P))"
  unfolding on_tbl_def
proof (rule blind_read)
  fix t assume t: "same s t"
  have "filter P (own_keys uid t) = filter P (rows (keys t))"
    using assms same_own(3) [OF t] by (auto simp: own_keys_def intro!: filter_cong)
  then show "\<exists>r. (case select_rows P (keys t) of (r, u) \<Rightarrow> (r, t\<lparr>keys := u\<rparr>)) = (r, t) \<and>
      (case select_rows P (keys (own_store uid t)) of (r, u) \<Rightarrow> (r, (own_store uid t)\<lparr>keys := u\<rparr>)) = (r, own_store uid t)"
    by (simp add: select_rows_def)
qed

lemma blind_usage:
  assumes "\<forall>r \<in> set (rows (usage s)). P r \<longrightarrow> r \<in> set (own_usage uid s)"
  shows "blind (own_store uid) (same s) (on_usage (select_rows P))"
  unfolding on_tbl_def
proof (rule blind_read)
  fix t assume t: "same s t"
  have "filter P (own_usage uid t) = filter P (rows (usage t))"
    using assms same_own(4) [OF t] same_own(2) [OF t, of uid] by (auto simp: own_usage_def intro!: filter_cong)
  then show "\<exists>r. (case select_rows P (usage t) of (r, u) \<Rightarrow> (r, t\<lparr>usage := u\<rparr>)) = (r, t) \<and>
      (case select_rows P (usage (own_store uid t)) of (r, u) \<Rightarrow> (r, (own_store uid t)\<lparr>usage := u\<rparr>)) = (r, own_store uid t)"
    by (simp add: select_rows_def)
qed

lemma blind_prices [blind_rules]: "blind (own_store uid) (same s) listModelPriceMap"
proof -
  have "blind (own_store uid) (same s) (on_prices (select_rows P))" for P
    unfolding on_tbl_def by (rule blind_read) (simp add: select_rows_def)
  then show ?thesis
    unfolding listModelPriceMap_def repo_ListModelPrices_def by (intro blind_bind blind_rules)
qed

lemma blind_query [blind_rules]:
  assumes "CondOwner uid \<in> set cs" and "\<And>owner. CondOwner owner \<in> set cs \<Longrightarrow> owner = uid"
  shows "blind (own_store uid) (same s) (query_usage cs)"
  unfolding query_usage_def
proof (rule blind_read)
  fix t :: store
  have "cond_holds (own_keys uid t) c r = cond_holds (rows (keys t)) c r" if "c \<in> set cs" for c r
    using assms(2) that by (cases c) (auto simp: own_keys_def split: option.split)
  then have "conds_hold (own_keys uid t) cs r = conds_hold (rows (keys t)) cs r" for r
    unfolding conds_hold_def by (intro ball_cong) simp_all
  moreover have "conds_hold (rows (keys t)) cs r \<Longrightarrow> \<exists>k \<in> set (own_keys uid t). u_api_key_id r = Some (k_id k)" for r
    using assms(1) bspec [of "set cs" "\<lambda>c. cond_holds (rows (keys t)) c r" "CondOwner uid"]
    by (auto simp: conds_hold_def own_keys_def split: option.splits)
  ultimately have "filter (conds_hold (own_keys uid t) cs) (own_usage uid t) = filter (conds_hold (rows (keys t)) cs) (rows (usage t))"
    by (auto simp: own_usage_def intro!: filter_cong)
  then show "\<exists>r. (Inr (filter (conds_hold (rows (keys t)) cs) (rows (usage t))), t) = (r, t) \<and>
      (Inr (filter (conds_hold (rows (keys (own_store uid t))) cs) (rows (usage (own_store uid t)))), own_store uid t) =
        (r, own_store uid t)"
    by simp
qed

lemma blind_ListAPIKeysByOwner [blind_rules]:
  "blind (own_store uid) (same s) (gateway_ListAPIKeysByOwner uid limit offset)"
  unfolding gateway_ListAPIKeysByOwner_def ListAPIKeysByOwner_def repo_ListAPIKeysByOwner_def list_keys_def
  by (intro blind_bind blind_rules blind_keys) simp_all

lemma blind_SummarizeUsage [blind_rules]:
  assumes "f_OwnerUserID f = uid" "0 < uid"
  shows "blind (own_store uid) (same s) (gateway_SummarizeUsage f)"
proof -
  have owner: "CondOwner uid \<in> set (usage_conds (normalizeUsageFilter f))"
    "CondOwner owner \<in> set (usage_conds (normalizeUsageFilter f)) \<Longrightarrow> owner = uid" for owner
    using assms by (auto simp: normalizeUsageFilter_def Let_def usage_conds_def key_conds_def field_conds_def cond_text_def
        split: if_splits)
  show ?thesis
    unfolding gateway_SummarizeUsage_def SummarizeUsage_def repo_SummarizeUsage_def estimateUsageCost_def
    by (intro blind_bind blind_try blind_rules owner) (simp_all add: owner)
qed

text \<open>Of the listing, with a database that answers.\<close>

lemma yields_filter:
  assumes "\<And>n. \<not> fault s n" and "f_OwnerUserID f = uid" "0 < uid"
    and "\<forall>r \<in> set (rows (usage s)). u_api_key_id r \<noteq> Some (-1)"
    and "yields (same s) (applyUsageFilter f) (Inr P)"
  shows "\<forall>r \<in> set (rows (usage s)). P r \<longrightarrow> r \<in> set (own_usage uid s)"
proof -
  let ?o = "if own_keys uid s = [] then CondKeyEq (-1) else CondKeyIn (map k_id (own_keys uid s))"
  obtain t where t: "same s t" "fst (applyUsageFilter f t) = Inr P" using assms(5) by (auto simp: yields_def)
  have "on_keys (select_rows (\<lambda>k. k_owner_user_id k = Some uid)) t =
      (Inr (own_keys uid s), t\<lparr>stmts := Suc (stmts t), keys := keys t\<rparr>)"
    using key_tbl.on_tbl_run [of t "select_rows (\<lambda>k. k_owner_user_id k = Some uid)" "Inr (own_keys uid s)" "keys t"]
      assms(1) same_own [OF t(1)] by (simp add: select_rows_def own_keys_def)
  then have "P = conds_hold [] (?o # usage_conds (f\<lparr>f_OwnerUserID := 0\<rparr>))"
    using t(2) assms(2,3) by (simp add: applyUsageFilter_def try_op_def Let_def)
  then have P: "P r \<Longrightarrow> cond_holds [] ?o r" for r by (simp add: conds_hold_def)
  show ?thesis
  proof (intro ballI impI)
    fix r assume r: "r \<in> set (rows (usage s))" "P r"
    have some: "own_keys uid s \<noteq> []"
    proof
      assume "own_keys uid s = []"
      then have "u_api_key_id r = Some (-1)" using P [OF r(2)] by simp
      then show False using r(1) assms(4) by blast
    qed
    have "cond_holds [] (CondKeyIn (map k_id (own_keys uid s))) r" using P [OF r(2)] some by simp
    then obtain k where "k \<in> set (own_keys uid s)" "u_api_key_id r = Some (k_id k)"
      by (auto split: option.splits)
    then show "r \<in> set (own_usage uid s)" using r(1) by (auto simp: own_usage_def)
  qed
qed

lemma yields_rows:
  assumes "yields (same s) (on_usage (select_rows P)) (Inr rs)"
  shows "rs = filter P (rows (usage s))"
proof -
  obtain t where t: "same s t" "fst (on_usage (select_rows P) t) = Inr rs" using assms by (auto simp: yields_def)
  then have "rs = filter P (rows (usage t))"
    by (auto simp: on_tbl_def db_stmt_def select_rows_def Let_def split: if_splits)
  then show ?thesis using same_own(4) [OF t(1)] by simp
qed

lemma set_page: "set (page limit offset xs) \<subseteq> set xs"
  unfolding page_def by (meson order_trans set_drop_subset set_take_subset)

lemma blind_names:
  assumes "distinct (map k_id (rows (keys s)))"
    and "\<forall>item \<in> set list. 0 < l_APIKeyID item \<longrightarrow> l_APIKeyID item \<in> k_id ` set (own_keys uid s)"
  shows "blind (own_store uid) (same s) (attachUsageKeyNames list)"
proof -
  have "k_owner_user_id k = Some uid"
    if k: "k \<in> set (rows (keys s))" "k_id k \<in> set (keep_first {} (filter (\<lambda>i. i > 0) (map l_APIKeyID list)))" for k
  proof -
    obtain q where "q \<in> set (own_keys uid s)" "k_id q = k_id k"
      using k(2) assms(2) by (fastforce simp: set_keep_first)
    then show ?thesis using k(1) assms(1) by (auto simp: own_keys_def distinct_map dest: inj_onD)
  qed
  then show ?thesis
    unfolding attachUsageKeyNames_def Let_def by (intro blind_try blind_rules blind_keys ballI impI)
qed

lemma own_logs:
  assumes "set list \<subseteq> set (own_usage uid s)"
  shows "\<forall>item \<in> set (map (mapGatewayUsageLog fmt fr) (page limit offset (sort_key g list))).
    0 < l_APIKeyID item \<longrightarrow> l_APIKeyID item \<in> k_id ` set (own_keys uid s)"
proof (intro ballI impI)
  fix item assume "item \<in> set (map (mapGatewayUsageLog fmt fr) (page limit offset (sort_key g list)))" and pos: "0 < l_APIKeyID item"
  then obtain r where r: "r \<in> set (own_usage uid s)" "item = mapGatewayUsageLog fmt fr r"
    using set_page [of limit offset "sort_key g list"] assms by auto
  then obtain k where "k \<in> set (own_keys uid s)" "u_api_key_id r = Some (k_id k)" by (auto simp: own_usage_def)
  then show "l_APIKeyID item \<in> k_id ` set (own_keys uid s)" using r(2) by (simp add: mapGatewayUsageLog_def)
qed

lemma blind_ListUsageLogs [blind_rules]:
  assumes "\<And>n. \<not> fault s n" and "f_OwnerUserID f = uid" "0 < uid"
    and "\<forall>r \<in> set (rows (usage s)). u_api_key_id r \<noteq> Some (-1)" and "distinct (map k_id (rows (keys s)))"
  shows "blind (own_store uid) (same s) (gateway_ListUsageLogs fmt fr f)"
proof -
  let ?f = "normalizeUsageFilter (f\<lparr>f_Limit := normalizeLimit (f_Limit f), f_Offset := normalizeOffset (f_Offset f)\<rparr>)"
  have owner: "f_OwnerUserID ?f = uid" using assms(2) by (simp add: normalizeUsageFilter_def Let_def)
  have filt: "blind (own_store uid) (same s) (applyUsageFilter ?f)"
    unfolding applyUsageFilter_def Let_def owner by (intro blind_try blind_rules blind_keys) simp
  have costs: "blind (own_store uid) (same s) (attachUsageCosts list)" for list
    unfolding attachUsageCosts_def by (intro blind_try blind_rules)
  have "blind (own_store uid) (same s) (repo_ListUsageLogs fmt fr ?f)"
    unfolding repo_ListUsageLogs_def
  proof (intro blind_bind filt costs blind_pure)
    fix P assume "yields (same s) (applyUsageFilter ?f) (Inr P)"
    then have P: "\<forall>r \<in> set (rows (usage s)). P r \<longrightarrow> r \<in> set (own_usage uid s)"
      using yields_filter [OF assms(1) owner assms(3,4)] by blast
    then show select: "blind (own_store uid) (same s) (on_usage (select_rows P))"
      "blind (own_store uid) (same s) (on_usage (select_rows P))" by (rule blind_usage)+
    fix list assume "yields (same s) (on_usage (select_rows P)) (Inr list)"
    then have "set list \<subseteq> set (own_usage uid s)" using P yields_rows by fastforce
    then show "blind (own_store uid) (same s) (attachUsageKeyNames (map (mapGatewayUsageLog fmt fr)
        (page (f_Limit ?f) (f_Offset ?f) (sort_key (\<lambda>r. - u_created_at r) list))))"
      by (rule blind_names [OF assms(5) own_logs])
  qed
  then show ?thesis unfolding gateway_ListUsageLogs_def ListUsageLogs_def .
qed

lemma extend_fields: "stmts (store.extend s f) = stmts s" "clock (store.extend s f) = clock s"
  by (cases s; simp add: store.defs)+

lemma truncate_fields:
  "keys (store.truncate c) = keys c" "usage (store.truncate c) = usage c" "fault (store.truncate c) = fault c"
  "stmts (store.truncate c) = stmts c" "clock (store.truncate c) = clock c"
  by (cases c; simp add: store.defs)+

lemma own_view_parts [simp]:
  "store.truncate (own_view uid c) = own_store uid (store.truncate c)"
  "own_view uid (store.extend s (console.fields u a)) = store.extend (own_store uid s) (console.fields empty_tbl empty_tbl)"
  "user_tbl (own_view uid c) = empty_tbl" "admin_tbl (own_view uid c) = empty_tbl" "db_now (own_view uid c) = db_now c"
  by (simp_all add: own_view_def db_now_def extend_fields truncate_fields)

lemma blind_gateway [blind_rules]:
  assumes "blind (own_store uid) (same s) m"
  shows "blind (own_view uid) (\<lambda>c. same s (store.truncate c)) (on_gateway m)"
  using assms by (auto simp: blind_def on_gateway_def split: prod.splits)

lemma blind_time [blind_rules]: "blind (own_view uid) I time_now"
  by (simp add: blind_def time_now_def)

lemma blind_call [blind_rules]:
  assumes "blind (own_store uid) (same s) m"
    and "\<And>x. blind (own_view uid) (\<lambda>c. same s (store.truncate c)) (f x)"
  shows "blind (own_view uid) (\<lambda>c. same s (store.truncate c)) (call_gateway m f)"
  unfolding call_gateway_def or_answer_def by (intro blind_try blind_rules assms)

lemma blind_pair: "(\<And>a b. p = (a, b) \<Longrightarrow> blind v I (f a b)) \<Longrightarrow> blind v I (case p of (a, b) \<Rightarrow> f a b)"
  by (cases p) simp

text \<open>
  C4. Users see what is theirs. As long as the database answers, what a user is told by the methods
  for users (keys, usage, its summary) is what would be told by a database that holds nothing but
  this user's keys, the usage of these keys and the list of prices.
\<close>

theorem users_see_their_own:
  assumes "cx_Claims cx = Some cl" "0 < cl_UserID cl" and "has_prefix method ''user_''"
    and "\<And>n. \<not> fault c n" and "distinct (map k_id (rows (keys c)))"
    and "\<forall>r \<in> set (rows (usage c)). u_api_key_id r \<noteq> Some (-1)"
  shows "fst (Handle e cx ''api'' method params c) = fst (Handle e cx ''api'' method params (own_view (cl_UserID cl) c))"
proof -
  let ?s = "store.truncate c" and ?I = "\<lambda>d. same (store.truncate c) (store.truncate d)" and ?v = "own_view (cl_UserID cl)"
  define pm where "pm = (case params of None \<Rightarrow> [] | Some m \<Rightarrow> m)"
  have known: "\<not> fault ?s n" "distinct (map k_id (rows (keys ?s)))" "\<forall>r \<in> set (rows (usage ?s)). u_api_key_id r \<noteq> Some (-1)" for n
    using assms(4-6) by (simp_all add: truncate_fields)
  have "blind ?v ?I (handleGatewayUser e cx method pm)"
    unfolding handleGatewayUser_def requireLogin_def assms(1) option.case sum.case user_key_list_def user_usage_summary_def
      user_usage_list_def filter_of_def Let_def
    by (intro blind_bind blind_rules known assms(2) blind_pair) simp_all
  then have "fst (handleGatewayUser e cx method pm c) = fst (handleGatewayUser e cx method pm (?v c))"
    by (simp add: blind_def)
  moreover have "\<not> isPublic ''api'' method" by (simp add: isPublic_def)
  ultimately show ?thesis
    using assms(1,3) by (simp add: Handle_def handleGateway_def requireLogin_def pm_def)
qed

section \<open>Disabled users\<close>

lemma user_call:
  assumes "has_prefix method ''user_''"
  shows "Handle e cx ''api'' method params c =
    (case requireLogin cx of
       Inl res \<Rightarrow> (Inr res, c)
     | Inr _ \<Rightarrow> handleGatewayUser e cx method (case params of None \<Rightarrow> [] | Some m \<Rightarrow> m) c)"
proof -
  have "\<not> isPublic ''api'' method" by (simp add: isPublic_def)
  then show ?thesis using assms by (simp add: Handle_def handleGateway_def Let_def split: sum.split)
qed

lemma other_users_gateway:
  "blind (\<lambda>c. c\<lparr>user_tbl := t\<rparr>) (\<lambda>_. True) (on_gateway m)"
proof -
  have "store.extend s (console.fields t (admin_tbl c)) = (store.extend s (console.fields (user_tbl c) (admin_tbl c)))\<lparr>user_tbl := t\<rparr>"
    for s :: store and c :: console by (cases s; cases c) (simp add: store.defs console.defs)
  then show ?thesis by (simp add: blind_def on_gateway_def split: prod.split)
qed

lemma other_users_call:
  assumes "\<And>x. blind (\<lambda>c. c\<lparr>user_tbl := t\<rparr>) (\<lambda>_. True) (f x)"
  shows "blind (\<lambda>c. c\<lparr>user_tbl := t\<rparr>) (\<lambda>_. True) (call_gateway m f)"
  unfolding call_gateway_def or_answer_def by (intro blind_try blind_rules assms other_users_gateway)

text \<open>
  C15. A user who is disabled, or deleted, keeps a session: the methods for users answer a token as
  long as it is valid, whatever the table of users says, although the same user can no longer sign
  in.
\<close>

theorem disabled_users_keep_their_session:
  assumes "has_prefix method ''user_''"
  shows "fst (Handle e cx ''api'' method params (c\<lparr>user_tbl := t\<rparr>)) = fst (Handle e cx ''api'' method params c)"
proof -
  define pm where "pm = (case params of None \<Rightarrow> [] | Some m \<Rightarrow> m)"
  have now: "blind (\<lambda>c :: console. c\<lparr>user_tbl := t\<rparr>) (\<lambda>_. True) time_now"
    by (simp add: blind_def time_now_def db_now_def)
  have "blind (\<lambda>c. c\<lparr>user_tbl := t\<rparr>) (\<lambda>_. True) (handleGatewayUser e cx method pm)"
    unfolding handleGatewayUser_def user_key_list_def user_usage_summary_def user_usage_list_def filter_of_def Let_def
    by (intro blind_bind blind_rules blind_pair other_users_call now)
  then have "fst (handleGatewayUser e cx method pm (c\<lparr>user_tbl := t\<rparr>)) = fst (handleGatewayUser e cx method pm c)"
    by (simp add: blind_def)
  then show ?thesis
    unfolding user_call [OF assms] pm_def by (auto split: sum.split)
qed

section \<open>Answers and logs\<close>

text \<open>The answer to the deletion of several keys has no data: their ids are a \<open>[]int\<close>.\<close>

lemma batch_deletion_without_data:
  assumes "fst (api_key_delete_batch cx pm c) = Inr answer"
  shows "jr_Data answer = None"
proof -
  have failed: "jr_Data (mapGatewayError err) = None" for err
    by (cases err) (simp_all add: mapGatewayError_def errcode_def code_APIOperationFailed_def code_InvalidParam_def
        code_APIKeyInvalid_def code_APIKeyDisabled_def code_APIModelDisabled_def code_APIModelNotAllowed_def)
  have "jr_Data (okResult msg [(''key_ids'', RInts ids), d]) = None" for msg ids d
    by (simp add: okResult_def newDataStruct_def split: option.split)
  then show ?thesis
    using assms failed
    by (auto simp: api_key_delete_batch_def call_gateway_def or_answer_def try_op_def auditGateway_def Let_def
        split: prod.splits sum.splits)
qed

text \<open>Other values under the sensitive names.\<close>

fun with_secrets :: "(string \<Rightarrow> json \<Rightarrow> json) \<Rightarrow> json \<Rightarrow> json" where
  "with_secrets g (JObj m) =
     JObj (map (\<lambda>(key, item). (key, if isSensitiveJSONRPCParamKey key then g key item else with_secrets g item)) m)"
| "with_secrets g (JArr vs) = JArr (map (with_secrets g) vs)"
| "with_secrets g v = v"

text \<open>The log of a call does not depend on what stands under a sensitive name, at any depth.\<close>

lemma log_has_no_secrets: "redactJSONRPCParams (with_secrets g v) = redactJSONRPCParams v"
  by (induction g v rule: with_secrets.induct) auto

section \<open>A console with the keys of two users\<close>

definition owned_row :: "int \<Rightarrow> int \<Rightarrow> api_key_row" where
  "owned_row i owner =
     \<lparr>k_id = i, k_owner_user_id = Some owner, k_name = ''key'', k_key_hash = Itoa i, k_plain_key = '''',
      k_key_prefix = ''p'', k_key_last4 = ''last'', k_disabled = False, k_upstream_strategy = '''',
      k_default_reasoning_effort = '''', k_quotas = sample_quotas, k_allowed_models = [], k_last_used_at = None,
      k_created_at = 0, k_updated_at = 0\<rparr>"

definition shared_console :: console where
  "shared_console =
     store.extend ((fresh_store (\<lambda>_. 0))\<lparr>keys := \<lparr>rows = [owned_row 1 7, owned_row 2 8], seq = 2\<rparr>\<rparr>)
       (console.fields \<lparr>rows = [sample_account 7 ''ann'' False], seq = 7\<rparr>
          \<lparr>rows = [sample_account 1 ''root'' False], seq = 1\<rparr>)"

definition ann_context :: auth_context where
  "ann_context = \<lparr>cx_Claims = Some \<lparr>cl_UserID = 7, cl_Username = ''ann'', cl_Role = RoleUser\<rparr>, cx_State = AuthOK\<rparr>"

definition sample_rpc_env :: rpc_env where
  "sample_rpc_env =
     \<lparr>re_SignIn = sample_sign_in, re_Lib = \<lparr>lib_Show = (\<lambda>_. ''''), lib_ParseFloat = (\<lambda>_. None)\<rparr>, re_Env = (\<lambda>_. ''''),
      re_FmtFloat = (\<lambda>_. ''''), re_FloatRound = of_int, re_DBTZ = 0, re_Random = Inl DBFailed\<rparr>"

lemma shared_console_facts:
  "\<not> fault shared_console n" "distinct (map k_id (rows (keys shared_console)))" "rows (usage shared_console) = []"
  "distinct (map ac_id (rows (user_tbl shared_console)))" "\<not> admin_caller ann_context shared_console"
  by (simp_all add: shared_console_def fresh_store_def store.defs console.defs owned_row_def sample_account_def
      empty_tbl_def admin_caller_def ann_context_def RoleUser_def RoleAdmin_def)

text \<open>Ann is told of the key that is hers.\<close>

definition anns_keys :: JsonrpcResult where
  "anns_keys =
     okResult (from_hex ''e88eb7e58f96e68891e79a8420415049206b657920e68890e58a9f'')
       [items_of (\<lambda>k. mapGatewayAPIKeyForRPC k False) [mapGatewayAPIKey (owned_row 1 7)], (''total'', RInt 1),
        (''limit'', RInt 30), (''offset'', RInt 0)]"

lemma told: "fst (Handle sample_rpc_env ann_context ''api'' ''user_key_list'' None shared_console) = Inr anns_keys"
proof -
  have user: "has_prefix ''user_key_list'' ''user_''" by code_simp
  have login: "requireLogin ann_context = Inr \<lparr>cl_UserID = 7, cl_Username = ''ann'', cl_Role = RoleUser\<rparr>"
    by (simp add: requireLogin_def ann_context_def)
  have store: "rows (keys (store.truncate shared_console)) = [owned_row 1 7, owned_row 2 8]"
    "\<not> fault (store.truncate shared_console) n" for n
    by (simp_all add: shared_console_def fresh_store_def store.defs console.defs)
  obtain d where "gateway_ListAPIKeysByOwner 7 30 0 (store.truncate shared_console) = (Inr ([mapGatewayAPIKey (owned_row 1 7)], 1), d)"
    by (simp add: gateway_ListAPIKeysByOwner_def ListAPIKeysByOwner_def repo_ListAPIKeysByOwner_def list_keys_def
        bind_op_def on_tbl_def db_stmt_def select_rows_def store Let_def normalizeLimit_def normalizeOffset_def page_def
        owned_row_def)
  then show ?thesis
    unfolding user_call [OF user] login
    by (simp add: handleGatewayUser_def login user_key_list_def call_gateway_def or_answer_def try_op_def on_gateway_def
        getInt_def anns_keys_def)
qed

theorem only_admins_change_the_gateway_witness:
  "keys (store.truncate (snd (Handle sample_rpc_env ann_context ''api'' ''key_disable_all'' None shared_console))) =
     keys shared_console"
proof -
  obtain answer c' where run: "Handle sample_rpc_env ann_context ''api'' ''key_disable_all'' None shared_console = (answer, c')"
    by fastforce
  have "store.truncate c' = (store.truncate shared_console)\<lparr>stmts := stmts c'\<rparr>"
    using only_admins_change_the_gateway [OF shared_console_facts(5,4) run] by blast
  then show ?thesis by (simp add: run truncate_fields)
qed

theorem users_see_their_own_witness:
  "fst (Handle sample_rpc_env ann_context ''api'' ''user_key_list'' None (own_view 7 shared_console)) = Inr anns_keys"
proof -
  let ?cl = "\<lparr>cl_UserID = 7, cl_Username = ''ann'', cl_Role = RoleUser\<rparr>"
  have "cx_Claims ann_context = Some ?cl" "0 < cl_UserID ?cl" "has_prefix ''user_key_list'' ''user_''"
    by (simp_all add: ann_context_def has_prefix_def)
  from users_see_their_own [OF this shared_console_facts(1,2), of sample_rpc_env None] show ?thesis
    using told by (simp add: shared_console_facts(3))
qed

theorem disabled_users_keep_their_session_witness:
  "fst (Handle sample_rpc_env ann_context ''api'' ''user_key_list'' None
     (shared_console\<lparr>user_tbl := \<lparr>rows = [sample_account 7 ''ann'' True], seq = 7\<rparr>\<rparr>)) = Inr anns_keys"
proof -
  have "has_prefix ''user_key_list'' ''user_''" by code_simp
  from disabled_users_keep_their_session [OF this] show ?thesis using told by simp
qed

end
