(* ===== verification/BackendTokens.thy ===== *)
theory BackendTokens
  imports BackendAdapter RestoreState
begin

text \<open>
  The access token of the upstream account (the client half of codex\_backend\_adapter.go): the file it
  is kept in, how it is read, when it is refreshed, how the refreshed tokens are written back, and
  the request that is sent with it. The file system is a map from paths to contents, beside the
  network; a write may fail after some of its bytes.
\<close>

section \<open>The machine\<close>

record http_request =
  hq_Method :: string
  hq_URL :: string
  hq_Headers :: "(string \<times> string) list"
  hq_Body :: string

text \<open>What of a body could be read, and the error that ended it.\<close>

record http_response =
  hr_Status :: int
  hr_Body :: string
  hr_ReadError :: "upstream_error option"

record 'n machine =
  mc_Files :: "string \<Rightarrow> string option"
  mc_Net :: 'n

text \<open>
  The HTTP client, after how many bytes a write fails, the clock, \<open>time.RFC3339Nano\<close>, the errors of
  \<open>http.NewRequest\<close> for a URL, the environment, the shortest text of a float, the context of the
  request: whether its time is over, a pause (false when the context ends it), its error.
\<close>

record 'n host =
  ho_Do :: "http_request \<Rightarrow> 'n \<Rightarrow> (upstream_error + http_response) \<times> 'n"
  ho_Cut :: "'n \<Rightarrow> nat option"
  ho_Now :: "'n \<Rightarrow> int"
  ho_Stamp :: "int \<Rightarrow> string"
  ho_URLError :: "string \<Rightarrow> upstream_error option"
  ho_Env :: "string \<Rightarrow> string"
  ho_Fmt :: "rat \<Rightarrow> string"
  ho_TimedOut :: "'n \<Rightarrow> bool"
  ho_Sleep :: "int \<Rightarrow> 'n \<Rightarrow> bool \<times> 'n"
  ho_ContextError :: "'n \<Rightarrow> upstream_error"

type_synonym ('n, 'a) host_op = "('n machine, 'a) call"

definition give :: "'a \<Rightarrow> ('w, 'a) call" where
  "give x w = (Inr x, w)"

definition give_up_with :: "upstream_error \<Rightarrow> ('w, 'a) call" where
  "give_up_with e w = (Inl e, w)"

definition and_then :: "('w, 'a) call \<Rightarrow> ('a \<Rightarrow> ('w, 'b) call) \<Rightarrow> ('w, 'b) call" where
  "and_then m f w = (case m w of (Inl e, w') \<Rightarrow> (Inl e, w') | (Inr x, w') \<Rightarrow> f x w')"

definition read_file :: "string \<Rightarrow> ('n, string) host_op" where
  "read_file path w =
     (case mc_Files w path of
        None \<Rightarrow> (Inl (TextError (''open '' @ path @ '': no such file or directory'')), w)
      | Some s \<Rightarrow> (Inr s, w))"

text \<open>\<open>os.WriteFile\<close> truncates the file before it writes.\<close>

definition write_file :: "'n host \<Rightarrow> string \<Rightarrow> string \<Rightarrow> ('n, unit) host_op" where
  "write_file h path s w =
     (case ho_Cut h (mc_Net w) of
        None \<Rightarrow> (Inr (), w\<lparr>mc_Files := (mc_Files w)(path \<mapsto> s)\<rparr>)
      | Some k \<Rightarrow> (Inl (TextError (''write '' @ path)), w\<lparr>mc_Files := (mc_Files w)(path \<mapsto> take k s)\<rparr>))"

definition http_send :: "'n host \<Rightarrow> http_request \<Rightarrow> ('n, http_response) host_op" where
  "http_send h r w =
     (case ho_URLError h (hq_URL r) of
        Some e \<Rightarrow> (Inl e, w)
      | None \<Rightarrow> (case ho_Do h r (mc_Net w) of (resp, n) \<Rightarrow> (resp, w\<lparr>mc_Net := n\<rparr>)))"

section \<open>Settings\<close>

definition first_set :: "(string \<Rightarrow> string) \<Rightarrow> string list \<Rightarrow> string \<Rightarrow> string" where
  "first_set env ks d = (case filter (\<lambda>v. v \<noteq> '''') (map (\<lambda>k. TrimSpace (env k)) ks) of v # _ \<Rightarrow> v | [] \<Rightarrow> d)"

definition codexBackendBaseURL :: "(string \<Rightarrow> string) \<Rightarrow> string" where
  "codexBackendBaseURL env = first_set env [''CODEX_BACKEND_BASE_URL''] ''https://chatgpt.com/backend-api/codex''"

definition trim_slashes :: "string \<Rightarrow> string" where
  "trim_slashes s = rev (dropWhile (\<lambda>c. c = CHR ''/'') (rev s))"

definition codexBackendResponsesURL :: "(string \<Rightarrow> string) \<Rightarrow> string" where
  "codexBackendResponsesURL env = trim_slashes (codexBackendBaseURL env) @ ''/responses''"

definition codexRefreshURL :: "(string \<Rightarrow> string) \<Rightarrow> string" where
  "codexRefreshURL env =
     first_set env [''CODEX_REFRESH_TOKEN_URL_OVERRIDE'', ''CODEX_BACKEND_REFRESH_URL''] ''https://auth.openai.com/oauth/token''"

definition codexBackendUserAgent :: "(string \<Rightarrow> string) \<Rightarrow> string" where
  "codexBackendUserAgent env = first_set env [''CODEX_BACKEND_USER_AGENT''] ''codex_cli_rs''"

definition codexBackendTimeout :: "(string \<Rightarrow> string) \<Rightarrow> int" where
  "codexBackendTimeout env =
     (case ParseInt (TrimSpace (env ''CODEX_BACKEND_TIMEOUT_SECONDS'')) of
        Some seconds \<Rightarrow> if seconds > 0 then wrap64 (seconds * second) else 28800 * second
      | None \<Rightarrow> 28800 * second)"

text \<open>\<open>filepath.Join\<close>: the parts that are not empty, joined and cleaned.\<close>

fun clean_parts :: "bool \<Rightarrow> string list \<Rightarrow> string list \<Rightarrow> string list" where
  "clean_parts rooted stack [] = rev stack"
| "clean_parts rooted stack (p # ps) =
     (if p = '''' \<or> p = ''.'' then clean_parts rooted stack ps
      else if p = ''..''
      then (case stack of
              q # qs \<Rightarrow> if q = ''..'' then clean_parts rooted (p # stack) ps else clean_parts rooted qs ps
            | [] \<Rightarrow> clean_parts rooted (if rooted then [] else [p]) ps)
      else clean_parts rooted (p # stack) ps)"

definition clean_path :: "string \<Rightarrow> string" where
  "clean_path path =
     (let rooted = has_prefix path ''/'';
          s = (if rooted then ''/'' else '''') @ join_with ''/'' (clean_parts rooted [] (split_on (CHR ''/'') path))
      in if s = '''' then ''.'' else s)"

definition filepath_Join :: "string list \<Rightarrow> string" where
  "filepath_Join elems =
     (let es = filter (\<lambda>e. e \<noteq> '''') elems in if es = [] then '''' else clean_path (join_with ''/'' es))"

definition codexAuthFilePath :: "(string \<Rightarrow> string) \<Rightarrow> upstream_error + string" where
  "codexAuthFilePath env =
     (if TrimSpace (env ''CODEX_AUTH_FILE'') \<noteq> '''' then Inr (TrimSpace (env ''CODEX_AUTH_FILE''))
      else if TrimSpace (env ''CODEX_HOME'') \<noteq> '''' then Inr (filepath_Join [TrimSpace (env ''CODEX_HOME''), ''auth.json''])
      else if env ''HOME'' = '''' then Inl (TextError ''$HOME is not defined'')
      else Inr (filepath_Join [env ''HOME'', ''.codex'', ''auth.json'']))"

section \<open>JSON web tokens\<close>

text \<open>\<open>base64.RawURLEncoding.DecodeString\<close>: line ends are skipped, there is no padding.\<close>

definition b64url_alphabet :: string where
  "b64url_alphabet = ''ABCDEFGHIJKLMNOPQRSTUVWXYZabcdefghijklmnopqrstuvwxyz0123456789-_''"

definition sextet :: "char \<Rightarrow> nat option" where
  "sextet c = index_of b64url_alphabet [c]"

fun sextets_bytes :: "nat list \<Rightarrow> string option" where
  "sextets_bytes [] = Some []"
| "sextets_bytes [a] = None"
| "sextets_bytes [a, b] = Some [char_of (a * 4 + b div 16)]"
| "sextets_bytes [a, b, c] = Some [char_of (a * 4 + b div 16), char_of ((b mod 16) * 16 + c div 4)]"
| "sextets_bytes (a # b # c # d # ds) =
     map_option (\<lambda>r. char_of (a * 4 + b div 16) # char_of ((b mod 16) * 16 + c div 4) # char_of ((c mod 4) * 64 + d) # r)
       (sextets_bytes ds)"

fun all_sextets :: "string \<Rightarrow> nat list option" where
  "all_sextets [] = Some []"
| "all_sextets (c # cs) =
     (case (sextet c, all_sextets cs) of (Some n, Some ns) \<Rightarrow> Some (n # ns) | _ \<Rightarrow> None)"

definition b64url_decode :: "string \<Rightarrow> string option" where
  "b64url_decode s =
     (case all_sextets (filter (\<lambda>c. c \<noteq> CHR 0x0A \<and> c \<noteq> CHR 0x0D) s) of None \<Rightarrow> None | Some ns \<Rightarrow> sextets_bytes ns)"

definition jwtClaims :: "string \<Rightarrow> obj" where
  "jwtClaims token =
     (case split_on (CHR ''.'') token of
        _ # payload # _ \<Rightarrow>
          (case b64url_decode payload of
             None \<Rightarrow> []
           | Some s \<Rightarrow> (case decode_object s of None \<Rightarrow> [] | Some m \<Rightarrow> m))
      | _ \<Rightarrow> [])"

text \<open>\<open>time.Unix\<close> counts the seconds from the year 1 and wraps around.\<close>

definition zero_to_epoch :: int where
  "zero_to_epoch = 62135596800"

definition jwtExpiresSoon :: "int \<Rightarrow> string \<Rightarrow> int \<Rightarrow> bool" where
  "jwtExpiresSoon now token skew =
     (let exp = int64Value (field (jwtClaims token) ''exp'')
      in 0 < exp \<and> (wrap64 (exp + zero_to_epoch) - zero_to_epoch) * second - now \<le> skew)"

definition accountIDFromJWT :: "string \<Rightarrow> string" where
  "accountIDFromJWT token = stringValue (field (jwtClaims token) ''chatgpt_account_id'')"

section \<open>The file\<close>

text \<open>\<open>id_token\<close> is any JSON value, \<open>None\<close> when there is none.\<close>

record codexAuthTokens =
  IDToken :: "json option"
  AccessToken :: string
  RefreshToken :: string
  AccountID :: string

definition accountIDFromTokenData :: "codexAuthTokens \<Rightarrow> string" where
  "accountIDFromTokenData tokens =
     (let acc = accountIDFromJWT (AccessToken tokens)
      in if acc \<noteq> '''' then acc
         else case IDToken tokens of
                Some (JStr s) \<Rightarrow> accountIDFromJWT s
              | Some (JObj claims) \<Rightarrow> stringValue (field claims ''chatgpt_account_id'')
              | _ \<Rightarrow> '''')"

definition is_tokens :: "json \<Rightarrow> bool" where
  "is_tokens v =
     (case v of
        JObj m \<Rightarrow> \<forall>n \<in> set [''access_token'', ''refresh_token'', ''account_id'']. list_all is_text (members m n)
      | JNull \<Rightarrow> True
      | _ \<Rightarrow> False)"

text \<open>\<open>json.Unmarshal\<close> into the struct.\<close>

definition tokens_of :: "obj \<Rightarrow> codexAuthTokens" where
  "tokens_of m =
     (let t = concat (map (\<lambda>v. nil_map (mapValue v)) (members m ''tokens''))
      in \<lparr>IDToken = (case rev (members t ''id_token'') of v # _ \<Rightarrow> Some v | [] \<Rightarrow> None),
          AccessToken = text_member t ''access_token'', RefreshToken = text_member t ''refresh_token'',
          AccountID = text_member t ''account_id''\<rparr>)"

definition auth_file_of :: "string \<Rightarrow> (codexAuthTokens \<times> obj) option" where
  "auth_file_of s =
     (case decode_object s of
        Some m \<Rightarrow>
          if list_all is_tokens (members m ''tokens'') \<and> list_all is_text (members m ''last_refresh'')
          then Some (tokens_of m, m) else None
      | None \<Rightarrow> None)"

definition loadCodexAuthFile :: "string \<Rightarrow> ('n, codexAuthTokens \<times> obj) host_op" where
  "loadCodexAuthFile path =
     and_then (read_file path) (\<lambda>s.
       case auth_file_of s of None \<Rightarrow> give_up_with (TextError ''json: cannot unmarshal'') | Some a \<Rightarrow> give a)"

text \<open>\<open>json.MarshalIndent\<close> of a map writes its names in order, at every level.\<close>

fun in_order :: "json \<Rightarrow> json" where
  "in_order (JObj m) = JObj (sort_key fst (map (\<lambda>(k, v). (k, in_order v)) m))"
| "in_order (JArr vs) = JArr (map in_order vs)"
| "in_order v = v"

fun indent_with :: "(rat \<Rightarrow> string) \<Rightarrow> nat \<Rightarrow> json \<Rightarrow> string" where
  "indent_with f d (JNum q) = encode_number f q"
| "indent_with f d (JArr vs) = spread d (CHR ''['') (CHR '']'') (map (indent_with f (Suc d)) vs)"
| "indent_with f d (JObj m) =
     spread d (CHR ''{'') (CHR ''}'') (map (\<lambda>(k, v). encode_string k @ '': '' @ indent_with f (Suc d) v) m)"
| "indent_with f d v = indent_json d v"

definition token_map :: "obj \<Rightarrow> codexAuthTokens \<Rightarrow> obj" where
  "token_map old tokens =
     (let m1 = AList.update ''access_token'' (JStr (AccessToken tokens)) old;
          m2 = AList.update ''refresh_token'' (JStr (RefreshToken tokens)) m1;
          m3 = (if AccountID tokens \<noteq> '''' then AList.update ''account_id'' (JStr (AccountID tokens)) m2 else m2)
      in case IDToken tokens of Some v \<Rightarrow> AList.update ''id_token'' v m3 | None \<Rightarrow> m3)"

definition auth_file_json :: "obj \<Rightarrow> codexAuthTokens \<Rightarrow> string \<Rightarrow> obj" where
  "auth_file_json raw tokens stamp =
     AList.update ''last_refresh'' (JStr stamp)
       (AList.update ''tokens'' (JObj (token_map (nil_map (mapValue (field raw ''tokens''))) tokens)) raw)"

definition saveCodexAuthFile :: "'n host \<Rightarrow> string \<Rightarrow> obj \<Rightarrow> codexAuthTokens \<Rightarrow> ('n, unit) host_op" where
  "saveCodexAuthFile h path raw tokens w =
     write_file h path
       (indent_with (ho_Fmt h) 0 (in_order (JObj (auth_file_json raw tokens (ho_Stamp h (ho_Now h (mc_Net w)))))) @ [CHR 0x0A]) w"

section \<open>Refreshing\<close>

definition ok_status :: "int \<Rightarrow> bool" where
  "ok_status status = (200 \<le> status \<and> status < 300)"

definition requestCodexTokenRefresh :: "'n host \<Rightarrow> string \<Rightarrow> ('n, codexAuthTokens) host_op" where
  "requestCodexTokenRefresh h refreshToken =
     and_then (http_send h
       \<lparr>hq_Method = ''POST'', hq_URL = codexRefreshURL (ho_Env h),
        hq_Headers = [(''Content-Type'', ''application/json''), (''User-Agent'', codexBackendUserAgent (ho_Env h))],
        hq_Body = json_encode (ho_Fmt h) (JObj [(''client_id'', JStr ''app_EMoamEEZ73f0CkXaXp7hrann''),
          (''grant_type'', JStr ''refresh_token''), (''refresh_token'', JStr refreshToken)])\<rparr>) (\<lambda>resp.
       if \<not> ok_status (hr_Status resp)
       then give_up_with (TextError (''codex token refresh failed: status='' @ Itoa (hr_Status resp) @ '' body='' @
              summarizeCodexBackendBody (hr_Body resp)))
       else (case decode_object (hr_Body resp) of
               Some m \<Rightarrow>
                 if \<forall>n \<in> set [''access_token'', ''refresh_token'']. list_all is_text (members m n)
                 then let refreshed = tokens_of [(''tokens'', JObj m)]
                      in if TrimSpace (AccessToken refreshed) = ''''
                         then give_up_with (TextError ''codex token refresh returned no access token'')
                         else give refreshed
                 else give_up_with (TextError ''json: cannot unmarshal'')
             | None \<Rightarrow> give_up_with (TextError ''json: cannot unmarshal'')))"

text \<open>The tokens after a refresh; \<open>account\<close> is the id of the account if it was known before.\<close>

definition merged_tokens :: "codexAuthTokens \<Rightarrow> codexAuthTokens \<Rightarrow> string \<Rightarrow> codexAuthTokens" where
  "merged_tokens tokens refreshed account =
     (let t1 = (if TrimSpace (AccessToken refreshed) \<noteq> '''' then tokens\<lparr>AccessToken := AccessToken refreshed\<rparr> else tokens);
          t2 = (if TrimSpace (RefreshToken refreshed) \<noteq> '''' then t1\<lparr>RefreshToken := RefreshToken refreshed\<rparr> else t1);
          t3 = (if IDToken refreshed \<noteq> None then t2\<lparr>IDToken := IDToken refreshed\<rparr> else t2);
          acc = (if account = '''' then accountIDFromTokenData t3 else account)
      in if acc \<noteq> '''' then t3\<lparr>AccountID := acc\<rparr> else t3)"

definition account_of :: "codexAuthTokens \<Rightarrow> string" where
  "account_of tokens =
     (if TrimSpace (AccountID tokens) = '''' then accountIDFromTokenData tokens else TrimSpace (AccountID tokens))"

definition refresh_tokens :: "'n host \<Rightarrow> string \<Rightarrow> codexAuthTokens \<Rightarrow> obj \<Rightarrow> ('n, string \<times> string) host_op" where
  "refresh_tokens h path tokens raw =
     (if TrimSpace (RefreshToken tokens) = ''''
      then give_up_with (TextError (''codex auth file has no refresh token: '' @ path))
      else and_then (requestCodexTokenRefresh h (RefreshToken tokens)) (\<lambda>refreshed.
           let account = account_of tokens;
               t = merged_tokens tokens refreshed account;
               acc = (if account = '''' then accountIDFromTokenData t else account)
           in and_then (saveCodexAuthFile h path raw t) (\<lambda>_. give (AccessToken t, acc))))"

definition codexAccessToken :: "'n host \<Rightarrow> bool \<Rightarrow> ('n, string \<times> string) host_op" where
  "codexAccessToken h forceRefresh w =
     (case codexAuthFilePath (ho_Env h) of
        Inl e \<Rightarrow> (Inl e, w)
      | Inr path \<Rightarrow>
          and_then (loadCodexAuthFile path) (\<lambda>(tokens, raw).
            if TrimSpace (AccessToken tokens) = ''''
            then give_up_with (TextError (''codex auth file has no access token: '' @ path))
            else if \<not> forceRefresh \<and> \<not> jwtExpiresSoon (ho_Now h (mc_Net w)) (AccessToken tokens) (300 * second)
            then give (AccessToken tokens, account_of tokens)
            else refresh_tokens h path tokens raw) w)"

section \<open>The request\<close>

definition openResponses :: "'n host \<Rightarrow> obj \<Rightarrow> bool \<Rightarrow> ('n, http_response) host_op" where
  "openResponses h body forceRefresh =
     and_then (codexAccessToken h forceRefresh) (\<lambda>(accessToken, accountID).
     and_then (http_send h
       \<lparr>hq_Method = ''POST'', hq_URL = codexBackendResponsesURL (ho_Env h),
        hq_Headers = [(''Content-Type'', ''application/json''), (''Accept'', ''text/event-stream''),
          (''Authorization'', ''Bearer '' @ accessToken), (''Originator'', ''codex_cli_rs''),
          (''User-Agent'', codexBackendUserAgent (ho_Env h))] @
          (if accountID \<noteq> '''' then [(''ChatGPT-Account-Id'', accountID)] else []),
        hq_Body = json_encode (ho_Fmt h) (JObj body)\<rparr>) (\<lambda>resp.
       if \<not> ok_status (hr_Status resp) then give_up_with (HTTPError (hr_Status resp) (hr_Body resp)) else give resp))"

definition postResponses :: "'n host \<Rightarrow> obj \<Rightarrow> bool \<Rightarrow> ('n, string) host_op" where
  "postResponses h body forceRefresh =
     and_then (openResponses h body forceRefresh) (\<lambda>resp.
       case hr_ReadError resp of Some e \<Rightarrow> give_up_with e | None \<Rightarrow> give (hr_Body resp))"

text \<open>The pause before the next attempt.\<close>

definition sleepBeforeCodexBackendRetry :: "'n host \<Rightarrow> nat \<Rightarrow> 'n machine \<Rightarrow> bool \<times> 'n machine" where
  "sleepBeforeCodexBackendRetry h attempt w =
     (case ho_Sleep h (int (250 * (attempt + 1)) * 1000000) (mc_Net w) of (b, n) \<Rightarrow> (b, w\<lparr>mc_Net := n\<rparr>))"

text \<open>The client the calls of the upstream are made with: whole answers, and streams.\<close>

definition http_client :: "'n host \<Rightarrow> obj \<Rightarrow> ('n machine, string) backend" where
  "http_client h body =
     \<lparr>do_post = postResponses h body, timed_out = (\<lambda>w. ho_TimedOut h (mc_Net w)),
      pause = sleepBeforeCodexBackendRetry h, context_error = (\<lambda>w. ho_ContextError h (mc_Net w))\<rparr>"

definition stream_client :: "'n host \<Rightarrow> obj \<Rightarrow> ('n machine, http_response) backend" where
  "stream_client h body =
     \<lparr>do_post = openResponses h body, timed_out = (\<lambda>w. ho_TimedOut h (mc_Net w)),
      pause = sleepBeforeCodexBackendRetry h, context_error = (\<lambda>w. ho_ContextError h (mc_Net w))\<rparr>"

definition openResponsesWithRetry :: "'n host \<Rightarrow> obj \<Rightarrow> ('n, http_response) host_op" where
  "openResponsesWithRetry h body = attempts (stream_client h body) None Inr 0 (codexBackendRetries (ho_Env h))"

definition client_runWithOptions ::
  "'n host \<Rightarrow> unit result \<Rightarrow> string \<Rightarrow> string \<Rightarrow> string \<Rightarrow> string \<Rightarrow> string \<Rightarrow> gatewayRequestOptions \<Rightarrow> ('n, answer) host_op" where
  "client_runWithOptions h io timeout =
     codexBackend_runWithOptions (ho_Env h) (ho_Fmt h) io timeout (http_client h)"

end
