(* ===== verification/RestoreText.thy ===== *)
theory RestoreText
  imports RestoreState
begin

text \<open>
  The texts of JSON values read back: what \<open>json.Marshal\<close> makes of a string and what
  \<open>json.MarshalIndent\<close> makes of a value without numbers. Invalid bytes come back as U+FFFD. For
  the restore state of a conversation: a summary that is written whole is read back as it was,
  a summary that was cut to its limit cannot be read.
\<close>

section \<open>Strings\<close>

lemma hex_value_digit: "n < 16 \<Longrightarrow> hex_value (''0123456789abcdef'' ! n) = Some n"
proof -
  assume "n < 16"
  then have "n \<in> set [0..<16]" by simp
  moreover have "list_all (\<lambda>n. hex_value (''0123456789abcdef'' ! n) = Some n) [0..<16]" by code_simp
  ultimately show ?thesis by (simp add: list_all_iff)
qed

lemma byte_of_char [simp]: "byte_of (of_char c) = c"
  by (simp add: byte_of_def)

lemma parse_escape_char:
  assumes "(of_char c :: nat) < 0x80"
  shows "parse_chars (Suc k) (escape_char c @ t) = map_option (apfst (Cons c)) (parse_chars k t)"
proof -
  consider (special) "c = CHR 0x22 \<or> c = CHR 0x5C \<or> c = CHR 0x08 \<or> c = CHR 0x0C \<or> c = CHR 0x0A \<or> c = CHR 0x0D \<or> c = CHR 0x09"
    | (hex) "c \<noteq> CHR 0x22" "c \<noteq> CHR 0x5C" "c \<noteq> CHR 0x08" "c \<noteq> CHR 0x0C" "c \<noteq> CHR 0x0A" "c \<noteq> CHR 0x0D"
        "c \<noteq> CHR 0x09" "(of_char c :: nat) < 0x20 \<or> c \<in> {CHR ''<'', CHR ''>'', CHR ''&''}"
    | (plain) "c \<noteq> CHR 0x22" "c \<noteq> CHR 0x5C" "c \<noteq> CHR 0x08" "c \<noteq> CHR 0x0C" "c \<noteq> CHR 0x0A" "c \<noteq> CHR 0x0D"
        "c \<noteq> CHR 0x09" "\<not> (of_char c :: nat) < 0x20" "c \<notin> {CHR ''<'', CHR ''>'', CHR ''&''}"
    by blast
  then show ?thesis
  proof cases
    case special
    then show ?thesis by (auto simp: escape_char_def simple_escape_def)
  next
    case hex
    then have "escape_char c = CHR 0x5C # ''u00'' @ [''0123456789abcdef'' ! (of_char c div 16), ''0123456789abcdef'' ! (of_char c mod 16)]"
      by (auto simp: escape_char_def)
    moreover have "hex_value (''0123456789abcdef'' ! (of_char c div 16)) = Some (of_char c div 16)"
      using assms by (intro hex_value_digit) simp
    moreover have "hex_value (''0123456789abcdef'' ! (of_char c mod 16)) = Some (of_char c mod 16)"
      by (intro hex_value_digit) simp
    moreover have "hex_value (CHR ''0'') = Some 0" by code_simp
    moreover have "(@) [c] = (#) c" by (rule ext) simp
    ultimately show ?thesis using assms
      by (simp add: parse_hex4_def unicode_escape_def utf8_encode_def)
  next
    case plain
    then have "escape_char c = [c]" by (simp add: escape_char_def)
    then show ?thesis using plain assms by simp
  qed
qed

lemma escape_char_pos: "0 < length (escape_char c)"
  by (simp add: escape_char_def)

lemma line_separators:
  "utf8_encode 0x2028 = [CHR 0xE2, CHR 0x80, CHR 0xA8]" "utf8_encode 0x2029 = [CHR 0xE2, CHR 0x80, CHR 0xA9]"
  by (simp_all add: utf8_encode_def byte_of_def char_of_eq_iff take_bit_eq_mod)

lemma parse_unicode:
  assumes "hex_value a = Some i" "hex_value b = Some j" "hex_value c = Some k" "hex_value d = Some l"
    and "((i * 16 + j) * 16 + k) * 16 + l < 0xD800 \<or> 0xE000 \<le> ((i * 16 + j) * 16 + k) * 16 + l"
  shows "parse_chars (Suc n) (CHR 0x5C # CHR ''u'' # a # b # c # d # t) =
    map_option (apfst ((@) (utf8_encode (((i * 16 + j) * 16 + k) * 16 + l)))) (parse_chars n t)"
  using assms by (simp add: parse_hex4_def unicode_escape_def)

text \<open>The escape of a rune beyond ASCII, given with its bytes.\<close>

definition escape_rune :: "nat \<Rightarrow> string \<Rightarrow> string" where
  "escape_rune w bytes =
     (if w = 1 then CHR 0x5C # ''ufffd''
      else if bytes = [CHR 0xE2, CHR 0x80, CHR 0xA8] then CHR 0x5C # ''u2028''
      else if bytes = [CHR 0xE2, CHR 0x80, CHR 0xA9] then CHR 0x5C # ''u2029''
      else bytes)"

lemma parse_escape_rune:
  assumes "s \<noteq> ''''" "0x80 \<le> (of_char (hd s) :: nat)"
  shows "parse_chars (Suc n) (escape_rune (rune_width s) (take (rune_width s) s) @ t) =
    map_option (apfst ((@) (if rune_width s = 1 then replacement else take (rune_width s) s))) (parse_chars n t)"
proof -
  have hex: "hex_value (CHR ''f'') = Some 15" "hex_value (CHR ''d'') = Some 13" "hex_value (CHR ''2'') = Some 2"
    "hex_value (CHR ''0'') = Some 0" "hex_value (CHR ''8'') = Some 8" "hex_value (CHR ''9'') = Some 9"
    by code_simp+
  let ?b = "take (rune_width s) s"
  consider (bad) "rune_width s = 1" | (sep) "rune_width s \<noteq> 1" "?b = utf8_encode 0x2028 \<or> ?b = utf8_encode 0x2029"
    | (good) "rune_width s \<noteq> 1" "?b \<noteq> utf8_encode 0x2028" "?b \<noteq> utf8_encode 0x2029" by blast
  then show ?thesis
  proof cases
    case bad
    then show ?thesis
      using parse_unicode [OF hex(1) hex(1) hex(1) hex(2), of n t]
      by (simp add: escape_rune_def replacement_def)
  next
    case sep
    then show ?thesis
      using parse_unicode [OF hex(3) hex(4) hex(3) hex(5), of n t] parse_unicode [OF hex(3) hex(4) hex(3) hex(6), of n t]
      by (auto simp: escape_rune_def line_separators)
  next
    case good
    then have r: "rune ?b" using rune_take [OF assms(1)] by simp
    obtain c b where b: "?b = c # b" using r by (cases ?b) (auto simp: rune_def)
    then have c: "c = hd s" by (metis hd_append2 append_take_drop_id list.sel(1) list.distinct(1))
    have w: "rune_width (?b @ t) = length ?b" using r by (rule rune_width_append)
    have l: "length ?b = rune_width s" using rune_width_le by simp
    have e: "escape_rune (rune_width s) (c # b) = c # b"
      using good unfolding b by (simp add: escape_rune_def line_separators)
    have n: "c \<noteq> CHR 0x22" "c \<noteq> CHR 0x5C" "\<not> (of_char c :: nat) < 0x20" "\<not> (of_char c :: nat) < 0x80"
      using assms(2) c by auto
    have "take (rune_width s) (c # b @ t) = c # b" "drop (rune_width s) (c # b @ t) = t"
      using l unfolding b by (cases "rune_width s"; simp)+
    then show ?thesis using w l n good(1) unfolding b
      by (simp add: e Let_def del: rune_width.simps)
  qed
qed

lemma escape_rune_pos: "s \<noteq> '''' \<Longrightarrow> 0 < length (escape_rune (rune_width s) (take (rune_width s) s))"
  by (simp add: escape_rune_def rune_width_pos)

lemma to_utf8_step:
  "s \<noteq> '''' \<Longrightarrow> to_utf8 s = (if rune_width s = 1 \<and> 0x80 \<le> (of_char (hd s) :: nat) then replacement else take (rune_width s) s) @
     to_utf8 (drop (rune_width s) s)"
  unfolding to_utf8_def by (subst runes.simps) simp

lemma parse_escaped:
  "length s \<le> n \<Longrightarrow> length (escape_chars n s) < k \<Longrightarrow>
   parse_chars k (escape_chars n s @ CHR 0x22 # t) = Some (to_utf8 s, t)"
proof (induction n arbitrary: s k)
  case 0
  then show ?case by (cases k) (simp_all add: to_utf8_def)
next
  case (Suc n)
  obtain k' where k: "k = Suc k'" using Suc.prems by (cases k) simp_all
  show ?case
  proof (cases s)
    case Nil
    then show ?thesis by (simp add: k to_utf8_def)
  next
    case (Cons c r)
    show ?thesis
    proof (cases "(of_char c :: nat) < 0x80")
      case True
      then have w: "rune_width s = 1" by (simp add: Cons lead_width_ascii)
      have "length (escape_char c) + length (escape_chars n r) < Suc k'" using Suc.prems(2) True by (simp add: Cons k)
      then have "length (escape_chars n r) < k'" using escape_char_pos [of c] by linarith
      then show ?thesis using Suc True w
        by (simp add: Cons k parse_escape_char to_utf8_step [of s] to_utf8_step [of "c # r"])
    next
      case False
      let ?e = "escape_rune (rune_width s) (take (rune_width s) s)"
      have e: "escape_chars (Suc n) s = ?e @ escape_chars n (drop (rune_width s) s)"
        using False by (simp add: Cons escape_rune_def Let_def del: rune_width.simps)
      have "length ?e + length (escape_chars n (drop (rune_width s) s)) < Suc k'"
        using Suc.prems(2) unfolding e k by (simp del: rune_width.simps)
      moreover have "0 < length ?e" using Cons by (intro escape_rune_pos) simp
      ultimately have "length (escape_chars n (drop (rune_width s) s)) < k'" by linarith
      moreover have "length (drop (rune_width s) s) \<le> n"
        using Suc.prems(1) rune_width_pos [of s] by (simp add: Cons del: rune_width.simps)
      ultimately have "parse_chars k' (escape_chars n (drop (rune_width s) s) @ CHR 0x22 # t) =
          Some (to_utf8 (drop (rune_width s) s), t)" by (rule Suc.IH [rotated])
      then show ?thesis
        using False parse_escape_rune [of s k'] unfolding e
        by (simp add: k Cons to_utf8_step [of "c # r"] del: rune_width.simps)
    qed
  qed
qed

lemma parse_encoded_string:
  "parse_value (Suc n) d (encode_string s @ t) = Some (JStr (to_utf8 s), t)"
proof -
  have "parse_chars (Suc (length (escape_chars (length s) s @ CHR 0x22 # t))) (escape_chars (length s) s @ CHR 0x22 # t) =
      Some (to_utf8 s, t)" by (rule parse_escaped) simp_all
  then show ?thesis by (simp add: encode_string_def skip_space_def is_space_def)
qed

section \<open>Values\<close>

fun plain :: "json \<Rightarrow> bool" where
  "plain (JNum q) = False"
| "plain (JArr vs) = list_all plain vs"
| "plain (JObj m) = (distinct (map fst m) \<and> list_all (\<lambda>(k, v). to_utf8 k = k \<and> plain v) m)"
| "plain v = True"

fun cleaned :: "json \<Rightarrow> json" where
  "cleaned (JStr s) = JStr (to_utf8 s)"
| "cleaned (JArr vs) = JArr (map cleaned vs)"
| "cleaned (JObj m) = JObj (map (\<lambda>(k, v). (k, cleaned v)) m)"
| "cleaned v = v"

fun depth :: "json \<Rightarrow> nat" where
  "depth (JArr vs) = Suc (Max (insert 0 (depth ` set vs)))"
| "depth (JObj m) = Suc (Max (insert 0 ((\<lambda>(k, v). depth v) ` set m)))"
| "depth v = 0"

lemma update_new_key: "k \<notin> fst ` set m \<Longrightarrow> AList.update k v m = m @ [(k, v)]"
  by (induction m) auto

lemma skip_spaces: "list_all is_space ws \<Longrightarrow> skip_space (ws @ s) = skip_space s"
  by (induction ws) (simp_all add: skip_space_def)

lemma parse_value_spaces: "list_all is_space ws \<Longrightarrow> parse_value n d (ws @ s) = parse_value n d s"
  by (cases n) (simp_all add: skip_spaces)

lemma new_line_space: "list_all is_space (new_line d)"
  by (simp add: new_line_def is_space_def list_all_iff)

lemma skip_new_line [simp]: "skip_space (new_line d @ s) = skip_space s"
  by (simp add: skip_spaces new_line_space)

lemma skip_mark: "\<not> is_space c \<Longrightarrow> skip_space (c # s) = c # s"
  by (simp add: skip_space_def)

text \<open>What \<open>indent_json\<close> and \<open>parse_value\<close> agree on for a value.\<close>

definition reads_back :: "nat \<Rightarrow> nat \<Rightarrow> json \<Rightarrow> bool" where
  "reads_back d i v \<longleftrightarrow>
     (\<forall>n t. 2 * length (indent_json i v) \<le> n \<longrightarrow> parse_value n d (indent_json i v @ t) = Some (cleaned v, t))"

lemma reads_backD:
  "reads_back d i v \<Longrightarrow> 2 * length (indent_json i v) \<le> n \<Longrightarrow> parse_value n d (indent_json i v @ t) = Some (cleaned v, t)"
  unfolding reads_back_def by blast

definition elements_text :: "nat \<Rightarrow> json list \<Rightarrow> string" where
  "elements_text i vs = join_with '','' (map (\<lambda>v. new_line i @ indent_json i v) vs)"

lemma length_new_line: "length (new_line i) = Suc (2 * i)"
  by (simp add: new_line_def)

lemma parse_elements_text:
  assumes "\<forall>v \<in> set vs. reads_back d i v" "vs \<noteq> []" "2 * length (elements_text i vs) \<le> n"
  shows "parse_elements n d (elements_text i vs @ new_line j @ CHR '']'' # t) = Some (map cleaned vs, t)"
  using assms
proof (induction vs arbitrary: n)
  case (Cons v vs)
  obtain n' where n: "n = Suc n'"
    using Cons.prems(3) length_new_line [of i] by (cases n; cases vs) (auto simp: elements_text_def)
  have e: "elements_text i (v # vs) = new_line i @ indent_json i v @ (if vs = [] then [] else '','' @ elements_text i vs)"
    by (cases vs) (simp_all add: elements_text_def)
  have "2 * length (indent_json i v) \<le> n'"
    using Cons.prems(3) length_new_line [of i] unfolding e n by auto
  then have v: "parse_value n' d (new_line i @ indent_json i v @ r) = Some (cleaned v, r)" for r
    using Cons.prems(1) by (simp add: parse_value_spaces [OF new_line_space] reads_back_def)
  show ?case
  proof (cases "vs = []")
    case True
    then show ?thesis using v unfolding e n
      by (simp add: skip_mark is_space_def)
  next
    case False
    then have "2 * length (elements_text i vs) \<le> n'"
      using Cons.prems(3) length_new_line [of i] unfolding e n by simp
    then have "parse_elements n' d (elements_text i vs @ new_line j @ CHR '']'' # t) = Some (map cleaned vs, t)"
      using Cons False by simp
    then show ?thesis using v False unfolding e n by (simp add: skip_mark is_space_def)
  qed
qed simp

definition members_text :: "nat \<Rightarrow> obj \<Rightarrow> string" where
  "members_text i m = join_with '','' (map (\<lambda>(k, v). new_line i @ encode_string k @ '': '' @ indent_json i v) m)"

lemma parse_members_text:
  assumes "\<forall>(k, v) \<in> set m. to_utf8 k = k \<and> reads_back d i v" "m \<noteq> []" "2 * length (members_text i m) \<le> n"
    "distinct (map fst (acc @ m))"
  shows "parse_members n d acc (members_text i m @ new_line j @ CHR ''}'' # t) =
    Some (acc @ map (\<lambda>(k, v). (k, cleaned v)) m, t)"
  using assms
proof (induction m arbitrary: n acc)
  case (Cons kv m)
  obtain k v where kv: "kv = (k, v)" by (cases kv)
  obtain n' where n: "n = Suc n'"
    using Cons.prems(3) length_new_line [of i] by (cases n; cases m) (auto simp: members_text_def kv)
  have e: "members_text i (kv # m) =
      new_line i @ encode_string k @ '': '' @ indent_json i v @ (if m = [] then [] else '','' @ members_text i m)"
    by (cases m) (simp_all add: members_text_def kv)
  have "2 * length (indent_json i v) \<le> n'"
    using Cons.prems(3) length_new_line [of i] unfolding e n by auto
  then have v: "parse_value n' d ('' '' @ indent_json i v @ r) = Some (cleaned v, r)" for r
    using Cons.prems(1) parse_value_spaces [of "'' ''" n' d] by (simp add: kv is_space_def reads_back_def)
  have k: "to_utf8 k = k" "k \<notin> fst ` set acc" using Cons.prems by (auto simp: kv)
  have p: "strip_prefix [CHR 0x22] (skip_space (encode_string k @ r)) = Some (escape_chars (length k) k @ CHR 0x22 # r)" for r
    by (simp add: encode_string_def skip_mark is_space_def)
  show ?case
  proof (cases "m = []")
    case True
    then show ?thesis using v k unfolding e n append_assoc
      by (simp add: p parse_escaped update_new_key kv skip_mark is_space_def)
  next
    case False
    then have "2 * length (members_text i m) \<le> n'"
      using Cons.prems(3) length_new_line [of i] unfolding e n by simp
    then have "parse_members n' d (acc @ [(k, cleaned v)]) (members_text i m @ new_line j @ CHR ''}'' # t) =
        Some ((acc @ [(k, cleaned v)]) @ map (\<lambda>(k, v). (k, cleaned v)) m, t)"
      using Cons.prems False by (intro Cons.IH) (auto simp: kv)
    then show ?thesis using v k False unfolding e n append_assoc
      by (simp add: p parse_escaped update_new_key kv skip_mark is_space_def)
  qed
qed simp

lemma indent_first: "plain v \<Longrightarrow> \<exists>c s. indent_json i v = c # s \<and> c \<in> set ''ntf[{'' \<union> {CHR 0x22}"
  by (cases v) (auto simp: encode_string_def spread_def)

lemma array_text: "vs \<noteq> [] \<Longrightarrow> indent_json i (JArr vs) = CHR ''['' # elements_text (Suc i) vs @ new_line i @ '']''"
  by (simp add: spread_def elements_text_def comp_def)

lemma object_text: "m \<noteq> [] \<Longrightarrow> indent_json i (JObj m) = CHR ''{'' # members_text (Suc i) m @ new_line i @ ''}''"
  by (simp add: spread_def members_text_def comp_def case_prod_unfold)

lemma elements_first:
  assumes "vs \<noteq> []" "\<forall>v \<in> set vs. plain v"
  shows "strip_prefix '']'' (skip_space (elements_text i vs @ t)) = None"
proof -
  obtain v ws where vs: "vs = v # ws" using assms(1) by (cases vs) simp_all
  obtain c s where c: "indent_json i v = c # s" "c \<in> set ''ntf[{'' \<union> {CHR 0x22}"
    using indent_first [of v i] assms(2) vs by auto
  obtain r where "elements_text i vs @ t = new_line i @ c # r"
    using c(1) vs by (cases ws) (auto simp: elements_text_def)
  then show ?thesis using c(2) by (auto simp: skip_mark is_space_def)
qed

lemma members_first:
  assumes "m \<noteq> []"
  shows "strip_prefix ''}'' (skip_space (members_text i m @ t)) = None"
proof -
  obtain k v m' where m: "m = (k, v) # m'" using assms by (cases m) auto
  obtain r where "members_text i m @ t = new_line i @ CHR 0x22 # r"
    using m by (cases m') (auto simp: members_text_def encode_string_def)
  then show ?thesis by (auto simp: skip_mark is_space_def)
qed

lemma parse_literals:
  "0 < n \<Longrightarrow> parse_value n d (''null'' @ t) = Some (JNull, t)"
  "0 < n \<Longrightarrow> parse_value n d (''true'' @ t) = Some (JBool True, t)"
  "0 < n \<Longrightarrow> parse_value n d (''false'' @ t) = Some (JBool False, t)"
  by (cases n; simp add: skip_mark is_space_def)+

lemma encode_nonempty: "encode_string s \<noteq> []"
  by (simp add: encode_string_def)

lemma indent_reads_back: "plain v \<Longrightarrow> d + depth v \<le> max_nesting \<Longrightarrow> reads_back d i v"
proof (induction v arbitrary: d i)
  case (JStr s)
  show ?case unfolding reads_back_def
  proof (intro allI impI)
    fix n t
    assume "2 * length (indent_json i (JStr s)) \<le> n"
    then show "parse_value n d (indent_json i (JStr s) @ t) = Some (cleaned (JStr s), t)"
      by (cases n) (simp_all add: parse_encoded_string encode_nonempty del: parse_value.simps)
  qed
next
  case (JArr vs)
  show ?case unfolding reads_back_def
  proof (intro allI impI)
    fix n t
    assume n: "2 * length (indent_json i (JArr vs)) \<le> n"
    then obtain n' where n': "n = Suc n'" by (cases n) (auto simp: spread_def split: if_splits)
    have d: "\<not> max_nesting \<le> d" using JArr.prems(2) by simp
    show "parse_value n d (indent_json i (JArr vs) @ t) = Some (cleaned (JArr vs), t)"
    proof (cases "vs = []")
      case True
      then show ?thesis using d by (simp add: n' spread_def skip_mark is_space_def)
    next
      case False
      have vs: "\<forall>v \<in> set vs. plain v" using JArr.prems(1) by (simp add: list_all_iff)
      have "reads_back (Suc d) (Suc i) v" if "v \<in> set vs" for v
      proof (rule JArr.IH [OF that])
        have "depth v \<le> Max (insert 0 (depth ` set vs))" using that by (intro Max_ge) auto
        then show "Suc d + depth v \<le> max_nesting" using JArr.prems(2) by simp
      qed (use vs that in blast)
      moreover have "2 * length (elements_text (Suc i) vs) \<le> n'"
        using n unfolding array_text [OF False] n' by simp
      ultimately have "parse_elements n' (Suc d) (elements_text (Suc i) vs @ new_line i @ CHR '']'' # t) = Some (map cleaned vs, t)"
        using False by (intro parse_elements_text) blast+
      then show ?thesis using d elements_first [OF False vs] unfolding array_text [OF False] n'
        by (simp add: skip_mark is_space_def)
    qed
  qed
next
  case (JObj m)
  show ?case unfolding reads_back_def
  proof (intro allI impI)
    fix n t
    assume n: "2 * length (indent_json i (JObj m)) \<le> n"
    then obtain n' where n': "n = Suc n'" by (cases n) (auto simp: spread_def split: if_splits)
    have d: "\<not> max_nesting \<le> d" using JObj.prems(2) by simp
    show "parse_value n d (indent_json i (JObj m) @ t) = Some (cleaned (JObj m), t)"
    proof (cases "m = []")
      case True
      then show ?thesis using d by (simp add: n' spread_def skip_mark is_space_def)
    next
      case False
      have "to_utf8 k = k \<and> reads_back (Suc d) (Suc i) v" if "(k, v) \<in> set m" for k v
      proof
        show "to_utf8 k = k" using JObj.prems(1) that by (auto simp: list_all_iff)
        show "reads_back (Suc d) (Suc i) v"
        proof (rule JObj.IH [OF that])
          show "v \<in> Basic_BNFs.snds (k, v)" by simp
          show "plain v" using JObj.prems(1) that by (auto simp: list_all_iff)
          have "depth v \<le> Max (insert 0 ((\<lambda>(k, v). depth v) ` set m))" using that by (intro Max_ge) force+
          then show "Suc d + depth v \<le> max_nesting" using JObj.prems(2) by simp
        qed
      qed
      moreover have "2 * length (members_text (Suc i) m) \<le> n'"
        using n unfolding object_text [OF False] n' by simp
      ultimately have "parse_members n' (Suc d) [] (members_text (Suc i) m @ new_line i @ CHR ''}'' # t) =
          Some ([] @ map (\<lambda>(k, v). (k, cleaned v)) m, t)"
        using False JObj.prems(1) by (intro parse_members_text) auto
      then show ?thesis using d members_first [OF False] unfolding object_text [OF False] n'
        by (simp add: skip_mark is_space_def)
    qed
  qed
qed (simp_all add: reads_back_def parse_literals [simplified] del: parse_value.simps)

lemma parse_indent:
  assumes "plain v" "depth v \<le> max_nesting"
  shows "parse_value (2 * length (indent_json 0 v) + 2) 0 (indent_json 0 v) = Some (cleaned v, [])"
proof -
  have "reads_back 0 0 v" using assms by (intro indent_reads_back) simp_all
  then have "parse_value (2 * length (indent_json 0 v) + 2) 0 (indent_json 0 v @ []) = Some (cleaned v, [])"
    by (rule reads_backD) simp
  then show ?thesis by (simp only: append_Nil2)
qed

lemma decode_indent:
  assumes "plain v" "depth v \<le> max_nesting"
  shows "json_decode (indent_json 0 v) = Some (cleaned v)"
  unfolding json_decode_def parse_indent [OF assms] by (simp add: skip_space_def)

section \<open>Longer texts\<close>

text \<open>A value that was read stays what it is when the text goes on after it.\<close>

lemma takeWhile_extend: "dropWhile P s \<noteq> [] \<Longrightarrow> takeWhile P (s @ t) = takeWhile P s \<and> dropWhile P (s @ t) = dropWhile P s @ t"
  by (induction s) auto

lemma rune_width_extend:
  assumes "b \<in> set s" "(of_char b :: nat) < 0x80"
  shows "rune_width (c # s @ t) = rune_width (c # s)"
proof (cases "length s < lead_width c - 1")
  case True
  let ?f = "take (lead_width c - 1) (s @ t)"
  have b: "b \<in> set ?f" using assms(1) True by simp
  then obtain x xs where f: "?f = x # xs" by (metis list.set_cases)
  have "\<not> second_byte_ok c b" "\<not> byte_in 0x80 0xBF b"
    using assms(2) by (auto simp: second_byte_ok_def byte_in_def split: if_splits)
  then have "\<not> (second_byte_ok c x \<and> list_all (byte_in 0x80 0xBF) xs)"
    using b unfolding f by (auto simp: list_all_iff)
  then have "rune_width (c # s @ t) = 1" using f by (auto simp: Let_def simp del: take_append)
  then show ?thesis using True by (simp add: Let_def)
qed (simp add: Let_def)

lemma hex4_extend: "parse_hex4 s = Some (u, r) \<Longrightarrow> parse_hex4 (s @ t) = Some (u, r @ t)"
  by (auto simp: parse_hex4_def split: list.splits option.splits)

lemma hex4_None_extend: "parse_hex4 s = None \<Longrightarrow> 4 \<le> length s \<Longrightarrow> parse_hex4 (s @ t) = None"
  by (auto simp: parse_hex4_def split: list.splits option.splits)

lemma hex4_short: "length s < 4 \<Longrightarrow> parse_hex4 s = None"
  by (auto simp: parse_hex4_def split: list.splits)

lemma hex4_subset: "parse_hex4 s = Some (u, r) \<Longrightarrow> set r \<subseteq> set s"
  by (auto simp: parse_hex4_def split: list.splits option.splits)

lemma unicode_subset: "unicode_escape u s = (b, r) \<Longrightarrow> set r \<subseteq> set s"
  by (auto simp: unicode_escape_def split: if_splits list.splits option.splits dest!: hex4_subset)

lemma escape_step:
  assumes "parse_chars (Suc n) (CHR 0x5C # s) = Some (x, r)"
  obtains (unicode) u a b s' y where "s = CHR ''u'' # a" "parse_hex4 a = Some (u, b)"
      "unicode_escape u b = (s', y)" "map_option (apfst ((@) s')) (parse_chars n y) = Some (x, r)"
    | (simple) e a c where "s = e # a" "e \<noteq> CHR ''u''" "simple_escape e = Some c"
      "map_option (apfst (Cons c)) (parse_chars n a) = Some (x, r)"
proof (cases s)
  case (Cons e a)
  show thesis
  proof (cases "e = CHR ''u''")
    case True
    then obtain u b where h: "parse_hex4 a = Some (u, b)" using assms Cons by (auto split: option.splits)
    obtain s' y where "unicode_escape u b = (s', y)" by (cases "unicode_escape u b")
    then show thesis using that(1) [of a u b s' y] assms Cons True h by simp
  next
    case False
    then obtain c where "simple_escape e = Some c" using assms Cons by (auto split: option.splits)
    then show thesis using that(2) assms Cons False by simp
  qed
qed (use assms in simp)

lemma parse_chars_quote: "parse_chars k s = Some (x, r) \<Longrightarrow> CHR 0x22 \<in> set s"
proof (induction k arbitrary: s x r)
  case (Suc n)
  show ?case
  proof (cases s)
    case (Cons c s')
    consider "c = CHR 0x22" | (escape) "c = CHR 0x5C" | (ascii) "c \<noteq> CHR 0x22" "c \<noteq> CHR 0x5C" "(of_char c :: nat) < 0x80"
      | (rune) "c \<noteq> CHR 0x22" "c \<noteq> CHR 0x5C" "\<not> (of_char c :: nat) < 0x80" by blast
    then show ?thesis
    proof cases
      case escape
      have "parse_chars (Suc n) (CHR 0x5C # s') = Some (x, r)" using Suc.prems Cons escape by simp
      then show ?thesis
      proof (cases rule: escape_step)
        case (unicode u a b e y)
        then have "CHR 0x22 \<in> set y" using Suc.IH by auto
        then show ?thesis using unicode hex4_subset unicode_subset Cons by fastforce
      next
        case simple
        then show ?thesis using Suc.IH Cons by auto
      qed
    next
      case ascii
      then show ?thesis using Suc Cons by (auto split: if_splits)
    next
      case rune
      let ?w = "rune_width (c # s')"
      have "\<exists>y. parse_chars n (drop ?w (c # s')) = Some (y, r)"
        using Suc.prems rune Cons by (auto simp: Let_def simp del: rune_width.simps)
      then have "CHR 0x22 \<in> set (drop ?w (c # s'))" using Suc.IH by blast
      then show ?thesis using Cons by (meson in_set_dropD)
    qed (simp add: Cons)
  qed (use Suc in simp)
qed simp

lemma unicode_extend:
  assumes "unicode_escape u s = (b, y)" "parse_chars n y = Some z"
  shows "unicode_escape u (s @ t) = (b, y @ t)"
proof (cases "u < 0xD800 \<or> 0xE000 \<le> u")
  case False
  show ?thesis
  proof (cases "\<exists>r. s = CHR 0x5C # CHR ''u'' # r")
    case True
    then obtain r where s: "s = CHR 0x5C # CHR ''u'' # r" by blast
    show ?thesis
    proof (cases "parse_hex4 r")
      case None
      then have y: "y = s" "b = replacement" using assms(1) False by (simp_all add: s unicode_escape_def)
      have "4 \<le> length r"
      proof (rule ccontr)
        assume "\<not> 4 \<le> length r"
        then show False using assms(2) hex4_short [of r] unfolding y s by (cases n) simp_all
      qed
      then show ?thesis using False None y hex4_None_extend [OF None] by (simp add: s unicode_escape_def)
    next
      case (Some p)
      then show ?thesis using assms(1) False hex4_extend [of r "fst p" "snd p" t]
        by (cases p) (auto simp: s unicode_escape_def split: if_splits)
    qed
  next
    case no: False
    then have y: "y = s" "b = replacement"
      using assms(1) False by (auto simp: unicode_escape_def split: list.splits if_splits)
    have "s \<noteq> []" "s \<noteq> [CHR 0x5C]"
      using assms(2) unfolding y by (cases n; auto)+
    then show ?thesis using no y False
      by (cases s; cases "tl s") (auto simp: unicode_escape_def split: list.splits if_splits)
  qed
qed (use assms in \<open>auto simp: unicode_escape_def\<close>)

lemma parse_chars_extend:
  "parse_chars k s = Some (x, r) \<Longrightarrow> k \<le> k' \<Longrightarrow> parse_chars k' (s @ t) = Some (x, r @ t)"
proof (induction k arbitrary: s x r k')
  case (Suc n)
  obtain n' where k': "k' = Suc n'" "n \<le> n'" using Suc.prems(2) by (cases k') auto
  show ?case
  proof (cases s)
    case (Cons c s')
    consider "c = CHR 0x22" | (escape) "c = CHR 0x5C" | (ascii) "c \<noteq> CHR 0x22" "c \<noteq> CHR 0x5C" "(of_char c :: nat) < 0x80"
      | (rune) "c \<noteq> CHR 0x22" "c \<noteq> CHR 0x5C" "\<not> (of_char c :: nat) < 0x80" by blast
    then show ?thesis
    proof cases
      case escape
      have "parse_chars (Suc n) (CHR 0x5C # s') = Some (x, r)" using Suc.prems Cons escape by simp
      then show ?thesis
      proof (cases rule: escape_step)
        case (unicode u a b e y)
        then obtain z where z: "parse_chars n y = Some (z, r)" "x = e @ z" by auto
        then have "parse_chars n' (y @ t) = Some (z, r @ t)" using Suc.IH k' by blast
        then show ?thesis using unicode z hex4_extend unicode_extend [OF unicode(3) z(1)]
          by (simp add: Cons escape k')
      next
        case (simple e a b)
        then obtain z where z: "parse_chars n a = Some (z, r)" "x = b # z" by auto
        then have "parse_chars n' (a @ t) = Some (z, r @ t)" using Suc.IH k' by blast
        then show ?thesis using simple z by (simp add: Cons escape k')
      qed
    next
      case ascii
      then obtain z where z: "parse_chars n s' = Some (z, r)" "x = c # z" "\<not> (of_char c :: nat) < 0x20"
        using Suc.prems Cons by (auto split: if_splits)
      then have "parse_chars n' (s' @ t) = Some (z, r @ t)" using Suc.IH k' by blast
      then show ?thesis using ascii z by (simp add: Cons k')
    next
      case rune
      let ?w = "rune_width (c # s')" and ?b = "if rune_width (c # s') = 1 then replacement else take (rune_width (c # s')) (c # s')"
      obtain z where z: "parse_chars n (drop ?w (c # s')) = Some (z, r)" "x = ?b @ z"
        using Suc.prems rune Cons by (auto simp: Let_def simp del: rune_width.simps)
      have "CHR 0x22 \<in> set s'"
        using parse_chars_quote [OF z(1)] rune(1) in_set_dropD by fastforce
      then have w: "rune_width (c # s' @ t) = ?w" by (intro rune_width_extend) auto
      have l: "?w \<le> length (c # s')" by (rule rune_width_le)
      have d: "drop ?w (c # s' @ t) = drop ?w (c # s') @ t" "take ?w (c # s' @ t) = take ?w (c # s')"
        using l drop_append [of ?w "c # s'" t] take_append [of ?w "c # s'" t] by (simp_all del: rune_width.simps)
      have "parse_chars n' (drop ?w (c # s') @ t) = Some (z, r @ t)" using Suc.IH z(1) k' by blast
      then show ?thesis using rune z(2) w
        by (simp add: d Cons k' Let_def del: rune_width.simps)
    qed (use Suc.prems Cons k' in auto)
  qed (use Suc in simp)
qed simp


lemma fraction_extend: "parse_fraction s = Some (ds, r) \<Longrightarrow> r \<noteq> [] \<Longrightarrow> parse_fraction (s @ t) = Some (ds, r @ t)"
proof (cases s)
  case (Cons c s')
  assume a: "parse_fraction s = Some (ds, r)" "r \<noteq> []"
  show ?thesis
  proof (cases "c = CHR ''.''")
    case True
    then have "ds = takeWhile is_digit s'" "r = dropWhile is_digit s'" "ds \<noteq> []"
      using a Cons by (auto simp: parse_fraction_def Let_def split: if_splits)
    then show ?thesis using a(2) True takeWhile_extend [of is_digit s' t]
      by (simp add: Cons parse_fraction_def Let_def)
  qed (use a Cons in \<open>auto simp: parse_fraction_def\<close>)
qed (simp add: parse_fraction_def)

definition exponent_sign :: "string \<Rightarrow> bool \<times> string" where
  "exponent_sign s =
     (case s of c # t \<Rightarrow> if c = CHR ''-'' then (True, t) else if c = CHR ''+'' then (False, t) else (False, s)
      | [] \<Rightarrow> (False, s))"

lemma exponent_alt:
  "parse_exponent (c # s) =
     (if c = CHR ''e'' \<or> c = CHR ''E''
      then case exponent_sign s of (neg, u) \<Rightarrow>
        if takeWhile is_digit u = [] then None
        else Some (if neg then - digits_value (takeWhile is_digit u) else digits_value (takeWhile is_digit u),
               dropWhile is_digit u)
      else Some (0, c # s))"
  by (auto simp: parse_exponent_def exponent_sign_def Let_def split: list.splits)

lemma sign_extend: "snd (exponent_sign s) \<noteq> [] \<Longrightarrow> exponent_sign (s @ t) = apsnd (\<lambda>u. u @ t) (exponent_sign s)"
  by (cases s) (auto simp: exponent_sign_def)

lemma exponent_extend: "parse_exponent s = Some (e, r) \<Longrightarrow> r \<noteq> [] \<Longrightarrow> parse_exponent (s @ t) = Some (e, r @ t)"
proof (cases s)
  case (Cons c s')
  assume a: "parse_exponent s = Some (e, r)" "r \<noteq> []"
  obtain m u where u: "exponent_sign s' = (m, u)" by (cases "exponent_sign s'")
  show ?thesis
  proof (cases "c = CHR ''e'' \<or> c = CHR ''E''")
    case True
    then have d: "takeWhile is_digit u \<noteq> []" "r = dropWhile is_digit u"
      "e = (if m then - digits_value (takeWhile is_digit u) else digits_value (takeWhile is_digit u))"
      using a by (auto simp: Cons exponent_alt u split: if_splits)
    then have "u \<noteq> []" by auto
    then have "exponent_sign (s' @ t) = (m, u @ t)" using sign_extend [of s' t] by (simp add: u)
    then show ?thesis using True d a(2) takeWhile_extend [of is_digit u t] by (simp add: Cons exponent_alt)
  qed (use a in \<open>auto simp: Cons exponent_alt\<close>)
qed (simp add: parse_exponent_def)

definition integer_part :: "string \<Rightarrow> string" where
  "integer_part s = (case takeWhile is_digit s of c # _ \<Rightarrow> if c = CHR ''0'' then [c] else takeWhile is_digit s | [] \<Rightarrow> [])"

lemma magnitude_alt:
  "parse_magnitude s =
     (if integer_part s = [] then None
      else case parse_fraction (drop (length (integer_part s)) s) of
             None \<Rightarrow> None
           | Some (fp, r1) \<Rightarrow>
               map_option (\<lambda>(e, r2). (of_int (digits_value (integer_part s @ fp)) * ten_to (e - int (length fp)), r2))
                 (parse_exponent r1))"
  unfolding parse_magnitude_def integer_part_def [symmetric] Let_def ..

lemma integer_extend:
  assumes "integer_part s \<noteq> []" "drop (length (integer_part s)) s \<noteq> []"
  shows "integer_part (s @ t) = integer_part s"
proof (cases "dropWhile is_digit s = []")
  case True
  then have d: "takeWhile is_digit s = s" by (metis append_Nil2 takeWhile_dropWhile_id)
  then obtain c s' where s: "s = c # s'" "c = CHR ''0''"
    using assms by (cases s) (auto simp: integer_part_def takeWhile_eq_all_conv [THEN iffD2] split: if_splits)
  then show ?thesis using d by (auto simp: integer_part_def split: if_splits)
next
  case False
  then show ?thesis using takeWhile_extend [OF False, of t] by (simp add: integer_part_def split: list.split)
qed

lemma magnitude_extend:
  assumes "parse_magnitude s = Some (q, r)" "r \<noteq> []"
  shows "parse_magnitude (s @ t) = Some (q, r @ t)"
proof -
  let ?i = "integer_part s"
  have i: "?i \<noteq> []" using assms(1) by (auto simp: magnitude_alt split: if_splits)
  obtain fp r1 where f: "parse_fraction (drop (length ?i) s) = Some (fp, r1)"
    using assms(1) i by (auto simp: magnitude_alt split: option.splits)
  obtain e where e: "parse_exponent r1 = Some (e, r)" "q = of_int (digits_value (?i @ fp)) * ten_to (e - int (length fp))"
    using assms(1) i f by (auto simp: magnitude_alt)
  have r1: "r1 \<noteq> []" using e(1) assms(2) by (auto simp: parse_exponent_def)
  then have d: "drop (length ?i) s \<noteq> []" using f by (auto simp: parse_fraction_def)
  then have "drop (length ?i) (s @ t) = drop (length ?i) s @ t" by simp
  then show ?thesis
    using i e(2) fraction_extend [OF f r1, of t] exponent_extend [OF e(1) assms(2), of t]
    by (simp add: magnitude_alt integer_extend [OF i d])
qed

lemma number_extend:
  assumes "parse_number s = Some (q, r)" "r \<noteq> []"
  shows "parse_number (s @ t) = Some (q, r @ t)"
proof (cases s)
  case Nil
  then show ?thesis using assms by (simp add: parse_number_def magnitude_alt integer_part_def)
next
  case (Cons c s')
  define u where "u = (if c = CHR ''-'' then s' else s)"
  have s: "parse_number (s @ v) = (case parse_magnitude (u @ v) of
           None \<Rightarrow> None
         | Some (q, rest) \<Rightarrow> map_option (\<lambda>v. (v, rest)) (round_float64 (if c = CHR ''-'' then - q else q)))" for v
    by (cases "c = CHR ''-''") (simp_all add: parse_number_def u_def Cons split: option.split)
  then obtain p where p: "parse_magnitude u = Some (p, r)" "round_float64 (if c = CHR ''-'' then - p else p) = Some q"
    using assms(1) unfolding s [of "[]", simplified] by (auto split: option.splits)
  then show ?thesis using magnitude_extend [OF p(1) assms(2), of t] by (simp add: s)
qed

lemma strip_prefix_extend: "strip_prefix p s = Some r \<Longrightarrow> strip_prefix p (s @ t) = Some (r @ t)"
  by (simp add: strip_prefix_Some)

lemma skip_extend: "skip_space s \<noteq> [] \<Longrightarrow> skip_space (s @ t) = skip_space s @ t"
  unfolding skip_space_def by (rule takeWhile_extend [THEN conjunct2])


lemma number_first: "parse_number (c # s) = Some x \<Longrightarrow> is_digit c \<or> c = CHR ''-''"
  by (cases "c = CHR ''-''"; cases "is_digit c")
    (auto simp: parse_number_def magnitude_alt integer_part_def split: option.splits)

lemma parse_extend:
  "parse_value n d s = Some (v, r) \<Longrightarrow> r \<noteq> [] \<or> (\<exists>m. v = JObj m) \<Longrightarrow> n \<le> n' \<Longrightarrow>
     parse_value n' d (s @ t) = Some (v, r @ t)"
  "parse_elements n d s = Some (vs, r) \<Longrightarrow> n \<le> n' \<Longrightarrow> parse_elements n' d (s @ t) = Some (vs, r @ t)"
  "parse_members n d m s = Some (m', r) \<Longrightarrow> n \<le> n' \<Longrightarrow> parse_members n' d m (s @ t) = Some (m', r @ t)"
proof (induction n d s and n d s and n d m s arbitrary: v r n' and vs r n' and m' r n'
    rule: parse_value_parse_elements_parse_members.induct)
  case (2 n d s)
  obtain c cs where s: "skip_space s = c # cs" using "2.prems"(1) by (cases "skip_space s") simp_all
  then have st: "skip_space (s @ t) = c # cs @ t" using skip_extend [of s t] by simp
  obtain k where k: "n' = Suc k" "n \<le> k" using "2.prems"(3) by (cases n') auto
  have skip: "skip_space cs \<noteq> []" if "strip_prefix [b] (skip_space cs) = Some x" for b x
    using that by (cases "skip_space cs") simp_all
  consider (obj) "c = CHR ''{''" | (arr) "c = CHR ''[''" | (str) "c = CHR 0x22"
    | (other) "c \<noteq> CHR ''{''" "c \<noteq> CHR ''[''" "c \<noteq> CHR 0x22" by blast
  then show ?case
  proof cases
    case obj
    show ?thesis
    proof (cases "strip_prefix ''}'' (skip_space cs)")
      case None
      then obtain m where m: "parse_members n (Suc d) [] cs = Some (m, r)" "v = JObj m" "\<not> max_nesting \<le> d"
        using "2.prems"(1) s obj by (auto split: if_splits)
      have "parse_members k (Suc d) [] (cs @ t) = Some (m, r @ t)"
        using "2.IH"(1) [OF s obj m(3) None m(1) k(2)] .
      moreover have "strip_prefix ''}'' (skip_space (cs @ t)) = None"
      proof -
        have "skip_space cs \<noteq> []" using m(1) by (cases n) (auto split: option.splits)
        then show ?thesis using None skip_extend [of cs t] by (cases "skip_space cs") (auto split: if_splits)
      qed
      ultimately show ?thesis using st obj m k by simp
    next
      case (Some x)
      then show ?thesis using "2.prems"(1) s st obj k skip [OF Some] skip_extend [of cs t] strip_prefix_extend [OF Some, of t]
        by (auto split: if_splits)
    qed
  next
    case arr
    show ?thesis
    proof (cases "strip_prefix '']'' (skip_space cs)")
      case None
      then obtain vs where m: "parse_elements n (Suc d) cs = Some (vs, r)" "v = JArr vs" "\<not> max_nesting \<le> d"
        using "2.prems"(1) s arr by (auto split: if_splits)
      have "parse_elements k (Suc d) (cs @ t) = Some (vs, r @ t)"
        using "2.IH"(2) [OF s _ arr m(3) None m(1) k(2)] arr by simp
      moreover have "strip_prefix '']'' (skip_space (cs @ t)) = None"
      proof -
        have "skip_space cs \<noteq> []" using m(1) by (cases n; cases "n - 1") (auto split: option.splits list.splits)
        then show ?thesis using None skip_extend [of cs t] by (cases "skip_space cs") (auto split: if_splits)
      qed
      ultimately show ?thesis using st arr m k by simp
    next
      case (Some x)
      then show ?thesis using "2.prems"(1) s st arr k skip [OF Some] skip_extend [of cs t] strip_prefix_extend [OF Some, of t]
        by (auto split: if_splits)
    qed
  next
    case str
    then obtain x where x: "parse_chars (Suc (length cs)) cs = Some (x, r)" "v = JStr x"
      using "2.prems"(1) s by auto
    have "parse_chars (Suc (length (cs @ t))) (cs @ t) = Some (x, r @ t)"
      by (rule parse_chars_extend [OF x(1)]) simp
    then show ?thesis using st str x k by simp
  next
    case other
    have val: "parse_value (Suc m) d w = (case strip_prefix ''null'' (c # u) of Some r' \<Rightarrow> Some (JNull, r')
        | None \<Rightarrow> (case strip_prefix ''true'' (c # u) of Some r' \<Rightarrow> Some (JBool True, r')
        | None \<Rightarrow> (case strip_prefix ''false'' (c # u) of Some r' \<Rightarrow> Some (JBool False, r')
        | None \<Rightarrow> map_option (apfst JNum) (parse_number (c # u)))))" if "skip_space w = c # u" for m w u
      using other that by simp
    show ?thesis
    proof (cases "is_digit c \<or> c = CHR ''-''")
      case True
      then have no: "strip_prefix ''null'' (c # u) = None" "strip_prefix ''true'' (c # u) = None"
        "strip_prefix ''false'' (c # u) = None" for u by (auto simp: is_digit_def byte_in_def)
      obtain q where "parse_number (c # cs) = Some (q, r)" "v = JNum q"
        using "2.prems"(1) by (auto simp: val [OF s] no simp del: strip_prefix.simps parse_value.simps)
      then show ?thesis using number_extend [of "c # cs" q r t] "2.prems"(2)
        by (simp add: k val [OF st] no del: strip_prefix.simps parse_value.simps)
    next
      case False
      then have "parse_number (c # cs) = None" using number_first by fastforce
      then consider (null) "strip_prefix ''null'' (c # cs) = Some r" "v = JNull"
        | (true) "strip_prefix ''true'' (c # cs) = Some r" "v = JBool True"
        | (false) "strip_prefix ''false'' (c # cs) = Some r" "v = JBool False"
        using "2.prems"(1) unfolding val [OF s] by (auto split: option.splits)
      then show ?thesis
      proof cases
        case null
        then show ?thesis using strip_prefix_extend [OF null(1), of t]
          by (simp add: k val [OF st] del: strip_prefix.simps parse_value.simps)
      next
        case true
        then have "c = CHR ''t''" by (simp split: if_splits)
        then have "strip_prefix ''null'' (c # cs @ t) = None" by simp
        then show ?thesis using true(2) strip_prefix_extend [OF true(1), of t]
          by (simp add: k val [OF st] del: strip_prefix.simps parse_value.simps)
      next
        case false
        then have "c = CHR ''f''" by (simp split: if_splits)
        then have "strip_prefix ''null'' (c # cs @ t) = None" "strip_prefix ''true'' (c # cs @ t) = None" by simp_all
        then show ?thesis using false(2) strip_prefix_extend [OF false(1), of t]
          by (simp add: k val [OF st] del: strip_prefix.simps parse_value.simps)
      qed
    qed
  qed
next
  case (4 n d s)
  obtain k where k: "n' = Suc k" "n \<le> k" using "4.prems"(2) by (cases n') auto
  obtain v r1 where v: "parse_value n d s = Some (v, r1)" using "4.prems"(1) by (auto split: option.splits)
  then obtain c r2 where r1: "skip_space r1 = c # r2" using "4.prems"(1) by (auto split: list.splits)
  then have n1: "r1 \<noteq> []" by (auto simp: skip_space_def)
  have v': "parse_value k d (s @ t) = Some (v, r1 @ t)" using "4.IH"(1) [OF v _ k(2)] n1 by blast
  have r1': "skip_space (r1 @ t) = c # r2 @ t" using skip_extend [of r1 t] r1 by simp
  show ?case
  proof (cases "c = CHR '']''")
    case True
    then show ?thesis using "4.prems"(1) v r1 v' r1' k by simp
  next
    case False
    then obtain ws where "parse_elements n d r2 = Some (ws, r)" "vs = v # ws" "c = CHR '',''"
      using "4.prems"(1) v r1 by (auto split: if_splits)
    then show ?thesis using "4.IH"(2) [OF v refl r1 False] False v' r1' k by simp
  qed
next
  case (6 n d m s)
  obtain k where k: "n' = Suc k" "n \<le> k" using "6.prems"(2) by (cases n') auto
  obtain q where q: "strip_prefix [CHR 0x22] (skip_space s) = Some q"
    using "6.prems"(1) by (auto split: option.splits)
  then have "skip_space s \<noteq> []" by auto
  then have q': "strip_prefix [CHR 0x22] (skip_space (s @ t)) = Some (q @ t)"
    using skip_extend [of s t] strip_prefix_extend [OF q, of t] by simp
  obtain key r1 where key: "parse_chars (Suc (length q)) q = Some (key, r1)"
    using "6.prems"(1) q by (auto split: option.splits simp del: parse_chars.simps)
  have key': "parse_chars (Suc (length (q @ t))) (q @ t) = Some (key, r1 @ t)"
    by (rule parse_chars_extend [OF key]) simp
  obtain r2 where r2: "strip_prefix '':'' (skip_space r1) = Some r2"
    using "6.prems"(1) q key by (auto split: option.splits simp del: parse_chars.simps)
  then have "skip_space r1 \<noteq> []" by auto
  then have r2': "strip_prefix '':'' (skip_space (r1 @ t)) = Some (r2 @ t)"
    using skip_extend [of r1 t] strip_prefix_extend [OF r2, of t] by simp
  obtain v r3 where v: "parse_value n d r2 = Some (v, r3)"
    using "6.prems"(1) q key r2 by (auto split: option.splits simp del: parse_chars.simps)
  obtain c r4 where r3: "skip_space r3 = c # r4"
    using "6.prems"(1) q key r2 v by (auto split: list.splits simp del: parse_chars.simps)
  then have n3: "r3 \<noteq> []" by (auto simp: skip_space_def)
  have v': "parse_value k d (r2 @ t) = Some (v, r3 @ t)" using "6.IH"(1) [OF q key refl r2 v _ k(2)] n3 by blast
  have r3': "skip_space (r3 @ t) = c # r4 @ t" using skip_extend [of r3 t] r3 by simp
  show ?case
  proof (cases "c = CHR ''}''")
    case True
    then show ?thesis using "6.prems"(1) q key r2 v r3 q' key' r2' v' r3' k by (simp del: parse_chars.simps strip_prefix.simps)
  next
    case False
    then have c: "c = CHR '',''" "parse_members n d (AList.update key v m) r4 = Some (m', r)"
      using "6.prems"(1) q key r2 v r3 by (auto split: if_splits simp del: parse_chars.simps strip_prefix.simps)
    have "parse_members k d (AList.update key v m) (r4 @ t) = Some (m', r @ t)"
      using "6.IH"(2) [OF q key refl r2 v refl r3 False c(1,2) k(2)] .
    then show ?thesis using c False q' key' r2' v' r3' k by (simp del: parse_chars.simps strip_prefix.simps)
  qed
qed simp_all

section \<open>The text of a restore state\<close>

definition utf8 :: "string \<Rightarrow> bool" where
  "utf8 s = (to_utf8 s = s)"

lemma utf8_append: "utf8 a \<Longrightarrow> utf8 b \<Longrightarrow> utf8 (a @ b)"
  unfolding utf8_def using runes_utf8_append [of a b] by (simp add: to_utf8_def)

lemma utf8_ascii: "list_all (\<lambda>c. (of_char c :: nat) < 0x80) s \<Longrightarrow> utf8 s"
  by (simp add: utf8_def to_utf8_def ascii_runes)

lemma utf8_rune: "rune r \<Longrightarrow> utf8 r"
  using runes_append [of r "''''"] by (simp add: utf8_def to_utf8_def)

lemma utf8_Cons: "(of_char c :: nat) < 0x80 \<Longrightarrow> utf8 s \<Longrightarrow> utf8 (c # s)"
  using utf8_append [of "[c]" s] utf8_ascii [of "[c]"] by simp

lemma utf8_join: "utf8 sep \<Longrightarrow> \<forall>s \<in> set xs. utf8 s \<Longrightarrow> utf8 (join_with sep xs)"
  by (induction sep xs rule: join_with.induct) (simp_all add: utf8_append utf8_ascii)

lemma utf8_escape_char: "(of_char c :: nat) < 0x80 \<Longrightarrow> utf8 (escape_char c)"
proof -
  assume c: "(of_char c :: nat) < 0x80"
  have "n < 16 \<Longrightarrow> (of_char (''0123456789abcdef'' ! n) :: nat) < 0x80" for n
  proof -
    assume "n < 16"
    moreover have "list_all (\<lambda>n. (of_char (''0123456789abcdef'' ! n) :: nat) < 0x80) [0..<16]" by code_simp
    ultimately show ?thesis by (simp add: list_all_iff)
  qed
  then have "(of_char (''0123456789abcdef'' ! (of_char c div 16)) :: nat) < 0x80"
    "(of_char (''0123456789abcdef'' ! (of_char c mod 16)) :: nat) < 0x80" using c by simp_all
  then show ?thesis using c
    by (intro utf8_ascii) (simp add: escape_char_def)
qed

lemma utf8_escape: "utf8 (escape_chars n s)"
proof (induction n arbitrary: s)
  case (Suc n)
  show ?case
  proof (cases s)
    case (Cons c r)
    show ?thesis
    proof (cases "(of_char c :: nat) < 0x80")
      case True
      then show ?thesis using Suc by (simp add: Cons utf8_append utf8_escape_char)
    next
      case False
      let ?w = "rune_width (c # r)"
      have "utf8 (escape_rune ?w (take ?w (c # r)))"
      proof (cases "?w = 1")
        case False
        then have "rune (take ?w (c # r))" by (intro rune_take) simp_all
        then show ?thesis using False by (auto simp: escape_rune_def intro: utf8_rune utf8_ascii simp del: rune_width.simps)
      qed (simp add: escape_rune_def utf8_ascii del: rune_width.simps)
      then show ?thesis using Suc False
        by (simp add: Cons Let_def escape_rune_def utf8_append del: rune_width.simps)
    qed
  qed (simp add: utf8_ascii)
qed (simp add: utf8_ascii)

lemma utf8_encode: "utf8 (encode_string s)"
  unfolding encode_string_def by (intro utf8_Cons utf8_append utf8_escape utf8_ascii) simp_all

lemma utf8_new_line: "utf8 (new_line d)"
  by (auto simp: new_line_def list_all_iff intro!: utf8_ascii)

lemma utf8_spread:
  assumes "\<forall>s \<in> set xs. utf8 s" "(of_char a :: nat) < 0x80" "(of_char b :: nat) < 0x80"
  shows "utf8 (spread d a b xs)"
proof -
  have "utf8 (join_with '','' (map ((@) (new_line (Suc d))) xs))"
    using assms(1) by (intro utf8_join) (auto intro: utf8_ascii utf8_append utf8_new_line)
  then have "utf8 (a # join_with '','' (map ((@) (new_line (Suc d))) xs) @ new_line d @ [b])"
    using assms by (intro utf8_Cons utf8_append utf8_new_line) (simp_all add: utf8_ascii)
  then show ?thesis using assms by (simp add: spread_def utf8_ascii)
qed

lemma utf8_indent: "plain v \<Longrightarrow> utf8 (indent_json d v)"
proof (induction d v rule: indent_json.induct)
  case (5 d vs)
  then show ?case by (auto simp: list_all_iff intro!: utf8_spread)
next
  case (6 d m)
  have "utf8 (encode_string k @ '': '' @ indent_json (Suc d) v)" if "(k, v) \<in> set m" for k v
  proof (intro utf8_append)
    show "utf8 (indent_json (Suc d) v)" using 6 that by (auto simp: list_all_iff)
  qed (simp_all add: utf8_encode utf8_ascii)
  then show ?case by (auto intro!: utf8_spread)
qed (auto simp: utf8_encode intro: utf8_ascii)

definition name_char :: "char \<Rightarrow> bool" where
  "name_char c = (byte_in 0x61 0x7A c \<or> c = CHR ''_'')"

lemma fold_plain_name: "list_all name_char s \<Longrightarrow> fold_name s = s"
proof (induction s)
  case (Cons c s)
  have "lower_byte c = c"
  proof -
    have "list_all (\<lambda>p. (of_char (fst p) :: nat) < 0x5B) lower_pairs" by code_simp
    moreover have "name_char c" using Cons.prems by simp
    ultimately have "map_of lower_pairs c = None"
      by (auto simp: map_of_eq_None_iff list_all_iff name_char_def byte_in_def)
    then show ?thesis by (simp add: lower_byte_def)
  qed
  moreover have "\<not> has_prefix (c # s) [CHR 0xC5, CHR 0xBF]" "\<not> has_prefix (c # s) [CHR 0xE2, CHR 0x84, CHR 0xAA]"
    using Cons.prems by (auto simp: has_prefix_def name_char_def byte_in_def)
  ultimately show ?case using Cons by simp
qed simp

text \<open>A restore state whose texts have been through UTF-8.\<close>

definition clean_action :: "gatewayContextRestoreNextAction \<Rightarrow> gatewayContextRestoreNextAction" where
  "clean_action a = a\<lparr>na_Type := to_utf8 (na_Type a), na_Description := to_utf8 (na_Description a)\<rparr>"

definition clean_state :: "gatewayContextRestoreState \<Rightarrow> gatewayContextRestoreState" where
  "clean_state r =
     \<lparr>rs_SchemaVersion = to_utf8 (rs_SchemaVersion r),
      rs_CurrentUserGoal = to_utf8 (rs_CurrentUserGoal r),
      rs_CurrentActiveGoal = to_utf8 (rs_CurrentActiveGoal r),
      rs_LatestUserInstruction = to_utf8 (rs_LatestUserInstruction r),
      rs_LatestUncompressedUserInstruction = to_utf8 (rs_LatestUncompressedUserInstruction r),
      rs_DurableFacts = map to_utf8 (rs_DurableFacts r),
      rs_PinnedRawUserDirectives = map to_utf8 (rs_PinnedRawUserDirectives r),
      rs_CurrentEffectiveConstraints = map to_utf8 (rs_CurrentEffectiveConstraints r),
      rs_MustNotDo = map_option (map to_utf8) (rs_MustNotDo r),
      rs_AllowedActions = map to_utf8 (rs_AllowedActions r),
      rs_RequiresUserConfirmationBefore = map to_utf8 (rs_RequiresUserConfirmationBefore r),
      rs_CurrentTaskPhase = to_utf8 (rs_CurrentTaskPhase r),
      rs_CompletedWork = map to_utf8 (rs_CompletedWork r),
      rs_RemainingWork = map to_utf8 (rs_RemainingWork r),
      rs_NextAction = clean_action (rs_NextAction r),
      rs_Uncertainties = map to_utf8 (rs_Uncertainties r),
      rs_HistoricalContextOnly = map to_utf8 (rs_HistoricalContextOnly r),
      rs_ObsoleteOrSupersededGoals = map to_utf8 (rs_ObsoleteOrSupersededGoals r),
      rs_ObsoleteOrSupersededConstraints = map to_utf8 (rs_ObsoleteOrSupersededConstraints r),
      rs_RestoreAudit = map to_utf8 (rs_RestoreAudit r),
      rs_Source = to_utf8 (rs_Source r)\<rparr>"

definition cleaned_obj :: "obj \<Rightarrow> obj" where
  "cleaned_obj m = map (\<lambda>(k, v). (k, cleaned v)) m"

lemma cleaned_texts: "cleaned (texts_json xs) = texts_json (map to_utf8 xs)"
  by (simp add: texts_json_def)

lemma cleaned_put_if: "cleaned_obj (put_if b k v) = put_if b k (cleaned v)"
  by (simp add: cleaned_obj_def put_if_def)

lemma cleaned_action: "cleaned (action_json a) = action_json (clean_action a)"
proof -
  have "to_utf8 ''type'' = ''type''" "to_utf8 ''description'' = ''description''"
    "to_utf8 ''requires_confirmation'' = ''requires_confirmation''"
    using utf8_ascii [unfolded utf8_def] by simp_all
  then show ?thesis by (simp add: action_json_def clean_action_def)
qed

lemma to_utf8_empty [simp]: "to_utf8 s = '''' \<longleftrightarrow> s = ''''"
proof
  assume "to_utf8 s = ''''"
  then have "runes s = []" using runes_to_utf8 [of s] by simp
  then show "s = ''''" by (subst (asm) runes.simps) (simp split: if_splits)
qed (simp add: to_utf8_def)

lemma cleaned_state: "cleaned_obj (state_json r) = state_json (clean_state r)"
proof -
  have append: "cleaned_obj (a @ b) = cleaned_obj a @ cleaned_obj b" for a b by (simp add: cleaned_obj_def)
  have cons: "cleaned_obj ((k, v) # m) = (k, cleaned v) # cleaned_obj m" "cleaned_obj [] = []" for k v m
    by (simp_all add: cleaned_obj_def)
  show ?thesis unfolding state_json_def
    by (cases "rs_MustNotDo r") (simp_all only: append cons cleaned_put_if cleaned_texts cleaned_action cleaned.simps clean_state_def
      gatewayContextRestoreState.simps to_utf8_empty map_is_Nil_conv option.simps)
qed

definition folded :: "obj \<Rightarrow> bool" where
  "folded m = list_all (\<lambda>(k, v). fold_name k = k) m"

lemma folded_append: "folded (a @ b) = (folded a \<and> folded b)" "folded ((k, v) # m) = (fold_name k = k \<and> folded m)"
  "folded []" "folded (put_if c k v) = (c \<longrightarrow> fold_name k = k)"
  by (simp_all add: folded_def put_if_def)

lemma field_names: "list_all (\<lambda>k. fold_name k = k) (''next_action'' # text_fields @ list_fields)"
proof -
  have "list_all (list_all name_char) (''next_action'' # text_fields @ list_fields)" by code_simp
  then show ?thesis by (rule list.pred_mono_strong) (rule fold_plain_name)
qed

lemma folded_state: "folded (state_json r)"
  using field_names unfolding state_json_def text_fields_def list_fields_def
  by (simp only: folded_append list.pred_inject append_Cons append_Nil simp_thms)

lemma folded_members: "folded m \<Longrightarrow> members m n = map snd (filter (\<lambda>(k, v). k = n) m)"
  unfolding members_def folded_def
  by (rule arg_cong [of _ _ "map snd"]) (auto simp: list_all_iff intro!: filter_cong)

definition named :: "string \<Rightarrow> obj \<Rightarrow> json list" where
  "named n m = map snd (filter (\<lambda>(k, v). k = n) m)"

lemma named_simps:
  "named n (a @ b) = named n a @ named n b" "named n ((k, v) # m) = (if k = n then v # named n m else named n m)"
  "named n [] = []" "named n (put_if c k v) = (if c \<and> k = n then [v] else [])"
  by (auto simp: named_def put_if_def)

lemma text_state: "text_member (state_json r) n = (case filter (\<lambda>v. v \<noteq> JNull) (rev (named n (state_json r))) of JStr s # _ \<Rightarrow> s | _ \<Rightarrow> '''')"
  by (simp add: text_member_def folded_members [OF folded_state] named_def)

lemma list_state: "list_member (state_json r) n =
     (case rev (named n (state_json r)) of
        JArr vs # _ \<Rightarrow> Some (map (\<lambda>v. case v of JStr s \<Rightarrow> s | _ \<Rightarrow> '''') vs) | _ \<Rightarrow> None)"
  by (simp add: list_member_def folded_members [OF folded_state] named_def)

lemma texts_texts: "map (\<lambda>v. case v of JStr s \<Rightarrow> s | _ \<Rightarrow> '''') (map JStr xs) = xs"
  by (simp add: comp_def)

lemma action_state: "action_member (state_json r) ''next_action'' = rs_NextAction r"
proof -
  have m: "members (state_json r) ''next_action'' = [action_json (rs_NextAction r)]"
    unfolding folded_members [OF folded_state] named_def [symmetric] unfolding state_json_def named_simps by simp
  have f: "folded [(''type'', a), (''description'', b), (''requires_confirmation'', c)]" for a b c
    unfolding folded_append by code_simp
  show ?thesis unfolding action_member_def m
    by (simp add: action_json_def mapValue_def nil_map_def text_member_def folded_members [OF f] Let_def)
qed

lemma text_fields_back:
  "text_member (state_json r) ''schema_version'' = rs_SchemaVersion r"
  "text_member (state_json r) ''current_user_goal'' = rs_CurrentUserGoal r"
  "text_member (state_json r) ''current_active_goal'' = rs_CurrentActiveGoal r"
  "text_member (state_json r) ''latest_user_instruction'' = rs_LatestUserInstruction r"
  "text_member (state_json r) ''latest_uncompressed_user_instruction'' = rs_LatestUncompressedUserInstruction r"
  "text_member (state_json r) ''current_task_phase'' = rs_CurrentTaskPhase r"
  "text_member (state_json r) ''source'' = rs_Source r"
  unfolding text_state unfolding state_json_def named_simps by simp_all

lemma list_fields_back:
  "list_of (list_member (state_json r) ''durable_facts'') = rs_DurableFacts r"
  "list_of (list_member (state_json r) ''pinned_raw_user_directives'') = rs_PinnedRawUserDirectives r"
  "list_of (list_member (state_json r) ''current_effective_constraints'') = rs_CurrentEffectiveConstraints r"
  "list_of (list_member (state_json r) ''allowed_actions'') = rs_AllowedActions r"
  "list_of (list_member (state_json r) ''requires_user_confirmation_before'') = rs_RequiresUserConfirmationBefore r"
  "list_of (list_member (state_json r) ''completed_work'') = rs_CompletedWork r"
  "list_of (list_member (state_json r) ''remaining_work'') = rs_RemainingWork r"
  "list_of (list_member (state_json r) ''uncertainties'') = rs_Uncertainties r"
  "list_of (list_member (state_json r) ''historical_context_only'') = rs_HistoricalContextOnly r"
  "list_of (list_member (state_json r) ''obsolete_or_superseded_goals'') = rs_ObsoleteOrSupersededGoals r"
  "list_of (list_member (state_json r) ''obsolete_or_superseded_constraints'') = rs_ObsoleteOrSupersededConstraints r"
  "list_of (list_member (state_json r) ''restore_audit'') = rs_RestoreAudit r"
  "list_member (state_json r) ''must_not_do'' = rs_MustNotDo r"
  unfolding list_state unfolding state_json_def named_simps
  by (simp_all add: texts_json_def texts_texts list_of_def comp_def split: option.split)

lemma state_json_back: "json_state (state_json r) = r"
  by (simp add: json_state_def text_fields_back list_fields_back action_state)

definition each :: "(string \<Rightarrow> json \<Rightarrow> bool) \<Rightarrow> obj \<Rightarrow> bool" where
  "each P m \<longleftrightarrow> (\<forall>(k, v) \<in> set m. P k v)"

lemma each_simps:
  "each P (a @ b) = (each P a \<and> each P b)" "each P ((k, v) # m) = (P k v \<and> each P m)"
  "each P [] = True" "each P (put_if c k v) = (c \<longrightarrow> P k v)"
  by (auto simp: each_def put_if_def)

lemma texts_types: "is_texts (texts_json xs)" "plain (texts_json xs)" "is_texts JNull" "plain JNull"
  "is_texts (case o' of None \<Rightarrow> JNull | Some xs \<Rightarrow> texts_json xs)"
  "plain (case o' of None \<Rightarrow> JNull | Some xs \<Rightarrow> texts_json xs)"
  by (simp_all add: texts_json_def is_texts_def is_text_def list_all_iff split: option.split)

lemma action_types: "is_action (action_json a)" "plain (action_json a)"
proof -
  have f: "folded [(''type'', a), (''description'', b), (''requires_confirmation'', c)]" for a b c
    unfolding folded_append by code_simp
  show "is_action (action_json a)"
    by (simp add: action_json_def is_action_def folded_members [OF f] is_text_def is_flag_def)
  have "to_utf8 ''type'' = ''type''" "to_utf8 ''description'' = ''description''"
    "to_utf8 ''requires_confirmation'' = ''requires_confirmation''"
    using utf8_ascii [unfolded utf8_def] by simp_all
  then show "plain (action_json a)" by (simp add: action_json_def)
qed

lemma text_types: "is_text (JStr s)" "plain (JStr s)"
  by (simp_all add: is_text_def)

definition state_names :: "string list" where
  "state_names = ''next_action'' # text_fields @ list_fields"

lemma state_members:
  "each (\<lambda>k v. k \<in> set state_names \<and> plain v \<and> (k \<in> set text_fields \<longrightarrow> is_text v) \<and>
     (k \<in> set list_fields \<longrightarrow> is_texts v) \<and> (k = ''next_action'' \<longrightarrow> is_action v)) (state_json r)"
  unfolding state_json_def each_simps
  by (simp add: texts_types action_types text_types text_fields_def list_fields_def state_names_def)

lemma state_typed:
  "\<forall>n \<in> set text_fields. list_all is_text (members (state_json r) n)"
  "\<forall>n \<in> set list_fields. list_all is_texts (members (state_json r) n)"
  "list_all is_action (members (state_json r) ''next_action'')"
  using state_members [of r] unfolding folded_members [OF folded_state]
  by (auto simp: each_def list_all_iff)

lemma state_names_ascii: "list_all (list_all (\<lambda>c. (of_char c :: nat) < 0x80)) state_names"
  by code_simp

lemma state_keys: "distinct (map fst (state_json r))"
proof -
  have a: "map fst (a @ b) = map fst a @ map fst b" for a b :: obj by simp
  have p: "map fst (put_if b k v) = (if b then [k] else [])" for b k and v :: json by (simp add: put_if_def)
  show ?thesis unfolding state_json_def a p by simp
qed

lemma state_plain: "plain (JObj (state_json r))"
proof -
  have "to_utf8 k = k \<and> plain v" if "(k, v) \<in> set (state_json r)" for k v
  proof -
    have "k \<in> set state_names" "plain v" using state_members [of r] that by (auto simp: each_def)
    then show ?thesis using state_names_ascii utf8_ascii unfolding list_all_iff [of _ state_names] utf8_def by blast
  qed
  then show ?thesis using state_keys by (auto simp: list_all_iff)
qed

lemma texts_depth: "depth (texts_json xs) \<le> 1"
proof -
  have "depth ` set (map JStr xs) \<subseteq> {0}" by auto
  then have "Max (insert 0 (depth ` set (map JStr xs))) = 0"
    by (intro Max_eqI) auto
  then show ?thesis by (simp add: texts_json_def)
qed

lemma state_depth: "depth (JObj (state_json r)) \<le> 3"
proof -
  have t: "depth (texts_json xs) \<le> 2" for xs using texts_depth [of xs] by simp
  have o: "depth (case o' of None \<Rightarrow> JNull | Some xs \<Rightarrow> texts_json xs) \<le> 2" for o'
    using t by (cases o') simp_all
  have a: "depth (action_json a) \<le> 2" for a by (simp add: action_json_def)
  have "each (\<lambda>k v. depth v \<le> 2) (state_json r)"
    unfolding state_json_def each_simps by (simp add: t o a)
  then have "\<forall>x \<in> insert 0 ((\<lambda>(k, v). depth v) ` set (state_json r)). x \<le> 2"
    by (auto simp: each_def)
  then show ?thesis by simp
qed

definition state_text :: "gatewayContextRestoreState \<Rightarrow> string" where
  "state_text r = indent_json 0 (JObj (state_json r))"

lemma decode_text: "json_decode (state_text r) = Some (JObj (state_json (clean_state r)))"
proof -
  have "json_decode (state_text r) = Some (cleaned (JObj (state_json r)))"
    unfolding state_text_def
  proof (rule decode_indent [OF state_plain])
    show "depth (JObj (state_json r)) \<le> max_nesting" using state_depth [of r] unfolding max_nesting_def by linarith
  qed
  then show ?thesis using cleaned_state [of r] by (simp add: cleaned_obj_def)
qed

lemma decode_state_text: "rs_SchemaVersion r \<noteq> '''' \<Longrightarrow> decode_state (state_text r) = Some (clean_state r)"
  unfolding decode_state_def decode_text
  by (simp add: state_typed text_fields_back state_json_back) (simp add: clean_state_def)

lemma TrimSpace_ends:
  assumes "plain_char c" "plain_char d"
  shows "TrimSpace (c # s @ [d]) = c # s @ [d]"
proof -
  have ne: "w \<noteq> []" if "w \<in> set ws_runes" for w using that ws_runes_nonempty by metis
  have "first_strip ws_runes (c # s @ [d]) = None"
    unfolding first_strip_None
  proof (intro ballI allI notI)
    fix w r assume w: "w \<in> set ws_runes" "c # s @ [d] = w @ r"
    then have "hd w = c" using ne by (metis hd_append2 list.sel(1))
    then show False using assms(1) w(1) by (auto simp: plain_char_def)
  qed
  moreover have "first_strip rev_ws_runes (rev (c # s @ [d])) = None"
    unfolding first_strip_None
  proof (intro ballI allI notI)
    fix v r assume v: "v \<in> set rev_ws_runes" "rev (c # s @ [d]) = v @ r"
    then obtain w where w: "w \<in> set ws_runes" "v = rev w" by (auto simp: rev_ws_runes_def)
    have "rev (c # s @ [d]) = d # rev s @ [c]" by simp
    then have "hd v = d" using v(2) ne [OF w(1)] w(2) by (metis hd_append2 list.sel(1) rev_is_Nil_conv)
    then have "last w = d" using w(2) ne [OF w(1)] by (simp add: hd_rev)
    then show False using assms(2) w(1) by (auto simp: plain_char_def)
  qed
  ultimately show ?thesis
    by (simp add: TrimSpace_def TrimLeftSpace_def TrimRightSpace_def trim_front_id)
qed

lemma brace_plain: "plain_char (CHR ''{'')" "plain_char (CHR ''}'')"
  by code_simp+

lemma state_text_ends: obtains x where "state_text r = CHR ''{'' # x @ ''}''"
proof -
  have "state_json r \<noteq> []" by (simp add: state_json_def)
  from object_text [OF this, of 0] show thesis
    using that [of "members_text (Suc 0) (state_json r) @ new_line 0"] by (simp add: state_text_def)
qed

lemma state_text_utf8: "to_utf8 (state_text r) = state_text r"
  using utf8_indent [OF state_plain] by (simp add: utf8_def state_text_def)

lemma state_text_trim: "TrimSpace (state_text r) = state_text r"
proof -
  obtain x where "state_text r = CHR ''{'' # x @ ''}''" by (rule state_text_ends)
  then show ?thesis using TrimSpace_ends [OF brace_plain] by simp
qed

lemma prefix_not_decoded:
  assumes "state_text r = p @ q" "q \<noteq> []"
  shows "decode_state p = None"
proof (rule ccontr)
  assume "decode_state p \<noteq> None"
  then obtain m where "json_decode p = Some (JObj m)"
    by (auto simp: decode_state_def split: option.splits json.splits)
  then obtain u where u: "parse_value (2 * length p + 2) 0 p = Some (JObj m, u)"
    by (auto simp: json_decode_def split: option.splits if_splits simp del: parse_value.simps)
  have "parse_value (2 * length (state_text r) + 2) 0 (p @ q) = Some (JObj m, u @ q)"
    using u by (rule parse_extend(1)) (simp_all add: assms(1))
  moreover have "depth (JObj (state_json r)) \<le> max_nesting"
    using state_depth [of r] unfolding max_nesting_def by linarith
  ultimately show False
    using parse_indent [OF state_plain] assms(2) unfolding state_text_def [symmetric] assms(1) [symmetric] by simp
qed

lemma cut_state_not_read:
  assumes "state_text r = p @ q" "q \<noteq> []"
  shows "parseGatewayContextRestoreState p = None"
proof (cases p)
  case Nil
  then show ?thesis by (simp add: parseGatewayContextRestoreState_def)
next
  case (Cons c s)
  obtain x where "state_text r = CHR ''{'' # x @ ''}''" by (rule state_text_ends)
  then have c: "c = CHR ''{''" using assms Cons by simp
  have "first_strip ws_runes p = None"
    unfolding first_strip_None
  proof (intro ballI allI notI)
    fix w r assume w: "w \<in> set ws_runes" "p = w @ r"
    then have "hd w = c" using ws_runes_nonempty Cons by (metis hd_append2 list.sel(1))
    then show False using brace_plain(1) w(1) c by (auto simp: plain_char_def)
  qed
  then have "TrimSpace p = TrimRightSpace p" by (simp add: TrimSpace_def TrimLeftSpace_def trim_front_id)
  then obtain t where t: "p = TrimSpace p @ t" using TrimRightSpace_prefix by metis
  let ?p = "TrimSpace p"
  have "?p \<noteq> []" using TrimSpace_Cons [OF brace_plain(1), of s] Cons c by simp
  then obtain p' where p': "?p = CHR ''{'' # p'" using t Cons c by (metis append_Cons list.inject neq_Nil_conv)
  have "decode_state (take n ?p) = None" for n
  proof (rule prefix_not_decoded)
    show "state_text r = take n ?p @ drop n ?p @ t @ q" using assms(1) t by (metis append_assoc append_take_drop_id)
  qed (use assms(2) in simp)
  moreover from this [of "length ?p"] have "decode_state ?p = None" by simp
  moreover have "index_of ?p ''{'' = Some 0" by (simp add: p' has_prefix_def)
  ultimately show ?thesis using \<open>?p \<noteq> []\<close>
    by (simp add: parseGatewayContextRestoreState_def Let_def split: option.split)
qed

text \<open>
  C26. The memory of a long conversation. The summary of a compaction is read back by the next
  one exactly as it was built, its texts in UTF-8, when its JSON text has at most 12000 runes;
  a longer text is cut in the middle, and of that nothing is read back: facts and prohibitions
  are gone.
\<close>
theorem summary_read_back:
  "parseGatewayContextRestoreState (buildGatewayContextSummary previous segments) =
     (let r = buildGatewayContextRestoreState previous segments (parseGatewayContextRestoreState previous)
      in if rune_count (state_text r) \<le> defaultGatewayContextSummaryMaxRunes then Some (clean_state r) else None)"
proof -
  define r where "r = buildGatewayContextRestoreState previous segments (parseGatewayContextRestoreState previous)"
  have v: "rs_SchemaVersion r = schema_version"
    by (simp add: r_def buildGatewayContextRestoreState_def Let_def)
  let ?n = defaultGatewayContextSummaryMaxRunes
  have s: "buildGatewayContextSummary previous segments = concat (take ?n (runes (state_text r)))"
    unfolding buildGatewayContextSummary_def r_def [symmetric] state_text_def [symmetric] limitRunes_def state_text_trim ..
  have e: "state_text r = concat (take ?n (runes (state_text r))) @ concat (drop ?n (runes (state_text r)))"
    using state_text_utf8 [of r] unfolding to_utf8_def by (metis append_take_drop_id concat_append)
  show ?thesis
  proof (cases "rune_count (state_text r) \<le> ?n")
    case True
    then have "buildGatewayContextSummary previous segments = state_text r"
      unfolding s using state_text_utf8 [of r] by (simp add: rune_count_runes to_utf8_def)
    moreover have "state_text r \<noteq> []" using state_text_ends [of r] by (metis list.distinct(1))
    moreover have "rs_SchemaVersion r \<noteq> ''''" by (simp add: v schema_version_def)
    moreover have "parseGatewayContextRestoreState (state_text r) = Some (clean_state r)"
      using calculation by (simp add: parseGatewayContextRestoreState_def state_text_trim decode_state_text)
    ultimately show ?thesis using True by (simp add: r_def [symmetric])
  next
    case False
    then have "drop ?n (runes (state_text r)) \<noteq> []" by (simp add: rune_count_runes)
    then have "concat (drop ?n (runes (state_text r))) \<noteq> []"
      using set_runes [of _ "state_text r"] by (metis concat_eq_Nil_conv hd_in_set in_set_dropD rune_def)
    from cut_state_not_read [OF e this] show ?thesis
      using False unfolding s by (simp add: r_def [symmetric])
  qed
qed

end
