(* ===== verification/TokenRules.thy ===== *)
theory TokenRules
  imports BackendTokens RestoreText "HOL-Library.Multiset"
begin

text \<open>
  The token file is written and read again: the text \<open>json.MarshalIndent\<close> writes of a file without
  numbers is read back as the same members, so that the tokens a refresh brought are the ones the
  next request finds. A write that is cut in the middle leaves a file nobody can read.
\<close>

section \<open>Members by name\<close>

text \<open>The name is spelled as the code spells it, wherever it stands.\<close>

definition exact :: "string \<Rightarrow> obj \<Rightarrow> bool" where
  "exact name m \<longleftrightarrow> (\<forall>(k, v) \<in> set m. fold_name k = name \<longrightarrow> k = name)"

lemma filter_none: "k \<notin> fst ` set m \<Longrightarrow> filter (\<lambda>(k', v). k' = k) m = []"
  by (force simp: filter_empty_conv)

lemma members_exact:
  assumes "exact name m" "fold_name name = name" "distinct (map fst m)"
  shows "members m name = (case map_of m name of None \<Rightarrow> [] | Some v \<Rightarrow> [v])"
proof -
  have "filter (\<lambda>(k, v). fold_name k = name) m = filter (\<lambda>(k, v). k = name) m"
    using assms(1,2) by (intro filter_cong) (auto simp: exact_def)
  moreover have "map snd (filter (\<lambda>(k, v). k = name) m) = (case map_of m name of None \<Rightarrow> [] | Some v \<Rightarrow> [v])"
    using assms(3) by (induction m) (auto simp: filter_none)
  ultimately show ?thesis by (simp add: members_def)
qed

lemma update_elements: "(k', v') \<in> set (AList.update k v m) \<Longrightarrow> (k', v') = (k, v) \<or> (k', v') \<in> set m"
  by (induction m) (auto split: if_splits)

lemma exact_update: "exact name m \<Longrightarrow> fold_name k \<noteq> name \<or> k = name \<Longrightarrow> exact name (AList.update k v m)"
  unfolding exact_def using update_elements by fast

lemma plain_update: "plain (JObj m) \<Longrightarrow> to_utf8 k = k \<Longrightarrow> plain v \<Longrightarrow> plain (JObj (AList.update k v m))"
  using update_elements [of _ _ k v m] by (fastforce simp: list_all_iff distinct_update)

lemma plain_distinct: "plain (JObj m) \<Longrightarrow> distinct (map fst m)"
  by simp

definition members_depth :: "obj \<Rightarrow> nat" where
  "members_depth m = Max (insert 0 ((\<lambda>(k, v). depth v) ` set m))"

lemma members_depth_le: "members_depth m \<le> n \<longleftrightarrow> (\<forall>(k, v) \<in> set m. depth v \<le> n)"
  by (auto simp: members_depth_def)

lemma depth_object: "depth (JObj m) = Suc (members_depth m)"
  by (simp add: members_depth_def)

lemma depth_update: "members_depth m \<le> n \<Longrightarrow> depth v \<le> n \<Longrightarrow> members_depth (AList.update k v m) \<le> n"
  unfolding members_depth_le using update_elements [of _ _ k v m] by fast

section \<open>The text of the file\<close>

lemma distinct_in_order: "distinct (map fst m) \<Longrightarrow> distinct (map fst (sort_key fst (map (\<lambda>(k, v). (k, in_order v)) m)))"
proof -
  assume "distinct (map fst m)"
  moreover have "map fst (map (\<lambda>(k, v). (k, in_order v)) m) = map fst m" by auto
  ultimately show ?thesis by (metis mset_map mset_sort mset_eq_imp_distinct_iff)
qed

lemma plain_in_order: "plain v \<Longrightarrow> plain (in_order v)"
proof (induction v)
  case (JObj m)
  then have "distinct (map fst (sort_key fst (map (\<lambda>(k, v). (k, in_order v)) m)))"
    by (intro distinct_in_order) simp
  with JObj show ?case by (fastforce simp: list_all_iff)
qed (simp_all add: list_all_iff)

lemma depth_in_order: "depth (in_order v) = depth v"
proof (induction v)
  case (JArr vs)
  then have "depth ` set (map in_order vs) = depth ` set vs" by (force simp: image_image)
  then show ?case by simp
next
  case (JObj m)
  have "depth (in_order (snd x)) = depth (snd x)" if "x \<in> set m" for x
    using JObj [OF that] by (cases x) simp
  then have "(\<lambda>(k, v). depth v) ` set (sort_key fst (map (\<lambda>(k, v). (k, in_order v)) m)) = (\<lambda>(k, v). depth v) ` set m"
    by (simp add: image_image case_prod_unfold)
  then show ?case by simp
qed simp_all

lemma indent_with_plain: "plain v \<Longrightarrow> indent_with f d v = indent_json d v"
proof (induction v arbitrary: d)
  case (JArr vs)
  then have "map (indent_with f (Suc d)) vs = map (indent_json (Suc d)) vs" by (auto simp: list_all_iff)
  then show ?case by (simp only: indent_with.simps indent_json.simps)
next
  case (JObj m)
  then have "map (\<lambda>(k, v). encode_string k @ '': '' @ indent_with f (Suc d) v) m =
      map (\<lambda>(k, v). encode_string k @ '': '' @ indent_json (Suc d) v) m" by (fastforce simp: list_all_iff)
  then show ?case by (simp only: indent_with.simps indent_json.simps)
qed simp_all

lemma decode_written:
  assumes "plain (JObj m)" "members_depth m < max_nesting"
  shows "decode_object (indent_with f 0 (in_order (JObj m)) @ [CHR 0x0A]) =
    Some (cleaned_obj (sort_key fst (map (\<lambda>(k, v). (k, in_order v)) m)))"
proof -
  let ?v = "in_order (JObj m)"
  have p: "plain ?v" using assms(1) by (rule plain_in_order)
  have "depth ?v \<le> max_nesting" unfolding depth_in_order using assms(2) by (simp add: members_depth_def del: Max_less_iff)
  then have "reads_back 0 0 ?v" using p by (intro indent_reads_back) simp_all
  then have "parse_value (2 * length (indent_json 0 ?v @ [CHR 0x0A]) + 2) 0 (indent_json 0 ?v @ [CHR 0x0A]) =
      Some (cleaned ?v, [CHR 0x0A])"
    by (rule reads_backD) simp
  then have "json_decode (indent_json 0 ?v @ [CHR 0x0A]) = Some (cleaned ?v)"
    unfolding json_decode_def by (simp add: skip_space_def is_space_def)
  then show ?thesis unfolding decode_object_def indent_with_plain [OF p]
    by (simp add: cleaned_obj_def)
qed

lemma map_of_written:
  assumes "distinct (map fst m)"
  shows "map_of (cleaned_obj (sort_key fst (map (\<lambda>(k, v). (k, in_order v)) m))) name =
    map_option (\<lambda>v. cleaned (in_order v)) (map_of m name)"
proof -
  let ?m = "map (\<lambda>(k, v). (k, in_order v)) m"
  have d: "distinct (map fst ?m)" using assms by (simp add: comp_def case_prod_unfold)
  have "distinct (map fst (sort_key fst ?m))" using assms by (rule distinct_in_order)
  then have "map_of (sort_key fst ?m) = map_of ?m" using d by (simp add: map_of_inject_set)
  then show ?thesis by (simp add: cleaned_obj_def map_of_map option.map_comp comp_def)
qed

section \<open>The tokens that were written\<close>

text \<open>The members as they are read back: in order, their texts in UTF-8.\<close>

definition written :: "obj \<Rightarrow> obj" where
  "written m = cleaned_obj (sort_key fst (map (\<lambda>(k, v). (k, in_order v)) m))"

lemma written_object: "cleaned (in_order (JObj m)) = JObj (written m)"
  by (simp add: written_def cleaned_obj_def)

lemma written_distinct: "distinct (map fst m) \<Longrightarrow> distinct (map fst (written m))"
proof -
  have "map fst (cleaned_obj x) = map fst x" for x by (auto simp: cleaned_obj_def)
  then show "distinct (map fst m) \<Longrightarrow> distinct (map fst (written m))"
    using distinct_in_order [of m] by (simp add: written_def)
qed

lemma written_exact: "exact name m \<Longrightarrow> exact name (written m)"
  by (fastforce simp: exact_def written_def cleaned_obj_def)

lemma written_members:
  assumes "exact name m" "fold_name name = name" "distinct (map fst m)"
  shows "members (written m) name = (case map_of m name of None \<Rightarrow> [] | Some v \<Rightarrow> [cleaned (in_order v)])"
  using members_exact [OF written_exact [OF assms(1)] assms(2) written_distinct [OF assms(3)]]
    map_of_written [OF assms(3)]
  by (simp add: written_def split: option.split)

definition token_names :: "string list" where
  "token_names = [''access_token'', ''refresh_token'', ''account_id'', ''id_token'']"

definition tokens_object :: "obj \<Rightarrow> obj" where
  "tokens_object m = nil_map (mapValue (field m ''tokens''))"

text \<open>No member of the file differs from one of the code's names only by letter case.\<close>

definition spelled :: "obj \<Rightarrow> bool" where
  "spelled m \<longleftrightarrow> exact ''tokens'' m \<and> exact ''last_refresh'' m \<and> list_all (\<lambda>n. exact n (tokens_object m)) token_names"

lemma names_folded: "list_all (\<lambda>n. fold_name n = n) (''tokens'' # ''last_refresh'' # token_names)"
proof -
  have "list_all (list_all name_char) (''tokens'' # ''last_refresh'' # token_names)" by code_simp
  then show ?thesis by (rule list.pred_mono_strong) (rule fold_plain_name)
qed

lemma names_utf8: "list_all (\<lambda>n. to_utf8 n = n) (''tokens'' # ''last_refresh'' # token_names)"
proof -
  have "list_all (list_all (\<lambda>c. (of_char c :: nat) < 0x80)) (''tokens'' # ''last_refresh'' # token_names)" by code_simp
  then show ?thesis by (rule list.pred_mono_strong) (use utf8_ascii in \<open>simp add: utf8_def\<close>)
qed

lemmas name_facts = names_folded [unfolded token_names_def list.pred_inject] names_utf8 [unfolded token_names_def list.pred_inject]

lemma tokens_object_cases:
  obtains "tokens_object m = []" | "map_of m ''tokens'' = Some (JObj (tokens_object m))"
proof (cases "map_of m ''tokens''")
  case None
  then show ?thesis using that(1) by (simp add: tokens_object_def field_def mapValue_def nil_map_def)
next
  case (Some v)
  then show ?thesis using that by (cases v) (simp_all add: tokens_object_def field_def mapValue_def nil_map_def)
qed

lemma tokens_object_sound:
  assumes "plain (JObj m)" "members_depth m < max_nesting"
  shows "plain (JObj (tokens_object m))" "members_depth (tokens_object m) + 2 \<le> max_nesting"
proof -
  have "plain (JObj (tokens_object m)) \<and> members_depth (tokens_object m) + 2 \<le> max_nesting"
  proof (cases rule: tokens_object_cases [of m])
    case 1
    then show ?thesis by (simp add: members_depth_def max_nesting_def)
  next
    case 2
    then have i: "(''tokens'', JObj (tokens_object m)) \<in> set m" by (rule map_of_SomeD)
    then have "depth (JObj (tokens_object m)) \<le> members_depth m"
      using members_depth_le [of m "members_depth m"] by fastforce
    then have "members_depth (tokens_object m) + 2 \<le> max_nesting"
      using assms(2) unfolding depth_object by linarith
    moreover have "plain (JObj (tokens_object m))" using assms(1) i by (fastforce simp: list_all_iff)
    ultimately show ?thesis by blast
  qed
  then show "plain (JObj (tokens_object m))" "members_depth (tokens_object m) + 2 \<le> max_nesting" by blast+
qed

definition id_written :: "json option \<Rightarrow> bool" where
  "id_written i \<longleftrightarrow> (\<forall>v. i = Some v \<longrightarrow> plain v \<and> depth v + 2 \<le> max_nesting)"

declare fold_name.simps [simp del]

lemma written_text: "cleaned (in_order (JStr s)) = JStr (to_utf8 s)"
  by simp

lemmas written_values = written_object written_text

lemma token_map_sound:
  assumes "plain (JObj old)" "members_depth old + 2 \<le> max_nesting" "id_written (IDToken t)"
  shows "plain (JObj (token_map old t))" "members_depth (token_map old t) + 2 \<le> max_nesting"
proof -
  show "plain (JObj (token_map old t))"
    unfolding token_map_def Let_def
    using assms(1,3) name_facts
    by (cases "IDToken t") (auto simp: id_written_def simp del: plain.simps(3) intro!: plain_update)
  have "members_depth old \<le> max_nesting - 2" using assms(2) by simp
  then have "members_depth (token_map old t) \<le> max_nesting - 2"
    unfolding token_map_def Let_def
    using assms(3) by (cases "IDToken t") (auto simp: id_written_def intro!: depth_update)
  then show "members_depth (token_map old t) + 2 \<le> max_nesting" using assms(2) by simp
qed

lemma exact_set: "exact name m \<Longrightarrow> fold_name k = k \<Longrightarrow> exact name (AList.update k v m)"
  by (rule exact_update) auto

lemma token_map_exact:
  assumes "list_all (\<lambda>n. exact n old) token_names"
  shows "list_all (\<lambda>n. exact n (token_map old t)) token_names"
proof -
  have "exact n (token_map old t)" if "n \<in> set token_names" for n
  proof -
    have "exact n old" using assms that by (simp add: list_all_iff)
    then show ?thesis unfolding token_map_def Let_def
      by (cases "IDToken t"; cases "AccountID t = []") (simp_all add: exact_set name_facts)
  qed
  then show ?thesis by (simp add: list_all_iff)
qed

lemma file_sound:
  fixes t stamp defines "fm m \<equiv> auth_file_json m t stamp"
  assumes "plain (JObj m)" "members_depth m < max_nesting" "id_written (IDToken t)"
  shows "plain (JObj (fm m))" "members_depth (fm m) < max_nesting"
proof -
  note old = tokens_object_sound [OF assms(2,3)]
  note tm = token_map_sound [OF old assms(4)]
  show "plain (JObj (fm m))"
    unfolding fm_def auth_file_json_def tokens_object_def [symmetric]
    using assms(2) tm(1) name_facts by (intro plain_update) (simp_all del: plain.simps(3) add: text_types)
  have "members_depth m \<le> max_nesting - 1" using assms(3) by simp
  then have "members_depth (fm m) \<le> max_nesting - 1"
    unfolding fm_def auth_file_json_def tokens_object_def [symmetric]
    using tm(2) by (intro depth_update) (simp_all del: depth.simps(2) add: depth_object)
  then show "members_depth (fm m) < max_nesting" by (simp add: max_nesting_def)
qed

lemma file_exact: "spelled m \<Longrightarrow> exact ''tokens'' (auth_file_json m t stamp) \<and> exact ''last_refresh'' (auth_file_json m t stamp)"
  unfolding spelled_def auth_file_json_def by (simp add: exact_set name_facts)

lemma written_tokens:
  fixes stamp
  assumes "plain (JObj m)" "members_depth m < max_nesting" "id_written (IDToken t)" "spelled m" "AccountID t \<noteq> ''''"
  defines "fm \<equiv> auth_file_json m t stamp"
  shows "\<exists>t'. auth_file_of (indent_with f 0 (in_order (JObj fm)) @ [CHR 0x0A]) = Some (t', written fm) \<and>
    AccessToken t' = to_utf8 (AccessToken t) \<and> RefreshToken t' = to_utf8 (RefreshToken t) \<and>
    AccountID t' = to_utf8 (AccountID t)"
proof -
  note sound = file_sound [OF assms(1-3), of stamp, folded fm_def]
  let ?tm = "token_map (tokens_object m) t"
  note tm = token_map_sound [OF tokens_object_sound [OF assms(1,2)] assms(3)]
  have tokens: "members (written fm) ''tokens'' = [JObj (written ?tm)]"
    using written_members [of "''tokens''" fm] file_exact [OF assms(4), of t stamp] plain_distinct [OF sound(1)] name_facts
    by (simp add: fm_def auth_file_json_def update_conv' tokens_object_def [symmetric] written_values del: in_order.simps cleaned.simps)
  have "members (written fm) ''last_refresh'' = [JStr (to_utf8 stamp)]"
    using written_members [of "''last_refresh''" fm] file_exact [OF assms(4), of t stamp] plain_distinct [OF sound(1)] name_facts
    by (simp add: fm_def auth_file_json_def update_conv')
  moreover have names: "members (written ?tm) ''access_token'' = [JStr (to_utf8 (AccessToken t))]"
    "members (written ?tm) ''refresh_token'' = [JStr (to_utf8 (RefreshToken t))]"
    "members (written ?tm) ''account_id'' = [JStr (to_utf8 (AccountID t))]"
  proof -
    have e: "exact n ?tm" if "n \<in> set token_names" for n
      using token_map_exact [of "tokens_object m" t] assms(4) that by (simp add: spelled_def list_all_iff)
    have "map_of ?tm ''access_token'' = Some (JStr (AccessToken t))" "map_of ?tm ''refresh_token'' = Some (JStr (RefreshToken t))"
      "map_of ?tm ''account_id'' = Some (JStr (AccountID t))"
      using assms(5) by (cases "IDToken t"; simp add: token_map_def update_conv')+
    then show "members (written ?tm) ''access_token'' = [JStr (to_utf8 (AccessToken t))]"
      "members (written ?tm) ''refresh_token'' = [JStr (to_utf8 (RefreshToken t))]"
      "members (written ?tm) ''account_id'' = [JStr (to_utf8 (AccountID t))]"
      using written_members [OF e _ plain_distinct [OF tm(1)]] name_facts by (simp_all add: token_names_def)
  qed
  ultimately show ?thesis
    unfolding auth_file_of_def decode_written [OF sound] written_def [symmetric]
    by (simp add: tokens is_tokens_def is_text_def tokens_of_def mapValue_def nil_map_def text_member_def)
qed

section \<open>Refreshing\<close>

lemma account_trimmed: "TrimSpace (account_of t) = account_of t" "TrimSpace (accountIDFromTokenData t) = accountIDFromTokenData t"
proof -
  have s: "TrimSpace (stringValue v) = stringValue v" for v
    by (cases v) (simp_all add: stringValue_def)
  show a: "TrimSpace (accountIDFromTokenData t) = accountIDFromTokenData t"
    by (simp add: accountIDFromTokenData_def accountIDFromJWT_def Let_def s split: option.split json.split)
  show "TrimSpace (account_of t) = account_of t" by (simp add: account_of_def a)
qed

lemma account_unread: "accountIDFromTokenData (t\<lparr>AccountID := a\<rparr>) = accountIDFromTokenData t"
  by (simp add: accountIDFromTokenData_def Let_def)

text \<open>The identity token of an answer of the token endpoint is a text.\<close>

definition text_ids :: "'n host \<Rightarrow> bool" where
  "text_ids h \<longleftrightarrow>
     (\<forall>r n resp n' b v. ho_Do h r n = (Inr resp, n') \<and> decode_object (hr_Body resp) = Some b \<and> v \<in> set (members b ''id_token'') \<longrightarrow>
        (\<exists>s. v = JStr s))"

lemma and_then_Inr:
  "and_then m f w = (Inr x, w') \<longleftrightarrow> (\<exists>y v. m w = (Inr y, v) \<and> f y v = (Inr x, w'))"
  by (auto simp: and_then_def split: prod.splits sum.splits)

lemma send_Inr: "http_send h r w = (Inr resp, w') \<Longrightarrow> mc_Files w' = mc_Files w \<and> (\<exists>n'. ho_Do h r (mc_Net w) = (Inr resp, n'))"
  by (auto simp: http_send_def split: option.splits prod.splits)

lemma refresh_answer:
  assumes "requestCodexTokenRefresh h old w = (Inr refreshed, w')"
  shows "mc_Files w' = mc_Files w" "TrimSpace (AccessToken refreshed) \<noteq> ''''"
    "text_ids h \<Longrightarrow> IDToken refreshed = Some v \<Longrightarrow> \<exists>s. v = JStr s"
proof -
  obtain r resp v' where send: "http_send h r w = (Inr resp, v')"
    and rest: "\<exists>b. decode_object (hr_Body resp) = Some b \<and> refreshed = tokens_of [(''tokens'', JObj b)] \<and>
      TrimSpace (AccessToken refreshed) \<noteq> '''' \<and> v' = w'"
    using assms unfolding requestCodexTokenRefresh_def and_then_Inr
    by (auto simp: give_def give_up_with_def Let_def split: if_splits option.splits)
  then obtain b where b: "decode_object (hr_Body resp) = Some b" "refreshed = tokens_of [(''tokens'', JObj b)]"
    "TrimSpace (AccessToken refreshed) \<noteq> ''''" "v' = w'" by blast
  show "mc_Files w' = mc_Files w" "TrimSpace (AccessToken refreshed) \<noteq> ''''" using send_Inr [OF send] b by auto
  assume ids: "text_ids h" and v: "IDToken refreshed = Some v"
  have "concat (map (\<lambda>v. nil_map (mapValue v)) (members [(''tokens'', JObj b)] ''tokens'')) = b"
    by (simp add: members_def name_facts mapValue_def nil_map_def)
  then have "IDToken refreshed = (case rev (members b ''id_token'') of v # _ \<Rightarrow> Some v | [] \<Rightarrow> None)"
    unfolding b(2) tokens_of_def Let_def by simp
  then have "v \<in> set (members b ''id_token'')"
    using v by (auto split: list.splits)
  then show "\<exists>s. v = JStr s" using ids send_Inr [OF send] b(1) unfolding text_ids_def by blast
qed

lemma merged_facts:
  assumes "TrimSpace (AccessToken refreshed) \<noteq> ''''"
  shows "AccessToken (merged_tokens t refreshed a) = AccessToken refreshed"
    "IDToken (merged_tokens t refreshed a) = (if IDToken refreshed \<noteq> None then IDToken refreshed else IDToken t)"
    "AccountID (merged_tokens t refreshed a) =
       (let acc = (if a = '''' then accountIDFromTokenData (merged_tokens t refreshed a) else a)
        in if acc \<noteq> '''' then acc else AccountID t)"
  using assms by (simp_all add: merged_tokens_def Let_def account_unread)

lemma refresh_writes:
  assumes "refresh_tokens h path tokens raw w = (Inr (tok, acc), w')" "acc \<noteq> ''''"
  shows "\<exists>t stamp. mc_Files w' path = Some (indent_with (ho_Fmt h) 0 (in_order (JObj (auth_file_json raw t stamp))) @ [CHR 0x0A]) \<and>
    AccessToken t = tok \<and> AccountID t = acc \<and> TrimSpace tok \<noteq> '''' \<and> TrimSpace acc = acc \<and>
    (text_ids h \<longrightarrow> IDToken t = IDToken tokens \<or> (\<exists>s. IDToken t = Some (JStr s)))"
proof -
  let ?a = "account_of tokens"
  obtain refreshed v where req: "requestCodexTokenRefresh h (RefreshToken tokens) w = (Inr refreshed, v)"
    and save: "saveCodexAuthFile h path raw (merged_tokens tokens refreshed ?a) v = (Inr (), w')"
    and tok: "tok = AccessToken (merged_tokens tokens refreshed ?a)"
      "acc = (if ?a = '''' then accountIDFromTokenData (merged_tokens tokens refreshed ?a) else ?a)"
    using assms(1) unfolding refresh_tokens_def
    by (auto simp: and_then_Inr give_def give_up_with_def Let_def split: if_splits)
  note answer = refresh_answer [OF req] and merged = merged_facts [OF refresh_answer(2) [OF req], of tokens ?a]
  obtain stamp where "mc_Files w' path =
      Some (indent_with (ho_Fmt h) 0 (in_order (JObj (auth_file_json raw (merged_tokens tokens refreshed ?a) stamp))) @ [CHR 0x0A])"
    using save by (auto simp: saveCodexAuthFile_def write_file_def split: option.splits)
  moreover have "AccountID (merged_tokens tokens refreshed ?a) = acc" using merged(3) tok(2) assms(2) by (simp add: Let_def)
  moreover have "TrimSpace acc = acc" by (simp add: tok(2) account_trimmed)
  moreover have "text_ids h \<longrightarrow> IDToken (merged_tokens tokens refreshed ?a) = IDToken tokens \<or>
      (\<exists>s. IDToken (merged_tokens tokens refreshed ?a) = Some (JStr s))"
    unfolding merged(2) using answer(3) by (cases "IDToken refreshed") auto
  ultimately show ?thesis using tok(1) answer(2) merged(1) by metis
qed

lemma id_of_file:
  assumes "plain (JObj m)" "members_depth m < max_nesting" "spelled m" "IDToken (tokens_of m) = Some v"
  shows "plain v \<and> depth v + 2 \<le> max_nesting"
proof -
  have d: "distinct (map fst m)" "exact ''tokens'' m" using assms(1,3) by (simp_all add: spelled_def)
  have "concat (map (\<lambda>v. nil_map (mapValue v)) (members m ''tokens'')) = tokens_object m"
    using members_exact [OF d(2) _ d(1)] name_facts
    by (cases "map_of m ''tokens''") (simp_all add: tokens_object_def field_def mapValue_def nil_map_def)
  then have "v \<in> set (members (tokens_object m) ''id_token'')"
    using assms(4) unfolding tokens_of_def Let_def
    by (auto split: list.splits)
  then obtain k where k: "(k, v) \<in> set (tokens_object m)" by (auto simp: members_def)
  then have "plain v" using tokens_object_sound(1) [OF assms(1,2)] by (auto simp: list_all_iff)
  moreover have "depth v \<le> members_depth (tokens_object m)"
    using k members_depth_le [of "tokens_object m" "members_depth (tokens_object m)"] by fastforce
  ultimately show ?thesis using tokens_object_sound(2) [OF assms(1,2)] by simp
qed

lemma load_written:
  assumes "plain (JObj m)" "members_depth m < max_nesting" "spelled m" "id_written (IDToken t)"
    and "AccountID t \<noteq> ''''" "to_utf8 (AccessToken t) = AccessToken t" "to_utf8 (AccountID t) = AccountID t"
    and "mc_Files w path = Some (indent_with f 0 (in_order (JObj (auth_file_json m t stamp))) @ [CHR 0x0A])"
  shows "\<exists>t' m'. loadCodexAuthFile path w = (Inr (t', m'), w) \<and> AccessToken t' = AccessToken t \<and> AccountID t' = AccountID t"
  using written_tokens [OF assms(1,2,4,3,5), of f stamp] assms(6-8)
  by (auto simp: loadCodexAuthFile_def and_then_def read_file_def give_def)

lemma access_loads:
  assumes "codexAuthFilePath (ho_Env h) = Inr path" "codexAccessToken h forced w = (Inr (tok, acc), w')"
    and "mc_Files w path = Some s" "decode_object s = Some m"
  shows "(w' = w \<and> tok = AccessToken (tokens_of m) \<and> acc = account_of (tokens_of m) \<and> loadCodexAuthFile path w = (Inr (tokens_of m, m), w)) \<or>
    refresh_tokens h path (tokens_of m) m w = (Inr (tok, acc), w')"
  using assms(2)
  by (auto simp: codexAccessToken_def assms(1,3,4) and_then_def loadCodexAuthFile_def read_file_def auth_file_of_def
    give_def give_up_with_def split: if_splits)

text \<open>
  C36. The tokens a refresh brought are the ones that stay. When \<open>codexAccessToken\<close> has answered
  with a token and an account, every later call that finds the file as this one left it answers the
  same, without a request and without another write, until the token is about to expire. The
  file is one \<open>json.MarshalIndent\<close> writes without numbers, with the names as the code spells them.
\<close>
theorem refreshed_token_is_kept:
  assumes "codexAuthFilePath (ho_Env h) = Inr path"
    and "mc_Files w path = Some s" "decode_object s = Some m"
    and "plain (JObj m)" "members_depth m < max_nesting" "spelled m" "text_ids h"
    and "codexAccessToken h forced w = (Inr (tok, acc), w')"
    and "acc \<noteq> ''''" "to_utf8 tok = tok" "to_utf8 acc = acc"
    and "mc_Files w'' path = mc_Files w' path"
    and "\<not> jwtExpiresSoon (ho_Now h (mc_Net w'')) tok (300 * second)"
  shows "codexAccessToken h False w'' = (Inr (tok, acc), w'')"
proof -
  have "\<exists>t m'. loadCodexAuthFile path w'' = (Inr (t, m'), w'') \<and> AccessToken t = tok \<and> account_of t = acc \<and> TrimSpace tok \<noteq> ''''"
    using access_loads [OF assms(1,8,2,3)]
  proof (elim disjE conjE)
    assume same: "w' = w" "tok = AccessToken (tokens_of m)" "acc = account_of (tokens_of m)"
      and load: "loadCodexAuthFile path w = (Inr (tokens_of m, m), w)"
    have "TrimSpace tok \<noteq> ''''"
    proof
      assume "TrimSpace tok = ''''"
      then show False using assms(1,8) load same(2) by (simp add: codexAccessToken_def and_then_def give_up_with_def)
    qed
    then show ?thesis using load same assms(12)
      by (auto simp: loadCodexAuthFile_def and_then_def read_file_def give_def give_up_with_def split: option.splits)
  next
    assume "refresh_tokens h path (tokens_of m) m w = (Inr (tok, acc), w')"
    from refresh_writes [OF this assms(9)] obtain t stamp
      where kept: "mc_Files w' path = Some (indent_with (ho_Fmt h) 0 (in_order (JObj (auth_file_json m t stamp))) @ [CHR 0x0A])"
        and t: "AccessToken t = tok" "AccountID t = acc" "TrimSpace tok \<noteq> ''''" "TrimSpace acc = acc"
          "IDToken t = IDToken (tokens_of m) \<or> (\<exists>s. IDToken t = Some (JStr s))"
      using assms(7) by blast
    have id: "id_written (IDToken t)"
      using t(5) id_of_file [OF assms(4-6)] unfolding id_written_def by (auto simp: max_nesting_def)
    obtain t' m' where "loadCodexAuthFile path w'' = (Inr (t', m'), w'')" "AccessToken t' = tok" "AccountID t' = acc"
      using load_written [OF assms(4-6) id, of w'' path "ho_Fmt h" stamp] t(1,2) assms(9-12) kept by auto
    then show ?thesis using t(3,4) assms(9) by (auto simp: account_of_def)
  qed
  then show ?thesis using assms(1,13) by (auto simp: codexAccessToken_def and_then_def give_def)
qed

section \<open>A write that is cut\<close>

lemma object_value: "parse_value n d (CHR ''{'' # s) = Some (v, r) \<Longrightarrow> \<exists>m. v = JObj m"
  by (cases n) (auto simp: skip_mark is_space_def split: option.splits if_splits)

lemma cut_object_unread:
  assumes "plain (JObj m)" "depth (JObj m) \<le> max_nesting" "indent_json 0 (JObj m) = p @ q" "q \<noteq> []"
  shows "json_decode p = None"
proof (rule ccontr)
  assume "json_decode p \<noteq> None"
  then obtain v u where u: "parse_value (2 * length p + 2) 0 p = Some (v, u)"
    by (auto simp: json_decode_def split: option.splits if_splits simp del: parse_value.simps)
  obtain x where x: "indent_json 0 (JObj m) = CHR ''{'' # x" by (cases "m = []") (simp_all add: spread_def)
  have "\<exists>x. v = JObj x"
  proof (cases p)
    case Nil
    then show ?thesis using u by (simp add: skip_space_def)
  next
    case (Cons c p')
    then have "p = CHR ''{'' # p'" using x assms(3) by simp
    then show ?thesis using u object_value by metis
  qed
  with u have "parse_value (2 * length (p @ q) + 2) 0 (p @ q) = Some (v, u @ q)"
    by (intro parse_extend(1) [OF u]) simp_all
  then show False using parse_indent [OF assms(1,2)] assms(4) unfolding assms(3) by simp
qed

text \<open>
  C37. One write that is cut locks the gateway out. \<open>saveCodexAuthFile\<close> truncates the file in place:
  when the write fails before its last but one byte, the file holds a text that is not JSON, and
  every later call of \<open>codexAccessToken\<close>, forced or not, fails on it; the refresh token, which the
  token endpoint has just replaced, is lost.
\<close>
theorem cut_write_locks_out:
  assumes "plain (JObj m)" "members_depth m < max_nesting" "id_written (IDToken t)"
    and "saveCodexAuthFile (h\<lparr>ho_Cut := \<lambda>_. None\<rparr>) path m t w = (Inr (), v)" "mc_Files v path = Some s"
    and "ho_Cut h (mc_Net w) = Some k" "Suc k < length s"
    and "codexAuthFilePath (ho_Env h') = Inr path" "mc_Files w' path = mc_Files (snd (saveCodexAuthFile h path m t w)) path"
  shows "codexAccessToken h' forced w' = (Inl (TextError ''json: cannot unmarshal''), w')"
proof -
  obtain stamp where s: "s = indent_with (ho_Fmt h) 0 (in_order (JObj (auth_file_json m t stamp))) @ [CHR 0x0A]"
    and cut: "mc_Files w' path = Some (take k s)"
    using assms(4-6,9) by (auto simp: saveCodexAuthFile_def write_file_def)
  note sound = file_sound [OF assms(1-3), of stamp]
  let ?o = "in_order (JObj (auth_file_json m t stamp))"
  have p: "plain ?o" using sound(1) by (rule plain_in_order)
  then have i: "indent_with (ho_Fmt h) 0 ?o = indent_json 0 ?o" by (rule indent_with_plain)
  obtain o' where o: "?o = JObj o'" by simp
  have "depth (JObj o') \<le> max_nesting"
    using sound(2) unfolding o [symmetric] depth_in_order depth_object by simp
  moreover have enc: "s = indent_json 0 (JObj o') @ [CHR 0x0A]" unfolding s i by (simp only: o)
  have k: "k < length (indent_json 0 (JObj o'))" using assms(7) unfolding enc by (simp del: indent_json.simps)
  then have "take k s = take k (indent_json 0 (JObj o'))" unfolding enc by (simp del: indent_json.simps)
  then have "indent_json 0 (JObj o') = take k s @ drop k (indent_json 0 (JObj o'))"
    by (simp only: append_take_drop_id)
  moreover have "drop k (indent_json 0 (JObj o')) \<noteq> []" using k by (simp del: indent_json.simps)
  ultimately have "json_decode (take k s) = None" by (rule cut_object_unread [OF p [unfolded o]])
  then show ?thesis using assms(8) cut
    by (simp add: codexAccessToken_def and_then_def loadCodexAuthFile_def read_file_def auth_file_of_def decode_object_def give_up_with_def)
qed

section \<open>Witnesses\<close>

definition sample_file :: obj where
  "sample_file = [(''tokens'', JObj [(''access_token'', JStr ''o''), (''account_id'', JStr ''a''), (''refresh_token'', JStr ''r'')])]"

definition sample_new_tokens :: codexAuthTokens where
  "sample_new_tokens = \<lparr>IDToken = None, AccessToken = ''n'', RefreshToken = ''s'', AccountID = ''a''\<rparr>"

text \<open>The token endpoint answers with the text given, a write fails after the bytes given.\<close>

definition sample_host :: "string \<Rightarrow> nat option \<Rightarrow> unit host" where
  "sample_host body c =
     \<lparr>ho_Do = (\<lambda>_ n. (Inr \<lparr>hr_Status = 200, hr_Body = body, hr_ReadError = None\<rparr>, n)), ho_Cut = (\<lambda>_. c), ho_Now = (\<lambda>_. 0),
      ho_Stamp = (\<lambda>_. ''t''), ho_URLError = (\<lambda>_. None), ho_Env = (\<lambda>k. if k = ''CODEX_AUTH_FILE'' then ''f'' else ''''),
      ho_Fmt = (\<lambda>_. ''''), ho_TimedOut = (\<lambda>_. False), ho_Sleep = (\<lambda>_ n. (True, n)), ho_ContextError = (\<lambda>_. TextError '''')\<rparr>"

definition sample_renewal :: string where
  "sample_renewal = json_encode (\<lambda>_. '''') (JObj [(''access_token'', JStr ''n''), (''refresh_token'', JStr ''s'')])"

definition sample_machine :: "unit machine" where
  "sample_machine = \<lparr>mc_Files = [''f'' \<mapsto> json_encode (\<lambda>_. '''') (JObj sample_file)], mc_Net = ()\<rparr>"

lemma sample_path: "codexAuthFilePath (ho_Env (sample_host b c)) = Inr ''f''"
proof -
  have "TrimSpace ''f'' = ''f''" by code_simp
  then show ?thesis by (simp add: sample_host_def codexAuthFilePath_def)
qed

lemma sample_file_read: "decode_object (json_encode (\<lambda>_. '''') (JObj sample_file)) = Some sample_file"
  by code_simp

lemma sample_renewal_read: "decode_object sample_renewal = Some [(''access_token'', JStr ''n''), (''refresh_token'', JStr ''s'')]"
  by code_simp

lemma sample_refresh: "fst (codexAccessToken (sample_host sample_renewal None) True sample_machine) = Inr (''n'', ''a'')"
  by code_simp

lemma sample_sound: "plain (JObj sample_file)" "members_depth sample_file < max_nesting" "spelled sample_file"
  "text_ids (sample_host sample_renewal c)" "to_utf8 ''n'' = ''n''" "to_utf8 ''a'' = ''a''"
proof -
  show "plain (JObj sample_file)" by code_simp
  show "members_depth sample_file < max_nesting" by code_simp
  show "spelled sample_file" by code_simp
  have "members [(''access_token'', JStr ''n''), (''refresh_token'', JStr ''s'')] ''id_token'' = []" by code_simp
  then show "text_ids (sample_host sample_renewal c)"
    using sample_renewal_read by (simp add: text_ids_def sample_host_def)
qed code_simp+

lemma sample_lasts: "\<not> jwtExpiresSoon 0 ''n'' (300 * second)"
  by code_simp

theorem refreshed_token_is_kept_witness:
  "let h = sample_host sample_renewal None; w = snd (codexAccessToken h True sample_machine)
   in codexAccessToken h False w = (Inr (''n'', ''a''), w)"
proof -
  let ?h = "sample_host sample_renewal None"
  let ?w = "snd (codexAccessToken ?h True sample_machine)"
  have f: "mc_Files sample_machine ''f'' = Some (json_encode (\<lambda>_. '''') (JObj sample_file))" by (simp add: sample_machine_def)
  have r: "codexAccessToken ?h True sample_machine = (Inr (''n'', ''a''), ?w)"
    using sample_refresh by (metis prod.collapse)
  have "ho_Now ?h (mc_Net ?w) = 0" by (simp add: sample_host_def)
  then have "\<not> jwtExpiresSoon (ho_Now ?h (mc_Net ?w)) ''n'' (300 * second)" using sample_lasts by simp
  from refreshed_token_is_kept [OF sample_path f sample_file_read sample_sound(1-4) r _ sample_sound(5,6) refl this]
  show ?thesis by simp
qed

theorem cut_write_locks_out_witness:
  "let w = snd (saveCodexAuthFile (sample_host sample_renewal (Some 1)) ''f'' sample_file sample_new_tokens sample_machine)
   in codexAccessToken (sample_host sample_renewal None) True w = (Inl (TextError ''json: cannot unmarshal''), w)"
proof -
  let ?h = "sample_host sample_renewal (Some 1)"
  let ?h' = "?h\<lparr>ho_Cut := \<lambda>_. None\<rparr>"
  let ?s = "indent_with (ho_Fmt ?h) 0 (in_order (JObj (auth_file_json sample_file sample_new_tokens ''t''))) @ [CHR 0x0A]"
  have s: "saveCodexAuthFile ?h' ''f'' sample_file sample_new_tokens sample_machine =
      (Inr (), sample_machine\<lparr>mc_Files := (mc_Files sample_machine)(''f'' \<mapsto> ?s)\<rparr>)"
    by (simp add: saveCodexAuthFile_def write_file_def sample_host_def)
  have l: "Suc 1 < length ?s" by code_simp
  show ?thesis unfolding Let_def
    by (rule cut_write_locks_out [OF sample_sound(1,2) _ s _ _ l sample_path refl])
      (simp_all add: id_written_def sample_new_tokens_def sample_host_def)
qed

end
