(* ===== verification/Spec2Isabelle.thy ===== *)
theory Spec2Isabelle
  imports Accounting CompactionRules ConsoleRules TokenRules
begin

text \<open>
  A model of the OpenAI OAuth gateway: the Go service under src/server that hands out API keys,
  meters and limits what their holders use, and serves \<open>/v1/responses\<close> and
  \<open>/v1/chat/completions\<close> from one upstream account.

  \<^bold>\<open>The program and the theories.\<close> A request passes three layers, and the theories follow them.

  \<^item> internal/data/gateway\_repo.go, the repository over the database. \<open>Tables\<close> is a table with
    ids, unique indexes and paging; \<open>Store\<close> has the rows, validators and indexes of
    internal/data/model/schema and the record \<open>store\<close> of all tables; \<open>KeyRepo\<close>, \<open>ModelRepo\<close>,
    \<open>UsageRepo\<close>, \<open>UsageSummaries\<close> and \<open>OpsRepo\<close> are the operations, named \<open>repo_X\<close> after the
    method \<open>X\<close>. \<open>Diagnostics\<close> is the JSON column of a usage log.
  \<^item> internal/biz/gateway.go and official\_model\_prices.go, the use cases. \<open>KeySecrets\<close>,
    \<open>Catalog\<close> and \<open>GoTime\<close> hold the pure parts: key material, models, prices, normalisers, days
    and weeks. \<open>KeyService\<close>, \<open>ModelService\<close>, \<open>Quota\<close>, \<open>Settings\<close> and \<open>UsageService\<close> are the
    use cases; each takes the repository methods it calls as arguments, as the Go code takes an
    interface, and \<open>gateway_X\<close> is the use case over the repository of the model. What a use case
    needs of its repository is a locale, interpreted on the repository in the same theory.
    \<open>Metering\<close> and \<open>GatewayRuns\<close> put them together: accounts and whole runs.
  \<^item> internal/server, the HTTP side. \<open>Json\<close> and \<open>Content\<close> read requests, \<open>Upstream\<close> names
    errors, retries and falls back, \<open>BackendAdapter\<close> builds the backend request and reads its
    event stream (codex\_backend\_adapter.go), \<open>BackendTokens\<close> is the client behind it: the access
    token of the account, its file, the refresh and the requests (\<open>http_client\<close> is what the
    \<open>backend\<close> argument of the calls stands for), \<open>TokenRules\<close> its properties. \<open>EventStream\<close> relays that stream to the client,
    \<open>Answers\<close> builds the answers of the gateway itself, \<open>Limiter\<close> guards large requests,
    \<open>ContextGuard\<close> decides what happens to long ones, \<open>RequestLog\<close> names errors and logs, and
    \<open>GatewayHandler\<close> is \<open>ServeHTTP\<close> with everything it calls (openai\_gateway\_handler.go).
    \<open>Admission\<close> and \<open>Accounting\<close> hold the properties of a whole request.
  \<^item> gateway\_context\_compaction.go, the rewriting of a long conversation. \<open>GoRunes\<close> cuts texts at
    characters and has the regular expressions as matchers; \<open>RestoreState\<close> finds what users asked,
    allowed and forbade in the text that is cut out and writes it as a JSON object, which the next
    compaction reads; \<open>Compaction\<close> cuts the messages and puts the summary in their place.
    \<open>RestoreText\<close>, \<open>RestoreRules\<close> and \<open>CompactionRules\<close> hold the properties.
    \<open>compactGatewayContextRequest\<close> is what \<open>ContextGuard\<close> takes as an argument.
  \<^item> The console of users and administrators. \<open>Accounts\<close> has the tables of both beside those of
    the gateway (\<open>console\<close> extends \<open>store\<close>) and their repositories (auth\_repo.go,
    admin\_auth\_repo.go, user\_admin\_repo.go, admin\_user\_init.go); \<open>SignIn\<close> has tokens, the middleware
    that reads them and the use cases of internal/biz/auth.go, admin\_auth.go and user\_admin.go.
    \<open>ConsoleValues\<close> and \<open>ConsoleAnswers\<close> read the parameters and write the answers of the JSON-RPC,
    \<open>Console\<close> is its dispatch and all its methods (internal/data/jsonrpc.go, jsonrpc\_gateway.go), which
    call the \<open>gateway_X\<close> on the tables of the gateway. \<open>SignInRules\<close> and \<open>ConsoleRules\<close> hold the
    properties.

  \<open>GoPrelude\<close>, \<open>GoStrings\<close> and \<open>Encoding\<close> are what the code uses of Go and its library: errors
  and the operations over a state, \<open>strings\<close>, \<open>strconv\<close>, UTF-8, SHA-256, hex and base64.

  \<^bold>\<open>State.\<close> A database operation maps a \<open>store\<close> to a result and a store. Every statement may
  fail: \<open>fault s n\<close> says whether statement number \<open>n\<close> does, \<open>clock s\<close> what the clock says at it.
  A failed statement changes nothing, statements before it stay: the code runs no transactions.
  Theorems hold for all faults unless they assume a calm store. The network is an abstract world
  that the backend client and the command line act on; \<open>BackendTokens\<close> has one made of a network
  and of files, a map from paths to contents, in which a write may be cut after some bytes.

  \<^bold>\<open>Concurrency.\<close> The handler is modelled as one request that runs alone, on a state of the
  database, the limiters and the network. What the requests share in memory are the two limiters;
  \<open>Limiter\<close> has a step relation of any number of requests that take and give back slots in any
  order. What the client, the clock and the backend do to a stream is a list of inputs in the
  order in which the two select loops see them.

  \<^bold>\<open>Values.\<close> A Go string is its list of bytes. Integers are \<open>int\<close>, wrapped to 64 bits where a sum
  could leave them (\<open>wrap64\<close>); columns bound the rest. A float64 is a rational: JSON literals are
  rounded to the nearest double, costs are added up exactly, without rounding. Times are
  nanoseconds since 1970 in a location of fixed offset. Environment variables, random bytes, the
  time and the shortest text of a float (\<open>fmt_float\<close>) are arguments, as are bcrypt and the
  signature of tokens (\<open>sign_in\<close>).

  \<^bold>\<open>Bounds and termination.\<close> All functions are total. The JSON parser has fuel \<open>2 * length + 2\<close>
  and the nesting limit of the Go decoder; each of its calls consumes a byte or is the second at
  the same place, so the fuel does not run out. The retry loop runs on the number of attempts.
  The loop that relays a stream runs on the list of its inputs; a client whose stream never ends
  gets the reply \<open>Hanging\<close>.

  \<^bold>\<open>What is shown.\<close> Keys: who authenticates, and that revoking and resetting take effect at
  once. Quotas and policies: exactly when a request passes, also when statements fail. Usage:
  what is logged is counted once in every later read, sums agree with listings and partitions.
  Catalogue: what start-up leaves. Settings: round trips and precedence. Runs: every reachable
  store is well formed, its keys authenticate, an exhausted key stays refused. Upstream: bounded
  retries, when the command line may run, whose fault an error is. Backend: no orphans in the
  request, exactly what is read from the stream, the written frames read back; the token a refresh
  brought is the one found in the file later, and a write of that file that is cut locks every
  later request out. Streams: what the
  client receives and how the stream ends, and that it is billed as the whole answer would be.
  Limiters: exact counts in every interleaving, bounded bursts. Requests: the upstream is reached
  only by a request that passes every check, at most one row is logged and it agrees with the
  reply, the slot of a large request is given back on every path. Compaction: a summary is read
  back as it was written or not at all, which messages stay, that segments of users alone give
  instructions and which texts wrongly count as theirs, that facts are handed on. Console: without
  an enabled administrator behind the token nothing changes, users see what is theirs, who may
  sign in and for whom a token speaks, that an administrator's token is accepted, and two things
  that go on too long: sessions of disabled users, and identities bound in a refused sign-in.

  \<^bold>\<open>Not modelled.\<close> The pages that talk to the OAuth provider (oauth\_handler.go), whose result, an
  \<open>OAuthIdentity\<close>, is an argument of the sign-in; the Markdown summary after a failed MarshalIndent, which cannot fail; the balance
  and export pages; the HTTP transport and the command line process, which are arguments; the ent client, protobuf and wire code, which
  are generated; configuration, logging, tracing and the programs under cmd; the web client, the
  scripts and the old Python service. Texts of errors from the Go library appear without the
  details the library adds.
\<close>

end
